(* ===== verification/Prelude.thy ===== *)
theory Prelude
  imports Complex_Main "HOL-Library.Word" "HOL-Library.Sublist" "HOL-Library.Char_ord"
    "HOL-Library.List_Lexorder" "HOL-Library.Product_Lexorder" "HOL-Library.Option_ord"
    "HOL-Library.Multiset"
begin

text \<open>
  Shared vocabulary of the development: the Go values the sources use (byte strings, time
  instants, durations, signed 64-bit integers), the parts of Go's standard library they call
  (\<open>strings\<close>, \<open>path\<close>, \<open>strconv\<close>, \<open>sort\<close>), and the generic lemmas on lists and folds that the
  component theories share.
\<close>

section \<open>Types and collections\<close>

text \<open>
  A Go \<open>string\<close> is a list of bytes; \<open>time.Time\<close> is the number of nanoseconds since the Unix
  epoch; \<open>time.Duration\<close> is a number of nanoseconds; \<open>int64\<close> payload values (sizes) are 64-bit
  words read as signed numbers; a pointer that may be nil is an option.
\<close>

type_synonym gotime = int
type_synonym duration = int
type_synonym int64 = "64 word"
type_synonym uuid = string

named_theorems go_defs "definitions of the Go library functions"
named_theorems kernel_simps "simplification rules of the kernel components"
named_theorems store_simps "simplification rules of the store components"

section \<open>Time\<close>

text \<open>\<open>Time.IsZero\<close>: January 1, year 1, 00:00:00 UTC.\<close>

definition zero_time :: gotime where
  [go_defs]: "zero_time = - 62135596800000000000"

text \<open>\<open>Time.Sub\<close> saturates at the limits of \<open>Duration\<close>.\<close>

definition time_sub :: "gotime \<Rightarrow> gotime \<Rightarrow> duration" where
  "time_sub a b = max (- (2 ^ 63)) (min (2 ^ 63 - 1) (a - b))"

text \<open>\<open>Time.Truncate(time.Microsecond)\<close>, in microseconds.\<close>

definition trunc_us :: "gotime \<Rightarrow> int" where
  [go_defs]: "trunc_us t = t div 1000"

definition second :: duration where
  [go_defs]: "second = 1000000000"

definition millisecond :: duration where
  [go_defs]: "millisecond = 1000000"

definition minute :: duration where
  [go_defs]: "minute = 60000000000"

definition hour :: duration where
  [go_defs]: "hour = 3600000000000"

lemma time_sub_le_iff:
  "h < 2 ^ 63 - 1 \<Longrightarrow> - (2 ^ 63) \<le> h \<Longrightarrow> time_sub a b \<le> h \<longleftrightarrow> a - b \<le> h"
  by (auto simp: time_sub_def)

section \<open>Strings\<close>

abbreviation nul :: char where "nul \<equiv> CHR 0x00"
abbreviation backslash :: char where "backslash \<equiv> CHR 0x5C"
abbreviation newline :: char where "newline \<equiv> CHR 0x0A"

definition deref :: "string option \<Rightarrow> string" where
  "deref s = (case s of None \<Rightarrow> [] | Some v \<Rightarrow> v)"

lemma deref_simps [simp]: "deref None = []" "deref (Some v) = v"
  by (simp_all add: deref_def)

text \<open>\<open>strings.HasPrefix\<close>, \<open>strings.HasSuffix\<close>, \<open>strings.TrimSuffix\<close> and \<open>strings.TrimPrefix\<close>.\<close>

definition has_prefix :: "string \<Rightarrow> string \<Rightarrow> bool" where
  [go_defs]: "has_prefix s p = prefix p s"

definition has_suffix :: "string \<Rightarrow> string \<Rightarrow> bool" where
  [go_defs]: "has_suffix s p = suffix p s"

definition trim_suffix :: "string \<Rightarrow> string \<Rightarrow> string" where
  "trim_suffix s p = (if suffix p s then take (length s - length p) s else s)"

definition trim_prefix :: "string \<Rightarrow> string \<Rightarrow> string" where
  "trim_prefix s p = (if prefix p s then drop (length p) s else s)"

text \<open>\<open>strings.ContainsAny\<close> (for single-byte sets) and \<open>strings.Trim(s, c)\<close>.\<close>

definition contains_any :: "string \<Rightarrow> string \<Rightarrow> bool" where
  "contains_any s cs = list_ex (\<lambda>c. List.member cs c) s"

definition trim_char :: "char \<Rightarrow> string \<Rightarrow> string" where
  "trim_char c s = rev (dropWhile ((=) c) (rev (dropWhile ((=) c) s)))"

text \<open>\<open>strings.TrimSpace\<close> for the white space of ASCII.\<close>

definition is_space :: "char \<Rightarrow> bool" where
  "is_space c \<longleftrightarrow> c \<in> {CHR '' '', CHR 0x09, CHR 0x0A, CHR 0x0B, CHR 0x0C, CHR 0x0D}"

definition trim_space :: "string \<Rightarrow> string" where
  "trim_space s = rev (dropWhile is_space (rev (dropWhile is_space s)))"

text \<open>\<open>strings.Split\<close> on a one-byte separator, and \<open>strings.Join\<close>.\<close>

fun split_on :: "char \<Rightarrow> string \<Rightarrow> string list" where
  "split_on c [] = [[]]"
| "split_on c (x # xs) =
     (if x = c then [] # split_on c xs
      else (case split_on c xs of [] \<Rightarrow> [[x]] | y # ys \<Rightarrow> (x # y) # ys))"

fun join_with :: "string \<Rightarrow> string list \<Rightarrow> string" where
  "join_with sep [] = []"
| "join_with sep [x] = x"
| "join_with sep (x # y # ys) = x @ sep @ join_with sep (y # ys)"

lemma split_on_nonempty [simp]: "split_on c s \<noteq> []"
  by (induction s) (auto split: list.splits)

lemma join_split [simp]: "join_with [c] (split_on c s) = s"
proof (induction s)
  case (Cons x xs)
  then show ?case
    by (cases "split_on c xs"; cases "tl (split_on c xs)") (auto split: list.splits)
qed simp

lemma split_on_no_sep: "seg \<in> set (split_on c s) \<Longrightarrow> c \<notin> set seg"
  by (induction s arbitrary: seg) (auto split: list.splits if_splits)

text \<open>Two keys built as \<open>a + "\\x00" + b\<close> agree only if their parts do, when the parts to
  the left hold no NUL byte.\<close>

lemma sep_key_inj:
  assumes "c \<notin> set a" and "c \<notin> set a'"
  shows "a @ c # b = a' @ c # b' \<longleftrightarrow> a = a' \<and> b = b'"
  using assms
proof (induction a arbitrary: a')
  case Nil
  then show ?case by (cases a') auto
next
  case (Cons x xs)
  then show ?case by (cases a') auto
qed

section \<open>The \<open>path\<close> package\<close>

text \<open>
  \<open>path.Clean\<close> keeps a stack of elements: empty and \<open>.\<close> elements are dropped, \<open>..\<close> removes the
  element before it, and at the root of a rooted path it is dropped.
\<close>

fun clean_step :: "bool \<Rightarrow> string list \<Rightarrow> string \<Rightarrow> string list" where
  "clean_step rooted stack seg =
     (if seg = [] \<or> seg = ''.'' then stack
      else if seg = ''..'' then
        (case stack of
           x # rest \<Rightarrow> if x \<noteq> ''..'' then rest else if rooted then stack else seg # stack
         | [] \<Rightarrow> if rooted then [] else [seg])
      else seg # stack)"

definition path_clean :: "string \<Rightarrow> string" where
  "path_clean p =
     (if p = [] then ''.''
      else
        let rooted = (hd p = CHR ''/'');
            stack = foldl (clean_step rooted) [] (split_on CHR ''/'' p)
        in if stack = [] then (if rooted then ''/'' else ''.'')
           else (if rooted then ''/'' else []) @ join_with ''/'' (rev stack))"

text \<open>\<open>path.Split\<close> cuts after the final slash; \<open>path.Dir\<close> cleans the left part.\<close>

definition path_split_dir :: "string \<Rightarrow> string" where
  "path_split_dir p = rev (dropWhile ((\<noteq>) CHR ''/'') (rev p))"

definition path_dir :: "string \<Rightarrow> string" where
  "path_dir p = path_clean (path_split_dir p)"

definition path_base :: "string \<Rightarrow> string" where
  "path_base p =
     (if p = [] then ''.''
      else let q = rev (dropWhile ((=) CHR ''/'') (rev p));
               b = rev (takeWhile ((\<noteq>) CHR ''/'') (rev q))
           in if b = [] then ''/'' else b)"

text \<open>\<open>path.Join\<close> of non-empty elements.\<close>

definition path_join :: "string list \<Rightarrow> string" where
  "path_join ps =
     (let qs = filter (\<lambda>p. p \<noteq> []) ps
      in if qs = [] then [] else path_clean (join_with ''/'' qs))"

section \<open>Decimal numbers\<close>

text \<open>\<open>strconv.FormatInt(z, 10)\<close>.\<close>

fun dec_digits :: "nat \<Rightarrow> string" where
  "dec_digits n =
     (if n < 10 then [char_of (48 + n)] else dec_digits (n div 10) @ [char_of (48 + n mod 10)])"

declare dec_digits.simps [simp del]

definition format_int :: "int \<Rightarrow> string" where
  "format_int z = (if z < 0 then CHR ''-'' # dec_digits (nat (- z)) else dec_digits (nat z))"

text \<open>The value a digit string denotes, the left inverse of \<open>dec_digits\<close>.\<close>

definition dec_value :: "string \<Rightarrow> nat" where
  "dec_value s = foldl (\<lambda>v c. 10 * v + (of_char c - 48)) 0 s"

lemma dec_value_snoc: "dec_value (s @ [c]) = 10 * dec_value s + (of_char c - 48)"
  by (simp add: dec_value_def)

lemma of_char_digit: "d < 10 \<Longrightarrow> of_char (char_of (48 + d) :: char) = (48 + d :: nat)"
  by simp

lemma dec_value_digits [simp]: "dec_value (dec_digits n) = n"
proof (induction n rule: dec_digits.induct)
  case (1 n)
  show ?case
  proof (cases "n < 10")
    case True
    then show ?thesis by (simp add: dec_digits.simps [of n] dec_value_def)
  next
    case False
    with 1 show ?thesis
      by (simp add: dec_digits.simps [of n] dec_value_snoc)
  qed
qed

lemma dec_digits_inj [simp]: "dec_digits m = dec_digits n \<longleftrightarrow> m = n"
  by (metis dec_value_digits)

lemma dec_digits_set: "c \<in> set (dec_digits n) \<Longrightarrow> c \<noteq> CHR ''-''"
proof (induction n rule: dec_digits.induct)
  case (1 n)
  have digit: "char_of (48 + d) \<noteq> CHR ''-''" if "d < 10" for d :: nat
  proof
    assume "char_of (48 + d) = CHR ''-''"
    then have "of_char (char_of (48 + d) :: char) = (of_char (CHR ''-'') :: nat)" by simp
    with that show False by simp
  qed
  show ?case
  proof (cases "n < 10")
    case True
    with 1 digit show ?thesis by (auto simp: dec_digits.simps [of n])
  next
    case False
    with 1 digit [of "n mod 10"] show ?thesis by (auto simp: dec_digits.simps [of n])
  qed
qed

lemma dec_digits_nonempty [simp]: "dec_digits n \<noteq> []"
  by (simp add: dec_digits.simps [of n])

lemma format_int_inj [simp]: "format_int a = format_int b \<longleftrightarrow> a = b"
proof -
  have neq: "CHR ''-'' # s \<noteq> dec_digits n" for s n
    using dec_digits_set [of "CHR ''-''" n] by (metis list.set_intros(1))
  show ?thesis
    using neq neq [symmetric] by (auto simp: format_int_def)
qed

section \<open>The \<open>sort\<close> package\<close>

text \<open>
  \<open>sort.SliceStable\<close> with a \<open>less\<close> function: an element moves left past the elements it is
  \<open>less\<close> than and no further, so elements that are not ordered keep their order. Where \<open>less\<close> is a
  total order \<open>sort.Slice\<close> and \<open>sort.Strings\<close> have the same result, since only one list is sorted.
\<close>

fun insert_by :: "('a \<Rightarrow> 'a \<Rightarrow> bool) \<Rightarrow> 'a \<Rightarrow> 'a list \<Rightarrow> 'a list" where
  "insert_by lt e [] = [e]"
| "insert_by lt e (x # xs) = (if lt x e then x # insert_by lt e xs else e # x # xs)"

definition sort_by :: "('a \<Rightarrow> 'a \<Rightarrow> bool) \<Rightarrow> 'a list \<Rightarrow> 'a list" where
  "sort_by lt xs = foldr (insert_by lt) xs []"

definition sorted_by :: "('a \<Rightarrow> 'a \<Rightarrow> bool) \<Rightarrow> 'a list \<Rightarrow> bool" where
  "sorted_by lt = sorted_wrt (\<lambda>a b. \<not> lt b a)"

lemma sort_by_simps [simp]:
  "sort_by lt [] = []" "sort_by lt (x # xs) = insert_by lt x (sort_by lt xs)"
  by (simp_all add: sort_by_def)

lemma mset_insert_by [simp]: "mset (insert_by lt e xs) = add_mset e (mset xs)"
  by (induction xs) auto

lemma set_insert_by [simp]: "set (insert_by lt e xs) = insert e (set xs)"
  by (induction xs) auto

lemma mset_sort_by [simp]: "mset (sort_by lt xs) = mset xs"
  by (induction xs) auto

lemma set_sort_by [simp]: "set (sort_by lt xs) = set xs"
  by (induction xs) auto

lemma length_sort_by [simp]: "length (sort_by lt xs) = length xs"
  by (metis mset_sort_by size_mset)

lemma distinct_sort_by [simp]: "distinct (sort_by lt xs) \<longleftrightarrow> distinct xs"
  by (simp add: distinct_count_atmost_1)

text \<open>What a comparison function must satisfy for the sort to be meaningful.\<close>

locale weak_order =
  fixes lt :: "'a \<Rightarrow> 'a \<Rightarrow> bool"
  assumes asym: "lt a b \<Longrightarrow> \<not> lt b a"
    and negtrans: "\<not> lt b a \<Longrightarrow> \<not> lt c b \<Longrightarrow> \<not> lt c a"
begin

lemma sorted_insert: "sorted_by lt xs \<Longrightarrow> sorted_by lt (insert_by lt e xs)"
proof (induction xs)
  case (Cons x xs)
  then show ?case by (auto simp: sorted_by_def dest: asym negtrans)
qed (simp add: sorted_by_def)

lemma sorted_sort: "sorted_by lt (sort_by lt xs)"
  by (induction xs) (auto simp: sorted_insert, simp add: sorted_by_def)

definition tied :: "'a \<Rightarrow> 'a \<Rightarrow> bool" where
  "tied a b \<longleftrightarrow> \<not> lt a b \<and> \<not> lt b a"

lemma tied_less: "lt x e \<Longrightarrow> tied k x \<Longrightarrow> \<not> tied k e"
  unfolding tied_def by (meson asym negtrans)

lemma filter_insert:
  "filter (tied k) (insert_by lt e xs) =
     (if tied k e then e # filter (tied k) xs else filter (tied k) xs)"
  by (induction xs) (auto dest: tied_less)

lemma stable_sort: "filter (tied k) (sort_by lt xs) = filter (tied k) xs"
  by (induction xs) (auto simp: filter_insert)

end

text \<open>A comparison given by a key into a linear order; with an injective key the sorted list is
  determined by the multiset of elements.\<close>

locale key_order =
  fixes lt :: "'a \<Rightarrow> 'a \<Rightarrow> bool" and key :: "'a \<Rightarrow> 'k::linorder"
  assumes less_iff: "lt a b \<longleftrightarrow> key a < key b"

sublocale key_order \<subseteq> weak_order lt
  by unfold_locales (auto simp: less_iff)

locale total_key_order = key_order +
  assumes key_inj: "key a = key b \<Longrightarrow> a = b"
begin

lemma sorted_unique:
  assumes "mset xs = mset ys"
  shows "sort_by lt xs = sort_by lt ys"
proof -
  have "sorted (map key (sort_by lt zs))" for zs
    using sorted_sort [of zs] by (simp add: sorted_by_def sorted_map less_iff not_less)
  moreover have "mset (map key (sort_by lt xs)) = mset (map key (sort_by lt ys))"
    using assms by (simp add: mset_map)
  ultimately have "map key (sort_by lt xs) = map key (sort_by lt ys)"
    by (metis properties_for_sort)
  then show ?thesis
    by (rule inj_on_map_eq_map [THEN iffD1, rotated]) (auto intro: inj_onI key_inj)
qed

end

text \<open>\<open>sort.Strings\<close>.\<close>

definition sort_strings :: "string list \<Rightarrow> string list" where
  "sort_strings = sort_by (<)"

interpretation string_order: total_key_order "(<) :: string \<Rightarrow> string \<Rightarrow> bool" "\<lambda>s. s"
  by unfold_locales auto

lemma sort_strings_mset: "mset xs = mset ys \<Longrightarrow> sort_strings xs = sort_strings ys"
  unfolding sort_strings_def by (rule string_order.sorted_unique)

text \<open>One step of a lexicographic comparison.\<close>

lemma pair_less_step:
  "((x::'a::linorder), (r::'b::linorder)) < (y, r') \<longleftrightarrow> (if x \<noteq> y then x < y else r < r')"
  by auto

section \<open>Sums\<close>

lemma map_sum_Inr: "map_sum g f r = Inr y \<longleftrightarrow> (\<exists>x. r = Inr x \<and> y = f x)"
  by (cases r) auto

section \<open>Folds\<close>

text \<open>A loop over a slice is a left fold; what every iteration keeps, the loop keeps.\<close>

lemma foldl_invariant:
  assumes "P s" and "\<And>s x. x \<in> set xs \<Longrightarrow> P s \<Longrightarrow> P (f s x)"
  shows "P (foldl f s xs)"
  using assms by (induction xs arbitrary: s) auto

end
