(* ===== verification/Domain.thy ===== *)
theory Domain
  imports Prelude
begin

text \<open>
  The domain layer (\<open>internal/domain\<close>): the enumerations, the entities that mirror the store's
  tables T1 to T11, the four-part snapshot identity and the directory coverage claim. A Go string
  enumeration is a datatype of its declared constants; where code treats the empty string as a
  value of its own (the zero value of the type), the datatype has a constructor for it. The
  \<open>_str\<close> functions give the constant's text, which the digests and the ordering code use.
\<close>

section \<open>Enumerations\<close>

datatype ResourcePresence = ResourcePresent | ResourceRemoved

datatype RemovalEvidenceState =
    RemovalEvidenceNone
  | RemovalEvidenceMissingConfirmedByComplete
  | RemovalEvidenceCandidate

fun removal_state_str :: "RemovalEvidenceState \<Rightarrow> string" where
  "removal_state_str RemovalEvidenceNone = ''NONE''"
| "removal_state_str RemovalEvidenceMissingConfirmedByComplete =
     ''MISSING_CONFIRMED_BY_COMPLETE_SNAPSHOT''"
| "removal_state_str RemovalEvidenceCandidate = ''REMOVAL_CANDIDATE''"

datatype RootLifecycleState = RootNew | RootActive | RootDeprecated | RootDeleted

fun CanTransitionTo :: "RootLifecycleState \<Rightarrow> RootLifecycleState \<Rightarrow> bool" where
  "CanTransitionTo RootNew next_state \<longleftrightarrow> next_state = RootActive"
| "CanTransitionTo RootActive next_state \<longleftrightarrow>
     next_state = RootDeprecated \<or> next_state = RootDeleted"
| "CanTransitionTo RootDeprecated next_state \<longleftrightarrow> next_state = RootDeleted"
| "CanTransitionTo RootDeleted next_state \<longleftrightarrow> False"

datatype SnapshotLifecycleState =
    SnapshotDraft | SnapshotSubmitted | SnapshotEvaluated
  | SnapshotReconciled | SnapshotRejected | SnapshotRetired

datatype AcceptanceState =
    AcceptanceComplete | AcceptancePartial | AcceptanceFailed
  | AcceptanceStale | AcceptanceSuspicious

datatype TraversalStatus =
    TraversalSuccess | TraversalPartial | TraversalFailed | TraversalInterrupted

fun traversal_str :: "TraversalStatus \<Rightarrow> string" where
  "traversal_str TraversalSuccess = ''SUCCESS''"
| "traversal_str TraversalPartial = ''PARTIAL''"
| "traversal_str TraversalFailed = ''FAILED''"
| "traversal_str TraversalInterrupted = ''INTERRUPTED''"

fun IsSourceFailure :: "TraversalStatus \<Rightarrow> bool" where
  "IsSourceFailure t \<longleftrightarrow> t = TraversalFailed \<or> t = TraversalInterrupted"

datatype FreshnessEvidence =
    FreshDirect | FreshRefreshed | CachedFresh | FreshnessStale | FreshnessUnknown
  | FreshnessEmpty

fun freshness_str :: "FreshnessEvidence \<Rightarrow> string" where
  "freshness_str FreshDirect = ''FRESH_DIRECT''"
| "freshness_str FreshRefreshed = ''FRESH_REFRESHED''"
| "freshness_str CachedFresh = ''CACHED_FRESH''"
| "freshness_str FreshnessStale = ''STALE''"
| "freshness_str FreshnessUnknown = ''UNKNOWN''"
| "freshness_str FreshnessEmpty = []"

datatype FailureVisibility =
    StrongFailureVisibility | WeakFailureVisibility | UnknownFailureVisibility
  | FailureVisibilityEmpty

fun visibility_str :: "FailureVisibility \<Rightarrow> string" where
  "visibility_str StrongFailureVisibility = ''STRONG_FAILURE_VISIBILITY''"
| "visibility_str WeakFailureVisibility = ''WEAK_FAILURE_VISIBILITY''"
| "visibility_str UnknownFailureVisibility = ''UNKNOWN_FAILURE_VISIBILITY''"
| "visibility_str FailureVisibilityEmpty = []"

datatype SnapshotIdentityKind = IdentityRevisionToken | IdentityDeterministicDigest

datatype EventType =
    EventResourceAdded | EventResourceUpdated | EventResourceRenamed | EventResourceMoved
  | EventResourceRemoved | EventRootDeprecated | EventRootDeleted

datatype AdmissionStatus =
    AdmissionPending | AdmissionApplied | AdmissionNoop | AdmissionRejected
  | AdmissionStaleInput | AdmissionFailed

definition IsTerminal :: "AdmissionStatus \<Rightarrow> bool" where
  "IsTerminal s \<longleftrightarrow> s \<noteq> AdmissionPending"

datatype ReconcileOutcomeKind =
    ReconcileReconciled | ReconcileNoop | ReconcileRejected | ReconcileStaleInput
  | ReconcileFailed

datatype ProviderIdentityAssurance =
    IdentityStableWithinScope | IdentityUnverified | IdentityUnstable | IdentityUnavailable

fun assurance_str :: "ProviderIdentityAssurance \<Rightarrow> string" where
  "assurance_str IdentityStableWithinScope = ''STABLE_WITHIN_SCOPE''"
| "assurance_str IdentityUnverified = ''UNVERIFIED''"
| "assurance_str IdentityUnstable = ''UNSTABLE''"
| "assurance_str IdentityUnavailable = ''UNAVAILABLE''"

datatype ScopeShrinkCorroboration =
    ShrinkNone | ShrinkCorroborated | ShrinkContradicted | ShrinkEmpty

fun corroboration_str :: "ScopeShrinkCorroboration \<Rightarrow> string" where
  "corroboration_str ShrinkNone = ''NONE''"
| "corroboration_str ShrinkCorroborated = ''CORROBORATED''"
| "corroboration_str ShrinkContradicted = ''CONTRADICTED''"
| "corroboration_str ShrinkEmpty = []"

datatype CompletenessFlag = CompletenessFlagComplete | CompletenessFlagPartial

section \<open>Entities\<close>

text \<open>
  The records carry the columns that the program reads or decides on. Columns that only the
  database clock fills and no code reads back (\<open>created_at\<close>, \<open>updated_at\<close>, \<open>admitted_at\<close>,
  \<open>produced_at\<close>, \<open>applied_at\<close>, \<open>committed_at\<close>), the surrogate keys the database generates
  (\<open>event_id\<close>, \<open>reconcile_id\<close>; an observation's id is its position in the append-only table) and
  the generation's opaque \<open>summary\<close> JSON are left out. A journal event's payload is the object
  with the single member \<open>reason\<close>, kept as that string.
\<close>

record ResourceRoot =
  root_RootID :: uuid
  root_ScopeDescriptor :: string
  root_OwningCollectorRef :: "string option"
  root_LifecycleState :: RootLifecycleState
  root_CurrentGeneration :: int
  root_LatestAdmissionSeq :: int

record Generation =
  gen_RootID :: uuid
  gen_GenerationNumber :: int
  gen_ProducedBySnapshotID :: "uuid option"
  gen_ProducedByAdmissionSeq :: "int option"

record CanonicalResource =
  ResourceID :: uuid
  RootID :: uuid
  IntroducedAtGeneration :: int
  LastConfirmedGeneration :: int
  Presence :: ResourcePresence
  EvidenceState :: RemovalEvidenceState
  MissingSince :: "gotime option"
  ConsecutiveCompleteMissing :: int
  MissingFirstSnapshotID :: "uuid option"
  MissingLastSnapshotID :: "uuid option"
  CanonicalPath :: "string option"
  ParentResourceID :: "uuid option"
  Name :: "string option"
  IsDir :: "bool option"
  Size :: "int64 option"
  Mtime :: "gotime option"
  ContentHash :: "string option"
  HashAlgorithm :: "string option"
  ContentType :: "string option"
  CurrentAttributes :: string

record SnapshotEntry =
  se_SnapshotID :: uuid
  se_EntryLocalID :: string
  se_Name :: string
  se_ParentRef :: string
  se_IsDir :: bool
  se_Size :: "int64 option"
  se_Mtime :: "gotime option"
  se_ContentHash :: "string option"
  se_HashAlgorithm :: "string option"
  se_ProviderObjectID :: "string option"
  se_ProviderObjectIDScope :: "string option"
  se_ContentType :: "string option"
  se_ProviderIdentityAssurance :: "ProviderIdentityAssurance option"
  se_ExtraEvidence :: "string option"

record IdentityEvidenceObservation =
  ob_ResourceID :: uuid
  ob_SnapshotID :: uuid
  ob_SourceRef :: "string option"
  ob_ObservedAt :: gotime
  ob_ProviderObjectID :: "string option"
  ob_ProviderObjectIDScope :: "string option"
  ob_ProviderIdentityAssurance :: ProviderIdentityAssurance
  ob_ContentHash :: "string option"
  ob_HashAlgorithm :: "string option"
  ob_ObservedPath :: "string option"
  ob_ObservedParentRef :: "string option"
  ob_Size :: "int64 option"
  ob_Mtime :: "gotime option"
  ob_IsDir :: bool
  ob_ExtraEvidence :: "string option"

record Admission =
  adm_RootID :: uuid
  adm_AdmissionSeq :: int
  adm_SnapshotID :: uuid
  adm_Status :: AdmissionStatus
  adm_AppliedGeneration :: "int option"
  adm_ClaimedBy :: "string option"
  adm_ClaimedAt :: "gotime option"
  adm_LeaseExpiresAt :: "gotime option"

record JournalEvent =
  ev_RootID :: uuid
  ev_EventSeq :: int
  ev_GenerationNumber :: int
  ev_IntraGenerationSeq :: int
  ev_EventType :: EventType
  ev_ResourceID :: "uuid option"
  ev_Reason :: string

record ReconcileResultRow =
  rr_RootID :: uuid
  rr_AdmissionSeq :: int
  rr_GenerationNumber :: "int option"
  rr_Outcome :: ReconcileOutcomeKind
  rr_RejectionReason :: "string option"

section \<open>Snapshot identity and directory coverage\<close>

record SnapshotIdentity =
  id_Kind :: SnapshotIdentityKind
  id_Namespace :: string
  id_Version :: string
  id_Value :: string

definition identity_Equal :: "SnapshotIdentity \<Rightarrow> SnapshotIdentity \<Rightarrow> bool" where
  "identity_Equal i other \<longleftrightarrow>
     id_Kind i = id_Kind other \<and> id_Namespace i = id_Namespace other \<and>
     id_Version i = id_Version other \<and> id_Value i = id_Value other"

record AppliedSnapshot =
  ap_RootID :: uuid
  ap_Identity :: SnapshotIdentity
  ap_SnapshotID :: uuid
  ap_AppliedGeneration :: int
  ap_AppliedAdmissionSeq :: int

record DirectoryCoverage =
  dc_Version :: int
  dc_Path :: string
  dc_Generation :: int
  dc_AdapterDigest :: string
  dc_EntryCount :: int
  dc_TopologyDigest :: string

section \<open>Basic facts\<close>

lemma identity_Equal_eq [simp]: "identity_Equal i j \<longleftrightarrow> i = j"
  by (cases i; cases j) (auto simp: identity_Equal_def)

text \<open>Every enumeration's text determines the constant, so a comparison of texts (in SQL or in a
  digest) is a comparison of constants.\<close>

lemma removal_state_str_inj [simp]: "removal_state_str a = removal_state_str b \<longleftrightarrow> a = b"
  by (cases a; cases b) simp_all

lemma traversal_str_inj [simp]: "traversal_str a = traversal_str b \<longleftrightarrow> a = b"
  by (cases a; cases b) simp_all

lemma freshness_str_inj [simp]: "freshness_str a = freshness_str b \<longleftrightarrow> a = b"
  by (cases a; cases b) simp_all

lemma visibility_str_inj [simp]: "visibility_str a = visibility_str b \<longleftrightarrow> a = b"
  by (cases a; cases b) simp_all

lemma assurance_str_inj [simp]: "assurance_str a = assurance_str b \<longleftrightarrow> a = b"
  by (cases a; cases b) simp_all

lemma corroboration_str_inj [simp]: "corroboration_str a = corroboration_str b \<longleftrightarrow> a = b"
  by (cases a; cases b) simp_all

text \<open>The root lifecycle only moves forward: a rank strictly increases along every transition, so
  no sequence of transitions returns to a state it left.\<close>

fun lifecycle_rank :: "RootLifecycleState \<Rightarrow> nat" where
  "lifecycle_rank RootNew = 0"
| "lifecycle_rank RootActive = 1"
| "lifecycle_rank RootDeprecated = 2"
| "lifecycle_rank RootDeleted = 3"

lemma transition_rank: "CanTransitionTo s t \<Longrightarrow> lifecycle_rank s < lifecycle_rank t"
  by (cases s; cases t) auto

inductive lifecycle_path :: "RootLifecycleState \<Rightarrow> RootLifecycleState \<Rightarrow> bool" where
  lp_refl: "lifecycle_path s s"
| lp_step: "lifecycle_path s t \<Longrightarrow> CanTransitionTo t u \<Longrightarrow> lifecycle_path s u"

lemma lifecycle_path_rank: "lifecycle_path s t \<Longrightarrow> s \<noteq> t \<Longrightarrow> lifecycle_rank s < lifecycle_rank t"
proof (induction rule: lifecycle_path.induct)
  case (lp_step s t u)
  then show ?case using transition_rank [of t u] by (cases "s = t") auto
qed simp

lemma lifecycle_path_deleted: "lifecycle_path s t \<Longrightarrow> s = RootDeleted \<Longrightarrow> t = RootDeleted"
  by (induction rule: lifecycle_path.induct) auto

end
