(* ===== verification/Resolve.thy ===== *)
theory Resolve
  imports Domain
begin

text \<open>
  Reconcile configuration and stable identity resolution (\<open>internal/kernel/reconcile/types.go\<close> and
  \<open>identity.go\<close>): the per-root policy and its validation, the prior inventory enriched with
  identity evidence, the indexes over it and over the observed entries, and the resolution rules
  R1 to R10 that match an observed entry with a canonical resource.
\<close>

section \<open>Configuration\<close>

text \<open>\<open>NewID\<close> gives the identifiers that successive calls of the generator return.\<close>

record Config =
  RemovalGracePeriod :: duration
  MoveRecognitionHorizon :: duration
  MinConsecutiveCompleteMissing :: int
  MinIndependentConfirmations :: int
  NewID :: "nat \<Rightarrow> uuid"

datatype config_error =
    ErrUnsupportedMinIndependent
  | ErrGraceBelowHorizon duration duration

definition Validate :: "Config \<Rightarrow> config_error + unit" where
  "Validate c =
     (if MinIndependentConfirmations c > 1 then Inl ErrUnsupportedMinIndependent
      else if MoveRecognitionHorizon c > 0 \<and> RemovalGracePeriod c < MoveRecognitionHorizon c
      then Inl (ErrGraceBelowHorizon (RemovalGracePeriod c) (MoveRecognitionHorizon c))
      else Inr ())"

definition minConsecutive :: "Config \<Rightarrow> int" where
  "minConsecutive c =
     (if MinConsecutiveCompleteMissing c < 1 then 1 else MinConsecutiveCompleteMissing c)"

definition effectiveGrace :: "Config \<Rightarrow> duration" where
  "effectiveGrace c =
     (if MoveRecognitionHorizon c > RemovalGracePeriod c then MoveRecognitionHorizon c
      else RemovalGracePeriod c)"

text \<open>The canonical resource embedded in Go is the record that this one extends.\<close>

record PriorResource = CanonicalResource +
  ProviderObjectID :: "string option"
  ProviderObjectIDScope :: "string option"
  ProviderIDAssurance :: ProviderIdentityAssurance

definition isRemoved :: "PriorResource \<Rightarrow> bool" where
  "isRemoved p \<longleftrightarrow> Presence p = ResourceRemoved"

definition isPresent :: "PriorResource \<Rightarrow> bool" where
  "isPresent p \<longleftrightarrow> Presence p = ResourcePresent"

definition hasMissingEvidence :: "PriorResource \<Rightarrow> bool" where
  "hasMissingEvidence p \<longleftrightarrow> isPresent p \<and> EvidenceState p \<noteq> RemovalEvidenceNone"

definition canonicalPath :: "PriorResource \<Rightarrow> string" where
  "canonicalPath p = deref (CanonicalPath p)"

section \<open>Comparisons\<close>

definition withinMoveHorizon :: "PriorResource \<Rightarrow> Config \<Rightarrow> gotime \<Rightarrow> bool" where
  "withinMoveHorizon p cfg now =
     (case MissingSince p of
        None \<Rightarrow> False
      | Some ms \<Rightarrow>
          MoveRecognitionHorizon cfg > 0 \<and> time_sub now ms \<le> MoveRecognitionHorizon cfg)"

text \<open>A string pointer that is set and not empty.\<close>

definition nonempty :: "string option \<Rightarrow> bool" where
  "nonempty s \<longleftrightarrow> s \<noteq> None \<and> s \<noteq> Some []"

definition entryHashComparable :: "SnapshotEntry \<Rightarrow> bool" where
  "entryHashComparable e \<longleftrightarrow> nonempty (se_ContentHash e) \<and> nonempty (se_HashAlgorithm e)"

definition hashAgrees ::
  "string option \<Rightarrow> string option \<Rightarrow> string option \<Rightarrow> string option \<Rightarrow> bool" where
  "hashAgrees a b aAlg bAlg \<longleftrightarrow>
     nonempty a \<and> nonempty b \<and> a = b \<and> deref aAlg = deref bAlg"

definition EntryPath :: "SnapshotEntry \<Rightarrow> string" where
  "EntryPath e =
     (if se_ParentRef e = [] \<or> se_ParentRef e = ''/'' then CHR ''/'' # se_Name e
      else trim_suffix (se_ParentRef e) ''/'' @ CHR ''/'' # se_Name e)"

definition equalInt64 :: "int64 option \<Rightarrow> int64 option \<Rightarrow> bool" where
  "equalInt64 a b \<longleftrightarrow> a \<noteq> None \<and> b \<noteq> None \<and> a = b"

definition equalTimePtr :: "gotime option \<Rightarrow> gotime option \<Rightarrow> bool" where
  "equalTimePtr a b =
     (case (a, b) of (Some x, Some y) \<Rightarrow> trunc_us x = trunc_us y | _ \<Rightarrow> False)"

section \<open>Indexes\<close>

text \<open>A Go map of slices is a function that yields the empty list for a missing key.\<close>

record PriorIndex =
  presentByProvider :: "string \<Rightarrow> PriorResource list"
  presentByHash :: "string \<Rightarrow> PriorResource list"
  presentByPath :: "string \<Rightarrow> PriorResource list"
  missingByHash :: "string \<Rightarrow> PriorResource list"
  missingBySize :: "string \<Rightarrow> PriorResource list"
  observedByHash :: "string \<Rightarrow> nat"
  observedPaths :: "string \<Rightarrow> nat"

definition empty_index :: PriorIndex where
  "empty_index =
     \<lparr>presentByProvider = (\<lambda>_. []), presentByHash = (\<lambda>_. []), presentByPath = (\<lambda>_. []),
      missingByHash = (\<lambda>_. []), missingBySize = (\<lambda>_. []),
      observedByHash = (\<lambda>_. 0), observedPaths = (\<lambda>_. 0)\<rparr>"

definition append_at :: "string \<Rightarrow> 'a \<Rightarrow> (string \<Rightarrow> 'a list) \<Rightarrow> (string \<Rightarrow> 'a list)" where
  "append_at k v m = m(k := m k @ [v])"

definition hash_key :: "string option \<Rightarrow> string option \<Rightarrow> string" where
  "hash_key alg h = deref alg @ nul # deref h"

definition provider_key :: "string option \<Rightarrow> string option \<Rightarrow> string" where
  "provider_key scope oid = deref scope @ nul # deref oid"

definition size_key :: "int64 option \<Rightarrow> string" where
  "size_key s = (case s of None \<Rightarrow> [] | Some v \<Rightarrow> format_int (sint v))"

definition providerStable :: "PriorResource \<Rightarrow> bool" where
  "providerStable p \<longleftrightarrow>
     ProviderIDAssurance p = IdentityStableWithinScope \<and>
     ProviderObjectID p \<noteq> None \<and> ProviderObjectIDScope p \<noteq> None"

definition index_prior :: "PriorIndex \<Rightarrow> PriorResource \<Rightarrow> PriorIndex" where
  "index_prior ix p =
     (if isRemoved p then ix
      else if isPresent p then
        let ix1 = (if providerStable p
                   then ix\<lparr>presentByProvider :=
                          append_at (provider_key (ProviderObjectIDScope p) (ProviderObjectID p)) p
                            (presentByProvider ix)\<rparr>
                   else ix);
            ix2 = (if nonempty (ContentHash p)
                   then ix1\<lparr>presentByHash :=
                          append_at (hash_key (HashAlgorithm p) (ContentHash p)) p
                            (presentByHash ix1)\<rparr>
                   else ix1);
            ix3 = ix2\<lparr>presentByPath := append_at (canonicalPath p) p (presentByPath ix2)\<rparr>
        in if hasMissingEvidence p then
             let ix4 = (if nonempty (ContentHash p)
                        then ix3\<lparr>missingByHash :=
                               append_at (hash_key (HashAlgorithm p) (ContentHash p)) p
                                 (missingByHash ix3)\<rparr>
                        else ix3)
             in if Size p \<noteq> None
                then ix4\<lparr>missingBySize := append_at (size_key (Size p)) p (missingBySize ix4)\<rparr>
                else ix4
           else ix3
      else ix)"

definition BuildPriorIndex :: "PriorResource list \<Rightarrow> PriorIndex" where
  "BuildPriorIndex prior = foldl index_prior empty_index prior"

definition entry_hash_key :: "SnapshotEntry \<Rightarrow> string" where
  "entry_hash_key e = hash_key (se_HashAlgorithm e) (se_ContentHash e)"

definition observe_entry :: "PriorIndex \<Rightarrow> SnapshotEntry \<Rightarrow> PriorIndex" where
  "observe_entry ix e =
     (let ix1 = ix\<lparr>observedPaths := (observedPaths ix)(EntryPath e := observedPaths ix (EntryPath e) + 1)\<rparr>
      in if entryHashComparable e
         then ix1\<lparr>observedByHash :=
                (observedByHash ix1)(entry_hash_key e := observedByHash ix1 (entry_hash_key e) + 1)\<rparr>
         else ix1)"

definition indexObservation :: "PriorIndex \<Rightarrow> SnapshotEntry list \<Rightarrow> PriorIndex" where
  "indexObservation ix entries =
     foldl observe_entry (ix\<lparr>observedByHash := (\<lambda>_. 0), observedPaths := (\<lambda>_. 0)\<rparr>) entries"

section \<open>Resolution\<close>

datatype IdentityResolution =
    ResolutionMatched | ResolutionNewResource | ResolutionUnresolved | ResolutionConflict

type_synonym resolution = "IdentityResolution \<times> PriorResource option \<times> string"

definition entryStable :: "SnapshotEntry \<Rightarrow> bool" where
  "entryStable e \<longleftrightarrow>
     se_ProviderIdentityAssurance e = Some IdentityStableWithinScope \<and>
     se_ProviderObjectID e \<noteq> None \<and> se_ProviderObjectIDScope e \<noteq> None"

text \<open>R1 and R10. \<open>None\<close> means that the rule does not decide and the next one is tried.\<close>

definition resolve_provider :: "PriorIndex \<Rightarrow> SnapshotEntry \<Rightarrow> resolution option" where
  "resolve_provider ix e =
     (if \<not> entryStable e then None
      else case presentByProvider ix
             (provider_key (se_ProviderObjectIDScope e) (se_ProviderObjectID e)) of
        [m] \<Rightarrow> Some (ResolutionMatched, Some m, ''R1 provider_object_id'')
      | [] \<Rightarrow>
          if list_ex (\<lambda>p. ProviderObjectID p \<noteq> None \<and> ProviderObjectID p \<noteq> se_ProviderObjectID e)
               (presentByPath ix (EntryPath e))
          then Some (ResolutionUnresolved, None,
                 ''R10 provider_object_id changed at a continuous path'')
          else None
      | _ \<Rightarrow> Some (ResolutionConflict, None, ''R1 multiple provider_object_id matches''))"

text \<open>R3, R5 and R8 for an entry with a comparable hash.\<close>

definition resolve_hash_same_path ::
  "SnapshotEntry \<Rightarrow> PriorResource list \<Rightarrow> resolution option" where
  "resolve_hash_same_path e samePath =
     (case samePath of
        [c] \<Rightarrow>
          if hashAgrees (ContentHash c) (se_ContentHash e) (HashAlgorithm c) (se_HashAlgorithm e)
          then Some (ResolutionMatched, Some c, ''R3 same-path content_hash'')
          else if nonempty (ContentHash c)
          then Some (ResolutionNewResource, None, ''R8 imposter (different content_hash)'')
          else None
      | _ \<Rightarrow> None)"

definition resolve_hash_candidate ::
  "PriorIndex \<Rightarrow> SnapshotEntry \<Rightarrow> Config \<Rightarrow> gotime \<Rightarrow> PriorResource list \<Rightarrow> PriorResource \<Rightarrow> resolution"
  where
  "resolve_hash_candidate ix e cfg now samePath c =
     (if canonicalPath c = EntryPath e
      then (ResolutionMatched, Some c, ''R3 same-path content_hash'')
      else if hasMissingEvidence c then
        if observedByHash ix (entry_hash_key e) > 1 \<or> observedPaths ix (canonicalPath c) > 0
           \<or> samePath \<noteq> []
        then (ResolutionConflict, None, ''R3 ambiguous move observation'')
        else if withinMoveHorizon c cfg now
        then (ResolutionMatched, Some c, ''R3/R5 cross-path content_hash within horizon'')
        else (ResolutionUnresolved, None, ''R3 cross-path content_hash outside horizon'')
      else (ResolutionConflict, None, ''R3 ambiguous continuity''))"

definition resolve_hash ::
  "PriorIndex \<Rightarrow> SnapshotEntry \<Rightarrow> Config \<Rightarrow> gotime \<Rightarrow> PriorResource list \<Rightarrow> resolution option" where
  "resolve_hash ix e cfg now samePath =
     (case resolve_hash_same_path e samePath of
        Some r \<Rightarrow> Some r
      | None \<Rightarrow>
          let found = presentByHash ix (entry_hash_key e)
          in if found \<noteq> [] \<and> missingByHash ix (entry_hash_key e) = [] \<and> samePath = []
             then Some (ResolutionNewResource, None, ''R3 distinct live content copy'')
             else
               let candidates = (if found \<noteq> [] \<and> missingByHash ix (entry_hash_key e) = []
                              then [] else found)
               in case candidates of
                    [c] \<Rightarrow> Some (resolve_hash_candidate ix e cfg now samePath c)
                  | [] \<Rightarrow> None
                  | _ \<Rightarrow> Some (ResolutionConflict, None, ''R3 multiple content_hash matches''))"

text \<open>R4, and the hash-absent move candidates R5 and R7.\<close>

definition moved_candidates ::
  "PriorIndex \<Rightarrow> SnapshotEntry \<Rightarrow> Config \<Rightarrow> gotime \<Rightarrow> PriorResource list" where
  "moved_candidates ix e cfg now =
     (if se_Size e = None then []
      else filter (\<lambda>p. withinMoveHorizon p cfg now \<and> equalTimePtr (Mtime p) (se_Mtime e))
             (missingBySize ix (size_key (se_Size e))))"

definition resolve_path ::
  "PriorIndex \<Rightarrow> SnapshotEntry \<Rightarrow> Config \<Rightarrow> gotime \<Rightarrow> PriorResource list \<Rightarrow> resolution" where
  "resolve_path ix e cfg now samePath =
     (case samePath of
        [c] \<Rightarrow>
          let sizeMatches = equalInt64 (Size c) (se_Size e);
              hashesDiffer = (entryHashComparable e \<and> nonempty (ContentHash c) \<and>
                \<not> hashAgrees (ContentHash c) (se_ContentHash e) (HashAlgorithm c) (se_HashAlgorithm e));
              mtimeBothPresent = (Mtime c \<noteq> None \<and> se_Mtime e \<noteq> None)
          in if hashesDiffer
             then (ResolutionNewResource, None, ''R8 imposter (different content_hash)'')
             else if sizeMatches \<and> mtimeBothPresent \<and> equalTimePtr (Mtime c) (se_Mtime e)
             then (ResolutionMatched, Some c, ''R4 path+size+mtime'')
             else if sizeMatches \<and> mtimeBothPresent
             then (ResolutionUnresolved, None, ''R4/R8 same path+size, mtime differs'')
             else (ResolutionUnresolved, None, ''R4 insufficient (size mismatch or mtime absent)'')
      | [] \<Rightarrow>
          if entryHashComparable e
          then (ResolutionNewResource, None, ''no candidate -> new resource'')
          else (case moved_candidates ix e cfg now of
                  [p] \<Rightarrow> (ResolutionMatched, Some p,
                           ''R5 move (size+mtime within horizon, hash absent)'')
                | [] \<Rightarrow> (ResolutionNewResource, None, ''no candidate -> new resource'')
                | _ \<Rightarrow> (ResolutionConflict, None, ''R7 multiple moved candidates''))
      | _ \<Rightarrow> (ResolutionConflict, None, ''R4 multiple PRESENT rows at path''))"

definition resolve ::
  "PriorIndex \<Rightarrow> SnapshotEntry \<Rightarrow> Config \<Rightarrow> gotime \<Rightarrow> resolution" where
  "resolve ix e cfg now =
     (case resolve_provider ix e of
        Some r \<Rightarrow> r
      | None \<Rightarrow>
          let samePath = presentByPath ix (EntryPath e)
          in if length samePath > 1 \<or> observedPaths ix (EntryPath e) > 1
             then (ResolutionConflict, None, ''R4 multiple rows at path'')
             else case (if entryHashComparable e then resolve_hash ix e cfg now samePath else None) of
                    Some r \<Rightarrow> r
                  | None \<Rightarrow> resolve_path ix e cfg now samePath)"

section \<open>The indexes agree with a scan of the inventory\<close>

lemma isRemoved_iff [simp]: "isRemoved p \<longleftrightarrow> \<not> isPresent p"
  by (cases "Presence p") (simp_all add: isRemoved_def isPresent_def)

lemma hasMissingEvidence_present [simp]: "hasMissingEvidence p \<Longrightarrow> isPresent p"
  by (simp add: hasMissingEvidence_def)

lemma append_at_apply [simp]: "append_at k v m k' = (if k' = k then m k @ [v] else m k')"
  by (simp add: append_at_def)

lemma fold_index_prior:
  "presentByProvider (foldl index_prior ix prior) k =
     presentByProvider ix k @ filter (\<lambda>p. isPresent p \<and> providerStable p \<and>
        provider_key (ProviderObjectIDScope p) (ProviderObjectID p) = k) prior"
  "presentByHash (foldl index_prior ix prior) k =
     presentByHash ix k @ filter (\<lambda>p. isPresent p \<and> nonempty (ContentHash p) \<and>
        hash_key (HashAlgorithm p) (ContentHash p) = k) prior"
  "presentByPath (foldl index_prior ix prior) k =
     presentByPath ix k @ filter (\<lambda>p. isPresent p \<and> canonicalPath p = k) prior"
  "missingByHash (foldl index_prior ix prior) k =
     missingByHash ix k @ filter (\<lambda>p. hasMissingEvidence p \<and> nonempty (ContentHash p) \<and>
        hash_key (HashAlgorithm p) (ContentHash p) = k) prior"
  "missingBySize (foldl index_prior ix prior) k =
     missingBySize ix k @ filter (\<lambda>p. hasMissingEvidence p \<and> Size p \<noteq> None \<and>
        size_key (Size p) = k) prior"
  by (induction prior arbitrary: ix)
     (simp_all add: index_prior_def Let_def hasMissingEvidence_def)

lemma fold_observe_entry:
  "observedPaths (foldl observe_entry ix es) k =
     observedPaths ix k + length (filter (\<lambda>e. EntryPath e = k) es)"
  "observedByHash (foldl observe_entry ix es) k =
     observedByHash ix k + length (filter (\<lambda>e. entryHashComparable e \<and> entry_hash_key e = k) es)"
  "presentByProvider (foldl observe_entry ix es) = presentByProvider ix"
  "presentByHash (foldl observe_entry ix es) = presentByHash ix"
  "presentByPath (foldl observe_entry ix es) = presentByPath ix"
  "missingByHash (foldl observe_entry ix es) = missingByHash ix"
  "missingBySize (foldl observe_entry ix es) = missingBySize ix"
  by (induction es arbitrary: ix) (auto simp: observe_entry_def Let_def)

text \<open>The index one reconcile works with.\<close>

definition index_of :: "PriorResource list \<Rightarrow> SnapshotEntry list \<Rightarrow> PriorIndex" where
  "index_of prior entries = indexObservation (BuildPriorIndex prior) entries"

lemma index_of_simps [kernel_simps]:
  "presentByProvider (index_of prior es) k = filter (\<lambda>p. isPresent p \<and> providerStable p \<and>
     provider_key (ProviderObjectIDScope p) (ProviderObjectID p) = k) prior"
  "presentByHash (index_of prior es) k = filter (\<lambda>p. isPresent p \<and> nonempty (ContentHash p) \<and>
     hash_key (HashAlgorithm p) (ContentHash p) = k) prior"
  "presentByPath (index_of prior es) k = filter (\<lambda>p. isPresent p \<and> canonicalPath p = k) prior"
  "missingByHash (index_of prior es) k = filter (\<lambda>p. hasMissingEvidence p \<and>
     nonempty (ContentHash p) \<and> hash_key (HashAlgorithm p) (ContentHash p) = k) prior"
  "missingBySize (index_of prior es) k = filter (\<lambda>p. hasMissingEvidence p \<and> Size p \<noteq> None \<and>
     size_key (Size p) = k) prior"
  "observedPaths (index_of prior es) k = length (filter (\<lambda>e. EntryPath e = k) es)"
  "observedByHash (index_of prior es) k =
     length (filter (\<lambda>e. entryHashComparable e \<and> entry_hash_key e = k) es)"
  by (simp_all add: index_of_def indexObservation_def BuildPriorIndex_def fold_observe_entry
      fold_index_prior empty_index_def)

text \<open>The map keys compare what they are built from, as long as the part before the separator
  holds no NUL byte (PostgreSQL text never does).\<close>

lemma hash_key_eq_iff:
  assumes "nul \<notin> set (deref alg)" and "nul \<notin> set (deref alg')"
  shows "hash_key alg h = hash_key alg' h' \<longleftrightarrow> deref alg = deref alg' \<and> deref h = deref h'"
  using assms by (simp add: hash_key_def sep_key_inj)

lemma size_key_eq_iff: "size_key (Some a) = size_key (Some b) \<longleftrightarrow> a = b"
  by (auto simp: size_key_def intro: signed_word_eqI)

section \<open>What a match means\<close>

text \<open>A candidate list with one element comes from a scan whose hits all satisfy its condition.\<close>

lemma filter_singleton_mem:
  assumes "filter P xs = [x]"
  shows "x \<in> set xs \<and> P x"
proof -
  from assms have "x \<in> set (filter P xs)" by simp
  then show ?thesis by simp
qed

text \<open>
  The three ways an entry can match a resource: by a stable provider identifier, at the resource's
  own path (being the only observation and the only present resource there), or as a move of a
  resource that carries missing evidence within the move horizon. A move found by content hash is
  the only observation of that hash, and nothing was observed at the resource's old path.
\<close>

definition match_provider :: "SnapshotEntry \<Rightarrow> PriorResource \<Rightarrow> bool" where
  "match_provider e p \<longleftrightarrow> entryStable e \<and> providerStable p \<and>
     provider_key (ProviderObjectIDScope p) (ProviderObjectID p) =
     provider_key (se_ProviderObjectIDScope e) (se_ProviderObjectID e)"

definition match_same_path ::
  "PriorResource list \<Rightarrow> SnapshotEntry list \<Rightarrow> SnapshotEntry \<Rightarrow> PriorResource \<Rightarrow> bool" where
  "match_same_path prior es e p \<longleftrightarrow> canonicalPath p = EntryPath e \<and>
     length (filter (\<lambda>e'. EntryPath e' = EntryPath e) es) \<le> 1"

definition match_hash_move ::
  "SnapshotEntry list \<Rightarrow> Config \<Rightarrow> gotime \<Rightarrow> SnapshotEntry \<Rightarrow> PriorResource \<Rightarrow> bool" where
  "match_hash_move es cfg now e p \<longleftrightarrow> hasMissingEvidence p \<and> withinMoveHorizon p cfg now \<and>
     entryHashComparable e \<and> hash_key (HashAlgorithm p) (ContentHash p) = entry_hash_key e \<and>
     length (filter (\<lambda>e'. entryHashComparable e' \<and> entry_hash_key e' = entry_hash_key e) es) \<le> 1 \<and>
     filter (\<lambda>e'. EntryPath e' = canonicalPath p) es = []"

definition match_size_move :: "Config \<Rightarrow> gotime \<Rightarrow> SnapshotEntry \<Rightarrow> PriorResource \<Rightarrow> bool" where
  "match_size_move cfg now e p \<longleftrightarrow> hasMissingEvidence p \<and> withinMoveHorizon p cfg now \<and>
     \<not> entryHashComparable e \<and> equalInt64 (Size p) (se_Size e) \<and>
     equalTimePtr (Mtime p) (se_Mtime e)"

lemma resolve_provider_matched:
  assumes "resolve_provider (index_of prior es) e = Some (ResolutionMatched, q, r)"
  shows "\<exists>p. q = Some p \<and> p \<in> set prior \<and> isPresent p \<and> match_provider e p"
  using assms unfolding resolve_provider_def match_provider_def index_of_simps
  by (auto split: if_splits list.splits dest!: filter_singleton_mem)

lemma resolve_hash_matched:
  assumes "resolve_hash (index_of prior es) e cfg now samePath = Some (ResolutionMatched, q, r)"
    and "entryHashComparable e"
    and "samePath = filter (\<lambda>p. isPresent p \<and> canonicalPath p = EntryPath e) prior"
  shows "\<exists>p. q = Some p \<and> p \<in> set prior \<and> isPresent p \<and>
           (canonicalPath p = EntryPath e \<or> match_hash_move es cfg now e p)"
  using assms unfolding resolve_hash_def resolve_hash_same_path_def resolve_hash_candidate_def
    match_hash_move_def index_of_simps
  by (auto simp: Let_def split: if_splits list.splits dest!: filter_singleton_mem
      intro: filter_singleton_mem)

lemma resolve_path_matched:
  assumes "resolve_path (index_of prior es) e cfg now samePath = (ResolutionMatched, q, r)"
    and "samePath = filter (\<lambda>p. isPresent p \<and> canonicalPath p = EntryPath e) prior"
  shows "\<exists>p. q = Some p \<and> p \<in> set prior \<and> isPresent p \<and>
           (canonicalPath p = EntryPath e \<or> match_size_move cfg now e p)"
  using assms
  unfolding resolve_path_def moved_candidates_def match_size_move_def index_of_simps
  by (auto simp: Let_def equalInt64_def size_key_eq_iff split: if_splits list.splits
      dest!: filter_singleton_mem)

lemma resolve_matched:
  assumes "resolve (index_of prior es) e cfg now = (ResolutionMatched, q, r)"
  shows "\<exists>p. q = Some p \<and> p \<in> set prior \<and> isPresent p \<and>
           (match_provider e p \<or> match_same_path prior es e p \<or>
            match_hash_move es cfg now e p \<or> match_size_move cfg now e p)"
proof (cases "resolve_provider (index_of prior es) e")
  case (Some r')
  with assms show ?thesis
    using resolve_provider_matched [of prior es e q r] by (auto simp: resolve_def)
next
  case None
  define samePath where
    "samePath = filter (\<lambda>p. isPresent p \<and> canonicalPath p = EntryPath e) prior"
  have once: "length (filter (\<lambda>e'. EntryPath e' = EntryPath e) es) \<le> 1"
    using assms None by (auto simp: resolve_def Let_def index_of_simps split: if_splits)
  show ?thesis
  proof (cases "if entryHashComparable e
      then resolve_hash (index_of prior es) e cfg now samePath else None")
    case (Some r')
    with assms None have "entryHashComparable e"
      "resolve_hash (index_of prior es) e cfg now samePath = Some (ResolutionMatched, q, r)"
      by (auto simp: resolve_def Let_def index_of_simps samePath_def split: if_splits)
    from resolve_hash_matched [OF this(2) this(1) samePath_def] once show ?thesis
      by (auto simp: match_same_path_def)
  next
    case none: None
    with assms None have "resolve_path (index_of prior es) e cfg now samePath
        = (ResolutionMatched, q, r)"
      by (auto simp: resolve_def Let_def index_of_simps samePath_def split: if_splits)
    from resolve_path_matched [OF this samePath_def] once show ?thesis
      by (auto simp: match_same_path_def)
  qed
qed

lemma resolve_not_matched:
  assumes "resolve (index_of prior es) e cfg now = (st, q, r)" and "st \<noteq> ResolutionMatched"
  shows "q = None"
  using assms
  unfolding resolve_def resolve_provider_def resolve_hash_def resolve_hash_same_path_def
    resolve_hash_candidate_def resolve_path_def
  by (auto simp: Let_def split: if_splits option.splits list.splits)

text \<open>Two positions of a list that satisfy a condition make the filtered list longer than one.\<close>

lemma filter_two_positions:
  assumes "i < j" and "j < length xs" and "P (xs ! i)" and "P (xs ! j)"
  shows "length (filter P xs) > 1"
proof -
  have "{i, j} \<subseteq> {k. k < length xs \<and> P (xs ! k)}" using assms by auto
  then have "card {i, j} \<le> card {k. k < length xs \<and> P (xs ! k)}" by (intro card_mono) auto
  with assms(1) show ?thesis by (simp add: length_filter_conv_card)
qed

text \<open>
  When no entry relies on a provider identifier and every entry has a comparable hash, no two
  entries match the same resource: the path and hash observation counts exclude it.
\<close>

lemma matched_once:
  assumes "list_all (\<lambda>e. entryHashComparable e \<and> \<not> entryStable e) es"
    and "i < j" and "j < length es"
    and "resolve (index_of prior es) (es ! i) cfg now = (ResolutionMatched, Some p, r)"
    and "resolve (index_of prior es) (es ! j) cfg now = (ResolutionMatched, Some p, r')"
  shows False
proof -
  let ?a = "es ! i" and ?b = "es ! j"
  have in_es: "?a \<in> set es" "?b \<in> set es" using assms(2,3) by auto
  then have h: "entryHashComparable ?a" "entryHashComparable ?b"
    "\<not> entryStable ?a" "\<not> entryStable ?b" using assms(1) by (auto simp: list_all_iff)
  have a: "match_same_path prior es ?a p \<or> match_hash_move es cfg now ?a p"
    using resolve_matched [OF assms(4)] h by (auto simp: match_provider_def match_size_move_def)
  have b: "match_same_path prior es ?b p \<or> match_hash_move es cfg now ?b p"
    using resolve_matched [OF assms(5)] h by (auto simp: match_provider_def match_size_move_def)
  have paths: "\<not> (EntryPath ?a = EntryPath ?b \<and>
      length (filter (\<lambda>e'. EntryPath e' = EntryPath ?b) es) \<le> 1)"
    using filter_two_positions [OF assms(2,3), of "\<lambda>e'. EntryPath e' = EntryPath ?b"] by auto
  have hashes: "\<not> (entry_hash_key ?a = entry_hash_key ?b \<and>
      length (filter (\<lambda>e'. entryHashComparable e' \<and> entry_hash_key e' = entry_hash_key ?b) es) \<le> 1)"
    using filter_two_positions [OF assms(2,3),
        of "\<lambda>e'. entryHashComparable e' \<and> entry_hash_key e' = entry_hash_key ?b"] h by auto
  from a b paths hashes in_es show False
    by (auto simp: match_same_path_def match_hash_move_def filter_empty_conv)
qed

end
