(* ===== verification/Reconcile.thy ===== *)
theory Reconcile
  imports Resolve
begin

text \<open>
  Safe reconcile (\<open>internal/kernel/reconcile/reconcile.go\<close>, \<open>directory.go\<close>, \<open>context.go\<close> and the
  result types of \<open>types.go\<close>): the pure decision that turns a prior inventory and an accepted
  snapshot into transitions, the directory-coverage variant that may remove absent children, and
  the canonical removal-decision context that enters the snapshot identity.
\<close>

section \<open>Results\<close>

datatype Kind =
    KindAdd | KindUpdate | KindRename | KindMove | KindUnchanged | KindResetRemovalEvidence
  | KindMissingEvidence | KindRemovalCandidate | KindConfirmRemoved | KindConflict

fun GenerationProducing :: "Kind \<Rightarrow> bool" where
  "GenerationProducing KindAdd = True"
| "GenerationProducing KindUpdate = True"
| "GenerationProducing KindRename = True"
| "GenerationProducing KindMove = True"
| "GenerationProducing KindConfirmRemoved = True"
| "GenerationProducing _ = False"

record Transition =
  tr_Kind :: Kind
  tr_ResourceID :: uuid
  tr_Entry :: "SnapshotEntry option"
  tr_Prior :: "PriorResource option"
  tr_NewPath :: "string option"
  tr_NewName :: "string option"
  tr_MissingSince :: "gotime option"
  tr_ConsecutiveMissing :: int
  tr_MissingFirstSnapshotID :: "uuid option"
  tr_MissingLastSnapshotID :: "uuid option"
  tr_LastConfirmedGeneration :: int
  tr_Reason :: string

text \<open>A Go composite literal leaves the fields it does not name at their zero values.\<close>

definition transition :: "Kind \<Rightarrow> Transition" where
  "transition k =
     \<lparr>tr_Kind = k, tr_ResourceID = [], tr_Entry = None, tr_Prior = None, tr_NewPath = None,
      tr_NewName = None, tr_MissingSince = None, tr_ConsecutiveMissing = 0,
      tr_MissingFirstSnapshotID = None, tr_MissingLastSnapshotID = None,
      tr_LastConfirmedGeneration = 0, tr_Reason = []\<rparr>"

record Observation =
  obs_ResourceID :: uuid
  obs_Entry :: SnapshotEntry

record Counts =
  c_Added :: nat
  c_Updated :: nat
  c_Renamed :: nat
  c_Moved :: nat
  c_Removed :: nat
  c_Unchanged :: nat
  c_MissingEvidence :: nat
  c_Conflict :: nat

record Conflict =
  cf_EntryLocalID :: string
  cf_ResourceID :: uuid
  cf_Reason :: string

record Result =
  MutatesCanonical :: bool
  Transitions :: "Transition list"
  Observations :: "Observation list"
  ResultCounts :: Counts
  Conflicts :: "Conflict list"

definition no_counts :: Counts where
  "no_counts = \<lparr>c_Added = 0, c_Updated = 0, c_Renamed = 0, c_Moved = 0, c_Removed = 0,
     c_Unchanged = 0, c_MissingEvidence = 0, c_Conflict = 0\<rparr>"

definition no_result :: Result where
  "no_result = \<lparr>MutatesCanonical = False, Transitions = [], Observations = [],
     ResultCounts = no_counts, Conflicts = []\<rparr>"

definition emit :: "Transition \<Rightarrow> Result \<Rightarrow> Result" where
  "emit t res = res\<lparr>Transitions := Transitions res @ [t]\<rparr>"

definition count :: "(Counts \<Rightarrow> Counts) \<Rightarrow> Result \<Rightarrow> Result" where
  "count f res = res\<lparr>ResultCounts := f (ResultCounts res)\<rparr>"

definition observe :: "uuid \<Rightarrow> SnapshotEntry \<Rightarrow> Result \<Rightarrow> Result" where
  "observe rid e res =
     res\<lparr>Observations := Observations res @ [\<lparr>obs_ResourceID = rid, obs_Entry = e\<rparr>]\<rparr>"

section \<open>Matched entries\<close>

definition needsReset :: "PriorResource \<Rightarrow> bool" where
  "needsReset p \<longleftrightarrow>
     hasMissingEvidence p \<or> MissingSince p \<noteq> None \<or> ConsecutiveCompleteMissing p > 0"

definition pathChanged :: "PriorResource \<Rightarrow> SnapshotEntry \<Rightarrow> bool" where
  "pathChanged p e \<longleftrightarrow> canonicalPath p \<noteq> [] \<and> canonicalPath p \<noteq> EntryPath e"

definition attrsChanged :: "PriorResource \<Rightarrow> SnapshotEntry \<Rightarrow> bool" where
  "attrsChanged p e \<longleftrightarrow>
     \<not> equalInt64 (Size p) (se_Size e) \<or> \<not> equalTimePtr (Mtime p) (se_Mtime e) \<or>
     deref (ContentHash p) \<noteq> deref (se_ContentHash e) \<or>
     deref (ContentType p) \<noteq> deref (se_ContentType e)"

definition path_kind :: "PriorResource \<Rightarrow> SnapshotEntry \<Rightarrow> Kind" where
  "path_kind p e =
     (if path_dir (canonicalPath p) \<noteq> path_dir (EntryPath e) then KindMove else KindRename)"

definition applyMatched :: "Result \<Rightarrow> PriorResource \<Rightarrow> SnapshotEntry \<Rightarrow> Result" where
  "applyMatched res p e =
     (let res1 = (if needsReset p
                  then emit ((transition KindResetRemovalEvidence)
                         \<lparr>tr_ResourceID := ResourceID p, tr_Prior := Some p,
                          tr_Reason := ''observed again; reset removal evidence''\<rparr>) res
                  else res)
      in if \<not> pathChanged p e \<and> \<not> attrsChanged p e
         then emit ((transition KindUnchanged)
                \<lparr>tr_ResourceID := ResourceID p, tr_Prior := Some p, tr_Entry := Some e\<rparr>)
                (count (\<lambda>c. c\<lparr>c_Unchanged := c_Unchanged c + 1\<rparr>) res1)
         else
           let res2 = res1\<lparr>MutatesCanonical := True\<rparr>;
               res3 = (if pathChanged p e
                       then
                         let res' = emit ((transition (path_kind p e))
                               \<lparr>tr_ResourceID := ResourceID p, tr_Prior := Some p,
                                tr_Entry := Some e, tr_NewPath := Some (EntryPath e),
                                tr_Reason := ''path change''\<rparr>) res2
                         in if path_kind p e = KindMove
                            then count (\<lambda>c. c\<lparr>c_Moved := c_Moved c + 1\<rparr>) res'
                            else count (\<lambda>c. c\<lparr>c_Renamed := c_Renamed c + 1\<rparr>) res'
                       else res2)
           in if attrsChanged p e
              then count (\<lambda>c. c\<lparr>c_Updated := c_Updated c + 1\<rparr>)
                     (emit ((transition KindUpdate)
                        \<lparr>tr_ResourceID := ResourceID p, tr_Prior := Some p, tr_Entry := Some e,
                         tr_Reason := ''attribute change''\<rparr>) res3)
              else res3)"

section \<open>Missing resources\<close>

definition missingTransition ::
  "PriorResource \<Rightarrow> Config \<Rightarrow> gotime \<Rightarrow> uuid \<Rightarrow> Transition" where
  "missingTransition p cfg now snapshotID =
     (let tr = (transition KindMissingEvidence)
            \<lparr>tr_ResourceID := ResourceID p, tr_Prior := Some p,
             tr_LastConfirmedGeneration := LastConfirmedGeneration p,
             tr_Reason := ''MISSING in COMPLETE snapshot''\<rparr>
      in if MissingFirstSnapshotID p = None \<or> MissingFirstSnapshotID p = Some []
         then tr\<lparr>tr_MissingSince := Some now, tr_ConsecutiveMissing := 1,
                 tr_MissingFirstSnapshotID := Some snapshotID,
                 tr_MissingLastSnapshotID := Some snapshotID,
                 tr_Reason := ''first MISSING observation (evidence only)''\<rparr>
         else if MissingFirstSnapshotID p = Some snapshotID
         then tr\<lparr>tr_MissingSince := MissingSince p,
                 tr_ConsecutiveMissing := ConsecutiveCompleteMissing p,
                 tr_MissingFirstSnapshotID := MissingFirstSnapshotID p,
                 tr_MissingLastSnapshotID := MissingLastSnapshotID p,
                 tr_Reason := ''same-snapshot re-admission is not independent confirmation''\<rparr>
         else if MissingLastSnapshotID p = Some snapshotID
         then tr\<lparr>tr_MissingSince := MissingSince p,
                 tr_ConsecutiveMissing := ConsecutiveCompleteMissing p,
                 tr_MissingFirstSnapshotID := MissingFirstSnapshotID p,
                 tr_MissingLastSnapshotID := MissingLastSnapshotID p,
                 tr_Reason := ''observation already counted; not an independent confirmation''\<rparr>
         else
           let consec = ConsecutiveCompleteMissing p + 1;
               ms = (case MissingSince p of None \<Rightarrow> now | Some t \<Rightarrow> t);
               tr' = tr\<lparr>tr_MissingSince := Some ms, tr_ConsecutiveMissing := consec,
                        tr_MissingFirstSnapshotID := MissingFirstSnapshotID p,
                        tr_MissingLastSnapshotID := Some snapshotID\<rparr>
           in if consec \<ge> minConsecutive cfg
              then if effectiveGrace cfg \<le> 0 \<or> time_sub now ms \<ge> effectiveGrace cfg
                   then tr'\<lparr>tr_Kind := KindConfirmRemoved\<rparr>
                   else tr'\<lparr>tr_Kind := KindRemovalCandidate\<rparr>
              else tr')"

section \<open>Reconcile\<close>

text \<open>One iteration of the entry loop: the result so far and the observed resources.\<close>

definition reconcile_entry ::
  "PriorIndex \<Rightarrow> Config \<Rightarrow> gotime \<Rightarrow> Result \<times> (uuid \<Rightarrow> bool) \<Rightarrow> SnapshotEntry \<Rightarrow> Result \<times> (uuid \<Rightarrow> bool)"
  where
  "reconcile_entry ix cfg now s e =
     (let (res, observed) = s
      in case resolve ix e cfg now of
           (ResolutionMatched, Some p, reason) \<Rightarrow>
             (observe (ResourceID p) e (applyMatched res p e), observed(ResourceID p := True))
         | (ResolutionNewResource, q, reason) \<Rightarrow>
             let rid = NewID cfg (c_Added (ResultCounts res))
             in ((observe rid e
                   (count (\<lambda>c. c\<lparr>c_Added := c_Added c + 1\<rparr>)
                     (emit ((transition KindAdd)
                        \<lparr>tr_ResourceID := rid, tr_Entry := Some e, tr_Reason := reason\<rparr>) res)))
                   \<lparr>MutatesCanonical := True\<rparr>, observed)
         | (status, q, reason) \<Rightarrow>
             ((emit ((transition KindConflict)\<lparr>tr_Entry := Some e, tr_Reason := reason\<rparr>)
                (count (\<lambda>c. c\<lparr>c_Conflict := c_Conflict c + 1\<rparr>) res))
                \<lparr>Conflicts := Conflicts res @
                   [\<lparr>cf_EntryLocalID = se_EntryLocalID e, cf_ResourceID = [], cf_Reason = reason\<rparr>]\<rparr>,
              observed))"

definition reconcile_missing ::
  "(uuid \<Rightarrow> bool) \<Rightarrow> Config \<Rightarrow> gotime \<Rightarrow> uuid \<Rightarrow> Result \<Rightarrow> PriorResource \<Rightarrow> Result" where
  "reconcile_missing observed cfg now snapshotID res p =
     (if \<not> isPresent p \<or> observed (ResourceID p) then res
      else
        let tr = missingTransition p cfg now snapshotID;
            res1 = (if GenerationProducing (tr_Kind tr) then res\<lparr>MutatesCanonical := True\<rparr> else res);
            res2 = (if tr_Kind tr = KindConfirmRemoved
                    then count (\<lambda>c. c\<lparr>c_Removed := c_Removed c + 1\<rparr>) res1
                    else count (\<lambda>c. c\<lparr>c_MissingEvidence := c_MissingEvidence c + 1\<rparr>) res1)
        in emit tr res2)"

definition reconcile_entries ::
  "PriorResource list \<Rightarrow> SnapshotEntry list \<Rightarrow> Config \<Rightarrow> gotime \<Rightarrow> Result \<times> (uuid \<Rightarrow> bool)" where
  "reconcile_entries prior entries cfg now =
     foldl (reconcile_entry (indexObservation (BuildPriorIndex prior) entries) cfg now)
       (no_result, \<lambda>_. False) entries"

definition Reconcile ::
  "PriorResource list \<Rightarrow> SnapshotEntry list \<Rightarrow> AcceptanceState \<Rightarrow> Config \<Rightarrow> gotime \<Rightarrow> uuid \<Rightarrow> Result"
  where
  "Reconcile prior entries acceptance cfg now snapshotID =
     (if acceptance = AcceptanceFailed then no_result
      else
        let (res, observed) = reconcile_entries prior entries cfg now
        in if acceptance = AcceptanceComplete
           then foldl (reconcile_missing observed cfg now snapshotID) res prior
           else res)"

section \<open>Directory coverage\<close>

definition directory_absent ::
  "string \<Rightarrow> string list \<Rightarrow> PriorResource \<Rightarrow> bool" where
  "directory_absent scope paths p =
     (case CanonicalPath p of
        None \<Rightarrow> False
      | Some cp \<Rightarrow> path_dir cp = scope \<and> \<not> List.member paths cp)"

definition absent_dirs ::
  "PriorResource list \<Rightarrow> string \<Rightarrow> string list \<Rightarrow> uuid list \<Rightarrow> string list" where
  "absent_dirs prior scope paths observed =
     map canonicalPath
       (filter (\<lambda>p. isPresent p \<and> directory_absent scope paths p \<and> IsDir p = Some True \<and>
                  \<not> List.member observed (ResourceID p)) prior)"

definition directory_missing ::
  "string \<Rightarrow> string list \<Rightarrow> uuid list \<Rightarrow> string list \<Rightarrow> PriorResource \<Rightarrow> bool" where
  "directory_missing scope paths observed dirs p \<longleftrightarrow>
     isPresent p \<and> CanonicalPath p \<noteq> None \<and> \<not> List.member observed (ResourceID p) \<and>
     (directory_absent scope paths p \<or>
      list_ex (\<lambda>d. has_prefix (canonicalPath p) (d @ ''/'')) dirs)"

definition directory_transition :: "PriorResource \<Rightarrow> gotime \<Rightarrow> uuid \<Rightarrow> Transition" where
  "directory_transition p now snapshotID =
     (transition KindConfirmRemoved)
       \<lparr>tr_ResourceID := ResourceID p, tr_Prior := Some p, tr_MissingSince := Some now,
        tr_ConsecutiveMissing := 1, tr_MissingFirstSnapshotID := Some snapshotID,
        tr_MissingLastSnapshotID := Some snapshotID,
        tr_LastConfirmedGeneration := LastConfirmedGeneration p,
        tr_Reason := ''source mirror: absent from complete fresh direct-child coverage''\<rparr>"

definition ReconcileDirectory ::
  "PriorResource list \<Rightarrow> SnapshotEntry list \<Rightarrow> string \<Rightarrow> Config \<Rightarrow> gotime \<Rightarrow> uuid \<Rightarrow> Result" where
  "ReconcileDirectory prior entries scope cfg now snapshotID =
     (let res = Reconcile prior entries AcceptancePartial cfg now snapshotID;
          paths = map EntryPath entries;
          observed = map obs_ResourceID (Observations res);
          dirs = absent_dirs prior scope paths observed
      in foldl (\<lambda>r p.
            if directory_missing scope paths observed dirs p
            then (count (\<lambda>c. c\<lparr>c_Removed := c_Removed c + 1\<rparr>)
                    (emit (directory_transition p now snapshotID) r))\<lparr>MutatesCanonical := True\<rparr>
            else r) res prior)"

section \<open>Removal-decision context\<close>

text \<open>The source's own decimal printing; the smallest 64-bit number has no positive counterpart.\<close>

fun itoa_loop :: "nat \<Rightarrow> string \<Rightarrow> string" where
  "itoa_loop n acc = (if n = 0 then acc else itoa_loop (n div 10) (char_of (48 + n mod 10) # acc))"

declare itoa_loop.simps [simp del]

definition itoa :: "int \<Rightarrow> string" where
  "itoa n =
     (if n = 0 then ''0''
      else if n = - (2 ^ 63) then ''-''
      else if n < 0 then CHR ''-'' # itoa_loop (nat (- n)) []
      else itoa_loop (nat n) [])"

definition context_scan ::
  "PriorIndex \<Rightarrow> Config \<Rightarrow> gotime \<Rightarrow> (uuid \<Rightarrow> bool) \<times> (uuid \<Rightarrow> bool) \<Rightarrow> SnapshotEntry
     \<Rightarrow> (uuid \<Rightarrow> bool) \<times> (uuid \<Rightarrow> bool)" where
  "context_scan ix cfg now s e =
     (let (observed, reset) = s
      in case resolve ix e cfg now of
           (ResolutionMatched, Some p, _) \<Rightarrow>
             (observed(ResourceID p := True),
              if needsReset p then reset(ResourceID p := True) else reset)
         | _ \<Rightarrow> (observed, reset))"

definition context_line :: "string \<Rightarrow> PriorResource \<Rightarrow> string" where
  "context_line tag p =
     join_with ''|''
       [tag, ''rid='' @ ResourceID p, ''state='' @ removal_state_str (EvidenceState p),
        ''consec='' @ itoa (ConsecutiveCompleteMissing p),
        ''first='' @ (if nonempty (MissingFirstSnapshotID p) then ''1'' else ''0'')]"

definition RemovalDecisionContext ::
  "PriorResource list \<Rightarrow> SnapshotEntry list \<Rightarrow> Config \<Rightarrow> gotime \<Rightarrow> string" where
  "RemovalDecisionContext prior entries cfg now =
     (let ix = indexObservation (BuildPriorIndex prior) entries;
          (observed, reset) = foldl (context_scan ix cfg now) (\<lambda>_. False, \<lambda>_. False) entries;
          lines = concat (map (\<lambda>p.
            if \<not> isPresent p then []
            else if reset (ResourceID p) then [context_line ''reappears_reset'' p]
            else if observed (ResourceID p) then []
            else [context_line ''absent'' p]) prior)
      in join_with [newline] (sort_strings lines))"


section \<open>Bookkeeping of a result\<close>

text \<open>The number of transitions of the given kinds.\<close>

definition kind_count :: "Kind list \<Rightarrow> Result \<Rightarrow> nat" where
  "kind_count ks res = length (filter (\<lambda>t. tr_Kind t \<in> set ks) (Transitions res))"

text \<open>
  The bookkeeping of a result is coherent: the mutation flag says whether a generation-producing
  transition was emitted, and every counter is the number of transitions of its kind.
\<close>

definition result_ok :: "Result \<Rightarrow> bool" where
  "result_ok res \<longleftrightarrow>
     (MutatesCanonical res \<longleftrightarrow> list_ex (\<lambda>t. GenerationProducing (tr_Kind t)) (Transitions res)) \<and>
     c_Added (ResultCounts res) = kind_count [KindAdd] res \<and>
     c_Updated (ResultCounts res) = kind_count [KindUpdate] res \<and>
     c_Renamed (ResultCounts res) = kind_count [KindRename] res \<and>
     c_Moved (ResultCounts res) = kind_count [KindMove] res \<and>
     c_Removed (ResultCounts res) = kind_count [KindConfirmRemoved] res \<and>
     c_Unchanged (ResultCounts res) = kind_count [KindUnchanged] res \<and>
     c_MissingEvidence (ResultCounts res) =
       kind_count [KindMissingEvidence, KindRemovalCandidate] res \<and>
     c_Conflict (ResultCounts res) = kind_count [KindConflict] res \<and>
     c_Conflict (ResultCounts res) = length (Conflicts res)"

lemma tr_Kind_transition [simp]: "tr_Kind (transition k) = k"
  by (simp add: transition_def)

lemma path_kind_cases: "path_kind p e = KindMove \<or> path_kind p e = KindRename"
  by (simp add: path_kind_def)

text \<open>What the building blocks do to the fields they are not about.\<close>

lemma emit_simps [simp]:
  "Transitions (emit t res) = Transitions res @ [t]"
  "MutatesCanonical (emit t res) = MutatesCanonical res"
  "Observations (emit t res) = Observations res"
  "ResultCounts (emit t res) = ResultCounts res"
  "Conflicts (emit t res) = Conflicts res"
  by (simp_all add: emit_def)

lemma count_simps [simp]:
  "Transitions (count f res) = Transitions res"
  "MutatesCanonical (count f res) = MutatesCanonical res"
  "Observations (count f res) = Observations res"
  "ResultCounts (count f res) = f (ResultCounts res)"
  "Conflicts (count f res) = Conflicts res"
  by (simp_all add: count_def)

lemma observe_simps [simp]:
  "Transitions (observe r e res) = Transitions res"
  "MutatesCanonical (observe r e res) = MutatesCanonical res"
  "Observations (observe r e res) = Observations res @ [\<lparr>obs_ResourceID = r, obs_Entry = e\<rparr>]"
  "ResultCounts (observe r e res) = ResultCounts res"
  "Conflicts (observe r e res) = Conflicts res"
  by (simp_all add: observe_def)

lemma kind_count_emit [simp]:
  "kind_count ks (emit t res) = kind_count ks res + (if tr_Kind t \<in> set ks then 1 else 0)"
  by (simp add: kind_count_def)

lemma kind_count_other [simp]:
  "kind_count ks (count f res) = kind_count ks res"
  "kind_count ks (observe r e res) = kind_count ks res"
  "kind_count ks (res\<lparr>MutatesCanonical := b\<rparr>) = kind_count ks res"
  "kind_count ks (res\<lparr>Conflicts := cs\<rparr>) = kind_count ks res"
  by (simp_all add: kind_count_def)

lemma result_ok_no_result: "result_ok no_result"
  by (simp add: result_ok_def no_result_def no_counts_def kind_count_def)

lemma result_ok_observe [simp]: "result_ok (observe r e res) \<longleftrightarrow> result_ok res"
  by (simp add: result_ok_def)

lemma applyMatched_ok: "result_ok res \<Longrightarrow> result_ok (applyMatched res p e)"
  using path_kind_cases [of p e]
  by (auto simp: result_ok_def applyMatched_def Let_def)

lemma reconcile_entry_ok: "result_ok (fst s) \<Longrightarrow> result_ok (fst (reconcile_entry ix cfg now s e))"
  by (cases s)
     (auto simp: reconcile_entry_def Let_def applyMatched_ok split: prod.split
       IdentityResolution.split option.split, (simp_all add: result_ok_def)?)

lemma reconcile_missing_ok:
  "result_ok res \<Longrightarrow> result_ok (reconcile_missing observed cfg now sid res p)"
proof -
  have "tr_Kind (missingTransition p cfg now sid)
      \<in> {KindMissingEvidence, KindRemovalCandidate, KindConfirmRemoved}"
    by (simp add: missingTransition_def Let_def)
  then show "result_ok res \<Longrightarrow> ?thesis"
    by (auto simp: reconcile_missing_def Let_def result_ok_def)
qed

lemma reconcile_entries_ok: "result_ok (fst (reconcile_entries prior entries cfg now))"
  unfolding reconcile_entries_def
  by (rule foldl_invariant) (simp_all add: result_ok_no_result reconcile_entry_ok)

lemma Reconcile_ok: "result_ok (Reconcile prior entries acceptance cfg now sid)"
proof -
  have ok: "result_ok (fst (reconcile_entries prior entries cfg now))"
    by (rule reconcile_entries_ok)
  have "result_ok (foldl (reconcile_missing obs cfg now sid)
      (fst (reconcile_entries prior entries cfg now)) prior)" for obs
    by (rule foldl_invariant) (simp_all add: ok reconcile_missing_ok)
  with ok show ?thesis
    by (simp add: Reconcile_def result_ok_no_result case_prod_beta)
qed

lemma ReconcileDirectory_ok: "result_ok (ReconcileDirectory prior entries scope cfg now sid)"
  unfolding ReconcileDirectory_def Let_def
  by (rule foldl_invariant)
     (simp_all add: Reconcile_ok, simp add: result_ok_def directory_transition_def)

section \<open>What was observed, and what becomes of the rest\<close>

definition matched ::
  "PriorResource list \<Rightarrow> SnapshotEntry list \<Rightarrow> Config \<Rightarrow> gotime \<Rightarrow> SnapshotEntry \<Rightarrow> PriorResource \<Rightarrow> bool"
  where
  "matched prior entries cfg now e p \<longleftrightarrow>
     fst (resolve (index_of prior entries) e cfg now) = ResolutionMatched \<and>
     fst (snd (resolve (index_of prior entries) e cfg now)) = Some p"

definition observed_id ::
  "PriorResource list \<Rightarrow> SnapshotEntry list \<Rightarrow> Config \<Rightarrow> gotime \<Rightarrow> uuid \<Rightarrow> bool" where
  "observed_id prior entries cfg now rid \<longleftrightarrow>
     list_ex (\<lambda>e. list_ex (\<lambda>p. matched prior entries cfg now e p \<and> ResourceID p = rid) prior) entries"

lemma matched_sound:
  "matched prior entries cfg now e p \<Longrightarrow> p \<in> set prior \<and> isPresent p"
  using resolve_matched [of prior entries e cfg now "Some p"]
  by (cases "resolve (index_of prior entries) e cfg now") (auto simp: matched_def)

text \<open>One entry is matched, new, or a conflict; the three branches of the loop.\<close>

lemma resolve_cases [consumes 0, case_names matched new conflict]:
  obtains p r where "resolve ix e cfg now = (ResolutionMatched, Some p, r)"
  | q r where "resolve ix e cfg now = (ResolutionNewResource, q, r)"
  | st q r where "resolve ix e cfg now = (st, q, r)"
      and "st = ResolutionUnresolved \<or> st = ResolutionConflict
           \<or> (st = ResolutionMatched \<and> q = None)"
  by (cases "resolve ix e cfg now") (metis IdentityResolution.exhaust option.exhaust prod_cases3)

lemma reconcile_entry_matched:
  "resolve ix e cfg now = (ResolutionMatched, Some p, r) \<Longrightarrow>
   reconcile_entry ix cfg now (res, obs) e =
     (observe (ResourceID p) e (applyMatched res p e), obs(ResourceID p := True))"
  by (simp add: reconcile_entry_def)

lemma reconcile_entry_observed:
  "snd (reconcile_entry (index_of prior entries) cfg now (res, obs) e) rid \<longleftrightarrow>
     obs rid \<or> list_ex (\<lambda>p. matched prior entries cfg now e p \<and> ResourceID p = rid) prior"
proof (cases rule: resolve_cases [of "index_of prior entries" e cfg now])
  case (matched p r)
  then have "p \<in> set prior" using matched_sound [of prior entries cfg now e p]
    by (simp add: matched_def)
  with matched show ?thesis
    by (auto simp: reconcile_entry_matched list_ex_iff matched_def)
next
  case (new q r)
  then show ?thesis by (simp add: reconcile_entry_def Let_def matched_def list_ex_iff)
next
  case (conflict st q r)
  then show ?thesis by (auto simp: reconcile_entry_def Let_def matched_def list_ex_iff)
qed

lemma fold_observed:
  "snd (foldl (reconcile_entry (index_of prior entries) cfg now) s es) rid \<longleftrightarrow>
     snd s rid \<or>
     list_ex (\<lambda>e. list_ex (\<lambda>p. matched prior entries cfg now e p \<and> ResourceID p = rid) prior) es"
proof (induction es arbitrary: s)
  case (Cons e es)
  then show ?case by (cases s) (simp add: reconcile_entry_observed)
qed simp

lemma reconcile_entries_observed:
  "snd (reconcile_entries prior entries cfg now) = observed_id prior entries cfg now"
  by (rule ext)
     (simp add: reconcile_entries_def fold_observed observed_id_def index_of_def [symmetric])

text \<open>The kinds a transition of the entry loop can have.\<close>

definition entry_kinds :: "Kind set" where
  "entry_kinds = {KindAdd, KindUpdate, KindRename, KindMove, KindUnchanged,
     KindResetRemovalEvidence, KindConflict}"

text \<open>What the transition of a matched entry says about the entry and the resource it matched.\<close>

definition matched_transition :: "PriorResource \<Rightarrow> SnapshotEntry \<Rightarrow> Transition \<Rightarrow> bool" where
  "matched_transition p e t \<longleftrightarrow>
     tr_Prior t = Some p \<and> tr_ResourceID t = ResourceID p \<and>
     tr_Kind t \<in> entry_kinds - {KindAdd, KindConflict} \<and>
     (tr_Entry t = Some e \<or> tr_Kind t = KindResetRemovalEvidence) \<and>
     (tr_Kind t = KindUpdate \<longrightarrow> attrsChanged p e) \<and>
     (tr_Kind t \<in> {KindRename, KindMove} \<longrightarrow> pathChanged p e \<and> tr_Kind t = path_kind p e
        \<and> tr_NewPath t = Some (EntryPath e)) \<and>
     (tr_Kind t = KindUnchanged \<longrightarrow> \<not> pathChanged p e \<and> \<not> attrsChanged p e)"

text \<open>
  Where a transition of the entry loop comes from: an observed entry, and for every kind but
  ADD and CONFLICT the resource that the entry matched.
\<close>

definition entry_transition ::
  "PriorResource list \<Rightarrow> SnapshotEntry list \<Rightarrow> Config \<Rightarrow> gotime \<Rightarrow> Transition \<Rightarrow> bool" where
  "entry_transition prior entries cfg now t \<longleftrightarrow>
     (case tr_Prior t of
        None \<Rightarrow> (tr_Kind t = KindAdd \<or> tr_Kind t = KindConflict) \<and>
          list_ex (\<lambda>e. tr_Entry t = Some e) entries
      | Some p \<Rightarrow>
          list_ex (\<lambda>e. matched prior entries cfg now e p \<and> matched_transition p e t) entries)"

lemma applyMatched_transitions:
  "Transitions (applyMatched res p e) = Transitions res @ Transitions (applyMatched no_result p e)"
  by (simp add: applyMatched_def Let_def no_result_def)

lemma applyMatched_new_transition:
  assumes "t \<in> set (Transitions (applyMatched no_result p e))"
  shows "matched_transition p e t"
  using assms path_kind_cases [of p e]
  by (auto simp: matched_transition_def applyMatched_def Let_def no_result_def entry_kinds_def
      split: if_splits)

lemma matched_entry_transition:
  assumes "matched_transition p e t" and "matched prior entries cfg now e p" and "e \<in> set entries"
  shows "entry_transition prior entries cfg now t"
proof -
  from assms(1) have "tr_Prior t = Some p" by (simp add: matched_transition_def)
  with assms show ?thesis by (auto simp: entry_transition_def list_ex_iff)
qed

lemma reconcile_entry_transitions:
  assumes "e \<in> set entries"
    and "list_all (entry_transition prior entries cfg now) (Transitions (fst s))"
  shows "list_all (entry_transition prior entries cfg now)
    (Transitions (fst (reconcile_entry (index_of prior entries) cfg now s e)))"
proof (cases rule: resolve_cases [of "index_of prior entries" e cfg now])
  case (matched p r)
  have "entry_transition prior entries cfg now t"
    if "t \<in> set (Transitions (applyMatched no_result p e))" for t
    using applyMatched_new_transition [OF that] matched assms(1)
    by (simp add: matched_entry_transition matched_def)
  with matched assms(2) applyMatched_transitions [of "fst s" p e] show ?thesis
    by (cases s) (auto simp: reconcile_entry_matched list_all_iff)
next
  case (new q r)
  with assms show ?thesis
    by (cases s) (simp add: reconcile_entry_def Let_def entry_transition_def list_ex_iff
      transition_def)
next
  case (conflict st q r)
  with assms show ?thesis
    by (cases s) (auto simp: reconcile_entry_def Let_def entry_transition_def list_ex_iff
      transition_def)
qed

lemma reconcile_entries_transitions:
  "list_all (entry_transition prior entries cfg now)
     (Transitions (fst (reconcile_entries prior entries cfg now)))"
  unfolding reconcile_entries_def index_of_def [symmetric]
  by (rule foldl_invariant) (simp_all add: no_result_def reconcile_entry_transitions)

text \<open>The present resources that no entry matched, in the order of the inventory.\<close>

definition unobserved ::
  "PriorResource list \<Rightarrow> SnapshotEntry list \<Rightarrow> Config \<Rightarrow> gotime \<Rightarrow> PriorResource list" where
  "unobserved prior entries cfg now =
     filter (\<lambda>p. isPresent p \<and> \<not> observed_id prior entries cfg now (ResourceID p)) prior"

lemma fold_missing_transitions:
  "Transitions (foldl (reconcile_missing obs cfg now sid) res prior) = Transitions res @
     map (\<lambda>p. missingTransition p cfg now sid)
       (filter (\<lambda>p. isPresent p \<and> \<not> obs (ResourceID p)) prior)"
  by (induction prior arbitrary: res) (simp_all add: reconcile_missing_def Let_def)

lemma Reconcile_transitions:
  "acceptance \<noteq> AcceptanceFailed \<Longrightarrow>
   Transitions (Reconcile prior entries acceptance cfg now sid) =
     Transitions (fst (reconcile_entries prior entries cfg now)) @
     (if acceptance = AcceptanceComplete
      then map (\<lambda>p. missingTransition p cfg now sid) (unobserved prior entries cfg now) else [])"
  by (simp add: Reconcile_def case_prod_beta fold_missing_transitions
      reconcile_entries_observed unobserved_def)

text \<open>
  When the absence of a resource may be confirmed as a removal: an earlier snapshot opened the
  evidence, this one is neither that one nor the last counted, the required number of consecutive
  complete absences is reached and the effective grace period has passed.
\<close>

definition removal_due :: "PriorResource \<Rightarrow> Config \<Rightarrow> gotime \<Rightarrow> uuid \<Rightarrow> bool" where
  "removal_due p cfg now sid \<longleftrightarrow>
     nonempty (MissingFirstSnapshotID p) \<and> MissingFirstSnapshotID p \<noteq> Some sid \<and>
     MissingLastSnapshotID p \<noteq> Some sid \<and>
     ConsecutiveCompleteMissing p + 1 \<ge> minConsecutive cfg \<and>
     (effectiveGrace cfg \<le> 0 \<or>
      (case MissingSince p of None \<Rightarrow> False | Some ms \<Rightarrow> time_sub now ms \<ge> effectiveGrace cfg))"

lemma time_sub_self [simp]: "time_sub t t = 0"
  by (simp add: time_sub_def)

lemma missingTransition_simps [simp]:
  "tr_Prior (missingTransition p cfg now sid) = Some p"
  "tr_ResourceID (missingTransition p cfg now sid) = ResourceID p"
  "tr_LastConfirmedGeneration (missingTransition p cfg now sid) = LastConfirmedGeneration p"
  by (simp_all add: missingTransition_def Let_def)

lemma missingTransition_kind:
  "tr_Kind (missingTransition p cfg now sid) \<noteq> KindConfirmRemoved \<Longrightarrow>
   tr_Kind (missingTransition p cfg now sid) \<in> {KindMissingEvidence, KindRemovalCandidate}"
  by (simp add: missingTransition_def Let_def split: if_splits)

lemma missingTransition_removed:
  "tr_Kind (missingTransition p cfg now sid) = KindConfirmRemoved \<longleftrightarrow> removal_due p cfg now sid"
  by (cases "MissingSince p")
     (auto simp: missingTransition_def removal_due_def Let_def nonempty_def)

lemma missingTransition_not_entry:
  "tr_Kind (missingTransition p cfg now sid) \<notin> entry_kinds"
  by (simp add: missingTransition_def Let_def entry_kinds_def)

lemma entry_transition_kind: "entry_transition prior entries cfg now t \<Longrightarrow> tr_Kind t \<in> entry_kinds"
  by (auto simp: entry_transition_def matched_transition_def entry_kinds_def list_ex_iff
      split: option.splits)

lemma Reconcile_failed: "Reconcile prior entries AcceptanceFailed cfg now sid = no_result"
  by (simp add: Reconcile_def)

text \<open>Every transition of a reconcile is either one of the entry loop, or, for a COMPLETE
  snapshot, the missing transition of an unobserved present resource.\<close>

lemma Reconcile_transition_cases:
  assumes "t \<in> set (Transitions (Reconcile prior entries acceptance cfg now sid))"
  shows "entry_transition prior entries cfg now t \<or>
    (acceptance = AcceptanceComplete \<and>
     (\<exists>p \<in> set (unobserved prior entries cfg now). t = missingTransition p cfg now sid))"
proof (cases "acceptance = AcceptanceFailed")
  case True
  with assms show ?thesis by (simp add: Reconcile_failed no_result_def)
next
  case False
  with assms reconcile_entries_transitions [of prior entries cfg now] show ?thesis
    by (auto simp: Reconcile_transitions list_all_iff split: if_splits)
qed

end
