(* ===== verification/Journal.thy ===== *)
theory Journal
  imports Domain
begin

text \<open>
  The change journal's consumer side (\<open>internal/kernel/journal\<close>): per-root cursors, the rule for
  choosing a replay floor, and the deterministic order in which events of a root are applied.
\<close>

section \<open>Cursors and replay floors\<close>

datatype journal_error = ErrNonZeroFloorWithoutCheckpoint

record Event =
  je_RootID :: uuid
  je_EventSeq :: int
  je_GenerationNumber :: int
  je_IntraGenerationSeq :: int

type_synonym CursorVector = "uuid \<rightharpoonup> int"

text \<open>A nil map and a missing key both read as zero.\<close>

definition After :: "CursorVector option \<Rightarrow> uuid \<Rightarrow> int" where
  "After c rootID =
     (case c of None \<Rightarrow> 0 | Some m \<Rightarrow> (case m rootID of None \<Rightarrow> 0 | Some n \<Rightarrow> n))"

record Checkpoint =
  Cursors :: CursorVector

definition ResolveReplayFloor ::
  "uuid \<Rightarrow> int \<Rightarrow> Checkpoint option \<Rightarrow> journal_error + int" where
  "ResolveReplayFloor rootID requestedFloor cp =
     (if requestedFloor \<le> 0 then Inr 0
      else case cp of
        None \<Rightarrow> Inl ErrNonZeroFloorWithoutCheckpoint
      | Some c \<Rightarrow>
          (case Cursors c rootID of
             None \<Rightarrow> Inl ErrNonZeroFloorWithoutCheckpoint
           | Some lastSeq \<Rightarrow>
               if requestedFloor \<noteq> lastSeq + 1 then Inl ErrNonZeroFloorWithoutCheckpoint
               else Inr requestedFloor))"

section \<open>Apply order\<close>

definition Less :: "Event \<Rightarrow> Event \<Rightarrow> bool" where
  "Less a b =
     (if je_GenerationNumber a \<noteq> je_GenerationNumber b
      then je_GenerationNumber a < je_GenerationNumber b
      else if je_IntraGenerationSeq a \<noteq> je_IntraGenerationSeq b
      then je_IntraGenerationSeq a < je_IntraGenerationSeq b
      else je_EventSeq a < je_EventSeq b)"

definition InApplyOrder :: "Event list \<Rightarrow> Event list" where
  "InApplyOrder events = sort_by Less events"

section \<open>Facts\<close>

text \<open>\<open>Less\<close> compares the triple of generation, position in the generation and event sequence.\<close>

definition apply_key :: "Event \<Rightarrow> int \<times> int \<times> int" where
  "apply_key e = (je_GenerationNumber e, je_IntraGenerationSeq e, je_EventSeq e)"

interpretation apply_order: key_order Less apply_key
  by unfold_locales (auto simp: Less_def apply_key_def)

text \<open>Events of one root with distinct sequence numbers have one apply order.\<close>

lemma InApplyOrder_sorted: "sorted (map apply_key (InApplyOrder events))"
  using apply_order.sorted_sort [of events]
  by (simp add: InApplyOrder_def sorted_by_def sorted_map apply_order.less_iff not_less)

lemma InApplyOrder_mset [simp]: "mset (InApplyOrder events) = mset events"
  by (simp add: InApplyOrder_def)

lemma tied_iff: "apply_order.tied a b \<longleftrightarrow> apply_key a = apply_key b"
  by (auto simp: apply_order.tied_def apply_order.less_iff)

lemma InApplyOrder_stable:
  "filter (\<lambda>e. apply_key k = apply_key e) (InApplyOrder events) =
   filter (\<lambda>e. apply_key k = apply_key e) events"
proof -
  have "apply_order.tied k = (\<lambda>e. apply_key k = apply_key e)"
    by (rule ext) (simp add: tied_iff)
  with apply_order.stable_sort [of k events] show ?thesis by (simp add: InApplyOrder_def)
qed

text \<open>
  Replay order. The apply order of a root's events is sorted by generation, position in the
  generation and event sequence, is a permutation of the events, and keeps the given order of
  events that agree in all three.
\<close>

theorem apply_order_correct:
  "sorted (map apply_key (InApplyOrder events)) \<and> mset (InApplyOrder events) = mset events \<and>
   filter (\<lambda>e. apply_key k = apply_key e) (InApplyOrder events) =
     filter (\<lambda>e. apply_key k = apply_key e) events"
  by (simp add: InApplyOrder_sorted InApplyOrder_stable)

text \<open>
  Replay floors. A replay starts at the origin, or at a positive floor that a checkpoint's cursor
  of that root immediately precedes; nothing else is accepted, so no event between the checkpoint
  and the floor is skipped.
\<close>

theorem replay_floor_exact:
  "ResolveReplayFloor rootID requested cp = Inr base \<longleftrightarrow>
     (requested \<le> 0 \<and> base = 0) \<or>
     (0 < requested \<and> base = requested \<and>
      (\<exists>c. cp = Some c \<and> Cursors c rootID = Some (base - 1)))"
  by (auto simp: ResolveReplayFloor_def split: option.splits)

end
