(* ===== verification/IncState.thy ===== *)
theory IncState
  imports Prelude
begin

text \<open>
  Operational state of the incremental scope watcher (\<open>internal/incremental/state\<close>): the
  enumerations with their validation, the watch and work rows, the scope-key contract, and the
  normalised sets and instants that merges compute with. An enumeration of Go strings has a
  constructor for text outside the declared constants, since signals arrive unvalidated.
\<close>

section \<open>Enumerations\<close>

datatype state_error =
    ErrInvalidScopeKey
  | ErrInvalidEnum
  | ErrInvalidMirrorRevisit

datatype WatchState = WatchHot | WatchWarm | WatchCold | WatchDisabled | OtherWatchState string

definition Scheduled :: "WatchState \<Rightarrow> bool" where
  "Scheduled w \<longleftrightarrow> w = WatchHot \<or> w = WatchWarm"

datatype WorkState =
    WorkPending | WorkInFlight | WorkVerified | WorkRetryWait | WorkBlocked | WorkSuspended
  | OtherWorkState string

datatype Priority =
    PriorityUrgent | PriorityHigh | PriorityNormal | PriorityLow | OtherPriority string

fun priorityRank :: "Priority \<Rightarrow> int" where
  "priorityRank PriorityUrgent = 4"
| "priorityRank PriorityHigh = 3"
| "priorityRank PriorityNormal = 2"
| "priorityRank PriorityLow = 1"
| "priorityRank (OtherPriority _) = 0"

definition MaxPriority :: "Priority \<Rightarrow> Priority \<Rightarrow> Priority" where
  "MaxPriority a b = (if priorityRank a \<ge> priorityRank b then a else b)"

datatype TriggerSource =
    SourcePollSchedule | SourceMutationHint | SourceManualOperator | SourceProviderEvent
  | SourceRecovery | SourceFullVerifyBackstop | OtherSource string

fun trigger_source_str :: "TriggerSource \<Rightarrow> string" where
  "trigger_source_str SourcePollSchedule = ''POLL_SCHEDULE''"
| "trigger_source_str SourceMutationHint = ''MUTATION_HINT''"
| "trigger_source_str SourceManualOperator = ''MANUAL_OPERATOR''"
| "trigger_source_str SourceProviderEvent = ''PROVIDER_EVENT''"
| "trigger_source_str SourceRecovery = ''RECOVERY''"
| "trigger_source_str SourceFullVerifyBackstop = ''FULL_VERIFY_BACKSTOP''"
| "trigger_source_str (OtherSource s) = s"

datatype WatchSource =
    WatchSourceOperatorPolicy | WatchSourceAdaptivePolicy | WatchSourceMigrated
  | WatchSourceBackstopEnroll | OtherWatchSource string

fun watch_source_str :: "WatchSource \<Rightarrow> string" where
  "watch_source_str WatchSourceOperatorPolicy = ''OPERATOR_POLICY''"
| "watch_source_str WatchSourceAdaptivePolicy = ''ADAPTIVE_POLICY''"
| "watch_source_str WatchSourceMigrated = ''MIGRATED''"
| "watch_source_str WatchSourceBackstopEnroll = ''BACKSTOP_ENROLL''"
| "watch_source_str (OtherWatchSource s) = s"

datatype TriggerReason =
    ReasonPossibleChange | ReasonDeleteHint | ReasonMoveUncertain | ReasonMetadataUncertain
  | ReasonManualVerify | ReasonDriftVerify | ReasonRetry | OtherReason string

fun trigger_reason_str :: "TriggerReason \<Rightarrow> string" where
  "trigger_reason_str ReasonPossibleChange = ''POSSIBLE_CHANGE''"
| "trigger_reason_str ReasonDeleteHint = ''DELETE_HINT''"
| "trigger_reason_str ReasonMoveUncertain = ''MOVE_UNCERTAIN''"
| "trigger_reason_str ReasonMetadataUncertain = ''METADATA_UNCERTAIN''"
| "trigger_reason_str ReasonManualVerify = ''MANUAL_VERIFY''"
| "trigger_reason_str ReasonDriftVerify = ''DRIFT_VERIFY''"
| "trigger_reason_str ReasonRetry = ''RETRY''"
| "trigger_reason_str (OtherReason s) = s"

datatype ErrorClass =
    ErrorTransientProvider | ErrorThrottled | ErrorAuthOrPermission | ErrorScopeTooLarge
  | ErrorInvalidScope | ErrorRootInactive | ErrorConfigInvalid | ErrorInternal
  | OtherErrorClass string

definition IsProviderFailure :: "ErrorClass \<Rightarrow> bool" where
  "IsProviderFailure e \<longleftrightarrow> e \<noteq> ErrorRootInactive"

fun TargetWorkState :: "ErrorClass \<Rightarrow> WorkState" where
  "TargetWorkState ErrorTransientProvider = WorkRetryWait"
| "TargetWorkState ErrorThrottled = WorkRetryWait"
| "TargetWorkState ErrorInternal = WorkRetryWait"
| "TargetWorkState ErrorAuthOrPermission = WorkBlocked"
| "TargetWorkState ErrorScopeTooLarge = WorkBlocked"
| "TargetWorkState ErrorInvalidScope = WorkBlocked"
| "TargetWorkState ErrorConfigInvalid = WorkBlocked"
| "TargetWorkState ErrorRootInactive = WorkSuspended"
| "TargetWorkState (OtherErrorClass _) = WorkBlocked"

section \<open>Rows\<close>

text \<open>The creation and update times of both rows are written and never read by the logic.\<close>

record ScopeWatchState =
  sw_RootID :: uuid
  sw_ScopeKey :: string
  sw_WatchState :: WatchState
  sw_CadenceClass :: string
  sw_EffectiveIntervalSeconds :: "int option"
  sw_SourceSet :: "WatchSource list"
  sw_Priority :: Priority
  sw_LastDueAt :: "gotime option"
  sw_LastAttemptStartedAt :: "gotime option"
  sw_LastAttemptFinishedAt :: "gotime option"
  sw_LastSuccessAt :: "gotime option"
  sw_NextDueAt :: "gotime option"
  sw_ConsecutiveFailures :: int
  sw_LastErrorClass :: "ErrorClass option"
  sw_DeferredUntil :: "gotime option"
  sw_Version :: int

definition Due :: "ScopeWatchState \<Rightarrow> gotime \<Rightarrow> bool" where
  "Due w now =
     (case (Scheduled (sw_WatchState w), sw_NextDueAt w) of
        (True, Some due) \<Rightarrow>
          if due > now then False
          else (case sw_DeferredUntil w of Some d \<Rightarrow> \<not> d > now | None \<Rightarrow> True)
      | _ \<Rightarrow> False)"

text \<open>The claimed sets are null unless the item is in flight; the pending sets are never null in
  the table, and a nil and an empty set behave alike.\<close>

record DirtyScopeWork =
  wk_RootID :: uuid
  wk_ScopeKey :: string
  wk_WorkState :: WorkState
  wk_SignalSeq :: int
  wk_ClaimedSignalSeq :: "int option"
  wk_ClaimedSourceSet :: "TriggerSource list option"
  wk_ClaimedReasonSet :: "TriggerReason list option"
  wk_ClaimedPriority :: "Priority option"
  wk_ClaimedFirstSeenAt :: "gotime option"
  wk_ClaimedNotBefore :: "gotime option"
  wk_PendingSourceSet :: "TriggerSource list"
  wk_PendingReasonSet :: "TriggerReason list"
  wk_PendingPriority :: "Priority option"
  wk_PendingFirstSeenAt :: "gotime option"
  wk_PendingNotBefore :: "gotime option"
  wk_LastSeenAt :: gotime
  wk_AttemptCount :: int
  wk_ConsecutiveFailures :: int
  wk_LastAttemptStartedAt :: "gotime option"
  wk_LastAttemptFinishedAt :: "gotime option"
  wk_LastErrorClass :: "ErrorClass option"
  wk_LastVerifiedAt :: "gotime option"
  wk_LastVerifiedSignalSeq :: "int option"
  wk_Version :: int

record DirtySignal =
  ds_RootID :: uuid
  ds_ScopeKey :: string
  ds_Source :: TriggerSource
  ds_Reason :: TriggerReason
  ds_Priority :: Priority
  ds_NotBefore :: "gotime option"
  ds_SeenAt :: gotime

section \<open>Validation\<close>

definition validateWatchState :: "WatchState \<Rightarrow> state_error + unit" where
  "validateWatchState s =
     (if s \<in> {WatchHot, WatchWarm, WatchCold, WatchDisabled} then Inr () else Inl ErrInvalidEnum)"

definition validateWorkState :: "WorkState \<Rightarrow> state_error + unit" where
  "validateWorkState s =
     (if s \<in> {WorkPending, WorkInFlight, WorkVerified, WorkRetryWait, WorkBlocked, WorkSuspended}
      then Inr () else Inl ErrInvalidEnum)"

definition ValidatePriority :: "Priority \<Rightarrow> state_error + unit" where
  "ValidatePriority p =
     (if p \<in> {PriorityUrgent, PriorityHigh, PriorityNormal, PriorityLow} then Inr ()
      else Inl ErrInvalidEnum)"

definition ValidateTriggerSource :: "TriggerSource \<Rightarrow> state_error + unit" where
  "ValidateTriggerSource s =
     (if s \<in> {SourcePollSchedule, SourceMutationHint, SourceManualOperator, SourceProviderEvent,
              SourceRecovery, SourceFullVerifyBackstop}
      then Inr () else Inl ErrInvalidEnum)"

definition ValidateWatchSource :: "WatchSource \<Rightarrow> state_error + unit" where
  "ValidateWatchSource s =
     (if s \<in> {WatchSourceOperatorPolicy, WatchSourceAdaptivePolicy, WatchSourceMigrated,
              WatchSourceBackstopEnroll}
      then Inr () else Inl ErrInvalidEnum)"

definition ValidateTriggerReason :: "TriggerReason \<Rightarrow> state_error + unit" where
  "ValidateTriggerReason r =
     (if r \<in> {ReasonPossibleChange, ReasonDeleteHint, ReasonMoveUncertain,
              ReasonMetadataUncertain, ReasonManualVerify, ReasonDriftVerify, ReasonRetry}
      then Inr () else Inl ErrInvalidEnum)"

definition ValidateErrorClass :: "ErrorClass \<Rightarrow> state_error + unit" where
  "ValidateErrorClass e =
     (if e \<in> {ErrorTransientProvider, ErrorThrottled, ErrorAuthOrPermission, ErrorScopeTooLarge,
              ErrorInvalidScope, ErrorRootInactive, ErrorConfigInvalid, ErrorInternal}
      then Inr () else Inl ErrInvalidEnum)"

definition ValidateMirrorRevisit :: "duration \<Rightarrow> state_error + unit" where
  "ValidateMirrorRevisit interval =
     (if interval \<noteq> 0 \<and> (interval < 30 * second \<or> interval > hour \<or> interval mod second \<noteq> 0)
      then Inl ErrInvalidMirrorRevisit else Inr ())"

fun scope_segments_ok :: "string list \<Rightarrow> bool" where
  "scope_segments_ok [] = True"
| "scope_segments_ok (seg # segs) =
     (if seg = [] then False
      else if seg = ''.'' \<or> seg = ''..'' then False
      else scope_segments_ok segs)"

definition ValidateScopeKey :: "string \<Rightarrow> state_error + unit" where
  "ValidateScopeKey key =
     (if key = [] then Inl ErrInvalidScopeKey
      else if key = ''/'' then Inr ()
      else if \<not> has_prefix key ''/'' then Inl ErrInvalidScopeKey
      else if has_suffix key ''/'' then Inl ErrInvalidScopeKey
      else if contains_any key [backslash] then Inl ErrInvalidScopeKey
      else if scope_segments_ok (split_on CHR ''/'' (tl key)) then Inr ()
      else Inl ErrInvalidScopeKey)"

section \<open>Normalised sets\<close>

text \<open>The loop of the three normalisers: validate, keep the first of equal values, in order.\<close>

fun normalize_loop ::
  "('a \<Rightarrow> state_error + unit) \<Rightarrow> 'a list \<Rightarrow> 'a list \<Rightarrow> state_error + 'a list" where
  "normalize_loop valid out [] = Inr out"
| "normalize_loop valid out (s # ss) =
     (case valid s of
        Inl err \<Rightarrow> Inl err
      | Inr _ \<Rightarrow> normalize_loop valid (if List.member out s then out else out @ [s]) ss)"

definition normalize_set ::
  "('a \<Rightarrow> state_error + unit) \<Rightarrow> ('a \<Rightarrow> string) \<Rightarrow> 'a list \<Rightarrow> state_error + 'a list" where
  "normalize_set valid str xs =
     (case normalize_loop valid [] xs of
        Inl err \<Rightarrow> Inl err
      | Inr out \<Rightarrow> Inr (sort_by (\<lambda>a b. str a < str b) out))"

definition NormalizeWatchSources :: "WatchSource list \<Rightarrow> state_error + WatchSource list" where
  "NormalizeWatchSources = normalize_set ValidateWatchSource watch_source_str"

definition NormalizeTriggerSources :: "TriggerSource list \<Rightarrow> state_error + TriggerSource list" where
  "NormalizeTriggerSources = normalize_set ValidateTriggerSource trigger_source_str"

definition NormalizeTriggerReasons :: "TriggerReason list \<Rightarrow> state_error + TriggerReason list" where
  "NormalizeTriggerReasons = normalize_set ValidateTriggerReason trigger_reason_str"

definition UnionTriggerSources ::
  "TriggerSource list \<Rightarrow> TriggerSource list \<Rightarrow> state_error + TriggerSource list" where
  "UnionTriggerSources a b = NormalizeTriggerSources (a @ b)"

definition UnionTriggerReasons ::
  "TriggerReason list \<Rightarrow> TriggerReason list \<Rightarrow> state_error + TriggerReason list" where
  "UnionTriggerReasons a b = NormalizeTriggerReasons (a @ b)"

definition ContainsTriggerSource :: "TriggerSource list \<Rightarrow> TriggerSource \<Rightarrow> bool" where
  "ContainsTriggerSource ss s = List.member ss s"

section \<open>Instants\<close>

fun min_step :: "gotime option \<Rightarrow> gotime option \<Rightarrow> gotime option" where
  "min_step acc None = acc"
| "min_step None (Some t) = Some t"
| "min_step (Some m) (Some t) = (if t < m then Some t else Some m)"

definition MinTimePtr :: "gotime option list \<Rightarrow> gotime option" where
  "MinTimePtr ts = foldl min_step None ts"

fun max_step :: "gotime option \<Rightarrow> gotime option \<Rightarrow> gotime option" where
  "max_step acc None = acc"
| "max_step None (Some t) = Some t"
| "max_step (Some m) (Some t) = (if t > m then Some t else Some m)"

definition MaxTimePtr :: "gotime option list \<Rightarrow> gotime option" where
  "MaxTimePtr ts = foldl max_step None ts"

section \<open>Facts on normalised sets\<close>

text \<open>A validated enumeration: its valid values are told apart by their text.\<close>

locale enum_set =
  fixes valid :: "'a \<Rightarrow> state_error + unit" and str :: "'a \<Rightarrow> string"
  assumes str_inj: "valid a = Inr () \<Longrightarrow> valid b = Inr () \<Longrightarrow> str a = str b \<Longrightarrow> a = b"
begin

lemma loop_ok:
  "normalize_loop valid out xs = Inr ys \<Longrightarrow>
   list_all (\<lambda>x. valid x = Inr ()) xs \<and> set ys = set out \<union> set xs \<and> (distinct out \<longrightarrow> distinct ys)"
  by (induction xs arbitrary: out) (auto split: sum.splits if_splits)

lemma loop_total:
  "list_all (\<lambda>x. valid x = Inr ()) xs \<Longrightarrow> \<exists>ys. normalize_loop valid out xs = Inr ys"
  by (induction xs arbitrary: out) auto

lemma normalize_ok:
  assumes "normalize_set valid str xs = Inr ys"
  shows "set ys = set xs" and "distinct ys" and "list_all (\<lambda>x. valid x = Inr ()) ys"
  using assms loop_ok [of "[]" xs]
  by (auto simp: normalize_set_def list_all_iff split: sum.splits)

lemma normalize_total:
  "list_all (\<lambda>x. valid x = Inr ()) xs \<Longrightarrow> \<exists>ys. normalize_set valid str xs = Inr ys"
  using loop_total [of xs "[]"] by (auto simp: normalize_set_def)

end

sublocale enum_set \<subseteq> text_order: key_order "\<lambda>a b. str a < str b" str
  by unfold_locales simp

context enum_set
begin

lemma normalize_sorted:
  "normalize_set valid str xs = Inr ys \<Longrightarrow> sorted (map str ys)"
  using text_order.sorted_sort
  by (auto simp: normalize_set_def sorted_by_def sorted_map not_less split: sum.splits)

text \<open>The result depends on the set of values only.\<close>

lemma normalize_unique:
  assumes "normalize_set valid str xs = Inr ys" and "normalize_set valid str xs' = Inr ys'"
    and "set xs = set xs'"
  shows "ys = ys'"
proof -
  have inj: "inj_on str (set ys \<union> set ys')"
    using normalize_ok(3) [OF assms(1)] normalize_ok(3) [OF assms(2)]
    by (auto simp: list_all_iff intro!: inj_onI str_inj)
  have "map str ys = map str ys'"
  proof (rule sorted_distinct_set_unique)
    show "distinct (map str ys)" "distinct (map str ys')"
      using normalize_ok(2) [OF assms(1)] normalize_ok(2) [OF assms(2)] inj
      by (auto simp: distinct_map intro: inj_on_subset)
    show "set (map str ys) = set (map str ys')"
      using normalize_ok(1) [OF assms(1)] normalize_ok(1) [OF assms(2)] assms(3) by simp
  qed (use assms normalize_sorted in auto)
  with inj show ?thesis by (simp add: inj_on_map_eq_map)
qed

end

lemma valid_enum_simps [simp]:
  "ValidatePriority p = Inr () \<longleftrightarrow> p \<in> {PriorityUrgent, PriorityHigh, PriorityNormal, PriorityLow}"
  "ValidateTriggerSource s = Inr () \<longleftrightarrow> (\<forall>t. s \<noteq> OtherSource t)"
  "ValidateWatchSource w = Inr () \<longleftrightarrow> (\<forall>t. w \<noteq> OtherWatchSource t)"
  "ValidateTriggerReason r = Inr () \<longleftrightarrow> (\<forall>t. r \<noteq> OtherReason t)"
  "ValidateErrorClass e = Inr () \<longleftrightarrow> (\<forall>t. e \<noteq> OtherErrorClass t)"
      apply (simp add: ValidatePriority_def)
     apply (cases s; simp add: ValidateTriggerSource_def)
    apply (cases w; simp add: ValidateWatchSource_def)
   apply (cases r; simp add: ValidateTriggerReason_def)
  apply (cases e; simp add: ValidateErrorClass_def)
  done

interpretation trigger_sources: enum_set ValidateTriggerSource trigger_source_str
proof
  fix a b
  assume "ValidateTriggerSource a = Inr ()" "ValidateTriggerSource b = Inr ()"
    "trigger_source_str a = trigger_source_str b"
  then show "a = b" by (cases a; cases b) simp_all
qed

interpretation trigger_reasons: enum_set ValidateTriggerReason trigger_reason_str
proof
  fix a b
  assume "ValidateTriggerReason a = Inr ()" "ValidateTriggerReason b = Inr ()"
    "trigger_reason_str a = trigger_reason_str b"
  then show "a = b" by (cases a; cases b) simp_all
qed

interpretation watch_sources: enum_set ValidateWatchSource watch_source_str
proof
  fix a b
  assume "ValidateWatchSource a = Inr ()" "ValidateWatchSource b = Inr ()"
    "watch_source_str a = watch_source_str b"
  then show "a = b" by (cases a; cases b) simp_all
qed

section \<open>Facts on instants\<close>

lemma MinTimePtr_two [simp]:
  "MinTimePtr [None, b] = b" "MinTimePtr [a, None] = a"
  "MinTimePtr [Some x, Some y] = Some (min x y)"
  by (cases b; auto simp: MinTimePtr_def) (cases a; auto simp: MinTimePtr_def)+

lemma MaxTimePtr_two [simp]:
  "MaxTimePtr [None, b] = b" "MaxTimePtr [a, None] = a"
  "MaxTimePtr [Some x, Some y] = Some (max x y)"
  by (cases b; auto simp: MaxTimePtr_def) (cases a; auto simp: MaxTimePtr_def)+

lemma min_fold_some: "\<exists>m. foldl min_step (Some t) ts = Some m \<and> m \<le> t"
proof (induction ts arbitrary: t)
  case (Cons a ts)
  show ?case
  proof (cases a)
    case None
    with Cons show ?thesis by simp
  next
    case (Some u)
    with Cons.IH [of "min t u"] show ?thesis by (auto simp: min_def split: if_splits)
  qed
qed simp

lemma MinTimePtr_none_iff: "MinTimePtr ts = None \<longleftrightarrow> list_all (\<lambda>t. t = None) ts"
proof (induction ts)
  case (Cons a ts)
  then show ?case using min_fold_some by (cases a) (auto simp: MinTimePtr_def)
qed (simp add: MinTimePtr_def)

section \<open>Facts on scope keys\<close>

text \<open>
  The table's own check of a scope key, over the patterns of the \<open>LIKE\<close> operators. A segment of a
  split string is what stands between two separators.
\<close>

definition c_scope_key :: "string \<Rightarrow> bool" where
  "c_scope_key k \<longleftrightarrow> k = ''/'' \<or>
     (prefix ''/'' k \<and> \<not> suffix ''/'' k \<and> \<not> sublist ''//'' k \<and>
      \<not> sublist ''/./'' k \<and> \<not> suffix ''/.'' k \<and> \<not> sublist ''/../'' k \<and> \<not> suffix ''/..'' k \<and>
      backslash \<notin> set k)"

lemma split_hd: "c \<notin> set w \<Longrightarrow> prefix (w @ [c]) (s @ [c]) \<longleftrightarrow> w = hd (split_on c s)"
proof (induction s arbitrary: w)
  case Nil
  then show ?case by (cases w) auto
next
  case (Cons x xs)
  then show ?case
    by (cases w; cases "split_on c xs") (auto split: list.splits)
qed

lemma split_tl: "c \<notin> set w \<Longrightarrow> sublist (c # w @ [c]) (s @ [c]) \<longleftrightarrow> w \<in> set (tl (split_on c s))"
proof (induction s)
  case Nil
  then show ?case by (simp add: sublist_Cons_right)
next
  case (Cons x xs)
  have hd_in: "w = hd (split_on c xs) \<or> w \<in> set (tl (split_on c xs)) \<longleftrightarrow> w \<in> set (split_on c xs)"
    by (cases "split_on c xs") auto
  show ?case
  proof (cases "x = c")
    case True
    with Cons hd_in split_hd [of c w xs] show ?thesis by (simp add: sublist_Cons_right)
  next
    case False
    with Cons show ?thesis
      by (cases "split_on c xs") (auto simp: sublist_Cons_right)
  qed
qed

lemma split_segment:
  assumes "c \<notin> set w"
  shows "w \<in> set (split_on c s) \<longleftrightarrow> sublist (c # w @ [c]) (c # s @ [c])"
  using split_hd [OF assms, of s] split_tl [OF assms, of s]
  by (cases "split_on c s") (auto simp: sublist_Cons_right)

lemma segment_pattern:
  assumes "CHR ''/'' \<notin> set w"
  shows "w \<in> set (split_on CHR ''/'' s) \<longleftrightarrow>
    sublist (CHR ''/'' # w @ ''/'') (CHR ''/'' # s) \<or> suffix (CHR ''/'' # w) (CHR ''/'' # s)"
  using split_segment [OF assms, of s] sublist_snoc [of "CHR ''/'' # w @ ''/''" "CHR ''/'' # s" "CHR ''/''"]
    snoc_suffix_snoc [of "CHR ''/'' # w" "CHR ''/''" "CHR ''/'' # s" "CHR ''/''"]
  by auto

lemma segments_ok_iff:
  "scope_segments_ok segs \<longleftrightarrow> [] \<notin> set segs \<and> ''.'' \<notin> set segs \<and> ''..'' \<notin> set segs"
  by (induction segs) auto

text \<open>
  The scope-key contract. The key validation accepts exactly the root scope and the absolute paths
  whose segments are neither empty nor dots and that hold no backslash, and these are exactly
  the keys that the tables' check constraints admit: a validated key is never refused by the store.
\<close>

theorem scope_key_contract:
  "ValidateScopeKey k = Inr () \<longleftrightarrow> c_scope_key k"
proof (cases "k = ''/'' \<or> \<not> prefix ''/'' k")
  case True
  then show ?thesis
    by (auto simp: ValidateScopeKey_def c_scope_key_def has_prefix_def)
next
  case False
  then obtain s where k: "k = CHR ''/'' # s" and s: "s \<noteq> []" by (cases k) auto
  have bs: "contains_any k [backslash] \<longleftrightarrow> backslash \<in> set k"
    by (auto simp: contains_any_def list_ex_iff)
  have segs: "scope_segments_ok (split_on CHR ''/'' s) \<longleftrightarrow>
      \<not> (sublist ''//'' k \<or> suffix ''/'' k) \<and> \<not> (sublist ''/./'' k \<or> suffix ''/.'' k) \<and>
      \<not> (sublist ''/../'' k \<or> suffix ''/..'' k)"
    using segment_pattern [of "[]" s] segment_pattern [of "''.''" s] segment_pattern [of "''..''" s]
    by (simp add: segments_ok_iff k)
  from False k s bs segs show ?thesis
    by (auto simp: ValidateScopeKey_def c_scope_key_def has_prefix_def has_suffix_def)
qed

end
