(* ===== verification/Store.thy ===== *)
theory Store
  imports Reconcile Journal IncState
begin

text \<open>
  The relational store (\<open>internal/store/postgres\<close>, the \<open>repo_*.go\<close> files, \<open>prior.go\<close> and
  \<open>pending.go\<close>): the tables as lists of rows in insertion order, the repository operations over
  them, and the key and check constraints of the schema, whose violation is an error of the
  operation. A transaction maps a database to an error, after which the database is as before, or
  to a result and the new database. Failures of the database server itself and casts of
  malformed uuids are left out. Instants are at the resolution of the database, a microsecond.
\<close>

section \<open>Errors\<close>

datatype store_error =
    ErrNotFound
  | ErrNoRows
  | ErrNotHead
  | ErrCASConflict
  | ErrBindingMismatch
  | ErrNotSubmitted
  | ErrNotDraft
  | ErrTerminalSnapshot
  | ErrStaleHeadConsumed
  | ErrScopedFetchStale
  | ErrDirectoryCoverage
  | ErrStateCASConflict
  | ErrStaleClaim
  | ErrConstraint
  | ErrConfig config_error
  | ErrState state_error
  | ErrRefused string

text \<open>The early return on an error.\<close>

definition and_then :: "'e + 'a \<Rightarrow> ('a \<Rightarrow> 'e + 'b) \<Rightarrow> 'e + 'b" where
  "and_then r f = (case r of Inl e \<Rightarrow> Inl e | Inr x \<Rightarrow> f x)"

lemma and_then_simps [simp]:
  "and_then (Inl e) f = Inl e"
  "and_then (Inr x) f = f x"
  by (simp_all add: and_then_def)

lemma and_then_eq_Inr [simp]:
  "and_then r f = Inr y \<longleftrightarrow> (\<exists>x. r = Inr x \<and> f x = Inr y)"
  by (cases r) auto

text \<open>A loop that stops at the first error.\<close>

fun fold_err :: "('a \<Rightarrow> 's \<Rightarrow> 'e + 's) \<Rightarrow> 'a list \<Rightarrow> 's \<Rightarrow> 'e + 's" where
  "fold_err f [] s = Inr s"
| "fold_err f (x # xs) s = and_then (f x s) (fold_err f xs)"

lemma fold_err_invariant:
  assumes "fold_err f xs s = Inr s'" and "P s"
    and "\<And>x s s'. x \<in> set xs \<Longrightarrow> f x s = Inr s' \<Longrightarrow> P s \<Longrightarrow> P s'"
  shows "P s'"
  using assms by (induction xs arbitrary: s) auto

section \<open>Rows with decoded JSON\<close>

text \<open>
  A snapshot's provenance is a JSON column. The program decodes at most three members of it; the
  column is represented by what decoding gives. An \<open>OpaqueProvenance\<close> is not an object. A member is
  absent, does not decode, is null, or decodes to a value.
\<close>

datatype 'a json_member = Absent | Malformed | Null | Decoded 'a

record ScopedReadLineage =
  ln_Snapshots :: "uuid list"
  ln_Rank :: int
  ln_DependencyDigest :: string
  ln_PolicyRevision :: string

record ScopedFetchFence =
  fe_Version :: int
  fe_Generation :: int
  fe_AdmissionFrontier :: int
  fe_AdapterDigest :: string
  fe_AdapterRevision :: string
  fe_ScopeKey :: string
  fe_TargetPath :: string
  fe_ParentID :: string
  fe_ClaimedSequence :: int
  fe_Attempt :: int
  fe_AttemptStartedAt :: gotime
  fe_Lineage :: "ScopedReadLineage option"

datatype Provenance =
    OpaqueProvenance
  | ObjectProvenance "ScopedFetchFence json_member" "DirectoryCoverage json_member" "bool json_member"

fun fence_member :: "Provenance \<Rightarrow> ScopedFetchFence json_member" where
  "fence_member OpaqueProvenance = Absent"
| "fence_member (ObjectProvenance f c m) = f"

fun coverage_member :: "Provenance \<Rightarrow> DirectoryCoverage json_member" where
  "coverage_member OpaqueProvenance = Absent"
| "coverage_member (ObjectProvenance f c m) = c"

fun mirror_member :: "Provenance \<Rightarrow> bool json_member" where
  "mirror_member OpaqueProvenance = Absent"
| "mirror_member (ObjectProvenance f c m) = m"

text \<open>Columns of a snapshot that no operation reads are left out (\<open>started_at\<close>, \<open>finished_at\<close>,
  \<open>byte_count\<close>, \<open>generation_hint\<close>).\<close>

record Snapshot =
  sn_SnapshotID :: uuid
  sn_RootID :: uuid
  sn_Provenance :: Provenance
  sn_ObservedAt :: gotime
  sn_TraversalStatus :: TraversalStatus
  sn_ErrorSummary :: "string option"
  sn_SkippedScopes :: "string option"
  sn_SkippedScopesKnownEmpty :: bool
  sn_FreshnessEvidence :: "FreshnessEvidence option"
  sn_CollectorCompletenessAssurance :: "FailureVisibility option"
  sn_ScopeShrinkCorroboration :: "ScopeShrinkCorroboration option"
  sn_CompletenessFlag :: CompletenessFlag
  sn_AcceptanceState :: "AcceptanceState option"
  sn_LifecycleState :: SnapshotLifecycleState
  sn_EntryCount :: "int option"

text \<open>The adapter configuration: its JSON text, the settings that the two decoders read from it
  (\<open>None\<close> when decoding fails) and the tuple revision.\<close>

record MirrorSettings =
  ms_Mirror :: bool
  ms_Path :: string
  ms_Base :: string
  ms_Topology :: string
  ms_TopologyUsername :: string
  ms_TopologyPassword :: string

record AdapterConfig =
  ac_RootID :: uuid
  ac_CollectorKind :: string
  ac_Config :: string
  ac_Path :: "string option"
  ac_Settings :: "MirrorSettings option"
  ac_Revision :: string

record RootPolicy =
  rp_RootID :: uuid
  rp_RemovalGracePeriod :: duration
  rp_MoveRecognitionHorizon :: duration
  rp_MinConsecutiveCompleteMissing :: int
  rp_MinIndependentConfirmations :: int
  rp_Revision :: string

record db =
  db_roots :: "ResourceRoot list"
  db_generations :: "Generation list"
  db_resources :: "CanonicalResource list"
  db_observations :: "IdentityEvidenceObservation list"
  db_snapshots :: "Snapshot list"
  db_entries :: "SnapshotEntry list"
  db_admissions :: "Admission list"
  db_applied :: "AppliedSnapshot list"
  db_journal :: "JournalEvent list"
  db_results :: "ReconcileResultRow list"
  db_policies :: "RootPolicy list"
  db_adapters :: "AdapterConfig list"
  db_watches :: "ScopeWatchState list"
  db_works :: "DirtyScopeWork list"

section \<open>Roots\<close>

definition root_key :: "uuid \<Rightarrow> ResourceRoot \<Rightarrow> bool" where
  "root_key rid r \<longleftrightarrow> root_RootID r = rid"

definition find_root :: "db \<Rightarrow> uuid \<Rightarrow> ResourceRoot option" where
  "find_root d rid = List.find (root_key rid) (db_roots d)"

definition CreateRoot :: "uuid \<Rightarrow> string \<Rightarrow> RootLifecycleState \<Rightarrow> db \<Rightarrow> store_error + db" where
  "CreateRoot rid scope lifecycle d =
     (if find_root d rid \<noteq> None then Inl ErrConstraint
      else Inr (d\<lparr>db_roots := db_roots d @
        [\<lparr>root_RootID = rid, root_ScopeDescriptor = scope, root_OwningCollectorRef = None,
          root_LifecycleState = lifecycle, root_CurrentGeneration = 0,
          root_LatestAdmissionSeq = 0\<rparr>]\<rparr>))"

definition GetRoot :: "db \<Rightarrow> uuid \<Rightarrow> store_error + ResourceRoot" where
  "GetRoot d rid = (case find_root d rid of None \<Rightarrow> Inl ErrNotFound | Some r \<Rightarrow> Inr r)"

definition update_root :: "uuid \<Rightarrow> (ResourceRoot \<Rightarrow> ResourceRoot) \<Rightarrow> db \<Rightarrow> db" where
  "update_root rid f d =
     d\<lparr>db_roots := map (\<lambda>r. if root_RootID r = rid then f r else r) (db_roots d)\<rparr>"

definition SetRootLifecycle :: "uuid \<Rightarrow> RootLifecycleState \<Rightarrow> db \<Rightarrow> db" where
  "SetRootLifecycle rid next_state =
     update_root rid (\<lambda>r. r\<lparr>root_LifecycleState := next_state\<rparr>)"

section \<open>Canonical resources\<close>

text \<open>The check constraints of the table: hash and algorithm together, a tombstone carries
  terminal evidence, and the counter is not negative.\<close>

definition c_resource :: "CanonicalResource \<Rightarrow> bool" where
  "c_resource r \<longleftrightarrow>
     (ContentHash r = None \<longleftrightarrow> HashAlgorithm r = None) \<and>
     (Presence r = ResourceRemoved \<longrightarrow> EvidenceState r \<noteq> RemovalEvidenceNone) \<and>
     0 \<le> ConsecutiveCompleteMissing r"

definition find_resource :: "db \<Rightarrow> uuid \<Rightarrow> CanonicalResource option" where
  "find_resource d rid = List.find (\<lambda>r. ResourceID r = rid) (db_resources d)"

definition InsertCanonicalResource :: "CanonicalResource \<Rightarrow> db \<Rightarrow> store_error + db" where
  "InsertCanonicalResource r d =
     (if find_resource d (ResourceID r) \<noteq> None \<or> find_root d (RootID r) = None \<or> \<not> c_resource r
      then Inl ErrConstraint
      else Inr (d\<lparr>db_resources := db_resources d @ [r]\<rparr>))"

definition GetCanonicalResource :: "db \<Rightarrow> uuid \<Rightarrow> store_error + CanonicalResource" where
  "GetCanonicalResource d rid =
     (case find_resource d rid of None \<Rightarrow> Inl ErrNotFound | Some r \<Rightarrow> Inr r)"

definition ListCanonicalResources :: "db \<Rightarrow> uuid \<Rightarrow> CanonicalResource list" where
  "ListCanonicalResources d rid =
     sort_by (\<lambda>a b. ResourceID a < ResourceID b)
       (filter (\<lambda>r. RootID r = rid) (db_resources d))"

text \<open>SQL sorts nulls last.\<close>

definition path_before :: "CanonicalResource \<Rightarrow> CanonicalResource \<Rightarrow> bool" where
  "path_before a b =
     (case (CanonicalPath a, CanonicalPath b) of
        (Some p, Some q) \<Rightarrow> p < q \<or> (p = q \<and> ResourceID a < ResourceID b)
      | (Some _, None) \<Rightarrow> True
      | (None, Some _) \<Rightarrow> False
      | (None, None) \<Rightarrow> ResourceID a < ResourceID b)"

definition ListCanonicalPresent :: "db \<Rightarrow> uuid \<Rightarrow> CanonicalResource list" where
  "ListCanonicalPresent d rid =
     sort_by path_before
       (filter (\<lambda>r. RootID r = rid \<and> Presence r = ResourcePresent) (db_resources d))"

definition PresentResourcesAtPath :: "db \<Rightarrow> uuid \<Rightarrow> string \<Rightarrow> CanonicalResource list" where
  "PresentResourcesAtPath d rid path =
     sort_by (\<lambda>a b. ResourceID a < ResourceID b)
       (filter (\<lambda>r. RootID r = rid \<and> CanonicalPath r = Some path \<and> Presence r = ResourcePresent)
         (db_resources d))"

definition CountCanonicalPresent :: "db \<Rightarrow> uuid \<Rightarrow> int" where
  "CountCanonicalPresent d rid =
     int (length (filter (\<lambda>r. RootID r = rid \<and> Presence r = ResourcePresent) (db_resources d)))"

text \<open>An UPDATE by primary key; a row that would violate a check refuses it.\<close>

definition update_resource ::
  "uuid \<Rightarrow> (CanonicalResource \<Rightarrow> CanonicalResource) \<Rightarrow> db \<Rightarrow> store_error + db" where
  "update_resource rid f d =
     (if list_all (\<lambda>r. ResourceID r = rid \<longrightarrow> c_resource (f r)) (db_resources d)
      then Inr (d\<lparr>db_resources :=
             map (\<lambda>r. if ResourceID r = rid then f r else r) (db_resources d)\<rparr>)
      else Inl ErrConstraint)"

definition SetRemovalEvidence ::
  "uuid \<Rightarrow> RemovalEvidenceState \<Rightarrow> gotime option \<Rightarrow> int \<Rightarrow> uuid option \<Rightarrow> uuid option \<Rightarrow> int
     \<Rightarrow> db \<Rightarrow> store_error + db" where
  "SetRemovalEvidence rid st since consecutive firstID lastID lastConfirmed =
     update_resource rid (\<lambda>r. r\<lparr>EvidenceState := st, MissingSince := since,
       ConsecutiveCompleteMissing := consecutive, MissingFirstSnapshotID := firstID,
       MissingLastSnapshotID := lastID, LastConfirmedGeneration := lastConfirmed\<rparr>)"

definition ResetRemovalEvidence :: "uuid \<Rightarrow> int \<Rightarrow> db \<Rightarrow> store_error + db" where
  "ResetRemovalEvidence rid lastConfirmed =
     update_resource rid (\<lambda>r. r\<lparr>EvidenceState := RemovalEvidenceNone, MissingSince := None,
       ConsecutiveCompleteMissing := 0, MissingFirstSnapshotID := None,
       MissingLastSnapshotID := None, LastConfirmedGeneration := lastConfirmed\<rparr>)"

definition ConfirmRemoval :: "uuid \<Rightarrow> int \<Rightarrow> db \<Rightarrow> store_error + db" where
  "ConfirmRemoval rid generation =
     update_resource rid (\<lambda>r. r\<lparr>Presence := ResourceRemoved,
       LastConfirmedGeneration := generation\<rparr>)"

definition UpdateResourcePath ::
  "uuid \<Rightarrow> string option \<Rightarrow> uuid option \<Rightarrow> string option \<Rightarrow> int \<Rightarrow> db \<Rightarrow> store_error + db" where
  "UpdateResourcePath rid path parentID name generation =
     update_resource rid (\<lambda>r. r\<lparr>CanonicalPath := path, ParentResourceID := parentID,
       Name := name, LastConfirmedGeneration := generation\<rparr>)"

definition UpdateResourceAttributes :: "CanonicalResource \<Rightarrow> db \<Rightarrow> store_error + db" where
  "UpdateResourceAttributes u =
     update_resource (ResourceID u) (\<lambda>r. r\<lparr>Size := Size u, Mtime := Mtime u,
       ContentHash := ContentHash u, HashAlgorithm := HashAlgorithm u,
       ContentType := ContentType u, CurrentAttributes := CurrentAttributes u,
       LastConfirmedGeneration := LastConfirmedGeneration u\<rparr>)"

definition InsertIdentityEvidence :: "IdentityEvidenceObservation \<Rightarrow> db \<Rightarrow> store_error + db" where
  "InsertIdentityEvidence ob d =
     (if find_resource d (ob_ResourceID ob) = None \<or>
         (ob_ProviderObjectID ob = None) \<noteq> (ob_ProviderObjectIDScope ob = None)
      then Inl ErrConstraint
      else Inr (d\<lparr>db_observations := db_observations d @ [ob]\<rparr>))"

section \<open>Prior inventory\<close>

text \<open>A canonical row enriched with the latest observation of its resource.\<close>

definition latest_observation :: "db \<Rightarrow> uuid \<Rightarrow> IdentityEvidenceObservation option" where
  "latest_observation d rid = List.find (\<lambda>ob. ob_ResourceID ob = rid) (rev (db_observations d))"

definition enrich :: "db \<Rightarrow> CanonicalResource \<Rightarrow> PriorResource" where
  "enrich d r =
     CanonicalResource.extend r
       (case latest_observation d (ResourceID r) of
          None \<Rightarrow> \<lparr>ProviderObjectID = None, ProviderObjectIDScope = None,
                  ProviderIDAssurance = IdentityUnavailable\<rparr>
        | Some ob \<Rightarrow> \<lparr>ProviderObjectID = ob_ProviderObjectID ob,
                    ProviderObjectIDScope = ob_ProviderObjectIDScope ob,
                    ProviderIDAssurance = ob_ProviderIdentityAssurance ob\<rparr>)"

definition loadPriorWhere :: "db \<Rightarrow> (PriorResource \<Rightarrow> bool) \<Rightarrow> PriorResource list" where
  "loadPriorWhere d whr =
     sort_by (\<lambda>a b. ResourceID a < ResourceID b) (filter whr (map (enrich d) (db_resources d)))"

definition LoadPriorResources :: "db \<Rightarrow> uuid \<Rightarrow> PriorResource list" where
  "LoadPriorResources d rid = loadPriorWhere d (\<lambda>p. RootID p = rid)"

definition AppendObservation ::
  "uuid \<Rightarrow> uuid \<Rightarrow> SnapshotEntry \<Rightarrow> gotime \<Rightarrow> db \<Rightarrow> store_error + db" where
  "AppendObservation snapshotID resourceID entry observedAt =
     InsertIdentityEvidence
       \<lparr>ob_ResourceID = resourceID, ob_SnapshotID = snapshotID, ob_SourceRef = None,
        ob_ObservedAt = observedAt, ob_ProviderObjectID = se_ProviderObjectID entry,
        ob_ProviderObjectIDScope = se_ProviderObjectIDScope entry,
        ob_ProviderIdentityAssurance =
          (case se_ProviderIdentityAssurance entry of None \<Rightarrow> IdentityUnverified | Some a \<Rightarrow> a),
        ob_ContentHash = se_ContentHash entry, ob_HashAlgorithm = se_HashAlgorithm entry,
        ob_ObservedPath = Some (EntryPath entry), ob_ObservedParentRef = None,
        ob_Size = se_Size entry, ob_Mtime = se_Mtime entry, ob_IsDir = se_IsDir entry,
        ob_ExtraEvidence = None\<rparr>"

section \<open>Snapshots\<close>

definition find_snapshot :: "db \<Rightarrow> uuid \<Rightarrow> Snapshot option" where
  "find_snapshot d sid = List.find (\<lambda>s. sn_SnapshotID s = sid) (db_snapshots d)"

definition c_snapshot :: "Snapshot \<Rightarrow> bool" where
  "c_snapshot s \<longleftrightarrow>
     (sn_SkippedScopesKnownEmpty s \<longrightarrow> sn_SkippedScopes s = None \<or> sn_SkippedScopes s = Some ''[]'')"

definition InsertSnapshotStub :: "Snapshot \<Rightarrow> db \<Rightarrow> store_error + db" where
  "InsertSnapshotStub s d =
     (if find_snapshot d (sn_SnapshotID s) \<noteq> None \<or> find_root d (sn_RootID s) = None \<or>
         \<not> c_snapshot s
      then Inl ErrConstraint
      else Inr (d\<lparr>db_snapshots := db_snapshots d @
             [s\<lparr>sn_ScopeShrinkCorroboration := None, sn_AcceptanceState := None\<rparr>]\<rparr>))"

definition update_snapshot :: "uuid \<Rightarrow> (Snapshot \<Rightarrow> Snapshot) \<Rightarrow> db \<Rightarrow> db" where
  "update_snapshot sid f d =
     d\<lparr>db_snapshots := map (\<lambda>s. if sn_SnapshotID s = sid then f s else s) (db_snapshots d)\<rparr>"

definition MarkSnapshotSubmitted :: "uuid \<Rightarrow> db \<Rightarrow> store_error + db" where
  "MarkSnapshotSubmitted sid d =
     (case find_snapshot d sid of
        None \<Rightarrow> Inl ErrNotFound
      | Some s \<Rightarrow>
          if sn_LifecycleState s \<noteq> SnapshotDraft then Inl ErrNotFound
          else Inr (update_snapshot sid (\<lambda>s. s\<lparr>sn_LifecycleState := SnapshotSubmitted\<rparr>) d))"

definition SetSnapshotEvaluated ::
  "uuid \<Rightarrow> AcceptanceState \<Rightarrow> ScopeShrinkCorroboration option \<Rightarrow> db \<Rightarrow> store_error + db" where
  "SetSnapshotEvaluated sid acceptance corroboration d =
     (case find_snapshot d sid of
        None \<Rightarrow> Inl ErrNotFound
      | Some s \<Rightarrow>
          if sn_LifecycleState s \<noteq> SnapshotSubmitted then Inl ErrNotFound
          else Inr (update_snapshot sid (\<lambda>s. s\<lparr>sn_AcceptanceState := Some acceptance,
                 sn_ScopeShrinkCorroboration := corroboration,
                 sn_LifecycleState := SnapshotEvaluated\<rparr>) d))"

definition SetSnapshotLifecycleState :: "uuid \<Rightarrow> SnapshotLifecycleState \<Rightarrow> db \<Rightarrow> db" where
  "SetSnapshotLifecycleState sid st = update_snapshot sid (\<lambda>s. s\<lparr>sn_LifecycleState := st\<rparr>)"

definition GetSnapshot :: "db \<Rightarrow> uuid \<Rightarrow> store_error + Snapshot" where
  "GetSnapshot d sid = (case find_snapshot d sid of None \<Rightarrow> Inl ErrNotFound | Some s \<Rightarrow> Inr s)"

definition InsertSnapshotEntry :: "SnapshotEntry \<Rightarrow> db \<Rightarrow> store_error + db" where
  "InsertSnapshotEntry e d =
     (if find_snapshot d (se_SnapshotID e) = None \<or>
         list_ex (\<lambda>e'. se_SnapshotID e' = se_SnapshotID e \<and> se_EntryLocalID e' = se_EntryLocalID e)
           (db_entries d)
      then Inl ErrConstraint
      else Inr (d\<lparr>db_entries := db_entries d @ [e]\<rparr>))"

definition entry_before :: "SnapshotEntry \<Rightarrow> SnapshotEntry \<Rightarrow> bool" where
  "entry_before a b \<longleftrightarrow>
     (se_ParentRef a, se_Name a, se_EntryLocalID a) < (se_ParentRef b, se_Name b, se_EntryLocalID b)"

definition ListSnapshotEntries :: "db \<Rightarrow> uuid \<Rightarrow> SnapshotEntry list" where
  "ListSnapshotEntries d sid =
     sort_by entry_before (filter (\<lambda>e. se_SnapshotID e = sid) (db_entries d))"

section \<open>Admissions\<close>

definition find_admission :: "db \<Rightarrow> uuid \<Rightarrow> int \<Rightarrow> Admission option" where
  "find_admission d rid seq =
     List.find (\<lambda>a. adm_RootID a = rid \<and> adm_AdmissionSeq a = seq) (db_admissions d)"

definition insert_admission :: "uuid \<Rightarrow> int \<Rightarrow> uuid \<Rightarrow> db \<Rightarrow> store_error + db" where
  "insert_admission rid seq sid d =
     (if find_root d rid = None \<or> find_admission d rid seq \<noteq> None then Inl ErrConstraint
      else Inr (d\<lparr>db_admissions := db_admissions d @
             [\<lparr>adm_RootID = rid, adm_AdmissionSeq = seq, adm_SnapshotID = sid,
               adm_Status = AdmissionPending, adm_AppliedGeneration = None, adm_ClaimedBy = None,
               adm_ClaimedAt = None, adm_LeaseExpiresAt = None\<rparr>]\<rparr>))"

text \<open>Advance the root's sequence and insert the pending row under the root lock.\<close>

definition AllocateAdmission :: "uuid \<Rightarrow> uuid \<Rightarrow> db \<Rightarrow> store_error + (int \<times> db)" where
  "AllocateAdmission rid sid d =
     (case find_root d rid of
        None \<Rightarrow> Inl ErrNotFound
      | Some r \<Rightarrow>
          let seq = root_LatestAdmissionSeq r + 1;
              d1 = update_root rid (\<lambda>r. r\<lparr>root_LatestAdmissionSeq := root_LatestAdmissionSeq r + 1\<rparr>) d
          in and_then (insert_admission rid seq sid d1) (\<lambda>d2. Inr (seq, d2)))"

definition GetAdmission :: "db \<Rightarrow> uuid \<Rightarrow> int \<Rightarrow> store_error + Admission" where
  "GetAdmission d rid seq =
     (case find_admission d rid seq of None \<Rightarrow> Inl ErrNotFound | Some a \<Rightarrow> Inr a)"

definition pending :: "db \<Rightarrow> uuid \<Rightarrow> Admission list" where
  "pending d rid =
     filter (\<lambda>a. adm_RootID a = rid \<and> adm_Status a = AdmissionPending) (db_admissions d)"

text \<open>\<open>SELECT min(admission_seq)\<close> over the pending rows, and the row that
  \<open>ORDER BY admission_seq LIMIT 1\<close> gives.\<close>

fun min_of :: "int list \<Rightarrow> int option" where
  "min_of [] = None"
| "min_of (x # xs) = (case min_of xs of None \<Rightarrow> Some x | Some m \<Rightarrow> Some (min x m))"

fun max_of :: "int list \<Rightarrow> int option" where
  "max_of [] = None"
| "max_of (x # xs) = (case max_of xs of None \<Rightarrow> Some x | Some m \<Rightarrow> Some (max x m))"

definition head_seq :: "db \<Rightarrow> uuid \<Rightarrow> int option" where
  "head_seq d rid = min_of (map adm_AdmissionSeq (pending d rid))"

definition HeadAdmission :: "db \<Rightarrow> uuid \<Rightarrow> store_error + Admission" where
  "HeadAdmission d rid =
     (case sort_by (\<lambda>a b. adm_AdmissionSeq a < adm_AdmissionSeq b) (pending d rid) of
        [] \<Rightarrow> Inl ErrNotFound
      | a # _ \<Rightarrow> Inr a)"

definition update_admission :: "uuid \<Rightarrow> int \<Rightarrow> (Admission \<Rightarrow> Admission) \<Rightarrow> db \<Rightarrow> db" where
  "update_admission rid seq f d =
     d\<lparr>db_admissions := map (\<lambda>a. if adm_RootID a = rid \<and> adm_AdmissionSeq a = seq then f a else a)
        (db_admissions d)\<rparr>"

definition ClaimHead :: "uuid \<Rightarrow> int \<Rightarrow> string \<Rightarrow> int \<Rightarrow> gotime \<Rightarrow> db \<Rightarrow> store_error + db" where
  "ClaimHead rid seq claimedBy leaseSeconds now d =
     (case find_admission d rid seq of
        None \<Rightarrow> Inl ErrNotFound
      | Some a \<Rightarrow>
          if adm_Status a = AdmissionPending \<and>
             (adm_ClaimedBy a = None \<or>
              (case adm_LeaseExpiresAt a of None \<Rightarrow> False | Some t \<Rightarrow> t < now))
          then Inr (update_admission rid seq (\<lambda>a. a\<lparr>adm_ClaimedBy := Some claimedBy,
                 adm_ClaimedAt := Some now,
                 adm_LeaseExpiresAt := Some (now + leaseSeconds * second)\<rparr>) d)
          else Inl ErrNotFound)"

definition SetAdmissionStatus ::
  "uuid \<Rightarrow> int \<Rightarrow> AdmissionStatus \<Rightarrow> int option \<Rightarrow> db \<Rightarrow> db" where
  "SetAdmissionStatus rid seq st appliedGeneration =
     update_admission rid seq
       (\<lambda>a. a\<lparr>adm_Status := st, adm_AppliedGeneration := appliedGeneration\<rparr>)"

definition AppliedMax :: "db \<Rightarrow> uuid \<Rightarrow> int" where
  "AppliedMax d rid =
     (case max_of (map adm_AdmissionSeq
         (filter (\<lambda>a. adm_RootID a = rid \<and> adm_Status a = AdmissionApplied) (db_admissions d))) of
        None \<Rightarrow> 0 | Some n \<Rightarrow> n)"

definition PendingRoots :: "db \<Rightarrow> uuid list" where
  "PendingRoots d =
     sort_strings (remdups (map adm_RootID
       (filter (\<lambda>a. adm_Status a = AdmissionPending) (db_admissions d))))"

definition PendingHead :: "db \<Rightarrow> uuid \<Rightarrow> (int \<times> uuid) option" where
  "PendingHead d rid =
     (case HeadAdmission d rid of
        Inl _ \<Rightarrow> None
      | Inr a \<Rightarrow> Some (adm_AdmissionSeq a, adm_SnapshotID a))"

section \<open>Application history\<close>

definition applied_key :: "AppliedSnapshot \<Rightarrow> uuid \<times> SnapshotIdentity \<times> int" where
  "applied_key a = (ap_RootID a, ap_Identity a, ap_AppliedGeneration a)"

definition AppliedExistsAtGeneration :: "db \<Rightarrow> uuid \<Rightarrow> SnapshotIdentity \<Rightarrow> int \<Rightarrow> bool" where
  "AppliedExistsAtGeneration d rid ident generation =
     list_ex (\<lambda>a. ap_RootID a = rid \<and> identity_Equal (ap_Identity a) ident \<and>
        ap_AppliedGeneration a = generation) (db_applied d)"

definition InsertAppliedSnapshot :: "AppliedSnapshot \<Rightarrow> db \<Rightarrow> store_error + db" where
  "InsertAppliedSnapshot a d =
     (if find_root d (ap_RootID a) = None \<or> list_ex (\<lambda>b. applied_key b = applied_key a) (db_applied d)
      then Inl ErrConstraint
      else Inr (d\<lparr>db_applied := db_applied d @ [a]\<rparr>))"

definition MaxAppliedGeneration :: "db \<Rightarrow> uuid \<Rightarrow> SnapshotIdentity \<Rightarrow> int" where
  "MaxAppliedGeneration d rid ident =
     (case max_of (map ap_AppliedGeneration
         (filter (\<lambda>a. ap_RootID a = rid \<and> identity_Equal (ap_Identity a) ident) (db_applied d))) of
        None \<Rightarrow> 0 | Some n \<Rightarrow> n)"

section \<open>Generations, journal and results\<close>

definition InsertGeneration :: "Generation \<Rightarrow> db \<Rightarrow> store_error + db" where
  "InsertGeneration g d =
     (if gen_GenerationNumber g \<le> 0 \<or> find_root d (gen_RootID g) = None \<or>
         list_ex (\<lambda>h. gen_RootID h = gen_RootID g \<and>
           gen_GenerationNumber h = gen_GenerationNumber g) (db_generations d)
      then Inl ErrConstraint
      else Inr (d\<lparr>db_generations := db_generations d @ [g]\<rparr>))"

definition root_events :: "db \<Rightarrow> uuid \<Rightarrow> JournalEvent list" where
  "root_events d rid = filter (\<lambda>e. ev_RootID e = rid) (db_journal d)"

definition MaxEventSeq :: "db \<Rightarrow> uuid \<Rightarrow> int" where
  "MaxEventSeq d rid =
     (case max_of (map ev_EventSeq (root_events d rid)) of None \<Rightarrow> 0 | Some n \<Rightarrow> n)"

definition NextEventSeq :: "db \<Rightarrow> uuid \<Rightarrow> int" where
  "NextEventSeq d rid =
     (case max_of (map ev_EventSeq (root_events d rid)) of None \<Rightarrow> 1 | Some n \<Rightarrow> n + 1)"

definition NextIntraGenerationSeq :: "db \<Rightarrow> uuid \<Rightarrow> int \<Rightarrow> int" where
  "NextIntraGenerationSeq d rid generation =
     (case max_of (map ev_IntraGenerationSeq
         (filter (\<lambda>e. ev_GenerationNumber e = generation) (root_events d rid))) of
        None \<Rightarrow> 1 | Some n \<Rightarrow> n + 1)"

definition AppendJournalEvent :: "JournalEvent \<Rightarrow> db \<Rightarrow> store_error + db" where
  "AppendJournalEvent e d =
     (if ev_EventSeq e \<le> 0 \<or> ev_IntraGenerationSeq e \<le> 0 \<or> find_root d (ev_RootID e) = None \<or>
         list_ex (\<lambda>f. ev_EventSeq f = ev_EventSeq e \<or>
           (ev_GenerationNumber f = ev_GenerationNumber e \<and>
            ev_IntraGenerationSeq f = ev_IntraGenerationSeq e)) (root_events d (ev_RootID e))
      then Inl ErrConstraint
      else Inr (d\<lparr>db_journal := db_journal d @ [e]\<rparr>))"

definition ReadJournal :: "db \<Rightarrow> uuid \<Rightarrow> int \<Rightarrow> nat \<Rightarrow> JournalEvent list" where
  "ReadJournal d rid afterSeq limit =
     take limit (sort_by (\<lambda>a b. ev_EventSeq a < ev_EventSeq b)
       (filter (\<lambda>e. ev_EventSeq e > afterSeq) (root_events d rid)))"

text \<open>A result row names its generation only when the input was reconciled or found applied.\<close>

definition insertResult ::
  "uuid \<Rightarrow> int \<Rightarrow> int \<Rightarrow> ReconcileOutcomeKind \<Rightarrow> string \<Rightarrow> db \<Rightarrow> db" where
  "insertResult rid seq generation outcome reason d =
     d\<lparr>db_results := db_results d @
        [\<lparr>rr_RootID = rid, rr_AdmissionSeq = seq,
          rr_GenerationNumber = (if outcome = ReconcileReconciled \<or> outcome = ReconcileNoop
                                 then Some generation else None),
          rr_Outcome = outcome,
          rr_RejectionReason = (if reason = [] then None else Some reason)\<rparr>]\<rparr>"

section \<open>Configuration and operational rows\<close>

definition find_adapter :: "db \<Rightarrow> uuid \<Rightarrow> AdapterConfig option" where
  "find_adapter d rid = List.find (\<lambda>a. ac_RootID a = rid) (db_adapters d)"

definition find_policy :: "db \<Rightarrow> uuid \<Rightarrow> RootPolicy option" where
  "find_policy d rid = List.find (\<lambda>p. rp_RootID p = rid) (db_policies d)"

definition find_watch :: "db \<Rightarrow> uuid \<Rightarrow> string \<Rightarrow> ScopeWatchState option" where
  "find_watch d rid key = List.find (\<lambda>w. sw_RootID w = rid \<and> sw_ScopeKey w = key) (db_watches d)"

definition find_work :: "db \<Rightarrow> uuid \<Rightarrow> string \<Rightarrow> DirtyScopeWork option" where
  "find_work d rid key = List.find (\<lambda>w. wk_RootID w = rid \<and> wk_ScopeKey w = key) (db_works d)"

end
