(* ===== verification/Identity.thy ===== *)
theory Identity
  imports Domain Sha256
begin

text \<open>
  The kernel-owned snapshot identity (\<open>internal/kernel/identity\<close>): a SHA-256 digest of the sorted,
  length-prefixed entries and of the decision-relevant evidence, and the digest that adds a
  directory coverage claim. The facts show that the digest does not depend on the order of the
  entries, and that the hashed byte string determines them.
\<close>

section \<open>Digest input\<close>

definition DigestNamespace :: string where
  "DigestNamespace = ''kernel.index-core/io3''"

definition DigestVersion :: string where
  "DigestVersion = ''v3-live-copies''"

record Entry =
  de_ParentRef :: string
  de_Name :: string
  de_IsDir :: bool
  de_Size :: "int64 option"
  de_MTimeUnixNano :: "int64 option"
  de_ContentHash :: string
  de_HashAlgorithm :: string
  de_ContentType :: string
  de_ProviderObjectID :: string
  de_ProviderObjectIDScope :: string
  de_ProviderAssurance :: string

record DigestEvidence =
  dv_TraversalStatus :: string
  dv_ErrorSummaryCanonical :: string
  dv_SkippedScopesCanonical :: string
  dv_Freshness :: string
  dv_Assurance :: string
  dv_ScopeShrinkCorroboration :: string
  dv_RemovalDecisionContext :: string

section \<open>Entry order\<close>

definition cmpStr :: "string \<Rightarrow> string \<Rightarrow> int" where
  "cmpStr a b = (if a < b then - 1 else if a > b then 1 else 0)"

definition cmpOptInt :: "int64 option \<Rightarrow> int64 option \<Rightarrow> int" where
  "cmpOptInt a b =
     (case (a, b) of
        (None, None) \<Rightarrow> 0
      | (None, Some _) \<Rightarrow> - 1
      | (Some _, None) \<Rightarrow> 1
      | (Some x, Some y) \<Rightarrow> if sint x < sint y then - 1 else if sint x > sint y then 1 else 0)"

definition lessEntry :: "Entry \<Rightarrow> Entry \<Rightarrow> bool" where
  "lessEntry a b =
     (if cmpStr (de_ParentRef a) (de_ParentRef b) \<noteq> 0
      then cmpStr (de_ParentRef a) (de_ParentRef b) < 0
      else if cmpStr (de_Name a) (de_Name b) \<noteq> 0 then cmpStr (de_Name a) (de_Name b) < 0
      else if de_IsDir a \<noteq> de_IsDir b then \<not> de_IsDir a
      else if cmpOptInt (de_Size a) (de_Size b) \<noteq> 0 then cmpOptInt (de_Size a) (de_Size b) < 0
      else if cmpOptInt (de_MTimeUnixNano a) (de_MTimeUnixNano b) \<noteq> 0
      then cmpOptInt (de_MTimeUnixNano a) (de_MTimeUnixNano b) < 0
      else if cmpStr (de_ContentHash a) (de_ContentHash b) \<noteq> 0
      then cmpStr (de_ContentHash a) (de_ContentHash b) < 0
      else if cmpStr (de_HashAlgorithm a) (de_HashAlgorithm b) \<noteq> 0
      then cmpStr (de_HashAlgorithm a) (de_HashAlgorithm b) < 0
      else if cmpStr (de_ContentType a) (de_ContentType b) \<noteq> 0
      then cmpStr (de_ContentType a) (de_ContentType b) < 0
      else if cmpStr (de_ProviderObjectID a) (de_ProviderObjectID b) \<noteq> 0
      then cmpStr (de_ProviderObjectID a) (de_ProviderObjectID b) < 0
      else if cmpStr (de_ProviderObjectIDScope a) (de_ProviderObjectIDScope b) \<noteq> 0
      then cmpStr (de_ProviderObjectIDScope a) (de_ProviderObjectIDScope b) < 0
      else cmpStr (de_ProviderAssurance a) (de_ProviderAssurance b) < 0)"

section \<open>The hashed byte string\<close>

definition writeTag :: "string \<Rightarrow> string" where
  "writeTag s = be_bytes 8 (length s) @ s"

definition writeBool :: "bool \<Rightarrow> string" where
  "writeBool v = [if v then CHR 0x01 else CHR 0x00]"

definition writeOptInt :: "int64 option \<Rightarrow> string" where
  "writeOptInt v = (case v of None \<Rightarrow> [CHR 0x00] | Some x \<Rightarrow> CHR 0x01 # be_bytes 8 (unat x))"

definition write_entry :: "Entry \<Rightarrow> string" where
  "write_entry e =
     writeTag ''entry'' @ writeTag (de_ParentRef e) @ writeTag (de_Name e) @
     writeBool (de_IsDir e) @ writeOptInt (de_Size e) @ writeOptInt (de_MTimeUnixNano e) @
     writeTag (de_ContentHash e) @ writeTag (de_HashAlgorithm e) @ writeTag (de_ContentType e) @
     writeTag (de_ProviderObjectID e) @ writeTag (de_ProviderObjectIDScope e) @
     writeTag (de_ProviderAssurance e)"

definition write_evidence :: "DigestEvidence \<Rightarrow> string" where
  "write_evidence ev =
     writeTag ''evidence'' @ writeTag (dv_TraversalStatus ev) @
     writeTag (dv_ErrorSummaryCanonical ev) @ writeTag (dv_SkippedScopesCanonical ev) @
     writeTag (dv_Freshness ev) @ writeTag (dv_Assurance ev) @
     writeTag (dv_ScopeShrinkCorroboration ev) @ writeTag (dv_RemovalDecisionContext ev)"

definition digest_input :: "Entry list \<Rightarrow> DigestEvidence \<Rightarrow> string" where
  "digest_input entries ev =
     writeTag ''index-core/io3'' @ writeTag DigestVersion @
     concat (map write_entry (sort_by lessEntry entries)) @ write_evidence ev"

definition FinalDigest :: "Entry list \<Rightarrow> DigestEvidence \<Rightarrow> SnapshotIdentity" where
  "FinalDigest entries ev =
     \<lparr>id_Kind = IdentityDeterministicDigest, id_Namespace = DigestNamespace,
      id_Version = DigestVersion, id_Value = hex_encode (sha256 (digest_input entries ev))\<rparr>"

definition directory_input :: "SnapshotIdentity \<Rightarrow> DirectoryCoverage \<Rightarrow> string" where
  "directory_input base coverage =
     writeTag ''directory-coverage-v4-live-copies'' @ writeTag (id_Value base) @
     writeTag (dc_Path coverage) @ writeTag (dc_AdapterDigest coverage) @
     writeTag (format_int (dc_EntryCount coverage)) @ writeTag (dc_TopologyDigest coverage)"

definition DirectoryDigest :: "SnapshotIdentity \<Rightarrow> DirectoryCoverage \<Rightarrow> SnapshotIdentity" where
  "DirectoryDigest base coverage =
     base\<lparr>id_Version := ''v6-directory-coverage'',
          id_Value := hex_encode (sha256 (directory_input base coverage))\<rparr>"

section \<open>The entry order is total\<close>

text \<open>The key that \<open>lessEntry\<close> compares field by field.\<close>

definition entry_key :: "Entry \<Rightarrow>
    string \<times> string \<times> bool \<times> int option \<times> int option \<times> string \<times> string \<times> string \<times> string
    \<times> string \<times> string" where
  "entry_key e =
     (de_ParentRef e, de_Name e, de_IsDir e, map_option sint (de_Size e),
      map_option sint (de_MTimeUnixNano e), de_ContentHash e, de_HashAlgorithm e,
      de_ContentType e, de_ProviderObjectID e, de_ProviderObjectIDScope e,
      de_ProviderAssurance e)"

lemma cmpStr_simps [simp]: "cmpStr a b = 0 \<longleftrightarrow> a = b" "cmpStr a b < 0 \<longleftrightarrow> a < b"
  by (auto simp: cmpStr_def)

lemma cmpOptInt_simps [simp]:
  "cmpOptInt a b = 0 \<longleftrightarrow> map_option sint a = map_option sint b"
  "cmpOptInt a b < 0 \<longleftrightarrow> map_option sint a < map_option sint b"
  by (auto simp: cmpOptInt_def split: option.splits)

lemma bool_less_step: "(x :: bool) \<noteq> y \<Longrightarrow> (\<not> x) = (x < y)"
  by auto

lemma lessEntry_key: "lessEntry a b \<longleftrightarrow> entry_key a < entry_key b"
  unfolding lessEntry_def entry_key_def pair_less_step cmpStr_simps cmpOptInt_simps
  by (simp add: bool_less_step cong: if_cong)

lemma map_option_sint_inj: "map_option sint a = map_option sint (b :: int64 option) \<Longrightarrow> a = b"
  by (cases a; cases b) (auto intro: signed_word_eqI)

interpretation entry_order: total_key_order lessEntry entry_key
proof unfold_locales
  show "lessEntry a b \<longleftrightarrow> entry_key a < entry_key b" for a b by (rule lessEntry_key)
  show "entry_key a = entry_key b \<Longrightarrow> a = b" for a b
    by (cases a; cases b) (auto simp: entry_key_def dest: map_option_sint_inj)
qed

section \<open>The byte string is uniquely decodable\<close>

text \<open>A Go string is shorter than \<open>2^63\<close> bytes, so its length prefix is exact.\<close>

definition short :: "string \<Rightarrow> bool" where
  "short s \<longleftrightarrow> length s < 2 ^ 63"

lemma writeTag_split:
  assumes "short s" and "short t"
  shows "writeTag s @ r = writeTag t @ r' \<longleftrightarrow> s = t \<and> r = r'"
proof
  assume eq: "writeTag s @ r = writeTag t @ r'"
  then have "be_bytes 8 (length s) = be_bytes 8 (length t)"
    unfolding writeTag_def append_assoc by (subst (asm) append_eq_append_conv) simp_all
  moreover have "length s < 256 ^ 8" "length t < 256 ^ 8" using assms by (simp_all add: short_def)
  ultimately have "length s = length t" by (simp add: be_bytes_inj)
  with eq show "s = t \<and> r = r'" by (simp add: writeTag_def)
qed simp

lemma writeBool_split: "writeBool a @ r = writeBool b @ r' \<longleftrightarrow> a = b \<and> r = r'"
  by (auto simp: writeBool_def)

lemma be8_word_inj: "be_bytes 8 (unat (x :: int64)) = be_bytes 8 (unat y) \<longleftrightarrow> x = y"
proof -
  have "unat z < 256 ^ 8" for z :: int64 using unsigned_less [of z, where 'a = nat] by simp
  then show ?thesis by (auto simp: be_bytes_inj intro: unsigned_word_eqI)
qed

lemma writeOptInt_split: "writeOptInt a @ r = writeOptInt b @ r' \<longleftrightarrow> a = b \<and> r = r'"
  by (cases a; cases b) (auto simp: writeOptInt_def be8_word_inj)

definition entry_short :: "Entry \<Rightarrow> bool" where
  "entry_short e \<longleftrightarrow>
     list_all short [de_ParentRef e, de_Name e, de_ContentHash e, de_HashAlgorithm e,
       de_ContentType e, de_ProviderObjectID e, de_ProviderObjectIDScope e, de_ProviderAssurance e]"

definition evidence_short :: "DigestEvidence \<Rightarrow> bool" where
  "evidence_short ev \<longleftrightarrow>
     list_all short [dv_TraversalStatus ev, dv_ErrorSummaryCanonical ev,
       dv_SkippedScopesCanonical ev, dv_Freshness ev, dv_Assurance ev,
       dv_ScopeShrinkCorroboration ev, dv_RemovalDecisionContext ev]"

lemmas write_splits = writeTag_split writeBool_split writeOptInt_split

lemma write_entry_split:
  assumes "entry_short a" and "entry_short b"
  shows "write_entry a @ r = write_entry b @ r' \<longleftrightarrow> a = b \<and> r = r'"
  using assms by (cases a; cases b) (auto simp: write_entry_def entry_short_def write_splits)

lemma writeTag_inj: "short s \<Longrightarrow> short t \<Longrightarrow> writeTag s = writeTag t \<longleftrightarrow> s = t"
  using writeTag_split [of s t "[]" "[]"] by simp

lemma write_evidence_inj:
  assumes "evidence_short a" and "evidence_short b"
  shows "write_evidence a = write_evidence b \<longleftrightarrow> a = b"
  using assms
  by (cases a; cases b)
     (auto simp: write_evidence_def evidence_short_def writeTag_split writeTag_inj)

lemma entry_vs_evidence: "write_entry e @ r \<noteq> write_evidence ev"
proof
  assume "write_entry e @ r = write_evidence ev"
  then have "writeTag ''entry'' @ drop 13 (write_entry e @ r)
      = writeTag ''evidence'' @ drop 16 (write_evidence ev)"
    by (simp add: write_entry_def write_evidence_def writeTag_def)
  then show False by (subst (asm) writeTag_split) (simp_all add: short_def)
qed

lemma entries_split:
  assumes "list_all entry_short xs" and "list_all entry_short ys"
    and "evidence_short ev" and "evidence_short ev'"
    and "concat (map write_entry xs) @ write_evidence ev =
         concat (map write_entry ys) @ write_evidence ev'"
  shows "xs = ys \<and> ev = ev'"
  using assms(1,2,5)
proof (induction xs arbitrary: ys)
  case Nil
  then show ?case
    using assms(3,4) entry_vs_evidence [symmetric] by (cases ys) (auto simp: write_evidence_inj)
next
  case (Cons x xs)
  then show ?case
    using entry_vs_evidence by (cases ys) (auto simp: write_entry_split)
qed

lemma digest_input_inj:
  assumes "list_all entry_short xs" and "list_all entry_short ys"
    and "evidence_short ev" and "evidence_short ev'"
    and "digest_input xs ev = digest_input ys ev'"
  shows "mset xs = mset ys \<and> ev = ev'"
proof -
  have "sort_by lessEntry xs = sort_by lessEntry ys \<and> ev = ev'"
    using assms by (intro entries_split) (auto simp: digest_input_def list_all_iff)
  then show ?thesis by (metis mset_sort_by)
qed

section \<open>Properties\<close>

lemma digest_input_perm:
  "mset xs = mset ys \<Longrightarrow> digest_input xs ev = digest_input ys ev"
  using entry_order.sorted_unique [of xs ys] by (simp add: digest_input_def)

definition sample_digest_entry :: "string \<Rightarrow> Entry" where
  "sample_digest_entry nm =
     \<lparr>de_ParentRef = ''/'', de_Name = nm, de_IsDir = False, de_Size = Some 7,
      de_MTimeUnixNano = None, de_ContentHash = [], de_HashAlgorithm = [], de_ContentType = [],
      de_ProviderObjectID = [], de_ProviderObjectIDScope = [], de_ProviderAssurance = []\<rparr>"

definition sample_digest_evidence :: DigestEvidence where
  "sample_digest_evidence =
     \<lparr>dv_TraversalStatus = ''SUCCESS'', dv_ErrorSummaryCanonical = [],
      dv_SkippedScopesCanonical = [], dv_Freshness = ''FRESH_DIRECT'',
      dv_Assurance = ''STRONG_FAILURE_VISIBILITY'', dv_ScopeShrinkCorroboration = ''NONE'',
      dv_RemovalDecisionContext = []\<rparr>"

text \<open>
  The snapshot identity does not depend on the order in which the entries were read.
\<close>

theorem FinalDigest_order_independent:
  assumes "mset xs = mset ys"
  shows "FinalDigest xs ev = FinalDigest ys ev"
  using assms by (simp add: FinalDigest_def digest_input_perm [of xs ys])

theorem FinalDigest_order_independent_witness:
  "FinalDigest [sample_digest_entry ''a'', sample_digest_entry ''b''] sample_digest_evidence =
   FinalDigest [sample_digest_entry ''b'', sample_digest_entry ''a''] sample_digest_evidence"
  by (rule FinalDigest_order_independent) simp

text \<open>
  The snapshot identity determines the content. Two snapshots with the same identity have the
  same entries, up to their order, and the same evidence, or they exhibit two different byte
  strings with the same SHA-256 digest: no confusion comes from the encoding.
\<close>

theorem FinalDigest_determines:
  assumes "list_all entry_short xs" and "list_all entry_short ys"
    and "evidence_short ev" and "evidence_short ev'"
    and "FinalDigest xs ev = FinalDigest ys ev'"
  shows "(mset xs = mset ys \<and> ev = ev') \<or>
    (\<exists>m m'. m \<noteq> m' \<and> sha256 m = sha256 m')"
proof (cases "digest_input xs ev = digest_input ys ev'")
  case True
  with assms show ?thesis using digest_input_inj [of xs ys ev ev'] by blast
next
  case False
  from assms(5) have "sha256 (digest_input xs ev) = sha256 (digest_input ys ev')"
    by (simp add: FinalDigest_def hex_encode_inj)
  with False show ?thesis by blast
qed

theorem FinalDigest_determines_witness:
  "(mset [sample_digest_entry ''a'', sample_digest_entry ''b''] =
      mset [sample_digest_entry ''b'', sample_digest_entry ''a''] \<and>
    sample_digest_evidence = sample_digest_evidence) \<or>
   (\<exists>m m'. m \<noteq> m' \<and> sha256 m = sha256 m')"
proof (rule FinalDigest_determines)
  let ?xs = "[sample_digest_entry ''a'', sample_digest_entry ''b'']"
  let ?ys = "[sample_digest_entry ''b'', sample_digest_entry ''a'']"
  show "list_all entry_short ?xs" "list_all entry_short ?ys"
    by (simp_all add: entry_short_def short_def sample_digest_entry_def)
  show "evidence_short sample_digest_evidence" "evidence_short sample_digest_evidence"
    by (simp_all add: evidence_short_def short_def sample_digest_evidence_def)
  show "FinalDigest ?xs sample_digest_evidence = FinalDigest ?ys sample_digest_evidence"
    by (simp add: FinalDigest_def digest_input_perm [of ?xs ?ys])
qed

end
