(* ===== verification/Fence.thy ===== *)
theory Fence
  imports Store Identity
begin

text \<open>
  Receipts and fences of the store: the terminal receipt of a processed snapshot
  (\<open>terminal_snapshot.go\<close>), the check that a lost head was durably consumed
  (\<open>consumed_stale_head.go\<close>), the optional scoped fetch fence and its read lineage
  (\<open>scoped_fetch_fence.go\<close>, \<open>scoped_read_lineage.go\<close>) and the revalidation of directory
  coverage (\<open>directory_coverage.go\<close>). All of them only read the database, except the batch
  freeze, which inserts drafts.
\<close>

section \<open>Environment\<close>

text \<open>
  What a transaction takes from outside: the readings of the database clock in order, the JSON
  text of inventory rows (which also shows audit columns that the model leaves out, hence its
  dependence on the database), and whether the driver serves a query while the rows of an earlier
  one are still open on the same transaction (pgx answers that the connection is busy).
\<close>

record env =
  env_Clock :: "nat \<Rightarrow> gotime"
  env_Marshal :: "db \<Rightarrow> PriorResource list \<Rightarrow> string"
  env_NestedQuery :: bool

definition later_clock :: "nat \<Rightarrow> env \<Rightarrow> env" where
  "later_clock n ev = ev\<lparr>env_Clock := (\<lambda>i. env_Clock ev (i + n))\<rparr>"

record ReconcileOutcome =
  oc_Status :: AdmissionStatus
  oc_SnapshotLifecycle :: SnapshotLifecycleState
  oc_Generation :: int
  oc_AppliedGeneration :: int
  oc_Mutated :: bool

section \<open>Terminal receipts\<close>

definition admission_receipt :: "uuid \<Rightarrow> int \<Rightarrow> int \<Rightarrow> Admission \<Rightarrow> int \<Rightarrow> bool" where
  "admission_receipt rid expectedSeq currentGen a g \<longleftrightarrow>
     adm_RootID a = rid \<and> adm_AdmissionSeq a > 0 \<and>
     (expectedSeq > 0 \<longrightarrow> adm_AdmissionSeq a = expectedSeq) \<and>
     adm_AppliedGeneration a = Some g \<and> 0 \<le> g \<and> g \<le> currentGen \<and>
     (adm_Status a = AdmissionApplied \<or> adm_Status a = AdmissionNoop)"

definition result_receipt :: "db \<Rightarrow> uuid \<Rightarrow> Admission \<Rightarrow> int \<Rightarrow> bool" where
  "result_receipt d rid a g =
     (case filter (\<lambda>r. rr_RootID r = rid \<and> rr_AdmissionSeq r = adm_AdmissionSeq a) (db_results d) of
        [r] \<Rightarrow> rr_Outcome r = (if adm_Status a = AdmissionNoop then ReconcileNoop
                                else ReconcileReconciled) \<and>
               rr_GenerationNumber r = Some g \<and> deref (rr_RejectionReason r) = []
      | _ \<Rightarrow> False)"

definition applied_receipt :: "db \<Rightarrow> uuid \<Rightarrow> uuid \<Rightarrow> Admission \<Rightarrow> int \<Rightarrow> bool" where
  "applied_receipt d rid sid a g =
     (let rows = filter (\<lambda>h. ap_SnapshotID h = sid) (db_applied d)
      in if adm_Status a = AdmissionApplied
         then (case rows of
                 [h] \<Rightarrow> ap_RootID h = rid \<and> ap_AppliedAdmissionSeq h = adm_AdmissionSeq a \<and>
                        ap_AppliedGeneration h = g
               | _ \<Rightarrow> False)
         else rows = [] \<and>
              list_ex (\<lambda>h. ap_RootID h = rid \<and> ap_AppliedGeneration h = g) (db_applied d))"

definition generation_rows :: "db \<Rightarrow> uuid \<Rightarrow> uuid \<Rightarrow> int \<Rightarrow> Generation list" where
  "generation_rows d rid sid seq =
     filter (\<lambda>g. gen_RootID g = rid \<and>
        (gen_ProducedBySnapshotID g = Some sid \<or> gen_ProducedByAdmissionSeq g = Some seq))
       (db_generations d)"

definition terminalSnapshotReceipt ::
  "db \<Rightarrow> uuid \<Rightarrow> uuid \<Rightarrow> int \<Rightarrow> int \<Rightarrow> store_error + (int \<times> ReconcileOutcome)" where
  "terminalSnapshotReceipt d rid sid expectedSeq currentGen =
     (if currentGen < 0 \<or> expectedSeq < 0 then Inl ErrTerminalSnapshot
      else case find_snapshot d sid of
        None \<Rightarrow> Inl ErrNoRows
      | Some s \<Rightarrow>
          if sn_RootID s \<noteq> rid \<or> sn_LifecycleState s \<noteq> SnapshotReconciled \<or>
             sn_AcceptanceState s = None \<or> sn_AcceptanceState s = Some AcceptanceFailed
          then Inl ErrTerminalSnapshot
          else case filter (\<lambda>a. adm_SnapshotID a = sid) (db_admissions d) of
            [a] \<Rightarrow>
              (case adm_AppliedGeneration a of
                 None \<Rightarrow> Inl ErrTerminalSnapshot
               | Some g \<Rightarrow>
                   if \<not> admission_receipt rid expectedSeq currentGen a g then Inl ErrTerminalSnapshot
                   else case find_root d rid of
                     None \<Rightarrow> Inl ErrNoRows
                   | Some rt \<Rightarrow>
                       let seq = adm_AdmissionSeq a;
                           out = \<lparr>oc_Status = adm_Status a,
                                  oc_SnapshotLifecycle = SnapshotReconciled,
                                  oc_Generation = g, oc_AppliedGeneration = g,
                                  oc_Mutated = False\<rparr>
                       in if seq > root_LatestAdmissionSeq rt then Inl ErrTerminalSnapshot
                          else if g > 0 \<and> \<not> list_ex (\<lambda>h. gen_RootID h = rid \<and>
                                 gen_GenerationNumber h = g) (db_generations d)
                          then Inl ErrTerminalSnapshot
                          else if \<not> result_receipt d rid a g then Inl ErrTerminalSnapshot
                          else if \<not> applied_receipt d rid sid a g then Inl ErrTerminalSnapshot
                          else (case generation_rows d rid sid seq of
                                  [] \<Rightarrow> Inr (seq, out)
                                | [h] \<Rightarrow>
                                    if adm_Status a \<noteq> AdmissionApplied \<or>
                                       gen_GenerationNumber h \<noteq> g \<or> gen_GenerationNumber h \<le> 0 \<or>
                                       gen_ProducedBySnapshotID h \<noteq> Some sid \<or>
                                       gen_ProducedByAdmissionSeq h \<noteq> Some seq
                                    then Inl ErrTerminalSnapshot
                                    else Inr (seq, out\<lparr>oc_Generation := gen_GenerationNumber h - 1,
                                                       oc_Mutated := True\<rparr>)
                                | _ \<Rightarrow> Inl ErrTerminalSnapshot))
          | _ \<Rightarrow> Inl ErrTerminalSnapshot)"

definition stale_result :: "ReconcileResultRow \<Rightarrow> bool" where
  "stale_result r \<longleftrightarrow> rr_Outcome r = ReconcileStaleInput \<and> rr_GenerationNumber r = None \<and>
     rr_RejectionReason r = Some ''superseded input''"

definition consumedStaleHead :: "db \<Rightarrow> uuid \<Rightarrow> int \<Rightarrow> uuid \<Rightarrow> store_error + bool" where
  "consumedStaleHead d rid seq sid =
     (if seq \<le> 0 then Inl ErrTerminalSnapshot
      else case (find_root d rid, find_snapshot d sid) of
        (Some rt, Some s) \<Rightarrow>
          if sn_RootID s \<noteq> rid \<or> seq > root_LatestAdmissionSeq rt then Inl ErrTerminalSnapshot
          else if sn_LifecycleState s \<noteq> SnapshotRejected then Inr False
          else
            let admissions = filter (\<lambda>a. adm_SnapshotID a = sid) (db_admissions d);
                results = filter (\<lambda>r. rr_RootID r = rid \<and> rr_AdmissionSeq r = seq) (db_results d)
            in if length admissions \<noteq> 1 \<or>
                  \<not> list_all (\<lambda>a. adm_RootID a = rid \<and> adm_AdmissionSeq a = seq \<and>
                      adm_Status a = AdmissionStaleInput \<and> adm_AppliedGeneration a = None) admissions
               then Inl ErrTerminalSnapshot
               else if length results \<noteq> 1 \<or> \<not> list_all stale_result results
               then Inl ErrTerminalSnapshot
               else if list_ex (\<lambda>h. ap_SnapshotID h = sid \<or>
                         (ap_RootID h = rid \<and> ap_AppliedAdmissionSeq h = seq)) (db_applied d) \<or>
                       list_ex (\<lambda>g. gen_ProducedBySnapshotID g = Some sid \<or>
                         (gen_RootID g = rid \<and> gen_ProducedByAdmissionSeq g = Some seq))
                         (db_generations d)
               then Inl ErrTerminalSnapshot
               else Inr True
      | _ \<Rightarrow> Inl ErrNoRows)"

section \<open>Dependencies of a scoped read\<close>

definition AdapterConfigDigest :: "AdapterConfig \<Rightarrow> string" where
  "AdapterConfigDigest a = hex_encode (sha256 (ac_CollectorKind a @ nul # ac_Config a))"

definition path_related :: "string option \<Rightarrow> string \<Rightarrow> bool" where
  "path_related cp target =
     (case cp of
        None \<Rightarrow> False
      | Some p \<Rightarrow> p = target \<or> has_prefix p (target @ ''/'') \<or> has_prefix target (p @ ''/''))"

text \<open>The predicate that the query pushes down; the branch over provider identifiers is only
  part of it when an entry has one.\<close>

definition dependencyQuery ::
  "uuid \<Rightarrow> string \<Rightarrow> SnapshotEntry list \<Rightarrow> PriorResource \<Rightarrow> bool" where
  "dependencyQuery rid target entries p =
     (let hashes = List.map_filter se_ContentHash entries;
          ids = List.map_filter se_ProviderObjectID entries;
          sizes = List.map_filter se_Size entries;
          canonical = (path_related (CanonicalPath p) target \<or>
            (case ContentHash p of None \<Rightarrow> False | Some h \<Rightarrow> List.member hashes h) \<or>
            (case Size p of None \<Rightarrow> False | Some n \<Rightarrow> List.member sizes n) \<or>
            EvidenceState p \<noteq> RemovalEvidenceNone)
      in RootID p = rid \<and>
         (canonical \<or>
          (ids \<noteq> [] \<and> (case ProviderObjectID p of None \<Rightarrow> False | Some i \<Rightarrow> List.member ids i))))"

definition dependency :: "string \<Rightarrow> SnapshotEntry list \<Rightarrow> PriorResource \<Rightarrow> bool" where
  "dependency target entries p \<longleftrightarrow>
     path_related (CanonicalPath p) target \<or>
     (ContentHash p \<noteq> None \<and> list_ex (\<lambda>e. se_ContentHash e = ContentHash p) entries) \<or>
     (Size p \<noteq> None \<and> list_ex (\<lambda>e. se_Size e = Size p) entries) \<or>
     (ProviderObjectID p \<noteq> None \<and> list_ex (\<lambda>e. se_ProviderObjectID e = ProviderObjectID p) entries) \<or>
     EvidenceState p \<noteq> RemovalEvidenceNone"

definition dependencyDigest ::
  "env \<Rightarrow> db \<Rightarrow> PriorResource list \<Rightarrow> string \<Rightarrow> SnapshotEntry list \<Rightarrow> string" where
  "dependencyDigest ev d prior target entries =
     hex_encode (sha256 (env_Marshal ev d (filter (dependency target entries) prior)))"

definition scopedDependencyDigest ::
  "env \<Rightarrow> db \<Rightarrow> uuid \<Rightarrow> string \<Rightarrow> SnapshotEntry list \<Rightarrow> string" where
  "scopedDependencyDigest ev d rid target entries =
     dependencyDigest ev d (loadPriorWhere d (dependencyQuery rid target entries)) target entries"

section \<open>Fences\<close>

definition zero_fence :: ScopedFetchFence where
  "zero_fence = \<lparr>fe_Version = 0, fe_Generation = 0, fe_AdmissionFrontier = 0,
     fe_AdapterDigest = [], fe_AdapterRevision = [], fe_ScopeKey = [], fe_TargetPath = [],
     fe_ParentID = [], fe_ClaimedSequence = 0, fe_Attempt = 0, fe_AttemptStartedAt = zero_time,
     fe_Lineage = None\<rparr>"

definition readFence :: "Snapshot \<Rightarrow> store_error + ScopedFetchFence" where
  "readFence s =
     (case fence_member (sn_Provenance s) of
        Absent \<Rightarrow> Inl ErrScopedFetchStale
      | Malformed \<Rightarrow> Inl ErrScopedFetchStale
      | Null \<Rightarrow> Inr zero_fence
      | Decoded f \<Rightarrow> Inr f)"

definition claimOrderedBefore :: "ScopedFetchFence \<Rightarrow> ScopedFetchFence \<Rightarrow> bool" where
  "claimOrderedBefore a b \<longleftrightarrow>
     fe_AttemptStartedAt a < fe_AttemptStartedAt b \<or>
     (fe_AttemptStartedAt a = fe_AttemptStartedAt b \<and> fe_ScopeKey a < fe_ScopeKey b)"

text \<open>What a sibling's fence must share with the fence under validation.\<close>

definition sibling_ok ::
  "Snapshot \<Rightarrow> ScopedFetchFence \<Rightarrow> ScopedReadLineage \<Rightarrow> nat \<Rightarrow> Snapshot \<Rightarrow> ScopedFetchFence \<Rightarrow> bool" where
  "sibling_ok snap f l i sibling p \<longleftrightarrow>
     sn_RootID sibling = sn_RootID snap \<and> fe_Version p = 2 \<and>
     (case fe_Lineage p of
        None \<Rightarrow> False
      | Some pl \<Rightarrow> ln_Rank pl = int i \<and> ln_Snapshots pl = ln_Snapshots l \<and>
          ln_PolicyRevision pl = ln_PolicyRevision l) \<and>
     fe_Generation p = fe_Generation f \<and> fe_AdmissionFrontier p = fe_AdmissionFrontier f \<and>
     fe_AdapterDigest p = fe_AdapterDigest f \<and> fe_AdapterRevision p = fe_AdapterRevision f \<and>
     fe_ScopeKey p \<noteq> ''/'' \<and> fe_ScopeKey p \<noteq> [] \<and>
     path_dir (fe_TargetPath p) = path_dir (fe_TargetPath f) \<and> fe_ParentID p \<noteq> []"

fun lineage_loop ::
  "db \<Rightarrow> Snapshot \<Rightarrow> ScopedFetchFence \<Rightarrow> ScopedReadLineage \<Rightarrow> nat \<Rightarrow> uuid list
     \<Rightarrow> uuid list \<Rightarrow> string list \<Rightarrow> uuid list \<Rightarrow> ScopedFetchFence \<Rightarrow> int \<Rightarrow> int
     \<Rightarrow> store_error + (int \<times> int)" where
  "lineage_loop d snap f l i [] ids scopes parents previous gen frontier = Inr (gen, frontier)"
| "lineage_loop d snap f l i (sid # rest) ids scopes parents previous gen frontier =
     (if List.member ids sid then Inl ErrScopedFetchStale
      else case find_snapshot d sid of
        None \<Rightarrow> Inl ErrNotFound
      | Some sibling \<Rightarrow>
          and_then (readFence sibling) (\<lambda>p.
            if fe_AttemptStartedAt p = zero_time \<or> fe_Attempt p < 1 \<or> fe_ClaimedSequence p < 1 \<or>
               (i > 0 \<and> \<not> claimOrderedBefore previous p) \<or> \<not> sibling_ok snap f l i sibling p \<or>
               List.member scopes (fe_ScopeKey p) \<or> List.member parents (fe_ParentID p)
            then Inl ErrScopedFetchStale
            else if int i < ln_Rank l
            then (case terminalSnapshotReceipt d (sn_RootID snap) sid
                         (fe_AdmissionFrontier f + int i + 1) (gen + 1) of
                    Inl _ \<Rightarrow> Inl ErrScopedFetchStale
                  | Inr (_, out) \<Rightarrow>
                      if oc_Generation out \<noteq> gen \<or> oc_AppliedGeneration out < gen \<or>
                         oc_AppliedGeneration out > gen + 1
                      then Inl ErrScopedFetchStale
                      else lineage_loop d snap f l (Suc i) rest (sid # ids)
                             (fe_ScopeKey p # scopes) (fe_ParentID p # parents) p
                             (oc_AppliedGeneration out) (frontier + 1))
            else lineage_loop d snap f l (Suc i) rest (sid # ids)
                   (fe_ScopeKey p # scopes) (fe_ParentID p # parents) p gen frontier))"

text \<open>Another admitted snapshot with the same claim epoch.\<close>

definition duplicate_claim :: "db \<Rightarrow> Snapshot \<Rightarrow> ScopedFetchFence \<Rightarrow> bool" where
  "duplicate_claim d snap f =
     list_ex (\<lambda>a. adm_RootID a = sn_RootID snap \<and>
        list_ex (\<lambda>s. sn_SnapshotID s = adm_SnapshotID a \<and> sn_SnapshotID s \<noteq> sn_SnapshotID snap \<and>
          (case fence_member (sn_Provenance s) of
             Decoded g \<Rightarrow> fe_ScopeKey g = fe_ScopeKey f \<and>
               fe_ClaimedSequence g = fe_ClaimedSequence f \<and> fe_Attempt g = fe_Attempt f \<and>
               fe_AttemptStartedAt g = fe_AttemptStartedAt f
           | _ \<Rightarrow> False)) (db_snapshots d)) (db_admissions d)"

definition hex_digest :: "string \<Rightarrow> bool" where
  "hex_digest s = (case hex_decode s of None \<Rightarrow> False | Some b \<Rightarrow> length b = 32)"

definition validateReadLineage ::
  "env \<Rightarrow> db \<Rightarrow> Snapshot \<Rightarrow> ScopedFetchFence \<Rightarrow> int option \<Rightarrow> store_error + (int \<times> int)" where
  "validateReadLineage ev d snap f seq =
     (case fe_Lineage f of
        None \<Rightarrow> Inl ErrScopedFetchStale
      | Some l \<Rightarrow>
          if length (ln_Snapshots l) < 1 \<or> length (ln_Snapshots l) > 8 \<or> ln_Rank l < 0 \<or>
             ln_Rank l \<ge> int (length (ln_Snapshots l)) \<or>
             ln_Snapshots l ! nat (ln_Rank l) \<noteq> sn_SnapshotID snap \<or> fe_ScopeKey f = ''/'' \<or>
             ln_PolicyRevision l = [] \<or> \<not> hex_digest (ln_DependencyDigest l)
          then Inl ErrScopedFetchStale
          else and_then (lineage_loop d snap f l 0 (ln_Snapshots l) [] [] [] zero_fence
                           (fe_Generation f) (fe_AdmissionFrontier f)) (\<lambda>(gen, frontier).
            let frontier' = (if seq = None then frontier else frontier + 1)
            in if seq \<noteq> None \<and> seq \<noteq> Some frontier' then Inl ErrScopedFetchStale
               else if duplicate_claim d snap f then Inl ErrScopedFetchStale
               else case find_policy d (sn_RootID snap) of
                 None \<Rightarrow> Inl ErrNoRows
               | Some pol \<Rightarrow>
                   if rp_Revision pol \<noteq> ln_PolicyRevision l then Inl ErrScopedFetchStale
                   else if scopedDependencyDigest ev d (sn_RootID snap) (fe_TargetPath f)
                             (ListSnapshotEntries d (sn_SnapshotID snap)) \<noteq> ln_DependencyDigest l
                   then Inl ErrScopedFetchStale
                   else Inr (gen, frontier')))"

section \<open>Scoped fetch validation\<close>

text \<open>The fence's own form, and the form of a snapshot that carries one.\<close>

definition fence_form :: "ScopedFetchFence \<Rightarrow> Snapshot \<Rightarrow> bool" where
  "fence_form f snap \<longleftrightarrow>
     hex_digest (fe_AdapterDigest f) \<and> (fe_Version f = 1 \<or> fe_Version f = 2) \<and>
     \<not> (fe_Version f = 1 \<and> fe_Lineage f \<noteq> None) \<and> 0 \<le> fe_Generation f \<and>
     0 \<le> fe_AdmissionFrontier f \<and> fe_AdapterRevision f \<noteq> [] \<and> 1 \<le> fe_ClaimedSequence f \<and>
     1 \<le> fe_Attempt f \<and> fe_AttemptStartedAt f \<noteq> zero_time \<and>
     ValidateScopeKey (fe_ScopeKey f) = Inr () \<and> fe_TargetPath f \<noteq> [] \<and>
     path_clean (fe_TargetPath f) = fe_TargetPath f \<and> has_prefix (fe_TargetPath f) ''/'' \<and>
     \<not> contains_any (fe_TargetPath f) [backslash, nul] \<and>
     sn_TraversalStatus snap = TraversalPartial \<and>
     sn_CompletenessFlag snap = CompletenessFlagPartial \<and>
     (case sn_EntryCount snap of None \<Rightarrow> False | Some n \<Rightarrow> 0 \<le> n \<and> n \<le> 1000) \<and>
     sn_FreshnessEvidence snap = Some FreshRefreshed"

definition fresh_at :: "Snapshot \<Rightarrow> gotime \<Rightarrow> bool" where
  "fresh_at snap dbNow \<longleftrightarrow>
     \<not> sn_ObservedAt snap < dbNow - 2 * minute \<and> \<not> sn_ObservedAt snap > dbNow + 30 * second"

definition parent_ok :: "db \<Rightarrow> Snapshot \<Rightarrow> ScopedFetchFence \<Rightarrow> bool" where
  "parent_ok d snap f =
     (if fe_ScopeKey f \<noteq> ''/''
      then (case PresentResourcesAtPath d (sn_RootID snap) (fe_TargetPath f) of
              [p] \<Rightarrow> ResourceID p = fe_ParentID f \<and> IsDir p = Some True
            | _ \<Rightarrow> False)
      else fe_ParentID f = [])"

definition claim_ok :: "db \<Rightarrow> Snapshot \<Rightarrow> ScopedFetchFence \<Rightarrow> bool" where
  "claim_ok d snap f =
     (case find_work d (sn_RootID snap) (fe_ScopeKey f) of
        None \<Rightarrow> False
      | Some w \<Rightarrow> wk_WorkState w = WorkInFlight \<and> wk_ClaimedSignalSeq w = Some (fe_ClaimedSequence f) \<and>
          wk_AttemptCount w = fe_Attempt f \<and>
          wk_LastAttemptStartedAt w = Some (fe_AttemptStartedAt f))"

text \<open>The generation and the admission frontier that the root must still have.\<close>

definition expected_frontier ::
  "env \<Rightarrow> db \<Rightarrow> Snapshot \<Rightarrow> ScopedFetchFence \<Rightarrow> int option \<Rightarrow> store_error + (int \<times> int)" where
  "expected_frontier ev d snap f seq =
     (if fe_Version f = 2 then validateReadLineage ev d snap f seq
      else case seq of
        None \<Rightarrow> Inr (fe_Generation f, fe_AdmissionFrontier f)
      | Some q \<Rightarrow>
          if q \<noteq> fe_AdmissionFrontier f + 1 then Inl ErrScopedFetchStale
          else Inr (fe_Generation f, fe_AdmissionFrontier f + 1))"

definition adapter_fence ::
  "db \<Rightarrow> Snapshot \<Rightarrow> ScopedFetchFence \<Rightarrow> store_error + AdapterConfig" where
  "adapter_fence d snap f =
     (case find_adapter d (sn_RootID snap) of
        None \<Rightarrow> Inl ErrScopedFetchStale
      | Some a \<Rightarrow>
          if AdapterConfigDigest a \<noteq> fe_AdapterDigest f \<or> ac_Revision a \<noteq> fe_AdapterRevision f
          then Inl ErrScopedFetchStale
          else if fe_Version f = 2
          then (case find_policy d (sn_RootID snap) of
                  None \<Rightarrow> Inl ErrNoRows
                | Some pol \<Rightarrow>
                    if map_option ln_PolicyRevision (fe_Lineage f) = Some (rp_Revision pol)
                    then Inr a else Inl ErrScopedFetchStale)
          else Inr a)"

definition validateScopedFetch ::
  "env \<Rightarrow> db \<Rightarrow> Snapshot \<Rightarrow> int option \<Rightarrow> store_error + unit" where
  "validateScopedFetch ev d snap seq =
     (case fence_member (sn_Provenance snap) of
        Absent \<Rightarrow> Inr ()
      | Malformed \<Rightarrow> Inl ErrScopedFetchStale
      | Null \<Rightarrow> Inl ErrScopedFetchStale
      | Decoded f \<Rightarrow>
          if \<not> fence_form f snap then Inl ErrScopedFetchStale
          else and_then (GetRoot d (sn_RootID snap)) (\<lambda>rt.
            and_then (expected_frontier ev d snap f seq) (\<lambda>(gen, frontier).
              if root_LifecycleState rt \<noteq> RootActive \<or> root_CurrentGeneration rt \<noteq> gen \<or>
                 root_LatestAdmissionSeq rt \<noteq> frontier
              then Inl ErrScopedFetchStale
              else if \<not> fresh_at snap (env_Clock ev 0) then Inl ErrScopedFetchStale
              else and_then (adapter_fence d snap f) (\<lambda>a.
                case ac_Path a of
                  None \<Rightarrow> Inl ErrScopedFetchStale
                | Some p \<Rightarrow>
                    if path_join [''/'', p, trim_prefix (fe_ScopeKey f) ''/''] \<noteq> fe_TargetPath f \<or>
                       \<not> parent_ok d snap f \<or> \<not> claim_ok d snap f \<or>
                       \<not> fresh_at snap (env_Clock ev 1)
                    then Inl ErrScopedFetchStale
                    else Inr ()))))"

definition validateOptionalScopedAdmission :: "env \<Rightarrow> db \<Rightarrow> uuid \<Rightarrow> store_error + unit" where
  "validateOptionalScopedAdmission ev d sid =
     (case find_snapshot d sid of
        None \<Rightarrow> Inl ErrNoRows
      | Some snap \<Rightarrow>
          if fence_member (sn_Provenance snap) = Absent then Inr ()
          else validateScopedFetch ev d snap None)"

section \<open>Directory coverage\<close>

definition coverage_generation ::
  "env \<Rightarrow> db \<Rightarrow> Snapshot \<Rightarrow> DirectoryCoverage \<Rightarrow> int \<Rightarrow> store_error + bool" where
  "coverage_generation ev d snap p generation =
     (if dc_Version p = 3
      then (case readFence snap of
              Inl _ \<Rightarrow> Inl ErrDirectoryCoverage
            | Inr f \<Rightarrow>
                if fe_Version f \<noteq> 2 \<or> fe_Generation f \<noteq> dc_Generation p then Inl ErrDirectoryCoverage
                else case filter (\<lambda>a. adm_RootID a = sn_RootID snap \<and>
                            adm_SnapshotID a = sn_SnapshotID snap) (db_admissions d) of
                  [a] \<Rightarrow>
                    (case validateScopedFetch ev d snap (Some (adm_AdmissionSeq a)) of
                       Inl ErrScopedFetchStale \<Rightarrow> Inl ErrDirectoryCoverage
                     | Inl e \<Rightarrow> Inl e
                     | Inr _ \<Rightarrow> Inr True)
                | _ \<Rightarrow> Inl ErrDirectoryCoverage)
      else Inr (dc_Generation p = generation \<and> dc_Version p = 2))"

definition coverage_form :: "DirectoryCoverage \<Rightarrow> SnapshotEntry list \<Rightarrow> bool" where
  "coverage_form p entries \<longleftrightarrow>
     hex_digest (dc_TopologyDigest p) \<and> dc_EntryCount p = int (length entries) \<and>
     dc_Path p \<noteq> [] \<and> has_prefix (dc_Path p) ''/'' \<and> path_clean (dc_Path p) = dc_Path p \<and>
     \<not> contains_any (dc_Path p) [backslash, nul] \<and> dc_EntryCount p \<le> 10000"

definition coverage_snapshot :: "Snapshot \<Rightarrow> bool" where
  "coverage_snapshot snap \<longleftrightarrow>
     sn_TraversalStatus snap = TraversalPartial \<and>
     sn_CompletenessFlag snap = CompletenessFlagPartial \<and>
     sn_FreshnessEvidence snap = Some FreshRefreshed \<and>
     deref (sn_ErrorSummary snap) = [] \<and> deref (sn_SkippedScopes snap) = []"

definition mirror_ok :: "AdapterConfig \<Rightarrow> DirectoryCoverage \<Rightarrow> bool" where
  "mirror_ok a p =
     (case ac_Settings a of
        None \<Rightarrow> False
      | Some c \<Rightarrow>
          let base = path_clean (CHR ''/'' # trim_char CHR ''/'' (ms_Path c))
          in ms_Mirror c \<and> ms_Base c \<noteq> [] \<and>
             (ms_Topology c \<noteq> [] \<or> (ms_TopologyUsername c \<noteq> [] \<and> ms_TopologyPassword c \<noteq> [])) \<and>
             (ac_CollectorKind a = ''alist'' \<or> ac_CollectorKind a = ''openlist'') \<and>
             dc_AdapterDigest p = AdapterConfigDigest a \<and>
             (dc_Path p = base \<or> has_prefix (dc_Path p) (trim_suffix base ''/'' @ ''/'')))"

fun coverage_entries :: "string \<Rightarrow> string list \<Rightarrow> SnapshotEntry list \<Rightarrow> bool" where
  "coverage_entries path seen [] = True"
| "coverage_entries path seen (e # es) =
     (if se_ParentRef e \<noteq> path \<or> se_Name e = [] \<or> se_Name e = ''.'' \<or> se_Name e = ''..'' \<or>
         contains_any (se_Name e) [CHR ''/'', backslash, nul] \<or> List.member seen (se_Name e)
      then False
      else coverage_entries path (se_Name e # seen) es)"

definition directoryCoverage ::
  "env \<Rightarrow> db \<Rightarrow> Snapshot \<Rightarrow> SnapshotEntry list \<Rightarrow> int \<Rightarrow> store_error + DirectoryCoverage option" where
  "directoryCoverage ev d snap entries generation =
     (case coverage_member (sn_Provenance snap) of
        Absent \<Rightarrow> Inr None
      | Malformed \<Rightarrow> Inl ErrDirectoryCoverage
      | Null \<Rightarrow> Inl ErrDirectoryCoverage
      | Decoded p \<Rightarrow>
          and_then (coverage_generation ev d snap p generation) (\<lambda>generationOK.
            if \<not> generationOK \<or> \<not> coverage_form p entries then Inl ErrDirectoryCoverage
            else if \<not> coverage_snapshot snap then Inl ErrDirectoryCoverage
            else if \<not> fresh_at snap (env_Clock ev 2) \<or> sn_EntryCount snap \<noteq> Some (dc_EntryCount p)
            then Inl ErrDirectoryCoverage
            else case find_adapter d (sn_RootID snap) of
              None \<Rightarrow> Inl ErrNoRows
            | Some a \<Rightarrow>
                if \<not> mirror_ok a p \<or> \<not> coverage_entries (dc_Path p) [] entries
                then Inl ErrDirectoryCoverage
                else Inr (Some p)))"

section \<open>Freezing a batch\<close>

record FrozenScopeInput =
  fi_Snapshot :: Snapshot
  fi_Entries :: "SnapshotEntry list"

text \<open>The checks of one input of the batch against the root, the first fence and the earlier
  inputs.\<close>

definition freeze_input_ok ::
  "ResourceRoot \<Rightarrow> uuid list \<Rightarrow> ScopedFetchFence \<Rightarrow> nat \<Rightarrow> FrozenScopeInput
     \<Rightarrow> ScopedFetchFence \<Rightarrow> bool" where
  "freeze_input_ok rt roster ff i inp f \<longleftrightarrow>
     root_LifecycleState rt = RootActive \<and> sn_RootID (fi_Snapshot inp) = root_RootID rt \<and>
     sn_LifecycleState (fi_Snapshot inp) = SnapshotDraft \<and>
     sn_EntryCount (fi_Snapshot inp) = Some (int (length (fi_Entries inp))) \<and>
     fe_Version f = 2 \<and>
     (case fe_Lineage f of
        None \<Rightarrow> False
      | Some l \<Rightarrow> ln_Rank l = int i \<and> ln_Snapshots l = roster) \<and>
     fe_ScopeKey f \<noteq> ''/'' \<and> ValidateScopeKey (fe_ScopeKey f) = Inr () \<and>
     fe_Generation f = root_CurrentGeneration rt \<and>
     fe_AdmissionFrontier f = root_LatestAdmissionSeq rt \<and>
     fe_Generation f = fe_Generation ff \<and> fe_AdmissionFrontier f = fe_AdmissionFrontier ff \<and>
     fe_AdapterDigest f = fe_AdapterDigest ff \<and> fe_AdapterRevision f = fe_AdapterRevision ff \<and>
     path_dir (fe_TargetPath f) = path_dir (fe_TargetPath ff) \<and>
     path_clean (fe_TargetPath f) = fe_TargetPath f \<and> length (fi_Entries inp) \<le> 1000"

definition freeze_order_ok :: "ScopedFetchFence list \<Rightarrow> ScopedFetchFence \<Rightarrow> bool" where
  "freeze_order_ok earlier f \<longleftrightarrow>
     list_all (\<lambda>p. fe_ScopeKey p \<noteq> fe_ScopeKey f \<and> fe_ParentID p \<noteq> fe_ParentID f) earlier \<and>
     (earlier = [] \<or> claimOrderedBefore (last earlier) f)"

definition insert_draft :: "Snapshot \<Rightarrow> SnapshotEntry list \<Rightarrow> db \<Rightarrow> store_error + db" where
  "insert_draft snap entries d =
     and_then (InsertSnapshotStub snap d)
       (fold_err (\<lambda>e. InsertSnapshotEntry (e\<lparr>se_SnapshotID := sn_SnapshotID snap\<rparr>)) entries)"

text \<open>The dependency digest and the policy revision are written into the fence before the draft is
  stored.\<close>

fun freeze_loop ::
  "env \<Rightarrow> ResourceRoot \<Rightarrow> string \<Rightarrow> uuid list \<Rightarrow> ScopedFetchFence option \<Rightarrow> nat
     \<Rightarrow> ScopedFetchFence list \<Rightarrow> FrozenScopeInput list \<Rightarrow> db \<Rightarrow> store_error + db" where
  "freeze_loop ev rt revision roster ff i earlier [] d = Inr d"
| "freeze_loop ev rt revision roster ff i earlier (inp # inputs) d =
     and_then (readFence (fi_Snapshot inp)) (\<lambda>f.
       let ff' = (case ff of None \<Rightarrow> f | Some g \<Rightarrow> g)
       in if \<not> freeze_input_ok rt roster ff' i inp f \<or> \<not> freeze_order_ok earlier f
          then Inl ErrScopedFetchStale
          else case find_work d (root_RootID rt) (fe_ScopeKey f) of
            None \<Rightarrow> Inl ErrNoRows
          | Some w \<Rightarrow>
              if \<not> claim_ok d (fi_Snapshot inp) f then Inl ErrScopedFetchStale
              else
                let digest = scopedDependencyDigest ev d (root_RootID rt) (fe_TargetPath f)
                               (fi_Entries inp);
                    f' = f\<lparr>fe_Lineage := map_option (\<lambda>l. l\<lparr>ln_DependencyDigest := digest,
                            ln_PolicyRevision := revision\<rparr>) (fe_Lineage f)\<rparr>;
                    snap = (fi_Snapshot inp)\<lparr>sn_Provenance := ObjectProvenance (Decoded f')
                              (coverage_member (sn_Provenance (fi_Snapshot inp)))
                              (mirror_member (sn_Provenance (fi_Snapshot inp)))\<rparr>
                in and_then (insert_draft snap (fi_Entries inp) d)
                     (freeze_loop ev rt revision roster (Some ff') (Suc i) (earlier @ [f]) inputs))"

definition FreezeScopedReadBatch ::
  "env \<Rightarrow> FrozenScopeInput list \<Rightarrow> db \<Rightarrow> store_error + db" where
  "FreezeScopedReadBatch ev inputs d =
     (if length inputs < 1 \<or> length inputs > 8 then Inl ErrScopedFetchStale
      else and_then (GetRoot d (sn_RootID (fi_Snapshot (hd inputs)))) (\<lambda>rt.
        case find_policy d (root_RootID rt) of
          None \<Rightarrow> Inl ErrNoRows
        | Some pol \<Rightarrow>
            let roster = map (\<lambda>inp. sn_SnapshotID (fi_Snapshot inp)) inputs
            in if \<not> distinct roster then Inl ErrScopedFetchStale
               else freeze_loop ev rt (rp_Revision pol) roster None 0 [] inputs d))"

end
