(* ===== verification/Float64.thy ===== *)
theory Float64
  imports Prelude "HOL-Library.Log_Nat"
begin

text \<open>
  IEEE 754 binary64 arithmetic as far as the program uses it: the conversion \<open>float64(n)\<close> of a
  signed 64-bit integer and the division of two such values. Both round to the nearest
  representable value, ties to even. Operands and results here lie between \<open>2^-63\<close> and \<open>2^63\<close> in
  magnitude, so neither overflow nor subnormal numbers occur; a value is an exact rational number.
\<close>

section \<open>Rounding to 53 bits\<close>

definition round_even :: "rat \<Rightarrow> int" where
  "round_even y =
     (let f = \<lfloor>y\<rfloor>; d = y - of_int f
      in if d < 1 / 2 then f else if d > 1 / 2 then f + 1 else if even f then f else f + 1)"

text \<open>The binade of a positive rational: the exponent \<open>e\<close> with \<open>2^e \<le> x < 2^(e+1)\<close>.\<close>

definition binade :: "rat \<Rightarrow> int" where
  "binade x =
     (let (p, q) = quotient_of x; e = bitlen p - bitlen q
      in if 2 powi e \<le> x then e else e - 1)"

definition f64_pos :: "rat \<Rightarrow> rat" where
  "f64_pos x = (let u = 2 powi (binade x - 52) in of_int (round_even (x / u)) * u)"

definition f64 :: "rat \<Rightarrow> rat" where
  "f64 x = (if x = 0 then 0 else if x < 0 then - f64_pos (- x) else f64_pos x)"

definition f64_of_int :: "int \<Rightarrow> rat" where
  "f64_of_int n = f64 (of_int n)"

definition f64_div :: "rat \<Rightarrow> rat \<Rightarrow> rat" where
  "f64_div a b = f64 (a / b)"

section \<open>Facts about rounding\<close>

lemma round_even_int [simp]: "round_even (of_int n) = n"
  by (simp add: round_even_def)

lemma round_even_mono_int_le: "y \<le> of_int n \<Longrightarrow> round_even y \<le> n"
proof -
  assume y: "y \<le> of_int n"
  show ?thesis
  proof (cases "y = of_int n")
    case False
    with y have "y < of_int n" by simp
    then have "\<lfloor>y\<rfloor> < n" by (simp add: floor_less_iff)
    then show ?thesis by (auto simp: round_even_def Let_def)
  qed simp
qed

lemma round_even_mono_int_ge: "of_int n \<le> y \<Longrightarrow> n \<le> round_even y"
  by (auto simp: round_even_def Let_def le_floor_iff intro: le_floor_iff [THEN iffD2])
     (meson le_floor_iff add_increasing2 zero_le_one)+

lemma binade_bounds:
  assumes "0 < x"
  shows "2 powi binade x \<le> x" and "x < 2 powi (binade x + 1)"
proof -
  obtain p q where pq: "quotient_of x = (p, q)" by (cases "quotient_of x") auto
  have q: "0 < q" using pq by (rule quotient_of_denom_pos)
  have x: "x = of_int p / of_int q" using pq by (rule quotient_of_div)
  have p: "0 < p"
    using assms q by (simp add: x zero_less_divide_iff)
  define e where "e = bitlen p - bitlen q"
  have bp: "2 ^ nat (bitlen p - 1) \<le> p" "p < 2 ^ nat (bitlen p)"
    using bitlen_bounds [OF p] by auto
  have bq: "2 ^ nat (bitlen q - 1) \<le> q" "q < 2 ^ nat (bitlen q)"
    using bitlen_bounds [OF q] by auto
  have lp: "0 < bitlen p" and lq: "0 < bitlen q"
    using p q by (simp_all add: bitlen_eq_zero_iff order.strict_iff_order bitlen_nonneg)
  have powi: "(2::rat) powi k = of_int (2 ^ nat k)" if "0 \<le> k" for k
    using that by (simp add: power_int_def)
  have P: "2 powi (bitlen p - 1) \<le> (of_int p :: rat)" "(of_int p :: rat) < 2 powi bitlen p"
    using bp lp by (simp_all add: powi)
  have Q: "2 powi (bitlen q - 1) \<le> (of_int q :: rat)" "(of_int q :: rat) < 2 powi bitlen q"
    using bq lq by (simp_all add: powi)
  have qpos: "(0::rat) < of_int q" using q by simp
  have lower: "2 powi (e - 1) \<le> x"
  proof -
    have "2 powi (e - 1) * of_int q \<le> 2 powi (e - 1) * (2 powi bitlen q :: rat)"
      using Q(2) by (intro mult_left_mono) auto
    also have "\<dots> = 2 powi (bitlen p - 1)"
      by (simp add: e_def flip: power_int_add)
    also have "\<dots> \<le> of_int p" by (rule P(1))
    finally show ?thesis using qpos by (simp add: x pos_le_divide_eq)
  qed
  have upper: "x < 2 powi (e + 1)"
  proof -
    have "(of_int p :: rat) < 2 powi bitlen p" by (rule P(2))
    also have "\<dots> = 2 powi (e + 1) * 2 powi (bitlen q - 1)"
      by (simp add: e_def flip: power_int_add)
    also have "\<dots> \<le> 2 powi (e + 1) * of_int q"
      using Q(1) by (intro mult_left_mono) auto
    finally show ?thesis using qpos by (simp add: x pos_divide_less_eq)
  qed
  have b: "binade x = (if 2 powi e \<le> x then e else e - 1)"
    by (simp add: binade_def pq e_def)
  show "2 powi binade x \<le> x" using lower by (simp add: b)
  show "x < 2 powi (binade x + 1)" using upper by (simp add: b)
qed

lemma powi_le_iff [simp]: "(2::rat) powi a \<le> 2 powi b \<longleftrightarrow> a \<le> b"
proof
  assume *: "(2::rat) powi a \<le> 2 powi b"
  show "a \<le> b"
  proof (rule ccontr)
    assume "\<not> a \<le> b"
    then have "(2::rat) powi b < 2 powi a" by (intro power_int_strict_increasing) auto
    with * show False by simp
  qed
qed (auto intro: power_int_increasing)

lemma powi_less_iff [simp]: "(2::rat) powi a < 2 powi b \<longleftrightarrow> a < b"
  by (simp flip: not_le)

lemma f64_pos_exact_int:
  assumes "0 < n" and "n < 2 ^ 53"
  shows "f64_pos (of_int n) = of_int n"
proof -
  define e where "e = binade (of_int n)"
  have "2 powi e \<le> (of_int n :: rat)" using binade_bounds(1) [of "of_int n"] assms by (simp add: e_def)
  also have "(of_int n :: rat) < 2 powi 53"
    using assms(2) by (simp add: power_int_def)
  finally have "e < 53" by (simp only: powi_less_iff)
  then have e: "e \<le> 52" by simp
  then have "(2::rat) powi (52 - e) = of_int (2 ^ nat (52 - e))" by (simp add: power_int_def)
  moreover have "(of_int n :: rat) / 2 powi (e - 52) = of_int n * 2 powi (52 - e)"
    by (simp add: divide_inverse flip: power_int_minus)
  ultimately have int: "(of_int n :: rat) / 2 powi (e - 52) = of_int (n * 2 ^ nat (52 - e))"
    by simp
  have "f64_pos (of_int n) = of_int (n * 2 ^ nat (52 - e)) * 2 powi (e - 52)"
    unfolding f64_pos_def Let_def e_def [symmetric] int by (simp only: round_even_int)
  also have "\<dots> = (of_int n / 2 powi (e - 52)) * 2 powi (e - 52)" by (simp only: int)
  finally show ?thesis by simp
qed

lemma f64_of_int_exact: "0 \<le> n \<Longrightarrow> n < 2 ^ 53 \<Longrightarrow> f64_of_int n = of_int n"
  by (cases "n = 0") (simp_all add: f64_of_int_def f64_def f64_pos_exact_int)

text \<open>
  Rounding a quotient of integers below \<open>2^53\<close> never crosses one half. The quotient \<open>x\<close> is
  rounded to a multiple of the unit \<open>2^(e-52)\<close> of its binade \<open>e\<close>, and below the binade of one
  half that unit divides one half.
\<close>

lemma half_in_units:
  assumes "e \<le> -1"
  shows "(1 / 2 :: rat) = of_int (2 ^ nat (51 - e)) * 2 powi (e - 52)"
proof -
  have "(of_int (2 ^ nat (51 - e)) :: rat) = 2 powi (51 - e)"
    using assms by (simp add: power_int_def)
  then have "of_int (2 ^ nat (51 - e)) * (2::rat) powi (e - 52) = 2 powi ((51 - e) + (e - 52))"
    by (simp flip: power_int_add)
  then show ?thesis by (simp add: power_int_def)
qed

lemma f64_pos_ge_half:
  assumes "1 / 2 \<le> x" and "x \<le> 1"
  shows "1 / 2 \<le> f64_pos x"
proof -
  define e where "e = binade x"
  define u :: rat where "u = 2 powi (e - 52)"
  have u0: "0 < u" by (simp add: u_def)
  have lo: "2 powi e \<le> x" using binade_bounds(1) [of x] assms by (simp add: e_def)
  have val: "f64_pos x = of_int (round_even (x / u)) * u"
    by (simp add: f64_pos_def Let_def u_def e_def)
  show ?thesis
  proof (cases "e \<le> -1")
    case True
    note half = half_in_units [OF True, folded u_def]
    have "of_int (2 ^ nat (51 - e)) \<le> x / u"
      using assms(1) u0 half by (simp add: pos_le_divide_eq)
    then have "2 ^ nat (51 - e) \<le> round_even (x / u)" by (rule round_even_mono_int_ge)
    then have "of_int (2 ^ nat (51 - e)) * u \<le> of_int (round_even (x / u)) * u"
      using u0 by (intro mult_right_mono) (simp_all only: of_int_le_iff less_imp_le)
    with half val show ?thesis by simp
  next
    case False
    then have e0: "0 \<le> e" by simp
    from lo assms(2) have "(2::rat) powi e \<le> 2 powi 0" by simp
    then have "e \<le> 0" by (simp only: powi_le_iff)
    with e0 have e: "e = 0" by simp
    with lo assms(2) have "x = 1" by simp
    moreover have "(1::rat) / u = of_int (2 ^ 52)" by (simp add: u_def e power_int_def power_one_over)
    ultimately have "round_even (x / u) = 2 ^ 52" by (metis round_even_int)
    with val show ?thesis by (simp add: u_def e power_int_def power_one_over)
  qed
qed

lemma f64_pos_less_half:
  assumes "0 < x" and "x < 1 / 2 - 1 / 2 ^ 54"
  shows "f64_pos x < 1 / 2"
proof -
  define e where "e = binade x"
  define u :: rat where "u = 2 powi (e - 52)"
  have u0: "0 < u" by (simp add: u_def)
  have lo: "2 powi e \<le> x" and hi: "x < 2 powi (e + 1)"
    using binade_bounds [OF assms(1)] by (simp_all add: e_def)
  have "(2::rat) powi e < 2 powi (-1)" using lo assms(2) by (simp add: power_int_def)
  then have "e < -1" by (simp only: powi_less_iff)
  then have e: "e \<le> -2" by simp
  have bound: "x / u \<le> of_int (2 ^ nat (51 - e) - 1)"
  proof (cases "e = -2")
    case True
    then have "u = 1 / 2 ^ 54" by (simp add: u_def power_int_def power_one_over)
    then have "x / u = x * 2 ^ 54" by (simp only: divide_divide_eq_right mult_1_right div_by_1)
    also have "\<dots> \<le> (1 / 2 - 1 / 2 ^ 54) * 2 ^ 54" using assms(2) by (intro mult_right_mono) auto
    finally show ?thesis using True by simp
  next
    case False
    have "x / u < 2 powi (e + 1) / u" using hi u0 by (intro divide_strict_right_mono)
    also have "2 powi (e + 1) / u = 2 powi 53"
      by (simp add: u_def power_int_diff [symmetric])
    finally have "x / u < 2 ^ 53" by (simp add: power_int_def)
    moreover have "(2::int) ^ 54 \<le> 2 ^ nat (51 - e)"
      using e False by (intro power_increasing) auto
    then have "(2::int) ^ 53 \<le> 2 ^ nat (51 - e) - 1" by simp
    then have "(of_int (2 ^ 53) :: rat) \<le> of_int (2 ^ nat (51 - e) - 1)"
      by (simp only: of_int_le_iff)
    ultimately show ?thesis by simp
  qed
  then have "round_even (x / u) \<le> 2 ^ nat (51 - e) - 1" by (rule round_even_mono_int_le)
  then have "of_int (round_even (x / u)) * u \<le> of_int (2 ^ nat (51 - e) - 1) * u"
    using u0 by (intro mult_right_mono) (simp_all only: of_int_le_iff less_imp_le)
  also have "\<dots> < 1 / 2" using half_in_units [of e] u0 e by (simp add: algebra_simps u_def)
  finally show ?thesis by (simp add: f64_pos_def Let_def u_def e_def)
qed

lemma f64_div_ge_half:
  assumes "0 < a" and "0 < b" and "b < 2 ^ 53" and "a \<le> b"
  shows "f64_div (of_int a) (of_int b) \<ge> 1 / 2 \<longleftrightarrow> b \<le> 2 * a"
proof -
  define x :: rat where "x = of_int a / of_int b"
  have b0: "(0::rat) < of_int b" using assms(2) by simp
  have x0: "0 < x" using assms by (simp add: x_def)
  then have val: "f64_div (of_int a) (of_int b) = f64_pos x"
    by (simp add: f64_div_def f64_def flip: x_def)
  show ?thesis
  proof (cases "b \<le> 2 * a")
    case True
    then have "(of_int b :: rat) \<le> of_int (2 * a)" by (simp only: of_int_le_iff)
    then have "(of_int b :: rat) \<le> 2 * of_int a" by simp
    then have "1 / 2 \<le> x" using b0 by (simp add: x_def field_simps)
    moreover have "x \<le> 1" using assms(4) b0 by (simp add: x_def)
    ultimately show ?thesis using True val f64_pos_ge_half by simp
  next
    case False
    then have "2 * a + 1 \<le> b" by simp
    then have "(of_int (2 * a + 1) :: rat) \<le> of_int b" by (simp only: of_int_le_iff)
    then have "(2 * of_int a + 1 :: rat) \<le> of_int b" by simp
    then have "x \<le> (of_int b - 1) / 2 / of_int b"
      unfolding x_def using b0 by (intro divide_right_mono) auto
    also have "\<dots> = 1 / 2 - 1 / (2 * of_int b)" using b0 by (simp add: diff_divide_distrib)
    finally have "x \<le> 1 / 2 - 1 / (2 * of_int b)" .
    moreover have "(of_int b :: rat) < 2 ^ 53" using assms(3) by simp
    then have "1 / (2 * of_int b :: rat) > 1 / 2 ^ 54"
      using b0 by (intro divide_strict_left_mono) simp_all
    ultimately have "x < 1 / 2 - 1 / 2 ^ 54" by linarith
    with f64_pos_less_half [OF x0] show ?thesis using False val by simp
  qed
qed

end
