(* ===== verification/Completeness.thy ===== *)
theory Completeness
  imports Domain Float64
begin

text \<open>
  The completeness gate (\<open>internal/kernel/completeness\<close>): the first-match cascade C-1 to C-10 that
  turns the evidence of a submitted snapshot into its acceptance state, and the derivation of the
  shrink corroboration. Only \<open>AcceptanceComplete\<close> may authorise a removal.
\<close>

section \<open>Evidence and configuration\<close>

record Evidence =
  ce_TraversalStatus :: TraversalStatus
  ce_HasErrorSummary :: bool
  ce_HasSkippedScopes :: bool
  ce_SkippedKnownEmpty :: bool
  ce_SkippedUnknown :: bool
  ce_Freshness :: FreshnessEvidence
  ce_Assurance :: FailureVisibility
  ce_UsedCache :: bool
  ce_EntryCount :: int
  ce_PriorPresent :: int
  ce_Corroboration :: "ScopeShrinkCorroboration option"

text \<open>The threshold is a \<open>float64\<close>, an exact rational here.\<close>

record Config =
  SignificantShrinkRatio :: rat

definition ratio :: "Config \<Rightarrow> rat" where
  "ratio c =
     (if SignificantShrinkRatio c \<le> 0 \<or> SignificantShrinkRatio c \<ge> 1 then 1 / 2
      else SignificantShrinkRatio c)"

definition freshness :: "Evidence \<Rightarrow> FreshnessEvidence" where
  "freshness e = (if ce_Freshness e = FreshnessEmpty then FreshnessUnknown else ce_Freshness e)"

definition assurance :: "Evidence \<Rightarrow> FailureVisibility" where
  "assurance e =
     (if ce_Assurance e = FailureVisibilityEmpty then UnknownFailureVisibility
      else ce_Assurance e)"

section \<open>The cascade\<close>

text \<open>The 64-bit difference wraps around, as Go's \<open>int64\<close> subtraction does.\<close>

definition sub_int64 :: "int \<Rightarrow> int \<Rightarrow> int" where
  "sub_int64 a b = (a - b + 2 ^ 63) mod 2 ^ 64 - 2 ^ 63"

definition significantShrink :: "Evidence \<Rightarrow> Config \<Rightarrow> bool" where
  "significantShrink ev cfg =
     (if ce_PriorPresent ev \<le> 0 then False
      else
        let dropped = sub_int64 (ce_PriorPresent ev) (ce_EntryCount ev)
        in if dropped \<le> 0 then False
           else f64_div (f64_of_int dropped) (f64_of_int (ce_PriorPresent ev)) \<ge> ratio cfg)"

definition corroborated :: "Evidence \<Rightarrow> bool" where
  "corroborated ev \<longleftrightarrow> ce_Corroboration ev = Some ShrinkCorroborated"

definition Evaluate :: "Evidence \<Rightarrow> Config \<Rightarrow> AcceptanceState" where
  "Evaluate ev cfg =
     (if ce_TraversalStatus ev = TraversalFailed then AcceptanceFailed
      else if ce_TraversalStatus ev = TraversalInterrupted
              \<or> ce_TraversalStatus ev = TraversalPartial then AcceptancePartial
      else if ce_HasErrorSummary ev then AcceptancePartial
      else if ce_HasSkippedScopes ev then AcceptancePartial
      else if freshness ev = FreshnessStale
              \<or> (freshness ev = FreshnessUnknown \<and> ce_UsedCache ev) then AcceptanceStale
      else if ce_TraversalStatus ev = TraversalSuccess \<and> ce_PriorPresent ev > 0
              \<and> significantShrink ev cfg \<and> \<not> corroborated ev then AcceptanceSuspicious
      else if ce_TraversalStatus ev = TraversalSuccess \<and> ce_PriorPresent ev > 0
              \<and> ce_EntryCount ev = 0 then AcceptanceSuspicious
      else
        let freshEnough = (freshness ev = FreshDirect \<or> freshness ev = FreshRefreshed
                           \<or> freshness ev = CachedFresh)
        in if ce_TraversalStatus ev = TraversalSuccess \<and> \<not> ce_HasErrorSummary ev
              \<and> ce_SkippedKnownEmpty ev \<and> \<not> ce_SkippedUnknown ev \<and> freshEnough
              \<and> assurance ev = StrongFailureVisibility
              \<and> \<not> (significantShrink ev cfg \<and> \<not> corroborated ev) then AcceptanceComplete
           else if ce_TraversalStatus ev = TraversalSuccess
              \<and> (assurance ev = WeakFailureVisibility \<or> assurance ev = UnknownFailureVisibility)
           then AcceptanceSuspicious
           else AcceptancePartial)"

section \<open>Shrink corroboration\<close>

record Observation =
  Shrunk :: bool
  Fresh :: bool
  NoError :: bool
  NoSkips :: bool
  StrongAssur :: bool

definition qualifies :: "Observation \<Rightarrow> bool" where
  "qualifies o1 \<longleftrightarrow> Fresh o1 \<and> NoError o1 \<and> NoSkips o1 \<and> StrongAssur o1"

fun derive_from :: "Observation list \<Rightarrow> ScopeShrinkCorroboration" where
  "derive_from [] = ShrinkNone"
| "derive_from (o1 # os) =
     (if qualifies o1 then (if Shrunk o1 then ShrinkCorroborated else ShrinkContradicted)
      else derive_from os)"

definition DeriveShrinkCorroboration ::
  "bool \<Rightarrow> Observation list \<Rightarrow> ScopeShrinkCorroboration" where
  "DeriveShrinkCorroboration significant observations =
     (if \<not> significant then ShrinkNone else derive_from observations)"

section \<open>Facts\<close>

lemma sub_int64_small: "- (2 ^ 63) \<le> a - b \<Longrightarrow> a - b < 2 ^ 63 \<Longrightarrow> sub_int64 a b = a - b"
  by (simp add: sub_int64_def)

text \<open>What a COMPLETE verdict needs, written without the cascade.\<close>

definition complete_evidence :: "Evidence \<Rightarrow> Config \<Rightarrow> bool" where
  "complete_evidence ev cfg \<longleftrightarrow>
     ce_TraversalStatus ev = TraversalSuccess \<and> \<not> ce_HasErrorSummary ev \<and>
     \<not> ce_HasSkippedScopes ev \<and> ce_SkippedKnownEmpty ev \<and> \<not> ce_SkippedUnknown ev \<and>
     freshness ev \<in> {FreshDirect, FreshRefreshed, CachedFresh} \<and>
     assurance ev = StrongFailureVisibility \<and>
     (significantShrink ev cfg \<longrightarrow> corroborated ev) \<and>
     (ce_PriorPresent ev > 0 \<longrightarrow> ce_EntryCount ev \<noteq> 0)"

lemma Evaluate_complete_iff:
  "Evaluate ev cfg = AcceptanceComplete \<longleftrightarrow> complete_evidence ev cfg"
  by (cases "ce_TraversalStatus ev"; cases "freshness ev")
     (auto simp: Evaluate_def complete_evidence_def Let_def)

lemma Evaluate_failed_iff:
  "Evaluate ev cfg = AcceptanceFailed \<longleftrightarrow> ce_TraversalStatus ev = TraversalFailed"
  by (auto simp: Evaluate_def Let_def)

text \<open>
  Exactness of the shrink test. With the default threshold the floating-point computation is
  exact below \<open>2^53\<close> resources: a shrink is significant exactly when at least half of the
  inventory is gone.
\<close>

theorem significantShrink_exact_half:
  assumes "ratio cfg = 1 / 2" and "0 \<le> ce_EntryCount ev" and "ce_EntryCount ev < 2 ^ 63"
    and "ce_PriorPresent ev < 2 ^ 53"
  shows "significantShrink ev cfg \<longleftrightarrow>
           0 < ce_PriorPresent ev \<and> 2 * ce_EntryCount ev \<le> ce_PriorPresent ev"
proof (cases "0 < ce_PriorPresent ev \<and> ce_EntryCount ev < ce_PriorPresent ev")
  case True
  define d where "d = ce_PriorPresent ev - ce_EntryCount ev"
  have d: "sub_int64 (ce_PriorPresent ev) (ce_EntryCount ev) = d"
    using True assms by (simp add: d_def sub_int64_small)
  have b: "0 < d" "d \<le> ce_PriorPresent ev" using True assms by (simp_all add: d_def)
  then have "f64_of_int d = of_int d" "f64_of_int (ce_PriorPresent ev) = of_int (ce_PriorPresent ev)"
    using assms by (simp_all add: f64_of_int_exact)
  with True b show ?thesis
    using f64_div_ge_half [of d "ce_PriorPresent ev"] assms
    by (auto simp: significantShrink_def d d_def)
next
  case False
  then show ?thesis
  proof (cases "0 < ce_PriorPresent ev")
    case True
    with False assms have "sub_int64 (ce_PriorPresent ev) (ce_EntryCount ev)
        = ce_PriorPresent ev - ce_EntryCount ev"
      by (intro sub_int64_small) auto
    with False True show ?thesis by (simp add: significantShrink_def)
  qed (simp add: significantShrink_def)
qed

definition sample_evidence :: "int \<Rightarrow> int \<Rightarrow> Evidence" where
  "sample_evidence entries present =
     \<lparr>ce_TraversalStatus = TraversalSuccess, ce_HasErrorSummary = False,
      ce_HasSkippedScopes = False, ce_SkippedKnownEmpty = True, ce_SkippedUnknown = False,
      ce_Freshness = FreshDirect, ce_Assurance = StrongFailureVisibility, ce_UsedCache = False,
      ce_EntryCount = entries, ce_PriorPresent = present, ce_Corroboration = None\<rparr>"

theorem significantShrink_exact_half_witness:
  "significantShrink (sample_evidence 5 10) \<lparr>SignificantShrinkRatio = 1 / 2\<rparr> \<and>
   \<not> significantShrink (sample_evidence 6 10) \<lparr>SignificantShrinkRatio = 1 / 2\<rparr>"
  using significantShrink_exact_half [of "\<lparr>SignificantShrinkRatio = 1 / 2\<rparr>" "sample_evidence 5 10"]
    significantShrink_exact_half [of "\<lparr>SignificantShrinkRatio = 1 / 2\<rparr>" "sample_evidence 6 10"]
  by (simp add: sample_evidence_def ratio_def)

text \<open>
  C24: what a COMPLETE verdict takes. A snapshot is accepted as COMPLETE exactly when the traversal
  succeeded without errors or skipped scopes, skips are known empty, the data is fresh, failures
  are strongly visible, a significant shrink is corroborated, and a non-empty inventory is not
  replaced by an empty listing. A missing freshness or assurance value never suffices.
\<close>

theorem complete_exact:
  "Evaluate ev cfg = AcceptanceComplete \<longleftrightarrow>
     ce_TraversalStatus ev = TraversalSuccess \<and> \<not> ce_HasErrorSummary ev \<and>
     \<not> ce_HasSkippedScopes ev \<and> ce_SkippedKnownEmpty ev \<and> \<not> ce_SkippedUnknown ev \<and>
     ce_Freshness ev \<in> {FreshDirect, FreshRefreshed, CachedFresh} \<and>
     ce_Assurance ev = StrongFailureVisibility \<and>
     (corroborated ev \<or> \<not> significantShrink ev cfg) \<and>
     (ce_EntryCount ev \<noteq> 0 \<or> ce_PriorPresent ev \<le> 0)"
  by (auto simp: Evaluate_complete_iff complete_evidence_def freshness_def assurance_def
      split: if_splits)

theorem complete_exact_witness:
  "Evaluate (sample_evidence 10 10) \<lparr>SignificantShrinkRatio = 1 / 2\<rparr> = AcceptanceComplete"
  using complete_exact [of "sample_evidence 10 10" "\<lparr>SignificantShrinkRatio = 1 / 2\<rparr>"]
  by (simp add: sample_evidence_def significantShrink_def sub_int64_def)

end
