(* ===== verification/ReconcileProps.thy ===== *)
theory ReconcileProps
  imports Reconcile
begin

text \<open>
  Properties of the reconcile decision: it does not depend on the order of rows, it removes
  exactly what the removal policy allows, under whole-root snapshots and under directory
  coverage, and its bookkeeping is coherent. The last section evaluates the decision on the
  inputs where it departs from the comments in the source.
\<close>

section \<open>Sample values\<close>

definition sample_resource :: "uuid \<Rightarrow> string \<Rightarrow> PriorResource" where
  "sample_resource rid path =
     \<lparr>ResourceID = rid, RootID = ''root'', IntroducedAtGeneration = 1, LastConfirmedGeneration = 1,
      Presence = ResourcePresent, EvidenceState = RemovalEvidenceNone, MissingSince = None,
      ConsecutiveCompleteMissing = 0, MissingFirstSnapshotID = None, MissingLastSnapshotID = None,
      CanonicalPath = Some path, ParentResourceID = None, Name = Some (path_base path),
      IsDir = Some False, Size = Some 7, Mtime = Some 5000, ContentHash = None,
      HashAlgorithm = None, ContentType = None, CurrentAttributes = ''{}'',
      ProviderObjectID = None, ProviderObjectIDScope = None,
      ProviderIDAssurance = IdentityUnavailable\<rparr>"

definition missing_resource :: "uuid \<Rightarrow> string \<Rightarrow> PriorResource" where
  "missing_resource rid path = (sample_resource rid path)
     \<lparr>EvidenceState := RemovalEvidenceMissingConfirmedByComplete, MissingSince := Some 1000,
      ConsecutiveCompleteMissing := 1, MissingFirstSnapshotID := Some ''s1'',
      MissingLastSnapshotID := Some ''s1''\<rparr>"

definition sample_entry :: "string \<Rightarrow> SnapshotEntry" where
  "sample_entry nm =
     \<lparr>se_SnapshotID = ''s2'', se_EntryLocalID = nm, se_Name = nm, se_ParentRef = ''/'',
      se_IsDir = False, se_Size = Some 7, se_Mtime = Some 5000, se_ContentHash = None,
      se_HashAlgorithm = None, se_ProviderObjectID = None, se_ProviderObjectIDScope = None,
      se_ContentType = None, se_ProviderIdentityAssurance = None, se_ExtraEvidence = None\<rparr>"

definition sample_cfg :: "duration \<Rightarrow> duration \<Rightarrow> Config" where
  "sample_cfg grace horizon =
     \<lparr>RemovalGracePeriod = grace, MoveRecognitionHorizon = horizon,
      MinConsecutiveCompleteMissing = 2, MinIndependentConfirmations = 1,
      NewID = (\<lambda>n. ''new-'' @ dec_digits n)\<rparr>"

section \<open>The order of rows does not matter\<close>

text \<open>A decision by the number of candidates depends on their multiset only.\<close>

lemma case_list_perm:
  assumes "mset xs = mset ys"
  shows "(case xs of [] \<Rightarrow> a | x # zs \<Rightarrow> (case zs of [] \<Rightarrow> f x | _ # _ \<Rightarrow> c)) =
    (case ys of [] \<Rightarrow> a | x # zs \<Rightarrow> (case zs of [] \<Rightarrow> f x | _ # _ \<Rightarrow> c))"
proof -
  from assms have "length xs = length ys" by (rule mset_eq_length)
  with assms show ?thesis
    by (cases xs; cases ys; cases "tl xs"; cases "tl ys") auto
qed

lemma filter_perm: "mset xs = mset ys \<Longrightarrow> mset (filter P xs) = mset (filter P ys)"
  by simp

lemma resolve_provider_perm:
  assumes "mset (presentByProvider ix k) = mset (presentByProvider ix' k)"
    and "k = provider_key (se_ProviderObjectIDScope e) (se_ProviderObjectID e)"
    and "set (presentByPath ix (EntryPath e)) = set (presentByPath ix' (EntryPath e))"
  shows "resolve_provider ix e = resolve_provider ix' e"
  unfolding resolve_provider_def list_ex_iff assms(3)
    case_list_perm [OF assms(1) [unfolded assms(2)]] ..

lemma resolve_hash_perm:
  assumes "mset sp = mset sp'"
    and "mset (presentByHash ix (entry_hash_key e)) = mset (presentByHash ix' (entry_hash_key e))"
    and "mset (missingByHash ix (entry_hash_key e)) = mset (missingByHash ix' (entry_hash_key e))"
    and "observedByHash ix = observedByHash ix'" and "observedPaths ix = observedPaths ix'"
  shows "resolve_hash ix e cfg now sp = resolve_hash ix' e cfg now sp'"
proof -
  have same: "resolve_hash_same_path e sp = resolve_hash_same_path e sp'"
    unfolding resolve_hash_same_path_def by (rule case_list_perm [OF assms(1)])
  have empty: "sp = [] \<longleftrightarrow> sp' = []"
    "presentByHash ix (entry_hash_key e) = [] \<longleftrightarrow> presentByHash ix' (entry_hash_key e) = []"
    "missingByHash ix (entry_hash_key e) = [] \<longleftrightarrow> missingByHash ix' (entry_hash_key e) = []"
    using assms(1-3) by (metis mset_zero_iff)+
  have cand: "resolve_hash_candidate ix e cfg now sp = resolve_hash_candidate ix' e cfg now sp'"
    by (rule ext) (simp add: resolve_hash_candidate_def assms(4,5) empty(1))
  show ?thesis
    by (cases "resolve_hash_same_path e sp'")
       (simp_all add: resolve_hash_def Let_def same empty cand case_list_perm [OF assms(2)])
qed

lemma resolve_path_perm:
  assumes "mset sp = mset sp'"
    and "mset (missingBySize ix (size_key (se_Size e))) = mset (missingBySize ix' (size_key (se_Size e)))"
  shows "resolve_path ix e cfg now sp = resolve_path ix' e cfg now sp'"
proof -
  have "mset (moved_candidates ix e cfg now) = mset (moved_candidates ix' e cfg now)"
    using assms(2) by (simp add: moved_candidates_def)
  then show ?thesis
    unfolding resolve_path_def case_list_perm [OF assms(1)]
    by (simp only: case_list_perm [of "moved_candidates ix e cfg now"])
qed

lemma resolve_perm:
  assumes "mset prior = mset prior'" and "mset es = mset es'"
  shows "resolve (index_of prior es) e cfg now = resolve (index_of prior' es') e cfg now"
proof -
  have m: "mset (filter P prior) = mset (filter P prior')" for P using assms(1) by simp
  have n: "length (filter P es) = length (filter P es')" for P
    using assms(2) by (metis mset_eq_length mset_filter)
  have s: "set (filter P prior) = set (filter P prior')" for P
    using m by (metis set_mset_mset)
  have l: "length (filter P prior) = length (filter P prior')" for P
    using m by (metis mset_eq_length)
  have p: "resolve_provider (index_of prior es) e = resolve_provider (index_of prior' es') e"
    by (rule resolve_provider_perm [OF _ refl]) (simp_all only: index_of_simps m s)
  have h: "resolve_hash (index_of prior es) e cfg now (presentByPath (index_of prior es) (EntryPath e)) =
      resolve_hash (index_of prior' es') e cfg now (presentByPath (index_of prior' es') (EntryPath e))"
    by (rule resolve_hash_perm) (simp_all only: index_of_simps m n fun_eq_iff simp_thms)
  have q: "resolve_path (index_of prior es) e cfg now (presentByPath (index_of prior es) (EntryPath e)) =
      resolve_path (index_of prior' es') e cfg now (presentByPath (index_of prior' es') (EntryPath e))"
    by (rule resolve_path_perm) (simp_all only: index_of_simps m)
  have c: "length (presentByPath (index_of prior es) k) = length (presentByPath (index_of prior' es') k)"
    "observedPaths (index_of prior es) k = observedPaths (index_of prior' es') k" for k
    by (simp_all only: index_of_simps l n)
  show ?thesis unfolding resolve_def Let_def p h q c ..
qed

lemma matched_perm:
  "mset prior = mset prior' \<Longrightarrow> mset es = mset es' \<Longrightarrow>
   matched prior es cfg now e p = matched prior' es' cfg now e p"
  unfolding matched_def by (simp add: resolve_perm [of prior prior' es es'])

definition reset_id ::
  "PriorResource list \<Rightarrow> SnapshotEntry list \<Rightarrow> Config \<Rightarrow> gotime \<Rightarrow> uuid \<Rightarrow> bool" where
  "reset_id prior entries cfg now rid \<longleftrightarrow>
     list_ex (\<lambda>e. list_ex (\<lambda>p. matched prior entries cfg now e p \<and> needsReset p \<and>
        ResourceID p = rid) prior) entries"

lemma context_scan_step:
  "fst (context_scan (index_of prior entries) cfg now s e) rid \<longleftrightarrow>
     fst s rid \<or> list_ex (\<lambda>p. matched prior entries cfg now e p \<and> ResourceID p = rid) prior"
  "snd (context_scan (index_of prior entries) cfg now s e) rid \<longleftrightarrow>
     snd s rid \<or> list_ex (\<lambda>p. matched prior entries cfg now e p \<and> needsReset p \<and>
       ResourceID p = rid) prior"
proof -
  obtain obs rs where s: "s = (obs, rs)" by (cases s)
  show "fst (context_scan (index_of prior entries) cfg now s e) rid \<longleftrightarrow>
      fst s rid \<or> list_ex (\<lambda>p. matched prior entries cfg now e p \<and> ResourceID p = rid) prior"
    and "snd (context_scan (index_of prior entries) cfg now s e) rid \<longleftrightarrow>
      snd s rid \<or> list_ex (\<lambda>p. matched prior entries cfg now e p \<and> needsReset p \<and>
        ResourceID p = rid) prior"
    by (cases rule: resolve_cases [of "index_of prior entries" e cfg now];
        insert matched_sound [of prior entries cfg now e];
        auto simp: s context_scan_def matched_def list_ex_iff)+
qed

lemma context_scan_fold:
  "fst (foldl (context_scan (index_of prior entries) cfg now) s es) rid \<longleftrightarrow> fst s rid \<or>
     list_ex (\<lambda>e. list_ex (\<lambda>p. matched prior entries cfg now e p \<and> ResourceID p = rid) prior) es"
  "snd (foldl (context_scan (index_of prior entries) cfg now) s es) rid \<longleftrightarrow> snd s rid \<or>
     list_ex (\<lambda>e. list_ex (\<lambda>p. matched prior entries cfg now e p \<and> needsReset p \<and>
       ResourceID p = rid) prior) es"
  by (induction es arbitrary: s) (simp_all add: context_scan_step)

lemma context_scan_result:
  "foldl (context_scan (index_of prior entries) cfg now) (\<lambda>_. False, \<lambda>_. False) entries =
     (observed_id prior entries cfg now, reset_id prior entries cfg now)"
  by (rule prod_eqI; rule ext)
     (simp_all add: context_scan_fold observed_id_def reset_id_def)

lemma observed_id_perm:
  assumes "mset prior = mset prior'" and "mset es = mset es'"
  shows "observed_id prior es cfg now = observed_id prior' es' cfg now"
    and "reset_id prior es cfg now = reset_id prior' es' cfg now"
  unfolding fun_eq_iff observed_id_def reset_id_def list_ex_iff matched_perm [OF assms]
    mset_eq_setD [OF assms(1)] mset_eq_setD [OF assms(2)] by simp_all

lemma mset_concat_map: "mset (concat (map f xs)) = \<Sum>\<^sub># (image_mset (mset \<circ> f) (mset xs))"
  by (induction xs) simp_all

text \<open>The removal-decision context, and with it the snapshot identity, does not depend on the
  order in which the store returns the inventory and the snapshot's entries.\<close>

lemma context_perm:
  assumes "mset prior = mset prior'" and "mset entries = mset entries'"
  shows "RemovalDecisionContext prior entries cfg now = RemovalDecisionContext prior' entries' cfg now"
  unfolding RemovalDecisionContext_def Let_def index_of_def [symmetric] context_scan_result
    observed_id_perm [OF assms] split_conv
  by (intro arg_cong [where f = "join_with [newline]"] sort_strings_mset)
     (simp add: mset_concat_map assms(1))

section \<open>Identity resolution\<close>

text \<open>
  C32: what a match means. An entry only ever matches a present resource of the inventory, so removed
  resources are never revived, and it matches by a stable provider identifier, at the resource's
  own path as the only observation there, by a content hash that is observed once while nothing is
  observed at the old path, or by size and modification time; both kinds of move need missing
  evidence within the move horizon.
\<close>

theorem match_sound:
  assumes "matched prior entries cfg now e p"
  shows "p \<in> set prior \<and> isPresent p \<and>
    (match_provider e p \<or> match_same_path prior entries e p \<or>
     match_hash_move entries cfg now e p \<or> match_size_move cfg now e p)"
proof -
  from assms obtain r where
    "resolve (index_of prior entries) e cfg now = (ResolutionMatched, Some p, r)"
    by (cases "resolve (index_of prior entries) e cfg now") (auto simp: matched_def)
  from resolve_matched [OF this] show ?thesis by auto
qed

theorem match_sound_witness:
  "missing_resource ''r1'' ''/a'' \<in> set [missing_resource ''r1'' ''/a''] \<and>
   isPresent (missing_resource ''r1'' ''/a'') \<and>
   (match_provider (sample_entry ''b'') (missing_resource ''r1'' ''/a'') \<or>
    match_same_path [missing_resource ''r1'' ''/a''] [sample_entry ''b''] (sample_entry ''b'')
      (missing_resource ''r1'' ''/a'') \<or>
    match_hash_move [sample_entry ''b''] (sample_cfg 9000 9000) 9000 (sample_entry ''b'')
      (missing_resource ''r1'' ''/a'') \<or>
    match_size_move (sample_cfg 9000 9000) 9000 (sample_entry ''b'') (missing_resource ''r1'' ''/a''))"
  by (rule match_sound) code_simp

text \<open>
  One observation per resource. When every entry has a comparable content hash and none relies on
  a provider identifier, no two entries of a snapshot match the same resource.
\<close>

theorem matched_at_most_once:
  assumes "list_all (\<lambda>e. entryHashComparable e \<and> \<not> entryStable e) es"
    and "i < length es" and "j < length es" and "i \<noteq> j"
    and "matched prior es cfg now (es ! i) p"
  shows "\<not> matched prior es cfg now (es ! j) p"
proof
  assume m: "matched prior es cfg now (es ! j) p"
  have r: "\<exists>r. resolve (index_of prior es) (es ! k) cfg now = (ResolutionMatched, Some p, r)"
    if "matched prior es cfg now (es ! k) p" for k
    using that by (cases "resolve (index_of prior es) (es ! k) cfg now") (auto simp: matched_def)
  from r [OF assms(5)] r [OF m] matched_once [OF assms(1)] assms(2-4)
  show False by (metis linorder_neqE_nat)
qed

definition hashed_entry :: "string \<Rightarrow> string \<Rightarrow> SnapshotEntry" where
  "hashed_entry nm h = (sample_entry nm)
     \<lparr>se_ContentHash := Some h, se_HashAlgorithm := Some ''sha1''\<rparr>"

definition hashed_resource :: "uuid \<Rightarrow> string \<Rightarrow> string \<Rightarrow> PriorResource" where
  "hashed_resource rid path h = (sample_resource rid path)
     \<lparr>ContentHash := Some h, HashAlgorithm := Some ''sha1''\<rparr>"

theorem matched_at_most_once_witness:
  "\<not> matched [hashed_resource ''r1'' ''/b'' ''h2''] [hashed_entry ''a'' ''h1'', hashed_entry ''b'' ''h2'']
     (sample_cfg 0 0) 9000 (hashed_entry ''a'' ''h1'') (hashed_resource ''r1'' ''/b'' ''h2'')"
proof -
  let ?es = "[hashed_entry ''a'' ''h1'', hashed_entry ''b'' ''h2'']"
  let ?p = "hashed_resource ''r1'' ''/b'' ''h2''"
  have "matched [?p] ?es (sample_cfg 0 0) 9000 (?es ! 1) ?p" by code_simp
  moreover have "list_all (\<lambda>e. entryHashComparable e \<and> \<not> entryStable e) ?es" by code_simp
  ultimately show ?thesis
    using matched_at_most_once [of ?es 1 0 "[?p]" "sample_cfg 0 0" 9000 ?p] by simp
qed

section \<open>Whole-root reconcile\<close>


text \<open>
  C8: missing is not deleted. Unless the snapshot was accepted as COMPLETE, a reconcile neither opens
  nor advances removal evidence and removes nothing.
\<close>

theorem absence_needs_complete:
  assumes "acceptance \<noteq> AcceptanceComplete"
    and "t \<in> set (Transitions (Reconcile prior entries acceptance cfg now sid))"
  shows "tr_Kind t \<notin> {KindMissingEvidence, KindRemovalCandidate, KindConfirmRemoved}"
  using Reconcile_transition_cases [OF assms(2)] assms(1)
    entry_transition_kind [of prior entries cfg now t]
  by (auto simp: entry_kinds_def)

theorem absence_needs_complete_witness:
  "tr_Kind (hd (Transitions (Reconcile [missing_resource ''r1'' ''/a'', sample_resource ''r2'' ''/b'']
     [sample_entry ''b''] AcceptancePartial (sample_cfg 0 0) 9000 ''s2''))) = KindUnchanged \<and>
   tr_Kind (hd (Transitions (Reconcile [missing_resource ''r1'' ''/a'', sample_resource ''r2'' ''/b'']
     [sample_entry ''b''] AcceptancePartial (sample_cfg 0 0) 9000 ''s2'')))
     \<notin> {KindMissingEvidence, KindRemovalCandidate, KindConfirmRemoved}"
proof
  let ?ts = "Transitions (Reconcile [missing_resource ''r1'' ''/a'', sample_resource ''r2'' ''/b'']
     [sample_entry ''b''] AcceptancePartial (sample_cfg 0 0) 9000 ''s2'')"
  show kind: "tr_Kind (hd ?ts) = KindUnchanged" by code_simp
  have "?ts \<noteq> []" by code_simp
  from absence_needs_complete [OF _ hd_in_set [OF this]]
  show "tr_Kind (hd ?ts) \<notin> {KindMissingEvidence, KindRemovalCandidate, KindConfirmRemoved}"
    by simp
qed

text \<open>
  Coherence of the decision. The mutation flag, which decides whether a generation is produced, is
  set exactly when a generation-producing transition was emitted, and each counter is the number of
  transitions of its kind; for the root-wide and for the directory reconcile.
\<close>

theorem result_coherent:
  "result_ok (Reconcile prior entries acceptance cfg now sid) \<and>
   result_ok (ReconcileDirectory prior entries scope cfg now sid)"
  by (simp add: Reconcile_ok ReconcileDirectory_ok)

text \<open>Every entry leads to exactly one observation or one conflict.\<close>

lemma applyMatched_observations [simp]:
  "Observations (applyMatched res p e) = Observations res"
  "c_Conflict (ResultCounts (applyMatched res p e)) = c_Conflict (ResultCounts res)"
  "c_Added (ResultCounts (applyMatched res p e)) = c_Added (ResultCounts res)"
  by (simp_all add: applyMatched_def Let_def)

lemma reconcile_entry_accounts:
  "length (Observations (fst (reconcile_entry ix cfg now s e))) +
     c_Conflict (ResultCounts (fst (reconcile_entry ix cfg now s e))) =
   Suc (length (Observations (fst s)) + c_Conflict (ResultCounts (fst s)))"
  by (cases s; cases rule: resolve_cases [of ix e cfg now])
     (auto simp: reconcile_entry_def Let_def)

lemma fold_entry_accounts:
  "length (Observations (fst (foldl (reconcile_entry ix cfg now) s es))) +
     c_Conflict (ResultCounts (fst (foldl (reconcile_entry ix cfg now) s es))) =
   length es + length (Observations (fst s)) + c_Conflict (ResultCounts (fst s))"
  by (induction es arbitrary: s) (simp_all add: reconcile_entry_accounts)

lemma fold_missing_accounts:
  "Observations (foldl (reconcile_missing obs cfg now sid) res prior) = Observations res"
  "c_Conflict (ResultCounts (foldl (reconcile_missing obs cfg now sid) res prior)) =
     c_Conflict (ResultCounts res)"
  by (induction prior arbitrary: res) (simp_all add: reconcile_missing_def Let_def)

text \<open>
  No entry is lost. A reconcile of an accepted snapshot records, for every entry, either one
  identity observation or one conflict.
\<close>

theorem entries_accounted:
  assumes "acceptance \<noteq> AcceptanceFailed"
  shows "length (Observations (Reconcile prior entries acceptance cfg now sid)) +
    length (Conflicts (Reconcile prior entries acceptance cfg now sid)) = length entries"
proof -
  have "length (Conflicts (Reconcile prior entries acceptance cfg now sid)) =
      c_Conflict (ResultCounts (Reconcile prior entries acceptance cfg now sid))"
    using Reconcile_ok [of prior entries acceptance cfg now sid] by (simp add: result_ok_def)
  with assms fold_entry_accounts [of "index_of prior entries" cfg now "(no_result, \<lambda>_. False)" entries]
  show ?thesis
    by (simp add: Reconcile_def case_prod_beta fold_missing_accounts reconcile_entries_def
        index_of_def [symmetric]) (simp add: no_result_def no_counts_def)
qed


theorem entries_accounted_witness:
  "length (Observations (Reconcile [sample_resource ''r1'' ''/a''] [sample_entry ''a'', sample_entry ''b'']
      AcceptanceComplete (sample_cfg 0 0) 9000 ''s2'')) +
   length (Conflicts (Reconcile [sample_resource ''r1'' ''/a''] [sample_entry ''a'', sample_entry ''b'']
      AcceptanceComplete (sample_cfg 0 0) 9000 ''s2'')) = 2"
  using entries_accounted [of AcceptanceComplete "[sample_resource ''r1'' ''/a'']"
      "[sample_entry ''a'', sample_entry ''b'']" "sample_cfg 0 0" 9000 "''s2''"] by simp

section \<open>Directory coverage\<close>

text \<open>The identifiers observed by the entries of a directory read.\<close>

definition directory_observed ::
  "PriorResource list \<Rightarrow> SnapshotEntry list \<Rightarrow> Config \<Rightarrow> gotime \<Rightarrow> uuid \<Rightarrow> uuid list" where
  "directory_observed prior entries cfg now sid =
     map obs_ResourceID (Observations (Reconcile prior entries AcceptancePartial cfg now sid))"

definition directory_removed ::
  "PriorResource list \<Rightarrow> SnapshotEntry list \<Rightarrow> string \<Rightarrow> Config \<Rightarrow> gotime \<Rightarrow> uuid \<Rightarrow> PriorResource list"
  where
  "directory_removed prior entries scope cfg now sid =
     (let obs = directory_observed prior entries cfg now sid;
          paths = map EntryPath entries
      in filter (directory_missing scope paths obs (absent_dirs prior scope paths obs)) prior)"

lemma fold_directory_transitions:
  "Transitions (foldl (\<lambda>r p. if Q p
       then (count f (emit (g p) r))\<lparr>MutatesCanonical := True\<rparr> else r) res prior) =
   Transitions res @ map g (filter Q prior)"
  by (induction prior arbitrary: res) simp_all

lemma ReconcileDirectory_transitions:
  "Transitions (ReconcileDirectory prior entries scope cfg now sid) =
     Transitions (Reconcile prior entries AcceptancePartial cfg now sid) @
     map (\<lambda>p. directory_transition p now sid) (directory_removed prior entries scope cfg now sid)"
  by (simp add: ReconcileDirectory_def Let_def fold_directory_transitions directory_removed_def
      directory_observed_def)

lemma directory_transition_simps [simp]:
  "tr_Kind (directory_transition p now sid) = KindConfirmRemoved"
  "tr_Prior (directory_transition p now sid) = Some p"
  "tr_ResourceID (directory_transition p now sid) = ResourceID p"
  by (simp_all add: directory_transition_def transition_def)

lemma partial_not_removed:
  "t \<in> set (Transitions (Reconcile prior entries AcceptancePartial cfg now sid)) \<Longrightarrow>
   tr_Kind t \<noteq> KindConfirmRemoved"
  using Reconcile_transition_cases [of t prior entries AcceptancePartial cfg now sid]
    entry_transition_kind [of prior entries cfg now t]
  by (auto simp: entry_kinds_def)

lemma directory_removes_iff:
  "list_ex (\<lambda>t. tr_Kind t = KindConfirmRemoved \<and> tr_Prior t = Some p)
     (Transitions (ReconcileDirectory prior entries scope cfg now sid)) \<longleftrightarrow>
   p \<in> set (directory_removed prior entries scope cfg now sid)"
  unfolding list_ex_iff
  by (auto simp: ReconcileDirectory_transitions dest: partial_not_removed
      intro: bexI [of _ "directory_transition p now sid"])

text \<open>
  C11: exact condition for a removal under directory coverage. A directory reconcile removes a resource
  exactly when it is present, was not observed under any path, and either is a direct child of the
  covered directory at a path that was not listed, or lies below such an absent and unobserved
  directory. Siblings that only share a path prefix are not removed.
\<close>

theorem directory_removal_exact:
  "list_ex (\<lambda>t. tr_Kind t = KindConfirmRemoved \<and> tr_Prior t = Some p)
     (Transitions (ReconcileDirectory prior entries scope cfg now sid)) \<longleftrightarrow>
   p \<in> set prior \<and> isPresent p \<and> CanonicalPath p = Some (canonicalPath p) \<and>
   ResourceID p \<notin> set (directory_observed prior entries cfg now sid) \<and>
   ((path_dir (canonicalPath p) = scope \<and> canonicalPath p \<notin> EntryPath ` set entries) \<or>
    (\<exists>d. d \<in> set prior \<and> isPresent d \<and> IsDir d = Some True \<and>
       CanonicalPath d = Some (canonicalPath d) \<and> path_dir (canonicalPath d) = scope \<and>
       canonicalPath d \<notin> EntryPath ` set entries \<and>
       ResourceID d \<notin> set (directory_observed prior entries cfg now sid) \<and>
       prefix (canonicalPath d @ ''/'') (canonicalPath p)))"
proof -
  have absent: "directory_absent scope (map EntryPath entries) q \<longleftrightarrow>
      CanonicalPath q = Some (canonicalPath q) \<and> path_dir (canonicalPath q) = scope \<and>
      canonicalPath q \<notin> EntryPath ` set entries" for q
    by (cases "CanonicalPath q") (auto simp: directory_absent_def canonicalPath_def)
  have path: "CanonicalPath q \<noteq> None \<longleftrightarrow> CanonicalPath q = Some (canonicalPath q)" for q
    by (cases "CanonicalPath q") (auto simp: canonicalPath_def)
  show ?thesis
    unfolding directory_removes_iff directory_removed_def Let_def directory_missing_def
      absent_dirs_def path absent
    by (auto simp: list_ex_iff has_prefix_def)
qed

text \<open>Every matched resource is among the observed identifiers.\<close>

lemma reconcile_entry_observations:
  "set (map obs_ResourceID (Observations (fst s))) \<subseteq>
     set (map obs_ResourceID (Observations (fst (reconcile_entry ix cfg now s e))))"
  by (cases s; cases rule: resolve_cases [of ix e cfg now])
     (auto simp: reconcile_entry_def Let_def)

lemma fold_entry_observations:
  assumes "resolve ix e cfg now = (ResolutionMatched, Some p, r)" and "e \<in> set es"
  shows "ResourceID p \<in> set (map obs_ResourceID
     (Observations (fst (foldl (reconcile_entry ix cfg now) s es))))"
  using assms(2)
proof (induction es arbitrary: s rule: rev_induct)
  case (snoc e' es)
  let ?s = "foldl (reconcile_entry ix cfg now) s es"
  show ?case
  proof (cases "e' = e")
    case True
    with assms(1) show ?thesis by (cases ?s) (simp add: reconcile_entry_matched)
  next
    case False
    with snoc have "ResourceID p \<in> set (map obs_ResourceID (Observations (fst ?s)))" by simp
    with reconcile_entry_observations [of ?s ix cfg now e'] show ?thesis by auto
  qed
qed simp

lemma matched_observed:
  assumes "matched prior entries cfg now e p" and "e \<in> set entries"
  shows "ResourceID p \<in> set (directory_observed prior entries cfg now sid)"
proof -
  from assms(1) obtain r where
    "resolve (index_of prior entries) e cfg now = (ResolutionMatched, Some p, r)"
    by (cases "resolve (index_of prior entries) e cfg now") (auto simp: matched_def)
  from fold_entry_observations [OF this assms(2), of "(no_result, \<lambda>_. False)"] show ?thesis
    by (simp add: directory_observed_def Reconcile_def reconcile_entries_def case_prod_beta
        index_of_def)
qed

text \<open>
  Absence never overrides a positive identity. A resource that some entry of the directory read
  matched, at its old path or at a new one, is not removed, even when an absent directory
  above its old path is.
\<close>

theorem directory_protects_matched:
  assumes "matched prior entries cfg now e p" and "e \<in> set entries"
    and "t \<in> set (Transitions (ReconcileDirectory prior entries scope cfg now sid))"
    and "tr_ResourceID t = ResourceID p"
  shows "tr_Kind t \<noteq> KindConfirmRemoved"
proof
  assume k: "tr_Kind t = KindConfirmRemoved"
  with assms(3) obtain q where q: "q \<in> set (directory_removed prior entries scope cfg now sid)"
    and t: "t = directory_transition q now sid"
    by (auto simp: ReconcileDirectory_transitions dest: partial_not_removed)
  from q have "ResourceID q \<notin> set (directory_observed prior entries cfg now sid)"
    by (simp add: directory_removed_def Let_def directory_missing_def)
  with matched_observed [OF assms(1,2)] assms(4) t show False by simp
qed

theorem directory_protects_matched_witness:
  "tr_Kind (hd (Transitions (ReconcileDirectory [missing_resource ''r1'' ''/d/a''] [sample_entry ''b'']
     ''/'' (sample_cfg 10000 10000) 9000 ''s2''))) \<noteq> KindConfirmRemoved"
proof -
  let ?prior = "[missing_resource ''r1'' ''/d/a'']" and ?cfg = "sample_cfg 10000 10000"
  let ?ts = "Transitions (ReconcileDirectory ?prior [sample_entry ''b''] ''/'' ?cfg 9000 ''s2'')"
  have m: "matched ?prior [sample_entry ''b''] ?cfg 9000 (sample_entry ''b'') (missing_resource ''r1'' ''/d/a'')"
    by code_simp
  have rid: "tr_ResourceID (hd ?ts) = ResourceID (missing_resource ''r1'' ''/d/a'')" by code_simp
  have ne: "?ts \<noteq> []" by code_simp
  from directory_protects_matched [OF m _ hd_in_set [OF ne] rid] show ?thesis by simp
qed

section \<open>Decimal printing\<close>

lemma dec_digits_0: "dec_digits 0 = ''0''"
  by code_simp

lemma itoa_loop_digits: "0 < n \<Longrightarrow> itoa_loop n acc = dec_digits n @ acc"
proof (induction n acc rule: itoa_loop.induct)
  case (1 n acc)
  show ?case
  proof (cases "n < 10")
    case True
    with 1 show ?thesis
      by (simp add: itoa_loop.simps [of n] itoa_loop.simps [of 0] dec_digits.simps [of n])
  next
    case False
    with 1 show ?thesis by (simp add: itoa_loop.simps [of n] dec_digits.simps [of n])
  qed
qed

text \<open>
  The hand-written decimal conversion is \<open>strconv.FormatInt\<close> on every 64-bit number but the
  smallest, whose negation overflows.
\<close>

theorem itoa_format:
  assumes "- (2 ^ 63) < n" and "n < 2 ^ 63"
  shows "itoa n = format_int n"
  using assms itoa_loop_digits [of "nat n" "[]"] itoa_loop_digits [of "nat (- n)" "[]"]
  by (auto simp: itoa_def format_int_def dec_digits_0)

theorem itoa_format_witness: "itoa (- 120) = format_int (- 120)"
  by (rule itoa_format) simp_all

section \<open>Departures from the comments\<close>

text \<open>
  The comment at \<open>effectiveGrace\<close> says that a resource that can still be recognised as moved can
  never be confirmed removed. When the time since the first absence equals both the grace period
  and the horizon, the resource is within the horizon and its removal is confirmed.
\<close>

lemma removal_within_horizon_example:
  "withinMoveHorizon (missing_resource ''r1'' ''/a'') (sample_cfg 8000 8000) 9000 \<and>
   tr_Kind (missingTransition (missing_resource ''r1'' ''/a'') (sample_cfg 8000 8000) 9000 ''s2'') =
     KindConfirmRemoved"
  by code_simp

text \<open>Off that boundary the comment holds.\<close>

lemma removal_outside_horizon:
  assumes "removal_due p cfg now sid" and "withinMoveHorizon p cfg now"
  shows "MissingSince p = Some ms \<Longrightarrow> time_sub now ms = MoveRecognitionHorizon cfg"
  using assms by (auto simp: removal_due_def withinMoveHorizon_def effectiveGrace_def
      split: option.splits if_splits)

text \<open>
  Two entries without hashes that agree in size and modification time with one missing resource
  both match it: the resource is moved twice in one reconcile. The hash rule R3 reports such an
  observation as ambiguous.
\<close>

lemma double_move_example:
  "map (\<lambda>t. (tr_Kind t, tr_ResourceID t, tr_NewPath t))
     (Transitions (Reconcile [missing_resource ''r1'' ''/a''] [sample_entry ''b'', sample_entry ''c'']
        AcceptanceComplete (sample_cfg 10000 10000) 9000 ''s2'')) =
   [(KindResetRemovalEvidence, ''r1'', None), (KindRename, ''r1'', Some ''/b''),
    (KindResetRemovalEvidence, ''r1'', None), (KindRename, ''r1'', Some ''/c'')]"
  by code_simp


text \<open>
  A resource or an entry without a size, such as a directory, always counts as changed, so an
  identical observation of it produces a generation.
\<close>

lemma attrsChanged_no_size: "Size p = None \<or> se_Size e = None \<Longrightarrow> attrsChanged p e"
  by (auto simp: attrsChanged_def equalInt64_def)

end
