(* ===== verification/Pipeline.thy ===== *)
theory Pipeline
  imports Completeness Identity Reconcile ReconcileProps
begin

text \<open>
  The evaluation of one admitted snapshot (\<open>internal/kernel/pipeline\<close>): the completeness verdict
  over the evidence of the snapshot, and the kernel's identity of the snapshot, which digests the
  entries, the normalised evidence and the removal-decision context.
\<close>

section \<open>Evaluation\<close>

record PipelineResult =
  pr_Acceptance :: AcceptanceState
  pr_Identity :: SnapshotIdentity
  pr_Corroboration :: ScopeShrinkCorroboration

text \<open>\<open>SkippedScopes\<close> is a byte slice that may be nil.\<close>

record PipelineEvidence =
  pe_TraversalStatus :: TraversalStatus
  pe_SkippedScopes :: "string option"
  pe_SkippedKnownEmpty :: bool
  pe_HasErrorSummary :: bool
  pe_Freshness :: FreshnessEvidence
  pe_Assurance :: FailureVisibility
  pe_UsedCache :: bool
  pe_EntryCount :: int
  pe_PriorPresent :: int
  pe_Corroboration :: ScopeShrinkCorroboration

definition skippedCanonical :: "PipelineEvidence \<Rightarrow> string" where
  "skippedCanonical ev =
     (if pe_SkippedKnownEmpty ev then ''CONFIRMED_EMPTY''
      else if length (deref (pe_SkippedScopes ev)) > 0 then deref (pe_SkippedScopes ev)
      else ''UNKNOWN'')"

definition errorCanonical :: "bool \<Rightarrow> string" where
  "errorCanonical has = (if has then ''PRESENT'' else ''NONE'')"

definition normalizeFreshness :: "FreshnessEvidence \<Rightarrow> FreshnessEvidence" where
  "normalizeFreshness f = (if f = FreshnessEmpty then FreshnessUnknown else f)"

definition normalizeAssurance :: "FailureVisibility \<Rightarrow> FailureVisibility" where
  "normalizeAssurance a = (if a = FailureVisibilityEmpty then UnknownFailureVisibility else a)"

text \<open>\<open>UnixNano\<close> is the nanosecond count, truncated to 64 bits.\<close>

definition toDigestEntry :: "SnapshotEntry \<Rightarrow> Entry" where
  "toDigestEntry e =
     \<lparr>de_ParentRef = se_ParentRef e, de_Name = se_Name e, de_IsDir = se_IsDir e,
      de_Size = se_Size e, de_MTimeUnixNano = map_option word_of_int (se_Mtime e),
      de_ContentHash = deref (se_ContentHash e), de_HashAlgorithm = deref (se_HashAlgorithm e),
      de_ContentType = deref (se_ContentType e),
      de_ProviderObjectID = deref (se_ProviderObjectID e),
      de_ProviderObjectIDScope = deref (se_ProviderObjectIDScope e),
      de_ProviderAssurance =
        (case se_ProviderIdentityAssurance e of None \<Rightarrow> [] | Some a \<Rightarrow> assurance_str a)\<rparr>"

definition toDigestEntries :: "SnapshotEntry list \<Rightarrow> Entry list" where
  "toDigestEntries entries = map toDigestEntry entries"

definition pipeline_completeness ::
  "SnapshotEntry list \<Rightarrow> PipelineEvidence \<Rightarrow> ScopeShrinkCorroboration \<Rightarrow> Evidence" where
  "pipeline_completeness entries ev corroboration =
     \<lparr>ce_TraversalStatus = pe_TraversalStatus ev, ce_HasErrorSummary = pe_HasErrorSummary ev,
      ce_HasSkippedScopes = (length (deref (pe_SkippedScopes ev)) > 0),
      ce_SkippedKnownEmpty = pe_SkippedKnownEmpty ev,
      ce_SkippedUnknown = (pe_SkippedScopes ev = None \<and> \<not> pe_SkippedKnownEmpty ev),
      ce_Freshness = pe_Freshness ev, ce_Assurance = pe_Assurance ev,
      ce_UsedCache = pe_UsedCache ev, ce_EntryCount = int (length entries),
      ce_PriorPresent = pe_PriorPresent ev,
      ce_Corroboration = (if corroboration = ShrinkNone then None else Some corroboration)\<rparr>"

definition pipeline_Evaluate ::
  "SnapshotEntry list \<Rightarrow> PriorResource list \<Rightarrow> PipelineEvidence \<Rightarrow> Resolve.Config \<Rightarrow> gotime
     \<Rightarrow> PipelineResult" where
  "pipeline_Evaluate entries prior ev cfg now =
     (let corroboration = (if pe_Corroboration ev = ShrinkEmpty then ShrinkNone
                           else pe_Corroboration ev);
          acceptance = Evaluate (pipeline_completeness entries ev corroboration)
                         \<lparr>SignificantShrinkRatio = 0\<rparr>;
          ident = FinalDigest (toDigestEntries entries)
            \<lparr>dv_TraversalStatus = traversal_str (pe_TraversalStatus ev),
             dv_ErrorSummaryCanonical = errorCanonical (pe_HasErrorSummary ev),
             dv_SkippedScopesCanonical = skippedCanonical ev,
             dv_Freshness = freshness_str (normalizeFreshness (pe_Freshness ev)),
             dv_Assurance = visibility_str (normalizeAssurance (pe_Assurance ev)),
             dv_ScopeShrinkCorroboration = corroboration_str corroboration,
             dv_RemovalDecisionContext = RemovalDecisionContext prior entries cfg now\<rparr>
      in \<lparr>pr_Acceptance = acceptance, pr_Identity = ident, pr_Corroboration = corroboration\<rparr>)"

section \<open>Raw scope signature\<close>

definition signature_line :: "SnapshotEntry \<Rightarrow> string" where
  "signature_line e =
     se_ParentRef e @ nul # se_Name e @ nul # deref (se_ContentHash e) @ nul #
     deref (se_HashAlgorithm e)"

definition RawScopeSignature :: "SnapshotEntry list \<Rightarrow> string" where
  "RawScopeSignature entries =
     concat (map (\<lambda>l. l @ [newline]) (sort_strings (map signature_line entries)))"

section \<open>Properties\<close>

lemma RawScopeSignature_perm:
  "mset xs = mset ys \<Longrightarrow> RawScopeSignature xs = RawScopeSignature ys"
  using sort_strings_mset [of "map signature_line xs" "map signature_line ys"]
  by (simp add: RawScopeSignature_def mset_map)

text \<open>
  When an evaluation is COMPLETE. The pipeline accepts a snapshot as COMPLETE exactly when the
  traversal succeeded without errors, no skipped-scope bytes were recorded and skips are known to
  be empty, the evidence is fresh and strongly visible, a loss of half the inventory or more is
  corroborated, and a non-empty inventory is not replaced by nothing. The count is that of
  the entries themselves, not the submitted one.
\<close>

theorem pipeline_complete_exact:
  "pr_Acceptance (pipeline_Evaluate entries prior ev cfg now) = AcceptanceComplete \<longleftrightarrow>
     pe_TraversalStatus ev = TraversalSuccess \<and> \<not> pe_HasErrorSummary ev \<and>
     deref (pe_SkippedScopes ev) = [] \<and> pe_SkippedKnownEmpty ev \<and>
     pe_Freshness ev \<in> {FreshDirect, FreshRefreshed, CachedFresh} \<and>
     pe_Assurance ev = StrongFailureVisibility \<and>
     (pe_Corroboration ev = ShrinkCorroborated \<or>
      \<not> significantShrink (pipeline_completeness entries ev ShrinkNone)
           \<lparr>SignificantShrinkRatio = 0\<rparr>) \<and>
     (entries \<noteq> [] \<or> pe_PriorPresent ev \<le> 0)"
proof -
  have shrink: "significantShrink (pipeline_completeness entries ev c) k =
      significantShrink (pipeline_completeness entries ev ShrinkNone) k" for c k
    by (simp add: significantShrink_def pipeline_completeness_def)
  show ?thesis
    by (cases "pe_Corroboration ev"; cases "pe_Freshness ev"; cases "pe_Assurance ev")
       (simp_all add: pipeline_Evaluate_def Let_def Evaluate_complete_iff complete_evidence_def
        shrink [of ShrinkCorroborated] shrink [of ShrinkContradicted],
        auto simp: pipeline_completeness_def corroborated_def freshness_def assurance_def)
qed

definition sample_pipeline_evidence :: PipelineEvidence where
  "sample_pipeline_evidence =
     \<lparr>pe_TraversalStatus = TraversalSuccess, pe_SkippedScopes = None, pe_SkippedKnownEmpty = True,
      pe_HasErrorSummary = False, pe_Freshness = FreshDirect,
      pe_Assurance = StrongFailureVisibility, pe_UsedCache = False, pe_EntryCount = 2,
      pe_PriorPresent = 2, pe_Corroboration = ShrinkNone\<rparr>"

theorem pipeline_complete_exact_witness:
  "pr_Acceptance (pipeline_Evaluate [sample_entry ''a'', sample_entry ''b''] []
     sample_pipeline_evidence (sample_cfg 0 0) 9) = AcceptanceComplete"
  using pipeline_complete_exact [of "[sample_entry ''a'', sample_entry ''b'']" "[]"
      sample_pipeline_evidence "sample_cfg 0 0" 9]
  by (simp add: sample_pipeline_evidence_def pipeline_completeness_def significantShrink_def
      sub_int64_def)

text \<open>
  C38: the evaluation of a snapshot, verdict and identity, does not depend on the order in which the
  store returns the entries and the inventory.
\<close>

theorem pipeline_order_independent:
  assumes "mset entries = mset entries'" and "mset prior = mset prior'"
  shows "pipeline_Evaluate entries prior ev cfg now = pipeline_Evaluate entries' prior' ev cfg now"
proof -
  have "mset (toDigestEntries entries) = mset (toDigestEntries entries')"
    using assms(1) by (simp add: toDigestEntries_def)
  moreover have "pipeline_completeness entries ev c = pipeline_completeness entries' ev c" for c
    using mset_eq_length [OF assms(1)] by (simp add: pipeline_completeness_def)
  ultimately show ?thesis
    by (simp add: pipeline_Evaluate_def context_perm [OF assms(2,1)]
        FinalDigest_def digest_input_perm [of "toDigestEntries entries" "toDigestEntries entries'"])
qed

theorem pipeline_order_independent_witness:
  "pipeline_Evaluate [sample_entry ''a'', sample_entry ''b'']
     [missing_resource ''r1'' ''/a'', sample_resource ''r2'' ''/b''] sample_pipeline_evidence
     (sample_cfg 0 0) 9 =
   pipeline_Evaluate [sample_entry ''b'', sample_entry ''a'']
     [sample_resource ''r2'' ''/b'', missing_resource ''r1'' ''/a''] sample_pipeline_evidence
     (sample_cfg 0 0) 9"
  by (rule pipeline_order_independent) simp_all

end
