(* ===== verification/Coordinator.thy ===== *)
theory Coordinator
  imports Fence Pipeline
begin

text \<open>
  The transactional core (\<open>decision.go\<close>, \<open>tx.go\<close>, \<open>coordinator.go\<close>, \<open>snapshot_create_admit.go\<close>,
  \<open>recovery.go\<close>, \<open>repo_journal_repair.go\<close> and \<open>root_admin.go\<close> of \<open>internal/store/postgres\<close>, and the drain loop of
  \<open>internal/runtime/worker\<close>): applying a reconcile result to the canonical tables, admission of
  snapshots into the per-root sequence, the evaluation and reconcile of the head of a root's
  queue in one transaction, and recovery. Every transaction locks its root row first, so the
  transactions of one root are atomic steps.
\<close>

section \<open>Plans\<close>

record Plan =
  pl_MutatesCanonical :: bool
  pl_Apply :: "int \<Rightarrow> db \<Rightarrow> store_error + db"
  pl_Events :: "JournalEvent list"

fun eventTypeFor :: "Kind \<Rightarrow> EventType option" where
  "eventTypeFor KindAdd = Some EventResourceAdded"
| "eventTypeFor KindUpdate = Some EventResourceUpdated"
| "eventTypeFor KindRename = Some EventResourceRenamed"
| "eventTypeFor KindMove = Some EventResourceMoved"
| "eventTypeFor KindConfirmRemoved = Some EventResourceRemoved"
| "eventTypeFor _ = None"

definition resolveParentID :: "db \<Rightarrow> uuid \<Rightarrow> string \<Rightarrow> uuid option" where
  "resolveParentID d rid parentPath =
     (if parentPath = [] \<or> parentPath = ''/'' \<or> parentPath = ''.'' then None
      else case filter (\<lambda>r. RootID r = rid \<and> CanonicalPath r = Some parentPath \<and>
                  Presence r = ResourcePresent \<and> IsDir r = Some True) (db_resources d) of
        [r] \<Rightarrow> Some (ResourceID r)
      | _ \<Rightarrow> None)"

definition new_resource :: "db \<Rightarrow> uuid \<Rightarrow> int \<Rightarrow> Transition \<Rightarrow> CanonicalResource" where
  "new_resource d rid generation tr =
     (let r = \<lparr>ResourceID = tr_ResourceID tr, RootID = rid, IntroducedAtGeneration = generation,
               LastConfirmedGeneration = generation, Presence = ResourcePresent,
               EvidenceState = RemovalEvidenceNone, MissingSince = None,
               ConsecutiveCompleteMissing = 0, MissingFirstSnapshotID = None,
               MissingLastSnapshotID = None, CanonicalPath = None, ParentResourceID = None,
               Name = None, IsDir = None, Size = None, Mtime = None, ContentHash = None,
               HashAlgorithm = None, ContentType = None, CurrentAttributes = ''{}''\<rparr>
      in case tr_Entry tr of
           None \<Rightarrow> r
         | Some e \<Rightarrow> r\<lparr>CanonicalPath := Some (EntryPath e), Name := Some (se_Name e),
             IsDir := Some (se_IsDir e), Size := se_Size e, Mtime := se_Mtime e,
             ContentHash := se_ContentHash e, HashAlgorithm := se_HashAlgorithm e,
             ContentType := se_ContentType e,
             ParentResourceID := resolveParentID d rid (path_dir (EntryPath e))\<rparr>)"

definition set_evidence :: "RemovalEvidenceState \<Rightarrow> Transition \<Rightarrow> db \<Rightarrow> store_error + db" where
  "set_evidence st tr =
     SetRemovalEvidence (tr_ResourceID tr) st (tr_MissingSince tr) (tr_ConsecutiveMissing tr)
       (tr_MissingFirstSnapshotID tr) (tr_MissingLastSnapshotID tr) (tr_LastConfirmedGeneration tr)"

definition apply_path :: "uuid \<Rightarrow> int \<Rightarrow> Transition \<Rightarrow> db \<Rightarrow> store_error + db" where
  "apply_path rid generation tr d =
     (case tr_Prior tr of
        None \<Rightarrow> Inr d
      | Some p \<Rightarrow>
          UpdateResourcePath (tr_ResourceID tr) (tr_NewPath tr)
            (case tr_NewPath tr of
               None \<Rightarrow> ParentResourceID p
             | Some np \<Rightarrow> resolveParentID d rid (path_dir np))
            (map_option se_Name (tr_Entry tr)) generation d)"

definition applyTransition :: "uuid \<Rightarrow> int \<Rightarrow> Transition \<Rightarrow> db \<Rightarrow> store_error + db" where
  "applyTransition rid generation tr d =
     (case tr_Kind tr of
        KindAdd \<Rightarrow> InsertCanonicalResource (new_resource d rid generation tr) d
      | KindUpdate \<Rightarrow>
          (case (tr_Prior tr, tr_Entry tr) of
             (Some p, Some e) \<Rightarrow>
               UpdateResourceAttributes
                 ((CanonicalResource.truncate p)\<lparr>Size := se_Size e, Mtime := se_Mtime e,
                    ContentHash := se_ContentHash e, HashAlgorithm := se_HashAlgorithm e,
                    ContentType := se_ContentType e, LastConfirmedGeneration := generation\<rparr>) d
           | _ \<Rightarrow> Inr d)
      | KindRename \<Rightarrow> apply_path rid generation tr d
      | KindMove \<Rightarrow> apply_path rid generation tr d
      | KindResetRemovalEvidence \<Rightarrow> ResetRemovalEvidence (tr_ResourceID tr) generation d
      | KindMissingEvidence \<Rightarrow> set_evidence RemovalEvidenceMissingConfirmedByComplete tr d
      | KindRemovalCandidate \<Rightarrow> set_evidence RemovalEvidenceCandidate tr d
      | KindConfirmRemoved \<Rightarrow>
          and_then (set_evidence RemovalEvidenceCandidate tr d)
            (ConfirmRemoval (tr_ResourceID tr) generation)
      | _ \<Rightarrow> Inr d)"

definition plan_event :: "Transition \<Rightarrow> JournalEvent option" where
  "plan_event tr =
     map_option (\<lambda>et. \<lparr>ev_RootID = [], ev_EventSeq = 0, ev_GenerationNumber = 0,
        ev_IntraGenerationSeq = 0, ev_EventType = et,
        ev_ResourceID = (if tr_ResourceID tr = [] then None else Some (tr_ResourceID tr)),
        ev_Reason = tr_Reason tr\<rparr>) (eventTypeFor (tr_Kind tr))"

definition apply_result ::
  "uuid \<Rightarrow> uuid \<Rightarrow> gotime \<Rightarrow> Result \<Rightarrow> int \<Rightarrow> db \<Rightarrow> store_error + db" where
  "apply_result rid sid observedAt res generation d =
     and_then (fold_err (applyTransition rid generation) (Transitions res) d)
       (fold_err (\<lambda>ob. AppendObservation sid (obs_ResourceID ob) (obs_Entry ob) observedAt)
         (Observations res))"

definition PlanFromResult :: "uuid \<Rightarrow> uuid \<Rightarrow> gotime \<Rightarrow> Result \<Rightarrow> Plan" where
  "PlanFromResult rid sid observedAt res =
     \<lparr>pl_MutatesCanonical = MutatesCanonical res,
      pl_Apply = apply_result rid sid observedAt res,
      pl_Events = List.map_filter plan_event (Transitions res)\<rparr>"

section \<open>Terminal outcomes\<close>

definition finish ::
  "uuid \<Rightarrow> int \<Rightarrow> uuid \<Rightarrow> AdmissionStatus \<Rightarrow> int option \<Rightarrow> SnapshotLifecycleState
     \<Rightarrow> ReconcileOutcomeKind \<Rightarrow> string \<Rightarrow> int \<Rightarrow> db \<Rightarrow> db" where
  "finish rid seq sid st applied lifecycle outcome reason generation d =
     insertResult rid seq generation outcome reason
       (SetSnapshotLifecycleState sid lifecycle (SetAdmissionStatus rid seq st applied d))"

definition reject ::
  "uuid \<Rightarrow> int \<Rightarrow> uuid \<Rightarrow> int \<Rightarrow> string \<Rightarrow> db \<Rightarrow> store_error + (ReconcileOutcome \<times> db)" where
  "reject rid seq sid generation reason d =
     Inr (\<lparr>oc_Status = AdmissionRejected, oc_SnapshotLifecycle = SnapshotRejected,
           oc_Generation = generation, oc_AppliedGeneration = generation, oc_Mutated = False\<rparr>,
          finish rid seq sid AdmissionRejected None SnapshotRejected ReconcileRejected reason
            generation d)"

definition staleInput ::
  "uuid \<Rightarrow> int \<Rightarrow> uuid \<Rightarrow> int \<Rightarrow> db \<Rightarrow> store_error + (ReconcileOutcome \<times> db)" where
  "staleInput rid seq sid generation d =
     Inr (\<lparr>oc_Status = AdmissionStaleInput, oc_SnapshotLifecycle = SnapshotRejected,
           oc_Generation = generation, oc_AppliedGeneration = generation, oc_Mutated = False\<rparr>,
          finish rid seq sid AdmissionStaleInput None SnapshotRejected ReconcileStaleInput
            ''superseded input'' generation d)"

definition noop ::
  "uuid \<Rightarrow> int \<Rightarrow> uuid \<Rightarrow> int \<Rightarrow> db \<Rightarrow> store_error + (ReconcileOutcome \<times> db)" where
  "noop rid seq sid generation d =
     Inr (\<lparr>oc_Status = AdmissionNoop, oc_SnapshotLifecycle = SnapshotReconciled,
           oc_Generation = generation, oc_AppliedGeneration = generation, oc_Mutated = False\<rparr>,
          finish rid seq sid AdmissionNoop (Some generation) SnapshotReconciled ReconcileNoop []
            generation d)"

text \<open>Recorded in a later transaction after a rolled-back reconcile.\<close>

definition MarkAdmissionFailed :: "uuid \<Rightarrow> int \<Rightarrow> string \<Rightarrow> db \<Rightarrow> db" where
  "MarkAdmissionFailed rid seq reason d =
     (let d1 = SetAdmissionStatus rid seq AdmissionFailed None d
      in d1\<lparr>db_results := db_results d1 @
           [\<lparr>rr_RootID = rid, rr_AdmissionSeq = seq, rr_GenerationNumber = None,
             rr_Outcome = ReconcileFailed, rr_RejectionReason = Some reason\<rparr>]\<rparr>)"

section \<open>Applying a plan\<close>

text \<open>The compare-and-swap on the generation, and the generation row.\<close>

definition advance_generation ::
  "uuid \<Rightarrow> int \<Rightarrow> int \<Rightarrow> uuid \<Rightarrow> int \<Rightarrow> db \<Rightarrow> store_error + db" where
  "advance_generation rid expected currentGen sid seq d =
     (if map_option root_CurrentGeneration (find_root d rid) \<noteq> Some expected
      then Inl ErrCASConflict
      else InsertGeneration
             \<lparr>gen_RootID = rid, gen_GenerationNumber = currentGen + 1,
              gen_ProducedBySnapshotID = Some sid, gen_ProducedByAdmissionSeq = Some seq\<rparr>
             (update_root rid (\<lambda>r. r\<lparr>root_CurrentGeneration := root_CurrentGeneration r + 1\<rparr>) d))"

fun append_events ::
  "uuid \<Rightarrow> int \<Rightarrow> int \<Rightarrow> int \<Rightarrow> JournalEvent list \<Rightarrow> db \<Rightarrow> store_error + db" where
  "append_events rid generation evSeq intraSeq [] d = Inr d"
| "append_events rid generation evSeq intraSeq (e # es) d =
     and_then (AppendJournalEvent (e\<lparr>ev_RootID := rid, ev_GenerationNumber := generation,
                 ev_EventSeq := evSeq, ev_IntraGenerationSeq := intraSeq\<rparr>) d)
       (append_events rid generation (evSeq + 1) (intraSeq + 1) es)"

definition commit_applied ::
  "uuid \<Rightarrow> int \<Rightarrow> uuid \<Rightarrow> SnapshotIdentity \<Rightarrow> int \<Rightarrow> int \<Rightarrow> bool \<Rightarrow> db
     \<Rightarrow> store_error + (ReconcileOutcome \<times> db)" where
  "commit_applied rid seq sid ident currentGen appliedGen mutated d =
     (let d1 = SetSnapshotLifecycleState sid SnapshotReconciled
                 (SetAdmissionStatus rid seq AdmissionApplied (Some appliedGen) d)
      in and_then (InsertAppliedSnapshot
           \<lparr>ap_RootID = rid, ap_Identity = ident, ap_SnapshotID = sid,
            ap_AppliedGeneration = appliedGen, ap_AppliedAdmissionSeq = seq\<rparr> d1) (\<lambda>d2.
           Inr (\<lparr>oc_Status = AdmissionApplied, oc_SnapshotLifecycle = SnapshotReconciled,
                 oc_Generation = currentGen, oc_AppliedGeneration = appliedGen,
                 oc_Mutated = mutated\<rparr>,
                insertResult rid seq appliedGen ReconcileReconciled [] d2)))"

definition apply_head ::
  "uuid \<Rightarrow> int \<Rightarrow> uuid \<Rightarrow> int \<Rightarrow> SnapshotIdentity \<Rightarrow> Plan \<Rightarrow> db
     \<Rightarrow> store_error + (ReconcileOutcome \<times> db)" where
  "apply_head rid seq sid currentGen ident plan d =
     (let mutates = pl_MutatesCanonical plan;
          appliedGen = (if mutates then currentGen + 1 else currentGen)
      in and_then (if mutates then advance_generation rid currentGen currentGen sid seq d else Inr d)
           (\<lambda>d1. and_then (pl_Apply plan appliedGen d1)
           (\<lambda>d2. and_then
              (if mutates \<and> pl_Events plan \<noteq> []
               then append_events rid appliedGen (NextEventSeq d2 rid)
                      (NextIntraGenerationSeq d2 rid appliedGen) (pl_Events plan) d2
               else Inr d2)
           (\<lambda>d3. commit_applied rid seq sid ident currentGen appliedGen mutates d3))))"

section \<open>Shrink corroboration\<close>

definition coordinator_significantShrink :: "int \<Rightarrow> int \<Rightarrow> bool" where
  "coordinator_significantShrink priorPresent entryCount =
     (if priorPresent \<le> 0 then False
      else
        let dropped = sub_int64 priorPresent entryCount
        in if dropped \<le> 0 then False
           else f64_div (f64_of_int dropped) (f64_of_int priorPresent) \<ge> 1 / 2)"

definition scopeSignature :: "db \<Rightarrow> uuid \<Rightarrow> string" where
  "scopeSignature d sid = RawScopeSignature (ListSnapshotEntries d sid)"

definition evaluated_state :: "Snapshot \<Rightarrow> bool" where
  "evaluated_state s \<longleftrightarrow> sn_LifecycleState s = SnapshotEvaluated \<or> sn_LifecycleState s = SnapshotReconciled"

text \<open>The rows of the join of snapshots and their admissions in one root.\<close>

definition admitted :: "db \<Rightarrow> uuid \<Rightarrow> (Snapshot \<times> int) list" where
  "admitted d rid =
     concat (map (\<lambda>s. map (\<lambda>a. (s, adm_AdmissionSeq a))
       (filter (\<lambda>a. adm_SnapshotID a = sn_SnapshotID s \<and> adm_RootID a = rid) (db_admissions d)))
       (filter (\<lambda>s. sn_RootID s = rid) (db_snapshots d)))"

definition is_anchor :: "uuid \<Rightarrow> int \<Rightarrow> Snapshot \<times> int \<Rightarrow> bool" where
  "is_anchor sid currentSeq x \<longleftrightarrow>
     (let (s, seq) = x
      in sn_SnapshotID s \<noteq> sid \<and> seq < currentSeq \<and> evaluated_state s \<and>
         sn_AcceptanceState s = Some AcceptanceSuspicious \<and>
         sn_ScopeShrinkCorroboration s = Some ShrinkNone \<and>
         sn_TraversalStatus s = TraversalSuccess \<and> sn_ErrorSummary s = None \<and>
         sn_SkippedScopesKnownEmpty s \<and>
         (sn_FreshnessEvidence s = Some FreshDirect \<or> sn_FreshnessEvidence s = Some FreshRefreshed \<or>
          sn_FreshnessEvidence s = Some CachedFresh) \<and>
         sn_CollectorCompletenessAssurance s = Some StrongFailureVisibility)"

text \<open>The signatures of the intervening snapshots are read while the rows are still open.\<close>

definition noInterveningGrowth ::
  "env \<Rightarrow> db \<Rightarrow> uuid \<Rightarrow> uuid \<Rightarrow> uuid \<Rightarrow> int \<Rightarrow> int \<Rightarrow> string \<Rightarrow> bool" where
  "noInterveningGrowth ev d rid sid anchorID anchorSeq currentSeq target =
     list_all (\<lambda>(s, _). env_NestedQuery ev \<and> scopeSignature d (sn_SnapshotID s) = target)
       (filter (\<lambda>(s, seq). sn_SnapshotID s \<noteq> sid \<and> sn_SnapshotID s \<noteq> anchorID \<and>
          seq > anchorSeq \<and> seq < currentSeq \<and> evaluated_state s) (admitted d rid))"

definition deriveQualifiedCorroboration ::
  "env \<Rightarrow> db \<Rightarrow> uuid \<Rightarrow> int \<Rightarrow> uuid \<Rightarrow> SnapshotEntry list \<Rightarrow> ScopeShrinkCorroboration" where
  "deriveQualifiedCorroboration ev d rid currentSeq sid entries =
     (let target = RawScopeSignature entries
      in if target = [] then ShrinkNone
         else if list_ex (\<lambda>(s, seq). scopeSignature d (sn_SnapshotID s) = target \<and>
                  noInterveningGrowth ev d rid sid (sn_SnapshotID s) seq currentSeq target)
                (filter (is_anchor sid currentSeq) (admitted d rid))
         then ShrinkCorroborated
         else ShrinkNone)"

section \<open>Stage 2\<close>

definition freshOrUnknown :: "FreshnessEvidence option \<Rightarrow> FreshnessEvidence" where
  "freshOrUnknown f = (case f of None \<Rightarrow> FreshnessUnknown | Some v \<Rightarrow> v)"

definition assuranceOrUnknown :: "FailureVisibility option \<Rightarrow> FailureVisibility" where
  "assuranceOrUnknown a = (case a of None \<Rightarrow> UnknownFailureVisibility | Some v \<Rightarrow> v)"

definition snapshot_time :: "env \<Rightarrow> Snapshot \<Rightarrow> gotime" where
  "snapshot_time ev snap =
     (if sn_ObservedAt snap = zero_time then env_Clock ev 5 else sn_ObservedAt snap)"

definition evaluate_head ::
  "env \<Rightarrow> Resolve.Config \<Rightarrow> db \<Rightarrow> int \<Rightarrow> Snapshot \<Rightarrow> PriorResource list \<Rightarrow> SnapshotEntry list
     \<Rightarrow> DirectoryCoverage option \<Rightarrow> PipelineResult" where
  "evaluate_head ev cfg d seq snap prior entries coverage =
     (let priorPresent = int (length (filter (\<lambda>p. Presence p = ResourcePresent) prior));
          corroboration =
            (if coordinator_significantShrink priorPresent (int (length entries))
             then deriveQualifiedCorroboration ev d (sn_RootID snap) seq (sn_SnapshotID snap) entries
             else ShrinkNone);
          eval = pipeline_Evaluate entries prior
            \<lparr>pe_TraversalStatus = sn_TraversalStatus snap,
             pe_SkippedScopes = sn_SkippedScopes snap,
             pe_SkippedKnownEmpty = sn_SkippedScopesKnownEmpty snap,
             pe_HasErrorSummary = (length (deref (sn_ErrorSummary snap)) > 0),
             pe_Freshness = freshOrUnknown (sn_FreshnessEvidence snap),
             pe_Assurance = assuranceOrUnknown (sn_CollectorCompletenessAssurance snap),
             pe_UsedCache = False, pe_EntryCount = int (length entries),
             pe_PriorPresent = priorPresent, pe_Corroboration = corroboration\<rparr>
            cfg (snapshot_time ev snap)
      in case coverage of
           None \<Rightarrow> eval
         | Some c \<Rightarrow> eval\<lparr>pr_Identity := DirectoryDigest (pr_Identity eval) c\<rparr>)"

definition decide_head ::
  "env \<Rightarrow> Resolve.Config \<Rightarrow> Snapshot \<Rightarrow> PriorResource list \<Rightarrow> SnapshotEntry list
     \<Rightarrow> DirectoryCoverage option \<Rightarrow> AcceptanceState \<Rightarrow> Result" where
  "decide_head ev cfg snap prior entries coverage acceptance =
     (case coverage of
        None \<Rightarrow> Reconcile prior entries acceptance cfg (snapshot_time ev snap) (sn_SnapshotID snap)
      | Some c \<Rightarrow> ReconcileDirectory prior entries (dc_Path c) cfg (snapshot_time ev snap)
                    (sn_SnapshotID snap))"

text \<open>From the evaluation to the commit; the head binding and the fences are already checked.\<close>

definition process_evaluated ::
  "env \<Rightarrow> Resolve.Config \<Rightarrow> uuid \<Rightarrow> int \<Rightarrow> Snapshot \<Rightarrow> int \<Rightarrow> DirectoryCoverage option \<Rightarrow> db
     \<Rightarrow> store_error + (ReconcileOutcome \<times> db)" where
  "process_evaluated ev cfg rid seq snap currentGen coverage d =
     (let sid = sn_SnapshotID snap;
          prior = LoadPriorResources d rid;
          entries = ListSnapshotEntries d sid;
          eval = evaluate_head ev cfg d seq snap prior entries coverage
      in and_then (SetSnapshotEvaluated sid (pr_Acceptance eval) (Some (pr_Corroboration eval)) d)
           (\<lambda>d1.
             if pr_Acceptance eval = AcceptanceFailed
             then reject rid seq sid currentGen ''snapshot acceptance_state is FAILED'' d1
             else if AppliedExistsAtGeneration d1 rid (pr_Identity eval) currentGen
             then noop rid seq sid currentGen d1
             else if seq \<le> AppliedMax d1 rid then staleInput rid seq sid currentGen d1
             else apply_head rid seq sid currentGen (pr_Identity eval)
                    (PlanFromResult rid sid (sn_ObservedAt snap)
                       (decide_head ev cfg snap prior entries coverage (pr_Acceptance eval))) d1))"

definition process_head_snapshot ::
  "env \<Rightarrow> Resolve.Config \<Rightarrow> uuid \<Rightarrow> int \<Rightarrow> Snapshot \<Rightarrow> ResourceRoot \<Rightarrow> db
     \<Rightarrow> store_error + (ReconcileOutcome \<times> db)" where
  "process_head_snapshot ev cfg rid seq snap rt d =
     (let sid = sn_SnapshotID snap; currentGen = root_CurrentGeneration rt
      in if root_LifecycleState rt = RootDeleted
         then reject rid seq sid currentGen ''root is DELETED'' d
         else if sn_LifecycleState snap \<noteq> SnapshotSubmitted then Inl ErrNotSubmitted
         else case validateScopedFetch ev d snap (Some seq) of
           Inl ErrScopedFetchStale \<Rightarrow> staleInput rid seq sid currentGen d
         | Inl e \<Rightarrow> Inl e
         | Inr _ \<Rightarrow>
             (case directoryCoverage (later_clock 2 ev) d snap (ListSnapshotEntries d sid) currentGen of
                Inl ErrDirectoryCoverage \<Rightarrow> staleInput rid seq sid currentGen d
              | Inl e \<Rightarrow> Inl e
              | Inr coverage \<Rightarrow> process_evaluated ev cfg rid seq snap currentGen coverage d))"

definition reconcileHeadSafe ::
  "env \<Rightarrow> Resolve.Config \<Rightarrow> uuid \<Rightarrow> int \<Rightarrow> uuid \<Rightarrow> db \<Rightarrow> store_error + (ReconcileOutcome \<times> db)" where
  "reconcileHeadSafe ev cfg rid seq sid d =
     (if seq \<le> 0 then Inl ErrBindingMismatch
      else case find_root d rid of
        None \<Rightarrow> Inl ErrNoRows
      | Some rt \<Rightarrow>
          (case find_snapshot d sid of
             None \<Rightarrow> Inl ErrBindingMismatch
           | Some snap \<Rightarrow>
               if sn_RootID snap \<noteq> rid then Inl ErrBindingMismatch
               else if sn_LifecycleState snap = SnapshotReconciled
               then and_then (terminalSnapshotReceipt d rid sid seq (root_CurrentGeneration rt))
                      (\<lambda>(_, out). Inr (out, d))
               else if head_seq d rid \<noteq> Some seq then Inl ErrNotHead
               else case find_admission d rid seq of
                 None \<Rightarrow> Inl ErrNoRows
               | Some a \<Rightarrow>
                   if adm_SnapshotID a \<noteq> sid then Inl ErrBindingMismatch
                   else process_head_snapshot ev cfg rid seq snap rt d))"

end
