(* ===== verification/Admission.thy ===== *)
theory Admission
  imports Coordinator
begin

text \<open>
  Admission and everything around the reconcile transaction: \<open>ReconcileHead\<close> with a supplied
  decision function (\<open>tx.go\<close>), the stages of \<open>coordinator.go\<close> that allocate a sequence number and
  select the head, draft creation and submission (\<open>snapshot_create_admit.go\<close>), recovery of
  unadmitted snapshots (\<open>recovery.go\<close>), journal repair (\<open>repo_journal_repair.go\<close>), the root
  lifecycle and policy (\<open>root_admin.go\<close>) and the drain loop of \<open>internal/runtime/worker\<close>.
  An operation of several transactions returns its result together with the database that its
  committed transactions leave. \<open>between\<close> is what other sessions commit between two of them.
\<close>

section \<open>Reconcile with a supplied decision\<close>

record ReconcileInput =
  ri_RootID :: uuid
  ri_AdmissionSeq :: int
  ri_SnapshotID :: uuid
  ri_Identity :: SnapshotIdentity
  ri_ExpectedGeneration :: "int option"

type_synonym apply_func = "PriorResource list \<Rightarrow> Snapshot \<Rightarrow> int \<Rightarrow> store_error + Plan option"

definition empty_plan :: Plan where
  "empty_plan = \<lparr>pl_MutatesCanonical = False, pl_Apply = (\<lambda>_ d. Inr d), pl_Events = []\<rparr>"

definition check_generation :: "uuid \<Rightarrow> int \<Rightarrow> db \<Rightarrow> store_error + db" where
  "check_generation rid expected d =
     (if map_option root_CurrentGeneration (find_root d rid) = Some expected then Inr d
      else Inl ErrCASConflict)"

fun append_plan_events ::
  "uuid \<Rightarrow> int \<Rightarrow> int \<Rightarrow> JournalEvent list \<Rightarrow> db \<Rightarrow> store_error + db" where
  "append_plan_events rid generation seq [] d = Inr d"
| "append_plan_events rid generation seq (e # es) d =
     and_then (AppendJournalEvent (e\<lparr>ev_RootID := rid, ev_EventSeq := seq,
                 ev_GenerationNumber := generation,
                 ev_IntraGenerationSeq :=
                   (if ev_IntraGenerationSeq e = 0 then NextIntraGenerationSeq d rid generation
                    else ev_IntraGenerationSeq e)\<rparr>) d)
       (append_plan_events rid generation (seq + 1) es)"

definition run_plan ::
  "ReconcileInput \<Rightarrow> int \<Rightarrow> Plan \<Rightarrow> db \<Rightarrow> store_error + (ReconcileOutcome \<times> db)" where
  "run_plan inp currentGen plan d =
     (let rid = ri_RootID inp; seq = ri_AdmissionSeq inp; sid = ri_SnapshotID inp;
          expected = (case ri_ExpectedGeneration inp of None \<Rightarrow> currentGen | Some g \<Rightarrow> g);
          mutates = pl_MutatesCanonical plan;
          appliedGen = (if mutates then currentGen + 1 else currentGen)
      in and_then (if mutates then advance_generation rid expected currentGen sid seq d
                   else check_generation rid expected d)
           (\<lambda>d1. and_then (pl_Apply plan appliedGen d1)
           (\<lambda>d2. and_then
              (if mutates
               then append_plan_events rid appliedGen (NextEventSeq d2 rid) (pl_Events plan) d2
               else Inr d2)
           (\<lambda>d3. commit_applied rid seq sid (ri_Identity inp) currentGen appliedGen mutates d3))))"

definition ReconcileHead ::
  "apply_func \<Rightarrow> ReconcileInput \<Rightarrow> db \<Rightarrow> store_error + (ReconcileOutcome \<times> db)" where
  "ReconcileHead compute inp d =
     (let rid = ri_RootID inp; seq = ri_AdmissionSeq inp; sid = ri_SnapshotID inp
      in case find_root d rid of
        None \<Rightarrow> Inl ErrNotFound
      | Some rt \<Rightarrow>
          let currentGen = root_CurrentGeneration rt
          in if head_seq d rid \<noteq> Some seq then Inl ErrNotHead
             else if root_LifecycleState rt = RootDeleted
             then reject rid seq sid currentGen ''root is DELETED'' d
             else and_then (GetSnapshot d sid) (\<lambda>snap.
               if sn_LifecycleState snap \<noteq> SnapshotEvaluated
               then reject rid seq sid currentGen ''snapshot is not in EVALUATED state'' d
               else if sn_AcceptanceState snap = Some AcceptanceFailed
               then reject rid seq sid currentGen ''snapshot acceptance_state is FAILED'' d
               else if AppliedExistsAtGeneration d rid (ri_Identity inp) currentGen
               then noop rid seq sid currentGen d
               else if seq \<le> AppliedMax d rid
               then reject rid seq sid currentGen ''superseded input'' d
               else and_then (compute (LoadPriorResources d rid) snap currentGen) (\<lambda>plan.
                 run_plan inp currentGen (case plan of None \<Rightarrow> empty_plan | Some p \<Rightarrow> p) d)))"

section \<open>Stage 1\<close>

text \<open>The admission already pending for a snapshot; resuming never allocates a second one.\<close>

definition pending_admission_of :: "db \<Rightarrow> uuid \<Rightarrow> uuid \<Rightarrow> int option" where
  "pending_admission_of d rid sid =
     min_of (map adm_AdmissionSeq (filter (\<lambda>a. adm_SnapshotID a = sid) (pending d rid)))"

definition admitOrResumeSnapshot ::
  "env \<Rightarrow> bool \<Rightarrow> uuid \<Rightarrow> uuid \<Rightarrow> db \<Rightarrow> store_error + (int \<times> bool \<times> db)" where
  "admitOrResumeSnapshot ev terminalHandoff rid sid d =
     (case find_root d rid of
        None \<Rightarrow> Inl ErrNotFound
      | Some rt \<Rightarrow>
          (case find_snapshot d sid of
             None \<Rightarrow> Inl ErrNotFound
           | Some snap \<Rightarrow>
               if sn_RootID snap \<noteq> rid then Inl ErrBindingMismatch
               else if sn_LifecycleState snap \<noteq> SnapshotSubmitted
               then (if terminalHandoff \<and> sn_LifecycleState snap = SnapshotReconciled
                     then and_then (terminalSnapshotReceipt d rid sid 0 (root_CurrentGeneration rt))
                            (\<lambda>(seq, _). Inr (seq, True, d))
                     else Inl ErrNotSubmitted)
               else case pending_admission_of d rid sid of
                 Some seq \<Rightarrow> Inr (seq, True, d)
               | None \<Rightarrow>
                   if terminalHandoff \<and> list_ex (\<lambda>a. adm_SnapshotID a = sid) (db_admissions d)
                   then Inl ErrTerminalSnapshot
                   else and_then (validateOptionalScopedAdmission ev d sid) (\<lambda>_.
                     and_then (AllocateAdmission rid sid d) (\<lambda>(seq, d'). Inr (seq, False, d')))))"

definition AdmitOrResumeSnapshot ::
  "env \<Rightarrow> uuid \<Rightarrow> uuid \<Rightarrow> db \<Rightarrow> store_error + (int \<times> bool \<times> db)" where
  "AdmitOrResumeSnapshot ev = admitOrResumeSnapshot ev False"

definition AdmitSnapshot :: "env \<Rightarrow> uuid \<Rightarrow> uuid \<Rightarrow> db \<Rightarrow> store_error + (int \<times> db)" where
  "AdmitSnapshot ev rid sid d =
     (case find_root d rid of
        None \<Rightarrow> Inl ErrNotFound
      | Some rt \<Rightarrow>
          (case find_snapshot d sid of
             None \<Rightarrow> Inl ErrNotFound
           | Some snap \<Rightarrow>
               if sn_RootID snap \<noteq> rid then Inl ErrBindingMismatch
               else if sn_LifecycleState snap \<noteq> SnapshotSubmitted then Inl ErrNotSubmitted
               else and_then (validateOptionalScopedAdmission ev d sid) (\<lambda>_.
                 AllocateAdmission rid sid d)))"

text \<open>\<open>stated\<close> is the lifecycle state that the caller supplied; \<open>None\<close> is the empty string.\<close>

definition CreateDraftSnapshot ::
  "Snapshot \<Rightarrow> SnapshotLifecycleState option \<Rightarrow> SnapshotEntry list \<Rightarrow> db \<Rightarrow> store_error + db" where
  "CreateDraftSnapshot snap stated entries d =
     (if stated \<noteq> None \<and> stated \<noteq> Some SnapshotDraft then Inl ErrNotDraft
      else insert_draft (snap\<lparr>sn_LifecycleState := SnapshotDraft\<rparr>) entries d)"

definition SubmitAndAdmitSnapshot :: "env \<Rightarrow> uuid \<Rightarrow> uuid \<Rightarrow> db \<Rightarrow> store_error + (int \<times> db)" where
  "SubmitAndAdmitSnapshot ev rid sid d =
     (case find_root d rid of
        None \<Rightarrow> Inl ErrNotFound
      | Some rt \<Rightarrow>
          (case find_snapshot d sid of
             None \<Rightarrow> Inl ErrNotFound
           | Some snap \<Rightarrow>
               if sn_RootID snap \<noteq> rid then Inl ErrBindingMismatch
               else if sn_LifecycleState snap \<noteq> SnapshotDraft then Inl ErrNotDraft
               else and_then (if fence_member (sn_Provenance snap) \<noteq> Absent
                              then validateScopedFetch ev d snap None else Inr ()) (\<lambda>_.
                 and_then (MarkSnapshotSubmitted sid d) (AllocateAdmission rid sid))))"

section \<open>Processing\<close>

definition ProcessSnapshot ::
  "env \<Rightarrow> Resolve.Config \<Rightarrow> (nat \<Rightarrow> db \<Rightarrow> db) \<Rightarrow> uuid \<Rightarrow> uuid \<Rightarrow> db
     \<Rightarrow> (store_error + ReconcileOutcome) \<times> db" where
  "ProcessSnapshot ev cfg between rid sid d =
     (case Validate cfg of
        Inl e \<Rightarrow> (Inl (ErrConfig e), d)
      | Inr _ \<Rightarrow>
          (case admitOrResumeSnapshot ev True rid sid d of
             Inl e \<Rightarrow> (Inl e, d)
           | Inr (seq, _, d1) \<Rightarrow>
               let d2 = between 0 d1
               in (case reconcileHeadSafe (later_clock 10 ev) cfg rid seq sid d2 of
                     Inl e \<Rightarrow> (Inl e, d2)
                   | Inr (out, d3) \<Rightarrow> (Inr out, d3))))"

text \<open>\<open>None\<close> is the \<open>done = false\<close> of the code: the root has no pending admission. Losing the head
  to another session is reported apart when the loss is durably recorded.\<close>

definition ProcessHead ::
  "env \<Rightarrow> Resolve.Config \<Rightarrow> (nat \<Rightarrow> db \<Rightarrow> db) \<Rightarrow> uuid \<Rightarrow> db
     \<Rightarrow> (store_error + ReconcileOutcome option) \<times> db" where
  "ProcessHead ev cfg between rid d =
     (case Validate cfg of
        Inl e \<Rightarrow> (Inl (ErrConfig e), d)
      | Inr _ \<Rightarrow>
          (case PendingHead d rid of
             None \<Rightarrow> (Inr None, d)
           | Some (seq, sid) \<Rightarrow>
               let d1 = between 0 d
               in (case reconcileHeadSafe ev cfg rid seq sid d1 of
                     Inr (out, d2) \<Rightarrow> (Inr (Some out), d2)
                   | Inl ErrNotHead \<Rightarrow>
                       let d2 = between 1 d1
                       in (case consumedStaleHead d2 rid seq sid of
                             Inl e \<Rightarrow> (Inl e, d2)
                           | Inr True \<Rightarrow> (Inl ErrStaleHeadConsumed, d2)
                           | Inr False \<Rightarrow> (Inl ErrNotHead, d2))
                   | Inl e \<Rightarrow> (Inl e, d1))))"

section \<open>Recovery\<close>

definition unadmitted :: "db \<Rightarrow> Snapshot \<Rightarrow> bool" where
  "unadmitted d s \<longleftrightarrow>
     sn_LifecycleState s = SnapshotSubmitted \<and>
     \<not> list_ex (\<lambda>a. adm_SnapshotID a = sn_SnapshotID s) (db_admissions d)"

definition UnadmittedSnapshotIDsForRoot :: "db \<Rightarrow> uuid \<Rightarrow> uuid list" where
  "UnadmittedSnapshotIDsForRoot d rid =
     map sn_SnapshotID (filter (\<lambda>s. sn_RootID s = rid \<and> unadmitted d s) (db_snapshots d))"

definition UnadmittedSubmittedByRoot :: "db \<Rightarrow> (uuid \<times> uuid list) list" where
  "UnadmittedSubmittedByRoot d =
     (let rows = filter (unadmitted d) (db_snapshots d)
      in map (\<lambda>rid. (rid, map sn_SnapshotID (filter (\<lambda>s. sn_RootID s = rid) rows)))
           (rev (remdups (rev (map sn_RootID rows)))))"

text \<open>Several candidates of one root are reported and left alone: no order is invented.\<close>

fun resolve_groups ::
  "env \<Rightarrow> (uuid \<times> uuid list) list \<Rightarrow> nat \<Rightarrow> uuid list \<Rightarrow> db
     \<Rightarrow> (nat \<times> uuid list \<times> store_error option) \<times> db" where
  "resolve_groups ev [] resolved ambiguous d = ((resolved, ambiguous, None), d)"
| "resolve_groups ev ((rid, sids) # gs) resolved ambiguous d =
     (case sids of
        [sid] \<Rightarrow>
          (case AdmitOrResumeSnapshot ev rid sid d of
             Inl e \<Rightarrow> ((resolved, ambiguous, Some e), d)
           | Inr (_, _, d') \<Rightarrow> resolve_groups ev gs (resolved + 1) ambiguous d')
      | _ \<Rightarrow> resolve_groups ev gs resolved (ambiguous @ [rid]) d)"

definition ResolveUnadmittedSubmitted ::
  "env \<Rightarrow> db \<Rightarrow> (nat \<times> uuid list \<times> store_error option) \<times> db" where
  "ResolveUnadmittedSubmitted ev d = resolve_groups ev (UnadmittedSubmittedByRoot d) 0 [] d"

definition ResolveUnadmittedSubmittedForRoot ::
  "env \<Rightarrow> uuid \<Rightarrow> db \<Rightarrow> (store_error + (nat \<times> bool)) \<times> db" where
  "ResolveUnadmittedSubmittedForRoot ev rid d =
     (case UnadmittedSnapshotIDsForRoot d rid of
        [] \<Rightarrow> (Inr (0, False), d)
      | [sid] \<Rightarrow>
          (case AdmitOrResumeSnapshot ev rid sid d of
             Inl e \<Rightarrow> (Inl e, d)
           | Inr (_, _, d') \<Rightarrow> (Inr (1, False), d'))
      | _ \<Rightarrow> (Inr (0, True), d))"

section \<open>Journal repair and the root lifecycle\<close>

definition RepairJournal ::
  "uuid \<Rightarrow> JournalEvent \<Rightarrow> db \<Rightarrow> store_error + (JournalEvent \<times> db)" where
  "RepairJournal rid corrective d =
     (case find_root d rid of
        None \<Rightarrow> Inl ErrNotFound
      | Some rt \<Rightarrow>
          let gen = root_CurrentGeneration rt;
              e = corrective\<lparr>ev_RootID := rid, ev_EventSeq := NextEventSeq d rid,
                    ev_GenerationNumber := gen,
                    ev_IntraGenerationSeq := NextIntraGenerationSeq d rid gen\<rparr>
          in and_then (AppendJournalEvent e d) (\<lambda>d'. Inr (e, d')))"

record RootLifecycleResult =
  lr_From :: RootLifecycleState
  lr_To :: RootLifecycleState
  lr_Generation :: int
  lr_EventSeq :: "int option"

fun rootLifecycleEvent :: "RootLifecycleState \<Rightarrow> EventType option" where
  "rootLifecycleEvent RootDeprecated = Some EventRootDeprecated"
| "rootLifecycleEvent RootDeleted = Some EventRootDeleted"
| "rootLifecycleEvent _ = None"

definition TransitionRootLifecycle ::
  "uuid \<Rightarrow> RootLifecycleState \<Rightarrow> db \<Rightarrow> store_error + (RootLifecycleResult \<times> db)" where
  "TransitionRootLifecycle rid next_state d =
     (case find_root d rid of
        None \<Rightarrow> Inl ErrNotFound
      | Some rt \<Rightarrow>
          let from = root_LifecycleState rt; newGen = root_CurrentGeneration rt + 1
          in if from = next_state
             then Inr (\<lparr>lr_From = from, lr_To = next_state,
                        lr_Generation = root_CurrentGeneration rt, lr_EventSeq = None\<rparr>, d)
             else if \<not> CanTransitionTo from next_state
             then Inl (ErrRefused ''invalid root lifecycle transition'')
             else and_then (InsertGeneration
                    \<lparr>gen_RootID = rid, gen_GenerationNumber = newGen,
                     gen_ProducedBySnapshotID = None, gen_ProducedByAdmissionSeq = None\<rparr>
                    (update_root rid (\<lambda>r. r\<lparr>root_LifecycleState := next_state,
                       root_CurrentGeneration := newGen\<rparr>) d)) (\<lambda>d1.
               case rootLifecycleEvent next_state of
                 None \<Rightarrow> Inr (\<lparr>lr_From = from, lr_To = next_state, lr_Generation = newGen,
                             lr_EventSeq = None\<rparr>, d1)
               | Some et \<Rightarrow>
                   let seq = NextEventSeq d1 rid
                   in and_then (AppendJournalEvent
                        \<lparr>ev_RootID = rid, ev_EventSeq = seq, ev_GenerationNumber = newGen,
                         ev_IntraGenerationSeq = NextIntraGenerationSeq d1 rid newGen,
                         ev_EventType = et, ev_ResourceID = None, ev_Reason = []\<rparr> d1) (\<lambda>d2.
                        Inr (\<lparr>lr_From = from, lr_To = next_state, lr_Generation = newGen,
                              lr_EventSeq = Some seq\<rparr>, d2))))"

text \<open>The policy row holds intervals at a microsecond; the seconds go through a double on the way to
  a duration, which truncates.\<close>

definition go_trunc :: "rat \<Rightarrow> int" where
  "go_trunc x = (if x < 0 then - \<lfloor>- x\<rfloor> else \<lfloor>x\<rfloor>)"

definition interval_duration :: "duration \<Rightarrow> duration" where
  "interval_duration n = go_trunc (f64 (f64 (of_int n / of_int second) * of_int second))"

definition GetRootPolicy :: "db \<Rightarrow> uuid \<Rightarrow> store_error + RootPolicy" where
  "GetRootPolicy d rid =
     (case find_policy d rid of
        None \<Rightarrow> Inl ErrNotFound
      | Some p \<Rightarrow> Inr (p\<lparr>
          rp_RemovalGracePeriod := interval_duration (rp_RemovalGracePeriod p),
          rp_MoveRecognitionHorizon := interval_duration (rp_MoveRecognitionHorizon p),
          rp_MinConsecutiveCompleteMissing := max 1 (rp_MinConsecutiveCompleteMissing p),
          rp_MinIndependentConfirmations := max 1 (rp_MinIndependentConfirmations p)\<rparr>))"

definition ReconcileConfig :: "(nat \<Rightarrow> uuid) \<Rightarrow> RootPolicy \<Rightarrow> Resolve.Config" where
  "ReconcileConfig newID p =
     \<lparr>RemovalGracePeriod = rp_RemovalGracePeriod p,
      MoveRecognitionHorizon = rp_MoveRecognitionHorizon p,
      MinConsecutiveCompleteMissing = rp_MinConsecutiveCompleteMissing p,
      MinIndependentConfirmations = rp_MinIndependentConfirmations p, NewID = newID\<rparr>"

definition RootReconcileConfig ::
  "(nat \<Rightarrow> uuid) \<Rightarrow> db \<Rightarrow> uuid \<Rightarrow> store_error + Resolve.Config" where
  "RootReconcileConfig newID d rid =
     and_then (GetRootPolicy d rid) (\<lambda>p.
       case Validate (ReconcileConfig newID p) of
         Inl e \<Rightarrow> Inl (ErrConfig e)
       | Inr _ \<Rightarrow> Inr (ReconcileConfig newID p))"

section \<open>The drain loop\<close>

text \<open>
  One worker drains the queue of one root. The loop ends when nothing is pending or on the first
  error; with other sessions adding work it need not end, so it has fuel and \<open>None\<close> is running
  out of it. \<open>evs n\<close>, \<open>ids n\<close> and \<open>between n\<close> are the environment, the fresh identifiers and the
  other sessions' commits of a round.
\<close>

fun drain ::
  "nat \<Rightarrow> (nat \<Rightarrow> env) \<Rightarrow> (nat \<Rightarrow> nat \<Rightarrow> uuid) \<Rightarrow> Resolve.Config \<Rightarrow> (nat \<Rightarrow> nat \<Rightarrow> db \<Rightarrow> db)
     \<Rightarrow> uuid \<Rightarrow> db \<Rightarrow> (ReconcileOutcome list \<times> store_error option \<times> db) option" where
  "drain 0 evs ids cfg between rid d = None"
| "drain (Suc n) evs ids cfg between rid d =
     (case ProcessHead (evs n) (cfg\<lparr>NewID := ids n\<rparr>) (between n) rid d of
        (Inl e, d') \<Rightarrow>
          if e = ErrStaleHeadConsumed then drain n evs ids cfg between rid d'
          else Some ([], Some e, d')
      | (Inr None, d') \<Rightarrow> Some ([], None, d')
      | (Inr (Some out), d') \<Rightarrow>
          map_option (\<lambda>(outs, e, d''). (out # outs, e, d'')) (drain n evs ids cfg between rid d'))"

definition processRoot ::
  "nat \<Rightarrow> (nat \<Rightarrow> env) \<Rightarrow> (nat \<Rightarrow> nat \<Rightarrow> uuid) \<Rightarrow> (nat \<Rightarrow> nat \<Rightarrow> db \<Rightarrow> db) \<Rightarrow> uuid \<Rightarrow> db
     \<Rightarrow> (ReconcileOutcome list \<times> store_error option \<times> db) option" where
  "processRoot fuel evs ids between rid d =
     (case RootReconcileConfig (ids fuel) d rid of
        Inl e \<Rightarrow> Some ([], Some e, d)
      | Inr cfg \<Rightarrow> drain fuel evs ids cfg between rid d)"

end
