(* ===== verification/Ledger.thy ===== *)
theory Ledger
  imports Admission
begin

text \<open>
  The ledger of a root: its row, generations, admissions, application history, journal and
  results. Closed forms of the transactions over these tables, the invariant of the ledger, and
  that every transaction keeps it.
\<close>

section \<open>Views\<close>

record root_view =
  rv_root :: "ResourceRoot option"
  rv_generations :: "Generation list"
  rv_admissions :: "Admission list"
  rv_applied :: "AppliedSnapshot list"
  rv_journal :: "JournalEvent list"
  rv_results :: "ReconcileResultRow list"

definition view :: "db \<Rightarrow> uuid \<Rightarrow> root_view" where
  "view d rid =
     \<lparr>rv_root = find_root d rid,
      rv_generations = filter (\<lambda>g. gen_RootID g = rid) (db_generations d),
      rv_admissions = filter (\<lambda>a. adm_RootID a = rid) (db_admissions d),
      rv_applied = filter (\<lambda>h. ap_RootID h = rid) (db_applied d),
      rv_journal = root_events d rid,
      rv_results = filter (\<lambda>r. rr_RootID r = rid) (db_results d)\<rparr>"

definition processed :: "Admission \<Rightarrow> bool" where
  "processed a \<longleftrightarrow> adm_Status a \<noteq> AdmissionPending"

definition fifo :: "Admission list \<Rightarrow> bool" where
  "fifo as \<longleftrightarrow>
     list_all (\<lambda>a. list_all (\<lambda>b. processed a \<and> \<not> processed b \<longrightarrow>
       adm_AdmissionSeq a < adm_AdmissionSeq b) as) as"

definition journal_ok :: "int \<Rightarrow> JournalEvent list \<Rightarrow> bool" where
  "journal_ok gen es \<longleftrightarrow>
     map ev_EventSeq es = [1..int (length es)] \<and>
     list_all (\<lambda>e. ev_GenerationNumber e \<le> gen \<and> 1 \<le> ev_IntraGenerationSeq e) es \<and>
     distinct (map (\<lambda>e. (ev_GenerationNumber e, ev_IntraGenerationSeq e)) es) \<and>
     sorted (map ev_GenerationNumber es)"

definition tied :: "Admission list \<Rightarrow> int \<Rightarrow> uuid \<Rightarrow> bool" where
  "tied as seq sid \<longleftrightarrow>
     list_ex (\<lambda>a. adm_AdmissionSeq a = seq \<and> adm_SnapshotID a = sid \<and> processed a) as"

definition produced_ok :: "Admission list \<Rightarrow> Generation \<Rightarrow> bool" where
  "produced_ok as g =
     (case (gen_ProducedBySnapshotID g, gen_ProducedByAdmissionSeq g) of
        (None, None) \<Rightarrow> True
      | (Some sid, Some seq) \<Rightarrow> tied as seq sid
      | _ \<Rightarrow> False)"

definition view_ok :: "root_view \<Rightarrow> bool" where
  "view_ok v =
     (case rv_root v of
        None \<Rightarrow> rv_generations v = [] \<and> rv_admissions v = [] \<and> rv_applied v = [] \<and>
                rv_journal v = [] \<and> rv_results v = []
      | Some rt \<Rightarrow>
          0 \<le> root_CurrentGeneration rt \<and> 0 \<le> root_LatestAdmissionSeq rt \<and>
          map gen_GenerationNumber (rv_generations v) = [1..root_CurrentGeneration rt] \<and>
          list_all (produced_ok (rv_admissions v)) (rv_generations v) \<and>
          map adm_AdmissionSeq (rv_admissions v) = [1..root_LatestAdmissionSeq rt] \<and>
          fifo (rv_admissions v) \<and>
          distinct (map applied_key (rv_applied v)) \<and>
          list_all (\<lambda>h. ap_AppliedGeneration h \<le> root_CurrentGeneration rt \<and>
            tied (rv_admissions v) (ap_AppliedAdmissionSeq h) (ap_SnapshotID h)) (rv_applied v) \<and>
          journal_ok (root_CurrentGeneration rt) (rv_journal v) \<and>
          list_all (\<lambda>r. list_ex (\<lambda>a. adm_AdmissionSeq a = rr_AdmissionSeq r \<and> processed a)
            (rv_admissions v)) (rv_results v))"

definition ledger_ok :: "db \<Rightarrow> bool" where
  "ledger_ok d \<longleftrightarrow> (\<forall>rid. view_ok (view d rid))"

section \<open>Lists of rows\<close>

lemma find_map_other:
  assumes "\<And>x. P (f x) = P x" and "\<And>x. P x \<Longrightarrow> \<not> Q x"
  shows "List.find P (map (\<lambda>x. if Q x then f x else x) xs) = List.find P xs"
proof (induction xs)
  case (Cons x xs)
  then show ?case using assms by (cases "Q x") auto
qed simp

lemma find_map_same:
  assumes "\<And>x. P (f x) = P x"
  shows "List.find P (map (\<lambda>x. if P x then f x else x) xs) = map_option f (List.find P xs)"
  using assms by (induction xs) auto

lemma filter_map_update:
  assumes "\<And>x. P (f x) = P x"
  shows "filter P (map (\<lambda>x. if Q x then f x else x) xs)
    = map (\<lambda>x. if Q x then f x else x) (filter P xs)"
  using assms by (induction xs) auto

lemma map_update_other:
  assumes "\<And>x. x \<in> set xs \<Longrightarrow> \<not> Q x"
  shows "map (\<lambda>x. if Q x then f x else x) xs = xs"
  using assms by (simp add: map_idI)

lemma min_of_None [simp]: "min_of xs = None \<longleftrightarrow> xs = []"
  by (cases xs) (auto split: option.splits)

lemma max_of_None [simp]: "max_of xs = None \<longleftrightarrow> xs = []"
  by (cases xs) (auto split: option.splits)

lemma min_of_Some: "min_of xs = Some m \<longleftrightarrow> m \<in> set xs \<and> (\<forall>x\<in>set xs. m \<le> x)"
proof (induction xs arbitrary: m)
  case (Cons x xs)
  show ?case
  proof (cases "min_of xs")
    case None
    then show ?thesis by auto
  next
    case (Some k)
    with Cons have "k \<in> set xs" "\<forall>y\<in>set xs. k \<le> y" by auto
    with Some show ?thesis by (auto simp: min_def intro: order.antisym)
  qed
qed simp

lemma max_of_Some: "max_of xs = Some m \<longleftrightarrow> m \<in> set xs \<and> (\<forall>x\<in>set xs. x \<le> m)"
proof (induction xs arbitrary: m)
  case (Cons x xs)
  show ?case
  proof (cases "max_of xs")
    case None
    then show ?thesis by auto
  next
    case (Some k)
    with Cons have "k \<in> set xs" "\<forall>y\<in>set xs. y \<le> k" by auto
    with Some show ?thesis by (auto simp: max_def intro: order.antisym)
  qed
qed simp

lemma max_of_upto: "1 \<le> n \<Longrightarrow> max_of [1..n] = Some n"
  by (simp add: max_of_Some)

lemma upto_snoc: "0 \<le> n \<Longrightarrow> [1..n] @ [n + 1] = [1..n + (1::int)]"
  using upto_rec2 [of 1 "n + 1"] by simp

section \<open>Fields of the repository operations\<close>

lemma update_root_fields [simp]:
  "db_generations (update_root rid f d) = db_generations d"
  "db_resources (update_root rid f d) = db_resources d"
  "db_observations (update_root rid f d) = db_observations d"
  "db_snapshots (update_root rid f d) = db_snapshots d"
  "db_entries (update_root rid f d) = db_entries d"
  "db_admissions (update_root rid f d) = db_admissions d"
  "db_applied (update_root rid f d) = db_applied d"
  "db_journal (update_root rid f d) = db_journal d"
  "db_results (update_root rid f d) = db_results d"
  by (simp_all add: update_root_def)

lemma find_root_update_root:
  assumes "\<And>r. root_RootID (f r) = root_RootID r"
  shows "find_root (update_root rid f d) rid'
    = (if rid' = rid then map_option f (find_root d rid') else find_root d rid')"
  using find_map_same [of "root_key rid" f] find_map_other [of "root_key rid'" f "root_key rid"] assms
  by (auto simp: find_root_def update_root_def root_key_def)

lemma find_root_cong: "db_roots d' = db_roots d \<Longrightarrow> find_root d' = find_root d"
  by (simp add: find_root_def fun_eq_iff)

definition ledger :: "db \<Rightarrow> db" where
  "ledger d = d\<lparr>db_resources := [], db_observations := []\<rparr>"

lemma ledger_fields:
  assumes "ledger d' = ledger d"
  shows "db_roots d' = db_roots d" "db_generations d' = db_generations d"
    "db_snapshots d' = db_snapshots d" "db_entries d' = db_entries d"
    "db_admissions d' = db_admissions d" "db_applied d' = db_applied d"
    "db_journal d' = db_journal d" "db_results d' = db_results d"
    "db_policies d' = db_policies d" "db_adapters d' = db_adapters d"
    "db_watches d' = db_watches d" "db_works d' = db_works d"
  using assms by (cases d; cases d'; simp add: ledger_def)+

lemma update_resource_ledger: "update_resource rid f d = Inr d' \<Longrightarrow> ledger d' = ledger d"
  by (auto simp: update_resource_def ledger_def split: if_splits)

lemma applyTransition_ledger: "applyTransition rid g tr d = Inr d' \<Longrightarrow> ledger d' = ledger d"
  by (auto simp: applyTransition_def apply_path_def set_evidence_def SetRemovalEvidence_def
      ResetRemovalEvidence_def ConfirmRemoval_def UpdateResourcePath_def UpdateResourceAttributes_def
      InsertCanonicalResource_def ledger_def update_resource_def
      split: Kind.splits option.splits if_splits)

lemma apply_result_ledger:
  assumes "apply_result rid sid tm res g d = Inr d'"
  shows "ledger d' = ledger d"
proof -
  obtain d1 where 1: "fold_err (applyTransition rid g) (Transitions res) d = Inr d1"
    and 2: "fold_err (\<lambda>ob. AppendObservation sid (obs_ResourceID ob) (obs_Entry ob) tm)
      (Observations res) d1 = Inr d'"
    using assms by (auto simp: apply_result_def)
  have "ledger d1 = ledger d"
    by (rule fold_err_invariant [OF 1]) (simp_all add: applyTransition_ledger)
  moreover have "ledger d' = ledger d1"
    by (rule fold_err_invariant [OF 2])
       (auto simp: AppendObservation_def InsertIdentityEvidence_def ledger_def split: if_splits)
  ultimately show ?thesis by simp
qed

section \<open>Appending events\<close>

fun numbered :: "uuid \<Rightarrow> int \<Rightarrow> int \<Rightarrow> int \<Rightarrow> JournalEvent list \<Rightarrow> JournalEvent list" where
  "numbered rid generation evSeq intraSeq [] = []"
| "numbered rid generation evSeq intraSeq (e # es) =
     e\<lparr>ev_RootID := rid, ev_GenerationNumber := generation, ev_EventSeq := evSeq,
       ev_IntraGenerationSeq := intraSeq\<rparr> # numbered rid generation (evSeq + 1) (intraSeq + 1) es"

lemma length_numbered [simp]: "length (numbered rid g q i es) = length es"
  by (induction es arbitrary: q i) auto

lemma numbered_seqs: "map ev_EventSeq (numbered rid g q i es) = [q..q + int (length es) - 1]"
  by (induction es arbitrary: q i) (auto simp: upto_rec1 [of q for q] algebra_simps)

lemma numbered_fields:
  "e \<in> set (numbered rid g q i es) \<Longrightarrow>
     ev_RootID e = rid \<and> ev_GenerationNumber e = g \<and> q \<le> ev_EventSeq e \<and> i \<le> ev_IntraGenerationSeq e"
  by (induction es arbitrary: q i) force+

lemma numbered_distinct: "distinct (map ev_IntraGenerationSeq (numbered rid g q i es))"
proof (induction es arbitrary: q i)
  case (Cons e es)
  have "i \<notin> ev_IntraGenerationSeq ` set (numbered rid g (q + 1) (i + 1) es)"
    using numbered_fields [of _ rid g "q + 1" "i + 1" es] by force
  with Cons show ?case by simp
qed simp

lemma numbered_events_of:
  "filter (\<lambda>e. ev_RootID e = rid') (numbered rid g q i es)
    = (if rid' = rid then numbered rid g q i es else [])"
  by (induction es arbitrary: q i) auto

lemma append_events_journal:
  "append_events rid g q i es d = Inr d' \<Longrightarrow>
     d' = d\<lparr>db_journal := db_journal d @ numbered rid g q i es\<rparr>"
proof (induction es arbitrary: q i d)
  case (Cons e es)
  show ?case using Cons.prems
    by (auto simp: AppendJournalEvent_def split: if_splits dest: Cons.IH)
qed simp

text \<open>Above the numbers already used, appending never violates a key.\<close>

definition above :: "JournalEvent list \<Rightarrow> int \<Rightarrow> int \<Rightarrow> int \<Rightarrow> bool" where
  "above es g q i \<longleftrightarrow>
     0 < q \<and> 0 < i \<and>
     (\<forall>e\<in>set es. ev_EventSeq e < q \<and> (ev_GenerationNumber e = g \<longrightarrow> ev_IntraGenerationSeq e < i))"

lemma append_events_total:
  assumes "find_root d rid \<noteq> None" and "above (root_events d rid) g q i"
  shows "append_events rid g q i es d = Inr (d\<lparr>db_journal := db_journal d @ numbered rid g q i es\<rparr>)"
  using assms
proof (induction es arbitrary: q i d)
  case (Cons e es)
  let ?e = "e\<lparr>ev_RootID := rid, ev_GenerationNumber := g, ev_EventSeq := q,
    ev_IntraGenerationSeq := i\<rparr>"
  let ?d = "d\<lparr>db_journal := db_journal d @ [?e]\<rparr>"
  have "AppendJournalEvent ?e d = Inr ?d"
    using Cons.prems by (auto simp: AppendJournalEvent_def above_def list_ex_iff)
  moreover have "append_events rid g (q + 1) (i + 1) es ?d
    = Inr (?d\<lparr>db_journal := db_journal ?d @ numbered rid g (q + 1) (i + 1) es\<rparr>)"
    using Cons.prems by (intro Cons.IH) (force simp: find_root_def above_def root_events_def)+
  ultimately show ?case by simp
qed simp

lemma next_above:
  assumes pos: "\<forall>e\<in>set (root_events d rid). 1 \<le> ev_EventSeq e \<and> 1 \<le> ev_IntraGenerationSeq e"
  shows "above (root_events d rid) g (NextEventSeq d rid) (NextIntraGenerationSeq d rid g)"
proof -
  have "0 < NextEventSeq d rid \<and> (\<forall>e\<in>set (root_events d rid). ev_EventSeq e < NextEventSeq d rid)"
    using pos by (auto simp: NextEventSeq_def max_of_Some split: option.splits)
  moreover have "0 < NextIntraGenerationSeq d rid g \<and>
      (\<forall>e\<in>set (root_events d rid). ev_GenerationNumber e = g \<longrightarrow>
        ev_IntraGenerationSeq e < NextIntraGenerationSeq d rid g)"
    using pos
    by (auto simp: NextIntraGenerationSeq_def max_of_Some filter_empty_conv split: option.splits)
  ultimately show ?thesis by (simp add: above_def)
qed

lemma journal_ok_pos:
  assumes "journal_ok gen es" and "e \<in> set es"
  shows "1 \<le> ev_EventSeq e \<and> 1 \<le> ev_IntraGenerationSeq e"
proof -
  have "ev_EventSeq e \<in> set [1..int (length es)]"
    using assms by (metis image_eqI journal_ok_def set_map)
  then have "1 \<le> ev_EventSeq e" by simp
  then show ?thesis using assms by (simp add: journal_ok_def list_all_iff)
qed

lemma NextEventSeq_ok:
  assumes "journal_ok gen (root_events d rid)"
  shows "NextEventSeq d rid = int (length (root_events d rid)) + 1"
proof (cases "root_events d rid")
  case (Cons e es)
  then have "max_of (map ev_EventSeq (root_events d rid)) = Some (int (length (root_events d rid)))"
    using assms by (simp add: journal_ok_def max_of_upto)
  then show ?thesis by (simp add: NextEventSeq_def)
qed (simp add: NextEventSeq_def)

lemma journal_ok_append:
  assumes ok: "journal_ok gen es" and "gen \<le> g" and above: "above es g (int (length es) + 1) i"
  shows "journal_ok g (es @ numbered rid g (int (length es) + 1) i new)"
proof -
  let ?new = "numbered rid g (int (length es) + 1) i new"
  have split: "[1..int (length es)] @ [int (length es) + 1..int (length es) + int (length new)]
    = [1..int (length es) + int (length new)]"
    using upto_split1 [of 1 "int (length es) + 1" "int (length es) + int (length new)"]
    by (cases new) simp_all
  have "map ev_EventSeq (es @ ?new) = [1..int (length (es @ ?new))]"
    using ok by (simp add: journal_ok_def numbered_seqs split)
  moreover have "distinct (map (\<lambda>e. (ev_GenerationNumber e, ev_IntraGenerationSeq e)) (es @ ?new))"
  proof -
    have new: "distinct (map (\<lambda>e. (ev_GenerationNumber e, ev_IntraGenerationSeq e)) ?new)"
      using numbered_distinct [of rid g "int (length es) + 1" i new]
      by (auto simp: distinct_map inj_on_def)
    have "\<not> (ev_GenerationNumber e = ev_GenerationNumber f \<and>
        ev_IntraGenerationSeq e = ev_IntraGenerationSeq f)"
      if "e \<in> set es" "f \<in> set ?new" for e f
      using that numbered_fields [OF that(2)] above by (force simp: above_def)
    with new ok show ?thesis by (force simp: journal_ok_def)
  qed
  moreover have "sorted (map ev_GenerationNumber (es @ ?new))"
  proof -
    have gens: "map ev_GenerationNumber ?new = replicate (length new) g"
      by (rule replicate_eqI) (auto dest: numbered_fields)
    show ?thesis using ok \<open>gen \<le> g\<close>
      by (auto simp: sorted_append gens journal_ok_def list_all_iff intro: order_trans)
  qed
  ultimately show ?thesis
    using ok \<open>gen \<le> g\<close> above numbered_fields [of _ rid g "int (length es) + 1" i new]
    by (force simp: journal_ok_def list_all_iff above_def)
qed

section \<open>The invariant, change by change\<close>

definition mark1 :: "int \<Rightarrow> AdmissionStatus \<Rightarrow> int option \<Rightarrow> Admission \<Rightarrow> Admission" where
  "mark1 seq st ap a =
     (if adm_AdmissionSeq a = seq then a\<lparr>adm_Status := st, adm_AppliedGeneration := ap\<rparr> else a)"

definition mark :: "int \<Rightarrow> AdmissionStatus \<Rightarrow> int option \<Rightarrow> Admission list \<Rightarrow> Admission list" where
  "mark seq st ap = map (mark1 seq st ap)"

lemma mark1_fields [simp]:
  "adm_AdmissionSeq (mark1 seq st ap a) = adm_AdmissionSeq a"
  "adm_SnapshotID (mark1 seq st ap a) = adm_SnapshotID a"
  "adm_RootID (mark1 seq st ap a) = adm_RootID a"
  "processed (mark1 seq st ap a)
    \<longleftrightarrow> (if adm_AdmissionSeq a = seq then st \<noteq> AdmissionPending else processed a)"
  by (simp_all add: mark1_def processed_def)

lemma mark_seqs [simp]: "map adm_AdmissionSeq (mark seq st ap as) = map adm_AdmissionSeq as"
  by (simp add: mark_def)

lemma set_mark [simp]: "set (mark seq st ap as) = mark1 seq st ap ` set as"
  by (simp add: mark_def)

lemma mark_tied: "st \<noteq> AdmissionPending \<Longrightarrow> tied as q sid \<Longrightarrow> tied (mark seq st ap as) q sid"
  by (auto simp: tied_def list_ex_iff)

lemma mark_tied_self:
  "st \<noteq> AdmissionPending \<Longrightarrow> a \<in> set as \<Longrightarrow>
     tied (mark (adm_AdmissionSeq a) st ap as) (adm_AdmissionSeq a) (adm_SnapshotID a)"
  by (auto simp: tied_def list_ex_iff)

lemma produced_ok_mono:
  assumes "produced_ok as g" and "\<And>q sid. tied as q sid \<Longrightarrow> tied as' q sid"
  shows "produced_ok as' g"
  using assms by (auto simp: produced_ok_def split: option.splits)

text \<open>The head of the queue: pending, with no smaller pending number.\<close>

definition head_of :: "Admission list \<Rightarrow> Admission \<Rightarrow> bool" where
  "head_of as a \<longleftrightarrow> a \<in> set as \<and> \<not> processed a \<and>
     (\<forall>b\<in>set as. \<not> processed b \<longrightarrow> adm_AdmissionSeq a \<le> adm_AdmissionSeq b)"

lemma fifo_mark:
  assumes "fifo as" and head: "head_of as a" and inj: "inj_on adm_AdmissionSeq (set as)"
    and st: "st \<noteq> AdmissionPending"
  shows "fifo (mark (adm_AdmissionSeq a) st ap as)"
  using assms by (force simp: fifo_def list_all_iff head_of_def)

lemma view_ok_Some:
  assumes "view_ok v" and "rv_root v = Some rt"
  shows "0 \<le> root_CurrentGeneration rt" "0 \<le> root_LatestAdmissionSeq rt"
    "map gen_GenerationNumber (rv_generations v) = [1..root_CurrentGeneration rt]"
    "\<forall>g\<in>set (rv_generations v). produced_ok (rv_admissions v) g"
    "map adm_AdmissionSeq (rv_admissions v) = [1..root_LatestAdmissionSeq rt]"
    "fifo (rv_admissions v)" "distinct (map applied_key (rv_applied v))"
    "\<forall>h\<in>set (rv_applied v). ap_AppliedGeneration h \<le> root_CurrentGeneration rt \<and>
       tied (rv_admissions v) (ap_AppliedAdmissionSeq h) (ap_SnapshotID h)"
    "journal_ok (root_CurrentGeneration rt) (rv_journal v)"
    "\<forall>r\<in>set (rv_results v). \<exists>a\<in>set (rv_admissions v).
       adm_AdmissionSeq a = rr_AdmissionSeq r \<and> processed a"
  using assms by (simp_all add: view_ok_def list_all_iff list_ex_iff)

lemma view_ok_inj:
  assumes "view_ok v" and "rv_root v = Some rt"
  shows "inj_on adm_AdmissionSeq (set (rv_admissions v))"
  using view_ok_Some(5) [OF assms] by (metis distinct_map distinct_upto)

lemma view_ok_process:
  assumes ok: "view_ok v" "rv_root v = Some rt" and head: "head_of (rv_admissions v) a"
    and st: "st \<noteq> AdmissionPending" and r: "rr_AdmissionSeq r = adm_AdmissionSeq a"
  shows "view_ok (v\<lparr>rv_admissions := mark (adm_AdmissionSeq a) st ap (rv_admissions v),
     rv_results := rv_results v @ [r]\<rparr>)"
proof -
  let ?as = "mark (adm_AdmissionSeq a) st ap (rv_admissions v)"
  have keep: "\<exists>b\<in>set ?as. adm_AdmissionSeq b = q \<and> processed b"
    if "\<exists>b\<in>set (rv_admissions v). adm_AdmissionSeq b = q \<and> processed b" for q
    using that st by force
  have self: "\<exists>b\<in>set ?as. adm_AdmissionSeq b = adm_AdmissionSeq a \<and> processed b"
    using head st by (force simp: head_of_def)
  show ?thesis
    using view_ok_Some [OF ok] ok(2) keep self r
      fifo_mark [OF view_ok_Some(6) [OF ok] head view_ok_inj [OF ok] st]
    by (auto simp: view_ok_def list_all_iff list_ex_iff
        intro: mark_tied [OF st] produced_ok_mono [OF _ mark_tied [OF st]])
qed

lemma view_ok_advance:
  assumes ok: "view_ok v" "rv_root v = Some rt"
    and g: "gen_GenerationNumber g = root_CurrentGeneration rt + 1" "produced_ok (rv_admissions v) g"
    and rt': "root_CurrentGeneration rt' = root_CurrentGeneration rt + 1"
      "root_LatestAdmissionSeq rt' = root_LatestAdmissionSeq rt"
  shows "view_ok (v\<lparr>rv_root := Some rt', rv_generations := rv_generations v @ [g]\<rparr>)"
  using view_ok_Some [OF ok] g rt'
  by (force simp: view_ok_def list_all_iff list_ex_iff upto_snoc journal_ok_def)

lemma view_ok_journal:
  assumes ok: "view_ok v" "rv_root v = Some rt"
    and above: "above (rv_journal v) (root_CurrentGeneration rt) q i"
    and q: "q = int (length (rv_journal v)) + 1"
  shows "view_ok (v\<lparr>rv_journal :=
     rv_journal v @ numbered rid (root_CurrentGeneration rt) q i es\<rparr>)"
  using view_ok_Some [OF ok] ok(2)
    journal_ok_append [OF view_ok_Some(9) [OF ok] order_refl above [unfolded q]]
  by (auto simp: view_ok_def list_all_iff list_ex_iff q)

lemma view_ok_applied:
  assumes ok: "view_ok v" "rv_root v = Some rt"
    and h: "ap_AppliedGeneration h \<le> root_CurrentGeneration rt"
      "tied (rv_admissions v) (ap_AppliedAdmissionSeq h) (ap_SnapshotID h)"
      "applied_key h \<notin> applied_key ` set (rv_applied v)"
  shows "view_ok (v\<lparr>rv_applied := rv_applied v @ [h]\<rparr>)"
  using view_ok_Some [OF ok] ok(2) h by (simp add: view_ok_def list_all_iff list_ex_iff)

lemma view_ok_admit:
  assumes ok: "view_ok v" "rv_root v = Some rt"
    and a: "adm_AdmissionSeq a = root_LatestAdmissionSeq rt + 1" "\<not> processed a"
    and rt': "root_CurrentGeneration rt' = root_CurrentGeneration rt"
      "root_LatestAdmissionSeq rt' = root_LatestAdmissionSeq rt + 1"
  shows "view_ok (v\<lparr>rv_root := Some rt', rv_admissions := rv_admissions v @ [a]\<rparr>)"
proof -
  have less: "adm_AdmissionSeq b < adm_AdmissionSeq a" if "b \<in> set (rv_admissions v)" for b
  proof -
    have "adm_AdmissionSeq b \<in> set [1..root_LatestAdmissionSeq rt]"
      using view_ok_Some(5) [OF ok] that by (metis image_eqI set_map)
    then show ?thesis using a by simp
  qed
  have "fifo (rv_admissions v @ [a])"
    using view_ok_Some(6) [OF ok] a(2) less by (auto simp: fifo_def list_all_iff)
  moreover have "tied (rv_admissions v @ [a]) q sid" if "tied (rv_admissions v) q sid" for q sid
    using that by (auto simp: tied_def)
  ultimately show ?thesis
    using view_ok_Some [OF ok] ok(2) a rt'
    by (force simp: view_ok_def list_all_iff list_ex_iff upto_snoc intro: produced_ok_mono)
qed

section \<open>Closed forms of the reconcile transaction\<close>

definition result_row ::
  "uuid \<Rightarrow> int \<Rightarrow> int \<Rightarrow> ReconcileOutcomeKind \<Rightarrow> string \<Rightarrow> ReconcileResultRow" where
  "result_row rid seq generation outcome reason =
     \<lparr>rr_RootID = rid, rr_AdmissionSeq = seq,
      rr_GenerationNumber = (if outcome = ReconcileReconciled \<or> outcome = ReconcileNoop
                             then Some generation else None),
      rr_Outcome = outcome, rr_RejectionReason = (if reason = [] then None else Some reason)\<rparr>"

lemma result_row_fields [simp]:
  "rr_RootID (result_row rid seq g oc rs) = rid"
  "rr_AdmissionSeq (result_row rid seq g oc rs) = seq"
  by (simp_all add: result_row_def)

lemma filter_update_admission:
  "filter (\<lambda>a. adm_RootID a = r)
     (map (\<lambda>a. if adm_RootID a = rid \<and> adm_AdmissionSeq a = seq
           then a\<lparr>adm_Status := st, adm_AppliedGeneration := ap\<rparr> else a) as)
   = (if r = rid then mark seq st ap (filter (\<lambda>a. adm_RootID a = r) as)
      else filter (\<lambda>a. adm_RootID a = r) as)"
  by (induction as) (auto simp: mark_def mark1_def)

lemma view_cong:
  assumes "db_roots d' = db_roots d" "db_generations d' = db_generations d"
    "db_admissions d' = db_admissions d" "db_applied d' = db_applied d"
    "db_journal d' = db_journal d" "db_results d' = db_results d"
  shows "view d' r = view d r"
  using assms by (simp add: view_def find_root_def root_events_def)

lemma find_root_db_update [simp]:
  "find_root (d\<lparr>db_generations := gs\<rparr>) = find_root d"
  "find_root (d\<lparr>db_resources := rs\<rparr>) = find_root d"
  "find_root (d\<lparr>db_observations := obs\<rparr>) = find_root d"
  "find_root (d\<lparr>db_snapshots := ss\<rparr>) = find_root d"
  "find_root (d\<lparr>db_entries := es\<rparr>) = find_root d"
  "find_root (d\<lparr>db_admissions := as\<rparr>) = find_root d"
  "find_root (d\<lparr>db_applied := hs\<rparr>) = find_root d"
  "find_root (d\<lparr>db_journal := js\<rparr>) = find_root d"
  "find_root (d\<lparr>db_results := rr\<rparr>) = find_root d"
  by (simp_all add: find_root_def fun_eq_iff)

lemmas finish_defs = finish_def SetAdmissionStatus_def update_admission_def
  SetSnapshotLifecycleState_def update_snapshot_def insertResult_def

lemma view_finish:
  "view (finish rid seq sid st ap lc oc rs g d) r
   = (if r = rid
      then (view d r)\<lparr>rv_admissions := mark seq st ap (rv_admissions (view d r)),
             rv_results := rv_results (view d r) @ [result_row rid seq g oc rs]\<rparr>
      else view d r)"
  by (simp add: view_def finish_defs result_row_def filter_update_admission root_events_def)

text \<open>What committing a result leaves, table by table. \<open>d2\<close> is the database after the canonical
  writes.\<close>

definition applied_row ::
  "uuid \<Rightarrow> int \<Rightarrow> uuid \<Rightarrow> SnapshotIdentity \<Rightarrow> int \<Rightarrow> AppliedSnapshot" where
  "applied_row rid seq sid ident ag =
     \<lparr>ap_RootID = rid, ap_Identity = ident, ap_SnapshotID = sid, ap_AppliedGeneration = ag,
      ap_AppliedAdmissionSeq = seq\<rparr>"

definition generation_row :: "uuid \<Rightarrow> int \<Rightarrow> uuid \<Rightarrow> int \<Rightarrow> Generation" where
  "generation_row rid seq sid ag =
     \<lparr>gen_RootID = rid, gen_GenerationNumber = ag, gen_ProducedBySnapshotID = Some sid,
      gen_ProducedByAdmissionSeq = Some seq\<rparr>"

definition bump :: "ResourceRoot \<Rightarrow> ResourceRoot" where
  "bump r = r\<lparr>root_CurrentGeneration := root_CurrentGeneration r + 1\<rparr>"

definition advanced :: "bool \<Rightarrow> uuid \<Rightarrow> int \<Rightarrow> uuid \<Rightarrow> int \<Rightarrow> db \<Rightarrow> db" where
  "advanced m rid seq sid g d =
     (if m then (update_root rid bump d)\<lparr>db_generations :=
            db_generations d @ [generation_row rid seq sid (g + 1)]\<rparr>
      else d)"

definition new_events :: "bool \<Rightarrow> uuid \<Rightarrow> int \<Rightarrow> Result \<Rightarrow> db \<Rightarrow> JournalEvent list" where
  "new_events m rid ag res d =
     (if m then numbered rid ag (NextEventSeq d rid) (NextIntraGenerationSeq d rid ag)
                  (List.map_filter plan_event (Transitions res))
      else [])"

definition committed ::
  "uuid \<Rightarrow> int \<Rightarrow> uuid \<Rightarrow> int \<Rightarrow> SnapshotIdentity \<Rightarrow> Result \<Rightarrow> db \<Rightarrow> db \<Rightarrow> db" where
  "committed rid seq sid g ident res d d2 =
     (let m = MutatesCanonical res; ag = (if m then g + 1 else g)
      in finish rid seq sid AdmissionApplied (Some ag) SnapshotReconciled ReconcileReconciled [] ag
           (d2\<lparr>db_journal := db_journal d @ new_events m rid ag res d,
               db_applied := db_applied d @ [applied_row rid seq sid ident ag]\<rparr>))"

definition applied_outcome :: "bool \<Rightarrow> int \<Rightarrow> ReconcileOutcome" where
  "applied_outcome m g =
     \<lparr>oc_Status = AdmissionApplied, oc_SnapshotLifecycle = SnapshotReconciled,
      oc_Generation = g, oc_AppliedGeneration = (if m then g + 1 else g), oc_Mutated = m\<rparr>"

lemma advance_generation_form:
  assumes "advance_generation rid g g sid seq d = Inr d1"
  shows "d1 = advanced True rid seq sid g d"
  using assms
  by (auto simp: advance_generation_def InsertGeneration_def advanced_def bump_def [abs_def]
      generation_row_def split: if_splits)

lemma numbers_cong:
  assumes "db_journal d' = db_journal d"
  shows "NextEventSeq d' rid = NextEventSeq d rid"
    "NextIntraGenerationSeq d' rid g = NextIntraGenerationSeq d rid g"
  using assms by (simp_all add: NextEventSeq_def NextIntraGenerationSeq_def root_events_def)

lemma apply_head_form:
  assumes "apply_head rid seq sid g ident (PlanFromResult rid sid tm res) d = Inr (out, d')"
  obtains d2 where "apply_result rid sid tm res (if MutatesCanonical res then g + 1 else g)
      (advanced (MutatesCanonical res) rid seq sid g d) = Inr d2"
    "ledger d2 = ledger (advanced (MutatesCanonical res) rid seq sid g d)"
    "d' = committed rid seq sid g ident res d d2"
    "out = applied_outcome (MutatesCanonical res) g"
    "applied_key (applied_row rid seq sid ident (if MutatesCanonical res then g + 1 else g))
       \<notin> applied_key ` set (db_applied d)"
proof -
  let ?m = "MutatesCanonical res"
  let ?ag = "if ?m then g + 1 else g"
  let ?es = "List.map_filter plan_event (Transitions res)"
  obtain d1 d2 d3 where 1: "(if ?m then advance_generation rid g g sid seq d else Inr d) = Inr d1"
    and 2: "apply_result rid sid tm res ?ag d1 = Inr d2"
    and 3: "(if ?m \<and> ?es \<noteq> [] then append_events rid ?ag (NextEventSeq d2 rid)
        (NextIntraGenerationSeq d2 rid ?ag) ?es d2 else Inr d2) = Inr d3"
    and 4: "commit_applied rid seq sid ident g ?ag ?m d3 = Inr (out, d')"
    using assms by (auto simp: apply_head_def PlanFromResult_def Let_def cong: if_cong)
  have d1: "d1 = advanced ?m rid seq sid g d"
    using 1 advance_generation_form by (auto simp: advanced_def split: if_splits)
  have led: "ledger d2 = ledger d1" using apply_result_ledger [OF 2] .
  have j: "db_journal d2 = db_journal d" "db_applied d2 = db_applied d"
    using ledger_fields [OF led] by (auto simp: d1 advanced_def)
  have d3: "d3 = d2\<lparr>db_journal := db_journal d @ new_events ?m rid ?ag res d\<rparr>"
  proof (cases "?m \<and> ?es \<noteq> []")
    case True
    then show ?thesis using 3 numbers_cong [OF j(1)] j(1)
      by (auto simp: new_events_def dest: append_events_journal)
  next
    case False
    then show ?thesis using 3 j(1) by (auto simp: new_events_def)
  qed
  show ?thesis
  proof
    show "apply_result rid sid tm res ?ag (advanced ?m rid seq sid g d) = Inr d2"
      using 2 by (simp add: d1)
    show "ledger d2 = ledger (advanced ?m rid seq sid g d)" using led by (simp add: d1)
    show "d' = committed rid seq sid g ident res d d2"
      using 4 j(2) by (auto simp: commit_applied_def committed_def d3 Let_def InsertAppliedSnapshot_def
          applied_row_def finish_defs split: if_splits)
    show "out = applied_outcome ?m g"
      using 4 by (auto simp: commit_applied_def applied_outcome_def Let_def)
    show "applied_key (applied_row rid seq sid ident ?ag) \<notin> applied_key ` set (db_applied d)"
      using 4 j(2) by (force simp: commit_applied_def d3 Let_def InsertAppliedSnapshot_def
          applied_row_def finish_defs list_ex_iff split: if_splits)
  qed
qed

section \<open>Cases of the reconcile transaction\<close>

definition at_head :: "db \<Rightarrow> uuid \<Rightarrow> int \<Rightarrow> Snapshot \<Rightarrow> ResourceRoot \<Rightarrow> bool" where
  "at_head d rid seq snap rt \<longleftrightarrow>
     0 < seq \<and> find_root d rid = Some rt \<and> find_snapshot d (sn_SnapshotID snap) = Some snap \<and>
     sn_RootID snap = rid \<and> head_seq d rid = Some seq \<and>
     map_option adm_SnapshotID (find_admission d rid seq) = Some (sn_SnapshotID snap)"

text \<open>A terminal outcome that leaves the canonical tables alone.\<close>

definition refusal :: "uuid \<Rightarrow> int \<Rightarrow> uuid \<Rightarrow> int \<Rightarrow> db \<Rightarrow> ReconcileOutcome \<Rightarrow> db \<Rightarrow> bool" where
  "refusal rid seq sid g d out d' \<longleftrightarrow>
     (\<exists>st ap lc oc rs.
        (st = AdmissionRejected \<and> lc = SnapshotRejected \<and> ap = None \<and> oc = ReconcileRejected \<or>
         st = AdmissionStaleInput \<and> lc = SnapshotRejected \<and> ap = None \<and> oc = ReconcileStaleInput \<or>
         st = AdmissionNoop \<and> lc = SnapshotReconciled \<and> ap = Some g \<and> oc = ReconcileNoop \<and> rs = []) \<and>
        d' = finish rid seq sid st ap lc oc rs g d \<and>
        out = \<lparr>oc_Status = st, oc_SnapshotLifecycle = lc, oc_Generation = g,
               oc_AppliedGeneration = g, oc_Mutated = False\<rparr>)"

lemma refusals:
  "reject rid seq sid g rs d = Inr (out, d') \<Longrightarrow> refusal rid seq sid g d out d'"
  "staleInput rid seq sid g d = Inr (out, d') \<Longrightarrow> refusal rid seq sid g d out d'"
  "noop rid seq sid g d = Inr (out, d') \<Longrightarrow> refusal rid seq sid g d out d'"
  by (auto simp: reject_def staleInput_def noop_def refusal_def)

lemma early_refusals:
  "reject rid seq sid g rs d = Inr (out, d') \<Longrightarrow>
     refusal rid seq sid g d out d' \<and> oc_Status out \<noteq> AdmissionNoop"
  "staleInput rid seq sid g d = Inr (out, d') \<Longrightarrow>
     refusal rid seq sid g d out d' \<and> oc_Status out \<noteq> AdmissionNoop"
  using refusals by (auto simp: reject_def staleInput_def)

definition evaluated ::
  "uuid \<Rightarrow> AcceptanceState \<Rightarrow> ScopeShrinkCorroboration option \<Rightarrow> db \<Rightarrow> db" where
  "evaluated sid acceptance corroboration =
     update_snapshot sid (\<lambda>s. s\<lparr>sn_AcceptanceState := Some acceptance,
       sn_ScopeShrinkCorroboration := corroboration, sn_LifecycleState := SnapshotEvaluated\<rparr>)"

lemma evaluated_fields [simp]:
  "db_roots (evaluated sid acc cor d) = db_roots d"
  "db_generations (evaluated sid acc cor d) = db_generations d"
  "db_resources (evaluated sid acc cor d) = db_resources d"
  "db_observations (evaluated sid acc cor d) = db_observations d"
  "db_entries (evaluated sid acc cor d) = db_entries d"
  "db_admissions (evaluated sid acc cor d) = db_admissions d"
  "db_applied (evaluated sid acc cor d) = db_applied d"
  "db_journal (evaluated sid acc cor d) = db_journal d"
  "db_results (evaluated sid acc cor d) = db_results d"
  "find_root (evaluated sid acc cor d) = find_root d"
  "view (evaluated sid acc cor d) = view d"
  by (simp_all add: evaluated_def update_snapshot_def find_root_def view_def root_events_def fun_eq_iff)

text \<open>A head that was reconciled: its decision \<open>res\<close> and the canonical writes that gave \<open>d2\<close>.\<close>

definition reconciled ::
  "env \<Rightarrow> Resolve.Config \<Rightarrow> uuid \<Rightarrow> int \<Rightarrow> Snapshot \<Rightarrow> int \<Rightarrow> DirectoryCoverage option \<Rightarrow> db
     \<Rightarrow> Result \<Rightarrow> db \<Rightarrow> ReconcileOutcome \<Rightarrow> db \<Rightarrow> bool" where
  "reconciled ev cfg rid seq snap g coverage d res d2 out d' \<longleftrightarrow>
     (let sid = sn_SnapshotID snap;
          prior = LoadPriorResources d rid; entries = ListSnapshotEntries d sid;
          eval = evaluate_head ev cfg d seq snap prior entries coverage;
          d1 = evaluated sid (pr_Acceptance eval) (Some (pr_Corroboration eval)) d;
          m = MutatesCanonical res; ag = (if m then g + 1 else g)
      in pr_Acceptance eval \<noteq> AcceptanceFailed \<and>
         \<not> AppliedExistsAtGeneration d rid (pr_Identity eval) g \<and> AppliedMax d rid < seq \<and>
         res = decide_head ev cfg snap prior entries coverage (pr_Acceptance eval) \<and>
         apply_result rid sid (sn_ObservedAt snap) res ag (advanced m rid seq sid g d1) = Inr d2 \<and>
         ledger d2 = ledger (advanced m rid seq sid g d1) \<and>
         d' = committed rid seq sid g (pr_Identity eval) res d1 d2 \<and>
         out = applied_outcome m g \<and>
         applied_key (applied_row rid seq sid (pr_Identity eval) ag)
           \<notin> applied_key ` set (db_applied d))"

lemma reconciled_ledger:
  assumes "reconciled ev cfg rid seq snap g coverage d res d2 out d'"
  obtains acc cor ident where
    "ledger d2 = ledger (advanced (MutatesCanonical res) rid seq (sn_SnapshotID snap) g
       (evaluated (sn_SnapshotID snap) acc cor d))"
    "d' = committed rid seq (sn_SnapshotID snap) g ident res
       (evaluated (sn_SnapshotID snap) acc cor d) d2"
    "out = applied_outcome (MutatesCanonical res) g"
    "applied_key (applied_row rid seq (sn_SnapshotID snap) ident
       (if MutatesCanonical res then g + 1 else g)) \<notin> applied_key ` set (db_applied d)"
  using assms unfolding reconciled_def Let_def by blast

lemma process_evaluated_cases:
  assumes "process_evaluated ev cfg rid seq snap g coverage d = Inr (out, d')"
  obtains (refused) acc cor where
      "refusal rid seq (sn_SnapshotID snap) g (evaluated (sn_SnapshotID snap) acc cor d) out d'"
      "oc_Status out = AdmissionNoop \<Longrightarrow>
        acc \<noteq> AcceptanceFailed \<and> (\<exists>ident. AppliedExistsAtGeneration d rid ident g)"
  | (applied) res d2 where "reconciled ev cfg rid seq snap g coverage d res d2 out d'"
proof -
  let ?sid = "sn_SnapshotID snap"
  let ?prior = "LoadPriorResources d rid"
  let ?entries = "ListSnapshotEntries d ?sid"
  let ?eval = "evaluate_head ev cfg d seq snap ?prior ?entries coverage"
  let ?d1 = "evaluated ?sid (pr_Acceptance ?eval) (Some (pr_Corroboration ?eval)) d"
  let ?res = "decide_head ev cfg snap ?prior ?entries coverage (pr_Acceptance ?eval)"
  have evaluated: "SetSnapshotEvaluated ?sid (pr_Acceptance ?eval) (Some (pr_Corroboration ?eval)) d
    = Inr ?d1"
    using assms by (auto simp: process_evaluated_def Let_def SetSnapshotEvaluated_def evaluated_def
        split: option.splits if_splits)
  have same: "AppliedExistsAtGeneration ?d1 = AppliedExistsAtGeneration d" "AppliedMax ?d1 = AppliedMax d"
    by (simp_all add: AppliedExistsAtGeneration_def AppliedMax_def fun_eq_iff)
  consider "refusal rid seq ?sid g ?d1 out d'" "oc_Status out = AdmissionNoop \<Longrightarrow>
        pr_Acceptance ?eval \<noteq> AcceptanceFailed \<and> AppliedExistsAtGeneration d rid (pr_Identity ?eval) g"
    | "pr_Acceptance ?eval \<noteq> AcceptanceFailed"
      "\<not> AppliedExistsAtGeneration d rid (pr_Identity ?eval) g" "AppliedMax d rid < seq"
      "apply_head rid seq ?sid g (pr_Identity ?eval)
         (PlanFromResult rid ?sid (sn_ObservedAt snap) ?res) ?d1 = Inr (out, d')"
  proof (cases "pr_Acceptance ?eval = AcceptanceFailed")
    case True
    then have "reject rid seq ?sid g ''snapshot acceptance_state is FAILED'' ?d1 = Inr (out, d')"
      using assms unfolding process_evaluated_def Let_def evaluated and_then_simps by simp
    then show ?thesis using that(1) refusals(1) by (force simp: reject_def)
  next
    case ok: False
    show ?thesis
    proof (cases "AppliedExistsAtGeneration d rid (pr_Identity ?eval) g")
      case True
      then have "noop rid seq ?sid g ?d1 = Inr (out, d')"
        using assms ok unfolding process_evaluated_def Let_def evaluated and_then_simps same by simp
      then show ?thesis using that(1) refusals(3) True ok by blast
    next
      case False
      then show ?thesis
        using assms ok that refusals(2) [of rid seq ?sid g ?d1 out d']
        unfolding process_evaluated_def Let_def evaluated and_then_simps same
        by (cases "seq \<le> AppliedMax d rid") (auto simp: staleInput_def)
    qed
  qed
  then show ?thesis
  proof cases
    case 1
    then show ?thesis using refused by blast
  next
    case 2
    show ?thesis
    proof (rule apply_head_form [OF 2(4)])
      fix d2
      assume *: "apply_result rid ?sid (sn_ObservedAt snap) ?res
          (if MutatesCanonical ?res then g + 1 else g)
          (advanced (MutatesCanonical ?res) rid seq ?sid g ?d1) = Inr d2"
        "ledger d2 = ledger (advanced (MutatesCanonical ?res) rid seq ?sid g ?d1)"
        "d' = committed rid seq ?sid g (pr_Identity ?eval) ?res ?d1 d2"
        "out = applied_outcome (MutatesCanonical ?res) g"
        "applied_key (applied_row rid seq ?sid (pr_Identity ?eval)
          (if MutatesCanonical ?res then g + 1 else g)) \<notin> applied_key ` set (db_applied ?d1)"
      have "reconciled ev cfg rid seq snap g coverage d ?res d2 out d'"
        unfolding reconciled_def Let_def using 2(1-3) * by (intro conjI; simp)
      then show ?thesis by (rule applied)
    qed
  qed
qed

lemma process_head_snapshot_cases:
  assumes "process_head_snapshot ev cfg rid seq snap rt d = Inr (out, d')"
  obtains (early) "refusal rid seq (sn_SnapshotID snap) (root_CurrentGeneration rt) d out d'"
      "oc_Status out \<noteq> AdmissionNoop"
  | (processed) coverage where "root_LifecycleState rt \<noteq> RootDeleted"
      "sn_LifecycleState snap = SnapshotSubmitted"
      "directoryCoverage (later_clock 2 ev) d snap (ListSnapshotEntries d (sn_SnapshotID snap))
         (root_CurrentGeneration rt) = Inr coverage"
      "process_evaluated ev cfg rid seq snap (root_CurrentGeneration rt) coverage d = Inr (out, d')"
  using assms
  by (auto simp: process_head_snapshot_def Let_def dest: early_refusals
      split: if_splits sum.splits store_error.splits)

lemma find_snapshot_id: "find_snapshot d sid = Some snap \<Longrightarrow> sn_SnapshotID snap = sid"
  by (auto simp: find_snapshot_def find_Some_iff)

lemma reconcileHeadSafe_cases:
  assumes "reconcileHeadSafe ev cfg rid seq sid d = Inr (out, d')"
  obtains (receipt) rt q where "find_root d rid = Some rt" "d' = d"
      "terminalSnapshotReceipt d rid sid seq (root_CurrentGeneration rt) = Inr (q, out)"
  | (head) rt snap where "at_head d rid seq snap rt" "sn_SnapshotID snap = sid"
      "process_head_snapshot ev cfg rid seq snap rt d = Inr (out, d')"
  using assms
  by (auto simp: reconcileHeadSafe_def at_head_def not_le dest: find_snapshot_id
      split: if_splits option.splits)

section \<open>Reconciling keeps the ledger\<close>

lemma view_fields [simp]:
  "rv_root (view d rid) = find_root d rid"
  "rv_journal (view d rid) = root_events d rid"
  by (simp_all add: view_def)

lemma at_head_admission:
  assumes "at_head d rid seq snap rt" and ok: "view_ok (view d rid)"
  obtains a where "head_of (rv_admissions (view d rid)) a" "adm_AdmissionSeq a = seq"
    "adm_SnapshotID a = sn_SnapshotID snap" "find_admission d rid seq = Some a"
proof -
  let ?as = "rv_admissions (view d rid)"
  have root: "rv_root (view d rid) = Some rt" using assms(1) by (simp add: at_head_def)
  obtain a where a: "find_admission d rid seq = Some a" "adm_SnapshotID a = sn_SnapshotID snap"
    using assms(1) by (auto simp: at_head_def)
  have mem: "a \<in> set ?as" "adm_AdmissionSeq a = seq"
    using a(1) by (auto simp: find_admission_def find_Some_iff view_def)
  have pend: "seq \<in> adm_AdmissionSeq ` set (pending d rid)"
    "\<forall>b\<in>set (pending d rid). seq \<le> adm_AdmissionSeq b"
    using assms(1) by (auto simp: at_head_def head_seq_def min_of_Some)
  have pending: "set (pending d rid) = {b \<in> set ?as. \<not> processed b}"
    by (auto simp: pending_def view_def processed_def)
  then obtain b where b: "b \<in> set ?as" "\<not> processed b" "adm_AdmissionSeq b = seq"
    using pend(1) by auto
  then have "b = a" using view_ok_inj [OF ok root] mem by (auto dest: inj_onD)
  then have "head_of ?as a" using b pend(2) pending mem by (auto simp: head_of_def)
  then show ?thesis using that mem a by auto
qed

lemma view_refusal:
  assumes "refusal rid seq sid g d out d'"
  obtains st ap r where "st \<noteq> AdmissionPending" "rr_AdmissionSeq r = seq"
    "view d' = (\<lambda>x. if x = rid
       then (view d x)\<lparr>rv_admissions := mark seq st ap (rv_admissions (view d x)),
              rv_results := rv_results (view d x) @ [r]\<rparr>
       else view d x)"
proof -
  from assms obtain st ap lc oc rs where
    "st = AdmissionRejected \<or> st = AdmissionStaleInput \<or> st = AdmissionNoop"
    "d' = finish rid seq sid st ap lc oc rs g d"
    unfolding refusal_def by blast
  moreover from this(1) have "st \<noteq> AdmissionPending" by auto
  ultimately show ?thesis
    using that [of st "result_row rid seq g oc rs" ap] by (simp add: view_finish fun_eq_iff)
qed

lemma view_committed:
  fixes res d rid g
  defines "m \<equiv> MutatesCanonical res"
  defines "ag \<equiv> (if m then g + 1 else g)"
  assumes led: "ledger d2 = ledger (advanced m rid seq sid g d)"
  shows "view (committed rid seq sid g ident res d d2) x =
    (if x = rid
     then (view d x)
       \<lparr>rv_root := (if m then map_option bump (find_root d x) else find_root d x),
        rv_generations := rv_generations (view d x) @ (if m then [generation_row rid seq sid ag] else []),
        rv_admissions := mark seq AdmissionApplied (Some ag) (rv_admissions (view d x)),
        rv_applied := rv_applied (view d x) @ [applied_row rid seq sid ident ag],
        rv_journal := rv_journal (view d x) @ new_events m rid ag res d,
        rv_results := rv_results (view d x) @ [result_row rid seq ag ReconcileReconciled []]\<rparr>
     else view d x)"
proof -
  have events: "filter (\<lambda>e. ev_RootID e = y) (new_events n rid h res d)
    = (if y = rid then new_events n rid h res d else [])" for n h y
    by (auto simp: new_events_def numbered_events_of)
  have root: "find_root d2 = find_root (advanced m rid seq sid g d)"
    using ledger_fields(1) [OF led] by (rule find_root_cong)
  have keep: "root_RootID (bump r) = root_RootID r" for r by (simp add: bump_def)
  show ?thesis
    using ledger_fields [OF led]
    by (simp add: committed_def Let_def view_finish m_def [symmetric] ag_def [symmetric])
       (auto simp: view_def root_events_def events root advanced_def generation_row_def applied_row_def
         ag_def find_root_update_root [OF keep])
qed

lemma bump_fields [simp]:
  "root_CurrentGeneration (bump r) = root_CurrentGeneration r + 1"
  "root_LatestAdmissionSeq (bump r) = root_LatestAdmissionSeq r"
  "root_RootID (bump r) = root_RootID r"
  "root_LifecycleState (bump r) = root_LifecycleState r"
  by (simp_all add: bump_def)

lemma view_ok_committed:
  assumes ok: "view_ok (view d rid)" and root: "find_root d rid = Some rt"
    and g: "g = root_CurrentGeneration rt"
    and head: "head_of (rv_admissions (view d rid)) a" "adm_AdmissionSeq a = seq"
      "adm_SnapshotID a = sid"
    and led: "ledger d2 = ledger (advanced (MutatesCanonical res) rid seq sid g d)"
    and fresh: "applied_key (applied_row rid seq sid ident
        (if MutatesCanonical res then g + 1 else g)) \<notin> applied_key ` set (db_applied d)"
  shows "view_ok (view (committed rid seq sid g ident res d d2) rid)"
proof -
  let ?m = "MutatesCanonical res"
  let ?ag = "if ?m then g + 1 else g"
  define v1 where "v1 = (view d rid)\<lparr>
    rv_admissions := mark seq AdmissionApplied (Some ?ag) (rv_admissions (view d rid)),
    rv_results := rv_results (view d rid) @ [result_row rid seq ?ag ReconcileReconciled []]\<rparr>"
  define v2 where "v2 = (if ?m then v1\<lparr>rv_root := Some (bump rt),
    rv_generations := rv_generations v1 @ [generation_row rid seq sid ?ag]\<rparr> else v1)"
  define rt2 where "rt2 = (if ?m then bump rt else rt)"
  define v3 where "v3 = v2\<lparr>rv_journal := rv_journal v2 @ new_events ?m rid ?ag res d\<rparr>"
  have tied: "tied (rv_admissions v1) seq sid"
    using head mark_tied_self [of AdmissionApplied a] by (auto simp: v1_def head_of_def)
  have v1: "view_ok v1" "rv_root v1 = Some rt"
    using view_ok_process [OF ok _ head(1), of rt AdmissionApplied _ "Some ?ag"] root head(2)
    by (simp_all add: v1_def)
  have v2: "view_ok v2" "rv_root v2 = Some rt2" "root_CurrentGeneration rt2 = ?ag"
    using v1 view_ok_advance [OF v1, of "generation_row rid seq sid ?ag" "bump rt"] tied g
    by (auto simp: v2_def rt2_def generation_row_def produced_ok_def)
  have "view_ok v3"
  proof (cases ?m)
    case True
    have j: "rv_journal v2 = root_events d rid" by (simp add: v2_def v1_def)
    have jok: "journal_ok g (root_events d rid)" using view_ok_Some(9) [OF ok] root g by simp
    have "above (rv_journal v2) (root_CurrentGeneration rt2) (NextEventSeq d rid)
        (NextIntraGenerationSeq d rid ?ag)"
      unfolding j v2(3) by (rule next_above) (use journal_ok_pos [OF jok] in blast)
    from view_ok_journal [OF v2(1,2) this] show ?thesis
      using True NextEventSeq_ok [OF jok] j v2(3) by (simp add: v3_def new_events_def)
  next
    case False
    then show ?thesis using v2(1) by (simp add: v3_def new_events_def)
  qed
  then have "view_ok (v3\<lparr>rv_applied := rv_applied v3 @ [applied_row rid seq sid ident ?ag]\<rparr>)"
  proof (rule view_ok_applied)
    show "rv_root v3 = Some rt2" using v2(2) by (simp add: v3_def)
    show "tied (rv_admissions v3) (ap_AppliedAdmissionSeq (applied_row rid seq sid ident ?ag))
        (ap_SnapshotID (applied_row rid seq sid ident ?ag))"
      using tied by (simp add: v3_def v2_def applied_row_def)
    have "rv_applied v3 = filter (\<lambda>h. ap_RootID h = rid) (db_applied d)"
      by (simp add: v3_def v2_def v1_def view_def)
    then show "applied_key (applied_row rid seq sid ident ?ag) \<notin> applied_key ` set (rv_applied v3)"
      using fresh by auto
  qed (use v2(3) in \<open>simp add: applied_row_def\<close>)
  also have "v3\<lparr>rv_applied := rv_applied v3 @ [applied_row rid seq sid ident ?ag]\<rparr>
    = view (committed rid seq sid g ident res d d2) rid"
    using root by (simp add: view_committed [OF led] v3_def v2_def v1_def)
  finally show ?thesis .
qed

theorem ledger_ok_reconcile:
  assumes "ledger_ok d" and "reconcileHeadSafe ev cfg rid seq sid d = Inr (out, d')"
  shows "ledger_ok d'"
  using assms(2)
proof (cases rule: reconcileHeadSafe_cases)
  case receipt
  then show ?thesis using assms(1) by simp
next
  case (head rt snap)
  have ok: "view_ok (view d x)" for x using assms(1) by (simp add: ledger_ok_def)
  have root: "find_root d rid = Some rt" using head(1) by (simp add: at_head_def)
  obtain a where a: "head_of (rv_admissions (view d rid)) a" "adm_AdmissionSeq a = seq"
      "adm_SnapshotID a = sid" "find_admission d rid seq = Some a"
    using at_head_admission [OF head(1) ok] head(2) by metis
  have refuse: "ledger_ok d'" if "refusal rid seq sid g e out d'" "view e = view d" for g e
    using that ok root view_ok_process [OF ok _ a(1)] a(2)
    by (elim view_refusal) (simp add: ledger_ok_def)
  from head(3) show ?thesis
  proof (cases rule: process_head_snapshot_cases)
    case early
    then show ?thesis using refuse [of _ d] head(2) by simp
  next
    case (processed coverage)
    from processed(4) show ?thesis
    proof (cases rule: process_evaluated_cases)
      case (refused acc cor)
      then show ?thesis using refuse head(2) by simp
    next
      case (applied res d2)
      then obtain acc cor ident where "ledger d2 = ledger (advanced (MutatesCanonical res) rid seq
            sid (root_CurrentGeneration rt) (evaluated sid acc cor d))"
          "d' = committed rid seq sid (root_CurrentGeneration rt) ident res (evaluated sid acc cor d) d2"
          "applied_key (applied_row rid seq sid ident (if MutatesCanonical res
            then root_CurrentGeneration rt + 1 else root_CurrentGeneration rt))
             \<notin> applied_key ` set (db_applied (evaluated sid acc cor d))"
        using head(2) by (elim reconciled_ledger) auto
      note 2 = this
      have "view_ok (view d' rid)"
        unfolding 2(2)
        by (rule view_ok_committed [OF _ _ refl _ a(2,3) 2(1,3)]) (use root ok a in auto)
      moreover have "view d' x = view d x" if "x \<noteq> rid" for x
        using that by (simp add: 2(2) view_committed [OF 2(1)])
      ultimately show ?thesis using ok by (metis ledger_ok_def)
    qed
  qed
qed

end
