(* ===== verification/Protocol.thy ===== *)
theory Protocol
  imports Ledger ReconcileProps
begin

text \<open>
  The properties of the store's protocol: every transaction keeps the ledger of every root and
  touches one root only, the journal is an append-only numbering without gaps, the generation
  advances exactly with a canonical mutation, a lost answer is reproduced by the receipt, and the
  drain loop ends.
\<close>

section \<open>Transactions of one root\<close>

text \<open>
  The contract of a transaction that works on the root \<open>rid\<close>: it keeps the ledgers, leaves the
  ledger of every other root as it was, and only appends to the root's journal.
\<close>

locale root_transaction =
  fixes rid :: uuid
    and step :: "db \<Rightarrow> store_error + 'r \<times> db"
  assumes keeps: "\<lbrakk>ledger_ok d; step d = Inr (r, d')\<rbrakk> \<Longrightarrow> ledger_ok d'"
    and isolated: "\<lbrakk>ledger_ok d; step d = Inr (r, d'); x \<noteq> rid\<rbrakk> \<Longrightarrow> view d' x = view d x"
    and appends: "\<lbrakk>ledger_ok d; step d = Inr (r, d')\<rbrakk> \<Longrightarrow>
      \<exists>es. root_events d' rid = root_events d rid @ es"
begin

lemma journal_grows:
  assumes "ledger_ok d" and "step d = Inr (r, d')"
  shows "take (length (root_events d x)) (root_events d' x) = root_events d x"
proof (cases "x = rid")
  case True
  then show ?thesis using appends [OF assms] by auto
next
  case False
  then have "root_events d' x = root_events d x"
    using isolated [OF assms] by (metis view_fields(2))
  then show ?thesis by simp
qed

end

section \<open>Closed forms\<close>

definition bump_admission :: "ResourceRoot \<Rightarrow> ResourceRoot" where
  "bump_admission r = r\<lparr>root_LatestAdmissionSeq := root_LatestAdmissionSeq r + 1\<rparr>"

definition pending_row :: "uuid \<Rightarrow> int \<Rightarrow> uuid \<Rightarrow> Admission" where
  "pending_row rid seq sid =
     \<lparr>adm_RootID = rid, adm_AdmissionSeq = seq, adm_SnapshotID = sid,
      adm_Status = AdmissionPending, adm_AppliedGeneration = None, adm_ClaimedBy = None,
      adm_ClaimedAt = None, adm_LeaseExpiresAt = None\<rparr>"

lemma AllocateAdmission_form:
  assumes "AllocateAdmission rid sid d = Inr (seq, d')"
  obtains rt where "find_root d rid = Some rt" "seq = root_LatestAdmissionSeq rt + 1"
    "d' = (update_root rid bump_admission d)\<lparr>db_admissions :=
            db_admissions d @ [pending_row rid seq sid]\<rparr>"
    "\<And>x. view d' x = (if x = rid
       then (view d x)\<lparr>rv_root := Some (bump_admission rt),
              rv_admissions := rv_admissions (view d x) @ [pending_row rid seq sid]\<rparr>
       else view d x)"
proof -
  from assms obtain rt where rt: "find_root d rid = Some rt" "seq = root_LatestAdmissionSeq rt + 1"
    "d' = (update_root rid bump_admission d)\<lparr>db_admissions :=
            db_admissions d @ [pending_row rid seq sid]\<rparr>"
    by (auto simp: AllocateAdmission_def insert_admission_def Let_def bump_admission_def [abs_def]
        pending_row_def split: option.splits if_splits)
  have keep: "root_RootID (bump_admission r) = root_RootID r" for r
    by (simp add: bump_admission_def)
  have "view d' x = (if x = rid
       then (view d x)\<lparr>rv_root := Some (bump_admission rt),
              rv_admissions := rv_admissions (view d x) @ [pending_row rid seq sid]\<rparr>
       else view d x)" for x
    using rt by (simp add: view_def find_root_update_root [OF keep] root_events_def pending_row_def)
  with rt show ?thesis by (rule that)
qed

lemma AllocateAdmission_ok:
  assumes "ledger_ok d" and "AllocateAdmission rid sid d = Inr (seq, d')"
  shows "ledger_ok d'"
  using assms(2)
proof (rule AllocateAdmission_form)
  fix rt
  assume *: "find_root d rid = Some rt" "seq = root_LatestAdmissionSeq rt + 1"
    "\<And>x. view d' x = (if x = rid
       then (view d x)\<lparr>rv_root := Some (bump_admission rt),
              rv_admissions := rv_admissions (view d x) @ [pending_row rid seq sid]\<rparr>
       else view d x)"
  have "view_ok (view d rid)" using assms(1) by (simp add: ledger_ok_def)
  from view_ok_admit [OF this, of rt "pending_row rid seq sid" "bump_admission rt"] show ?thesis
    using assms(1) * by (simp add: ledger_ok_def pending_row_def processed_def bump_admission_def)
qed

text \<open>An admission changes nothing, or allocates on a database with the same ledgers.\<close>

definition admits :: "uuid \<Rightarrow> db \<Rightarrow> db \<Rightarrow> bool" where
  "admits rid d d' \<longleftrightarrow>
     d' = d \<or> (\<exists>d0 sid seq. view d0 = view d \<and> AllocateAdmission rid sid d0 = Inr (seq, d'))"

lemma admits_ok: "ledger_ok d \<Longrightarrow> admits rid d d' \<Longrightarrow> ledger_ok d'"
  unfolding admits_def by (metis AllocateAdmission_ok ledger_ok_def)

lemma admits_view:
  assumes "admits rid d d'"
  shows "x \<noteq> rid \<Longrightarrow> view d' x = view d x" and "root_events d' x = root_events d x"
proof -
  have "(x \<noteq> rid \<longrightarrow> view d' x = view d x) \<and> rv_journal (view d' x) = rv_journal (view d x)"
    using assms unfolding admits_def
  proof (elim disjE exE conjE)
    fix d0 sid seq
    assume "view d0 = view d" and "AllocateAdmission rid sid d0 = Inr (seq, d')"
    then show ?thesis by (elim AllocateAdmission_form) (simp del: view_fields)
  qed simp
  then show "x \<noteq> rid \<Longrightarrow> view d' x = view d x" "root_events d' x = root_events d x" by simp_all
qed

lemma admits_appends: "admits rid d d' \<Longrightarrow> \<exists>es. root_events d' rid = root_events d rid @ es"
  by (simp add: admits_view(2))

lemma view_submitted:
  assumes "MarkSnapshotSubmitted sid d = Inr d'"
  shows "view d' = view d"
  using assms by (auto simp: MarkSnapshotSubmitted_def update_snapshot_def fun_eq_iff
      split: option.splits if_splits intro: view_cong)

lemma admissions:
  "admitOrResumeSnapshot ev h rid sid d = Inr (seq, resumed, d') \<Longrightarrow> admits rid d d'"
  "AdmitSnapshot ev rid sid d = Inr (seq, d') \<Longrightarrow> admits rid d d'"
  "SubmitAndAdmitSnapshot ev rid sid d = Inr (seq, d') \<Longrightarrow> admits rid d d'"
  by (auto simp: admitOrResumeSnapshot_def AdmitSnapshot_def SubmitAndAdmitSnapshot_def admits_def
      split: option.splits if_splits dest: view_submitted)

lemma insert_draft_view:
  assumes "insert_draft snap entries d = Inr d'"
  shows "view d' = view d"
proof -
  obtain d1 where 1: "InsertSnapshotStub snap d = Inr d1"
    and 2: "fold_err (\<lambda>e. InsertSnapshotEntry (e\<lparr>se_SnapshotID := sn_SnapshotID snap\<rparr>)) entries d1
      = Inr d'"
    using assms by (auto simp: insert_draft_def)
  have "view d1 = view d"
    using 1 by (auto simp: InsertSnapshotStub_def fun_eq_iff split: if_splits intro: view_cong)
  moreover have "view d' = view d1"
    by (rule fold_err_invariant [OF 2])
       (auto simp: InsertSnapshotEntry_def fun_eq_iff view_def root_events_def split: if_splits)
  ultimately show ?thesis by simp
qed

lemma freeze_loop_view:
  "freeze_loop ev rt revision roster ff i earlier inputs d = Inr d' \<Longrightarrow> view d' = view d"
proof (induction inputs arbitrary: ff i earlier d)
  case (Cons inp inputs)
  then show ?case
    by (auto simp: Let_def split: if_splits option.splits) (metis insert_draft_view)+
qed simp

lemma freeze_view: "FreezeScopedReadBatch ev inputs d = Inr d' \<Longrightarrow> view d' = view d"
  by (auto simp: FreezeScopedReadBatch_def Let_def dest: freeze_loop_view
      split: if_splits option.splits)

text \<open>Appending one event of the current generation at the next number.\<close>

lemma append_one:
  assumes ok: "ledger_ok d" and rt: "find_root d rid = Some rt"
    and e: "ev_RootID e = rid" "ev_EventSeq e = NextEventSeq d rid"
      "ev_GenerationNumber e = root_CurrentGeneration rt"
      "ev_IntraGenerationSeq e = NextIntraGenerationSeq d rid (root_CurrentGeneration rt)"
  shows "AppendJournalEvent e d = Inr (d\<lparr>db_journal := db_journal d @ [e]\<rparr>)"
    and "ledger_ok (d\<lparr>db_journal := db_journal d @ [e]\<rparr>)"
proof -
  let ?g = "root_CurrentGeneration rt"
  let ?d = "d\<lparr>db_journal := db_journal d @ [e]\<rparr>"
  have v: "view_ok (view d rid)" using ok by (simp add: ledger_ok_def)
  have jok: "journal_ok ?g (root_events d rid)" using view_ok_Some(9) [OF v] rt by simp
  have above: "above (root_events d rid) ?g (NextEventSeq d rid) (NextIntraGenerationSeq d rid ?g)"
    by (rule next_above) (use journal_ok_pos [OF jok] in blast)
  have stamp: "e\<lparr>ev_RootID := rid, ev_GenerationNumber := ?g, ev_EventSeq := NextEventSeq d rid,
      ev_IntraGenerationSeq := NextIntraGenerationSeq d rid ?g\<rparr> = e"
    using e by simp
  then have num: "numbered rid ?g (NextEventSeq d rid) (NextIntraGenerationSeq d rid ?g) [e] = [e]"
    by simp
  show "AppendJournalEvent e d = Inr ?d"
    using append_events_total [OF _ above, of "[e]"] rt by (simp add: stamp)
  have "view ?d x = (if x = rid then (view d x)\<lparr>rv_journal := rv_journal (view d x) @ [e]\<rparr>
      else view d x)" for x
    using e(1) by (simp add: view_def root_events_def)
  then show "ledger_ok ?d"
    using ok view_ok_journal [OF v, of rt "NextEventSeq d rid" "NextIntraGenerationSeq d rid ?g"
        rid "[e]"] above NextEventSeq_ok [OF jok] num rt
    by (simp add: ledger_ok_def)
qed

lemma RepairJournal_form:
  assumes "ledger_ok d" and "RepairJournal rid c d = Inr (e, d')"
  obtains rt where "find_root d rid = Some rt" "d' = d\<lparr>db_journal := db_journal d @ [e]\<rparr>"
    "e = c\<lparr>ev_RootID := rid, ev_EventSeq := NextEventSeq d rid,
       ev_GenerationNumber := root_CurrentGeneration rt,
       ev_IntraGenerationSeq := NextIntraGenerationSeq d rid (root_CurrentGeneration rt)\<rparr>"
    "ledger_ok d'"
proof -
  obtain rt where root: "find_root d rid = Some rt"
    using assms(2) by (cases "find_root d rid") (simp_all add: RepairJournal_def)
  define e2 where "e2 = c\<lparr>ev_RootID := rid, ev_EventSeq := NextEventSeq d rid,
       ev_GenerationNumber := root_CurrentGeneration rt,
       ev_IntraGenerationSeq := NextIntraGenerationSeq d rid (root_CurrentGeneration rt)\<rparr>"
  have "AppendJournalEvent e2 d = Inr d' \<and> e = e2"
    using assms(2) unfolding RepairJournal_def root option.case Let_def e2_def [symmetric] by auto
  then have rt: "find_root d rid = Some rt" "AppendJournalEvent e d = Inr d'"
    "e = c\<lparr>ev_RootID := rid, ev_EventSeq := NextEventSeq d rid,
       ev_GenerationNumber := root_CurrentGeneration rt,
       ev_IntraGenerationSeq := NextIntraGenerationSeq d rid (root_CurrentGeneration rt)\<rparr>"
    by (simp_all add: root e2_def)
  have e: "ev_RootID e = rid" "ev_EventSeq e = NextEventSeq d rid"
    "ev_GenerationNumber e = root_CurrentGeneration rt"
    "ev_IntraGenerationSeq e = NextIntraGenerationSeq d rid (root_CurrentGeneration rt)"
    by (simp_all add: rt(3))
  have "d' = d\<lparr>db_journal := db_journal d @ [e]\<rparr>" using append_one(1) [OF assms(1) rt(1) e] rt(2) by simp
  then show ?thesis using that [OF rt(1) _ rt(3)] append_one(2) [OF assms(1) rt(1) e] by simp
qed

definition lifecycle_row :: "uuid \<Rightarrow> int \<Rightarrow> Generation" where
  "lifecycle_row rid g =
     \<lparr>gen_RootID = rid, gen_GenerationNumber = g, gen_ProducedBySnapshotID = None,
      gen_ProducedByAdmissionSeq = None\<rparr>"

definition moved :: "RootLifecycleState \<Rightarrow> ResourceRoot \<Rightarrow> ResourceRoot" where
  "moved st r = r\<lparr>root_LifecycleState := st, root_CurrentGeneration := root_CurrentGeneration r + 1\<rparr>"

definition transitioned :: "uuid \<Rightarrow> RootLifecycleState \<Rightarrow> int \<Rightarrow> db \<Rightarrow> db" where
  "transitioned rid st g d = (update_root rid (\<lambda>r. r\<lparr>root_LifecycleState := st,
     root_CurrentGeneration := g\<rparr>) d)\<lparr>db_generations := db_generations d @ [lifecycle_row rid g]\<rparr>"

definition lifecycle_event :: "uuid \<Rightarrow> int \<Rightarrow> EventType \<Rightarrow> db \<Rightarrow> JournalEvent" where
  "lifecycle_event rid g et d =
     \<lparr>ev_RootID = rid, ev_EventSeq = NextEventSeq d rid, ev_GenerationNumber = g,
      ev_IntraGenerationSeq = NextIntraGenerationSeq d rid g, ev_EventType = et,
      ev_ResourceID = None, ev_Reason = []\<rparr>"

lemma lifecycle_event_fields [simp]:
  "ev_RootID (lifecycle_event rid g et d) = rid"
  "ev_EventSeq (lifecycle_event rid g et d) = NextEventSeq d rid"
  "ev_GenerationNumber (lifecycle_event rid g et d) = g"
  "ev_IntraGenerationSeq (lifecycle_event rid g et d) = NextIntraGenerationSeq d rid g"
  "ev_EventType (lifecycle_event rid g et d) = et"
  by (simp_all add: lifecycle_event_def)

lemma transitioned_view:
  assumes "find_root d rid = Some rt"
  shows "view (transitioned rid st (root_CurrentGeneration rt + 1) d) x = (if x = rid
    then (view d x)\<lparr>rv_root := Some (moved st rt),
           rv_generations := rv_generations (view d x) @ [lifecycle_row rid (root_CurrentGeneration rt + 1)]\<rparr>
    else view d x)"
  using assms
  by (simp add: view_def transitioned_def find_root_update_root root_events_def lifecycle_row_def moved_def)

lemma transitioned_ok:
  assumes "ledger_ok d" and "find_root d rid = Some rt"
  shows "ledger_ok (transitioned rid st (root_CurrentGeneration rt + 1) d)"
proof -
  have v: "view_ok (view d rid)" using assms(1) by (simp add: ledger_ok_def)
  show ?thesis
    using assms view_ok_advance [OF v, of rt "lifecycle_row rid (root_CurrentGeneration rt + 1)" "moved st rt"]
    by (simp add: ledger_ok_def transitioned_view [OF assms(2)] lifecycle_row_def produced_ok_def moved_def)
qed

lemma TransitionRootLifecycle_form:
  assumes ok: "ledger_ok d" and "TransitionRootLifecycle rid st d = Inr (res, d')"
  obtains (same) rt where "find_root d rid = Some rt" "root_LifecycleState rt = st" "d' = d"
      "lr_Generation res = root_CurrentGeneration rt"
  | (moved) rt es where "find_root d rid = Some rt" "CanTransitionTo (root_LifecycleState rt) st"
      "d' = (transitioned rid st (root_CurrentGeneration rt + 1) d)\<lparr>db_journal := db_journal d @ es\<rparr>"
      "ledger_ok d'" "\<And>e. e \<in> set es \<Longrightarrow> ev_RootID e = rid"
      "map ev_EventType es = (case rootLifecycleEvent st of None \<Rightarrow> [] | Some et \<Rightarrow> [et])"
      "lr_Generation res = root_CurrentGeneration rt + 1"
proof -
  obtain rt where rt: "find_root d rid = Some rt"
    using assms(2) by (auto simp: TransitionRootLifecycle_def split: option.splits)
  let ?g = "root_CurrentGeneration rt + 1"
  let ?d = "transitioned rid st ?g d"
  have ins: "InsertGeneration (lifecycle_row rid ?g) (update_root rid (\<lambda>r. r\<lparr>root_LifecycleState := st,
     root_CurrentGeneration := ?g\<rparr>) d) = Inr d1 \<Longrightarrow> d1 = ?d" for d1
    by (auto simp: InsertGeneration_def transitioned_def split: if_splits)
  have root: "find_root ?d rid = Some (moved st rt)"
    using rt by (simp add: transitioned_def find_root_update_root moved_def)
  have journal: "db_journal ?d = db_journal d" by (simp add: transitioned_def)
  have tok: "ledger_ok ?d" using transitioned_ok [OF ok rt] .
  consider "root_LifecycleState rt = st" "d' = d" "lr_Generation res = root_CurrentGeneration rt"
    | "CanTransitionTo (root_LifecycleState rt) st" "rootLifecycleEvent st = None" "d' = ?d"
      "lr_Generation res = ?g"
    | et where "CanTransitionTo (root_LifecycleState rt) st" "rootLifecycleEvent st = Some et"
      "AppendJournalEvent (lifecycle_event rid ?g et ?d) ?d = Inr d'" "lr_Generation res = ?g"
    using assms(2) rt
    by (auto simp: TransitionRootLifecycle_def Let_def lifecycle_row_def [symmetric]
        lifecycle_event_def [symmetric] split: if_splits option.splits dest!: ins)
  then show ?thesis
  proof cases
    case 1
    then show ?thesis using same rt by blast
  next
    case 2
    then show ?thesis using moved [OF rt, of "[]"] tok by (simp add: journal [symmetric])
  next
    case (3 et)
    let ?e = "lifecycle_event rid ?g et ?d"
    have "root_CurrentGeneration (Protocol.moved st rt) = ?g" by (simp add: moved_def)
    then have "AppendJournalEvent ?e ?d = Inr (?d\<lparr>db_journal := db_journal ?d @ [?e]\<rparr>)"
      "ledger_ok (?d\<lparr>db_journal := db_journal ?d @ [?e]\<rparr>)"
      using append_one [OF tok root, of ?e] by simp_all
    then show ?thesis using moved [OF rt, of "[?e]"] 3 by (simp add: journal)
  qed
qed

section \<open>Summary of the reconcile transaction\<close>

definition unevaluated :: "uuid \<Rightarrow> db \<Rightarrow> db \<Rightarrow> bool" where
  "unevaluated sid d e \<longleftrightarrow> e = d \<or> (\<exists>acc cor. e = evaluated sid acc cor d)"

lemma unevaluated_fields:
  assumes "unevaluated sid d e"
  shows "view e = view d" "db_resources e = db_resources d" "db_observations e = db_observations d"
    "db_generations e = db_generations d" "db_journal e = db_journal d" "db_roots e = db_roots d"
    "db_applied e = db_applied d" "db_admissions e = db_admissions d" "db_results e = db_results d"
  using assms by (auto simp: unevaluated_def)

lemma reconcile_summary:
  assumes ok: "ledger_ok d" and "reconcileHeadSafe ev cfg rid seq sid d = Inr (out, d')"
  obtains (receipt) rt q where "find_root d rid = Some rt" "d' = d"
      "terminalSnapshotReceipt d rid sid seq (root_CurrentGeneration rt) = Inr (q, out)"
  | (refused) rt snap a e where "at_head d rid seq snap rt" "sn_SnapshotID snap = sid"
      "head_of (rv_admissions (view d rid)) a" "adm_AdmissionSeq a = seq" "adm_SnapshotID a = sid"
      "unevaluated sid d e" "refusal rid seq sid (root_CurrentGeneration rt) e out d'"
      "oc_Status out = AdmissionNoop \<Longrightarrow> \<exists>acc cor ident. e = evaluated sid acc cor d \<and>
         acc \<noteq> AcceptanceFailed \<and> AppliedExistsAtGeneration d rid ident (root_CurrentGeneration rt)"
  | (applied) rt snap a coverage res d2 where "at_head d rid seq snap rt" "sn_SnapshotID snap = sid"
      "head_of (rv_admissions (view d rid)) a" "adm_AdmissionSeq a = seq" "adm_SnapshotID a = sid"
      "root_LifecycleState rt \<noteq> RootDeleted"
      "directoryCoverage (later_clock 2 ev) d snap (ListSnapshotEntries d sid)
         (root_CurrentGeneration rt) = Inr coverage"
      "reconciled ev cfg rid seq snap (root_CurrentGeneration rt) coverage d res d2 out d'"
  using assms(2)
proof (cases rule: reconcileHeadSafe_cases)
  case receipt
  then show ?thesis using that(1) by blast
next
  case (head rt snap)
  have v: "view_ok (view d rid)" using ok by (simp add: ledger_ok_def)
  obtain a where a: "head_of (rv_admissions (view d rid)) a" "adm_AdmissionSeq a = seq"
      "adm_SnapshotID a = sid"
    using at_head_admission [OF head(1) v] head(2) by metis
  from head(3) show ?thesis
  proof (cases rule: process_head_snapshot_cases)
    case early
    then show ?thesis using refused [OF head(1,2) a] head(2) by (auto simp: unevaluated_def)
  next
    case (processed coverage)
    from processed(4) show ?thesis
    proof (cases rule: process_evaluated_cases)
      case (refused acc cor)
      then show ?thesis using that(2) [OF head(1,2) a, of "evaluated sid acc cor d"] head(2)
        by (auto simp: unevaluated_def)
    next
      case (applied res d2)
      then show ?thesis using that(3) [OF head(1,2) a] processed(1,3) head(2) by auto
    qed
  qed
qed

lemma refusal_isolated:
  assumes "refusal rid seq sid g d out d'"
  shows "x \<noteq> rid \<Longrightarrow> view d' x = view d x"
    and "db_resources d' = db_resources d" "db_observations d' = db_observations d"
    and "db_generations d' = db_generations d" "db_roots d' = db_roots d"
    and "db_journal d' = db_journal d" "db_applied d' = db_applied d" "oc_Mutated out = False"
    and "oc_Status out \<in> {AdmissionRejected, AdmissionStaleInput, AdmissionNoop}"
proof -
  show "x \<noteq> rid \<Longrightarrow> view d' x = view d x" using assms by (elim view_refusal) simp
qed (use assms in \<open>auto simp: refusal_def finish_defs\<close>)

lemma reconciled_isolated:
  assumes "reconciled ev cfg rid seq snap g coverage d res d2 out d'"
  shows "x \<noteq> rid \<Longrightarrow> view d' x = view d x"
    and "root_events d' rid = root_events d rid
      @ new_events (MutatesCanonical res) rid (if MutatesCanonical res then g + 1 else g) res d"
proof -
  obtain acc cor ident where *: "ledger d2 = ledger (advanced (MutatesCanonical res) rid seq
      (sn_SnapshotID snap) g (evaluated (sn_SnapshotID snap) acc cor d))"
    "d' = committed rid seq (sn_SnapshotID snap) g ident res
       (evaluated (sn_SnapshotID snap) acc cor d) d2"
    using assms by (rule reconciled_ledger)
  have numbers: "new_events m rid ag res (evaluated s acc cor d) = new_events m rid ag res d" for m ag s
    by (simp add: new_events_def numbers_cong [of "evaluated s acc cor d" d])
  have "view d' x = (if x = rid then view d' x else view d x)" for x
    by (simp add: *(2) view_committed [OF *(1)])
  then show "x \<noteq> rid \<Longrightarrow> view d' x = view d x" by metis
  have "rv_journal (view d' rid) = rv_journal (view d rid)
      @ new_events (MutatesCanonical res) rid (if MutatesCanonical res then g + 1 else g) res d"
    by (simp add: *(2) view_committed [OF *(1)] numbers del: view_fields)
  then show "root_events d' rid = root_events d rid
      @ new_events (MutatesCanonical res) rid (if MutatesCanonical res then g + 1 else g) res d"
    by simp
qed

section \<open>The transactions meet the contract\<close>

interpretation reconcile_tx: root_transaction rid "reconcileHeadSafe ev cfg rid seq sid"
  for rid ev cfg seq sid
proof
  fix d out d' x
  assume ok: "ledger_ok d" and step: "reconcileHeadSafe ev cfg rid seq sid d = Inr (out, d')"
  show "ledger_ok d'" using ledger_ok_reconcile [OF ok step] .
  show "view d' x = view d x" if "x \<noteq> rid"
    using ok step
  proof (cases rule: reconcile_summary)
    case (refused rt snap a e)
    then show ?thesis using refusal_isolated(1) [of rid seq sid _ e out d' x] that unevaluated_fields(1)
      by metis
  next
    case applied
    then show ?thesis using reconciled_isolated(1) that by metis
  qed simp
  show "\<exists>es. root_events d' rid = root_events d rid @ es"
    using ok step
  proof (cases rule: reconcile_summary)
    case (refused rt snap a e)
    then have "db_journal d' = db_journal d"
      using refusal_isolated(6) unevaluated_fields(5) by metis
    then show ?thesis by (simp add: root_events_def)
  next
    case applied
    then show ?thesis using reconciled_isolated(2) by blast
  qed simp
qed

interpretation admit_tx: root_transaction rid
    "\<lambda>d. map_sum id (\<lambda>(seq, resumed, d'). ((seq, resumed), d')) (admitOrResumeSnapshot ev h rid sid d)"
  for rid ev h sid
  by unfold_locales (auto simp: map_sum_Inr dest!: admissions(1) dest: admits_ok admits_view admits_appends)

interpretation admit_new_tx: root_transaction rid "AdmitSnapshot ev rid sid" for rid ev sid
  by unfold_locales (auto dest!: admissions(2) dest: admits_ok admits_view admits_appends)

interpretation submit_tx: root_transaction rid "SubmitAndAdmitSnapshot ev rid sid" for rid ev sid
  by unfold_locales (auto dest!: admissions(3) dest: admits_ok admits_view admits_appends)

interpretation repair_tx: root_transaction rid "RepairJournal rid c" for rid c
proof
  fix d e d' x
  assume ok: "ledger_ok d" and step: "RepairJournal rid c d = Inr (e, d')"
  obtain rt where *: "d' = d\<lparr>db_journal := db_journal d @ [e]\<rparr>" "ev_RootID e = rid" "ledger_ok d'"
    by (rule RepairJournal_form [OF ok step]) simp
  show "ledger_ok d'" using *(3) .
  show "x \<noteq> rid \<Longrightarrow> view d' x = view d x" and "\<exists>es. root_events d' rid = root_events d rid @ es"
    using *(1,2) by (simp_all add: view_def root_events_def)
qed

interpretation lifecycle_tx: root_transaction rid "TransitionRootLifecycle rid st" for rid st
proof
  fix d res d' x
  assume ok: "ledger_ok d" and step: "TransitionRootLifecycle rid st d = Inr (res, d')"
  show "ledger_ok d'" using ok step by (cases rule: TransitionRootLifecycle_form) (auto simp: ok)
  have events: "filter (\<lambda>e. ev_RootID e = y) es = (if y = rid then es else [])"
    if "\<And>e. e \<in> set es \<Longrightarrow> ev_RootID e = rid" for es y
    using that by (auto simp: filter_empty_conv)
  from ok step show "view d' x = view d x" if "x \<noteq> rid"
  proof (cases rule: TransitionRootLifecycle_form)
    case (moved rt es)
    then show ?thesis using that transitioned_view [OF moved(1), of st x]
      by (simp add: view_def root_events_def events find_root_def transitioned_def)
  qed simp
  from ok step show "\<exists>es. root_events d' rid = root_events d rid @ es"
    by (cases rule: TransitionRootLifecycle_form) (auto simp: root_events_def transitioned_def)
qed

section \<open>Reachable databases\<close>

definition empty_db :: db where
  "empty_db = \<lparr>db_roots = [], db_generations = [], db_resources = [], db_observations = [],
     db_snapshots = [], db_entries = [], db_admissions = [], db_applied = [], db_journal = [],
     db_results = [], db_policies = [], db_adapters = [], db_watches = [], db_works = []\<rparr>"

text \<open>
  The transactions that the program commits, in any order and with any environment; \<open>r_operational\<close>
  stands for every change to the configuration and the work tables.
\<close>

inductive reachable :: "db \<Rightarrow> bool" where
  r_empty: "reachable empty_db"
| r_create: "reachable d \<Longrightarrow> CreateRoot rid scope lifecycle d = Inr d' \<Longrightarrow> reachable d'"
| r_draft: "reachable d \<Longrightarrow> CreateDraftSnapshot snap stated entries d = Inr d' \<Longrightarrow> reachable d'"
| r_freeze: "reachable d \<Longrightarrow> FreezeScopedReadBatch ev inputs d = Inr d' \<Longrightarrow> reachable d'"
| r_submit: "reachable d \<Longrightarrow> SubmitAndAdmitSnapshot ev rid sid d = Inr (seq, d') \<Longrightarrow> reachable d'"
| r_admit: "reachable d \<Longrightarrow> AdmitSnapshot ev rid sid d = Inr (seq, d') \<Longrightarrow> reachable d'"
| r_resume: "reachable d \<Longrightarrow> admitOrResumeSnapshot ev h rid sid d = Inr (seq, resumed, d')
     \<Longrightarrow> reachable d'"
| r_reconcile: "reachable d \<Longrightarrow> reconcileHeadSafe ev cfg rid seq sid d = Inr (out, d')
     \<Longrightarrow> reachable d'"
| r_repair: "reachable d \<Longrightarrow> RepairJournal rid corrective d = Inr (e, d') \<Longrightarrow> reachable d'"
| r_lifecycle: "reachable d \<Longrightarrow> TransitionRootLifecycle rid st d = Inr (res, d') \<Longrightarrow> reachable d'"
| r_operational: "reachable d \<Longrightarrow>
     reachable (d\<lparr>db_policies := ps, db_adapters := as, db_watches := ws, db_works := ks\<rparr>)"

lemma find_append: "List.find P (xs @ ys) = (case List.find P xs of None \<Rightarrow> List.find P ys | r \<Rightarrow> r)"
  by (induction xs) auto

lemma CreateRoot_ok:
  assumes ok: "ledger_ok d" and "CreateRoot rid scope lifecycle d = Inr d'"
  shows "ledger_ok d'"
proof -
  let ?rt = "\<lparr>root_RootID = rid, root_ScopeDescriptor = scope, root_OwningCollectorRef = None,
    root_LifecycleState = lifecycle, root_CurrentGeneration = 0, root_LatestAdmissionSeq = 0\<rparr>"
  have none: "find_root d rid = None" and d': "d' = d\<lparr>db_roots := db_roots d @ [?rt]\<rparr>"
    using assms(2) by (auto simp: CreateRoot_def split: if_splits)
  have root: "find_root d' x = (if x = rid then Some ?rt else find_root d x)" for x
    using none by (auto simp: d' find_root_def find_append root_key_def split: option.splits)
  have "view d' x = (if x = rid then (view d x)\<lparr>rv_root := Some ?rt\<rparr> else view d x)" for x
    by (auto simp: view_def root) (simp_all add: d' root_events_def)
  moreover have "view_ok (view d x)" for x using ok by (simp add: ledger_ok_def)
  moreover have "view_ok ((view d rid)\<lparr>rv_root := Some ?rt\<rparr>)"
    using ok none by (auto simp: ledger_ok_def view_ok_def journal_ok_def fifo_def
        dest: spec [of _ rid])
  ultimately show ?thesis by (simp add: ledger_ok_def)
qed

lemma ledger_ok_view: "view d' = view d \<Longrightarrow> ledger_ok d \<Longrightarrow> ledger_ok d'"
  by (simp add: ledger_ok_def)

lemma reachable_ledger: "reachable d \<Longrightarrow> ledger_ok d"
proof (induction rule: reachable.induct)
  case r_empty
  show ?case by (simp add: ledger_ok_def view_ok_def view_def find_root_def empty_db_def root_events_def)
next
  case r_draft
  then show ?case by (auto simp: CreateDraftSnapshot_def split: if_splits
      dest: insert_draft_view intro: ledger_ok_view)
next
  case (r_operational d ks ws as ps)
  have "view (d\<lparr>db_policies := ps, db_adapters := as, db_watches := ws, db_works := ks\<rparr>) = view d"
    by (rule ext, rule view_cong) simp_all
  then show ?case using r_operational(2) by (rule ledger_ok_view)
qed (auto intro: CreateRoot_ok ledger_ok_view [OF freeze_view] reconcile_tx.keeps submit_tx.keeps
    admit_new_tx.keeps repair_tx.keeps lifecycle_tx.keeps admits_ok [OF _ admissions(1)])

end
