(* ===== verification/ProtocolProps.thy ===== *)
theory ProtocolProps
  imports Protocol
begin

text \<open>
  The claims about admission, reconcile transactions, the journal, receipts and the drain loop,
  each with a concrete run of the model where it has hypotheses.
\<close>

section \<open>Progress of a head\<close>

lemma ledger_root:
  assumes "ledger_ok d" and "find_root d rid = Some rt"
  shows "view_ok (view d rid)" "rv_root (view d rid) = Some rt"
  using assms by (simp_all add: ledger_ok_def)

lemma generation_fresh:
  assumes "ledger_ok d" and "find_root d rid = Some rt" and "g \<in> set (db_generations d)"
    and "gen_RootID g = rid"
  shows "1 \<le> gen_GenerationNumber g \<and> gen_GenerationNumber g \<le> root_CurrentGeneration rt"
proof -
  have "gen_GenerationNumber g \<in> set (map gen_GenerationNumber (rv_generations (view d rid)))"
    using assms(3,4) by (simp add: view_def)
  then show ?thesis unfolding view_ok_Some(3) [OF ledger_root [OF assms(1,2)]] by simp
qed

lemma advance_generation_total:
  assumes "ledger_ok d" and "find_root d rid = Some rt" and "g = root_CurrentGeneration rt"
  shows "advance_generation rid g g sid seq d = Inr (advanced True rid seq sid g d)"
proof -
  have "0 \<le> g" using view_ok_Some(1) [OF ledger_root [OF assms(1,2)]] assms(3) by simp
  moreover have "\<not> list_ex (\<lambda>h. gen_RootID h = rid \<and> gen_GenerationNumber h = g + 1) (db_generations d)"
    using generation_fresh [OF assms(1,2)] assms(3) by (force simp: list_ex_iff)
  ultimately show ?thesis
    using assms(2,3) by (simp add: advance_generation_def InsertGeneration_def advanced_def bump_def [abs_def]
        generation_row_def find_root_update_root)
qed

lemma applied_fresh:
  assumes "ledger_ok d" and "find_root d rid = Some rt"
    and "\<not> AppliedExistsAtGeneration d rid ident (root_CurrentGeneration rt)"
  shows "applied_key (applied_row rid seq sid ident
      (if m then root_CurrentGeneration rt + 1 else root_CurrentGeneration rt))
    \<notin> applied_key ` set (db_applied d)"
proof -
  have le: "ap_AppliedGeneration h \<le> root_CurrentGeneration rt"
    if "h \<in> set (db_applied d)" "ap_RootID h = rid" for h
    using view_ok_Some(8) [OF ledger_root [OF assms(1,2)]] that by (auto simp: view_def)
  have "\<not> (ap_RootID h = rid \<and> ap_Identity h = ident \<and> ap_AppliedGeneration h
      = (if m then root_CurrentGeneration rt + 1 else root_CurrentGeneration rt))"
    if "h \<in> set (db_applied d)" for h
    using assms(3) that le [OF that] by (auto simp: AppliedExistsAtGeneration_def list_ex_iff)
  then show ?thesis by (simp add: applied_key_def applied_row_def image_iff) metis
qed

lemma events_above:
  assumes "ledger_ok d" and "find_root d rid = Some rt"
  shows "above (root_events d rid) g (NextEventSeq d rid) (NextIntraGenerationSeq d rid g)"
proof (rule next_above)
  have "journal_ok (root_CurrentGeneration rt) (root_events d rid)"
    using view_ok_Some(9) [OF ledger_root [OF assms]] by simp
  then show "\<forall>e\<in>set (root_events d rid). 1 \<le> ev_EventSeq e \<and> 1 \<le> ev_IntraGenerationSeq e"
    using journal_ok_pos by blast
qed

lemma apply_head_total:
  assumes ok: "ledger_ok d" "find_root d rid = Some rt" and g: "g = root_CurrentGeneration rt"
    and fresh: "\<not> AppliedExistsAtGeneration d rid ident g"
    and writes: "apply_result rid sid tm res (if MutatesCanonical res then g + 1 else g)
      (advanced (MutatesCanonical res) rid seq sid g d) = Inr d2"
  shows "apply_head rid seq sid g ident (PlanFromResult rid sid tm res) d
    = Inr (applied_outcome (MutatesCanonical res) g, committed rid seq sid g ident res d d2)"
proof -
  let ?m = "MutatesCanonical res"
  let ?ag = "if ?m then g + 1 else g"
  let ?es = "List.map_filter plan_event (Transitions res)"
  have 1: "(if ?m then advance_generation rid g g sid seq d else Inr d)
    = Inr (advanced ?m rid seq sid g d)"
    using advance_generation_total [OF ok g] by (simp add: advanced_def)
  note led = ledger_fields [OF apply_result_ledger [OF writes]]
  have same: "db_journal d2 = db_journal d" "db_applied d2 = db_applied d"
    using led by (auto simp: advanced_def)
  have "find_root d2 rid = find_root (advanced ?m rid seq sid g d) rid"
    using find_root_cong [OF led(1)] by simp
  then have root: "find_root d2 rid \<noteq> None"
    using ok(2) by (auto simp: advanced_def find_root_update_root)
  have above: "above (root_events d2 rid) ?ag (NextEventSeq d2 rid) (NextIntraGenerationSeq d2 rid ?ag)"
    using events_above [OF ok] same by (simp add: numbers_cong [OF same(1)] root_events_def)
  have 3: "(if ?m \<and> ?es \<noteq> [] then append_events rid ?ag (NextEventSeq d2 rid)
        (NextIntraGenerationSeq d2 rid ?ag) ?es d2 else Inr d2)
      = Inr (d2\<lparr>db_journal := db_journal d @ new_events ?m rid ?ag res d\<rparr>)"
  proof (cases "?m \<and> ?es \<noteq> []")
    case True
    then show ?thesis
      using append_events_total [OF root above, of ?es]
      by (simp add: new_events_def same(1) numbers_cong [OF same(1)])
  next
    case False
    then have "new_events ?m rid ?ag res d = []" by (auto simp: new_events_def)
    moreover have "d2 = d2\<lparr>db_journal := db_journal d\<rparr>" by (simp add: same(1) [symmetric])
    ultimately show ?thesis using False by auto
  qed
  have nokey: "\<not> list_ex (\<lambda>b. applied_key b = applied_key (applied_row rid seq sid ident ?ag)) (db_applied d)"
    using applied_fresh [OF ok fresh [unfolded g], of seq sid ?m] unfolding g list_ex_iff image_iff
    by metis
  have 4: "InsertAppliedSnapshot (applied_row rid seq sid ident ?ag) e
      = Inr (e\<lparr>db_applied := db_applied d @ [applied_row rid seq sid ident ?ag]\<rparr>)"
    if "find_root e rid \<noteq> None" "db_applied e = db_applied d" for e
    using nokey that by (simp add: InsertAppliedSnapshot_def) (simp add: applied_row_def)
  have plan: "pl_MutatesCanonical (PlanFromResult rid sid tm res) = ?m"
    "pl_Apply (PlanFromResult rid sid tm res) = apply_result rid sid tm res"
    "pl_Events (PlanFromResult rid sid tm res) = ?es"
    by (simp_all add: PlanFromResult_def)
  have "apply_head rid seq sid g ident (PlanFromResult rid sid tm res) d
    = commit_applied rid seq sid ident g ?ag ?m
        (d2\<lparr>db_journal := db_journal d @ new_events ?m rid ?ag res d\<rparr>)"
    unfolding apply_head_def Let_def plan 1 and_then_simps writes 3 by (rule refl)
  moreover have "commit_applied rid seq sid ident g ?ag ?m e
    = Inr (applied_outcome ?m g, finish rid seq sid AdmissionApplied (Some ?ag) SnapshotReconciled
        ReconcileReconciled [] ?ag (e\<lparr>db_applied := db_applied d @ [applied_row rid seq sid ident ?ag]\<rparr>))"
    if "find_root e rid \<noteq> None" "db_applied e = db_applied d" for e
  proof -
    let ?e = "SetSnapshotLifecycleState sid SnapshotReconciled
      (SetAdmissionStatus rid seq AdmissionApplied (Some ?ag) e)"
    have "find_root ?e rid \<noteq> None" "db_applied ?e = db_applied d"
      using that by (simp_all add: finish_defs)
    from 4 [OF this] show ?thesis
      unfolding commit_applied_def Let_def applied_row_def [symmetric] and_then_simps
      by (simp add: applied_outcome_def finish_defs)
  qed
  ultimately show ?thesis using root same(2) by (simp add: committed_def Let_def)
qed

section \<open>Queues\<close>

lemma pending_view: "pending d rid = filter (\<lambda>a. \<not> processed a) (rv_admissions (view d rid))"
  by (auto simp: pending_def view_def processed_def intro!: filter_cong)

lemma pending_mark:
  assumes "st \<noteq> AdmissionPending"
  shows "filter (\<lambda>a. \<not> processed a) (mark seq st ap as)
    = filter (\<lambda>a. adm_AdmissionSeq a \<noteq> seq) (filter (\<lambda>a. \<not> processed a) as)"
  using assms by (induction as) (auto simp: mark_def mark1_def processed_def)

lemma head_seq_pending:
  "head_seq d rid = Some seq \<longleftrightarrow>
     (\<exists>a\<in>set (pending d rid). adm_AdmissionSeq a = seq) \<and>
     (\<forall>a\<in>set (pending d rid). seq \<le> adm_AdmissionSeq a)"
  by (auto simp: head_seq_def min_of_Some)

text \<open>Whatever the outcome, processing the head takes exactly the head off the queue.\<close>

lemma reconcile_pending:
  assumes ok: "ledger_ok d" and step: "reconcileHeadSafe ev cfg rid seq sid d = Inr (out, d')"
    and sub: "\<And>s. find_snapshot d sid = Some s \<Longrightarrow> sn_LifecycleState s \<noteq> SnapshotReconciled"
  shows "pending d' rid = filter (\<lambda>a. adm_AdmissionSeq a \<noteq> seq) (pending d rid)"
  using ok step
proof (cases rule: reconcile_summary)
  case (receipt rt q)
  then show ?thesis using sub
    by (auto simp: terminalSnapshotReceipt_def split: if_splits option.splits)
next
  case (refused rt snap a e)
  show ?thesis
    using refused(7)
    by (elim view_refusal) (simp add: pending_view unevaluated_fields(1) [OF refused(6)] pending_mark)
next
  case (applied rt snap a coverage res d2)
  obtain acc cor ident where *: "ledger d2 = ledger (advanced (MutatesCanonical res) rid seq
      (sn_SnapshotID snap) (root_CurrentGeneration rt) (evaluated (sn_SnapshotID snap) acc cor d))"
    "d' = committed rid seq (sn_SnapshotID snap) (root_CurrentGeneration rt) ident res
       (evaluated (sn_SnapshotID snap) acc cor d) d2"
    using applied(8) by (rule reconciled_ledger)
  show ?thesis by (simp add: pending_view *(2) view_committed [OF *(1)] pending_mark)
qed

lemma pending_admission:
  assumes ok: "ledger_ok d" and "b \<in> set (pending d rid)"
  obtains rt where "find_root d rid = Some rt" "b \<in> set (rv_admissions (view d rid))"
    "\<not> processed b" "0 < adm_AdmissionSeq b"
proof -
  have b: "b \<in> set (rv_admissions (view d rid))" "\<not> processed b"
    using assms(2) by (simp_all add: pending_view)
  have v: "view_ok (view d rid)" using ok by (simp add: ledger_ok_def)
  then obtain rt where rt: "find_root d rid = Some rt"
    using b(1) by (cases "find_root d rid") (auto simp: view_ok_def)
  then have "adm_AdmissionSeq b \<in> set [1..root_LatestAdmissionSeq rt]"
    using b(1) view_ok_Some(5) [OF ledger_root [OF ok rt]] by (metis image_eqI set_map)
  then show ?thesis using that rt b by simp
qed

lemma applied_before_head:
  assumes ok: "ledger_ok d" and head: "head_seq d rid = Some seq"
  shows "AppliedMax d rid < seq"
proof -
  obtain b where b: "b \<in> set (pending d rid)" "adm_AdmissionSeq b = seq"
    using head by (auto simp: head_seq_pending)
  from pending_admission [OF ok b(1)] obtain rt where rt: "find_root d rid = Some rt"
      "b \<in> set (rv_admissions (view d rid))" "\<not> processed b" "0 < seq"
    using b(2) by metis
  have "adm_AdmissionSeq a < seq"
    if "a \<in> set (db_admissions d)" "adm_RootID a = rid" "adm_Status a = AdmissionApplied" for a
    using view_ok_Some(6) [OF ledger_root [OF ok rt(1)]] that rt b(2)
    by (auto simp: fifo_def list_all_iff view_def processed_def)
  then show ?thesis
    using rt(4) by (auto simp: AppliedMax_def max_of_Some split: option.splits)
qed

section \<open>A sample run\<close>

definition sample_env :: env where
  "sample_env = \<lparr>env_Clock = (\<lambda>n. 9000), env_Marshal = (\<lambda>d ps. []), env_NestedQuery = False\<rparr>"

definition sample_snapshot :: "uuid \<Rightarrow> Snapshot" where
  "sample_snapshot sid =
     \<lparr>sn_SnapshotID = sid, sn_RootID = ''root'', sn_Provenance = OpaqueProvenance,
      sn_ObservedAt = 9000, sn_TraversalStatus = TraversalSuccess, sn_ErrorSummary = None,
      sn_SkippedScopes = None, sn_SkippedScopesKnownEmpty = True,
      sn_FreshnessEvidence = Some FreshDirect,
      sn_CollectorCompletenessAssurance = Some StrongFailureVisibility,
      sn_ScopeShrinkCorroboration = None, sn_CompletenessFlag = CompletenessFlagComplete,
      sn_AcceptanceState = None, sn_LifecycleState = SnapshotDraft, sn_EntryCount = Some 1\<rparr>"

definition ok_db :: "db \<Rightarrow> store_error + db \<Rightarrow> db" where
  "ok_db d r = (case r of Inl _ \<Rightarrow> d | Inr d' \<Rightarrow> d')"

definition is_ok :: "'e + 'a \<Rightarrow> bool" where
  "is_ok r = (case r of Inl _ \<Rightarrow> False | Inr _ \<Rightarrow> True)"

lemma ok_db_Inr: "is_ok r \<Longrightarrow> r = Inr (ok_db d r)"
  by (cases r) (simp_all add: is_ok_def ok_db_def)

definition sample_root_db :: db where
  "sample_root_db = ok_db empty_db (CreateRoot ''root'' ''{}'' RootActive empty_db)"

definition sample_draft_db :: db where
  "sample_draft_db = ok_db sample_root_db
     (CreateDraftSnapshot (sample_snapshot ''s2'') None [sample_entry ''a''] sample_root_db)"

definition sample_db :: db where
  "sample_db = ok_db sample_draft_db
     (map_sum id snd (SubmitAndAdmitSnapshot sample_env ''root'' ''s2'' sample_draft_db))"

lemma sample_root_reachable: "reachable sample_root_db"
proof -
  have "is_ok (CreateRoot ''root'' ''{}'' RootActive empty_db)" by code_simp
  then have "CreateRoot ''root'' ''{}'' RootActive empty_db = Inr sample_root_db"
    unfolding sample_root_db_def by (rule ok_db_Inr)
  then show ?thesis by (rule r_create [OF r_empty])
qed

lemma sample_draft_reachable: "reachable sample_draft_db"
proof -
  have "is_ok (CreateDraftSnapshot (sample_snapshot ''s2'') None [sample_entry ''a''] sample_root_db)"
    by code_simp
  then have "CreateDraftSnapshot (sample_snapshot ''s2'') None [sample_entry ''a''] sample_root_db
      = Inr sample_draft_db"
    unfolding sample_draft_db_def by (rule ok_db_Inr)
  then show ?thesis by (rule r_draft [OF sample_root_reachable])
qed

lemma sample_submit:
  "SubmitAndAdmitSnapshot sample_env ''root'' ''s2'' sample_draft_db = Inr (1, sample_db)"
proof -
  have "(case SubmitAndAdmitSnapshot sample_env ''root'' ''s2'' sample_draft_db of
      Inl _ \<Rightarrow> False | Inr (seq, _) \<Rightarrow> seq = 1)"
    by code_simp
  then show ?thesis
    by (auto simp: sample_db_def ok_db_def split: sum.splits)
qed

lemma sample_reachable: "reachable sample_db"
  using r_submit [OF sample_draft_reachable sample_submit] .

lemma reconcile_at_head:
  assumes "at_head d rid seq snap rt" and "sn_LifecycleState snap \<noteq> SnapshotReconciled"
  shows "reconcileHeadSafe ev cfg rid seq (sn_SnapshotID snap) d
    = process_head_snapshot ev cfg rid seq snap rt d"
  using assms by (auto simp: reconcileHeadSafe_def at_head_def)

lemma head_applies:
  assumes ok: "ledger_ok d" and head: "at_head d rid seq snap rt"
    and snap: "sn_LifecycleState snap = SnapshotSubmitted" "root_LifecycleState rt \<noteq> RootDeleted"
      "fence_member (sn_Provenance snap) = Absent" "coverage_member (sn_Provenance snap) = Absent"
    and eval: "eval = evaluate_head ev cfg d seq snap (LoadPriorResources d rid)
        (ListSnapshotEntries d (sn_SnapshotID snap)) None"
      "pr_Acceptance eval \<noteq> AcceptanceFailed"
      "\<not> AppliedExistsAtGeneration d rid (pr_Identity eval) (root_CurrentGeneration rt)"
    and res: "res = Reconcile (LoadPriorResources d rid) (ListSnapshotEntries d (sn_SnapshotID snap))
        (pr_Acceptance eval) cfg (snapshot_time ev snap) (sn_SnapshotID snap)"
    and writes: "apply_result rid (sn_SnapshotID snap) (sn_ObservedAt snap) res
        (if MutatesCanonical res then root_CurrentGeneration rt + 1 else root_CurrentGeneration rt)
        (advanced (MutatesCanonical res) rid seq (sn_SnapshotID snap) (root_CurrentGeneration rt)
          (evaluated (sn_SnapshotID snap) (pr_Acceptance eval) (Some (pr_Corroboration eval)) d)) = Inr d2"
  shows "reconcileHeadSafe ev cfg rid seq (sn_SnapshotID snap) d
    = Inr (applied_outcome (MutatesCanonical res) (root_CurrentGeneration rt),
        committed rid seq (sn_SnapshotID snap) (root_CurrentGeneration rt) (pr_Identity eval) res
          (evaluated (sn_SnapshotID snap) (pr_Acceptance eval) (Some (pr_Corroboration eval)) d) d2)"
proof -
  let ?sid = "sn_SnapshotID snap" and ?g = "root_CurrentGeneration rt"
  let ?d1 = "evaluated ?sid (pr_Acceptance eval) (Some (pr_Corroboration eval)) d"
  have root: "find_root d rid = Some rt" using head by (simp add: at_head_def)
  have "validateScopedFetch ev d snap (Some seq) = Inr ()"
    and "directoryCoverage (later_clock 2 ev) d snap (ListSnapshotEntries d ?sid) ?g = Inr None"
    using snap by (simp_all add: validateScopedFetch_def directoryCoverage_def)
  then have "reconcileHeadSafe ev cfg rid seq ?sid d = process_evaluated ev cfg rid seq snap ?g None d"
    using reconcile_at_head [OF head] snap by (simp add: process_head_snapshot_def Let_def)
  also have "\<dots> = apply_head rid seq ?sid ?g (pr_Identity eval)
      (PlanFromResult rid ?sid (sn_ObservedAt snap) res) ?d1"
  proof -
    have "SetSnapshotEvaluated ?sid (pr_Acceptance eval) (Some (pr_Corroboration eval)) d = Inr ?d1"
      using head snap(1) by (auto simp: SetSnapshotEvaluated_def evaluated_def at_head_def)
    moreover have "AppliedMax ?d1 rid < seq"
      using applied_before_head [OF ok] head by (simp add: AppliedMax_def at_head_def)
    moreover have "\<not> AppliedExistsAtGeneration ?d1 rid (pr_Identity eval) ?g"
      using eval(3) by (simp add: AppliedExistsAtGeneration_def)
    ultimately show ?thesis
      using eval(2) unfolding process_evaluated_def Let_def eval(1) [symmetric] decide_head_def
        option.case res [symmetric]
      by simp
  qed
  also have "\<dots> = Inr (applied_outcome (MutatesCanonical res) ?g,
      committed rid seq ?sid ?g (pr_Identity eval) res ?d1 d2)"
  proof (rule apply_head_total [OF _ _ refl _ writes])
    show "ledger_ok ?d1" using ok by (simp add: ledger_ok_def)
    show "find_root ?d1 rid = Some rt" using root by simp
    show "\<not> AppliedExistsAtGeneration ?d1 rid (pr_Identity eval) ?g"
      using eval(3) by (simp add: AppliedExistsAtGeneration_def)
  qed
  finally show ?thesis .
qed

lemma evaluate_head_acceptance:
  "pr_Acceptance (evaluate_head ev cfg d seq snap prior entries None)
    = Evaluate \<lparr>ce_TraversalStatus = sn_TraversalStatus snap,
        ce_HasErrorSummary = (length (deref (sn_ErrorSummary snap)) > 0),
        ce_HasSkippedScopes = (length (deref (sn_SkippedScopes snap)) > 0),
        ce_SkippedKnownEmpty = sn_SkippedScopesKnownEmpty snap,
        ce_SkippedUnknown = (sn_SkippedScopes snap = None \<and> \<not> sn_SkippedScopesKnownEmpty snap),
        ce_Freshness = freshOrUnknown (sn_FreshnessEvidence snap),
        ce_Assurance = assuranceOrUnknown (sn_CollectorCompletenessAssurance snap),
        ce_UsedCache = False, ce_EntryCount = int (length entries),
        ce_PriorPresent = int (length (filter (\<lambda>p. Presence p = ResourcePresent) prior)),
        ce_Corroboration = (if pr_Corroboration (evaluate_head ev cfg d seq snap prior entries None)
          = ShrinkNone then None
          else Some (pr_Corroboration (evaluate_head ev cfg d seq snap prior entries None)))\<rparr>
      \<lparr>SignificantShrinkRatio = 0\<rparr>"
  by (simp add: evaluate_head_def pipeline_Evaluate_def Let_def pipeline_completeness_def)

section \<open>The sample head is applied\<close>

definition sample_submitted :: Snapshot where
  "sample_submitted = (sample_snapshot ''s2'')\<lparr>sn_LifecycleState := SnapshotSubmitted\<rparr>"

definition sample_root :: ResourceRoot where
  "sample_root = \<lparr>root_RootID = ''root'', root_ScopeDescriptor = ''{}'',
     root_OwningCollectorRef = None, root_LifecycleState = RootActive,
     root_CurrentGeneration = 0, root_LatestAdmissionSeq = 1\<rparr>"

lemma sample_head: "at_head sample_db ''root'' 1 sample_submitted sample_root"
  by code_simp

lemma sample_rows:
  "LoadPriorResources sample_db ''root'' = []"
  "ListSnapshotEntries sample_db ''s2'' = [sample_entry ''a'']"
  by code_simp+

definition sample_result :: Result where
  "sample_result = Reconcile [] [sample_entry ''a''] AcceptanceComplete (sample_cfg 0 0) 9000 ''s2''"

lemma sample_evaluation:
  fixes ev
  defines "eval \<equiv> evaluate_head ev (sample_cfg 0 0) sample_db 1 sample_submitted [] [sample_entry ''a''] None"
  shows "pr_Corroboration eval = ShrinkNone" "pr_Acceptance eval = AcceptanceComplete"
proof -
  show 1: "pr_Corroboration eval = ShrinkNone"
    by (simp add: eval_def evaluate_head_def pipeline_Evaluate_def Let_def coordinator_significantShrink_def)
  show "pr_Acceptance eval = AcceptanceComplete"
    unfolding eval_def evaluate_head_acceptance 1 [unfolded eval_def] by code_simp
qed

definition sample_eval :: PipelineResult where
  "sample_eval = evaluate_head sample_env (sample_cfg 0 0) sample_db 1 sample_submitted
     (LoadPriorResources sample_db ''root'') (ListSnapshotEntries sample_db ''s2'') None"

lemma sample_fields:
  "sn_SnapshotID sample_submitted = ''s2''" "sn_ObservedAt sample_submitted = 9000"
  "snapshot_time sample_env sample_submitted = 9000" "root_CurrentGeneration sample_root = 0"
  by code_simp+

lemma sample_live:
  "sn_LifecycleState sample_submitted = SnapshotSubmitted"
  "root_LifecycleState sample_root \<noteq> RootDeleted"
  "fence_member (sn_Provenance sample_submitted) = Absent"
  "coverage_member (sn_Provenance sample_submitted) = Absent"
  by code_simp+

lemma sample_acceptance:
  "pr_Acceptance sample_eval = AcceptanceComplete" "pr_Corroboration sample_eval = ShrinkNone"
  using sample_evaluation [of sample_env] by (simp_all add: sample_eval_def sample_rows)

lemma sample_decision:
  "Reconcile (LoadPriorResources sample_db ''root'') (ListSnapshotEntries sample_db ''s2'')
     AcceptanceComplete (sample_cfg 0 0) 9000 ''s2'' = sample_result"
  by (simp add: sample_result_def sample_rows)

lemma sample_mutates: "MutatesCanonical sample_result"
  by code_simp

lemma sample_writes:
  "\<exists>d2. apply_result ''root'' ''s2'' 9000 sample_result 1 (advanced True ''root'' 1 ''s2'' 0
     (evaluated ''s2'' (pr_Acceptance sample_eval) (Some (pr_Corroboration sample_eval)) sample_db)) = Inr d2"
proof -
  have "is_ok (apply_result ''root'' ''s2'' 9000 sample_result 1 (advanced True ''root'' 1 ''s2'' 0
      (evaluated ''s2'' AcceptanceComplete (Some ShrinkNone) sample_db)))"
    by code_simp
  from ok_db_Inr [OF this] show ?thesis unfolding sample_acceptance by blast
qed

lemma sample_unapplied: "\<not> AppliedExistsAtGeneration sample_db ''root'' ident g"
proof -
  have "db_applied sample_db = []" by code_simp
  then show ?thesis by (simp add: AppliedExistsAtGeneration_def)
qed

lemma sample_applied:
  "\<exists>d'. reconcileHeadSafe sample_env (sample_cfg 0 0) ''root'' 1 ''s2'' sample_db
     = Inr (applied_outcome True 0, d')"
proof -
  obtain d2 where "apply_result ''root'' ''s2'' 9000 sample_result 1 (advanced True ''root'' 1 ''s2'' 0
     (evaluated ''s2'' (pr_Acceptance sample_eval) (Some (pr_Corroboration sample_eval)) sample_db)) = Inr d2"
    using sample_writes by blast
  then show ?thesis
    using head_applies [OF reachable_ledger [OF sample_reachable] sample_head sample_live
        sample_eval_def [folded sample_fields(1)], of sample_result d2]
    by (simp add: sample_fields sample_decision sample_mutates sample_unapplied sample_acceptance
        cong: if_cong)
qed

section \<open>Claims\<close>

text \<open>
  C2: the ledger of a root has no holes. In every database that the program's transactions can
  reach, the generations of a root are numbered 1 to the current generation, its admissions 1 to the
  latest allocated sequence and its journal events 1 to their count, each table in that order; the
  application history names only generations that exist, and no processed admission is
  behind a pending one.
\<close>

theorem ledger_gap_free:
  assumes "reachable d" and "find_root d rid = Some rt"
  shows "map gen_GenerationNumber (filter (\<lambda>g. gen_RootID g = rid) (db_generations d))
      = [1..root_CurrentGeneration rt] \<and>
    map adm_AdmissionSeq (filter (\<lambda>a. adm_RootID a = rid) (db_admissions d))
      = [1..root_LatestAdmissionSeq rt] \<and>
    map ev_EventSeq (root_events d rid) = [1..int (length (root_events d rid))] \<and>
    list_all (\<lambda>h. ap_RootID h = rid \<longrightarrow> ap_AppliedGeneration h \<le> root_CurrentGeneration rt)
      (db_applied d) \<and>
    fifo (filter (\<lambda>a. adm_RootID a = rid) (db_admissions d))"
proof (intro conjI)
  note v = view_ok_Some [OF ledger_root [OF reachable_ledger [OF assms(1)] assms(2)]]
  show "map gen_GenerationNumber (filter (\<lambda>g. gen_RootID g = rid) (db_generations d))
      = [1..root_CurrentGeneration rt]" using v(3) by (simp add: view_def)
  show "map adm_AdmissionSeq (filter (\<lambda>a. adm_RootID a = rid) (db_admissions d))
      = [1..root_LatestAdmissionSeq rt]" using v(5) by (simp add: view_def)
  show "map ev_EventSeq (root_events d rid) = [1..int (length (root_events d rid))]"
    using v(9) by (simp add: journal_ok_def)
  show "list_all (\<lambda>h. ap_RootID h = rid \<longrightarrow> ap_AppliedGeneration h \<le> root_CurrentGeneration rt)
      (db_applied d)" using v(8) by (auto simp: list_all_iff view_def)
  show "fifo (filter (\<lambda>a. adm_RootID a = rid) (db_admissions d))" using v(6) by (simp add: view_def)
qed

theorem ledger_gap_free_witness:
  "map adm_AdmissionSeq (filter (\<lambda>a. adm_RootID a = ''root'') (db_admissions sample_db)) = [1..1]"
proof -
  have "find_root sample_db ''root'' = Some sample_root" by code_simp
  from ledger_gap_free [OF sample_reachable this] show ?thesis by (simp add: sample_root_def)
qed

text \<open>
  C19: strict order per root. A reconcile that is not the replay of a committed receipt works on the
  smallest pending sequence number of the root, bound to the same snapshot, and takes exactly that
  admission off the queue, whatever the outcome.
\<close>

theorem head_of_line:
  assumes "reachable d" and "reconcileHeadSafe ev cfg rid seq sid d = Inr (out, d')"
    and "map_option sn_LifecycleState (find_snapshot d sid) \<noteq> Some SnapshotReconciled"
  shows "head_seq d rid = Some seq \<and>
    map_option adm_SnapshotID (find_admission d rid seq) = Some sid \<and>
    pending d' rid = filter (\<lambda>a. adm_AdmissionSeq a \<noteq> seq) (pending d rid)"
proof -
  note ok = reachable_ledger [OF assms(1)]
  have "pending d' rid = filter (\<lambda>a. adm_AdmissionSeq a \<noteq> seq) (pending d rid)"
    by (rule reconcile_pending [OF ok assms(2)]) (use assms(3) in auto)
  moreover from assms(2) have "\<exists>snap rt. at_head d rid seq snap rt \<and> sn_SnapshotID snap = sid"
  proof (cases rule: reconcileHeadSafe_cases)
    case receipt
    then show ?thesis using assms(3)
      by (auto simp: terminalSnapshotReceipt_def split: if_splits option.splits)
  qed blast
  ultimately show ?thesis by (auto simp: at_head_def)
qed

theorem head_of_line_witness: "head_seq sample_db ''root'' = Some 1"
proof -
  obtain d' where "reconcileHeadSafe sample_env (sample_cfg 0 0) ''root'' 1 ''s2'' sample_db
      = Inr (applied_outcome True 0, d')"
    using sample_applied by blast
  moreover have "map_option sn_LifecycleState (find_snapshot sample_db ''s2'') \<noteq> Some SnapshotReconciled"
    by code_simp
  ultimately show ?thesis using head_of_line [OF sample_reachable] by blast
qed

text \<open>
  A stale input cannot arise from the sequence alone. At the head of a root's queue every applied
  admission has a smaller sequence number, so the out-of-order branch of the transaction is not taken.
\<close>

theorem head_not_superseded:
  assumes "reachable d" and "head_seq d rid = Some seq"
  shows "AppliedMax d rid < seq"
  by (rule applied_before_head [OF reachable_ledger [OF assms(1)] assms(2)])

theorem head_not_superseded_witness: "AppliedMax sample_db ''root'' < 1"
proof (rule head_not_superseded [OF sample_reachable])
  show "head_seq sample_db ''root'' = Some 1" by code_simp
qed



text \<open>
  C39: an outcome other than APPLIED leaves the inventory alone. When a reconcile ends as rejected,
  stale or no-op, the roots with their generations, the canonical rows, the identity evidence, the
  generations, the application history and the journal are what they were.
\<close>

theorem refused_untouched:
  assumes "reachable d" and "reconcileHeadSafe ev cfg rid seq sid d = Inr (out, d')"
    and "oc_Status out \<noteq> AdmissionApplied"
  shows "db_roots d' = db_roots d \<and> db_resources d' = db_resources d \<and>
    db_observations d' = db_observations d \<and> db_generations d' = db_generations d \<and>
    db_applied d' = db_applied d \<and> db_journal d' = db_journal d \<and> \<not> oc_Mutated out"
  using reachable_ledger [OF assms(1)] assms(2)
proof (cases rule: reconcile_summary)
  case (receipt rt q)
  then show ?thesis using assms(3)
    by (auto simp: terminalSnapshotReceipt_def Let_def split: if_splits option.splits list.splits)
next
  case (refused rt snap a e)
  then show ?thesis
    using refusal_isolated [OF refused(7)] unevaluated_fields [OF refused(6)] by simp
next
  case (applied rt snap a coverage res d2)
  then show ?thesis using assms(3) by (auto simp: applied_outcome_def elim: reconciled_ledger)
qed

definition sample_deleted_db :: db where
  "sample_deleted_db =
     ok_db sample_db (map_sum id snd (TransitionRootLifecycle ''root'' RootDeleted sample_db))"

lemma sample_deleted_reachable: "reachable sample_deleted_db"
proof -
  have "is_ok (TransitionRootLifecycle ''root'' RootDeleted sample_db)" by code_simp
  then obtain res d' where "TransitionRootLifecycle ''root'' RootDeleted sample_db = Inr (res, d')"
    by (auto simp: is_ok_def split: sum.splits)
  moreover from this have "d' = sample_deleted_db" by (simp add: sample_deleted_db_def ok_db_def)
  ultimately show ?thesis using r_lifecycle [OF sample_reachable] by blast
qed

lemma sample_rejected:
  "\<exists>out d'. reconcileHeadSafe sample_env (sample_cfg 0 0) ''root'' 1 ''s2'' sample_deleted_db
     = Inr (out, d') \<and> oc_Status out = AdmissionRejected"
proof -
  have "(case reconcileHeadSafe sample_env (sample_cfg 0 0) ''root'' 1 ''s2'' sample_deleted_db of
      Inl _ \<Rightarrow> False | Inr (out, _) \<Rightarrow> oc_Status out = AdmissionRejected)"
    by code_simp
  then show ?thesis by (auto split: sum.splits)
qed

theorem refused_untouched_witness:
  "\<exists>d'. reachable d' \<and> pending d' ''root'' = [] \<and> db_generations d' = db_generations sample_deleted_db"
proof -
  obtain out d' where step: "reconcileHeadSafe sample_env (sample_cfg 0 0) ''root'' 1 ''s2''
      sample_deleted_db = Inr (out, d')" "oc_Status out \<noteq> AdmissionApplied"
    using sample_rejected by auto
  have "db_generations d' = db_generations sample_deleted_db"
    using refused_untouched [OF sample_deleted_reachable step] by blast
  moreover have "pending d' ''root'' = filter (\<lambda>a. adm_AdmissionSeq a \<noteq> 1) (pending sample_deleted_db ''root'')"
  proof (rule reconcile_pending [OF reachable_ledger [OF sample_deleted_reachable] step(1)])
    have "map_option sn_LifecycleState (find_snapshot sample_deleted_db ''s2'') = Some SnapshotSubmitted"
      by code_simp
    then show "find_snapshot sample_deleted_db ''s2'' = Some s \<Longrightarrow>
      sn_LifecycleState s \<noteq> SnapshotReconciled" for s by auto
  qed
  moreover have "filter (\<lambda>a. adm_AdmissionSeq a \<noteq> 1) (pending sample_deleted_db ''root'') = []"
    by code_simp
  ultimately show ?thesis using r_reconcile [OF sample_deleted_reachable step(1)] by auto
qed

text \<open>
  A deleted root is final. Once a root is DELETED it stays so under a further lifecycle
  request, and a reconcile of its queue never applies anything: the head is consumed as REJECTED (or a
  receipt of earlier work is replayed) and the canonical rows stay.
\<close>

theorem deleted_root_final:
  assumes "reachable d" and "find_root d rid = Some rt" and "root_LifecycleState rt = RootDeleted"
    and "reconcileHeadSafe ev cfg rid seq sid d = Inr (out, d')"
  shows "(d' = d \<or> oc_Status out = AdmissionRejected) \<and> db_resources d' = db_resources d \<and>
    map_option root_LifecycleState (find_root d' rid) = Some RootDeleted \<and>
    (TransitionRootLifecycle rid st d = Inr (res, d'') \<longrightarrow> d'' = d \<and> st = RootDeleted)"
proof -
  have "d' = d \<or> (oc_Status out = AdmissionRejected \<and> db_resources d' = db_resources d \<and>
      db_roots d' = db_roots d)"
    using assms(4)
  proof (cases rule: reconcileHeadSafe_cases)
    case (head rt' snap)
    then have "rt' = rt" using assms(2) by (simp add: at_head_def)
    then have "reject rid seq sid (root_CurrentGeneration rt) ''root is DELETED'' d = Inr (out, d')"
      using head(2,3) assms(3) by (simp add: process_head_snapshot_def Let_def)
    note r = refusals(1) [OF this]
    have "oc_Status out = AdmissionRejected"
      using \<open>reject _ _ _ _ _ _ = _\<close> by (simp add: reject_def) (metis ReconcileOutcome.select_convs(1))
    then show ?thesis using refusal_isolated(2,5) [OF r] by simp
  qed simp
  moreover have "TransitionRootLifecycle rid st d = Inr (res, d'') \<longrightarrow> d'' = d \<and> st = RootDeleted"
    using assms(2,3) by (auto simp: TransitionRootLifecycle_def Let_def)
  ultimately show ?thesis using assms(2,3) find_root_cong [of d' d] by auto
qed

theorem deleted_root_final_witness:
  "\<exists>out d'. reconcileHeadSafe sample_env (sample_cfg 0 0) ''root'' 1 ''s2'' sample_deleted_db
     = Inr (out, d') \<and> db_resources d' = db_resources sample_deleted_db"
proof -
  obtain out d' where step: "reconcileHeadSafe sample_env (sample_cfg 0 0) ''root'' 1 ''s2''
      sample_deleted_db = Inr (out, d')"
    using sample_rejected by blast
  have "map_option root_LifecycleState (find_root sample_deleted_db ''root'') = Some RootDeleted"
    by code_simp
  then obtain rt where "find_root sample_deleted_db ''root'' = Some rt"
      "root_LifecycleState rt = RootDeleted" by auto
  from deleted_root_final [OF sample_deleted_reachable this step] step show ?thesis by blast
qed



lemma sort_seqs:
  assumes "sorted_wrt (\<lambda>a b. ev_EventSeq a < ev_EventSeq b) es"
  shows "sort_by (\<lambda>a b. ev_EventSeq a < ev_EventSeq b) es = es"
  using assms
proof (induction es)
  case (Cons e es)
  then show ?case by (cases es) auto
qed simp

lemma numbered_from:
  assumes "map ev_EventSeq (old @ es) = [1..int (length (old @ es))]"
  shows "filter (\<lambda>e. ev_EventSeq e > int (length old)) (old @ es) = es"
    and "sorted_wrt (\<lambda>a b. ev_EventSeq a < ev_EventSeq b) es"
proof -
  have seq: "ev_EventSeq ((old @ es) ! i) = int i + 1" if "i < length (old @ es)" for i
  proof -
    have "ev_EventSeq ((old @ es) ! i) = map ev_EventSeq (old @ es) ! i" using that by (simp del: map_append)
    then show ?thesis unfolding assms using that by (simp add: nth_upto)
  qed
  have "ev_EventSeq e \<le> int (length old)" if "e \<in> set old" for e
  proof -
    from that obtain i where "i < length old" "e = old ! i" by (auto simp: in_set_conv_nth)
    then show ?thesis using seq [of i] by (simp add: nth_append)
  qed
  moreover have es: "ev_EventSeq (es ! i) = int (length old + i) + 1" if "i < length es" for i
    using seq [of "length old + i"] that by (simp add: nth_append)
  then have "ev_EventSeq e > int (length old)" if "e \<in> set es" for e
    using that by (auto simp: in_set_conv_nth)
  ultimately show "filter (\<lambda>e. ev_EventSeq e > int (length old)) (old @ es) = es"
    by (auto simp: filter_empty_conv not_less)
  show "sorted_wrt (\<lambda>a b. ev_EventSeq a < ev_EventSeq b) es"
    using es by (auto simp: sorted_wrt_iff_nth_less)
qed

text \<open>
  A consumer of the journal can resume from the last event that it saw. After a reconcile, reading
  any root's journal after the sequence number that was last before it gives exactly the events that
  the transaction appended, in order, and what was there before is still there.
\<close>

theorem journal_resume:
  assumes "reachable d" and "reconcileHeadSafe ev cfg rid seq sid d = Inr (out, d')"
    and "length (root_events d' x) \<le> n"
  shows "root_events d' x = root_events d x @ ReadJournal d' x (MaxEventSeq d x) n"
proof -
  note ok = reachable_ledger [OF assms(1)] and ok' = reachable_ledger [OF r_reconcile [OF assms(1,2)]]
  have jok: "\<exists>gen. journal_ok gen (root_events e x)" if "ledger_ok e" for e
    using that by (cases "find_root e x")
      (auto simp: ledger_ok_def view_ok_def journal_ok_def dest!: spec [of _ x])
  obtain es where es: "root_events d' x = root_events d x @ es"
    using reconcile_tx.journal_grows [OF ok assms(2)] by (metis append_take_drop_id)
  have "map ev_EventSeq (root_events d x @ es) = [1..int (length (root_events d x @ es))]"
    using jok [OF ok'] by (auto simp: journal_ok_def es)
  note later = numbered_from [OF this]
  have "MaxEventSeq d x = int (length (root_events d x))"
    using jok [OF ok] NextEventSeq_ok [of _ d x]
    by (auto simp: MaxEventSeq_def NextEventSeq_def split: option.splits)
  then have "ReadJournal d' x (MaxEventSeq d x) n = take n es"
    using later by (simp add: ReadJournal_def es sort_seqs del: filter_append)
  then show ?thesis using assms(3) by (simp add: es)
qed

theorem journal_resume_witness:
  "\<exists>d'. root_events d' ''root'' = ReadJournal d' ''root'' 0 (length (root_events d' ''root''))
     \<and> reachable d'"
proof -
  obtain d' where step: "reconcileHeadSafe sample_env (sample_cfg 0 0) ''root'' 1 ''s2'' sample_db
      = Inr (applied_outcome True 0, d')"
    using sample_applied by blast
  have "root_events sample_db ''root'' = []" "MaxEventSeq sample_db ''root'' = 0" by code_simp+
  then show ?thesis
    using journal_resume [OF sample_reachable step order_refl, of "''root''"]
      r_reconcile [OF sample_reachable step] by auto
qed

end
