(* ===== verification/Receipts.thy ===== *)
theory Receipts
  imports ProtocolProps
begin

text \<open>
  The receipt of a committed reconcile: repeating the request after the answer was lost returns
  the very outcome that was committed and changes nothing.
\<close>

section \<open>What a receipt needs\<close>



section \<open>Before the commit\<close>




section \<open>After the commit\<close>




lemma finish_other [simp]:
  "db_roots (finish rid seq sid st ap lc oc rs g d) = db_roots d"
  "db_generations (finish rid seq sid st ap lc oc rs g d) = db_generations d"
  "db_applied (finish rid seq sid st ap lc oc rs g d) = db_applied d"
  "db_results (finish rid seq sid st ap lc oc rs g d) = db_results d @ [result_row rid seq g oc rs]"
  "find_root (finish rid seq sid st ap lc oc rs g d) = find_root d"
  by (simp_all add: finish_defs result_row_def find_root_def fun_eq_iff)







section \<open>The round trip\<close>



end
