(* ===== verification/Work.thy ===== *)
theory Work
  imports Store
begin

text \<open>
  The operational tables of the incremental watcher (\<open>internal/store/postgres/incremental_*.go\<close>): the
  check constraints of the two tables, reading and writing a row, merging signals, claiming, failing,
  recovering and selecting work, and the watch rows. A transaction holds the lock of its root from the
  first statement to the commit, so it is one step. The creation and update times are not kept, and
  the seam that only tests set in \<open>EmitDuePoll\<close> is left out.
\<close>

section \<open>Check constraints\<close>

text \<open>A check of a nullable column holds for null.\<close>

fun opt_all :: "('a \<Rightarrow> bool) \<Rightarrow> 'a option \<Rightarrow> bool" where
  "opt_all P None = True"
| "opt_all P (Some x) = P x"

definition priority_ok :: "Priority option \<Rightarrow> bool" where
  "priority_ok p = opt_all (\<lambda>q. ValidatePriority q = Inr ()) p"

definition error_class_ok :: "ErrorClass option \<Rightarrow> bool" where
  "error_class_ok e = opt_all (\<lambda>c. ValidateErrorClass c = Inr ()) e"

definition sources_ok :: "TriggerSource list \<Rightarrow> bool" where
  "sources_ok = list_all (\<lambda>s. ValidateTriggerSource s = Inr ())"

definition reasons_ok :: "TriggerReason list \<Rightarrow> bool" where
  "reasons_ok = list_all (\<lambda>r. ValidateTriggerReason r = Inr ())"

definition c_sws_schedule :: "ScopeWatchState \<Rightarrow> bool" where
  "c_sws_schedule w \<longleftrightarrow>
     (sw_WatchState w \<in> {WatchHot, WatchWarm} \<and> sw_EffectiveIntervalSeconds w \<noteq> None \<and>
      sw_NextDueAt w \<noteq> None) \<or>
     (sw_WatchState w \<in> {WatchCold, WatchDisabled} \<and> sw_EffectiveIntervalSeconds w = None \<and>
      sw_NextDueAt w = None)"

definition watch_row_ok :: "ScopeWatchState \<Rightarrow> bool" where
  "watch_row_ok w \<longleftrightarrow>
     validateWatchState (sw_WatchState w) = Inr () \<and>
     opt_all (\<lambda>n. n > 0) (sw_EffectiveIntervalSeconds w) \<and>
     ValidatePriority (sw_Priority w) = Inr () \<and> sw_ConsecutiveFailures w \<ge> 0 \<and>
     error_class_ok (sw_LastErrorClass w) \<and> sw_Version w \<ge> 1 \<and>
     ValidateScopeKey (sw_ScopeKey w) = Inr () \<and> c_sws_schedule w \<and>
     list_all (\<lambda>s. ValidateWatchSource s = Inr ()) (sw_SourceSet w)"

definition c_dsw_claim_group :: "DirtyScopeWork \<Rightarrow> bool" where
  "c_dsw_claim_group w =
     (if wk_WorkState w = WorkInFlight
      then wk_ClaimedSignalSeq w \<noteq> None \<and>
           (case wk_ClaimedSourceSet w of None \<Rightarrow> False | Some ss \<Rightarrow> ss \<noteq> []) \<and>
           (case wk_ClaimedReasonSet w of None \<Rightarrow> False | Some rs \<Rightarrow> rs \<noteq> []) \<and>
           wk_ClaimedPriority w \<noteq> None \<and> wk_ClaimedFirstSeenAt w \<noteq> None
      else wk_ClaimedSignalSeq w = None \<and> wk_ClaimedSourceSet w = None \<and>
           wk_ClaimedReasonSet w = None \<and> wk_ClaimedNotBefore w = None \<and>
           wk_ClaimedPriority w = None \<and> wk_ClaimedFirstSeenAt w = None)"

definition c_dsw_pending :: "DirtyScopeWork \<Rightarrow> bool" where
  "c_dsw_pending w =
     (if wk_PendingSourceSet w = []
      then wk_PendingReasonSet w = [] \<and> wk_PendingPriority w = None \<and>
           wk_PendingFirstSeenAt w = None \<and> wk_PendingNotBefore w = None
      else wk_PendingFirstSeenAt w \<noteq> None \<and> wk_PendingReasonSet w \<noteq> [] \<and>
           wk_PendingPriority w \<noteq> None)"

definition c_dsw_state_shape :: "DirtyScopeWork \<Rightarrow> bool" where
  "c_dsw_state_shape w \<longleftrightarrow>
     (wk_WorkState w = WorkVerified \<and> wk_PendingSourceSet w = []) \<or>
     (wk_WorkState w \<in> {WorkPending, WorkRetryWait, WorkBlocked, WorkSuspended} \<and>
      wk_PendingSourceSet w \<noteq> []) \<or>
     wk_WorkState w = WorkInFlight"

definition work_row_ok :: "DirtyScopeWork \<Rightarrow> bool" where
  "work_row_ok w \<longleftrightarrow>
     validateWorkState (wk_WorkState w) = Inr () \<and> wk_SignalSeq w \<ge> 1 \<and>
     opt_all (\<lambda>c. 1 \<le> c \<and> c \<le> wk_SignalSeq w) (wk_ClaimedSignalSeq w) \<and>
     priority_ok (wk_ClaimedPriority w) \<and> priority_ok (wk_PendingPriority w) \<and>
     wk_AttemptCount w \<ge> 0 \<and> wk_ConsecutiveFailures w \<ge> 0 \<and> error_class_ok (wk_LastErrorClass w) \<and>
     wk_Version w \<ge> 1 \<and> ValidateScopeKey (wk_ScopeKey w) = Inr () \<and>
     opt_all (\<lambda>v. 1 \<le> v \<and> v \<le> wk_SignalSeq w) (wk_LastVerifiedSignalSeq w) \<and>
     c_dsw_claim_group w \<and> c_dsw_pending w \<and> c_dsw_state_shape w \<and>
     (wk_WorkState w = WorkRetryWait \<longrightarrow> wk_PendingNotBefore w \<noteq> None) \<and>
     sources_ok (wk_PendingSourceSet w) \<and> reasons_ok (wk_PendingReasonSet w) \<and>
     opt_all sources_ok (wk_ClaimedSourceSet w) \<and>
     opt_all reasons_ok (wk_ClaimedReasonSet w)"

section \<open>Reading rows\<close>

definition state_err :: "state_error + 'a \<Rightarrow> store_error + 'a" where
  "state_err = map_sum ErrState id"

definition nullable :: "('a list \<Rightarrow> state_error + 'a list) \<Rightarrow> 'a list option \<Rightarrow> store_error + 'a list option" where
  "nullable f xs = (case xs of None \<Rightarrow> Inr None | Some ys \<Rightarrow> state_err (map_sum id Some (f ys)))"

definition scanWatch :: "ScopeWatchState \<Rightarrow> store_error + ScopeWatchState" where
  "scanWatch w =
     and_then (state_err (NormalizeWatchSources (sw_SourceSet w)))
       (\<lambda>normalized. Inr (w\<lparr>sw_SourceSet := normalized\<rparr>))"

definition scanWork :: "DirtyScopeWork \<Rightarrow> store_error + DirtyScopeWork" where
  "scanWork w =
     and_then (nullable NormalizeTriggerSources (wk_ClaimedSourceSet w)) (\<lambda>claimedS.
     and_then (nullable NormalizeTriggerReasons (wk_ClaimedReasonSet w)) (\<lambda>claimedR.
     and_then (state_err (NormalizeTriggerSources (wk_PendingSourceSet w))) (\<lambda>pendingS.
     and_then (state_err (NormalizeTriggerReasons (wk_PendingReasonSet w))) (\<lambda>pendingR.
       Inr (w\<lparr>wk_ClaimedSourceSet := claimedS, wk_ClaimedReasonSet := claimedR,
              wk_PendingSourceSet := pendingS, wk_PendingReasonSet := pendingR\<rparr>)))))"

definition lockRootForUpdate :: "db \<Rightarrow> uuid \<Rightarrow> store_error + RootLifecycleState" where
  "lockRootForUpdate d rid =
     (case find_root d rid of None \<Rightarrow> Inl ErrNotFound | Some r \<Rightarrow> Inr (root_LifecycleState r))"

definition activeFromLifecycle :: "RootLifecycleState \<Rightarrow> bool" where
  "activeFromLifecycle l \<longleftrightarrow> l = RootActive"

definition rootIsActive :: "db \<Rightarrow> uuid \<Rightarrow> store_error + bool" where
  "rootIsActive d rid =
     (case find_root d rid of None \<Rightarrow> Inl ErrNotFound | Some r \<Rightarrow> Inr (root_LifecycleState r = RootActive))"

definition lockWatchForUpdate :: "db \<Rightarrow> uuid \<Rightarrow> string \<Rightarrow> store_error + ScopeWatchState option" where
  "lockWatchForUpdate d rid key =
     (case find_watch d rid key of
        None \<Rightarrow> Inr None
      | Some w \<Rightarrow> and_then (scanWatch w) (\<lambda>w. Inr (Some w)))"

definition loadWorkForUpdate :: "db \<Rightarrow> uuid \<Rightarrow> string \<Rightarrow> store_error + DirtyScopeWork option" where
  "loadWorkForUpdate d rid key =
     (case find_work d rid key of
        None \<Rightarrow> Inr None
      | Some w \<Rightarrow> and_then (scanWork w) (\<lambda>w. Inr (Some w)))"

section \<open>Writing rows\<close>

definition errRetryMerge :: store_error where
  "errRetryMerge = ErrRefused ''retry dirty signal merge''"

definition work_key :: "uuid \<Rightarrow> string \<Rightarrow> DirtyScopeWork \<Rightarrow> bool" where
  "work_key rid key w \<longleftrightarrow> wk_RootID w = rid \<and> wk_ScopeKey w = key"

text \<open>An update of one work row: the constraints are checked on the row it leaves.\<close>

definition put_work :: "DirtyScopeWork \<Rightarrow> db \<Rightarrow> store_error + db" where
  "put_work row d =
     (if work_row_ok row
      then Inr (d\<lparr>db_works := map (\<lambda>w. if work_key (wk_RootID row) (wk_ScopeKey row) w then row else w)
                   (db_works d)\<rparr>)
      else Inl ErrConstraint)"

definition insertWork :: "DirtyScopeWork \<Rightarrow> db \<Rightarrow> store_error + DirtyScopeWork \<times> db" where
  "insertWork wk d =
     (let row = wk\<lparr>wk_Version := 1\<rparr>
      in if find_root d (wk_RootID wk) = None \<or> \<not> work_row_ok row then Inl ErrConstraint
         else if find_work d (wk_RootID wk) (wk_ScopeKey wk) \<noteq> None then Inl errRetryMerge
         else and_then (scanWork row) (\<lambda>out. Inr (out, d\<lparr>db_works := db_works d @ [row]\<rparr>)))"

definition writeWork :: "DirtyScopeWork \<Rightarrow> db \<Rightarrow> store_error + DirtyScopeWork \<times> db" where
  "writeWork wk d =
     (case find_work d (wk_RootID wk) (wk_ScopeKey wk) of
        None \<Rightarrow> Inl ErrNoRows
      | Some stored \<Rightarrow>
          let row = wk\<lparr>wk_Version := wk_Version stored + 1\<rparr>
          in and_then (put_work row d) (\<lambda>d'. and_then (scanWork row) (\<lambda>out. Inr (out, d'))))"

section \<open>Merging signals\<close>

definition newWorkFromSignal :: "DirtySignal \<Rightarrow> bool \<Rightarrow> DirtyScopeWork" where
  "newWorkFromSignal sig active =
     \<lparr>wk_RootID = ds_RootID sig, wk_ScopeKey = ds_ScopeKey sig,
      wk_WorkState = (if active then WorkPending else WorkSuspended), wk_SignalSeq = 1,
      wk_ClaimedSignalSeq = None, wk_ClaimedSourceSet = None, wk_ClaimedReasonSet = None,
      wk_ClaimedPriority = None, wk_ClaimedFirstSeenAt = None, wk_ClaimedNotBefore = None,
      wk_PendingSourceSet = [ds_Source sig], wk_PendingReasonSet = [ds_Reason sig],
      wk_PendingPriority = Some (ds_Priority sig), wk_PendingFirstSeenAt = Some (ds_SeenAt sig),
      wk_PendingNotBefore = ds_NotBefore sig, wk_LastSeenAt = ds_SeenAt sig, wk_AttemptCount = 0,
      wk_ConsecutiveFailures = 0, wk_LastAttemptStartedAt = None, wk_LastAttemptFinishedAt = None,
      wk_LastErrorClass = None, wk_LastVerifiedAt = None, wk_LastVerifiedSignalSeq = None,
      wk_Version = 0\<rparr>"

definition mergedPriority :: "Priority option \<Rightarrow> Priority \<Rightarrow> Priority option" where
  "mergedPriority cur incoming =
     (case cur of None \<Rightarrow> Some incoming | Some p \<Rightarrow> Some (MaxPriority p incoming))"

text \<open>The part that the coalescing states share: the union of the sets, the higher priority, the
  earlier first sighting.\<close>

definition merge_pending :: "DirtyScopeWork \<Rightarrow> DirtySignal \<Rightarrow> store_error + DirtyScopeWork" where
  "merge_pending wk sig =
     and_then (state_err (UnionTriggerSources (wk_PendingSourceSet wk) [ds_Source sig])) (\<lambda>srcs.
     and_then (state_err (UnionTriggerReasons (wk_PendingReasonSet wk) [ds_Reason sig])) (\<lambda>reasons.
       Inr (wk\<lparr>wk_PendingSourceSet := srcs, wk_PendingReasonSet := reasons,
               wk_PendingPriority := mergedPriority (wk_PendingPriority wk) (ds_Priority sig),
               wk_PendingFirstSeenAt := MinTimePtr [wk_PendingFirstSeenAt wk, Some (ds_SeenAt sig)]\<rparr>)))"

definition applyMerge :: "DirtyScopeWork \<Rightarrow> DirtySignal \<Rightarrow> bool \<Rightarrow> store_error + DirtyScopeWork" where
  "applyMerge wk sig active =
     and_then
       (case wk_WorkState wk of
          WorkVerified \<Rightarrow>
            Inr (wk\<lparr>wk_PendingSourceSet := [ds_Source sig], wk_PendingReasonSet := [ds_Reason sig],
                    wk_PendingPriority := Some (ds_Priority sig),
                    wk_PendingFirstSeenAt := Some (ds_SeenAt sig),
                    wk_PendingNotBefore := ds_NotBefore sig,
                    wk_WorkState := (if active then WorkPending else WorkSuspended)\<rparr>)
        | OtherWorkState s \<Rightarrow> Inl (ErrRefused ''merge: unsupported work state'')
        | st \<Rightarrow>
            and_then (merge_pending wk sig) (\<lambda>m.
              Inr (if st = WorkPending \<or> st = WorkInFlight
                   then m\<lparr>wk_PendingNotBefore := MinTimePtr [wk_PendingNotBefore wk, ds_NotBefore sig]\<rparr>
                   else m)))
       (\<lambda>m. Inr (m\<lparr>wk_SignalSeq := wk_SignalSeq wk + 1,
                   wk_LastSeenAt := (if wk_WorkState wk = WorkVerified \<or> ds_SeenAt sig > wk_LastSeenAt wk
                                     then ds_SeenAt sig else wk_LastSeenAt wk)\<rparr>))"

definition mergeSignalTx :: "DirtySignal \<Rightarrow> bool \<Rightarrow> db \<Rightarrow> store_error + DirtyScopeWork \<times> db" where
  "mergeSignalTx sig active d =
     and_then (loadWorkForUpdate d (ds_RootID sig) (ds_ScopeKey sig)) (\<lambda>found.
       case found of
         None \<Rightarrow> insertWork (newWorkFromSignal sig active) d
       | Some wk \<Rightarrow> and_then (applyMerge wk sig active) (\<lambda>merged. writeWork merged d))"

definition validate_signal :: "DirtySignal \<Rightarrow> store_error + unit" where
  "validate_signal sig =
     and_then (state_err (ValidateScopeKey (ds_ScopeKey sig))) (\<lambda>_.
     and_then (state_err (ValidateTriggerSource (ds_Source sig))) (\<lambda>_.
     and_then (state_err (ValidateTriggerReason (ds_Reason sig))) (\<lambda>_.
       state_err (ValidatePriority (ds_Priority sig)))))"

text \<open>One attempt is one transaction; the loop allows five.\<close>

definition merge_attempt :: "DirtySignal \<Rightarrow> db \<Rightarrow> store_error + DirtyScopeWork \<times> db" where
  "merge_attempt sig d =
     and_then (lockRootForUpdate d (ds_RootID sig)) (\<lambda>lifecycle.
     and_then (lockWatchForUpdate d (ds_RootID sig) (ds_ScopeKey sig)) (\<lambda>_.
       mergeSignalTx sig (activeFromLifecycle lifecycle) d))"

fun merge_attempts :: "nat \<Rightarrow> DirtySignal \<Rightarrow> db \<Rightarrow> store_error + DirtyScopeWork \<times> db" where
  "merge_attempts 0 sig d = Inl (ErrRefused ''merge signal contention'')"
| "merge_attempts (Suc n) sig d =
     (case merge_attempt sig d of
        Inl e \<Rightarrow> if e = errRetryMerge then merge_attempts n sig d else Inl e
      | Inr r \<Rightarrow> Inr r)"

definition MergeSignal :: "DirtySignal \<Rightarrow> db \<Rightarrow> store_error + DirtyScopeWork \<times> db" where
  "MergeSignal sig d = and_then (validate_signal sig) (\<lambda>_. merge_attempts 5 sig d)"

section \<open>Watch rows\<close>

definition watch_key :: "uuid \<Rightarrow> string \<Rightarrow> ScopeWatchState \<Rightarrow> bool" where
  "watch_key rid key w \<longleftrightarrow> sw_RootID w = rid \<and> sw_ScopeKey w = key"

text \<open>An update of one watch row under its key, and the number of rows it affected.\<close>

definition update_watch ::
  "uuid \<Rightarrow> string \<Rightarrow> (ScopeWatchState \<Rightarrow> bool) \<Rightarrow> (ScopeWatchState \<Rightarrow> ScopeWatchState) \<Rightarrow> db
     \<Rightarrow> store_error + nat \<times> db" where
  "update_watch rid key cond f d =
     (let hit = (\<lambda>w. watch_key rid key w \<and> cond w);
          row = (\<lambda>w. (f w)\<lparr>sw_Version := sw_Version w + 1\<rparr>)
      in if list_all (\<lambda>w. hit w \<longrightarrow> watch_row_ok (row w)) (db_watches d)
         then Inr (length (filter hit (db_watches d)),
                   d\<lparr>db_watches := map (\<lambda>w. if hit w then row w else w) (db_watches d)\<rparr>)
         else Inl ErrConstraint)"

definition exactly_one :: "nat \<times> db \<Rightarrow> store_error + db" where
  "exactly_one r = (case r of (n, d) \<Rightarrow> if n \<noteq> 1 then Inl ErrStateCASConflict else Inr d)"

definition getWatchForUpdate :: "db \<Rightarrow> uuid \<Rightarrow> string \<Rightarrow> int \<Rightarrow> store_error + ScopeWatchState" where
  "getWatchForUpdate d rid key expectedVersion =
     (case find_watch d rid key of
        None \<Rightarrow> Inl ErrStateCASConflict
      | Some w \<Rightarrow> if sw_Version w = expectedVersion then scanWatch w else Inl ErrStateCASConflict)"

definition watchBumpAttemptStart :: "uuid \<Rightarrow> string \<Rightarrow> gotime \<Rightarrow> db \<Rightarrow> store_error + db" where
  "watchBumpAttemptStart rid key now d =
     and_then (update_watch rid key (\<lambda>_. True) (sw_LastAttemptStartedAt_update (\<lambda>_. Some now)) d)
       exactly_one"

definition watchRecordSuccess :: "uuid \<Rightarrow> string \<Rightarrow> gotime \<Rightarrow> db \<Rightarrow> store_error + db" where
  "watchRecordSuccess rid key now d =
     and_then (update_watch rid key (\<lambda>_. True)
       (\<lambda>w. w\<lparr>sw_LastAttemptFinishedAt := Some now, sw_LastSuccessAt := Some now,
              sw_ConsecutiveFailures := 0, sw_LastErrorClass := None\<rparr>) d) exactly_one"

definition watchRecordFailure ::
  "uuid \<Rightarrow> string \<Rightarrow> ErrorClass \<Rightarrow> bool \<Rightarrow> gotime \<Rightarrow> db \<Rightarrow> store_error + db" where
  "watchRecordFailure rid key cls providerFailure now d =
     and_then (update_watch rid key (\<lambda>_. True)
       (\<lambda>w. w\<lparr>sw_LastAttemptFinishedAt := Some now,
              sw_ConsecutiveFailures := sw_ConsecutiveFailures w + (if providerFailure then 1 else 0),
              sw_LastErrorClass := Some cls\<rparr>) d) exactly_one"

definition validateWatchForWrite :: "ScopeWatchState \<Rightarrow> store_error + unit" where
  "validateWatchForWrite w =
     and_then
       (if sw_WatchState w = WatchHot \<or> sw_WatchState w = WatchWarm
        then (if (case sw_EffectiveIntervalSeconds w of None \<Rightarrow> True | Some n \<Rightarrow> n \<le> 0)
              then Inl (ErrRefused ''watch requires a positive interval'')
              else if sw_NextDueAt w = None then Inl (ErrRefused ''watch requires next_due_at'')
              else Inr ())
        else if sw_WatchState w = WatchCold \<or> sw_WatchState w = WatchDisabled
        then (if sw_EffectiveIntervalSeconds w \<noteq> None \<or> sw_NextDueAt w \<noteq> None
              then Inl (ErrRefused ''watch must not carry interval/next_due_at'')
              else Inr ())
        else Inl (ErrRefused ''invalid watch state''))
       (\<lambda>_. and_then (state_err (ValidatePriority (sw_Priority w)))
       (\<lambda>_. and_then (case sw_LastErrorClass w of None \<Rightarrow> Inr () | Some c \<Rightarrow> state_err (ValidateErrorClass c))
       (\<lambda>_. if sw_ConsecutiveFailures w < 0 then Inl (ErrRefused ''negative consecutive_failures'')
             else Inr ())))"

definition CreateWatch :: "ScopeWatchState \<Rightarrow> db \<Rightarrow> store_error + ScopeWatchState \<times> db" where
  "CreateWatch w d =
     and_then (state_err (ValidateScopeKey (sw_ScopeKey w))) (\<lambda>_.
     and_then (validateWatchForWrite w) (\<lambda>_.
     and_then (state_err (NormalizeWatchSources (sw_SourceSet w))) (\<lambda>srcs.
       let row = w\<lparr>sw_SourceSet := srcs, sw_Version := 1\<rparr>
       in if find_root d (sw_RootID w) = None \<or> \<not> watch_row_ok row \<or>
             find_watch d (sw_RootID w) (sw_ScopeKey w) \<noteq> None
          then Inl ErrConstraint
          else and_then (scanWatch row) (\<lambda>out. Inr (out, d\<lparr>db_watches := db_watches d @ [row]\<rparr>)))))"

definition GetWatch :: "db \<Rightarrow> uuid \<Rightarrow> string \<Rightarrow> store_error + ScopeWatchState" where
  "GetWatch d rid key =
     (case find_watch d rid key of None \<Rightarrow> Inl ErrNotFound | Some w \<Rightarrow> scanWatch w)"

definition CASUpdateWatch ::
  "ScopeWatchState \<Rightarrow> int \<Rightarrow> db \<Rightarrow> store_error + ScopeWatchState \<times> db" where
  "CASUpdateWatch w expectedVersion d =
     and_then (state_err (ValidateScopeKey (sw_ScopeKey w))) (\<lambda>_.
     and_then (validateWatchForWrite w) (\<lambda>_.
     and_then (state_err (NormalizeWatchSources (sw_SourceSet w))) (\<lambda>srcs.
     and_then (update_watch (sw_RootID w) (sw_ScopeKey w) (\<lambda>c. sw_Version c = expectedVersion)
         (\<lambda>_. w\<lparr>sw_SourceSet := srcs\<rparr>) d) (\<lambda>(n, d').
       if n = 0 then Inl ErrStateCASConflict
       else and_then (scanWatch (w\<lparr>sw_SourceSet := srcs, sw_Version := expectedVersion + 1\<rparr>))
              (\<lambda>out. Inr (out, d'))))))"

definition active_root :: "db \<Rightarrow> uuid \<Rightarrow> bool" where
  "active_root d rid = (case find_root d rid of None \<Rightarrow> False | Some r \<Rightarrow> root_LifecycleState r = RootActive)"

text \<open>A null sorts after every value.\<close>

definition nulls_last :: "gotime option \<Rightarrow> bool \<times> gotime" where
  "nulls_last t = (case t of None \<Rightarrow> (True, 0) | Some x \<Rightarrow> (False, x))"

definition watch_due :: "db \<Rightarrow> gotime \<Rightarrow> ScopeWatchState \<Rightarrow> bool" where
  "watch_due d now w \<longleftrightarrow>
     active_root d (sw_RootID w) \<and> sw_WatchState w \<in> {WatchHot, WatchWarm} \<and>
     (case sw_NextDueAt w of None \<Rightarrow> False | Some t \<Rightarrow> t \<le> now) \<and>
     (case sw_DeferredUntil w of None \<Rightarrow> True | Some t \<Rightarrow> t \<le> now)"

definition due_key :: "ScopeWatchState \<Rightarrow> (bool \<times> gotime) \<times> uuid \<times> string" where
  "due_key w = (nulls_last (sw_NextDueAt w), sw_RootID w, sw_ScopeKey w)"

fun scan_all :: "('a \<Rightarrow> 'e + 'b) \<Rightarrow> 'a list \<Rightarrow> 'e + 'b list" where
  "scan_all f [] = Inr []"
| "scan_all f (x # xs) = and_then (f x) (\<lambda>y. and_then (scan_all f xs) (\<lambda>ys. Inr (y # ys)))"

definition ListDueWatches :: "db \<Rightarrow> gotime \<Rightarrow> int \<Rightarrow> store_error + ScopeWatchState list" where
  "ListDueWatches d now limit =
     (if limit \<le> 0 then Inr []
      else scan_all scanWatch (take (nat limit)
        (sort_by (\<lambda>a b. due_key a < due_key b) (filter (watch_due d now) (db_watches d)))))"

section \<open>Emitting a due poll\<close>

text \<open>\<open>time.Duration(n) * time.Second\<close>, in 64 bits.\<close>

definition seconds_duration :: "int \<Rightarrow> duration" where
  "seconds_duration n = sint (word_of_int n * word_of_int second :: int64)"

definition poll_signal :: "ScopeWatchState \<Rightarrow> gotime \<Rightarrow> DirtySignal" where
  "poll_signal w now =
     \<lparr>ds_RootID = sw_RootID w, ds_ScopeKey = sw_ScopeKey w, ds_Source = SourcePollSchedule,
      ds_Reason = ReasonPossibleChange, ds_Priority = sw_Priority w, ds_NotBefore = None,
      ds_SeenAt = now\<rparr>"

definition EmitDuePoll ::
  "uuid \<Rightarrow> string \<Rightarrow> int \<Rightarrow> gotime \<Rightarrow> db \<Rightarrow> store_error + DirtyScopeWork \<times> db" where
  "EmitDuePoll rid key expectedWatchVersion now d =
     and_then (state_err (ValidateScopeKey key)) (\<lambda>_.
     and_then (lockRootForUpdate d rid) (\<lambda>lifecycle.
       if \<not> activeFromLifecycle lifecycle then Inl (ErrRefused ''emit due poll: root is not ACTIVE'')
       else and_then (getWatchForUpdate d rid key expectedWatchVersion) (\<lambda>w.
         if \<not> Scheduled (sw_WatchState w) then Inl (ErrRefused ''emit due poll: watch is not scheduled'')
         else if (case sw_NextDueAt w of None \<Rightarrow> True | Some t \<Rightarrow> t > now)
         then Inl (ErrRefused ''emit due poll: watch is not due'')
         else if (case sw_DeferredUntil w of None \<Rightarrow> False | Some t \<Rightarrow> t > now)
         then Inl (ErrRefused ''emit due poll: watch is deferred'')
         else and_then (mergeSignalTx (poll_signal w now) True d) (\<lambda>(wk, d1).
           case sw_EffectiveIntervalSeconds w of
             None \<Rightarrow> Inl (ErrRefused ''panic: nil interval'')
           | Some n \<Rightarrow>
               and_then (update_watch rid key (\<lambda>c. sw_Version c = expectedWatchVersion)
                   (\<lambda>c. c\<lparr>sw_LastDueAt := Some now, sw_NextDueAt := Some (now + seconds_duration n)\<rparr>) d1)
                 (\<lambda>(_, d2). Inr (wk, d2))))))"

section \<open>Claims\<close>

text \<open>The pending bucket moves into the claim.\<close>

definition claimed :: "gotime \<Rightarrow> DirtyScopeWork \<Rightarrow> DirtyScopeWork" where
  "claimed now wk =
     wk\<lparr>wk_ClaimedSignalSeq := Some (wk_SignalSeq wk),
        wk_ClaimedSourceSet := Some (wk_PendingSourceSet wk),
        wk_ClaimedReasonSet := Some (wk_PendingReasonSet wk),
        wk_ClaimedPriority := wk_PendingPriority wk,
        wk_ClaimedFirstSeenAt := wk_PendingFirstSeenAt wk,
        wk_ClaimedNotBefore := wk_PendingNotBefore wk,
        wk_PendingSourceSet := [], wk_PendingReasonSet := [], wk_PendingPriority := None,
        wk_PendingFirstSeenAt := None, wk_PendingNotBefore := None,
        wk_WorkState := WorkInFlight, wk_AttemptCount := wk_AttemptCount wk + 1,
        wk_LastAttemptStartedAt := Some now\<rparr>"

definition releaseClaim :: "DirtyScopeWork \<Rightarrow> DirtyScopeWork" where
  "releaseClaim wk =
     wk\<lparr>wk_ClaimedSignalSeq := None, wk_ClaimedSourceSet := None, wk_ClaimedReasonSet := None,
        wk_ClaimedPriority := None, wk_ClaimedFirstSeenAt := None, wk_ClaimedNotBefore := None\<rparr>"

definition found_work :: "db \<Rightarrow> uuid \<Rightarrow> string \<Rightarrow> store_error + DirtyScopeWork" where
  "found_work d rid key =
     and_then (loadWorkForUpdate d rid key)
       (\<lambda>found. case found of None \<Rightarrow> Inl ErrNotFound | Some wk \<Rightarrow> Inr wk)"

definition claim_row :: "uuid \<Rightarrow> string \<Rightarrow> DirtyScopeWork \<Rightarrow> gotime \<Rightarrow> db \<Rightarrow> store_error + DirtyScopeWork \<times> db" where
  "claim_row rid key wk now d =
     (if wk_WorkState wk \<noteq> WorkPending then Inl (ErrRefused ''claim: work is not PENDING'')
      else if (case wk_PendingNotBefore wk of None \<Rightarrow> False | Some t \<Rightarrow> t > now)
      then Inl (ErrRefused ''claim: work is not eligible'')
      else if wk_PendingSourceSet wk = [] then Inl (ErrRefused ''claim: empty pending bucket'')
      else and_then (if ContainsTriggerSource (wk_PendingSourceSet wk) SourcePollSchedule
                     then watchBumpAttemptStart rid key now d else Inr d)
             (writeWork (claimed now wk)))"

text \<open>The result of the call and the database it leaves: claiming under a root that is not active
  commits the suspension of the item and then reports an error.\<close>

definition ClaimWork ::
  "uuid \<Rightarrow> string \<Rightarrow> int \<Rightarrow> gotime \<Rightarrow> db \<Rightarrow> (store_error + DirtyScopeWork) \<times> db" where
  "ClaimWork rid key expectedWorkVersion now d =
     (case and_then (state_err (ValidateScopeKey key)) (\<lambda>_.
           and_then (lockRootForUpdate d rid) (\<lambda>lifecycle.
           and_then (lockWatchForUpdate d rid key) (\<lambda>_.
           and_then (found_work d rid key) (\<lambda>wk.
             if wk_Version wk \<noteq> expectedWorkVersion then Inl ErrStateCASConflict
             else Inr (activeFromLifecycle lifecycle, wk))))) of
        Inl e \<Rightarrow> (Inl e, d)
      | Inr (active, wk) \<Rightarrow>
          if \<not> active
          then (if wk_WorkState wk = WorkPending
                then (case writeWork (wk\<lparr>wk_WorkState := WorkSuspended\<rparr>) d of
                        Inl e \<Rightarrow> (Inl e, d)
                      | Inr (out, d') \<Rightarrow> (Inl (ErrRefused ''claim: root is not ACTIVE; work suspended''), d'))
                else (Inl (ErrRefused ''claim: root is not ACTIVE''), d))
          else (case claim_row rid key wk now d of
                  Inl e \<Rightarrow> (Inl e, d)
                | Inr (out, d') \<Rightarrow> (Inr out, d')))"

definition derefPriority :: "Priority option \<Rightarrow> Priority" where
  "derefPriority p = (case p of None \<Rightarrow> PriorityLow | Some q \<Rightarrow> q)"

definition owns :: "DirtyScopeWork \<Rightarrow> int \<Rightarrow> bool" where
  "owns wk claimedSignalSeq \<longleftrightarrow>
     wk_WorkState wk = WorkInFlight \<and> wk_ClaimedSignalSeq wk = Some claimedSignalSeq"

definition set_of :: "'a list option \<Rightarrow> 'a list" where
  "set_of xs = (case xs of None \<Rightarrow> [] | Some ys \<Rightarrow> ys)"

text \<open>The claim goes back into the pending bucket, with what arrived meanwhile.\<close>

definition restored :: "DirtyScopeWork \<Rightarrow> store_error + DirtyScopeWork" where
  "restored wk =
     and_then (state_err (UnionTriggerSources (set_of (wk_ClaimedSourceSet wk)) (wk_PendingSourceSet wk))) (\<lambda>srcs.
     and_then (state_err (UnionTriggerReasons (set_of (wk_ClaimedReasonSet wk)) (wk_PendingReasonSet wk))) (\<lambda>reasons.
       Inr (wk\<lparr>wk_PendingSourceSet := srcs, wk_PendingReasonSet := reasons,
               wk_PendingPriority := mergedPriority (wk_PendingPriority wk) (derefPriority (wk_ClaimedPriority wk)),
               wk_PendingFirstSeenAt := MinTimePtr [wk_PendingFirstSeenAt wk, wk_ClaimedFirstSeenAt wk,
                  wk_LastAttemptStartedAt wk]\<rparr>)))"

definition failed_row ::
  "ErrorClass \<Rightarrow> gotime option \<Rightarrow> gotime \<Rightarrow> DirtyScopeWork \<Rightarrow> DirtyScopeWork" where
  "failed_row cls retryNotBefore now wk =
     (releaseClaim (wk\<lparr>
        wk_PendingNotBefore := (if TargetWorkState cls = WorkRetryWait
                                then MaxTimePtr [wk_PendingNotBefore wk, retryNotBefore]
                                else wk_PendingNotBefore wk),
        wk_WorkState := TargetWorkState cls\<rparr>))
      \<lparr>wk_LastAttemptFinishedAt := Some now, wk_LastErrorClass := Some cls,
       wk_ConsecutiveFailures := wk_ConsecutiveFailures wk + (if IsProviderFailure cls then 1 else 0)\<rparr>"

definition CompleteFailure ::
  "uuid \<Rightarrow> string \<Rightarrow> int \<Rightarrow> ErrorClass \<Rightarrow> gotime option \<Rightarrow> gotime \<Rightarrow> db
     \<Rightarrow> store_error + DirtyScopeWork \<times> db" where
  "CompleteFailure rid key claimedSignalSeq cls retryNotBefore now d =
     and_then (state_err (ValidateErrorClass cls)) (\<lambda>_.
       if TargetWorkState cls = WorkRetryWait \<and> retryNotBefore = None
       then Inl (ErrRefused ''complete failure: RETRY_WAIT requires a retry eligibility'')
       else if TargetWorkState cls = WorkRetryWait \<and>
               (case retryNotBefore of None \<Rightarrow> False | Some t \<Rightarrow> \<not> t > now)
       then Inl (ErrRefused ''complete failure: retry eligibility must be after now'')
       else and_then (lockRootForUpdate d rid) (\<lambda>_.
         and_then (lockWatchForUpdate d rid key) (\<lambda>_.
         and_then (found_work d rid key) (\<lambda>wk.
           if \<not> owns wk claimedSignalSeq then Inl ErrStaleClaim
           else and_then (restored wk) (\<lambda>back.
             and_then (if ContainsTriggerSource (set_of (wk_ClaimedSourceSet wk)) SourcePollSchedule
                       then watchRecordFailure rid key cls (IsProviderFailure cls) now d else Inr d)
               (writeWork (failed_row cls retryNotBefore now back)))))))"

section \<open>Transitions\<close>

definition GetWork :: "db \<Rightarrow> uuid \<Rightarrow> string \<Rightarrow> store_error + DirtyScopeWork" where
  "GetWork d rid key =
     (case find_work d rid key of None \<Rightarrow> Inl ErrNotFound | Some w \<Rightarrow> scanWork w)"

text \<open>An update guarded by the version and the state of the row.\<close>

definition cas_work ::
  "uuid \<Rightarrow> string \<Rightarrow> int \<Rightarrow> (DirtyScopeWork \<Rightarrow> bool) \<Rightarrow> (DirtyScopeWork \<Rightarrow> DirtyScopeWork) \<Rightarrow> db
     \<Rightarrow> store_error + DirtyScopeWork \<times> db" where
  "cas_work rid key expectedVersion cond f d =
     (case find_work d rid key of
        None \<Rightarrow> Inl ErrStateCASConflict
      | Some w \<Rightarrow>
          if wk_Version w \<noteq> expectedVersion \<or> \<not> cond w then Inl ErrStateCASConflict
          else let row = (f w)\<lparr>wk_Version := wk_Version w + 1\<rparr>
               in and_then (put_work row d) (\<lambda>d'. Inr (row, d')))"

definition BudgetDefer :: "uuid \<Rightarrow> string \<Rightarrow> int \<Rightarrow> gotime \<Rightarrow> db \<Rightarrow> store_error + db" where
  "BudgetDefer rid key expectedVersion notBefore d =
     and_then (cas_work rid key expectedVersion
         (\<lambda>w. wk_WorkState w = WorkPending \<and>
              (case wk_PendingNotBefore w of None \<Rightarrow> True | Some t \<Rightarrow> t < notBefore))
         (\<lambda>w. w\<lparr>wk_PendingNotBefore := Some notBefore\<rparr>) d)
       (\<lambda>(_, d'). Inr d')"

definition zero_work :: DirtyScopeWork where
  "zero_work =
     \<lparr>wk_RootID = [], wk_ScopeKey = [], wk_WorkState = OtherWorkState [], wk_SignalSeq = 0,
      wk_ClaimedSignalSeq = None, wk_ClaimedSourceSet = None, wk_ClaimedReasonSet = None,
      wk_ClaimedPriority = None, wk_ClaimedFirstSeenAt = None, wk_ClaimedNotBefore = None,
      wk_PendingSourceSet = [], wk_PendingReasonSet = [], wk_PendingPriority = None,
      wk_PendingFirstSeenAt = None, wk_PendingNotBefore = None, wk_LastSeenAt = zero_time,
      wk_AttemptCount = 0, wk_ConsecutiveFailures = 0, wk_LastAttemptStartedAt = None,
      wk_LastAttemptFinishedAt = None, wk_LastErrorClass = None, wk_LastVerifiedAt = None,
      wk_LastVerifiedSignalSeq = None, wk_Version = 0\<rparr>"

text \<open>The three transitions back to \<open>PENDING\<close> test the scan error for a missing row only; with any
  other scan error they commit and return the zero row.\<close>

definition to_pending ::
  "bool \<Rightarrow> uuid \<Rightarrow> string \<Rightarrow> int \<Rightarrow> (DirtyScopeWork \<Rightarrow> bool) \<Rightarrow> (DirtyScopeWork \<Rightarrow> DirtyScopeWork) \<Rightarrow> db
     \<Rightarrow> store_error + DirtyScopeWork \<times> db" where
  "to_pending lockWatch rid key expectedVersion cond f d =
     and_then (lockRootForUpdate d rid) (\<lambda>lifecycle.
       if \<not> activeFromLifecycle lifecycle then Inl ErrStateCASConflict
       else and_then (if lockWatch then lockWatchForUpdate d rid key else Inr None) (\<lambda>_.
         and_then (cas_work rid key expectedVersion cond f d) (\<lambda>(row, d').
           Inr (case scanWork row of Inl _ \<Rightarrow> zero_work | Inr out \<Rightarrow> out, d'))))"

definition RetryReady ::
  "uuid \<Rightarrow> string \<Rightarrow> int \<Rightarrow> gotime \<Rightarrow> db \<Rightarrow> store_error + DirtyScopeWork \<times> db" where
  "RetryReady rid key expectedVersion now d =
     to_pending True rid key expectedVersion
       (\<lambda>w. wk_WorkState w = WorkRetryWait \<and>
            (case wk_PendingNotBefore w of None \<Rightarrow> False | Some t \<Rightarrow> t \<le> now))
       (\<lambda>w. w\<lparr>wk_WorkState := WorkPending, wk_PendingNotBefore := None\<rparr>) d"

definition ResumeSuspended ::
  "uuid \<Rightarrow> string \<Rightarrow> int \<Rightarrow> gotime \<Rightarrow> db \<Rightarrow> store_error + DirtyScopeWork \<times> db" where
  "ResumeSuspended rid key expectedVersion now d =
     to_pending False rid key expectedVersion (\<lambda>w. wk_WorkState w = WorkSuspended)
       (\<lambda>w. w\<lparr>wk_WorkState := WorkPending\<rparr>) d"

definition RepairBlocked ::
  "uuid \<Rightarrow> string \<Rightarrow> int \<Rightarrow> gotime \<Rightarrow> db \<Rightarrow> store_error + DirtyScopeWork \<times> db" where
  "RepairBlocked rid key expectedVersion now d =
     to_pending True rid key expectedVersion (\<lambda>w. wk_WorkState w = WorkBlocked)
       (\<lambda>w. w\<lparr>wk_WorkState := WorkPending\<rparr>) d"

section \<open>Recovery after a restart\<close>

definition inflight :: "db \<Rightarrow> uuid \<Rightarrow> DirtyScopeWork list" where
  "inflight d rid = filter (\<lambda>w. wk_RootID w = rid \<and> wk_WorkState w = WorkInFlight) (db_works d)"

definition recovered_row :: "bool \<Rightarrow> DirtyScopeWork \<Rightarrow> DirtyScopeWork" where
  "recovered_row active wk =
     (releaseClaim (wk\<lparr>wk_PendingNotBefore :=
        (if wk_ClaimedNotBefore wk = None then None
         else MinTimePtr [wk_ClaimedNotBefore wk, wk_PendingNotBefore wk])\<rparr>))
      \<lparr>wk_WorkState := (if active then WorkPending else WorkSuspended)\<rparr>"

fun recover_loop :: "uuid \<Rightarrow> bool \<Rightarrow> string list \<Rightarrow> nat \<Rightarrow> db \<Rightarrow> store_error + nat \<times> db" where
  "recover_loop rid active [] recovered d = Inr (recovered, d)"
| "recover_loop rid active (key # keys) recovered d =
     and_then (loadWorkForUpdate d rid key) (\<lambda>found.
       case found of
         None \<Rightarrow> recover_loop rid active keys recovered d
       | Some wk \<Rightarrow>
           if wk_WorkState wk \<noteq> WorkInFlight then recover_loop rid active keys recovered d
           else and_then (restored wk) (\<lambda>back.
             and_then (writeWork (recovered_row active back) d) (\<lambda>(_, d').
               recover_loop rid active keys (recovered + 1) d')))"

definition RecoverStaleInflight :: "uuid \<Rightarrow> db \<Rightarrow> store_error + nat \<times> db" where
  "RecoverStaleInflight rid d =
     and_then (lockRootForUpdate d rid) (\<lambda>lifecycle.
       recover_loop rid (activeFromLifecycle lifecycle)
         (sort_strings (map wk_ScopeKey (inflight d rid))) 0 d)"

section \<open>Selection\<close>

definition eligible :: "db \<Rightarrow> gotime \<Rightarrow> DirtyScopeWork \<Rightarrow> bool" where
  "eligible d now w \<longleftrightarrow>
     active_root d (wk_RootID w) \<and> wk_WorkState w = WorkPending \<and>
     (case wk_PendingNotBefore w of None \<Rightarrow> True | Some t \<Rightarrow> t \<le> now)"

definition priority_order :: "Priority option \<Rightarrow> int" where
  "priority_order p = (case p of None \<Rightarrow> 0 | Some q \<Rightarrow> priorityRank q)"

definition work_order :: "DirtyScopeWork \<Rightarrow> int \<times> (bool \<times> gotime) \<times> uuid \<times> string" where
  "work_order w =
     (- priority_order (wk_PendingPriority w), nulls_last (wk_PendingFirstSeenAt w),
      wk_RootID w, wk_ScopeKey w)"

text \<open>The first row of an ordered selection, read back by its key.\<close>

definition first_row ::
  "(DirtyScopeWork \<Rightarrow> 'k::linorder) \<Rightarrow> (DirtyScopeWork \<Rightarrow> bool) \<Rightarrow> db \<Rightarrow> store_error + DirtyScopeWork option" where
  "first_row key cond d =
     (case sort_by (\<lambda>a b. key a < key b) (filter cond (db_works d)) of
        [] \<Rightarrow> Inr None
      | w # _ \<Rightarrow> and_then (scanWork w) (\<lambda>out. Inr (Some out)))"

definition NextEligiblePendingWork :: "db \<Rightarrow> gotime \<Rightarrow> store_error + DirtyScopeWork option" where
  "NextEligiblePendingWork d now = first_row work_order (eligible d now) d"

definition mirror_root :: "db \<Rightarrow> uuid \<Rightarrow> string \<Rightarrow> bool" where
  "mirror_root d rid key \<longleftrightarrow>
     list_ex (\<lambda>sw. sw_RootID sw = rid \<and> sw_ScopeKey sw = key \<and> sw_WatchState sw \<in> {WatchHot, WatchWarm} \<and>
       sw_CadenceClass sw = ''SOURCE_MIRROR'' \<and> WatchSourceOperatorPolicy \<in> set (sw_SourceSet sw))
       (db_watches d) \<and>
     list_ex (\<lambda>ac. ac_RootID ac = rid \<and> (ac_CollectorKind ac = ''alist'' \<or> ac_CollectorKind ac = ''openlist'') \<and>
       (case ac_Settings ac of
          None \<Rightarrow> False
        | Some s \<Rightarrow> ms_Mirror s \<and> (ms_Topology s \<noteq> [] \<or>
            (ms_TopologyUsername s \<noteq> [] \<and> ms_TopologyPassword s \<noteq> []))))
       (db_adapters d)"

definition due_retry :: "db \<Rightarrow> gotime \<Rightarrow> DirtyScopeWork \<Rightarrow> bool" where
  "due_retry d now w \<longleftrightarrow>
     active_root d (wk_RootID w) \<and> wk_WorkState w = WorkRetryWait \<and>
     (case wk_PendingNotBefore w of None \<Rightarrow> False | Some t \<Rightarrow> t \<le> now) \<and>
     (wk_LastErrorClass w \<in> {Some ErrorTransientProvider, Some ErrorThrottled} \<or>
      (wk_LastErrorClass w = Some ErrorInternal \<and> wk_ScopeKey w = ''/'' \<and>
       1 \<le> wk_ConsecutiveFailures w \<and> wk_ConsecutiveFailures w \<le> 2 \<and>
       mirror_root d (wk_RootID w) (wk_ScopeKey w)))"

definition retry_order :: "DirtyScopeWork \<Rightarrow> (bool \<times> gotime) \<times> uuid \<times> string" where
  "retry_order w = (nulls_last (wk_PendingNotBefore w), wk_RootID w, wk_ScopeKey w)"

definition ListDueRetryWork :: "db \<Rightarrow> gotime \<Rightarrow> int \<Rightarrow> store_error + DirtyScopeWork list" where
  "ListDueRetryWork d now limit =
     (if limit \<le> 0 then Inr []
      else scan_all scanWork (take (nat limit)
        (sort_by (\<lambda>a b. retry_order a < retry_order b) (filter (due_retry d now) (db_works d)))))"

definition ListInflightRoots :: "db \<Rightarrow> int \<Rightarrow> uuid list" where
  "ListInflightRoots d limit =
     (if limit \<le> 0 then []
      else take (nat limit) (sort_strings (remdups (map wk_RootID
        (filter (\<lambda>w. wk_WorkState w = WorkInFlight) (db_works d))))))"

end
