(* ===== verification/Mirror.thy ===== *)
theory Mirror
  imports Work
begin

text \<open>
  Completing a claim (\<open>incremental_work.go\<close>): the verified prefix is recorded and the child directories
  the scan saw are queued, under the revisit policy of a mirror root when one is given
  (\<open>mirror_revisit.go\<close>). The selections of \<open>mirror_due.go\<close> and \<open>first_discovery.go\<close> follow. The time of
  the last change of a canonical row is a column that no other operation reads; it is the argument
  \<open>changed\<close>. Adapter settings are those of a configuration object whose members have the expected types.
\<close>

section \<open>Statistics of a mirror completion\<close>

record MirrorDiscoveryStats =
  NewChildren :: nat
  ChangedChildren :: nat
  VerifiedReused :: nat
  AlreadyQueued :: nat
  UnverifiedChildren :: nat
  ProtectedChildren :: nat
  UncertainChildren :: nat
  ExplicitChildren :: nat
  WatchEnrolled :: nat
  SignalsMerged :: nat

definition no_stats :: MirrorDiscoveryStats where
  "no_stats =
     \<lparr>NewChildren = 0, ChangedChildren = 0, VerifiedReused = 0, AlreadyQueued = 0,
      UnverifiedChildren = 0, ProtectedChildren = 0, UncertainChildren = 0, ExplicitChildren = 0,
      WatchEnrolled = 0, SignalsMerged = 0\<rparr>"

section \<open>Proof that a child is a known directory\<close>

record mirrorProof =
  mp_valid :: bool
  mp_changedAt :: gotime

definition no_proof :: mirrorProof where
  "no_proof = \<lparr>mp_valid = False, mp_changedAt = zero_time\<rparr>"

definition present_at :: "db \<Rightarrow> uuid \<Rightarrow> string \<Rightarrow> CanonicalResource list" where
  "present_at d rid path =
     filter (\<lambda>r. RootID r = rid \<and> Presence r = ResourcePresent \<and> CanonicalPath r = Some path)
       (db_resources d)"

definition path_proof :: "(CanonicalResource \<Rightarrow> gotime) \<Rightarrow> CanonicalResource list \<Rightarrow> mirrorProof" where
  "path_proof changed rows =
     \<lparr>mp_valid = list_all (\<lambda>r. IsDir r = Some True \<and> EvidenceState r = RemovalEvidenceNone) rows \<and>
                 length rows = 1,
      mp_changedAt = fold max (map changed (tl rows)) (changed (hd rows))\<rparr>"

definition mirrorProofs ::
  "(CanonicalResource \<Rightarrow> gotime) \<Rightarrow> db \<Rightarrow> uuid \<Rightarrow> string \<Rightarrow> string list \<Rightarrow> (string \<times> mirrorProof) list" where
  "mirrorProofs changed d rid parent children =
     (case find_adapter d rid of
        None \<Rightarrow> []
      | Some ac \<Rightarrow>
          (case ac_Settings ac of
             None \<Rightarrow> []
           | Some s \<Rightarrow>
               if \<not> ms_Mirror s \<or> (ac_CollectorKind ac \<noteq> ''alist'' \<and> ac_CollectorKind ac \<noteq> ''openlist'') \<or>
                  ValidateScopeKey (ms_Path s) \<noteq> Inr ()
               then []
               else let prefix = trim_suffix (ms_Path s) ''/'';
                        paths = remdups ((prefix @ parent) # map ((@) prefix) children);
                        proofs = map (\<lambda>p. (trim_prefix p prefix, path_proof changed (present_at d rid p)))
                          (filter (\<lambda>p. present_at d rid p \<noteq> []) paths)
                    in if parent \<noteq> ''/'' \<and>
                          \<not> (case map_of proofs parent of None \<Rightarrow> False | Some p \<Rightarrow> mp_valid p)
                       then [] else proofs))"

section \<open>The decision for one child\<close>

definition mirrorWatchCovers :: "ScopeWatchState \<Rightarrow> gotime \<Rightarrow> duration \<Rightarrow> bool" where
  "mirrorWatchCovers w now interval =
     (if sw_WatchState w \<noteq> WatchWarm \<or> sw_CadenceClass w \<noteq> ''MIRROR_REVISIT'' \<or>
         sw_Priority w \<noteq> PriorityNormal \<or> sw_LastErrorClass w \<noteq> None \<or> sw_DeferredUntil w \<noteq> None
      then False
      else if sw_SourceSet w \<noteq> [WatchSourceBackstopEnroll] then False
      else case (sw_EffectiveIntervalSeconds w, sw_NextDueAt w) of
        (Some seconds, Some due) \<Rightarrow>
          seconds \<ge> 30 \<and> seconds \<le> 3600 \<and> seconds_duration seconds \<le> interval \<and>
          \<not> due > now + interval
      | _ \<Rightarrow> False)"

definition revisit_watch :: "uuid \<Rightarrow> string \<Rightarrow> gotime \<Rightarrow> duration \<Rightarrow> ScopeWatchState" where
  "revisit_watch rid child now interval =
     \<lparr>sw_RootID = rid, sw_ScopeKey = child, sw_WatchState = WatchWarm,
      sw_CadenceClass = ''MIRROR_REVISIT'', sw_EffectiveIntervalSeconds = Some (interval div second),
      sw_SourceSet = [WatchSourceBackstopEnroll], sw_Priority = PriorityNormal, sw_LastDueAt = None,
      sw_LastAttemptStartedAt = None, sw_LastAttemptFinishedAt = None, sw_LastSuccessAt = None,
      sw_NextDueAt = Some (now + interval), sw_ConsecutiveFailures = 0, sw_LastErrorClass = None,
      sw_DeferredUntil = None, sw_Version = 1\<rparr>"

text \<open>The watch of the child, after enrolling it when it had none, and whether it was enrolled.\<close>

definition enroll ::
  "uuid \<Rightarrow> string \<Rightarrow> gotime \<Rightarrow> duration \<Rightarrow> ScopeWatchState option \<Rightarrow> db
     \<Rightarrow> store_error + (ScopeWatchState option \<times> bool \<times> db)" where
  "enroll rid child now interval watch d =
     (case watch of
        Some w \<Rightarrow> Inr (Some w, False, d)
      | None \<Rightarrow>
          if find_watch d rid child \<noteq> None
          then and_then (lockWatchForUpdate d rid child) (\<lambda>w. Inr (w, False, d))
          else let row = revisit_watch rid child now interval
               in if find_root d rid = None \<or> \<not> watch_row_ok row then Inl ErrConstraint
                  else and_then (scanWatch row) (\<lambda>w.
                    Inr (Some w, True, d\<lparr>db_watches := db_watches d @ [row]\<rparr>)))"

definition too_deep :: "string \<Rightarrow> bool" where
  "too_deep child \<longleftrightarrow> length (split_on CHR ''/'' (trim_char CHR ''/'' child)) > 8"

text \<open>What the policy concludes from the child's work row, once its watch is known: whether to skip the
  signal, and the counter to advance.\<close>

definition child_verdict ::
  "DirtyScopeWork option \<Rightarrow> bool \<Rightarrow> mirrorProof \<Rightarrow> Priority \<Rightarrow> gotime
     \<Rightarrow> bool \<times> (MirrorDiscoveryStats \<Rightarrow> MirrorDiscoveryStats)" where
  "child_verdict work covered pf priority now =
     (case work of
        None \<Rightarrow> (False, NewChildren_update Suc)
      | Some wk \<Rightarrow>
          if \<not> covered then (False, UncertainChildren_update Suc)
          else if (case wk_LastVerifiedAt wk of None \<Rightarrow> False | Some t \<Rightarrow> t > now)
          then (False, UncertainChildren_update Suc)
          else if (case wk_LastVerifiedAt wk of None \<Rightarrow> False | Some t \<Rightarrow> mp_changedAt pf > t)
          then (False, ChangedChildren_update Suc)
          else case wk_WorkState wk of
            WorkVerified \<Rightarrow>
              if wk_LastVerifiedAt wk = None \<or>
                 (case wk_LastVerifiedSignalSeq wk of None \<Rightarrow> True | Some v \<Rightarrow> v \<le> 0 \<or> v > wk_SignalSeq wk) \<or>
                 wk_AttemptCount wk \<le> 0 \<or> wk_LastErrorClass wk \<noteq> None
              then (False, UncertainChildren_update Suc)
              else (True, VerifiedReused_update Suc)
          | WorkPending \<Rightarrow>
              if wk_LastErrorClass wk = None \<and>
                 (case wk_PendingPriority wk of None \<Rightarrow> False | Some p \<Rightarrow> MaxPriority p priority = p) \<and>
                 (case wk_PendingNotBefore wk of None \<Rightarrow> True | Some t \<Rightarrow> \<not> t > now)
              then (True, AlreadyQueued_update Suc)
              else if wk_LastVerifiedAt wk = None then (False, UnverifiedChildren_update Suc)
              else (False, ProtectedChildren_update Suc)
          | _ \<Rightarrow> (False, ProtectedChildren_update Suc))"

definition counted :: "bool \<times> (MirrorDiscoveryStats \<Rightarrow> MirrorDiscoveryStats) \<Rightarrow> MirrorDiscoveryStats
    \<Rightarrow> bool \<times> MirrorDiscoveryStats" where
  "counted v stats =
     (case v of (skip, tally) \<Rightarrow>
        (skip, if skip then tally stats else SignalsMerged_update Suc (tally stats)))"

definition mirror_child ::
  "duration \<Rightarrow> (string \<times> mirrorProof) list \<Rightarrow> uuid \<Rightarrow> string \<Rightarrow> Priority \<Rightarrow> ScopeWatchState option \<Rightarrow> gotime
     \<Rightarrow> MirrorDiscoveryStats \<Rightarrow> db \<Rightarrow> store_error + ((bool \<times> MirrorDiscoveryStats) \<times> db)" where
  "mirror_child interval proofs rid child priority watch now stats d =
     (let pf = (case map_of proofs child of None \<Rightarrow> no_proof | Some p \<Rightarrow> p)
      in if priority \<noteq> PriorityNormal then Inr (counted (False, ExplicitChildren_update Suc) stats, d)
         else if \<not> mp_valid pf \<or> mp_changedAt pf > now \<or> too_deep child
         then Inr (counted (False, UncertainChildren_update Suc) stats, d)
         else and_then (enroll rid child now interval watch d) (\<lambda>(w, enrolled, d').
           and_then (loadWorkForUpdate d' rid child) (\<lambda>work.
             let covered = (case w of None \<Rightarrow> False | Some w \<Rightarrow> mirrorWatchCovers w now interval);
                 stats' = (if enrolled then WatchEnrolled_update Suc stats else stats)
             in Inr (counted (child_verdict work covered pf priority now) stats', d'))))"

section \<open>Completing a claim\<close>

definition child_signal :: "uuid \<Rightarrow> string \<Rightarrow> Priority \<Rightarrow> gotime \<Rightarrow> DirtySignal" where
  "child_signal rid child priority now =
     \<lparr>ds_RootID = rid, ds_ScopeKey = child, ds_Source = SourceRecovery, ds_Reason = ReasonPossibleChange,
      ds_Priority = priority, ds_NotBefore = None, ds_SeenAt = now\<rparr>"

definition child_priority :: "string \<Rightarrow> string \<Rightarrow> Priority" where
  "child_priority priorityScope child =
     (if priorityScope \<noteq> [] \<and> priorityScope \<noteq> ''/'' \<and>
         (child = priorityScope \<or> has_prefix child (priorityScope @ ''/''))
      then PriorityHigh else PriorityNormal)"

fun queue_children ::
  "(duration \<times> (string \<times> mirrorProof) list) option \<Rightarrow> uuid \<Rightarrow> string \<Rightarrow> gotime \<Rightarrow> string list
     \<Rightarrow> MirrorDiscoveryStats \<Rightarrow> db \<Rightarrow> store_error + MirrorDiscoveryStats \<times> db" where
  "queue_children policy rid priorityScope now [] stats d = Inr (stats, d)"
| "queue_children policy rid priorityScope now (child # rest) stats d =
     and_then (lockWatchForUpdate d rid child) (\<lambda>watch.
     and_then (case policy of
                 None \<Rightarrow> Inr ((False, stats), d)
               | Some (interval, proofs) \<Rightarrow>
                   mirror_child interval proofs rid child (child_priority priorityScope child) watch now stats d)
       (\<lambda>((skip, stats'), d1).
         if skip then queue_children policy rid priorityScope now rest stats' d1
         else and_then (mergeSignalTx (child_signal rid child (child_priority priorityScope child) now) True d1)
           (\<lambda>(_, d2). queue_children policy rid priorityScope now rest stats' d2)))"

definition completed_row :: "int \<Rightarrow> gotime \<Rightarrow> DirtyScopeWork \<Rightarrow> DirtyScopeWork" where
  "completed_row claimedSignalSeq now wk =
     releaseClaim (wk\<lparr>wk_LastAttemptFinishedAt := Some now, wk_LastVerifiedAt := Some now,
       wk_LastVerifiedSignalSeq := Some claimedSignalSeq, wk_ConsecutiveFailures := 0,
       wk_LastErrorClass := None,
       wk_WorkState := (if wk_PendingSourceSet wk \<noteq> [] then WorkPending else WorkVerified)\<rparr>)"

definition direct_child :: "string \<Rightarrow> string \<Rightarrow> bool" where
  "direct_child key child \<longleftrightarrow>
     ValidateScopeKey child = Inr () \<and> path_dir child = key \<and> child \<noteq> key"

definition completeDiscovery ::
  "(duration \<times> (CanonicalResource \<Rightarrow> gotime)) option \<Rightarrow> uuid \<Rightarrow> string \<Rightarrow> int \<Rightarrow> string list \<Rightarrow> string
     \<Rightarrow> gotime \<Rightarrow> db \<Rightarrow> store_error + (DirtyScopeWork \<times> MirrorDiscoveryStats) \<times> db" where
  "completeDiscovery policy rid key claimedSignalSeq children priorityScope now d =
     and_then (if priorityScope \<noteq> [] then state_err (ValidateScopeKey priorityScope) else Inr ()) (\<lambda>_.
     and_then (state_err (ValidateScopeKey key)) (\<lambda>_.
       if length children > 1000 then Inl (ErrRefused ''discovery: too many children'')
       else if \<not> list_all (direct_child key) children
       then Inl (ErrRefused ''discovery: invalid direct child'')
       else and_then (lockRootForUpdate d rid) (\<lambda>lifecycle.
         if children \<noteq> [] \<and> \<not> activeFromLifecycle lifecycle
         then Inl (ErrRefused ''discovery: root is not active'')
         else and_then (lockWatchForUpdate d rid key) (\<lambda>_.
           and_then (found_work d rid key) (\<lambda>wk.
             if \<not> owns wk claimedSignalSeq then Inl ErrStaleClaim
             else and_then (queue_children
                 (case policy of
                    None \<Rightarrow> None
                  | Some (interval, changed) \<Rightarrow> Some (interval, mirrorProofs changed d rid key children))
                 rid priorityScope now children no_stats d) (\<lambda>(stats, d1).
               and_then (if ContainsTriggerSource (set_of (wk_ClaimedSourceSet wk)) SourcePollSchedule
                         then watchRecordSuccess rid key now d1 else Inr d1) (\<lambda>d2.
               and_then (writeWork (completed_row claimedSignalSeq now wk) d2) (\<lambda>(out, d3).
                 Inr ((out, stats), d3)))))))))"

definition CompleteSuccessWithPrioritizedChildren ::
  "uuid \<Rightarrow> string \<Rightarrow> int \<Rightarrow> string list \<Rightarrow> string \<Rightarrow> gotime \<Rightarrow> db \<Rightarrow> store_error + DirtyScopeWork \<times> db" where
  "CompleteSuccessWithPrioritizedChildren rid key claimedSignalSeq children priorityScope now d =
     map_sum id (\<lambda>((out, _), d'). (out, d'))
       (completeDiscovery None rid key claimedSignalSeq children priorityScope now d)"

definition CompleteSuccessWithChildren ::
  "uuid \<Rightarrow> string \<Rightarrow> int \<Rightarrow> string list \<Rightarrow> gotime \<Rightarrow> db \<Rightarrow> store_error + DirtyScopeWork \<times> db" where
  "CompleteSuccessWithChildren rid key claimedSignalSeq children now d =
     CompleteSuccessWithPrioritizedChildren rid key claimedSignalSeq children [] now d"

definition CompleteSuccess ::
  "uuid \<Rightarrow> string \<Rightarrow> int \<Rightarrow> gotime \<Rightarrow> db \<Rightarrow> store_error + DirtyScopeWork \<times> db" where
  "CompleteSuccess rid key claimedSignalSeq now d =
     CompleteSuccessWithChildren rid key claimedSignalSeq [] now d"

definition CompleteSuccessWithMirrorChildren ::
  "(CanonicalResource \<Rightarrow> gotime) \<Rightarrow> uuid \<Rightarrow> string \<Rightarrow> int \<Rightarrow> string list \<Rightarrow> string \<Rightarrow> gotime \<Rightarrow> duration \<Rightarrow> db
     \<Rightarrow> store_error + (DirtyScopeWork \<times> MirrorDiscoveryStats) \<times> db" where
  "CompleteSuccessWithMirrorChildren changed rid key claimedSignalSeq children priorityScope now interval d =
     (if ValidateMirrorRevisit interval \<noteq> Inr () \<or> interval = 0
      then Inl (ErrRefused ''mirror completion requires a valid positive revisit interval'')
      else completeDiscovery (Some (interval, changed)) rid key claimedSignalSeq children priorityScope now d)"

section \<open>Due watches of mirror roots\<close>

definition managed :: "ScopeWatchState \<Rightarrow> bool" where
  "managed w \<longleftrightarrow>
     sw_WatchState w = WatchWarm \<and> sw_CadenceClass w = ''MIRROR_REVISIT'' \<and>
     sw_SourceSet w = [WatchSourceBackstopEnroll]"

text \<open>The cohort in due order, cut at the limit, with the first slot marked.\<close>

definition cohort :: "int \<Rightarrow> int \<Rightarrow> ScopeWatchState list \<Rightarrow> (int \<times> ScopeWatchState) list" where
  "cohort limit slot ws =
     (case take (nat limit) (sort_by (\<lambda>a b. due_key a < due_key b) ws) of
        [] \<Rightarrow> []
      | w # rest \<Rightarrow> (slot, w) # map (Pair 2) rest)"

definition ListDueWatchesWithMirrorFairness ::
  "db \<Rightarrow> gotime \<Rightarrow> int \<Rightarrow> store_error + ScopeWatchState list" where
  "ListDueWatchesWithMirrorFairness d now limit =
     (if limit < 3 \<or> limit > 6 then Inl (ErrRefused ''mirror due selection requires 3..6 candidates'')
      else let due = filter (watch_due d now) (db_watches d);
               ranked = cohort limit 0 (filter (\<lambda>w. \<not> managed w) due) @ cohort limit 1 (filter managed due)
           in scan_all scanWatch (take (nat limit)
                (map snd (sort_by (\<lambda>a b. (fst a, due_key (snd a)) < (fst b, due_key (snd b))) ranked))))"

section \<open>First discoveries and aged work\<close>

definition first_seen_order :: "DirtyScopeWork \<Rightarrow> (bool \<times> gotime) \<times> uuid \<times> string" where
  "first_seen_order w = (nulls_last (wk_PendingFirstSeenAt w), wk_RootID w, wk_ScopeKey w)"

text \<open>\<open>regexp_replace(k, '/[^/]+$', '')\<close>, with the empty result read as the root scope.\<close>

definition parent_scope :: "string \<Rightarrow> string" where
  "parent_scope k =
     (let seg = length (takeWhile (\<lambda>c. c \<noteq> CHR ''/'') (rev k));
          up = (if 0 < seg \<and> seg < length k then take (length k - seg - 1) k else k)
      in if up = [] then ''/'' else up)"

definition source_path :: "string \<Rightarrow> string \<Rightarrow> string" where
  "source_path base key =
     (if base = ''/'' then [] else rev (dropWhile ((=) CHR ''/'') (rev base))) @ key"

definition known_directory :: "db \<Rightarrow> uuid \<Rightarrow> string \<Rightarrow> bool" where
  "known_directory d rid path =
     (case present_at d rid path of
        [c] \<Rightarrow> IsDir c = Some True \<and> EvidenceState c = RemovalEvidenceNone
      | _ \<Rightarrow> False)"

definition verified_parent :: "db \<Rightarrow> DirtyScopeWork \<Rightarrow> string \<Rightarrow> bool" where
  "verified_parent d w base =
     list_ex (\<lambda>p. wk_RootID p = wk_RootID w \<and> wk_ScopeKey p = parent_scope (wk_ScopeKey w) \<and>
       wk_LastVerifiedAt p \<noteq> None \<and> wk_WorkState p \<in> {WorkVerified, WorkPending, WorkInFlight} \<and>
       wk_LastErrorClass p = None \<and>
       (wk_ScopeKey p = ''/'' \<or> known_directory d (wk_RootID w) (source_path base (wk_ScopeKey p))))
       (db_works d)"

definition first_discovery :: "db \<Rightarrow> gotime \<Rightarrow> uuid list \<Rightarrow> DirtyScopeWork \<Rightarrow> bool" where
  "first_discovery d now excluded w \<longleftrightarrow>
     eligible d now w \<and> wk_PendingPriority w = Some PriorityNormal \<and> wk_LastVerifiedAt w = None \<and>
     wk_AttemptCount w = 0 \<and> wk_ScopeKey w \<noteq> ''/'' \<and>
     SourceRecovery \<in> set (wk_PendingSourceSet w) \<and>
     ReasonPossibleChange \<in> set (wk_PendingReasonSet w) \<and> wk_RootID w \<notin> set excluded \<and>
     \<not> too_deep (wk_ScopeKey w) \<and>
     list_ex (\<lambda>a. ac_RootID a = wk_RootID w \<and>
         (ac_CollectorKind a = ''alist'' \<or> ac_CollectorKind a = ''openlist'') \<and>
         (case ac_Path a of
            None \<Rightarrow> False
          | Some base \<Rightarrow> verified_parent d w base \<and>
              known_directory d (wk_RootID w) (source_path base (wk_ScopeKey w))))
       (db_adapters d)"

definition NextFirstDiscoveryWork ::
  "db \<Rightarrow> gotime \<Rightarrow> uuid list \<Rightarrow> store_error + DirtyScopeWork option" where
  "NextFirstDiscoveryWork d now excluded =
     (if length excluded > 2 then Inl (ErrRefused ''first discovery root quota exceeded'')
      else first_row first_seen_order (first_discovery d now excluded) d)"

definition aged :: "db \<Rightarrow> gotime \<Rightarrow> gotime \<Rightarrow> DirtyScopeWork \<Rightarrow> bool" where
  "aged d now before w \<longleftrightarrow>
     eligible d now w \<and> wk_PendingPriority w \<in> {Some PriorityNormal, Some PriorityLow} \<and>
     (case wk_PendingFirstSeenAt w of None \<Rightarrow> False | Some t \<Rightarrow> t \<le> before)"

definition NextAgedBackgroundWork ::
  "db \<Rightarrow> gotime \<Rightarrow> gotime \<Rightarrow> store_error + DirtyScopeWork option" where
  "NextAgedBackgroundWork d now before = first_row first_seen_order (aged d now before) d"

end
