(* ===== verification/WorkRows.thy ===== *)
theory WorkRows
  imports Mirror
begin

text \<open>
  One work row at a time: what every operation of the incremental store computes for a row satisfies the
  check constraints of the table and holds normalised sets, so that writing and reading it back never
  fails.
\<close>

section \<open>Normalised rows\<close>

lemma opt_all_iff: "opt_all P x \<longleftrightarrow> (\<forall>y. x = Some y \<longrightarrow> P y)"
  by (cases x) auto

lemma state_err_Inr [simp]: "state_err r = Inr x \<longleftrightarrow> r = Inr x"
  by (cases r) (auto simp: state_err_def)

lemma state_err_Inl: "state_err r = Inl e \<longleftrightarrow> (\<exists>s. r = Inl s \<and> e = ErrState s)"
  by (cases r) (auto simp: state_err_def)

lemma nullable_simps [simp]:
  "nullable f None = Inr None"
  "nullable f (Some ys) = Inr r \<longleftrightarrow> (\<exists>zs. f ys = Inr zs \<and> r = Some zs)"
  by (cases "f ys"; auto simp: nullable_def state_err_def)+

lemma normal_sources:
  assumes "NormalizeTriggerSources xs = Inr ys"
  shows "set ys = set xs" "sources_ok ys" "NormalizeTriggerSources ys = Inr ys"
proof -
  note n = trigger_sources.normalize_ok [OF assms [unfolded NormalizeTriggerSources_def]]
  show "set ys = set xs" "sources_ok ys" using n(1,3) by (simp_all add: sources_ok_def)
  obtain zs where "normalize_set ValidateTriggerSource trigger_source_str ys = Inr zs"
    using trigger_sources.normalize_total [OF n(3)] by blast
  with trigger_sources.normalize_unique [OF this assms [unfolded NormalizeTriggerSources_def]] n(1)
  show "NormalizeTriggerSources ys = Inr ys" by (simp add: NormalizeTriggerSources_def)
qed

lemma normal_reasons:
  assumes "NormalizeTriggerReasons xs = Inr ys"
  shows "set ys = set xs" "reasons_ok ys" "NormalizeTriggerReasons ys = Inr ys"
proof -
  note n = trigger_reasons.normalize_ok [OF assms [unfolded NormalizeTriggerReasons_def]]
  show "set ys = set xs" "reasons_ok ys" using n(1,3) by (simp_all add: reasons_ok_def)
  obtain zs where "normalize_set ValidateTriggerReason trigger_reason_str ys = Inr zs"
    using trigger_reasons.normalize_total [OF n(3)] by blast
  with trigger_reasons.normalize_unique [OF this assms [unfolded NormalizeTriggerReasons_def]] n(1)
  show "NormalizeTriggerReasons ys = Inr ys" by (simp add: NormalizeTriggerReasons_def)
qed

lemma sources_total: "sources_ok xs \<Longrightarrow> \<exists>ys. NormalizeTriggerSources xs = Inr ys"
  using trigger_sources.normalize_total by (simp add: NormalizeTriggerSources_def sources_ok_def)

lemma reasons_total: "reasons_ok xs \<Longrightarrow> \<exists>ys. NormalizeTriggerReasons xs = Inr ys"
  using trigger_reasons.normalize_total by (simp add: NormalizeTriggerReasons_def reasons_ok_def)

lemma normal_singletons:
  "ValidateTriggerSource s = Inr () \<Longrightarrow> NormalizeTriggerSources [s] = Inr [s]"
  "ValidateTriggerReason r = Inr () \<Longrightarrow> NormalizeTriggerReasons [r] = Inr [r]"
  "NormalizeTriggerSources [] = Inr []" "NormalizeTriggerReasons [] = Inr []"
  by (simp_all add: NormalizeTriggerSources_def NormalizeTriggerReasons_def normalize_set_def
      del: valid_enum_simps)

definition normal :: "DirtyScopeWork \<Rightarrow> bool" where
  "normal w \<longleftrightarrow> scanWork w = Inr w"

lemma normal_iff:
  "normal w \<longleftrightarrow>
     NormalizeTriggerSources (wk_PendingSourceSet w) = Inr (wk_PendingSourceSet w) \<and>
     NormalizeTriggerReasons (wk_PendingReasonSet w) = Inr (wk_PendingReasonSet w) \<and>
     (\<forall>ss. wk_ClaimedSourceSet w = Some ss \<longrightarrow> NormalizeTriggerSources ss = Inr ss) \<and>
     (\<forall>rs. wk_ClaimedReasonSet w = Some rs \<longrightarrow> NormalizeTriggerReasons rs = Inr rs)"
  by (cases "wk_ClaimedSourceSet w"; cases "wk_ClaimedReasonSet w"; cases w)
     (auto simp: normal_def scanWork_def)

text \<open>A verified item was verified at its latest signal; a claim with nothing waiting behind it is at the
  latest signal.\<close>

definition covered :: "DirtyScopeWork \<Rightarrow> bool" where
  "covered w \<longleftrightarrow>
     (wk_WorkState w = WorkVerified \<longrightarrow> wk_LastVerifiedSignalSeq w = Some (wk_SignalSeq w)) \<and>
     (wk_WorkState w = WorkInFlight \<and> wk_PendingSourceSet w = [] \<longrightarrow>
        wk_ClaimedSignalSeq w = Some (wk_SignalSeq w))"

definition row_ok :: "DirtyScopeWork \<Rightarrow> bool" where
  "row_ok w \<longleftrightarrow> work_row_ok w \<and> normal w \<and> covered w"

lemma row_ok_scan: "row_ok w \<Longrightarrow> scanWork w = Inr w"
  by (simp add: row_ok_def normal_def)

lemma row_okD: "row_ok w \<Longrightarrow> work_row_ok w"
  by (simp add: row_ok_def)

lemmas work_constraints = work_row_ok_def c_dsw_claim_group_def c_dsw_pending_def c_dsw_state_shape_def

lemma work_row_ok_version:
  "1 \<le> v \<Longrightarrow> 1 \<le> wk_Version w \<Longrightarrow> work_row_ok (w\<lparr>wk_Version := v\<rparr>) \<longleftrightarrow> work_row_ok w"
  by (simp add: work_constraints)

lemma row_ok_pos: "row_ok w \<Longrightarrow> 1 \<le> wk_Version w"
  by (simp add: row_ok_def work_row_ok_def)

lemma row_ok_version: "row_ok w \<Longrightarrow> 1 \<le> v \<Longrightarrow> row_ok (w\<lparr>wk_Version := v\<rparr>)"
  using row_ok_pos [of w] by (simp add: row_ok_def normal_iff work_row_ok_version covered_def)

lemma row_ok_sets:
  assumes "row_ok w"
  shows "sources_ok (wk_PendingSourceSet w)" "reasons_ok (wk_PendingReasonSet w)"
    "sources_ok (set_of (wk_ClaimedSourceSet w))" "reasons_ok (set_of (wk_ClaimedReasonSet w))"
  using assms
  by (auto simp: row_ok_def work_row_ok_def set_of_def sources_ok_def reasons_ok_def opt_all_iff
      split: option.splits)

section \<open>Merging\<close>

lemma unions_total:
  assumes "sources_ok xs" "sources_ok ys"
  obtains zs where "UnionTriggerSources xs ys = Inr zs" "set zs = set xs \<union> set ys" "sources_ok zs"
    "NormalizeTriggerSources zs = Inr zs"
proof -
  have "sources_ok (xs @ ys)" using assms by (simp add: sources_ok_def)
  then obtain zs where "NormalizeTriggerSources (xs @ ys) = Inr zs" using sources_total by blast
  with normal_sources [OF this] that show ?thesis by (simp add: UnionTriggerSources_def)
qed

lemma reason_unions_total:
  assumes "reasons_ok xs" "reasons_ok ys"
  obtains zs where "UnionTriggerReasons xs ys = Inr zs" "set zs = set xs \<union> set ys" "reasons_ok zs"
    "NormalizeTriggerReasons zs = Inr zs"
proof -
  have "reasons_ok (xs @ ys)" using assms by (simp add: reasons_ok_def)
  then obtain zs where "NormalizeTriggerReasons (xs @ ys) = Inr zs" using reasons_total by blast
  with normal_reasons [OF this] that show ?thesis by (simp add: UnionTriggerReasons_def)
qed

lemma mergedPriority_ok:
  "priority_ok p \<Longrightarrow> ValidatePriority q = Inr () \<Longrightarrow> priority_ok (mergedPriority p q)"
  "mergedPriority p q \<noteq> None"
  by (auto simp: priority_ok_def mergedPriority_def MaxPriority_def split: option.splits)

lemma MinTimePtr_some: "Some t \<in> set ts \<Longrightarrow> MinTimePtr ts \<noteq> None"
  by (auto simp: MinTimePtr_none_iff list_all_iff)

definition signal_ok :: "DirtySignal \<Rightarrow> bool" where
  "signal_ok sig \<longleftrightarrow> validate_signal sig = Inr ()"

lemma signal_okD:
  assumes "signal_ok sig"
  shows "ValidateScopeKey (ds_ScopeKey sig) = Inr ()" "ValidateTriggerSource (ds_Source sig) = Inr ()"
    "ValidateTriggerReason (ds_Reason sig) = Inr ()" "ValidatePriority (ds_Priority sig) = Inr ()"
  using assms by (auto simp: signal_ok_def validate_signal_def simp del: valid_enum_simps)

lemma newWork_ok:
  assumes "signal_ok sig"
  shows "row_ok ((newWorkFromSignal sig active)\<lparr>wk_Version := 1\<rparr>)"
  using signal_okD [OF assms]
  by (simp add: row_ok_def normal_iff covered_def newWorkFromSignal_def work_constraints normal_singletons
      validateWorkState_def priority_ok_def error_class_ok_def sources_ok_def reasons_ok_def
      del: valid_enum_simps)

lemma merge_pending_ok:
  assumes ok: "row_ok w" and sig: "signal_ok sig" and nonempty: "wk_WorkState w \<noteq> WorkVerified"
  obtains m srcs reasons where "merge_pending w sig = Inr m"
    "m = w\<lparr>wk_PendingSourceSet := srcs, wk_PendingReasonSet := reasons,
        wk_PendingPriority := mergedPriority (wk_PendingPriority w) (ds_Priority sig),
        wk_PendingFirstSeenAt := MinTimePtr [wk_PendingFirstSeenAt w, Some (ds_SeenAt sig)]\<rparr>"
    "set srcs = insert (ds_Source sig) (set (wk_PendingSourceSet w))"
    "set reasons = insert (ds_Reason sig) (set (wk_PendingReasonSet w))" "row_ok m"
proof -
  note w = row_okD [OF ok]
  note s = signal_okD [OF sig]
  have single: "sources_ok [ds_Source sig]" "reasons_ok [ds_Reason sig]"
    using s by (simp_all add: sources_ok_def reasons_ok_def del: valid_enum_simps)
  obtain srcs where srcs: "UnionTriggerSources (wk_PendingSourceSet w) [ds_Source sig] = Inr srcs"
      "set srcs = set (wk_PendingSourceSet w) \<union> set [ds_Source sig]" "sources_ok srcs"
      "NormalizeTriggerSources srcs = Inr srcs"
    using unions_total [OF row_ok_sets(1) [OF ok] single(1)] by blast
  obtain reasons where reasons: "UnionTriggerReasons (wk_PendingReasonSet w) [ds_Reason sig] = Inr reasons"
      "set reasons = set (wk_PendingReasonSet w) \<union> set [ds_Reason sig]" "reasons_ok reasons"
      "NormalizeTriggerReasons reasons = Inr reasons"
    using reason_unions_total [OF row_ok_sets(2) [OF ok] single(2)] by blast
  let ?m = "w\<lparr>wk_PendingSourceSet := srcs, wk_PendingReasonSet := reasons,
        wk_PendingPriority := mergedPriority (wk_PendingPriority w) (ds_Priority sig),
        wk_PendingFirstSeenAt := MinTimePtr [wk_PendingFirstSeenAt w, Some (ds_SeenAt sig)]\<rparr>"
  have nonnil: "srcs \<noteq> []" "reasons \<noteq> []" using srcs(2) reasons(2) by auto
  have pr: "priority_ok (mergedPriority (wk_PendingPriority w) (ds_Priority sig))"
    using w s(4) by (intro mergedPriority_ok) (simp_all add: work_row_ok_def)
  have t: "\<exists>t. MinTimePtr [wk_PendingFirstSeenAt w, Some (ds_SeenAt sig)] = Some t"
    using MinTimePtr_some [of "ds_SeenAt sig" "[wk_PendingFirstSeenAt w, Some (ds_SeenAt sig)]"] by auto
  have "work_row_ok ?m"
    unfolding work_row_ok_def
  proof (intro conjI)
    show "c_dsw_claim_group ?m" using w by (simp add: work_row_ok_def c_dsw_claim_group_def)
    show "c_dsw_pending ?m" using nonnil t mergedPriority_ok(2) by (auto simp: c_dsw_pending_def)
    show "c_dsw_state_shape ?m"
      using w nonempty nonnil by (auto simp: work_row_ok_def c_dsw_state_shape_def)
  qed (use w srcs(3) reasons(3) pr in \<open>simp_all add: work_row_ok_def\<close>)
  moreover have "normal ?m"
    using ok srcs(4) reasons(4) by (simp add: row_ok_def normal_iff)
  moreover have "covered ?m" using nonempty nonnil by (simp add: covered_def)
  moreover have "merge_pending w sig = Inr ?m"
    using srcs(1) reasons(1) by (simp add: merge_pending_def)
  ultimately show ?thesis using that [OF _ refl] srcs(2) reasons(2) by (simp add: row_ok_def)
qed

text \<open>A merge succeeds on every admissible row, adds exactly the signal's source, advances the signal
  sequence by one and leaves the claim alone; a verified item starts anew.\<close>

lemma applyMerge_ok:
  assumes ok: "row_ok w" and sig: "signal_ok sig"
  obtains m where "applyMerge w sig active = Inr m" "row_ok m"
    "wk_RootID m = wk_RootID w" "wk_ScopeKey m = wk_ScopeKey w" "wk_Version m = wk_Version w"
    "wk_SignalSeq m = wk_SignalSeq w + 1" "wk_ClaimedSourceSet m = wk_ClaimedSourceSet w"
    "wk_WorkState m = (if wk_WorkState w = WorkVerified then if active then WorkPending else WorkSuspended
       else wk_WorkState w)"
    "set (wk_PendingSourceSet m) = insert (ds_Source sig) (set (wk_PendingSourceSet w))"
proof (cases "wk_WorkState w = WorkVerified")
  case True
  note w = row_okD [OF ok] and s = signal_okD [OF sig]
  let ?m = "w\<lparr>wk_PendingSourceSet := [ds_Source sig], wk_PendingReasonSet := [ds_Reason sig],
    wk_PendingPriority := Some (ds_Priority sig), wk_PendingFirstSeenAt := Some (ds_SeenAt sig),
    wk_PendingNotBefore := ds_NotBefore sig, wk_WorkState := (if active then WorkPending else WorkSuspended),
    wk_SignalSeq := wk_SignalSeq w + 1, wk_LastSeenAt := ds_SeenAt sig\<rparr>"
  have "c_dsw_claim_group w" "c_dsw_state_shape w" using w by (simp_all add: work_row_ok_def)
  then have claim: "c_dsw_claim_group ?m" and none: "wk_PendingSourceSet w = []"
    using True by (simp_all add: c_dsw_claim_group_def c_dsw_state_shape_def)
  have "work_row_ok ?m"
    unfolding work_row_ok_def
  proof (intro conjI)
    show "c_dsw_claim_group ?m" by (rule claim)
    show "c_dsw_pending ?m" "c_dsw_state_shape ?m" by (simp_all add: c_dsw_pending_def c_dsw_state_shape_def)
  qed (use w s in \<open>simp_all add: work_row_ok_def validateWorkState_def sources_ok_def reasons_ok_def
      priority_ok_def opt_all_iff del: valid_enum_simps\<close>, fastforce+)
  moreover have "normal ?m" using ok s by (simp add: row_ok_def normal_iff normal_singletons del: valid_enum_simps)
  moreover have "covered ?m" by (simp add: covered_def)
  ultimately show ?thesis using that [of ?m] True none by (simp add: applyMerge_def row_ok_def)
next
  case False
  from merge_pending_ok [OF ok sig False] obtain m srcs reasons where m: "merge_pending w sig = Inr m"
    "m = w\<lparr>wk_PendingSourceSet := srcs, wk_PendingReasonSet := reasons,
        wk_PendingPriority := mergedPriority (wk_PendingPriority w) (ds_Priority sig),
        wk_PendingFirstSeenAt := MinTimePtr [wk_PendingFirstSeenAt w, Some (ds_SeenAt sig)]\<rparr>"
    "set srcs = insert (ds_Source sig) (set (wk_PendingSourceSet w))" "row_ok m" by metis
  define nb where "nb = (if wk_WorkState w = WorkPending \<or> wk_WorkState w = WorkInFlight
    then MinTimePtr [wk_PendingNotBefore w, ds_NotBefore sig] else wk_PendingNotBefore w)"
  define ls where "ls = (if ds_SeenAt sig > wk_LastSeenAt w then ds_SeenAt sig else wk_LastSeenAt w)"
  let ?m = "m\<lparr>wk_PendingNotBefore := nb, wk_SignalSeq := wk_SignalSeq w + 1, wk_LastSeenAt := ls\<rparr>"
  have states: "validateWorkState (wk_WorkState w) = Inr ()" using ok by (simp add: row_ok_def work_row_ok_def)
  have eq: "applyMerge w sig active = Inr ?m"
    using False states m(1) unfolding applyMerge_def nb_def ls_def
    by (cases "wk_WorkState w") (simp_all add: m(2) validateWorkState_def)
  have retry: "wk_WorkState w = WorkRetryWait \<Longrightarrow> nb = wk_PendingNotBefore w" by (simp add: nb_def)
  have srcs: "srcs \<noteq> []" using m(3) by auto
  have "work_row_ok ?m"
    unfolding work_row_ok_def
  proof (intro conjI)
    have "c_dsw_claim_group m" "c_dsw_pending m" "c_dsw_state_shape m"
      using m(4) by (simp_all add: row_ok_def work_row_ok_def)
    then show "c_dsw_claim_group ?m" "c_dsw_pending ?m" "c_dsw_state_shape ?m"
      using srcs by (simp_all add: m(2) c_dsw_claim_group_def c_dsw_pending_def c_dsw_state_shape_def
          cong: if_cong)
  qed (use m(4) retry in \<open>auto simp: row_ok_def work_row_ok_def m(2) opt_all_iff\<close>)
  moreover have "normal ?m" using m(4) by (simp add: row_ok_def normal_iff)
  moreover have "covered ?m" using False srcs by (simp add: covered_def m(2))
  ultimately show ?thesis using that [OF eq] m(2,3) False by (simp add: row_ok_def)
qed

section \<open>Claims\<close>

lemma work_row_shape:
  assumes "work_row_ok w"
  shows "c_dsw_claim_group w" "c_dsw_pending w" "c_dsw_state_shape w"
  using assms by (simp_all add: work_row_ok_def)

lemma claimed_ok:
  assumes ok: "row_ok w" and p: "wk_WorkState w = WorkPending"
  shows "row_ok (claimed now w)"
proof -
  note w = row_okD [OF ok]
  have src: "wk_PendingSourceSet w \<noteq> []"
    using work_row_shape(3) [OF w] p by (simp add: c_dsw_state_shape_def)
  then have pend: "wk_PendingFirstSeenAt w \<noteq> None" "wk_PendingReasonSet w \<noteq> []" "wk_PendingPriority w \<noteq> None"
    using work_row_shape(2) [OF w] by (simp_all add: c_dsw_pending_def)
  have "work_row_ok (claimed now w)"
    unfolding work_row_ok_def
  proof (intro conjI)
    show "c_dsw_claim_group (claimed now w)" using src pend by (simp add: claimed_def c_dsw_claim_group_def)
    show "c_dsw_pending (claimed now w)" "c_dsw_state_shape (claimed now w)"
      by (simp_all add: claimed_def c_dsw_pending_def c_dsw_state_shape_def)
  qed (use w in \<open>simp_all add: work_row_ok_def claimed_def validateWorkState_def priority_ok_def
      sources_ok_def reasons_ok_def\<close>)
  moreover have "normal (claimed now w)"
    using ok by (simp add: row_ok_def normal_iff claimed_def normal_singletons)
  moreover have "covered (claimed now w)" by (simp add: covered_def claimed_def)
  ultimately show ?thesis by (simp add: row_ok_def)
qed

lemma releaseClaim_fields [simp]:
  "wk_ClaimedSignalSeq (releaseClaim w) = None" "wk_ClaimedSourceSet (releaseClaim w) = None"
  "wk_ClaimedReasonSet (releaseClaim w) = None" "wk_ClaimedPriority (releaseClaim w) = None"
  "wk_ClaimedFirstSeenAt (releaseClaim w) = None" "wk_ClaimedNotBefore (releaseClaim w) = None"
  "wk_WorkState (releaseClaim w) = wk_WorkState w" "wk_SignalSeq (releaseClaim w) = wk_SignalSeq w"
  "wk_PendingSourceSet (releaseClaim w) = wk_PendingSourceSet w"
  "wk_PendingReasonSet (releaseClaim w) = wk_PendingReasonSet w"
  "wk_PendingPriority (releaseClaim w) = wk_PendingPriority w"
  "wk_PendingFirstSeenAt (releaseClaim w) = wk_PendingFirstSeenAt w"
  "wk_PendingNotBefore (releaseClaim w) = wk_PendingNotBefore w"
  "wk_AttemptCount (releaseClaim w) = wk_AttemptCount w"
  "wk_ConsecutiveFailures (releaseClaim w) = wk_ConsecutiveFailures w"
  "wk_LastErrorClass (releaseClaim w) = wk_LastErrorClass w"
  "wk_LastVerifiedSignalSeq (releaseClaim w) = wk_LastVerifiedSignalSeq w"
  "wk_Version (releaseClaim w) = wk_Version w" "wk_RootID (releaseClaim w) = wk_RootID w"
  "wk_ScopeKey (releaseClaim w) = wk_ScopeKey w"
  by (simp_all add: releaseClaim_def)

text \<open>A row without a claim whose pending bucket is complete.\<close>

lemma unclaimed_ok:
  assumes "wk_ClaimedSignalSeq w = None" "wk_ClaimedSourceSet w = None" "wk_ClaimedReasonSet w = None"
      "wk_ClaimedPriority w = None" "wk_ClaimedFirstSeenAt w = None" "wk_ClaimedNotBefore w = None"
    and "wk_PendingSourceSet w \<noteq> []" "wk_PendingReasonSet w \<noteq> []" "wk_PendingPriority w \<noteq> None"
      "wk_PendingFirstSeenAt w \<noteq> None"
    and "wk_WorkState w \<in> {WorkPending, WorkRetryWait, WorkBlocked, WorkSuspended}"
      "wk_WorkState w = WorkRetryWait \<Longrightarrow> wk_PendingNotBefore w \<noteq> None"
    and "1 \<le> wk_SignalSeq w" "priority_ok (wk_PendingPriority w)" "0 \<le> wk_AttemptCount w"
      "0 \<le> wk_ConsecutiveFailures w" "error_class_ok (wk_LastErrorClass w)" "1 \<le> wk_Version w"
      "ValidateScopeKey (wk_ScopeKey w) = Inr ()"
      "opt_all (\<lambda>v. 1 \<le> v \<and> v \<le> wk_SignalSeq w) (wk_LastVerifiedSignalSeq w)"
    and "NormalizeTriggerSources (wk_PendingSourceSet w) = Inr (wk_PendingSourceSet w)"
      "NormalizeTriggerReasons (wk_PendingReasonSet w) = Inr (wk_PendingReasonSet w)"
  shows "row_ok w"
  unfolding row_ok_def
proof (intro conjI)
  show "normal w" using assms by (simp add: normal_iff)
  show "covered w" using assms(11) by (auto simp: covered_def)
  show "work_row_ok w"
    unfolding work_row_ok_def
  proof (intro conjI)
    show "c_dsw_claim_group w" using assms(1-6,11) by (auto simp: c_dsw_claim_group_def)
    show "c_dsw_pending w" using assms(7-10) by (simp add: c_dsw_pending_def)
    show "c_dsw_state_shape w" using assms(7,11) by (auto simp: c_dsw_state_shape_def)
    show "sources_ok (wk_PendingSourceSet w)" by (rule normal_sources(2) [OF assms(21)])
    show "reasons_ok (wk_PendingReasonSet w)" by (rule normal_reasons(2) [OF assms(22)])
    show "validateWorkState (wk_WorkState w) = Inr ()" using assms(11) by (auto simp: validateWorkState_def)
  qed (use assms in \<open>simp_all add: priority_ok_def\<close>)
qed

definition in_flight :: "DirtyScopeWork \<Rightarrow> bool" where
  "in_flight w \<longleftrightarrow> wk_WorkState w = WorkInFlight"

lemma restored_ok:
  assumes ok: "row_ok w" and "in_flight w"
  obtains b srcs reasons where "restored w = Inr b"
    "b = w\<lparr>wk_PendingSourceSet := srcs, wk_PendingReasonSet := reasons,
       wk_PendingPriority := mergedPriority (wk_PendingPriority w) (derefPriority (wk_ClaimedPriority w)),
       wk_PendingFirstSeenAt := MinTimePtr [wk_PendingFirstSeenAt w, wk_ClaimedFirstSeenAt w,
         wk_LastAttemptStartedAt w]\<rparr>"
    "set srcs = set (set_of (wk_ClaimedSourceSet w)) \<union> set (wk_PendingSourceSet w)"
    "srcs \<noteq> []" "reasons \<noteq> []" "wk_PendingFirstSeenAt b \<noteq> None" "priority_ok (wk_PendingPriority b)"
    "NormalizeTriggerSources srcs = Inr srcs" "NormalizeTriggerReasons reasons = Inr reasons"
proof -
  note w = row_okD [OF ok]
  have claim: "set_of (wk_ClaimedSourceSet w) \<noteq> []" "set_of (wk_ClaimedReasonSet w) \<noteq> []"
      "\<exists>t. wk_ClaimedFirstSeenAt w = Some t" "\<exists>p. wk_ClaimedPriority w = Some p"
    using work_row_shape(1) [OF w] assms(2)
    by (auto simp: c_dsw_claim_group_def in_flight_def set_of_def split: option.splits)
  obtain srcs where srcs: "UnionTriggerSources (set_of (wk_ClaimedSourceSet w)) (wk_PendingSourceSet w) = Inr srcs"
      "set srcs = set (set_of (wk_ClaimedSourceSet w)) \<union> set (wk_PendingSourceSet w)"
      "NormalizeTriggerSources srcs = Inr srcs"
    using unions_total [OF row_ok_sets(3) [OF ok] row_ok_sets(1) [OF ok]] by blast
  obtain reasons where reasons:
      "UnionTriggerReasons (set_of (wk_ClaimedReasonSet w)) (wk_PendingReasonSet w) = Inr reasons"
      "set reasons = set (set_of (wk_ClaimedReasonSet w)) \<union> set (wk_PendingReasonSet w)"
      "NormalizeTriggerReasons reasons = Inr reasons"
    using reason_unions_total [OF row_ok_sets(4) [OF ok] row_ok_sets(2) [OF ok]] by blast
  have "priority_ok (mergedPriority (wk_PendingPriority w) (derefPriority (wk_ClaimedPriority w)))"
    using w claim(4) by (intro mergedPriority_ok) (auto simp: work_row_ok_def derefPriority_def priority_ok_def)
  moreover have "srcs \<noteq> []" "reasons \<noteq> []" using claim srcs(2) reasons(2) by auto
  moreover have "MinTimePtr [wk_PendingFirstSeenAt w, wk_ClaimedFirstSeenAt w, wk_LastAttemptStartedAt w] \<noteq> None"
    unfolding MinTimePtr_none_iff using claim(3) by auto
  ultimately show ?thesis
    using that [OF _ refl srcs(2) _ _ _ _ srcs(3) reasons(3)] srcs(1) reasons(1)
    by (simp add: restored_def)
qed

lemma failed_ok:
  assumes ok: "row_ok w" and fl: "in_flight w" and cls: "ValidateErrorClass cls = Inr ()"
    and retry: "TargetWorkState cls = WorkRetryWait \<Longrightarrow> rnb \<noteq> None"
  obtains b where "restored w = Inr b" "row_ok (failed_row cls rnb now b)"
    "wk_RootID b = wk_RootID w" "wk_ScopeKey b = wk_ScopeKey w"
    "set (wk_PendingSourceSet b) = set (set_of (wk_ClaimedSourceSet w)) \<union> set (wk_PendingSourceSet w)"
    "wk_SignalSeq b = wk_SignalSeq w" "wk_PendingNotBefore b = wk_PendingNotBefore w"
proof -
  note w = row_okD [OF ok]
  from restored_ok [OF ok fl] obtain b srcs reasons where b: "restored w = Inr b"
    "b = w\<lparr>wk_PendingSourceSet := srcs, wk_PendingReasonSet := reasons,
       wk_PendingPriority := mergedPriority (wk_PendingPriority w) (derefPriority (wk_ClaimedPriority w)),
       wk_PendingFirstSeenAt := MinTimePtr [wk_PendingFirstSeenAt w, wk_ClaimedFirstSeenAt w,
         wk_LastAttemptStartedAt w]\<rparr>"
    "set srcs = set (set_of (wk_ClaimedSourceSet w)) \<union> set (wk_PendingSourceSet w)"
    "srcs \<noteq> []" "reasons \<noteq> []" "wk_PendingFirstSeenAt b \<noteq> None" "priority_ok (wk_PendingPriority b)"
    "NormalizeTriggerSources srcs = Inr srcs" "NormalizeTriggerReasons reasons = Inr reasons" by metis
  have target: "TargetWorkState cls \<in> {WorkRetryWait, WorkBlocked, WorkSuspended}" by (cases cls) simp_all
  have nb: "TargetWorkState cls = WorkRetryWait \<Longrightarrow> MaxTimePtr [wk_PendingNotBefore b, rnb] \<noteq> None"
    using retry by (cases "wk_PendingNotBefore b") auto
  have "row_ok (failed_row cls rnb now b)"
    by (rule unclaimed_ok)
       (use b target nb mergedPriority_ok(2) w cls in
         \<open>auto simp: failed_row_def work_row_ok_def error_class_ok_def simp del: valid_enum_simps\<close>)
  then show ?thesis using that [OF b(1)] b(2,3) by simp
qed

lemma recovered_ok:
  assumes ok: "row_ok w" and fl: "in_flight w"
  obtains b where "restored w = Inr b" "row_ok (recovered_row active b)"
    "wk_RootID b = wk_RootID w" "wk_ScopeKey b = wk_ScopeKey w"
    "set (wk_PendingSourceSet b) = set (set_of (wk_ClaimedSourceSet w)) \<union> set (wk_PendingSourceSet w)"
    "wk_SignalSeq b = wk_SignalSeq w"
proof -
  note w = row_okD [OF ok]
  from restored_ok [OF ok fl] obtain b srcs reasons where b: "restored w = Inr b"
    "b = w\<lparr>wk_PendingSourceSet := srcs, wk_PendingReasonSet := reasons,
       wk_PendingPriority := mergedPriority (wk_PendingPriority w) (derefPriority (wk_ClaimedPriority w)),
       wk_PendingFirstSeenAt := MinTimePtr [wk_PendingFirstSeenAt w, wk_ClaimedFirstSeenAt w,
         wk_LastAttemptStartedAt w]\<rparr>"
    "set srcs = set (set_of (wk_ClaimedSourceSet w)) \<union> set (wk_PendingSourceSet w)"
    "srcs \<noteq> []" "reasons \<noteq> []" "wk_PendingFirstSeenAt b \<noteq> None" "priority_ok (wk_PendingPriority b)"
    "NormalizeTriggerSources srcs = Inr srcs" "NormalizeTriggerReasons reasons = Inr reasons" by metis
  have "row_ok (recovered_row active b)"
    by (rule unclaimed_ok)
       (use b mergedPriority_ok(2) w in \<open>auto simp: recovered_row_def work_row_ok_def split: if_splits\<close>)
  then show ?thesis using that [OF b(1)] b(2,3) by simp
qed

lemma completed_ok:
  assumes ok: "row_ok w" and owns: "owns w seq"
  shows "row_ok (completed_row seq now w)"
proof -
  note w = row_okD [OF ok]
  have seq: "1 \<le> seq" "seq \<le> wk_SignalSeq w" using w owns by (auto simp: work_row_ok_def owns_def)
  have "work_row_ok (completed_row seq now w)"
    unfolding work_row_ok_def
  proof (intro conjI)
    show "c_dsw_claim_group (completed_row seq now w)"
      by (simp add: completed_row_def c_dsw_claim_group_def)
    show "c_dsw_pending (completed_row seq now w)"
      using work_row_shape(2) [OF w] by (simp add: completed_row_def c_dsw_pending_def cong: if_cong)
    show "c_dsw_state_shape (completed_row seq now w)"
      by (simp add: completed_row_def c_dsw_state_shape_def)
  qed (use w seq in \<open>simp_all add: work_row_ok_def completed_row_def validateWorkState_def priority_ok_def
      error_class_ok_def\<close>)
  moreover have "normal (completed_row seq now w)"
    using ok by (simp add: row_ok_def normal_iff completed_row_def)
  moreover have "covered (completed_row seq now w)"
    using ok owns by (auto simp: covered_def completed_row_def row_ok_def owns_def)
  ultimately show ?thesis by (simp add: row_ok_def)
qed

section \<open>Changes of state alone\<close>

lemma restate_ok:
  assumes ok: "row_ok w"
    and "wk_WorkState w \<in> {WorkPending, WorkRetryWait, WorkBlocked, WorkSuspended}"
    and "st \<in> {WorkPending, WorkBlocked, WorkSuspended}"
  shows "row_ok (w\<lparr>wk_WorkState := st\<rparr>)" "row_ok (w\<lparr>wk_WorkState := st, wk_PendingNotBefore := nb\<rparr>)"
proof -
  note w = row_okD [OF ok]
  have src: "wk_PendingSourceSet w \<noteq> []"
    using work_row_shape(3) [OF w] assms(2) by (auto simp: c_dsw_state_shape_def)
  then have pend: "wk_PendingFirstSeenAt w \<noteq> None" "wk_PendingReasonSet w \<noteq> []" "wk_PendingPriority w \<noteq> None"
    using work_row_shape(2) [OF w] by (simp_all add: c_dsw_pending_def)
  have none: "wk_ClaimedSignalSeq w = None" "wk_ClaimedSourceSet w = None" "wk_ClaimedReasonSet w = None"
      "wk_ClaimedPriority w = None" "wk_ClaimedFirstSeenAt w = None" "wk_ClaimedNotBefore w = None"
    using work_row_shape(1) [OF w] assms(2) by (auto simp: c_dsw_claim_group_def)
  have n: "NormalizeTriggerSources (wk_PendingSourceSet w) = Inr (wk_PendingSourceSet w)"
      "NormalizeTriggerReasons (wk_PendingReasonSet w) = Inr (wk_PendingReasonSet w)"
    using ok by (simp_all add: row_ok_def normal_iff)
  show "row_ok (w\<lparr>wk_WorkState := st\<rparr>)" "row_ok (w\<lparr>wk_WorkState := st, wk_PendingNotBefore := nb\<rparr>)"
    by (rule unclaimed_ok; use src pend none n w assms(3) in \<open>auto simp: work_row_ok_def\<close>)+
qed

end
