(* ===== verification/WorkStore.thy ===== *)
theory WorkStore
  imports WorkRows
begin

text \<open>
  The contract of the operations on the incremental tables. A work item is specified by its state, its
  signal sequence, the sources waiting and the sources of the running claim; every operation keeps the
  rows admissible, never trips a constraint, moves the specified items along the steps of the
  specification, and changes a row only together with its version.
\<close>

section \<open>Specification\<close>

record item =
  it_state :: WorkState
  it_seq :: int
  it_pending :: "TriggerSource set"
  it_running :: "TriggerSource set option"

type_synonym items = "uuid \<times> string \<Rightarrow> item option"

inductive astep :: "items \<Rightarrow> items \<Rightarrow> bool" where
  a_new: "m k = None \<Longrightarrow> st = WorkPending \<or> st = WorkSuspended \<Longrightarrow>
    astep m (m(k \<mapsto> \<lparr>it_state = st, it_seq = 1, it_pending = {src}, it_running = None\<rparr>))"
| a_signal: "m k = Some i \<Longrightarrow>
    st = it_state i \<or> (it_state i = WorkVerified \<and> (st = WorkPending \<or> st = WorkSuspended)) \<Longrightarrow>
    it_state i = WorkVerified \<longrightarrow> st \<noteq> WorkVerified \<Longrightarrow>
    astep m (m(k \<mapsto> i\<lparr>it_state := st, it_seq := it_seq i + 1, it_pending := insert src (it_pending i)\<rparr>))"
| a_claim: "m k = Some i \<Longrightarrow> it_state i = WorkPending \<Longrightarrow> it_running i = None \<Longrightarrow>
    astep m (m(k \<mapsto> i\<lparr>it_state := WorkInFlight, it_pending := {}, it_running := Some (it_pending i)\<rparr>))"
| a_verify: "m k = Some i \<Longrightarrow> it_running i = Some r \<Longrightarrow>
    astep m (m(k \<mapsto> i\<lparr>it_state := (if it_pending i = {} then WorkVerified else WorkPending),
      it_running := None\<rparr>))"
| a_giveback: "m k = Some i \<Longrightarrow> it_running i = Some r \<Longrightarrow>
    st \<in> {WorkPending, WorkRetryWait, WorkBlocked, WorkSuspended} \<Longrightarrow>
    astep m (m(k \<mapsto> i\<lparr>it_state := st, it_pending := r \<union> it_pending i, it_running := None\<rparr>))"
| a_move: "m k = Some i \<Longrightarrow>
    (it_state i, st) \<in> {(WorkPending, WorkPending), (WorkPending, WorkSuspended),
      (WorkRetryWait, WorkPending), (WorkBlocked, WorkPending), (WorkSuspended, WorkPending)} \<Longrightarrow>
    astep m (m(k \<mapsto> i\<lparr>it_state := st\<rparr>))"

definition abs_work :: "DirtyScopeWork \<Rightarrow> item" where
  "abs_work w =
     \<lparr>it_state = wk_WorkState w, it_seq = wk_SignalSeq w, it_pending = set (wk_PendingSourceSet w),
      it_running = map_option set (wk_ClaimedSourceSet w)\<rparr>"

definition abs_db :: "db \<Rightarrow> items" where
  "abs_db d = (\<lambda>(rid, key). map_option abs_work (find_work d rid key))"

section \<open>Admissible tables\<close>

definition watch_ok :: "ScopeWatchState \<Rightarrow> bool" where
  "watch_ok w \<longleftrightarrow> watch_row_ok w \<and> scanWatch w = Inr w"

definition state_ok :: "db \<Rightarrow> bool" where
  "state_ok d \<longleftrightarrow>
     (\<forall>w\<in>set (db_works d). row_ok w \<and> find_root d (wk_RootID w) \<noteq> None) \<and>
     distinct (map (\<lambda>w. (wk_RootID w, wk_ScopeKey w)) (db_works d)) \<and>
     (\<forall>w\<in>set (db_watches d). watch_ok w) \<and>
     distinct (map (\<lambda>w. (sw_RootID w, sw_ScopeKey w)) (db_watches d))"

definition advances :: "db \<Rightarrow> db \<Rightarrow> bool" where
  "advances d d' \<longleftrightarrow>
     (\<forall>rid key w. find_work d rid key = Some w \<longrightarrow>
        (\<exists>w'. find_work d' rid key = Some w' \<and> (w' = w \<or> wk_Version w < wk_Version w')))"

definition progress :: "db \<Rightarrow> db \<Rightarrow> bool" where
  "progress d d' \<longleftrightarrow> state_ok d' \<and> astep\<^sup>*\<^sup>* (abs_db d) (abs_db d') \<and> advances d d' \<and> db_roots d' = db_roots d"

lemma advances_trans:
  assumes "advances d d1" and "advances d1 d2"
  shows "advances d d2"
  unfolding advances_def
proof (intro allI impI)
  fix rid key w
  assume "find_work d rid key = Some w"
  then obtain w1 where 1: "find_work d1 rid key = Some w1" "w1 = w \<or> wk_Version w < wk_Version w1"
    using assms(1) unfolding advances_def by blast
  then obtain w2 where "find_work d2 rid key = Some w2" "w2 = w1 \<or> wk_Version w1 < wk_Version w2"
    using assms(2) unfolding advances_def by blast
  with 1 show "\<exists>w'. find_work d2 rid key = Some w' \<and> (w' = w \<or> wk_Version w < wk_Version w')"
    by fastforce
qed

lemma progress_trans: "progress d d1 \<Longrightarrow> progress d1 d2 \<Longrightarrow> progress d d2"
  unfolding progress_def using advances_trans rtranclp_trans [of astep] by metis

lemma progress_refl: "state_ok d \<Longrightarrow> progress d d"
  by (simp add: progress_def advances_def)

section \<open>Writing a work row\<close>

definition set_row :: "DirtyScopeWork \<Rightarrow> db \<Rightarrow> db" where
  "set_row row d = d\<lparr>db_works := map (\<lambda>w. if work_key (wk_RootID row) (wk_ScopeKey row) w then row else w)
     (db_works d)\<rparr>"

lemma put_work_eq: "put_work row d = (if work_row_ok row then Inr (set_row row d) else Inl ErrConstraint)"
  by (simp add: put_work_def set_row_def)

lemma set_row_fields [simp]:
  "db_roots (set_row row d) = db_roots d" "db_watches (set_row row d) = db_watches d"
  "find_root (set_row row d) = find_root d"
  by (simp_all add: set_row_def find_root_def fun_eq_iff)

lemma find_work_Some: "find_work d rid key = Some w \<Longrightarrow> w \<in> set (db_works d) \<and> wk_RootID w = rid \<and> wk_ScopeKey w = key"
  by (auto simp: find_work_def find_Some_iff)

lemma find_work_None: "find_work d rid key = None \<longleftrightarrow> (\<forall>w\<in>set (db_works d). \<not> work_key rid key w)"
  by (auto simp: find_work_def find_None_iff work_key_def)

lemma find_set_row:
  assumes "find_work d (wk_RootID row) (wk_ScopeKey row) = Some old"
  shows "find_work (set_row row d) rid key
    = (if rid = wk_RootID row \<and> key = wk_ScopeKey row then Some row else find_work d rid key)"
proof -
  have "List.find (\<lambda>w. wk_RootID w = rid \<and> wk_ScopeKey w = key)
      (map (\<lambda>w. if work_key (wk_RootID row) (wk_ScopeKey row) w then row else w) ws)
    = (if rid = wk_RootID row \<and> key = wk_ScopeKey row
       then map_option (\<lambda>_. row) (List.find (\<lambda>w. wk_RootID w = rid \<and> wk_ScopeKey w = key) ws)
       else List.find (\<lambda>w. wk_RootID w = rid \<and> wk_ScopeKey w = key) ws)" for ws
    by (induction ws) (auto simp: work_key_def)
  then show ?thesis using assms by (simp add: find_work_def set_row_def)
qed

lemma abs_set_row:
  assumes "find_work d (wk_RootID row) (wk_ScopeKey row) = Some old"
  shows "abs_db (set_row row d) = (abs_db d)((wk_RootID row, wk_ScopeKey row) \<mapsto> abs_work row)"
  using find_set_row [OF assms] by (auto simp: abs_db_def fun_eq_iff)

lemma set_row_ok:
  assumes ok: "state_ok d" and row: "row_ok row"
    and old: "find_work d (wk_RootID row) (wk_ScopeKey row) = Some old"
  shows "state_ok (set_row row d)"
proof -
  have keys: "map (\<lambda>w. (wk_RootID w, wk_ScopeKey w)) (db_works (set_row row d))
    = map (\<lambda>w. (wk_RootID w, wk_ScopeKey w)) (db_works d)"
    by (auto simp: set_row_def work_key_def)
  have "find_root d (wk_RootID row) \<noteq> None"
    using find_work_Some [OF old] ok by (auto simp: state_ok_def)
  then have "\<forall>w\<in>set (db_works (set_row row d)). row_ok w \<and> find_root d (wk_RootID w) \<noteq> None"
    using ok row by (auto simp: set_row_def state_ok_def)
  then show ?thesis using ok keys unfolding state_ok_def by simp
qed

lemma set_row_progress:
  assumes ok: "state_ok d" and row: "row_ok row"
    and old: "find_work d (wk_RootID row) (wk_ScopeKey row) = Some old" "wk_Version old < wk_Version row"
    and step: "astep (abs_db d) ((abs_db d)((wk_RootID row, wk_ScopeKey row) \<mapsto> abs_work row))"
  shows "progress d (set_row row d)"
proof -
  have "advances d (set_row row d)"
    using old find_set_row [OF old(1)] by (auto simp: advances_def)
  then show ?thesis
    using set_row_ok [OF ok row old(1)] step abs_set_row [OF old(1)] by (auto simp: progress_def)
qed

text \<open>A write of an admissible row under the version of the stored one is accepted.\<close>

lemma writeWork_row:
  assumes row: "row_ok wk" and old: "find_work d (wk_RootID wk) (wk_ScopeKey wk) = Some old"
    and v: "1 \<le> wk_Version old"
  shows "writeWork wk d = Inr (wk\<lparr>wk_Version := wk_Version old + 1\<rparr>,
    set_row (wk\<lparr>wk_Version := wk_Version old + 1\<rparr>) d)"
proof -
  have "row_ok (wk\<lparr>wk_Version := wk_Version old + 1\<rparr>)" using row v by (intro row_ok_version) simp_all
  then show ?thesis
    using old row_ok_scan [of "wk\<lparr>wk_Version := wk_Version old + 1\<rparr>"]
    by (simp add: writeWork_def put_work_eq row_ok_def Let_def)
qed

lemma writeWork_progress:
  assumes ok: "state_ok d" and row: "row_ok wk" and old: "find_work d rid key = Some old"
    and same: "wk_RootID wk = rid" "wk_ScopeKey wk = key"
    and step: "astep (abs_db d) ((abs_db d)((rid, key) \<mapsto> abs_work wk))"
  shows "\<exists>out d'. writeWork wk d = Inr (out, d') \<and> progress d d' \<and> out = wk\<lparr>wk_Version := wk_Version old + 1\<rparr> \<and>
    d' = set_row out d"
proof -
  have v: "1 \<le> wk_Version old"
    using find_work_Some [OF old] ok row_ok_pos by (auto simp: state_ok_def)
  let ?row = "wk\<lparr>wk_Version := wk_Version old + 1\<rparr>"
  have "abs_work ?row = abs_work wk" by (simp add: abs_work_def)
  moreover have "row_ok ?row" using row v by (intro row_ok_version) simp_all
  ultimately have "progress d (set_row ?row d)"
    using set_row_progress [OF ok, of ?row old] old same step by simp
  then show ?thesis using writeWork_row [OF row _ v] old same by simp
qed

lemma loaded:
  assumes "state_ok d"
  shows "loadWorkForUpdate d rid key = Inr (find_work d rid key)"
    and "find_work d rid key = Some w \<Longrightarrow> row_ok w \<and> wk_RootID w = rid \<and> wk_ScopeKey w = key"
    and "lockWatchForUpdate d rid key = Inr (find_watch d rid key)"
proof -
  have w: "row_ok w \<and> wk_RootID w = rid \<and> wk_ScopeKey w = key" if "find_work d rid key = Some w" for w
    using find_work_Some [OF that] assms by (auto simp: state_ok_def)
  then show "find_work d rid key = Some w \<Longrightarrow> row_ok w \<and> wk_RootID w = rid \<and> wk_ScopeKey w = key" by blast
  show "loadWorkForUpdate d rid key = Inr (find_work d rid key)"
    using w row_ok_scan by (auto simp: loadWorkForUpdate_def split: option.splits)
  have "scanWatch v = Inr v" if "find_watch d rid key = Some v" for v
    using that assms by (auto simp: state_ok_def watch_ok_def find_watch_def find_Some_iff)
  then show "lockWatchForUpdate d rid key = Inr (find_watch d rid key)"
    by (auto simp: lockWatchForUpdate_def split: option.splits)
qed

section \<open>Merging\<close>

lemma mergeSignalTx_ok:
  assumes ok: "state_ok d" and sig: "signal_ok sig" and root: "find_root d (ds_RootID sig) \<noteq> None"
  shows "\<exists>out d'. mergeSignalTx sig active d = Inr (out, d') \<and> progress d d' \<and> db_watches d' = db_watches d \<and>
    (\<forall>r k. (r, k) \<noteq> (ds_RootID sig, ds_ScopeKey sig) \<longrightarrow> find_work d' r k = find_work d r k)"
proof (cases "find_work d (ds_RootID sig) (ds_ScopeKey sig)")
  case None
  let ?row = "(newWorkFromSignal sig active)\<lparr>wk_Version := 1\<rparr>"
  let ?d = "d\<lparr>db_works := db_works d @ [?row]\<rparr>"
  have row: "row_ok ?row" by (rule newWork_ok [OF sig])
  have key: "wk_RootID ?row = ds_RootID sig" "wk_ScopeKey ?row = ds_ScopeKey sig"
    by (simp_all add: newWorkFromSignal_def)
  have eq: "mergeSignalTx sig active d = Inr (?row, ?d)"
    using None root row key row_ok_scan [OF row] row_okD [OF row]
    by (simp add: mergeSignalTx_def loaded(1) [OF ok] insertWork_def Let_def)
  have find: "find_work ?d rid k = (if rid = ds_RootID sig \<and> k = ds_ScopeKey sig then Some ?row
      else find_work d rid k)" for rid k
  proof -
    have "List.find P (xs @ [x]) = (case List.find P xs of None \<Rightarrow> if P x then Some x else None | r \<Rightarrow> r)"
      for P and xs :: "DirtyScopeWork list" and x by (induction xs) auto
    then show ?thesis using None key by (auto simp: find_work_def split: option.splits)
  qed
  have "abs_db ?d = (abs_db d)((ds_RootID sig, ds_ScopeKey sig) \<mapsto> abs_work ?row)"
    using find by (auto simp: abs_db_def fun_eq_iff)
  moreover have "abs_work ?row = \<lparr>it_state = (if active then WorkPending else WorkSuspended), it_seq = 1,
      it_pending = {ds_Source sig}, it_running = None\<rparr>"
    by (simp add: abs_work_def newWorkFromSignal_def)
  ultimately have "astep (abs_db d) (abs_db ?d)"
    using a_new [of "abs_db d" "(ds_RootID sig, ds_ScopeKey sig)"] None by (simp add: abs_db_def)
  moreover have "advances d ?d" using find None by (auto simp: advances_def)
  moreover have "state_ok ?d"
    using ok row root None key
    by (auto simp: state_ok_def find_work_None work_key_def find_root_def)
  ultimately have "progress d ?d" by (auto simp: progress_def)
  with eq find show ?thesis by auto
next
  case (Some w)
  note w = loaded(2) [OF ok Some]
  from applyMerge_ok [of w sig active] w sig obtain m where m: "applyMerge w sig active = Inr m" "row_ok m"
    "wk_RootID m = wk_RootID w" "wk_ScopeKey m = wk_ScopeKey w" "wk_SignalSeq m = wk_SignalSeq w + 1"
    "wk_ClaimedSourceSet m = wk_ClaimedSourceSet w"
    "wk_WorkState m = (if wk_WorkState w = WorkVerified then if active then WorkPending else WorkSuspended
       else wk_WorkState w)"
    "set (wk_PendingSourceSet m) = insert (ds_Source sig) (set (wk_PendingSourceSet w))"
    by metis
  have "abs_work m = (abs_work w)\<lparr>it_state := wk_WorkState m, it_seq := it_seq (abs_work w) + 1,
      it_pending := insert (ds_Source sig) (it_pending (abs_work w))\<rparr>"
    using m by (simp add: abs_work_def)
  then have "astep (abs_db d) ((abs_db d)((ds_RootID sig, ds_ScopeKey sig) \<mapsto> abs_work m))"
    using a_signal [of "abs_db d" "(ds_RootID sig, ds_ScopeKey sig)" "abs_work w" "wk_WorkState m" "ds_Source sig"]
      Some m(7) by (auto simp: abs_db_def abs_work_def split: if_splits)
  from writeWork_progress [OF ok m(2) Some _ _ this] w m(3,4) obtain out d' where
    out: "writeWork m d = Inr (out, d')" "progress d d'" "out = m\<lparr>wk_Version := wk_Version w + 1\<rparr>"
      "d' = set_row out d" by auto
  have "find_work d' r k = find_work d r k" if "(r, k) \<noteq> (ds_RootID sig, ds_ScopeKey sig)" for r k
    using that find_set_row [of d out w] out(3,4) w m(3,4) Some by auto
  then show ?thesis using out m(1) Some by (simp add: mergeSignalTx_def loaded(1) [OF ok])
qed

section \<open>Watch rows\<close>

lemma find_watch_Some: "find_watch d rid key = Some w \<Longrightarrow> w \<in> set (db_watches d) \<and> sw_RootID w = rid \<and> sw_ScopeKey w = key"
  by (auto simp: find_watch_def find_Some_iff)

lemma watches_progress:
  assumes "state_ok d" and "db_works d' = db_works d" "db_roots d' = db_roots d"
    and "\<forall>w\<in>set (db_watches d'). watch_ok w"
    and "distinct (map (\<lambda>w. (sw_RootID w, sw_ScopeKey w)) (db_watches d'))"
  shows "progress d d'"
proof -
  have "find_work d' = find_work d" "find_root d' = find_root d"
    using assms(2,3) by (simp_all add: find_work_def find_root_def fun_eq_iff)
  then show ?thesis using assms by (simp add: progress_def advances_def abs_db_def state_ok_def)
qed

lemma filter_key_le_1:
  assumes "distinct (map (\<lambda>w. (sw_RootID w, sw_ScopeKey w)) ws)" and "w \<in> set ws" "watch_key rid key w"
  shows "length (filter (watch_key rid key) ws) = 1"
  using assms
proof (induction ws)
  case (Cons x ws)
  have "filter (watch_key rid key) ws = []" if "watch_key rid key x"
    using Cons.prems(1) that by (auto simp: filter_empty_conv watch_key_def image_iff)
  moreover have "w \<in> set ws" if "\<not> watch_key rid key x" using Cons.prems(2,3) that by auto
  ultimately show ?case using Cons by auto
qed simp

lemma update_watch_ok:
  assumes ok: "state_ok d"
    and f: "\<And>w. w \<in> set (db_watches d) \<Longrightarrow> watch_ok w \<Longrightarrow> watch_key rid key w \<Longrightarrow> cond w \<Longrightarrow>
      watch_ok ((f w)\<lparr>sw_Version := sw_Version w + 1\<rparr>) \<and> sw_RootID (f w) = rid \<and> sw_ScopeKey (f w) = key"
  shows "\<exists>n d'. update_watch rid key cond f d = Inr (n, d') \<and> progress d d' \<and> db_works d' = db_works d \<and>
    n = length (filter (\<lambda>w. watch_key rid key w \<and> cond w) (db_watches d))"
proof -
  let ?row = "\<lambda>w. if watch_key rid key w \<and> cond w then (f w)\<lparr>sw_Version := sw_Version w + 1\<rparr> else w"
  let ?d = "d\<lparr>db_watches := map ?row (db_watches d)\<rparr>"
  have all: "\<forall>w\<in>set (db_watches d). watch_ok w" using ok by (simp add: state_ok_def)
  then have "list_all (\<lambda>w. watch_key rid key w \<and> cond w \<longrightarrow>
      watch_row_ok ((f w)\<lparr>sw_Version := sw_Version w + 1\<rparr>)) (db_watches d)"
    using f by (auto simp: list_all_iff watch_ok_def)
  then have eq: "update_watch rid key cond f d
      = Inr (length (filter (\<lambda>w. watch_key rid key w \<and> cond w) (db_watches d)), ?d)"
    by (simp add: update_watch_def Let_def)
  have keys: "map (\<lambda>w. (sw_RootID w, sw_ScopeKey w)) (map ?row (db_watches d))
    = map (\<lambda>w. (sw_RootID w, sw_ScopeKey w)) (db_watches d)"
    using all f by (auto simp: watch_key_def)
  have "progress d ?d"
  proof (rule watches_progress [OF ok])
    show "\<forall>w\<in>set (db_watches ?d). watch_ok w" using all f by auto
    have "distinct (map (\<lambda>w. (sw_RootID w, sw_ScopeKey w)) (map ?row (db_watches d)))"
      unfolding keys using ok by (simp add: state_ok_def)
    then show "distinct (map (\<lambda>w. (sw_RootID w, sw_ScopeKey w)) (db_watches ?d))" by simp
  qed simp_all
  with eq show ?thesis by simp
qed

end
