(* ===== verification/WorkOps.thy ===== *)
theory WorkOps
  imports WorkStore
begin

text \<open>
  Every operation of the incremental store meets the contract. The contract is a locale over the call as
  its client sees it: the answer, and the database it leaves.
\<close>

section \<open>The contract\<close>

text \<open>Errors that would mean the code computed a row the table refuses, lost a row it had locked, or
  dereferenced a nil pointer.\<close>

definition internal_errors :: "store_error set" where
  "internal_errors =
     {ErrConstraint, ErrNoRows, errRetryMerge, ErrRefused ''merge signal contention'',
      ErrRefused ''panic: nil interval''}"

locale work_step =
  fixes tx :: "db \<Rightarrow> (store_error + 'r) \<times> db"
  assumes moves: "state_ok d \<Longrightarrow> progress d (snd (tx d))"
begin

lemma moved:
  "state_ok d \<Longrightarrow> state_ok (snd (tx d)) \<and> astep\<^sup>*\<^sup>* (abs_db d) (abs_db (snd (tx d))) \<and> advances d (snd (tx d))"
  using moves by (simp add: progress_def)

lemma same_version:
  assumes "state_ok d" "find_work d rid key = Some w" "find_work (snd (tx d)) rid key = Some w'"
    "wk_Version w' = wk_Version w"
  shows "w' = w"
  using moves [OF assms(1)] assms(2-4) by (fastforce simp: progress_def advances_def)

end

locale work_transaction = work_step tx for tx :: "db \<Rightarrow> (store_error + 'r) \<times> db" +
  assumes accepted: "state_ok d \<Longrightarrow> fst (tx d) = Inl e \<Longrightarrow> e \<notin> internal_errors"

definition whole :: "(db \<Rightarrow> store_error + 'r \<times> db) \<Rightarrow> db \<Rightarrow> (store_error + 'r) \<times> db" where
  "whole tx d = (case tx d of Inl e \<Rightarrow> (Inl e, d) | Inr (r, d') \<Rightarrow> (Inr r, d'))"

definition fine :: "db \<Rightarrow> store_error + 'r \<times> db \<Rightarrow> bool" where
  "fine d r = (case r of Inl e \<Rightarrow> e \<notin> internal_errors | Inr (_, d') \<Rightarrow> progress d d')"

lemma fine_simps [simp]:
  "fine d (Inl e) \<longleftrightarrow> e \<notin> internal_errors" "fine d (Inr (r, d')) \<longleftrightarrow> progress d d'"
  by (simp_all add: fine_def)

lemma fine_transaction: "(\<And>d. state_ok d \<Longrightarrow> fine d (tx d)) \<Longrightarrow> work_transaction (whole tx)"
  by unfold_locales (fastforce simp: whole_def fine_def progress_refl split: sum.splits)+

lemma fine_state_err:
  assumes "\<And>x. r = Inr x \<Longrightarrow> fine d (f x)"
  shows "fine d (and_then (state_err r) f)"
  using assms by (cases r) (auto simp: state_err_def internal_errors_def errRetryMerge_def)

lemma fine_lockRoot:
  assumes "\<And>r. find_root d rid = Some r \<Longrightarrow> fine d (f (root_LifecycleState r))"
  shows "fine d (and_then (lockRootForUpdate d rid) f)"
  using assms by (cases "find_root d rid") (auto simp: lockRootForUpdate_def internal_errors_def errRetryMerge_def)

lemma fine_found_work:
  assumes ok: "state_ok d" and "\<And>w. find_work d rid key = Some w \<Longrightarrow> fine d (f w)"
  shows "fine d (and_then (found_work d rid key) f)"
  using assms(2) by (cases "find_work d rid key")
    (auto simp: found_work_def loaded(1) [OF ok] internal_errors_def errRetryMerge_def)

lemma refused_external [simp]:
  "ErrStateCASConflict \<notin> internal_errors" "ErrStaleClaim \<notin> internal_errors" "ErrNotFound \<notin> internal_errors"
  by (simp_all add: internal_errors_def errRetryMerge_def)

lemma works_same:
  assumes "db_works d' = db_works d"
  shows "find_work d' = find_work d" "abs_db d' = abs_db d"
  using assms by (simp_all add: find_work_def abs_db_def fun_eq_iff)

lemma progress_ok: "progress d d' \<Longrightarrow> state_ok d'"
  by (simp add: progress_def)

section \<open>Signals\<close>

lemma MergeSignal_fine: "state_ok d \<Longrightarrow> fine d (MergeSignal sig d)"
proof -
  assume ok: "state_ok d"
  have attempt: "(merge_attempt sig d = Inl ErrNotFound) \<or>
      (\<exists>out d'. merge_attempt sig d = Inr (out, d') \<and> progress d d')" if sig: "signal_ok sig"
  proof (cases "find_root d (ds_RootID sig)")
    case (Some r)
    then obtain out d' where "mergeSignalTx sig (activeFromLifecycle (root_LifecycleState r)) d = Inr (out, d')"
        "progress d d'"
      using mergeSignalTx_ok [OF ok sig] by blast
    then show ?thesis using Some by (simp add: merge_attempt_def lockRootForUpdate_def loaded(3) [OF ok])
  qed (simp add: merge_attempt_def lockRootForUpdate_def)
  show ?thesis
  proof (cases "validate_signal sig")
    case (Inl e)
    then have "\<exists>s. e = ErrState s"
      by (auto simp: validate_signal_def and_then_def state_err_Inl split: sum.splits)
    then show ?thesis using Inl by (auto simp: MergeSignal_def internal_errors_def errRetryMerge_def)
  next
    case (Inr u)
    then have "signal_ok sig" by (simp add: signal_ok_def)
    from attempt [OF this] show ?thesis
      using Inr by (auto simp: MergeSignal_def errRetryMerge_def eval_nat_numeral)
  qed
qed

interpretation merge_signal: work_transaction "whole (MergeSignal sig)" for sig
  by (rule fine_transaction) (rule MergeSignal_fine)

lemmas watch_defs = watch_ok_def watch_row_ok_def scanWatch_def c_sws_schedule_def

lemma watch_normal: "watch_ok w \<Longrightarrow> NormalizeWatchSources (sw_SourceSet w) = Inr (sw_SourceSet w)"
  by (cases w) (auto simp: watch_ok_def scanWatch_def)

lemma watch_ok_update:
  assumes "watch_ok w"
  shows "watch_ok (w\<lparr>sw_LastAttemptStartedAt := Some now, sw_Version := sw_Version w + 1\<rparr>)"
    "watch_ok (w\<lparr>sw_LastAttemptFinishedAt := Some now, sw_LastSuccessAt := Some now,
       sw_ConsecutiveFailures := 0, sw_LastErrorClass := None, sw_Version := sw_Version w + 1\<rparr>)"
    "0 \<le> n \<Longrightarrow> ValidateErrorClass cls = Inr () \<Longrightarrow> watch_ok (w\<lparr>sw_LastAttemptFinishedAt := Some now,
       sw_ConsecutiveFailures := sw_ConsecutiveFailures w + n, sw_LastErrorClass := Some cls,
       sw_Version := sw_Version w + 1\<rparr>)"
    "Scheduled (sw_WatchState w) \<Longrightarrow> watch_ok (w\<lparr>sw_LastDueAt := Some now, sw_NextDueAt := Some due,
       sw_Version := sw_Version w + 1\<rparr>)"
  using assms watch_normal [OF assms]
  by (auto simp: watch_defs error_class_ok_def Scheduled_def simp del: valid_enum_simps)

lemma watch_ops:
  assumes ok: "state_ok d" and "op \<in> {watchBumpAttemptStart rid key now, watchRecordSuccess rid key now} \<or>
      (\<exists>cls p. ValidateErrorClass cls = Inr () \<and> op = watchRecordFailure rid key cls p now)"
  shows "op d = Inl ErrStateCASConflict \<or> (\<exists>d'. op d = Inr d' \<and> progress d d' \<and> db_works d' = db_works d)"
proof -
  have *: "and_then (update_watch rid key (\<lambda>_. True) f d) exactly_one = Inl ErrStateCASConflict \<or>
      (\<exists>d'. and_then (update_watch rid key (\<lambda>_. True) f d) exactly_one = Inr d' \<and> progress d d' \<and>
        db_works d' = db_works d)"
    if "\<And>w. watch_ok w \<Longrightarrow> watch_key rid key w \<Longrightarrow>
      watch_ok ((f w)\<lparr>sw_Version := sw_Version w + 1\<rparr>) \<and> sw_RootID (f w) = rid \<and> sw_ScopeKey (f w) = key" for f
    using update_watch_ok [OF ok, of rid key "\<lambda>_. True" f] that by (fastforce simp: exactly_one_def)
  from assms(2) show ?thesis
  proof (elim disjE exE conjE)
    assume "op \<in> {watchBumpAttemptStart rid key now, watchRecordSuccess rid key now}"
    then consider "op = watchBumpAttemptStart rid key now" | "op = watchRecordSuccess rid key now" by blast
    then show ?thesis
    proof cases
      case 1
      show ?thesis unfolding 1 watchBumpAttemptStart_def
        by (rule *) (use watch_ok_update(1) in \<open>auto simp: watch_key_def\<close>)
    next
      case 2
      show ?thesis unfolding 2 watchRecordSuccess_def
        by (rule *) (use watch_ok_update(2) in \<open>auto simp: watch_key_def\<close>)
    qed
  next
    fix cls p
    assume cls: "ValidateErrorClass cls = Inr ()" and op: "op = watchRecordFailure rid key cls p now"
    show ?thesis unfolding op watchRecordFailure_def
      by (rule *) (use watch_ok_update(3) [OF _ _ cls] in \<open>auto simp: watch_key_def simp del: valid_enum_simps\<close>)
  qed
qed

lemma EmitDuePoll_fine:
  assumes ok: "state_ok d"
  shows "fine d (EmitDuePoll rid key ver now d)"
  unfolding EmitDuePoll_def
proof (intro fine_state_err fine_lockRoot)
  fix u r
  assume key: "ValidateScopeKey key = Inr u" and r: "find_root d rid = Some r"
  show "fine d (if \<not> activeFromLifecycle (root_LifecycleState r)
      then Inl (ErrRefused ''emit due poll: root is not ACTIVE'')
      else and_then (getWatchForUpdate d rid key ver) (\<lambda>w.
         if \<not> Scheduled (sw_WatchState w) then Inl (ErrRefused ''emit due poll: watch is not scheduled'')
         else if (case sw_NextDueAt w of None \<Rightarrow> True | Some t \<Rightarrow> t > now)
         then Inl (ErrRefused ''emit due poll: watch is not due'')
         else if (case sw_DeferredUntil w of None \<Rightarrow> False | Some t \<Rightarrow> t > now)
         then Inl (ErrRefused ''emit due poll: watch is deferred'')
         else and_then (mergeSignalTx (poll_signal w now) True d) (\<lambda>(wk, d1).
           case sw_EffectiveIntervalSeconds w of
             None \<Rightarrow> Inl (ErrRefused ''panic: nil interval'')
           | Some n \<Rightarrow>
               and_then (update_watch rid key (\<lambda>c. sw_Version c = ver)
                   (\<lambda>c. c\<lparr>sw_LastDueAt := Some now, sw_NextDueAt := Some (now + seconds_duration n)\<rparr>) d1)
                 (\<lambda>(_, d2). Inr (wk, d2)))))"
  proof (cases "find_watch d rid key")
    case None
    then show ?thesis by (simp add: getWatchForUpdate_def internal_errors_def errRetryMerge_def)
  next
    case (Some w)
    note in_w = find_watch_Some [OF Some]
    have w: "watch_ok w" using in_w ok by (simp add: state_ok_def)
    show ?thesis
    proof (cases "sw_Version w = ver \<and> Scheduled (sw_WatchState w)")
      case True
      have "signal_ok (poll_signal w now)"
        using in_w w key by (auto simp: signal_ok_def validate_signal_def poll_signal_def watch_ok_def watch_row_ok_def)
      moreover have "find_root d (ds_RootID (poll_signal w now)) \<noteq> None"
        using in_w r by (simp add: poll_signal_def)
      ultimately obtain wk d1 where m: "mergeSignalTx (poll_signal w now) True d = Inr (wk, d1)"
          "progress d d1" "db_watches d1 = db_watches d"
        using mergeSignalTx_ok [OF ok, of "poll_signal w now" True] by blast
      obtain n where n: "sw_EffectiveIntervalSeconds w = Some n"
        using w True by (auto simp: watch_ok_def watch_row_ok_def c_sws_schedule_def Scheduled_def)
      have only: "c = w" if "c \<in> set (db_watches d)" "watch_key rid key c" for c
        using that in_w ok by (auto simp: state_ok_def watch_key_def distinct_map dest: inj_onD)
      then obtain n' d2 where u: "update_watch rid key (\<lambda>c. sw_Version c = ver)
          (\<lambda>c. c\<lparr>sw_LastDueAt := Some now, sw_NextDueAt := Some (now + seconds_duration n)\<rparr>) d1 = Inr (n', d2)"
          "progress d1 d2"
        using update_watch_ok [OF progress_ok [OF m(2)], of rid key "\<lambda>c. sw_Version c = ver"
            "\<lambda>c. c\<lparr>sw_LastDueAt := Some now, sw_NextDueAt := Some (now + seconds_duration n)\<rparr>"]
          watch_ok_update(4) [OF w] in_w True m(3) by fastforce
      show ?thesis
        using Some True w m u n progress_trans [OF m(2) u(2)]
        by (simp add: getWatchForUpdate_def watch_ok_def internal_errors_def errRetryMerge_def split: option.splits)
    qed (use Some w in \<open>auto simp: getWatchForUpdate_def watch_ok_def internal_errors_def errRetryMerge_def\<close>)
  qed
qed

interpretation emit_poll: work_transaction "whole (EmitDuePoll rid key ver now)" for rid key ver now
  by (rule fine_transaction) (rule EmitDuePoll_fine)

lemma fine_watch_then:
  assumes ok: "state_ok d"
    and "r = Inl ErrStateCASConflict \<or> (\<exists>d'. r = Inr d' \<and> progress d d' \<and> db_works d' = db_works d)"
    and g: "\<And>d1. progress d d1 \<Longrightarrow> db_works d1 = db_works d \<Longrightarrow> \<exists>out d'. g d1 = Inr (out, d') \<and> progress d d'"
  shows "fine d (and_then (if q then r else Inr d) g)"
  using assms(2)
proof (elim disjE exE conjE)
  assume "r = Inl ErrStateCASConflict"
  then show ?thesis using g [OF progress_refl [OF ok] refl] by (cases q) auto
next
  fix d'
  assume "r = Inr d'" "progress d d'" "db_works d' = db_works d"
  then show ?thesis using g [of d'] g [OF progress_refl [OF ok] refl] by (cases q) auto
qed

section \<open>Claims\<close>

lemma abs_at: "find_work d rid key = Some w \<Longrightarrow> abs_db d (rid, key) = Some (abs_work w)"
  by (simp add: abs_db_def)

lemma row_running:
  assumes "row_ok w"
  shows "wk_WorkState w = WorkInFlight \<longleftrightarrow> (\<exists>ss. wk_ClaimedSourceSet w = Some ss)"
  using work_row_shape(1) [OF row_okD [OF assms]]
  by (auto simp: c_dsw_claim_group_def split: if_splits option.splits)

lemma claim_step:
  assumes "find_work d rid key = Some w" "row_ok w" "wk_WorkState w = WorkPending"
  shows "astep (abs_db d) ((abs_db d)((rid, key) \<mapsto> abs_work (claimed now w)))"
proof -
  have "abs_work (claimed now w) = (abs_work w)\<lparr>it_state := WorkInFlight, it_pending := {},
      it_running := Some (it_pending (abs_work w))\<rparr>"
    by (simp add: abs_work_def claimed_def)
  moreover have "it_running (abs_work w) = None"
    using row_running [OF assms(2)] assms(3) by (auto simp: abs_work_def)
  moreover have "it_state (abs_work w) = WorkPending" using assms(3) by (simp add: abs_work_def)
  ultimately show ?thesis
    using a_claim [of "abs_db d" "(rid, key)" "abs_work w"] abs_at [OF assms(1)] by simp
qed

lemma claim_row_fine:
  assumes ok: "state_ok d" and w: "find_work d rid key = Some w"
  shows "fine d (claim_row rid key w now d)"
proof -
  note lw = loaded(2) [OF ok w]
  show ?thesis
  proof (cases "wk_WorkState w = WorkPending")
    case True
    have row: "row_ok (claimed now w)" using claimed_ok [of w now] lw True by blast
    have key: "wk_RootID (claimed now w) = rid" "wk_ScopeKey (claimed now w) = key"
      using lw by (simp_all add: claimed_def)
    have written: "\<exists>out d'. writeWork (claimed now w) d1 = Inr (out, d') \<and> progress d d'"
      if d1: "progress d d1" "db_works d1 = db_works d" for d1
    proof -
      have "find_work d1 rid key = Some w" using w works_same(1) [OF d1(2)] by simp
      from writeWork_progress [OF progress_ok [OF d1(1)] row this key]
        claim_step [OF this, of now] lw True obtain out d' where
        "writeWork (claimed now w) d1 = Inr (out, d')" "progress d1 d'" by blast
      with progress_trans [OF d1(1)] show ?thesis by blast
    qed
    have "watchBumpAttemptStart rid key now d = Inl ErrStateCASConflict \<or>
        (\<exists>d'. watchBumpAttemptStart rid key now d = Inr d' \<and> progress d d' \<and> db_works d' = db_works d)"
      by (rule watch_ops [OF ok]) blast
    from fine_watch_then [OF ok this written] show ?thesis using True by (simp add: claim_row_def internal_errors_def errRetryMerge_def)
  qed (simp add: claim_row_def internal_errors_def errRetryMerge_def)
qed

lemma move_step:
  assumes "find_work d rid key = Some w" "abs_work w' = (abs_work w)\<lparr>it_state := st\<rparr>"
    "(wk_WorkState w, st) \<in> {(WorkPending, WorkPending), (WorkPending, WorkSuspended),
      (WorkRetryWait, WorkPending), (WorkBlocked, WorkPending), (WorkSuspended, WorkPending)}"
  shows "astep (abs_db d) ((abs_db d)((rid, key) \<mapsto> abs_work w'))"
  using a_move [of "abs_db d" "(rid, key)" "abs_work w" st] assms abs_at [OF assms(1)]
  by (simp add: abs_work_def)

lemma ClaimWork_fine:
  assumes ok: "state_ok d"
  shows "progress d (snd (ClaimWork rid key ver now d))"
    and "fst (ClaimWork rid key ver now d) = Inl e \<Longrightarrow> e \<notin> internal_errors"
proof -
  define guard where "guard = and_then (state_err (ValidateScopeKey key)) (\<lambda>_.
           and_then (lockRootForUpdate d rid) (\<lambda>lifecycle.
           and_then (lockWatchForUpdate d rid key) (\<lambda>_.
           and_then (found_work d rid key) (\<lambda>wk.
             if wk_Version wk \<noteq> ver then Inl ErrStateCASConflict
             else Inr (activeFromLifecycle lifecycle, wk)))))"
  have "e \<notin> internal_errors" if "guard = Inl e" for e
    using that unfolding guard_def
    by (auto simp: and_then_def state_err_Inl lockRootForUpdate_def loaded [OF ok] found_work_def
        internal_errors_def errRetryMerge_def split: sum.splits option.splits if_splits)
  moreover have "find_work d rid key = Some wk" if "guard = Inr (active, wk)" for active wk
    using that unfolding guard_def
    by (auto simp: found_work_def loaded [OF ok] split: option.splits if_splits)
  moreover have "\<exists>out d'. writeWork (wk\<lparr>wk_WorkState := WorkSuspended\<rparr>) d = Inr (out, d') \<and> progress d d'"
    if w: "find_work d rid key = Some wk" and p: "wk_WorkState wk = WorkPending" for wk
  proof -
    note lw = loaded(2) [OF ok w]
    have "row_ok (wk\<lparr>wk_WorkState := WorkSuspended\<rparr>)" using restate_ok(1) [of wk WorkSuspended] lw p by simp
    moreover have "astep (abs_db d) ((abs_db d)((rid, key) \<mapsto> abs_work (wk\<lparr>wk_WorkState := WorkSuspended\<rparr>)))"
      by (rule move_step [OF w, where st = WorkSuspended]) (simp_all add: abs_work_def p)
    ultimately show ?thesis using writeWork_progress [OF ok _ w, of "wk\<lparr>wk_WorkState := WorkSuspended\<rparr>"] lw by auto
  qed
  moreover note claim_row_fine [OF ok]
  ultimately show "progress d (snd (ClaimWork rid key ver now d))"
    "fst (ClaimWork rid key ver now d) = Inl e \<Longrightarrow> e \<notin> internal_errors"
    unfolding ClaimWork_def guard_def [symmetric]
    by (fastforce simp: progress_refl [OF ok] fine_def internal_errors_def errRetryMerge_def
        split: sum.splits if_splits prod.splits)+
qed

interpretation claim_work: work_transaction "ClaimWork rid key ver now" for rid key ver now
  by unfold_locales (fact ClaimWork_fine)+

lemma giveback_step:
  assumes "find_work d rid key = Some w" "row_ok w" "in_flight w"
    and "it_state (abs_work w') \<in> {WorkPending, WorkRetryWait, WorkBlocked, WorkSuspended}"
    and "set (wk_PendingSourceSet w') = set (set_of (wk_ClaimedSourceSet w)) \<union> set (wk_PendingSourceSet w)"
    and "wk_SignalSeq w' = wk_SignalSeq w" "wk_ClaimedSourceSet w' = None"
  shows "astep (abs_db d) ((abs_db d)((rid, key) \<mapsto> abs_work w'))"
proof -
  obtain ss where ss: "wk_ClaimedSourceSet w = Some ss"
    using row_running [OF assms(2)] assms(3) by (auto simp: in_flight_def)
  have "abs_work w' = (abs_work w)\<lparr>it_state := it_state (abs_work w'), it_pending := set ss \<union> it_pending (abs_work w),
      it_running := None\<rparr>"
    using assms(5-7) ss by (simp add: abs_work_def set_of_def)
  then show ?thesis
    using a_giveback [of "abs_db d" "(rid, key)" "abs_work w" "set ss"] abs_at [OF assms(1)] assms(4) ss
    by (metis abs_work_def item.select_convs(4) option.simps(9))
qed

lemma CompleteFailure_fine:
  assumes ok: "state_ok d"
  shows "fine d (CompleteFailure rid key seq cls rnb now d)"
  unfolding CompleteFailure_def
proof (intro fine_state_err)
  fix u
  assume cls: "ValidateErrorClass cls = Inr u"
  have body: "fine d (if \<not> owns w seq then Inl ErrStaleClaim
           else and_then (restored w) (\<lambda>b.
             and_then (if ContainsTriggerSource (set_of (wk_ClaimedSourceSet w)) SourcePollSchedule
                       then watchRecordFailure rid key cls (IsProviderFailure cls) now d else Inr d)
               (writeWork (failed_row cls rnb now b))))"
    if w: "find_work d rid key = Some w" and rnb: "TargetWorkState cls = WorkRetryWait \<Longrightarrow> rnb \<noteq> None" for w
  proof (cases "owns w seq")
    case True
    note lw = loaded(2) [OF ok w]
    have fl: "in_flight w" using True by (simp add: owns_def in_flight_def)
    obtain b where b: "restored w = Inr b" "row_ok (failed_row cls rnb now b)"
        "wk_RootID b = wk_RootID w" "wk_ScopeKey b = wk_ScopeKey w"
        "set (wk_PendingSourceSet b) = set (set_of (wk_ClaimedSourceSet w)) \<union> set (wk_PendingSourceSet w)"
        "wk_SignalSeq b = wk_SignalSeq w"
      using failed_ok [OF _ fl, of cls rnb now] lw cls rnb by (metis old.unit.exhaust)
    have st: "it_state (abs_work (failed_row cls rnb now b)) \<in> {WorkPending, WorkRetryWait, WorkBlocked, WorkSuspended}"
      by (cases cls) (simp_all add: abs_work_def failed_row_def)
    have key: "wk_RootID (failed_row cls rnb now b) = rid" "wk_ScopeKey (failed_row cls rnb now b) = key"
      using b(3,4) lw by (simp_all add: failed_row_def)
    have written: "\<exists>out d'. writeWork (failed_row cls rnb now b) d1 = Inr (out, d') \<and> progress d d'"
      if d1: "progress d d1" "db_works d1 = db_works d" for d1
    proof -
      have w1: "find_work d1 rid key = Some w" using w works_same(1) [OF d1(2)] by simp
      have "astep (abs_db d1) ((abs_db d1)((rid, key) \<mapsto> abs_work (failed_row cls rnb now b)))"
        by (rule giveback_step [OF w1 _ fl st]) (use lw b in \<open>simp_all add: failed_row_def\<close>)
      from writeWork_progress [OF progress_ok [OF d1(1)] b(2) w1 key this] progress_trans [OF d1(1)]
      show ?thesis by blast
    qed
    have "watchRecordFailure rid key cls p now d = Inl ErrStateCASConflict \<or>
        (\<exists>d'. watchRecordFailure rid key cls p now d = Inr d' \<and> progress d d' \<and> db_works d' = db_works d)" for p
      by (rule watch_ops [OF ok]) (use cls in \<open>auto simp del: valid_enum_simps\<close>)
    from fine_watch_then [OF ok this written] show ?thesis using True b(1) by simp
  qed simp
  show "fine d (if TargetWorkState cls = WorkRetryWait \<and> rnb = None
       then Inl (ErrRefused ''complete failure: RETRY_WAIT requires a retry eligibility'')
       else if TargetWorkState cls = WorkRetryWait \<and> (case rnb of None \<Rightarrow> False | Some t \<Rightarrow> \<not> t > now)
       then Inl (ErrRefused ''complete failure: retry eligibility must be after now'')
       else and_then (lockRootForUpdate d rid) (\<lambda>_.
         and_then (lockWatchForUpdate d rid key) (\<lambda>_.
         and_then (found_work d rid key) (\<lambda>w. if \<not> owns w seq then Inl ErrStaleClaim
           else and_then (restored w) (\<lambda>b.
             and_then (if ContainsTriggerSource (set_of (wk_ClaimedSourceSet w)) SourcePollSchedule
                       then watchRecordFailure rid key cls (IsProviderFailure cls) now d else Inr d)
               (writeWork (failed_row cls rnb now b)))))))"
    using body
    by (auto simp: loaded(3) [OF ok] internal_errors_def errRetryMerge_def
        intro!: fine_lockRoot fine_found_work [OF ok])
qed

interpretation complete_failure: work_transaction "whole (CompleteFailure rid key seq cls rnb now)"
  for rid key seq cls rnb now
  by (rule fine_transaction) (rule CompleteFailure_fine)

section \<open>Transitions\<close>

lemma cas_work_fine:
  assumes ok: "state_ok d"
    and f: "\<And>w. find_work d rid key = Some w \<Longrightarrow> row_ok w \<Longrightarrow> cond w \<Longrightarrow> row_ok (f w) \<and>
      wk_RootID (f w) = rid \<and> wk_ScopeKey (f w) = key \<and>
      (\<exists>st. abs_work (f w) = (abs_work w)\<lparr>it_state := st\<rparr> \<and>
        (wk_WorkState w, st) \<in> {(WorkPending, WorkPending), (WorkPending, WorkSuspended),
          (WorkRetryWait, WorkPending), (WorkBlocked, WorkPending), (WorkSuspended, WorkPending)})"
  shows "cas_work rid key ver cond f d = Inl ErrStateCASConflict \<or>
    (\<exists>row d'. cas_work rid key ver cond f d = Inr (row, d') \<and> progress d d' \<and> row_ok row)"
proof (cases "find_work d rid key")
  case (Some w)
  note lw = loaded(2) [OF ok Some]
  show ?thesis
  proof (cases "wk_Version w = ver \<and> cond w")
    case True
    with f [OF Some] lw obtain st where fw: "row_ok (f w)" "wk_RootID (f w) = rid" "wk_ScopeKey (f w) = key"
        "abs_work (f w) = (abs_work w)\<lparr>it_state := st\<rparr>"
        "(wk_WorkState w, st) \<in> {(WorkPending, WorkPending), (WorkPending, WorkSuspended),
          (WorkRetryWait, WorkPending), (WorkBlocked, WorkPending), (WorkSuspended, WorkPending)}"
      by metis
    let ?row = "(f w)\<lparr>wk_Version := wk_Version w + 1\<rparr>"
    have "1 \<le> wk_Version w" using row_ok_pos lw by blast
    then have row: "row_ok ?row" using fw(1) by (intro row_ok_version) simp_all
    have "abs_work ?row = abs_work (f w)" by (simp add: abs_work_def)
    then have "astep (abs_db d) ((abs_db d)((rid, key) \<mapsto> abs_work ?row))"
      using move_step [OF Some, of ?row st] fw by simp
    then have "progress d (set_row ?row d)"
      using set_row_progress [OF ok row, of w] Some fw(2,3) by simp
    then show ?thesis using Some True row by (simp add: cas_work_def put_work_eq row_okD Let_def)
  qed (use Some in \<open>auto simp: cas_work_def\<close>)
qed (simp add: cas_work_def)

lemma to_pending_fine:
  assumes ok: "state_ok d"
    and f: "\<And>w. find_work d rid key = Some w \<Longrightarrow> row_ok w \<Longrightarrow> cond w \<Longrightarrow> row_ok (f w) \<and>
      wk_RootID (f w) = rid \<and> wk_ScopeKey (f w) = key \<and>
      (\<exists>st. abs_work (f w) = (abs_work w)\<lparr>it_state := st\<rparr> \<and>
        (wk_WorkState w, st) \<in> {(WorkPending, WorkPending), (WorkPending, WorkSuspended),
          (WorkRetryWait, WorkPending), (WorkBlocked, WorkPending), (WorkSuspended, WorkPending)})"
  shows "fine d (to_pending lw rid key ver cond f d)"
proof -
  have "fine d (and_then (cas_work rid key ver cond f d) (\<lambda>(row, d').
      Inr (case scanWork row of Inl _ \<Rightarrow> zero_work | Inr out \<Rightarrow> out, d')))"
    using cas_work_fine [OF ok f, where ver = ver and cond = cond] by auto
  then show ?thesis
    unfolding to_pending_def by (auto simp: loaded(3) [OF ok] intro!: fine_lockRoot)
qed

lemma transitions_fine:
  assumes ok: "state_ok d"
  shows "fine d (RetryReady rid key ver now d)" "fine d (ResumeSuspended rid key ver now d)"
    "fine d (RepairBlocked rid key ver now d)"
    "fine d (map_sum id (Pair ()) (BudgetDefer rid key ver nb d))"
proof -
  note fw = loaded(2) [OF ok]
  show "fine d (RetryReady rid key ver now d)"
    unfolding RetryReady_def
    by (rule to_pending_fine [OF ok]) (use fw restate_ok(2) in \<open>auto simp: abs_work_def\<close>)
  show "fine d (ResumeSuspended rid key ver now d)" "fine d (RepairBlocked rid key ver now d)"
    unfolding ResumeSuspended_def RepairBlocked_def
    by (rule to_pending_fine [OF ok]; use fw restate_ok(1) in \<open>auto simp: abs_work_def\<close>)+
  have "row_ok (w\<lparr>wk_PendingNotBefore := Some nb\<rparr>)" if "row_ok w" "wk_WorkState w = WorkPending" for w
    using restate_ok(2) [of w WorkPending "Some nb"] that by (cases w) simp
  then show "fine d (map_sum id (Pair ()) (BudgetDefer rid key ver nb d))"
    using cas_work_fine [OF ok, where rid = rid and key = key and ver = ver and cond = "\<lambda>w. wk_WorkState w = WorkPending \<and>
              (case wk_PendingNotBefore w of None \<Rightarrow> True | Some t \<Rightarrow> t < nb)"
              and f = "\<lambda>w. w\<lparr>wk_PendingNotBefore := Some nb\<rparr>"] fw
    unfolding BudgetDefer_def by (fastforce simp: abs_work_def)
qed

interpretation retry_ready: work_transaction "whole (RetryReady rid key ver now)" for rid key ver now
  by (rule fine_transaction) (rule transitions_fine)

interpretation resume_suspended: work_transaction "whole (ResumeSuspended rid key ver now)" for rid key ver now
  by (rule fine_transaction) (rule transitions_fine)

interpretation repair_blocked: work_transaction "whole (RepairBlocked rid key ver now)" for rid key ver now
  by (rule fine_transaction) (rule transitions_fine)

interpretation budget_defer: work_transaction "whole (\<lambda>d. map_sum id (Pair ()) (BudgetDefer rid key ver nb d))"
  for rid key ver nb
  by (rule fine_transaction) (rule transitions_fine)

section \<open>Recovery\<close>

definition recovery :: "bool \<Rightarrow> DirtyScopeWork \<Rightarrow> DirtyScopeWork" where
  "recovery active w =
     (case restored w of
        Inl _ \<Rightarrow> w
      | Inr b \<Rightarrow> (recovered_row active b)\<lparr>wk_Version := wk_Version w + 1\<rparr>)"

definition recover1 :: "bool \<Rightarrow> DirtyScopeWork \<Rightarrow> DirtyScopeWork" where
  "recover1 active w = (if in_flight w then recovery active w else w)"

definition flying :: "db \<Rightarrow> uuid \<Rightarrow> string \<Rightarrow> bool" where
  "flying d rid key = (case find_work d rid key of None \<Rightarrow> False | Some w \<Rightarrow> in_flight w)"

lemma recover_write:
  assumes ok: "state_ok d" and w: "find_work d rid key = Some w" and fl: "in_flight w"
  obtains b d1 where "restored w = Inr b"
    "writeWork (recovered_row active b) d = Inr (recovery active w, d1)" "progress d d1"
    "\<And>r k. find_work d1 r k = (if r = rid \<and> k = key then Some (recovery active w) else find_work d r k)"
proof -
  note lw = loaded(2) [OF ok w]
  obtain b where b: "restored w = Inr b" "row_ok (recovered_row active b)"
      "wk_RootID b = wk_RootID w" "wk_ScopeKey b = wk_ScopeKey w"
      "set (wk_PendingSourceSet b) = set (set_of (wk_ClaimedSourceSet w)) \<union> set (wk_PendingSourceSet w)"
      "wk_SignalSeq b = wk_SignalSeq w"
    using recovered_ok [OF _ fl, of active] lw by metis
  have key: "wk_RootID (recovered_row active b) = rid" "wk_ScopeKey (recovered_row active b) = key"
    using b(3,4) lw by (simp_all add: recovered_row_def)
  have "astep (abs_db d) ((abs_db d)((rid, key) \<mapsto> abs_work (recovered_row active b)))"
    by (rule giveback_step [OF w _ fl]) (use lw b in \<open>simp_all add: recovered_row_def abs_work_def\<close>)
  from writeWork_progress [OF ok b(2) w key this] obtain d1 where d1:
    "writeWork (recovered_row active b) d = Inr (recovery active w, d1)" "progress d d1"
    "d1 = set_row (recovery active w) d" by (auto simp: recovery_def b(1))
  have "wk_RootID (recovery active w) = rid" "wk_ScopeKey (recovery active w) = key"
    using key by (simp_all add: recovery_def b(1))
  then show ?thesis using that [OF b(1) d1(1,2)] find_set_row [of d "recovery active w" w] w d1(3) by auto
qed

lemma recover_loop_spec:
  assumes "state_ok d" and "distinct keys"
  shows "\<exists>d'. recover_loop rid active keys n d = Inr (n + length (filter (flying d rid) keys), d') \<and>
    progress d d' \<and>
    (\<forall>r k. find_work d' r k = (if r = rid \<and> k \<in> set keys then map_option (recover1 active) (find_work d r k)
       else find_work d r k))"
  using assms
proof (induction keys arbitrary: n d)
  case Nil
  then show ?case by (simp add: progress_refl)
next
  case (Cons key keys)
  note load = loaded(1) [OF Cons.prems(1)]
  show ?case
  proof (cases "flying d rid key")
    case False
    then have "recover_loop rid active (key # keys) n d = recover_loop rid active keys n d"
      by (auto simp: flying_def load in_flight_def split: option.splits)
    moreover have "map_option (recover1 active) (find_work d rid key) = find_work d rid key"
      using False by (auto simp: flying_def recover1_def split: option.splits)
    ultimately show ?thesis using Cons.IH [of d n] Cons.prems False by (fastforce split: if_splits)
  next
    case True
    then obtain w where w: "find_work d rid key = Some w" "in_flight w"
      by (auto simp: flying_def split: option.splits)
    obtain b d1 where d1: "restored w = Inr b"
        "writeWork (recovered_row active b) d = Inr (recovery active w, d1)" "progress d d1"
        "\<And>r k. find_work d1 r k = (if r = rid \<and> k = key then Some (recovery active w) else find_work d r k)"
      using recover_write [OF Cons.prems(1) w] by blast
    have loop: "recover_loop rid active (key # keys) n d = recover_loop rid active keys (n + 1) d1"
      using w d1(1,2) by (simp add: load in_flight_def)
    obtain d' where d': "recover_loop rid active keys (n + 1) d1
        = Inr (n + 1 + length (filter (flying d1 rid) keys), d')" "progress d1 d'"
        "\<And>r k. find_work d' r k = (if r = rid \<and> k \<in> set keys then map_option (recover1 active) (find_work d1 r k)
          else find_work d1 r k)"
      using Cons.IH [OF progress_ok [OF d1(3)], of "n + 1"] Cons.prems(2) by auto
    have same: "filter (flying d1 rid) keys = filter (flying d rid) keys"
      using d1(4) Cons.prems(2) by (intro filter_cong) (auto simp: flying_def)
    have rows: "find_work d' r k = (if r = rid \<and> k \<in> set (key # keys)
        then map_option (recover1 active) (find_work d r k) else find_work d r k)" for r k
      using d'(3) d1(4) w Cons.prems(2) by (auto simp: recover1_def)
    have "recover_loop rid active (key # keys) n d = Inr (n + length (filter (flying d rid) (key # keys)), d')"
      unfolding loop d'(1) same using True by simp
    with rows progress_trans [OF d1(3) d'(2)] show ?thesis by blast
  qed
qed

lemma inflight_keys:
  assumes "state_ok d"
  shows "distinct (map wk_ScopeKey (inflight d rid))"
    "set (map wk_ScopeKey (inflight d rid)) = {k. flying d rid k}"
proof -
  have inj: "inj_on (\<lambda>w. (wk_RootID w, wk_ScopeKey w)) (set (db_works d))" "distinct (db_works d)"
    using assms by (simp_all add: state_ok_def distinct_map)
  then show "distinct (map wk_ScopeKey (inflight d rid))"
    by (auto simp: inflight_def distinct_map inj_on_def)
  have "find_work d rid (wk_ScopeKey w) = Some w" if "w \<in> set (db_works d)" "wk_RootID w = rid" for w
  proof (cases "find_work d rid (wk_ScopeKey w)")
    case (Some v)
    from find_work_Some [OF Some] that inj(1) Some show ?thesis by (auto dest: inj_onD)
  qed (use that in \<open>auto simp: find_work_None work_key_def\<close>)
  then show "set (map wk_ScopeKey (inflight d rid)) = {k. flying d rid k}"
    by (auto simp: inflight_def flying_def in_flight_def image_iff split: option.splits dest: find_work_Some)
qed

lemma recovery_spec:
  assumes ok: "state_ok d" and r: "find_root d rid = Some r"
  shows "\<exists>d'. RecoverStaleInflight rid d = Inr (length (inflight d rid), d') \<and> progress d d' \<and>
    (\<forall>x k. find_work d' x k = (if x = rid
       then map_option (recover1 (root_LifecycleState r = RootActive)) (find_work d x k) else find_work d x k))"
proof -
  let ?keys = "sort_strings (map wk_ScopeKey (inflight d rid))"
  have keys: "distinct ?keys" "set ?keys = {k. flying d rid k}" "length ?keys = length (inflight d rid)"
    using inflight_keys [OF ok, of rid] unfolding sort_strings_def by (metis distinct_sort_by set_sort_by length_sort_by length_map)+
  have all: "filter (flying d rid) ?keys = ?keys" using keys(2) by (auto simp: filter_id_conv)
  have "map_option (recover1 a) (find_work d rid k) = find_work d rid k" if "\<not> flying d rid k" for a k
    using that by (auto simp: flying_def recover1_def split: option.splits)
  then show ?thesis
    using recover_loop_spec [OF ok keys(1), of rid "root_LifecycleState r = RootActive" 0] r keys(2,3)
    by (fastforce simp: RecoverStaleInflight_def lockRootForUpdate_def activeFromLifecycle_def all split: if_splits)
qed

lemma RecoverStaleInflight_fine: "state_ok d \<Longrightarrow> fine d (RecoverStaleInflight rid d)"
  using recovery_spec [of d rid]
  by (cases "find_root d rid") (auto simp: RecoverStaleInflight_def lockRootForUpdate_def)

interpretation recover_inflight: work_transaction "whole (RecoverStaleInflight rid)" for rid
  by (rule fine_transaction) (rule RecoverStaleInflight_fine)

section \<open>Completion\<close>

lemma normal_watch_sources:
  assumes "NormalizeWatchSources xs = Inr ys"
  shows "list_all (\<lambda>s. ValidateWatchSource s = Inr ()) ys" "NormalizeWatchSources ys = Inr ys"
proof -
  note n = watch_sources.normalize_ok [OF assms [unfolded NormalizeWatchSources_def]]
  show "list_all (\<lambda>s. ValidateWatchSource s = Inr ()) ys" by (rule n(3))
  obtain zs where "normalize_set ValidateWatchSource watch_source_str ys = Inr zs"
    using watch_sources.normalize_total [OF n(3)] by blast
  with watch_sources.normalize_unique [OF this assms [unfolded NormalizeWatchSources_def]] n(1)
  show "NormalizeWatchSources ys = Inr ys" by (simp add: NormalizeWatchSources_def)
qed

lemma add_watch_progress:
  assumes "state_ok d" "watch_ok row" "find_watch d (sw_RootID row) (sw_ScopeKey row) = None"
  shows "progress d (d\<lparr>db_watches := db_watches d @ [row]\<rparr>)"
  by (rule watches_progress [OF assms(1)])
     (use assms in \<open>auto simp: state_ok_def find_watch_def find_None_iff\<close>)

definition policy_ok :: "(duration \<times> 'p) option \<Rightarrow> bool" where
  "policy_ok policy = (case policy of None \<Rightarrow> True | Some (interval, _) \<Rightarrow> second \<le> interval)"

lemma enroll_ok:
  assumes ok: "state_ok d" and r: "find_root d rid \<noteq> None" and i: "second \<le> interval"
    and key: "ValidateScopeKey child = Inr ()"
  shows "\<exists>w e d'. enroll rid child now interval (find_watch d rid child) d = Inr (w, e, d') \<and> progress d d' \<and>
    db_works d' = db_works d"
proof (cases "find_watch d rid child")
  case None
  let ?row = "revisit_watch rid child now interval"
  have "0 < interval div second" using i by (simp add: second_def pos_imp_zdiv_pos_iff)
  then have row: "watch_ok ?row"
    using key by (simp add: watch_defs revisit_watch_def error_class_ok_def validateWatchState_def
        NormalizeWatchSources_def normalize_set_def ValidateWatchSource_def)
  moreover have "progress d (d\<lparr>db_watches := db_watches d @ [?row]\<rparr>)"
    by (rule add_watch_progress [OF ok row]) (use None in \<open>simp add: revisit_watch_def\<close>)
  ultimately show ?thesis using None r by (auto simp: enroll_def Let_def watch_ok_def)
qed (auto simp: enroll_def progress_refl [OF ok])

lemma mirror_child_ok:
  assumes ok: "state_ok d" and "find_root d rid \<noteq> None" "second \<le> interval" "ValidateScopeKey child = Inr ()"
  shows "\<exists>skip stats' d'. mirror_child interval proofs rid child pr (find_watch d rid child) now stats d
      = Inr ((skip, stats'), d') \<and> progress d d' \<and> db_works d' = db_works d"
proof -
  obtain w e d' where e: "enroll rid child now interval (find_watch d rid child) d = Inr (w, e, d')"
      "progress d d'" "db_works d' = db_works d"
    using enroll_ok [OF assms] by blast
  have eq: "loadWorkForUpdate d' rid child = Inr (find_work d' rid child)"
    using loaded(1) [OF progress_ok [OF e(2)]] .
  show ?thesis
    using e progress_refl [OF ok]
    by (auto simp: mirror_child_def Let_def eq counted_def split: prod.splits)
qed

lemma queue_children_ok:
  assumes "state_ok d" and "find_root d rid \<noteq> None" and "policy_ok policy"
    and "list_all (direct_child key) children"
  shows "\<exists>stats' d'. queue_children policy rid ps now children stats d = Inr (stats', d') \<and> progress d d' \<and>
    find_work d' rid key = find_work d rid key"
  using assms
proof (induction children arbitrary: stats d)
  case Nil
  then show ?case by (simp add: progress_refl)
next
  case (Cons child rest)
  have child: "ValidateScopeKey child = Inr ()" "child \<noteq> key" using Cons.prems(4) by (simp_all add: direct_child_def)
  let ?pr = "child_priority ps child"
  let ?decide = "case policy of None \<Rightarrow> Inr ((False, stats), d)
      | Some (interval, proofs) \<Rightarrow> mirror_child interval proofs rid child ?pr (find_watch d rid child) now stats d"
  obtain skip stats1 d1 where d1: "?decide = Inr ((skip, stats1), d1)" "progress d d1" "db_works d1 = db_works d"
    using mirror_child_ok [OF Cons.prems(1,2) _ child(1)] Cons.prems(3) progress_refl [OF Cons.prems(1)]
    by (cases policy) (fastforce simp: policy_ok_def split: prod.splits)+
  have root1: "find_root d' rid \<noteq> None" if "progress d d'" for d'
    using that Cons.prems(2) by (auto simp: progress_def find_root_def)
  have next': ?case
    if "queue_children policy rid ps now (child # rest) stats d = queue_children policy rid ps now rest stats1 d2"
      "progress d d2" "find_work d2 rid key = find_work d rid key" for d2
    using Cons.IH [OF progress_ok [OF that(2)] root1 [OF that(2)] Cons.prems(3), of stats1] Cons.prems(4) that
      progress_trans [OF that(2)] by fastforce
  show ?case
  proof (cases skip)
    case True
    show ?thesis
      by (rule next' [OF _ d1(2)]) (use True d1 works_same(1) [OF d1(3)] loaded(3) [OF Cons.prems(1)] in simp_all)
  next
    case False
    have "signal_ok (child_signal rid child ?pr now)"
      using child(1) by (simp add: signal_ok_def validate_signal_def child_signal_def child_priority_def)
    with mergeSignalTx_ok [OF progress_ok [OF d1(2)] this, of True] root1 [OF d1(2)] obtain out d2 where
      d2: "mergeSignalTx (child_signal rid child ?pr now) True d1 = Inr (out, d2)" "progress d1 d2"
        "find_work d2 rid key = find_work d1 rid key"
      using child(2) by (auto simp: child_signal_def)
    show ?thesis
      by (rule next' [OF _ progress_trans [OF d1(2) d2(2)]])
         (use False d1 d2 works_same(1) [OF d1(3)] loaded(3) [OF Cons.prems(1)] in simp_all)
  qed
qed

lemma verify_step:
  assumes w: "find_work d rid key = Some w" "row_ok w" "owns w seq"
  shows "astep (abs_db d) ((abs_db d)((rid, key) \<mapsto> abs_work (completed_row seq now w)))"
proof -
  obtain ss where ss: "wk_ClaimedSourceSet w = Some ss"
    using row_running [OF w(2)] w(3) by (auto simp: owns_def)
  have "abs_work (completed_row seq now w) = (abs_work w)\<lparr>it_state :=
      (if it_pending (abs_work w) = {} then WorkVerified else WorkPending), it_running := None\<rparr>"
    by (simp add: abs_work_def completed_row_def)
  then show ?thesis
    using a_verify [of "abs_db d" "(rid, key)" "abs_work w" "set ss"] abs_at [OF w(1)] ss
    by (simp add: abs_work_def)
qed

lemma completed_key [simp]:
  "wk_RootID (completed_row seq now w) = wk_RootID w" "wk_ScopeKey (completed_row seq now w) = wk_ScopeKey w"
  by (simp_all add: completed_row_def)

lemma completion_row:
  assumes ok: "state_ok d" and w: "find_work d rid key = Some w" "owns w seq"
  shows "fine d (and_then (if p then watchRecordSuccess rid key now d else Inr d) (\<lambda>d2.
      and_then (writeWork (completed_row seq now w) d2) (\<lambda>(out, d3). Inr ((out, stats), d3))))"
proof (rule fine_watch_then [OF ok])
  show "watchRecordSuccess rid key now d = Inl ErrStateCASConflict \<or>
      (\<exists>d'. watchRecordSuccess rid key now d = Inr d' \<and> progress d d' \<and> db_works d' = db_works d)"
    by (rule watch_ops [OF ok]) blast
next
  fix d1
  assume d1: "progress d d1" "db_works d1 = db_works d"
  note lw = loaded(2) [OF ok w(1)]
  have w1: "find_work d1 rid key = Some w" using w(1) works_same(1) [OF d1(2)] by simp
  have row: "row_ok (completed_row seq now w)" using completed_ok lw w(2) by blast
  have "wk_RootID (completed_row seq now w) = rid" "wk_ScopeKey (completed_row seq now w) = key"
    using lw by simp_all
  from writeWork_progress [OF progress_ok [OF d1(1)] row w1 this verify_step [OF w1 _ w(2)]] lw
  obtain out d' where "writeWork (completed_row seq now w) d1 = Inr (out, d')" "progress d1 d'" by blast
  then show "\<exists>out d'. and_then (writeWork (completed_row seq now w) d1) (\<lambda>(out, d3). Inr ((out, stats), d3))
      = Inr (out, d') \<and> progress d d'"
    using progress_trans [OF d1(1)] by auto
qed

lemma fine_trans:
  assumes "progress d d1" and "fine d1 r"
  shows "fine d r"
  using assms progress_trans by (auto simp: fine_def split: sum.splits)

lemma completeDiscovery_fine:
  assumes ok: "state_ok d" and pol: "policy_ok policy"
  shows "fine d (completeDiscovery policy rid key seq children ps now d)"
proof -
  let ?policy = "case policy of None \<Rightarrow> None
    | Some (interval, changed) \<Rightarrow> Some (interval, mirrorProofs changed d rid key children)"
  have p: "policy_ok ?policy" using pol by (auto simp: policy_ok_def split: option.splits)
  have body: "fine d (if \<not> owns w seq then Inl ErrStaleClaim
       else and_then (queue_children ?policy rid ps now children no_stats d) (\<lambda>(stats, d1).
         and_then (if ContainsTriggerSource (set_of (wk_ClaimedSourceSet w)) SourcePollSchedule
                   then watchRecordSuccess rid key now d1 else Inr d1) (\<lambda>d2.
         and_then (writeWork (completed_row seq now w) d2) (\<lambda>(out, d3). Inr ((out, stats), d3)))))"
    if w: "find_work d rid key = Some w" and r: "find_root d rid = Some r"
      and cs: "list_all (direct_child key) children" for w r
  proof (cases "owns w seq")
    case True
    obtain stats d1 where d1: "queue_children ?policy rid ps now children no_stats d = Inr (stats, d1)"
        "progress d d1" "find_work d1 rid key = find_work d rid key"
      using queue_children_ok [OF ok _ p cs] r by blast
    have "find_work d1 rid key = Some w" using d1(3) w by simp
    note tail = fine_trans [OF d1(2) completion_row [OF progress_ok [OF d1(2)] this True]]
    show ?thesis unfolding d1(1) using True tail by (simp only: not_True_eq_False if_False and_then_simps prod.case)
  qed simp
  have first: "fine d (and_then (if ps \<noteq> [] then state_err (ValidateScopeKey ps) else Inr ()) f)"
    if "fine d (f ())" for f :: "unit \<Rightarrow> store_error + (DirtyScopeWork \<times> MirrorDiscoveryStats) \<times> db"
    using that fine_state_err [of "ValidateScopeKey ps" d f] by (cases "ps = []") auto
  show ?thesis
    unfolding completeDiscovery_def using body
    by (intro first fine_state_err)
       (auto simp: loaded(3) [OF ok] internal_errors_def errRetryMerge_def
         intro!: fine_lockRoot fine_found_work [OF ok])
qed

lemma fine_map: "fine d (map_sum id f r) \<longleftrightarrow> fine d r" if "\<And>x. snd (f x) = snd x"
  using that by (cases r) (auto simp: fine_def split: prod.splits, (metis snd_conv)+)

lemma CompleteSuccess_fine:
  assumes ok: "state_ok d"
  shows "fine d (CompleteSuccessWithPrioritizedChildren rid key seq children ps now d)"
    "fine d (CompleteSuccessWithMirrorChildren changed rid key seq children ps now interval d)"
proof -
  show "fine d (CompleteSuccessWithPrioritizedChildren rid key seq children ps now d)"
    unfolding CompleteSuccessWithPrioritizedChildren_def
    using completeDiscovery_fine [OF ok, of None rid key seq children ps now]
    by (subst fine_map) (auto simp: policy_ok_def)
  have "second \<le> interval" if "ValidateMirrorRevisit interval = Inr ()" "interval \<noteq> 0"
    using that by (auto simp: ValidateMirrorRevisit_def second_def split: if_splits)
  then show "fine d (CompleteSuccessWithMirrorChildren changed rid key seq children ps now interval d)"
    using completeDiscovery_fine [OF ok, of "Some (interval, changed)" rid key seq children ps now]
    by (auto simp: CompleteSuccessWithMirrorChildren_def policy_ok_def internal_errors_def errRetryMerge_def)
qed

interpretation complete_success: work_transaction
  "whole (CompleteSuccessWithPrioritizedChildren rid key seq children ps now)" for rid key seq children ps now
  by (rule fine_transaction) (rule CompleteSuccess_fine)

interpretation complete_mirror: work_transaction
  "whole (CompleteSuccessWithMirrorChildren changed rid key seq children ps now interval)"
  for changed rid key seq children ps now interval
  by (rule fine_transaction) (rule CompleteSuccess_fine)

section \<open>Watch policies\<close>

lemma validated_watch:
  assumes "validateWatchForWrite w = Inr ()" "ValidateScopeKey (sw_ScopeKey w) = Inr ()"
    "NormalizeWatchSources xs = Inr srcs" "1 \<le> v"
  shows "watch_ok (w\<lparr>sw_SourceSet := srcs, sw_Version := v\<rparr>)"
  using assms normal_watch_sources [OF assms(3)]
  by (auto simp: watch_defs validateWatchForWrite_def validateWatchState_def error_class_ok_def
      simp del: valid_enum_simps split: if_splits option.splits)

lemma CASUpdateWatch_fine:
  assumes ok: "state_ok d"
  shows "fine d (CASUpdateWatch w ver d)"
  unfolding CASUpdateWatch_def
proof (intro fine_state_err)
  fix u
  assume key: "ValidateScopeKey (sw_ScopeKey w) = Inr u"
  have "fine d (and_then (state_err (NormalizeWatchSources (sw_SourceSet w))) (\<lambda>srcs.
     and_then (update_watch (sw_RootID w) (sw_ScopeKey w) (\<lambda>c. sw_Version c = ver)
         (\<lambda>_. w\<lparr>sw_SourceSet := srcs\<rparr>) d) (\<lambda>(n, d').
       if n = 0 then Inl ErrStateCASConflict
       else and_then (scanWatch (w\<lparr>sw_SourceSet := srcs, sw_Version := ver + 1\<rparr>)) (\<lambda>out. Inr (out, d')))))"
    if "validateWatchForWrite w = Inr ()"
  proof (intro fine_state_err)
    fix srcs
    assume srcs: "NormalizeWatchSources (sw_SourceSet w) = Inr srcs"
    have "watch_ok (w\<lparr>sw_SourceSet := srcs, sw_Version := v + 1\<rparr>)" if "1 \<le> v" for v
      using validated_watch [OF \<open>validateWatchForWrite w = Inr ()\<close> _ srcs] key that by simp
    moreover have "1 \<le> sw_Version c" if "watch_ok c" for c using that by (simp add: watch_ok_def watch_row_ok_def)
    ultimately obtain n d' where u: "update_watch (sw_RootID w) (sw_ScopeKey w) (\<lambda>c. sw_Version c = ver)
         (\<lambda>_. w\<lparr>sw_SourceSet := srcs\<rparr>) d = Inr (n, d')" "progress d d'"
      using update_watch_ok [OF ok, of "sw_RootID w" "sw_ScopeKey w" "\<lambda>c. sw_Version c = ver"
          "\<lambda>_. w\<lparr>sw_SourceSet := srcs\<rparr>"] by fastforce
    have "scanWatch (w\<lparr>sw_SourceSet := srcs, sw_Version := ver + 1\<rparr>)
        = Inr (w\<lparr>sw_SourceSet := srcs, sw_Version := ver + 1\<rparr>)"
      using normal_watch_sources(2) [OF srcs] by (simp add: scanWatch_def)
    with u show "fine d (and_then (update_watch (sw_RootID w) (sw_ScopeKey w) (\<lambda>c. sw_Version c = ver)
         (\<lambda>_. w\<lparr>sw_SourceSet := srcs\<rparr>) d) (\<lambda>(n, d').
       if n = 0 then Inl ErrStateCASConflict
       else and_then (scanWatch (w\<lparr>sw_SourceSet := srcs, sw_Version := ver + 1\<rparr>)) (\<lambda>out. Inr (out, d'))))"
      by simp
  qed
  moreover have "e \<notin> internal_errors" if "validateWatchForWrite w = Inl e" for e
    using that by (auto simp: validateWatchForWrite_def and_then_def state_err_Inl internal_errors_def
        errRetryMerge_def split: if_splits sum.splits option.splits)
  ultimately show "fine d (and_then (validateWatchForWrite w) (\<lambda>_.
     and_then (state_err (NormalizeWatchSources (sw_SourceSet w))) (\<lambda>srcs.
     and_then (update_watch (sw_RootID w) (sw_ScopeKey w) (\<lambda>c. sw_Version c = ver)
         (\<lambda>_. w\<lparr>sw_SourceSet := srcs\<rparr>) d) (\<lambda>(n, d').
       if n = 0 then Inl ErrStateCASConflict
       else and_then (scanWatch (w\<lparr>sw_SourceSet := srcs, sw_Version := ver + 1\<rparr>)) (\<lambda>out. Inr (out, d'))))))"
    by (cases "validateWatchForWrite w") auto
qed

interpretation cas_watch: work_transaction "whole (CASUpdateWatch w ver)" for w ver
  by (rule fine_transaction) (rule CASUpdateWatch_fine)

text \<open>Creating a watch twice, or for an unknown root, is refused by the keys of the table; the operation
  meets the weaker contract.\<close>

interpretation create_watch: work_step "whole (CreateWatch w)" for w
proof
  fix d
  assume ok: "state_ok d"
  have "progress d d'" if "CreateWatch w d = Inr (out, d')" for out d'
  proof -
    from that obtain srcs where srcs: "NormalizeWatchSources (sw_SourceSet w) = Inr srcs"
        "ValidateScopeKey (sw_ScopeKey w) = Inr ()" "validateWatchForWrite w = Inr ()"
        "find_watch d (sw_RootID w) (sw_ScopeKey w) = None"
        "d' = d\<lparr>db_watches := db_watches d @ [w\<lparr>sw_SourceSet := srcs, sw_Version := 1\<rparr>]\<rparr>"
      by (auto simp: CreateWatch_def Let_def split: if_splits)
    then show ?thesis
      using add_watch_progress [OF ok validated_watch [OF srcs(3,2,1), of 1]] by simp
  qed
  then show "progress d (snd (whole (CreateWatch w) d))"
    using progress_refl [OF ok] by (auto simp: whole_def split: sum.splits)
qed

end
