(* ===== verification/WorkProps.thy ===== *)
theory WorkProps
  imports WorkOps
begin

text \<open>
  Properties of the incremental work queue over any history: the tables start empty, the operations
  run in any order and with any arguments, and between them the other tables change freely as long as no
  root disappears.
\<close>

section \<open>Histories\<close>

inductive wstep :: "db \<Rightarrow> db \<Rightarrow> bool" where
  w_merge: "wstep d (snd (whole (MergeSignal sig) d))"
| w_poll: "wstep d (snd (whole (EmitDuePoll rid key ver now) d))"
| w_claim: "wstep d (snd (ClaimWork rid key ver now d))"
| w_fail: "wstep d (snd (whole (CompleteFailure rid key seq cls rnb now) d))"
| w_success: "wstep d (snd (whole (CompleteSuccessWithPrioritizedChildren rid key seq children ps now) d))"
| w_mirror: "wstep d (snd (whole (CompleteSuccessWithMirrorChildren changed rid key seq children ps now interval) d))"
| w_retry: "wstep d (snd (whole (RetryReady rid key ver now) d))"
| w_resume: "wstep d (snd (whole (ResumeSuspended rid key ver now) d))"
| w_repair: "wstep d (snd (whole (RepairBlocked rid key ver now) d))"
| w_defer: "wstep d (snd (whole (\<lambda>d. map_sum id (Pair ()) (BudgetDefer rid key ver nb d)) d))"
| w_recover: "wstep d (snd (whole (RecoverStaleInflight rid) d))"
| w_create_watch: "wstep d (snd (whole (CreateWatch w) d))"
| w_update_watch: "wstep d (snd (whole (CASUpdateWatch w ver) d))"
| w_other: "db_works d' = db_works d \<Longrightarrow> db_watches d' = db_watches d \<Longrightarrow>
    (\<And>rid. find_root d rid \<noteq> None \<Longrightarrow> find_root d' rid \<noteq> None) \<Longrightarrow> wstep d d'"

definition fresh :: "db \<Rightarrow> bool" where
  "fresh d \<longleftrightarrow> db_works d = [] \<and> db_watches d = []"

lemma fresh_ok: "fresh d \<Longrightarrow> state_ok d"
  by (simp add: fresh_def state_ok_def)

lemma wstep_moves:
  assumes "wstep d d'" and "state_ok d"
  shows "state_ok d' \<and> astep\<^sup>*\<^sup>* (abs_db d) (abs_db d') \<and> advances d d'"
  using assms
proof (induction rule: wstep.induct)
  case (w_other d' d)
  note same = works_same [OF w_other(1)]
  have "state_ok d'" using w_other by (auto simp: state_ok_def)
  then show ?case by (simp add: same advances_def)
qed (rule merge_signal.moved emit_poll.moved claim_work.moved complete_failure.moved
    complete_success.moved complete_mirror.moved retry_ready.moved resume_suspended.moved
    repair_blocked.moved budget_defer.moved recover_inflight.moved create_watch.moved cas_watch.moved,
    assumption)+

lemma history_moves:
  assumes "wstep\<^sup>*\<^sup>* d d'" and "state_ok d"
  shows "state_ok d' \<and> astep\<^sup>*\<^sup>* (abs_db d) (abs_db d') \<and> advances d d'"
  using assms
proof (induction rule: rtranclp_induct)
  case base
  then show ?case by (simp add: advances_def)
next
  case (step d1 d2)
  then show ?case using wstep_moves [OF step(2)] advances_trans rtranclp_trans [of astep] by metis
qed

lemma history_ok: "fresh d \<Longrightarrow> wstep\<^sup>*\<^sup>* d d' \<Longrightarrow> state_ok d'"
  using history_moves fresh_ok by blast

section \<open>Sample history\<close>

definition sample_signal :: DirtySignal where
  "sample_signal =
     \<lparr>ds_RootID = ''r'', ds_ScopeKey = ''/a'', ds_Source = SourceMutationHint, ds_Reason = ReasonDeleteHint,
      ds_Priority = PriorityHigh, ds_NotBefore = None, ds_SeenAt = 100\<rparr>"

definition sample_work_root :: ResourceRoot where
  "sample_work_root =
     \<lparr>root_RootID = ''r'', root_ScopeDescriptor = ''{}'', root_OwningCollectorRef = None,
      root_LifecycleState = RootActive, root_CurrentGeneration = 0, root_LatestAdmissionSeq = 0\<rparr>"

definition work_db0 :: db where
  "work_db0 =
     \<lparr>db_roots = [sample_work_root], db_generations = [], db_resources = [], db_observations = [],
      db_snapshots = [], db_entries = [], db_admissions = [], db_applied = [], db_journal = [],
      db_results = [], db_policies = [], db_adapters = [], db_watches = [], db_works = []\<rparr>"

definition work_db1 :: db where
  "work_db1 = snd (whole (MergeSignal sample_signal) work_db0)"

definition work_db2 :: db where
  "work_db2 = snd (ClaimWork ''r'' ''/a'' 1 200 work_db1)"

definition work_db3 :: db where
  "work_db3 = snd (whole (CompleteSuccessWithPrioritizedChildren ''r'' ''/a'' 1 [''/a/b''] [] 300) work_db2)"

lemma sample_fresh: "fresh work_db0"
  by (simp add: fresh_def work_db0_def)

lemma sample_history: "wstep\<^sup>*\<^sup>* work_db0 work_db1" "wstep\<^sup>*\<^sup>* work_db0 work_db2" "wstep\<^sup>*\<^sup>* work_db0 work_db3"
  unfolding work_db3_def work_db2_def work_db1_def
  by (meson rtranclp.rtrancl_into_rtrancl rtranclp.rtrancl_refl w_merge w_claim w_success)+

lemma work_sample_rows:
  "map (\<lambda>w. (wk_ScopeKey w, wk_WorkState w, wk_Version w)) (db_works work_db1) = [(''/a'', WorkPending, 1)]"
  "map (\<lambda>w. (wk_ScopeKey w, wk_WorkState w, wk_Version w)) (db_works work_db2) = [(''/a'', WorkInFlight, 2)]"
  "map (\<lambda>w. (wk_ScopeKey w, wk_WorkState w, wk_Version w)) (db_works work_db3)
    = [(''/a'', WorkVerified, 3), (''/a/b'', WorkPending, 1)]"
  by code_simp+

section \<open>The tables accept every row\<close>

text \<open>
  C25: rows stay well typed. After any history of the work queue from empty tables, no operation is
  refused by a check constraint of the two tables, loses the row it has locked, exhausts the insertion
  retries, or meets a scheduled watch without an interval: every row the code computes satisfies the
  constraints of migration 0005, whatever the state, the signals and the error classes.
\<close>
theorem work_rows_typed:
  assumes "fresh d0" and "wstep\<^sup>*\<^sup>* d0 d"
  shows "fst (whole (MergeSignal sig) d) \<notin> Inl ` internal_errors \<and>
    fst (whole (EmitDuePoll rid key ver now) d) \<notin> Inl ` internal_errors \<and>
    fst (ClaimWork rid key ver now d) \<notin> Inl ` internal_errors \<and>
    fst (whole (CompleteFailure rid key seq cls rnb now) d) \<notin> Inl ` internal_errors \<and>
    fst (whole (CompleteSuccessWithPrioritizedChildren rid key seq children ps now) d) \<notin> Inl ` internal_errors \<and>
    fst (whole (CompleteSuccessWithMirrorChildren changed rid key seq children ps now interval) d)
      \<notin> Inl ` internal_errors \<and>
    fst (whole (RetryReady rid key ver now) d) \<notin> Inl ` internal_errors \<and>
    fst (whole (ResumeSuspended rid key ver now) d) \<notin> Inl ` internal_errors \<and>
    fst (whole (RepairBlocked rid key ver now) d) \<notin> Inl ` internal_errors \<and>
    fst (whole (\<lambda>d. map_sum id (Pair ()) (BudgetDefer rid key ver nb d)) d) \<notin> Inl ` internal_errors \<and>
    fst (whole (RecoverStaleInflight rid) d) \<notin> Inl ` internal_errors \<and>
    fst (whole (CASUpdateWatch w ver) d) \<notin> Inl ` internal_errors"
proof -
  have ok: "state_ok d" by (rule history_ok [OF assms])
  note refused = merge_signal.accepted emit_poll.accepted claim_work.accepted complete_failure.accepted
    complete_success.accepted complete_mirror.accepted retry_ready.accepted resume_suspended.accepted
    repair_blocked.accepted budget_defer.accepted recover_inflight.accepted cas_watch.accepted
  show ?thesis by (intro conjI notI; elim imageE; drule refused [OF ok]; blast)
qed

theorem work_rows_typed_witness:
  "fst (whole (MergeSignal sample_signal) work_db2) \<notin> Inl ` internal_errors \<and>
   map wk_WorkState (db_works work_db2) = [WorkInFlight]"
proof -
  have "map wk_WorkState (db_works work_db2) = [WorkInFlight]" by code_simp
  then show ?thesis
    using conjunct1 [OF work_rows_typed [OF sample_fresh sample_history(2), of sample_signal]] by simp
qed

section \<open>Refinement\<close>

text \<open>
  C10: the tables implement the specified queue. Every history of the store's operations, read through the
  abstraction that keeps a row's state, signal sequence, waiting sources and running sources, is a
  history of the specified machine from the empty queue: a signal joins the waiting sources and counts
  once, a claim takes all of them, a failed or recovered claim gives them back, and only a successful
  completion drops them.
\<close>
theorem work_refines_queue:
  assumes "fresh d0" and "wstep\<^sup>*\<^sup>* d0 d"
  shows "astep\<^sup>*\<^sup>* (\<lambda>_. None) (abs_db d)"
proof -
  have "abs_db d0 = (\<lambda>_. None)"
    using assms(1) by (auto simp: fresh_def abs_db_def find_work_def)
  then show ?thesis using history_moves [OF assms(2) fresh_ok [OF assms(1)]] by simp
qed

theorem work_refines_queue_witness:
  "\<exists>d. astep\<^sup>*\<^sup>* (\<lambda>_. None) (abs_db d) \<and>
     abs_db d (''r'', ''/a'') = Some \<lparr>it_state = WorkInFlight, it_seq = 1, it_pending = {},
       it_running = Some {SourceMutationHint}\<rparr>"
proof -
  have "map_option (\<lambda>w. (wk_WorkState w, wk_SignalSeq w, wk_PendingSourceSet w, wk_ClaimedSourceSet w))
      (find_work work_db2 ''r'' ''/a'') = Some (WorkInFlight, 1, [], Some [SourceMutationHint])"
    by code_simp
  then have "abs_db work_db2 (''r'', ''/a'') = Some \<lparr>it_state = WorkInFlight, it_seq = 1, it_pending = {},
       it_running = Some {SourceMutationHint}\<rparr>"
    by (auto simp: abs_db_def abs_work_def)
  with work_refines_queue [OF sample_fresh sample_history(2)] show ?thesis by blast
qed

section \<open>Invariants of a row\<close>

text \<open>
  C3: no signal is lost. Whenever an item reads \<open>VERIFIED\<close>, the claim that was completed held every signal
  merged so far: the verified sequence is the latest one and nothing waits. A signal that arrives while
  a claim runs keeps the item out of \<open>VERIFIED\<close>.
\<close>
theorem verified_covers_all:
  assumes "fresh d0" and "wstep\<^sup>*\<^sup>* d0 d" and "find_work d rid key = Some w" and "wk_WorkState w = WorkVerified"
  shows "wk_LastVerifiedSignalSeq w = Some (wk_SignalSeq w) \<and> wk_PendingSourceSet w = [] \<and>
    wk_ClaimedSignalSeq w = None"
proof -
  have "row_ok w" using loaded(2) [OF history_ok [OF assms(1,2)] assms(3)] by blast
  then show ?thesis
    using assms(4) by (simp add: row_ok_def covered_def work_constraints)
qed

theorem verified_covers_all_witness:
  "\<exists>w. find_work work_db3 ''r'' ''/a'' = Some w \<and> wk_LastVerifiedSignalSeq w = Some (wk_SignalSeq w)"
proof -
  have "map_option wk_WorkState (find_work work_db3 ''r'' ''/a'') = Some WorkVerified" by code_simp
  then show ?thesis using verified_covers_all [OF sample_fresh sample_history(3)] by blast
qed

text \<open>
  The version guards the row. If a row has the same version at two points of a history, it is the
  same row: a caller that wins a version check overwrites nothing it has not seen.
\<close>
theorem version_guards_row:
  assumes "fresh d0" and "wstep\<^sup>*\<^sup>* d0 d1" and "wstep\<^sup>*\<^sup>* d1 d2"
    and "find_work d1 rid key = Some w" and "find_work d2 rid key = Some w'" and "wk_Version w' = wk_Version w"
  shows "w' = w"
  using history_moves [OF assms(3) history_ok [OF assms(1,2)]] assms(4-6)
  by (fastforce simp: advances_def)

theorem version_guards_row_witness:
  "\<exists>w w'. find_work work_db1 ''r'' ''/a'' = Some w \<and>
     find_work (snd (ClaimWork ''r'' ''/a'' 9 200 work_db1)) ''r'' ''/a'' = Some w' \<and> w' = w"
proof -
  let ?d = "snd (ClaimWork ''r'' ''/a'' 9 200 work_db1)"
  have "map_option wk_Version (find_work work_db1 ''r'' ''/a'') = Some 1"
    "map_option wk_Version (find_work ?d ''r'' ''/a'') = Some 1" by code_simp+
  then obtain w w' where "find_work work_db1 ''r'' ''/a'' = Some w" "find_work ?d ''r'' ''/a'' = Some w'"
      "wk_Version w' = wk_Version w" by auto
  moreover have "wstep\<^sup>*\<^sup>* work_db1 ?d" by (rule r_into_rtranclp) (rule w_claim)
  ultimately show ?thesis using version_guards_row [OF sample_fresh sample_history(1)] by blast
qed

end
