(* ===== verification/WorkFlow.thy ===== *)
theory WorkFlow
  imports WorkProps
begin

text \<open>
  The flow of work through the queue: selection leads to a claim, recovery empties the claims of a
  crashed process, polls keep their interval, failures keep their delay, and the revisit policy accounts
  for every child.
\<close>

definition is_Inr :: "'e + 'a \<Rightarrow> bool" where
  "is_Inr r = (case r of Inl _ \<Rightarrow> False | Inr _ \<Rightarrow> True)"

section \<open>Selection\<close>

text \<open>\<open>ORDER BY\<close> a key.\<close>

interpretation by_key: key_order "\<lambda>a b. key a < key b" key for key :: "'a \<Rightarrow> 'k::linorder"
  by unfold_locales simp

lemma first_row_cases:
  fixes key :: "DirtyScopeWork \<Rightarrow> 'k::linorder"
  assumes "state_ok d"
  shows "(first_row key cond d = Inr None \<and> (\<forall>v\<in>set (db_works d). \<not> cond v)) \<or>
    (\<exists>w\<in>set (db_works d). first_row key cond d = Inr (Some w) \<and> cond w \<and>
      (\<forall>v\<in>set (db_works d). cond v \<longrightarrow> key w \<le> key v))"
proof -
  let ?xs = "sort_by (\<lambda>a b. key a < key b) (filter cond (db_works d))"
  have sorted: "sorted_by (\<lambda>a b. key a < key b) ?xs" by (rule by_key.sorted_sort)
  show ?thesis
  proof (cases ?xs)
    case Nil
    then have "filter cond (db_works d) = []" by (metis length_0_conv length_sort_by)
    then show ?thesis by (simp add: first_row_def filter_empty_conv)
  next
    case (Cons w ws)
    have mem: "set ?xs = {v \<in> set (db_works d). cond v}" by simp
    have w: "w \<in> set (db_works d)" "cond w" using mem Cons by auto
    have "key w \<le> key v" if "v \<in> set (db_works d)" "cond v" for v
    proof -
      have "v \<in> set (w # ws)" using that mem Cons by auto
      then show ?thesis using sorted unfolding Cons by (auto simp: sorted_by_def not_less)
    qed
    moreover have "scanWork w = Inr w" using assms w(1) by (simp add: state_ok_def row_ok_scan)
    ultimately show ?thesis using w Cons by (auto simp: first_row_def)
  qed
qed

lemma state_err_ok [simp]: "state_err (Inr x) = Inr x"
  by (simp add: state_err_def)

lemma active_root_iff: "active_root d rid \<longleftrightarrow> (\<exists>r. find_root d rid = Some r \<and> root_LifecycleState r = RootActive)"
  by (auto simp: active_root_def split: option.splits)

lemma find_work_member:
  assumes "state_ok d" and "w \<in> set (db_works d)"
  shows "find_work d (wk_RootID w) (wk_ScopeKey w) = Some w"
proof (cases "find_work d (wk_RootID w) (wk_ScopeKey w)")
  case (Some v)
  from find_work_Some [OF Some] assms Some show ?thesis
    by (auto simp: state_ok_def distinct_map dest: inj_onD)
qed (use assms in \<open>auto simp: find_work_None work_key_def\<close>)

lemma claim_eligible:
  assumes ok: "state_ok d" and w: "w \<in> set (db_works d)" "eligible d now w"
    and watch: "SourcePollSchedule \<in> set (wk_PendingSourceSet w) \<Longrightarrow>
      find_watch d (wk_RootID w) (wk_ScopeKey w) \<noteq> None"
  shows "\<exists>d'. ClaimWork (wk_RootID w) (wk_ScopeKey w) (wk_Version w) now d
    = (Inr ((claimed now w)\<lparr>wk_Version := wk_Version w + 1\<rparr>), d')"
proof -
  let ?rid = "wk_RootID w" and ?key = "wk_ScopeKey w"
  note f = find_work_member [OF ok w(1)]
  have row: "row_ok w" using ok w(1) by (simp add: state_ok_def)
  have p: "wk_WorkState w = WorkPending" using w(2) by (simp add: eligible_def)
  obtain r where r: "find_root d ?rid = Some r" "root_LifecycleState r = RootActive"
    using w(2) by (auto simp: eligible_def active_root_iff)
  have key: "ValidateScopeKey ?key = Inr ()" using row by (simp add: row_ok_def work_row_ok_def)
  have src: "wk_PendingSourceSet w \<noteq> []"
    using work_row_shape(3) [OF row_okD [OF row]] p by (simp add: c_dsw_state_shape_def)
  have nb: "\<not> (case wk_PendingNotBefore w of None \<Rightarrow> False | Some t \<Rightarrow> t > now)"
    using w(2) by (auto simp: eligible_def split: option.splits)
  have written: "\<exists>d'. writeWork (claimed now w) d1 = Inr ((claimed now w)\<lparr>wk_Version := wk_Version w + 1\<rparr>, d')"
    if "db_works d1 = db_works d" for d1
  proof -
    have "find_work d1 ?rid ?key = Some w" using f works_same(1) [OF that] by simp
    moreover have "wk_RootID (claimed now w) = ?rid" "wk_ScopeKey (claimed now w) = ?key"
      by (simp_all add: claimed_def)
    ultimately show ?thesis
      using writeWork_row [OF claimed_ok [OF row p, of now], of d1 w] row_ok_pos [OF row] by simp
  qed
  have bump: "\<exists>d1. watchBumpAttemptStart ?rid ?key now d = Inr d1 \<and> db_works d1 = db_works d"
    if "find_watch d ?rid ?key \<noteq> None"
  proof -
    from that obtain v where v: "find_watch d ?rid ?key = Some v" by blast
    have "\<And>c. c \<in> set (db_watches d) \<Longrightarrow> watch_ok c \<Longrightarrow> watch_key ?rid ?key c \<Longrightarrow>
        watch_ok ((sw_LastAttemptStartedAt_update (\<lambda>_. Some now) c)\<lparr>sw_Version := sw_Version c + 1\<rparr>) \<and>
        sw_RootID (sw_LastAttemptStartedAt_update (\<lambda>_. Some now) c) = ?rid \<and>
        sw_ScopeKey (sw_LastAttemptStartedAt_update (\<lambda>_. Some now) c) = ?key"
      using watch_ok_update(1) by (auto simp: watch_key_def)
    then obtain n d1 where u: "update_watch ?rid ?key (\<lambda>_. True)
        (sw_LastAttemptStartedAt_update (\<lambda>_. Some now)) d = Inr (n, d1)" "db_works d1 = db_works d"
        "n = length (filter (watch_key ?rid ?key) (db_watches d))"
      using update_watch_ok [OF ok, of ?rid ?key "\<lambda>_. True" "sw_LastAttemptStartedAt_update (\<lambda>_. Some now)"]
      by auto
    moreover have "n = 1"
      using filter_key_le_1 [of "db_watches d" v ?rid ?key] find_watch_Some [OF v] ok u(3)
      by (simp add: state_ok_def watch_key_def)
    ultimately show ?thesis by (simp add: watchBumpAttemptStart_def exactly_one_def)
  qed
  have "\<exists>d'. claim_row ?rid ?key w now d = Inr ((claimed now w)\<lparr>wk_Version := wk_Version w + 1\<rparr>, d')"
  proof (cases "SourcePollSchedule \<in> set (wk_PendingSourceSet w)")
    case True
    then obtain d1 where "watchBumpAttemptStart ?rid ?key now d = Inr d1" "db_works d1 = db_works d"
      using bump watch by blast
    then show ?thesis
      using True p nb src written [of d1] by (simp add: claim_row_def ContainsTriggerSource_def)
  qed (use p nb src written [of d] in \<open>simp add: claim_row_def ContainsTriggerSource_def\<close>)
  then obtain d' where "claim_row ?rid ?key w now d = Inr ((claimed now w)\<lparr>wk_Version := wk_Version w + 1\<rparr>, d')"
    by blast
  moreover have "state_err (ValidateScopeKey ?key) = Inr ()" using key by simp
  moreover have "lockRootForUpdate d ?rid = Inr RootActive" using r by (simp add: lockRootForUpdate_def)
  moreover have "found_work d ?rid ?key = Inr w" using f by (simp add: found_work_def loaded(1) [OF ok])
  ultimately have "ClaimWork ?rid ?key (wk_Version w) now d
      = (Inr ((claimed now w)\<lparr>wk_Version := wk_Version w + 1\<rparr>), d')"
    by (simp add: ClaimWork_def loaded(3) [OF ok] activeFromLifecycle_def)
  then show ?thesis by blast
qed

text \<open>
  C31: selection leads to a claim. The selector returns no item exactly when no pending item of an active
  root is eligible; otherwise it returns a stored eligible row of the highest waiting priority, and among
  those one seen first, and claiming that row at the returned version and the same instant succeeds,
  moving all its waiting sources into the claim. The one exception is an item raised by a poll whose watch
  does not exist.
\<close>
theorem selection_claims:
  assumes "fresh d0" and "wstep\<^sup>*\<^sup>* d0 d"
  shows "case NextEligiblePendingWork d now of
      Inl _ \<Rightarrow> False
    | Inr None \<Rightarrow> \<not> list_ex (eligible d now) (db_works d)
    | Inr (Some w) \<Rightarrow>
        find_work d (wk_RootID w) (wk_ScopeKey w) = Some w \<and> eligible d now w \<and>
        (\<forall>v\<in>set (db_works d). eligible d now v \<longrightarrow>
           priority_order (wk_PendingPriority v) \<le> priority_order (wk_PendingPriority w) \<and>
           (priority_order (wk_PendingPriority v) = priority_order (wk_PendingPriority w) \<longrightarrow>
              the (wk_PendingFirstSeenAt w) \<le> the (wk_PendingFirstSeenAt v))) \<and>
        ((SourcePollSchedule \<in> set (wk_PendingSourceSet w) \<and> find_watch d (wk_RootID w) (wk_ScopeKey w) = None) \<or>
         (\<exists>d'. ClaimWork (wk_RootID w) (wk_ScopeKey w) (wk_Version w) now d
           = (Inr ((claimed now w)\<lparr>wk_Version := wk_Version w + 1\<rparr>), d')))"
proof -
  have ok: "state_ok d" by (rule history_ok [OF assms])
  have seen: "\<exists>t. wk_PendingFirstSeenAt v = Some t" if "v \<in> set (db_works d)" "eligible d now v" for v
  proof -
    have "work_row_ok v" using ok that(1) by (simp add: state_ok_def row_okD)
    then show ?thesis using that(2) work_row_shape(2,3) [of v]
      by (auto simp: eligible_def c_dsw_pending_def c_dsw_state_shape_def split: if_splits)
  qed
  have order: "priority_order (wk_PendingPriority v) \<le> priority_order (wk_PendingPriority w) \<and>
      (priority_order (wk_PendingPriority v) = priority_order (wk_PendingPriority w) \<longrightarrow>
         the (wk_PendingFirstSeenAt w) \<le> the (wk_PendingFirstSeenAt v))"
    if le: "work_order w \<le> work_order v" and el: "w \<in> set (db_works d)" "eligible d now w"
      "v \<in> set (db_works d)" "eligible d now v" for v w
  proof -
    obtain t u where "wk_PendingFirstSeenAt w = Some t" "wk_PendingFirstSeenAt v = Some u"
      using seen el by blast
    then show ?thesis using le by (auto simp: work_order_def nulls_last_def less_eq_prod_def less_prod_def)
  qed
  from first_row_cases [OF ok, of work_order "eligible d now"] show ?thesis
  proof (elim disjE bexE conjE)
    fix w
    assume w: "w \<in> set (db_works d)" "first_row work_order (eligible d now) d = Inr (Some w)" "eligible d now w"
      "\<forall>v\<in>set (db_works d). eligible d now v \<longrightarrow> work_order w \<le> work_order v"
    have "(SourcePollSchedule \<in> set (wk_PendingSourceSet w) \<and> find_watch d (wk_RootID w) (wk_ScopeKey w) = None) \<or>
         (\<exists>d'. ClaimWork (wk_RootID w) (wk_ScopeKey w) (wk_Version w) now d
           = (Inr ((claimed now w)\<lparr>wk_Version := wk_Version w + 1\<rparr>), d'))"
      using claim_eligible [OF ok w(1,3)] by blast
    then show ?thesis
      unfolding NextEligiblePendingWork_def w(2)
      using find_work_member [OF ok w(1)] w order by auto
  qed (simp add: NextEligiblePendingWork_def list_ex_iff)
qed

theorem selection_claims_witness:
  "\<exists>w d'. NextEligiblePendingWork work_db3 400 = Inr (Some w) \<and> wk_ScopeKey w = ''/a/b'' \<and>
     ClaimWork ''r'' ''/a/b'' 1 400 work_db3 = (Inr ((claimed 400 w)\<lparr>wk_Version := 2\<rparr>), d')"
proof -
  have "map_sum id (map_option (\<lambda>w. (wk_RootID w, wk_ScopeKey w, wk_Version w, wk_PendingSourceSet w)))
      (NextEligiblePendingWork work_db3 400) = Inr (Some (''r'', ''/a/b'', 1, [SourceRecovery]))"
    by code_simp
  then obtain w where w: "NextEligiblePendingWork work_db3 400 = Inr (Some w)" "wk_RootID w = ''r''"
      "wk_ScopeKey w = ''/a/b''" "wk_Version w = 1" "wk_PendingSourceSet w = [SourceRecovery]"
    by (cases "NextEligiblePendingWork work_db3 400") auto
  then show ?thesis
    using selection_claims [OF sample_fresh sample_history(3), of 400] by auto
qed

section \<open>Recovery\<close>

lemma recovery_fields:
  assumes "row_ok w" and "in_flight w"
  shows "\<not> in_flight (recovery active w)"
    "set (wk_PendingSourceSet (recovery active w)) = set (set_of (wk_ClaimedSourceSet w)) \<union> set (wk_PendingSourceSet w)"
    "wk_ConsecutiveFailures (recovery active w) = wk_ConsecutiveFailures w"
    "wk_AttemptCount (recovery active w) = wk_AttemptCount w"
    "wk_SignalSeq (recovery active w) = wk_SignalSeq w"
    "wk_WorkState (recovery active w) = (if active then WorkPending else WorkSuspended)"
  by (rule restored_ok [OF assms];
      simp add: recovery_def recovered_row_def releaseClaim_def in_flight_def)+

text \<open>
  Recovery empties the claims of a crashed process. For a root that exists it reports the number of
  items that were in flight, and afterwards none is: each is runnable again, or suspended when the root is
  not active, with the sources of its claim and those that arrived meanwhile, the same signal sequence,
  and no failure counted. Items that were not in flight and other roots are untouched, and a second run
  recovers nothing and changes nothing.
\<close>
theorem recovery_idempotent:
  assumes "fresh d0" and "wstep\<^sup>*\<^sup>* d0 d" and "find_root d rid = Some r"
  shows "\<exists>d'. RecoverStaleInflight rid d = Inr (length (inflight d rid), d') \<and> inflight d' rid = [] \<and>
    RecoverStaleInflight rid d' = Inr (0, d') \<and>
    (\<forall>x k w. find_work d x k = Some w \<longrightarrow>
       (if x = rid \<and> wk_WorkState w = WorkInFlight
        then \<exists>w'. find_work d' x k = Some w' \<and>
          wk_WorkState w' = (if root_LifecycleState r = RootActive then WorkPending else WorkSuspended) \<and>
          set (wk_PendingSourceSet w') = set (set_of (wk_ClaimedSourceSet w)) \<union> set (wk_PendingSourceSet w) \<and>
          wk_SignalSeq w' = wk_SignalSeq w \<and> wk_ConsecutiveFailures w' = wk_ConsecutiveFailures w
        else find_work d' x k = Some w))"
proof -
  have ok: "state_ok d" by (rule history_ok [OF assms(1,2)])
  let ?a = "root_LifecycleState r = RootActive"
  obtain d' where d': "RecoverStaleInflight rid d = Inr (length (inflight d rid), d')" "progress d d'"
      "\<And>x k. find_work d' x k = (if x = rid then map_option (recover1 ?a) (find_work d x k) else find_work d x k)"
    using recovery_spec [OF ok assms(3)] by blast
  have ok': "state_ok d'" by (rule progress_ok [OF d'(2)])
  have rows: "row_ok w" if "find_work d x k = Some w" for x k w using loaded(2) [OF ok that] by blast
  have "\<not> flying d' rid k" for k
    using d'(3) [of rid k] rows recovery_fields(1)
    by (auto simp: flying_def recover1_def split: option.splits)
  then have none: "inflight d' rid = []" using inflight_keys(2) [OF ok', of rid] by simp
  have "find_root d' rid = Some r" using d'(2) assms(3) by (simp add: progress_def find_root_def)
  then have "RecoverStaleInflight rid d' = Inr (0, d')"
    by (simp add: RecoverStaleInflight_def lockRootForUpdate_def none sort_strings_def)
  moreover have "if x = rid \<and> wk_WorkState w = WorkInFlight
        then \<exists>w'. find_work d' x k = Some w' \<and> wk_WorkState w' = (if ?a then WorkPending else WorkSuspended) \<and>
          set (wk_PendingSourceSet w') = set (set_of (wk_ClaimedSourceSet w)) \<union> set (wk_PendingSourceSet w) \<and>
          wk_SignalSeq w' = wk_SignalSeq w \<and> wk_ConsecutiveFailures w' = wk_ConsecutiveFailures w
        else find_work d' x k = Some w"
    if w: "find_work d x k = Some w" for x k w
  proof (cases "x = rid \<and> wk_WorkState w = WorkInFlight")
    case True
    then have "in_flight w" by (simp add: in_flight_def)
    moreover from this have "find_work d' x k = Some (recovery ?a w)" using True w by (simp add: d'(3) recover1_def)
    ultimately show ?thesis using True recovery_fields [OF rows [OF w], of ?a] by (simp del: if_split)
  next
    case False
    then show ?thesis using w by (auto simp: d'(3) recover1_def in_flight_def)
  qed
  ultimately show ?thesis using d'(1) none by blast
qed

theorem recovery_idempotent_witness:
  "\<exists>d'. RecoverStaleInflight ''r'' work_db2 = Inr (1, d') \<and> RecoverStaleInflight ''r'' d' = Inr (0, d')"
proof -
  have "find_root work_db2 ''r'' = Some sample_work_root" "length (inflight work_db2 ''r'') = 1" by code_simp+
  then show ?thesis using recovery_idempotent [OF sample_fresh sample_history(2)] by fastforce
qed

section \<open>Failures\<close>

lemma CompleteFailure_row:
  assumes ok: "state_ok d" and step: "CompleteFailure rid key seq cls rnb now d = Inr (out, d')"
  obtains w b where "find_work d rid key = Some w" "restored w = Inr b" "find_work d' rid key = Some out"
    "out = (failed_row cls rnb now b)\<lparr>wk_Version := wk_Version w + 1\<rparr>"
    "TargetWorkState cls = WorkRetryWait \<Longrightarrow> \<exists>t. rnb = Some t \<and> now < t"
    "wk_PendingNotBefore b = wk_PendingNotBefore w" "state_ok d'"
proof -
  from step obtain w b d1 where
    w: "found_work d rid key = Inr w" and own: "owns w seq" and b: "restored w = Inr b"
    and d1: "(if ContainsTriggerSource (set_of (wk_ClaimedSourceSet w)) SourcePollSchedule
       then watchRecordFailure rid key cls (IsProviderFailure cls) now d else Inr d) = Inr d1"
    and out: "writeWork (failed_row cls rnb now b) d1 = Inr (out, d')"
    and cls: "ValidateErrorClass cls = Inr ()"
    and rnb: "TargetWorkState cls = WorkRetryWait \<Longrightarrow> \<exists>t. rnb = Some t \<and> now < t"
    unfolding CompleteFailure_def by (auto split: if_splits option.splits simp del: valid_enum_simps)
  have f: "find_work d rid key = Some w"
    using w by (auto simp: found_work_def loaded(1) [OF ok] split: option.splits)
  note lw = loaded(2) [OF ok f]
  have fl: "in_flight w" using own by (simp add: owns_def in_flight_def)
  obtain b' where b': "restored w = Inr b'" "row_ok (failed_row cls rnb now b')" "wk_RootID b' = wk_RootID w"
      "wk_ScopeKey b' = wk_ScopeKey w" "wk_PendingNotBefore b' = wk_PendingNotBefore w"
    using failed_ok [OF _ fl cls, of rnb now] lw rnb by (metis option.discI)
  have same: "db_works d1 = db_works d"
    using d1 watch_ops [OF ok, of "watchRecordFailure rid key cls (IsProviderFailure cls) now" rid key now] cls
    by (auto split: if_splits simp del: valid_enum_simps)
  have f1: "find_work d1 rid key = Some w" using f works_same(1) [OF same] by simp
  have key: "wk_RootID (failed_row cls rnb now b) = rid" "wk_ScopeKey (failed_row cls rnb now b) = key"
    using b b' lw by (simp_all add: failed_row_def)
  have row: "row_ok (failed_row cls rnb now b)" using b b' by simp
  have written: "out = (failed_row cls rnb now b)\<lparr>wk_Version := wk_Version w + 1\<rparr>" "d' = set_row out d1"
    using writeWork_row [OF row, of d1 w] f1 key row_ok_pos [of w] lw out by auto
  have "find_work d' rid key = Some out"
    unfolding written(2) by (subst find_set_row [of d1 out w]) (use f1 key written(1) in simp_all)
  moreover have "state_ok d'"
    using CompleteFailure_fine [OF ok, of rid key seq cls rnb now] step progress_ok by auto
  ultimately show ?thesis using that [OF f b] written(1) rnb b b' by simp
qed

text \<open>
  No tight retry. When a failed attempt is to be retried, the accepted delay lies in the future, the
  item waits at least until then and never less than a delay that arrived during the attempt, and until
  then neither the promotion to \<open>PENDING\<close> nor a claim succeeds, at any version.
\<close>
theorem retry_waits:
  assumes "fresh d0" and "wstep\<^sup>*\<^sup>* d0 d"
    and "CompleteFailure rid key seq cls rnb now d = Inr (out, d')" and "TargetWorkState cls = WorkRetryWait"
  shows "\<exists>t u. rnb = Some t \<and> now < t \<and> wk_PendingNotBefore out = Some u \<and> t \<le> u \<and>
    (\<forall>w v. find_work d rid key = Some w \<longrightarrow> wk_PendingNotBefore w = Some v \<longrightarrow> v \<le> u) \<and>
    (\<forall>ver now'. now' < u \<longrightarrow> (\<exists>e. RetryReady rid key ver now' d' = Inl e)) \<and>
    (\<forall>ver now'. \<exists>e. fst (ClaimWork rid key ver now' d') = Inl e)"
proof -
  have ok: "state_ok d" by (rule history_ok [OF assms(1,2)])
  obtain w b where wb: "find_work d rid key = Some w" "restored w = Inr b" "find_work d' rid key = Some out"
      "out = (failed_row cls rnb now b)\<lparr>wk_Version := wk_Version w + 1\<rparr>"
      "wk_PendingNotBefore b = wk_PendingNotBefore w" "state_ok d'" "\<exists>t. rnb = Some t \<and> now < t"
    using CompleteFailure_row [OF ok assms(3)] assms(4) by metis
  then obtain t where t: "rnb = Some t" "now < t" by blast
  have st: "wk_WorkState out = WorkRetryWait" using wb(4) assms(4) by (simp add: failed_row_def)
  have nb: "wk_PendingNotBefore out = MaxTimePtr [wk_PendingNotBefore w, Some t]"
    using wb(4,5) assms(4) t by (simp add: failed_row_def)
  then obtain u where u: "wk_PendingNotBefore out = Some u" "t \<le> u"
      "\<forall>v. wk_PendingNotBefore w = Some v \<longrightarrow> v \<le> u"
    by (cases "wk_PendingNotBefore w") auto
  have retry: "\<exists>e. RetryReady rid key ver now' d' = Inl e" if "now' < u" for ver now'
    using that wb(3) u(1) by (auto simp: RetryReady_def to_pending_def and_then_def cas_work_def split: sum.splits)
  have claim: "\<exists>e. fst (ClaimWork rid key ver now' d') = Inl e" for ver now'
    using wb(3) st by (auto simp: ClaimWork_def and_then_def found_work_def loaded [OF wb(6)] claim_row_def
        split: sum.splits if_splits)
  show ?thesis
  proof (intro exI conjI)
    show "rnb = Some t" "now < t" "wk_PendingNotBefore out = Some u" "t \<le> u" by fact+
    show "\<forall>w v. find_work d rid key = Some w \<longrightarrow> wk_PendingNotBefore w = Some v \<longrightarrow> v \<le> u"
      using wb(1) u(3) by simp
  qed (use retry claim in blast)+
qed

theorem retry_waits_witness:
  "\<exists>out d' u. CompleteFailure ''r'' ''/a'' 1 ErrorThrottled (Some 900) 300 work_db2 = Inr (out, d') \<and>
     wk_PendingNotBefore out = Some u \<and> 900 \<le> u"
proof -
  have "is_Inr (CompleteFailure ''r'' ''/a'' 1 ErrorThrottled (Some 900) 300 work_db2)" by code_simp
  then obtain out d' where step: "CompleteFailure ''r'' ''/a'' 1 ErrorThrottled (Some 900) 300 work_db2 = Inr (out, d')"
    by (auto simp: is_Inr_def split: sum.splits)
  from retry_waits [OF sample_fresh sample_history(2) this] show ?thesis using step by auto
qed

section \<open>Polls\<close>

lemma seconds_duration_small:
  assumes "0 \<le> n" and "n \<le> 9223372036"
  shows "seconds_duration n = n * second"
proof -
  have "word_of_int n * word_of_int second = (word_of_int (n * second) :: int64)" by simp
  then have "seconds_duration n = (n * second + 2 ^ 63) mod 2 ^ 64 - 2 ^ 63"
    unfolding seconds_duration_def by (simp only: int_word_sint) simp
  also have "(n * second + 2 ^ 63) mod 2 ^ 64 = n * second + 2 ^ 63"
    by (rule mod_pos_pos_trivial) (use assms in \<open>simp_all add: second_def\<close>)
  finally show ?thesis by simp
qed

text \<open>An interval one second longer wraps to a negative duration: the poll is due again at once.\<close>

lemma seconds_duration_wraps: "seconds_duration 9223372037 = - 9223372036709551616"
  by code_simp

lemma EmitDuePoll_row:
  assumes ok: "state_ok d" and step: "EmitDuePoll rid key ver now d = Inr (wk, d')"
    and w: "find_watch d rid key = Some w" "sw_EffectiveIntervalSeconds w = Some n"
  shows "find_watch d' rid key = Some (w\<lparr>sw_LastDueAt := Some now,
      sw_NextDueAt := Some (now + seconds_duration n), sw_Version := sw_Version w + 1\<rparr>)"
    and "\<exists>t. sw_NextDueAt w = Some t \<and> t \<le> now" and "state_ok d'"
proof -
  have scan: "scanWatch w = Inr w"
    using find_watch_Some [OF w(1)] ok by (simp add: state_ok_def watch_ok_def)
  from step obtain d1 m where v: "sw_Version w = ver" and due: "\<not> (case sw_NextDueAt w of None \<Rightarrow> True | Some t \<Rightarrow> t > now)"
    and m: "mergeSignalTx (poll_signal w now) True d = Inr (wk, d1)"
    and u: "update_watch rid key (\<lambda>c. sw_Version c = ver)
         (\<lambda>c. c\<lparr>sw_LastDueAt := Some now, sw_NextDueAt := Some (now + seconds_duration n)\<rparr>) d1 = Inr (m, d')"
    and sig: "ValidateScopeKey key = Inr ()" "find_root d rid \<noteq> None"
    unfolding EmitDuePoll_def
    by (auto simp: getWatchForUpdate_def w scan lockRootForUpdate_def split: if_splits option.splits)
  show "\<exists>t. sw_NextDueAt w = Some t \<and> t \<le> now" using due by (auto split: option.splits)
  have "signal_ok (poll_signal w now)"
    using find_watch_Some [OF w(1)] ok sig(1)
    by (auto simp: signal_ok_def validate_signal_def poll_signal_def state_ok_def watch_ok_def watch_row_ok_def)
  then have same: "db_watches d1 = db_watches d"
    using mergeSignalTx_ok [OF ok, of "poll_signal w now" True] m sig(2) find_watch_Some [OF w(1)]
    by (auto simp: poll_signal_def)
  have find: "List.find (watch_key rid key) (map (\<lambda>c. if watch_key rid key c \<and> sw_Version c = ver then g c else c) ws)
      = Some (g w)"
    if "List.find (watch_key rid key) ws = Some w" and g: "\<And>c. watch_key rid key (g c) = watch_key rid key c"
    for ws g
    using that(1) v by (induction ws) (auto simp: g split: if_splits)
  have wk: "List.find (watch_key rid key) (db_watches d) = Some w"
    using w(1) by (simp add: find_watch_def watch_key_def [abs_def])
  show "find_watch d' rid key = Some (w\<lparr>sw_LastDueAt := Some now,
      sw_NextDueAt := Some (now + seconds_duration n), sw_Version := sw_Version w + 1\<rparr>)"
    using u find [OF wk, of "\<lambda>c. c\<lparr>sw_LastDueAt := Some now, sw_NextDueAt := Some (now + seconds_duration n),
        sw_Version := sw_Version c + 1\<rparr>"]
    by (auto simp: update_watch_def Let_def same find_watch_def watch_key_def [abs_def] split: if_splits)
  show "state_ok d'" using EmitDuePoll_fine [OF ok, of rid key ver now] step progress_ok by auto
qed

text \<open>
  Polls keep their interval. After a due poll of a watch was emitted, no further poll of that watch is
  emitted before the interval has passed, at whatever version it is tried, and the watch records the
  instant of the poll and of the next one. This holds for intervals of up to 9223372036 seconds; the product with the length of a second in
  64-bit nanoseconds is exact up to there.
\<close>
theorem polls_keep_interval:
  assumes "fresh d0" and "wstep\<^sup>*\<^sup>* d0 d" and "EmitDuePoll rid key ver now d = Inr (wk, d')"
    and "find_watch d rid key = Some w" and "sw_EffectiveIntervalSeconds w = Some n" and "n \<le> 9223372036"
    and "now' < now + n * second"
  shows "(\<exists>e. EmitDuePoll rid key ver' now' d' = Inl e) \<and>
    map_option (\<lambda>v. (sw_LastDueAt v, sw_NextDueAt v)) (find_watch d' rid key) = Some (Some now, Some (now + n * second))"
proof -
  have ok: "state_ok d" by (rule history_ok [OF assms(1,2)])
  note row = EmitDuePoll_row [OF ok assms(3-5)]
  have "0 \<le> n"
    using find_watch_Some [OF assms(4)] ok assms(5)
    by (auto simp: state_ok_def watch_ok_def watch_row_ok_def)
  then have dur: "seconds_duration n = n * second" by (rule seconds_duration_small [OF _ assms(6)])
  have scan: "scanWatch v = Inr v" if "find_watch d' rid key = Some v" for v
    using find_watch_Some [OF that] row(3) by (simp add: state_ok_def watch_ok_def)
  have "\<exists>e. EmitDuePoll rid key ver' now' d' = Inl e"
    using assms(7) scan [OF row(1)] row(1)
    by (auto simp: EmitDuePoll_def getWatchForUpdate_def dur and_then_def split: sum.splits)
  then show ?thesis using row(1) dur by simp
qed

definition sample_watch :: ScopeWatchState where
  "sample_watch =
     \<lparr>sw_RootID = ''r'', sw_ScopeKey = ''/'', sw_WatchState = WatchHot, sw_CadenceClass = ''FAST'',
      sw_EffectiveIntervalSeconds = Some 60, sw_SourceSet = [WatchSourceOperatorPolicy],
      sw_Priority = PriorityNormal, sw_LastDueAt = None, sw_LastAttemptStartedAt = None,
      sw_LastAttemptFinishedAt = None, sw_LastSuccessAt = None, sw_NextDueAt = Some 50,
      sw_ConsecutiveFailures = 0, sw_LastErrorClass = None, sw_DeferredUntil = None, sw_Version = 1\<rparr>"

definition watch_db :: db where
  "watch_db = snd (whole (CreateWatch sample_watch) work_db0)"

theorem polls_keep_interval_witness:
  "\<exists>wk d' e. EmitDuePoll ''r'' ''/'' 1 100 watch_db = Inr (wk, d') \<and> EmitDuePoll ''r'' ''/'' 2 200 d' = Inl e"
proof -
  have "is_Inr (EmitDuePoll ''r'' ''/'' 1 100 watch_db)" by code_simp
  then obtain wk d' where step: "EmitDuePoll ''r'' ''/'' 1 100 watch_db = Inr (wk, d')"
    by (auto simp: is_Inr_def split: sum.splits)
  have h: "wstep\<^sup>*\<^sup>* work_db0 watch_db" unfolding watch_db_def by (rule r_into_rtranclp) (rule w_create_watch)
  have w: "find_watch watch_db ''r'' ''/'' = Some sample_watch" by code_simp
  have "sw_EffectiveIntervalSeconds sample_watch = Some 60" by (simp add: sample_watch_def)
  from polls_keep_interval [OF sample_fresh h step w this, of 200 2] step show ?thesis
    by (auto simp: second_def)
qed

section \<open>Children of a mirror\<close>

definition decided :: "MirrorDiscoveryStats \<Rightarrow> nat" where
  "decided s = NewChildren s + ChangedChildren s + VerifiedReused s + AlreadyQueued s + UnverifiedChildren s
     + ProtectedChildren s + UncertainChildren s + ExplicitChildren s"

definition handled :: "MirrorDiscoveryStats \<Rightarrow> nat" where
  "handled s = SignalsMerged s + VerifiedReused s + AlreadyQueued s"

lemma verdicts:
  "child_verdict work cov pf pr now \<in>
     {(True, VerifiedReused_update Suc), (True, AlreadyQueued_update Suc)} \<union>
     Pair False ` {NewChildren_update Suc, ChangedChildren_update Suc, UnverifiedChildren_update Suc,
       ProtectedChildren_update Suc, UncertainChildren_update Suc}"
proof (cases work)
  case (Some w)
  show ?thesis
    unfolding child_verdict_def Some option.case by (cases "wk_WorkState w") (simp_all del: Un_insert_left)
qed (simp add: child_verdict_def)

lemma counted_verdict:
  assumes "counted (child_verdict work cov p pr now) s = (skip, s')"
  shows "decided s' = decided s + 1" "handled s' = handled s + 1"
  using assms verdicts [of work cov p pr now]
  by (auto simp: counted_def decided_def handled_def)

lemma mirror_child_counts:
  assumes step: "mirror_child interval proofs rid child pr watch now s d = Inr ((skip, s'), d')"
  shows "decided s' = decided s + 1 \<and> handled s' = handled s + 1"
proof -
  define pf where "pf = (case map_of proofs child of None \<Rightarrow> no_proof | Some p \<Rightarrow> p)"
  consider "s' = SignalsMerged_update Suc (ExplicitChildren_update Suc s)"
    | "s' = SignalsMerged_update Suc (UncertainChildren_update Suc s)"
    | e work cov where "counted (child_verdict work cov pf pr now)
        (if e then WatchEnrolled_update Suc s else s) = (skip, s')"
    using step unfolding mirror_child_def Let_def pf_def [symmetric]
    by (cases "pr \<noteq> PriorityNormal"; cases "\<not> mp_valid pf \<or> mp_changedAt pf > now \<or> too_deep child")
       (auto simp: counted_def [of "(False, _)"])
  then show ?thesis
  proof cases
    case (3 e work cov)
    have "decided (if e then WatchEnrolled_update Suc s else s) = decided s"
      "handled (if e then WatchEnrolled_update Suc s else s) = handled s"
      by (simp_all add: decided_def handled_def)
    then show ?thesis using counted_verdict [OF 3] by simp
  qed (simp_all add: decided_def handled_def)
qed

lemma queue_children_counts:
  assumes "queue_children (Some (interval, proofs)) rid ps now children s d = Inr (s', d')"
  shows "decided s' = decided s + length children \<and> handled s' = handled s + length children"
  using assms
proof (induction children arbitrary: s d)
  case (Cons child rest)
  from Cons.prems obtain watch skip s1 d1 where
    1: "mirror_child interval proofs rid child (child_priority ps child) watch now s d = Inr ((skip, s1), d1)"
    and 2: "(if skip then queue_children (Some (interval, proofs)) rid ps now rest s1 d1
      else and_then (mergeSignalTx (child_signal rid child (child_priority ps child) now) True d1)
        (\<lambda>(_, d2). queue_children (Some (interval, proofs)) rid ps now rest s1 d2)) = Inr (s', d')"
    by auto
  from 2 obtain d2 where "queue_children (Some (interval, proofs)) rid ps now rest s1 d2 = Inr (s', d')"
    by (auto split: if_splits)
  from Cons.IH [OF this] mirror_child_counts [OF 1] show ?case by simp
qed simp

text \<open>
  The revisit policy accounts for every child. In a completion under the policy the eight categories
  partition the children that the scan reported, and every child either got a signal or was reused as
  verified or already queued; nothing is counted twice and nothing is dropped.
\<close>
theorem mirror_stats_partition:
  assumes "CompleteSuccessWithMirrorChildren changed rid key seq children ps now interval d = Inr ((out, s), d')"
  shows "NewChildren s + ChangedChildren s + VerifiedReused s + AlreadyQueued s + UnverifiedChildren s
      + ProtectedChildren s + UncertainChildren s + ExplicitChildren s = length children \<and>
    SignalsMerged s + VerifiedReused s + AlreadyQueued s = length children"
proof -
  from assms obtain d1 proofs where "queue_children (Some (interval, proofs)) rid ps now children no_stats d = Inr (s, d1)"
    by (auto simp: CompleteSuccessWithMirrorChildren_def completeDiscovery_def split: if_splits)
  from queue_children_counts [OF this] show ?thesis by (simp add: decided_def handled_def no_stats_def)
qed

theorem mirror_stats_partition_witness:
  "\<exists>out s d'. CompleteSuccessWithMirrorChildren (\<lambda>_. 0) ''r'' ''/a'' 1 [''/a/b'', ''/a/c''] ''/a/b'' 300 (60 * second) work_db2
      = Inr ((out, s), d') \<and> SignalsMerged s + VerifiedReused s + AlreadyQueued s = 2 \<and> ExplicitChildren s = 1"
proof -
  let ?r = "CompleteSuccessWithMirrorChildren (\<lambda>_. 0) ''r'' ''/a'' 1 [''/a/b'', ''/a/c''] ''/a/b'' 300 (60 * second) work_db2"
  have "(case ?r of Inl _ \<Rightarrow> False | Inr ((out, s), d') \<Rightarrow> ExplicitChildren s = 1)" by code_simp
  then obtain out s d' where step: "?r = Inr ((out, s), d')" and "ExplicitChildren s = 1"
    by (auto split: sum.splits)
  with mirror_stats_partition [OF step] show ?thesis by auto
qed

section \<open>Reclaimed work\<close>

text \<open>
  A claim is named by the signal sequence it covers. When a claim fails and the item is claimed again with
  no new signal, the new claim has the name of the failed one, so the completion of the first attempt is
  accepted against the second.
\<close>

definition reclaimed_db :: db where
  "reclaimed_db =
     (let d3 = snd (whole (CompleteFailure ''r'' ''/a'' 1 ErrorThrottled (Some 400) 300) work_db2);
          d4 = snd (whole (RetryReady ''r'' ''/a'' 3 500) d3)
      in snd (ClaimWork ''r'' ''/a'' 4 600 d4))"

lemma stale_completion_accepted:
  "map_option (\<lambda>w. (wk_ClaimedSignalSeq w, wk_AttemptCount w)) (find_work work_db2 ''r'' ''/a'') = Some (Some 1, 1)"
  "map_option (\<lambda>w. (wk_ClaimedSignalSeq w, wk_AttemptCount w)) (find_work reclaimed_db ''r'' ''/a'') = Some (Some 1, 2)"
  "is_Inr (CompleteSuccess ''r'' ''/a'' 1 700 reclaimed_db)"
  by code_simp+

end
