(* ===== verification/Executor.thy ===== *)
theory Executor
  imports WorkFlow Fence
begin

text \<open>
  The one-shot executor (\<open>incrementalexec/executor.go\<close>, \<open>first_discovery.go\<close>, \<open>config.go\<close>): it selects one
  eligible item, claims it, has its scope scanned once, and records the outcome. The scanner is an
  interface of the executor and an argument here, as are the clock, the cooldown of a source and what the
  other sessions do between two calls of the store. A call of the store can be cut short: it then reports
  the cancellation or the failure of the server, and its transaction may or may not have committed. The
  store is the one of this development, which has every optional interface the executor asks for. Times of
  log lines are left out.
\<close>

section \<open>Failures\<close>

datatype ctx_error = Canceled | DeadlineExceeded

text \<open>What the chain of an error holds for the callers that inspect it.\<close>

datatype cause = StoreErr store_error | CtxErr ctx_error | ServerErr

datatype fault = NoFault | Fault "ctx_error option" bool

definition cause_of :: "ctx_error option \<Rightarrow> cause" where
  "cause_of e = (case e of None \<Rightarrow> ServerErr | Some c \<Rightarrow> CtxErr c)"

definition store_call ::
  "fault \<Rightarrow> (db \<Rightarrow> (store_error + 'r) \<times> db) \<Rightarrow> db \<Rightarrow> (cause + 'r) \<times> db" where
  "store_call f tx d =
     (case f of
        NoFault \<Rightarrow> (map_sum StoreErr id (fst (tx d)), snd (tx d))
      | Fault e committed \<Rightarrow> (Inl (cause_of e), if committed then snd (tx d) else d))"

datatype ScopeFailureKind =
    ScopeFailureTransientProvider | ScopeFailureThrottled | ScopeFailureAuthOrPermission
  | ScopeFailureTooLarge | ScopeFailureInvalidScope | ScopeFailureRootInactive
  | ScopeFailureConfigInvalid | ScopeFailureInternal | OtherScopeFailure string

text \<open>An error of the scanner, by what \<open>errors.As\<close> and \<open>errors.Is\<close> find in it: a typed scope failure, a
  stale fetch, the failures of a batch of reads by scope, a cancellation.\<close>

record scan_error =
  se_Kind :: "ScopeFailureKind option"
  se_Stale :: bool
  se_Batch :: "(string \<times> ScopeFailureKind option) list option"
  se_Ctx :: "ctx_error option"

record scan_Result =
  sr_SnapshotID :: uuid
  sr_Outcome :: ReconcileOutcome
  sr_ChildScopes :: "string list"
  sr_MirrorPresence :: bool

datatype exec_error =
    ErrInvalidConfig
  | ErrNoEligibleWork
  | ErrStaleSelection
  | ErrScannerFailed ErrorClass
  | ErrCompletionFailed cause
  | ErrSelect cause
  | ErrClaim cause
  | ErrMissingSequence
  | ErrContext ctx_error
  | ErrScan scan_error
  | ErrCycle string

text \<open>\<open>errors.Is\<close> with one of the two errors of a context. The cause of a stale selection and of a
  scanner failure is formatted as text and is not part of the chain.\<close>

definition is_ctx :: "cause \<Rightarrow> bool" where
  "is_ctx c = (case c of CtxErr _ \<Rightarrow> True | _ \<Rightarrow> False)"

definition context_error :: "exec_error \<Rightarrow> bool" where
  "context_error e =
     (case e of
        ErrContext _ \<Rightarrow> True
      | ErrCompletionFailed c \<Rightarrow> is_ctx c
      | ErrSelect c \<Rightarrow> is_ctx c
      | ErrClaim c \<Rightarrow> is_ctx c
      | ErrScan s \<Rightarrow> se_Ctx s \<noteq> None
      | _ \<Rightarrow> False)"

section \<open>Configuration\<close>

record RetryPolicy =
  rp_TransientProvider :: duration
  rp_Throttled :: duration
  rp_Internal :: duration

definition DelayFor :: "RetryPolicy \<Rightarrow> ErrorClass \<Rightarrow> duration option" where
  "DelayFor p cls =
     (case cls of
        ErrorTransientProvider \<Rightarrow> Some (rp_TransientProvider p)
      | ErrorThrottled \<Rightarrow> Some (rp_Throttled p)
      | ErrorInternal \<Rightarrow> Some (rp_Internal p)
      | _ \<Rightarrow> None)"

definition retry_Validate :: "RetryPolicy \<Rightarrow> exec_error + unit" where
  "retry_Validate p =
     (if rp_TransientProvider p \<le> 0 then Inl ErrInvalidConfig
      else if rp_Throttled p \<le> 0 then Inl ErrInvalidConfig
      else if rp_Internal p \<le> 0 then Inl ErrInvalidConfig
      else Inr ())"

definition MaxScopedEntries :: int where
  "MaxScopedEntries = 10000"

record ExecConfig =
  xc_MaxEntriesPerScope :: int
  xc_DiscoveryScope :: string
  xc_FirstDiscoveryEnabled :: bool
  xc_MirrorRevisitInterval :: duration
  xc_Retry :: RetryPolicy

definition exec_Validate :: "ExecConfig \<Rightarrow> exec_error + unit" where
  "exec_Validate c =
     (if ValidateMirrorRevisit (xc_MirrorRevisitInterval c) \<noteq> Inr () then Inl ErrInvalidConfig
      else if xc_DiscoveryScope c \<noteq> [] \<and> ValidateScopeKey (xc_DiscoveryScope c) \<noteq> Inr () then Inl ErrInvalidConfig
      else if xc_MaxEntriesPerScope c < 0 \<or> xc_MaxEntriesPerScope c > MaxScopedEntries then Inl ErrInvalidConfig
      else retry_Validate (xc_Retry c))"

section \<open>Selection\<close>

definition SelectionPriorityFIFO :: string where
  "SelectionPriorityFIFO = ''PRIORITY_FIFO''"

definition SelectionFirstDiscovery :: string where
  "SelectionFirstDiscovery = ''FIRST_DISCOVERY''"

definition SelectionAgedBackground :: string where
  "SelectionAgedBackground = ''AGED_BACKGROUND''"

definition BackgroundAge :: duration where
  "BackgroundAge = 30 * second"

record selectionWindow =
  win_selected :: int
  win_fastLimit :: int
  win_fastRoots :: "uuid list"
  win_fastExhausted :: bool

text \<open>The part of the executor that changes: the cursor of the cooldown rotation, and the planning window
  that the context of a cycle carries.\<close>

record planner =
  pl_cursor :: string
  pl_window :: "selectionWindow option"

definition PrepareCycle :: "ExecConfig \<Rightarrow> int \<Rightarrow> planner \<Rightarrow> exec_error + planner" where
  "PrepareCycle cfg maxItems pl =
     (if \<not> xc_FirstDiscoveryEnabled cfg then Inr (pl\<lparr>pl_window := None\<rparr>)
      else if maxItems < 3 then Inl (ErrCycle ''first discovery requires cycle max_items >= 3'')
      else Inr (pl\<lparr>pl_window := Some \<lparr>win_selected = 0,
             win_fastLimit = (if maxItems - 2 > 2 then 2 else maxItems - 2),
             win_fastRoots = [], win_fastExhausted = False\<rparr>\<rparr>))"

text \<open>The window with a selection decided, or \<open>None\<close> when the selection falls through to the queue.\<close>

definition select_window ::
  "gotime \<Rightarrow> db \<Rightarrow> selectionWindow \<Rightarrow> (store_error + DirtyScopeWork \<times> string) option \<times> selectionWindow" where
  "select_window now d w =
     (case (if win_selected w = 0 then NextAgedBackgroundWork d now (now - BackgroundAge) else Inr None) of
        Inl e \<Rightarrow> (Some (Inl e), w)
      | Inr (Some item) \<Rightarrow> (Some (Inr (item, SelectionAgedBackground)), w)
      | Inr None \<Rightarrow>
          if \<not> win_fastExhausted w \<and> int (length (win_fastRoots w)) < win_fastLimit w
          then (case NextFirstDiscoveryWork d now (win_fastRoots w) of
                  Inl e \<Rightarrow> (Some (Inl e), w)
                | Inr (Some item) \<Rightarrow> (Some (Inr (item, SelectionFirstDiscovery)), w)
                | Inr None \<Rightarrow> (None, w\<lparr>win_fastExhausted := True\<rparr>))
          else (None, w))"

definition selectWork ::
  "ExecConfig \<Rightarrow> gotime \<Rightarrow> db \<Rightarrow> planner \<Rightarrow> (store_error + DirtyScopeWork option \<times> string) \<times> planner" where
  "selectWork cfg now d pl =
     (let (early, pl') =
        (case pl_window pl of
           None \<Rightarrow> (None, pl)
         | Some w \<Rightarrow>
             if xc_FirstDiscoveryEnabled cfg
             then (let (r, w') = select_window now d w in (r, pl\<lparr>pl_window := Some w'\<rparr>))
             else (None, pl))
      in case early of
           Some r \<Rightarrow> (map_sum id (\<lambda>(item, cls). (Some item, cls)) r, pl')
         | None \<Rightarrow> (map_sum id (\<lambda>found. (found, SelectionPriorityFIFO)) (NextEligiblePendingWork d now), pl'))"

definition recordSelection :: "string \<Rightarrow> string \<Rightarrow> planner \<Rightarrow> planner" where
  "recordSelection rid cls pl =
     (case pl_window pl of
        None \<Rightarrow> pl
      | Some w \<Rightarrow>
          pl\<lparr>pl_window := Some (w\<lparr>win_selected := win_selected w + 1,
            win_fastRoots := (if cls = SelectionFirstDiscovery then win_fastRoots w @ [rid]
                              else win_fastRoots w)\<rparr>)\<rparr>)"

text \<open>The fair selection across roots (\<open>pool_fair.go\<close>): roots after the cursor first, then by root, and
  within a root by priority and age.\<close>

definition fair_rank :: "Priority option \<Rightarrow> int" where
  "fair_rank p = (if p = Some PriorityHigh then 0 else if p = Some PriorityNormal then 1 else 2)"

definition fair_order :: "string \<Rightarrow> DirtyScopeWork \<Rightarrow> bool \<times> uuid \<times> int \<times> (bool \<times> gotime) \<times> string" where
  "fair_order after w =
     (\<not> wk_RootID w > after, wk_RootID w, fair_rank (wk_PendingPriority w),
      nulls_last (wk_PendingFirstSeenAt w), wk_ScopeKey w)"

definition NextPoolFairWork ::
  "db \<Rightarrow> gotime \<Rightarrow> string \<Rightarrow> uuid list \<Rightarrow> store_error + DirtyScopeWork option" where
  "NextPoolFairWork d now after excluded =
     (if length excluded > 8 then Inl (ErrRefused ''pool excluded root bound'')
      else first_row (fair_order after) (\<lambda>w. eligible d now w \<and> wk_RootID w \<notin> set excluded) d)"

text \<open>The search for a root whose source is not cooling down. The first argument is the number of
  exclusions left of eight, so that its zero is not reached.\<close>

fun ready_loop ::
  "nat \<Rightarrow> (uuid \<Rightarrow> cause + gotime) \<Rightarrow> gotime \<Rightarrow> db \<Rightarrow> uuid list \<Rightarrow> DirtyScopeWork option \<Rightarrow> string \<Rightarrow> string
     \<Rightarrow> (cause + DirtyScopeWork option \<times> string) \<times> string" where
  "ready_loop 0 available now d excluded found cls cursor = (Inr (None, cls), cursor)"
| "ready_loop (Suc left) available now d excluded found cls cursor =
     (case found of
        None \<Rightarrow> (Inr (None, cls), cursor)
      | Some w \<Rightarrow>
          (case available (wk_RootID w) of
             Inl e \<Rightarrow> (Inl e, cursor)
           | Inr ready \<Rightarrow>
               if \<not> ready > now then (Inr (Some w, cls), cursor)
               else let excluded' = excluded @ [wk_RootID w];
                        cursor' = (if cursor = [] then wk_RootID w else cursor)
                    in if length excluded' = 8 then (Inr (None, cls), cursor')
                       else case NextPoolFairWork d now cursor' excluded' of
                              Inl e \<Rightarrow> (Inl (StoreErr e), cursor')
                            | Inr found' \<Rightarrow>
                                ready_loop left available now d excluded' found' ''SOURCE_COOLDOWN_SKIP''
                                  (case found' of None \<Rightarrow> cursor' | Some w' \<Rightarrow> wk_RootID w')))"

definition readySelection ::
  "(uuid \<Rightarrow> cause + gotime) option \<Rightarrow> gotime \<Rightarrow> db \<Rightarrow> DirtyScopeWork option \<times> string \<Rightarrow> planner
     \<Rightarrow> (cause + DirtyScopeWork option \<times> string) \<times> planner" where
  "readySelection available now d sel pl =
     (case available of
        None \<Rightarrow> (Inr sel, pl)
      | Some f \<Rightarrow>
          let (r, cursor) = ready_loop 8 f now d [] (fst sel) (snd sel) (pl_cursor pl)
          in (r, pl\<lparr>pl_cursor := cursor\<rparr>))"

section \<open>One item\<close>

record exec_Result =
  xr_Discovery :: MirrorDiscoveryStats
  xr_SelectionClass :: string
  xr_Selected :: bool
  xr_RootID :: uuid
  xr_ScopeKey :: string
  xr_SelectedVersion :: int
  xr_ClaimedSignalSeq :: int
  xr_SnapshotID :: string
  xr_FinalWorkState :: "WorkState option"
  xr_FailureClass :: "ErrorClass option"

definition no_item :: exec_Result where
  "no_item =
     \<lparr>xr_Discovery = no_stats, xr_SelectionClass = [], xr_Selected = False, xr_RootID = [], xr_ScopeKey = [],
      xr_SelectedVersion = 0, xr_ClaimedSignalSeq = 0, xr_SnapshotID = [], xr_FinalWorkState = None,
      xr_FailureClass = None\<rparr>"

text \<open>The surroundings of one invocation: the clock at the selection and at the completion, the cooldown of
  a root's source and its retry floor, the scanner, the state of the context after the scan, the failures
  of the store calls, what other sessions commit before the claim and before the completion, and the audit
  times of the canonical rows.\<close>

record exec_env =
  xe_now :: gotime
  xe_finish :: gotime
  xe_available :: "(uuid \<Rightarrow> cause + gotime) option"
  xe_retryFloor :: "(uuid \<Rightarrow> gotime) option"
  xe_scan :: "DirtyScopeWork \<Rightarrow> int \<Rightarrow> db \<Rightarrow> (scan_error + scan_Result) \<times> db"
  xe_ctx :: "ctx_error option"
  xe_read :: fault
  xe_claim :: fault
  xe_complete :: fault
  xe_before_claim :: "db \<Rightarrow> db"
  xe_before_complete :: "db \<Rightarrow> db"
  xe_changed :: "CanonicalResource \<Rightarrow> gotime"

definition select_item ::
  "ExecConfig \<Rightarrow> exec_env \<Rightarrow> planner \<Rightarrow> db \<Rightarrow> (cause + DirtyScopeWork option \<times> string) \<times> planner" where
  "select_item cfg ev pl d =
     (case xe_read ev of
        Fault e _ \<Rightarrow> (Inl (cause_of e), pl)
      | NoFault \<Rightarrow>
          (case selectWork cfg (xe_now ev) d pl of
             (Inl e, pl') \<Rightarrow> (Inl (StoreErr e), pl')
           | (Inr sel, pl') \<Rightarrow> readySelection (xe_available ev) (xe_now ev) d sel pl'))"

definition selected_result :: "DirtyScopeWork \<Rightarrow> string \<Rightarrow> exec_Result" where
  "selected_result w cls =
     no_item\<lparr>xr_SelectionClass := cls, xr_Selected := True, xr_RootID := wk_RootID w,
       xr_ScopeKey := wk_ScopeKey w, xr_SelectedVersion := wk_Version w\<rparr>"

definition claimSelected ::
  "fault \<Rightarrow> DirtyScopeWork \<Rightarrow> string \<Rightarrow> gotime \<Rightarrow> planner \<Rightarrow> db
     \<Rightarrow> (exec_Result \<times> (exec_error + DirtyScopeWork)) \<times> planner \<times> db" where
  "claimSelected f w cls now pl d =
     (let res = selected_result w cls;
          (r, d') = store_call f (ClaimWork (wk_RootID w) (wk_ScopeKey w) (wk_Version w) now) d
      in case r of
           Inl c \<Rightarrow> ((res, Inl (if c = StoreErr ErrStateCASConflict then ErrStaleSelection else ErrClaim c)), pl, d')
         | Inr wk \<Rightarrow>
             (case wk_ClaimedSignalSeq wk of
                None \<Rightarrow> ((res, Inl ErrMissingSequence), pl, d')
              | Some q \<Rightarrow>
                  ((res\<lparr>xr_ClaimedSignalSeq := q\<rparr>, Inr wk), recordSelection (wk_RootID wk) cls pl, d')))"

definition MapScopeFailure :: "ScopeFailureKind option \<Rightarrow> ErrorClass" where
  "MapScopeFailure k =
     (case k of
        Some ScopeFailureTransientProvider \<Rightarrow> ErrorTransientProvider
      | Some ScopeFailureThrottled \<Rightarrow> ErrorThrottled
      | Some ScopeFailureAuthOrPermission \<Rightarrow> ErrorAuthOrPermission
      | Some ScopeFailureTooLarge \<Rightarrow> ErrorScopeTooLarge
      | Some ScopeFailureInvalidScope \<Rightarrow> ErrorInvalidScope
      | Some ScopeFailureRootInactive \<Rightarrow> ErrorRootInactive
      | Some ScopeFailureConfigInvalid \<Rightarrow> ErrorConfigInvalid
      | Some ScopeFailureInternal \<Rightarrow> ErrorInternal
      | _ \<Rightarrow> ErrorInternal)"

definition verifiesCoverage :: "AdmissionStatus \<Rightarrow> bool" where
  "verifiesCoverage s \<longleftrightarrow> s = AdmissionApplied \<or> s = AdmissionNoop"

definition retryEligibility :: "ExecConfig \<Rightarrow> ErrorClass \<Rightarrow> gotime \<Rightarrow> gotime option" where
  "retryEligibility cfg cls now = map_option (\<lambda>delay. now + delay) (DelayFor (xc_Retry cfg) cls)"

definition retry_at :: "ExecConfig \<Rightarrow> (uuid \<Rightarrow> gotime) option \<Rightarrow> uuid \<Rightarrow> ErrorClass \<Rightarrow> gotime \<Rightarrow> gotime option" where
  "retry_at cfg floor_of rid cls now =
     (case (retryEligibility cfg cls now, floor_of) of
        (Some t, Some f) \<Rightarrow> Some (if f rid > t then f rid else t)
      | (r, _) \<Rightarrow> r)"

definition claim_seq :: "DirtyScopeWork \<Rightarrow> int" where
  "claim_seq wk = (case wk_ClaimedSignalSeq wk of None \<Rightarrow> 0 | Some q \<Rightarrow> q)"

definition completeFailure ::
  "ExecConfig \<Rightarrow> exec_env \<Rightarrow> exec_Result \<Rightarrow> DirtyScopeWork \<Rightarrow> ErrorClass \<Rightarrow> db
     \<Rightarrow> (exec_Result \<times> exec_error option) \<times> db" where
  "completeFailure cfg ev res wk cls d =
     (let now = xe_finish ev;
          due = retry_at cfg (xe_retryFloor ev) (wk_RootID wk) cls now;
          (r, d') = store_call (xe_complete ev)
            (whole (CompleteFailure (wk_RootID wk) (wk_ScopeKey wk) (claim_seq wk) cls due now)) d
      in case r of
           Inl c \<Rightarrow> ((res, Some (ErrCompletionFailed c)), d')
         | Inr out \<Rightarrow>
             ((res\<lparr>xr_FailureClass := Some cls, xr_FinalWorkState := Some (wk_WorkState out)\<rparr>,
               Some (ErrScannerFailed cls)), d'))"

definition child_ok :: "string \<Rightarrow> string \<Rightarrow> bool" where
  "child_ok parent child \<longleftrightarrow> ValidateScopeKey child = Inr () \<and> path_dir child = parent"

definition shallow :: "string \<Rightarrow> string \<Rightarrow> bool" where
  "shallow pre child \<longleftrightarrow> length (split_on CHR ''/'' (trim_prefix child (trim_suffix pre ''/'' @ ''/''))) \<le> 8"

definition keep_child :: "string \<Rightarrow> string list \<Rightarrow> string \<Rightarrow> string list" where
  "keep_child pre kept child = (if shallow pre child \<and> child \<notin> set kept then kept @ [child] else kept)"

definition discoveryChildren :: "string \<Rightarrow> string \<Rightarrow> string list \<Rightarrow> string list option" where
  "discoveryChildren pre parent observed =
     (if pre = [] \<or> (parent \<noteq> pre \<and> \<not> has_prefix parent (trim_suffix pre ''/'' @ ''/'')) then Some []
      else if int (length observed) > MaxScopedEntries then None
      else if \<not> list_all (child_ok parent) observed then None
      else Some (foldl (keep_child pre) [] observed))"

definition complete_success ::
  "ExecConfig \<Rightarrow> exec_env \<Rightarrow> DirtyScopeWork \<Rightarrow> bool \<Rightarrow> string list \<Rightarrow> db
     \<Rightarrow> (cause + DirtyScopeWork \<times> MirrorDiscoveryStats) \<times> db" where
  "complete_success cfg ev wk mirror children d =
     (if children \<noteq> [] \<and> mirror \<and> xc_MirrorRevisitInterval cfg > 0
      then store_call (xe_complete ev) (whole (CompleteSuccessWithMirrorChildren (xe_changed ev) (wk_RootID wk)
        (wk_ScopeKey wk) (claim_seq wk) children (xc_DiscoveryScope cfg) (xe_finish ev)
        (xc_MirrorRevisitInterval cfg))) d
      else let tx = (if children \<noteq> []
             then CompleteSuccessWithPrioritizedChildren (wk_RootID wk) (wk_ScopeKey wk) (claim_seq wk)
               children (xc_DiscoveryScope cfg) (xe_finish ev)
             else CompleteSuccess (wk_RootID wk) (wk_ScopeKey wk) (claim_seq wk) (xe_finish ev))
           in (case store_call (xe_complete ev) (whole tx) d of
                 (r, d') \<Rightarrow> (map_sum id (\<lambda>out. (out, no_stats)) r, d')))"

definition completeScan ::
  "ExecConfig \<Rightarrow> exec_env \<Rightarrow> exec_Result \<Rightarrow> DirtyScopeWork \<Rightarrow> scan_error + scan_Result \<Rightarrow> db
     \<Rightarrow> (exec_Result \<times> exec_error option) \<times> db" where
  "completeScan cfg ev res wk scanned d =
     (case xe_ctx ev of
        Some e \<Rightarrow> ((res, Some (ErrContext e)), d)
      | None \<Rightarrow>
          (case scanned of
             Inl e \<Rightarrow> completeFailure cfg ev res wk (MapScopeFailure (se_Kind e)) d
           | Inr sr \<Rightarrow>
               let res = res\<lparr>xr_SnapshotID := sr_SnapshotID sr\<rparr>
               in if \<not> verifiesCoverage (oc_Status (sr_Outcome sr))
                  then completeFailure cfg ev res wk ErrorInternal d
                  else (case discoveryChildren (if sr_MirrorPresence sr then ''/'' else xc_DiscoveryScope cfg)
                              (wk_ScopeKey wk) (sr_ChildScopes sr) of
                          None \<Rightarrow> completeFailure cfg ev res wk ErrorInternal d
                        | Some children \<Rightarrow>
                            (case complete_success cfg ev wk (sr_MirrorPresence sr) children d of
                               (Inl c, d') \<Rightarrow> ((res, Some (ErrCompletionFailed c)), d')
                             | (Inr (out, stats), d') \<Rightarrow>
                                 ((res\<lparr>xr_Discovery := stats, xr_FinalWorkState := Some (wk_WorkState out)\<rparr>, None),
                                  d')))))"

definition scan_and_complete ::
  "ExecConfig \<Rightarrow> exec_env \<Rightarrow> exec_Result \<Rightarrow> DirtyScopeWork \<Rightarrow> db \<Rightarrow> (exec_Result \<times> exec_error option) \<times> db" where
  "scan_and_complete cfg ev res wk d =
     (case xe_scan ev wk (xc_MaxEntriesPerScope cfg) d of
        (scanned, d') \<Rightarrow> completeScan cfg ev res wk scanned (xe_before_complete ev d'))"

definition ExecuteOne ::
  "ExecConfig \<Rightarrow> exec_env \<Rightarrow> planner \<Rightarrow> db \<Rightarrow> (exec_Result \<times> exec_error option) \<times> planner \<times> db" where
  "ExecuteOne cfg ev pl d =
     (case exec_Validate cfg of
        Inl e \<Rightarrow> ((no_item, Some e), pl, d)
      | Inr _ \<Rightarrow>
          (case select_item cfg ev pl d of
             (Inl c, pl') \<Rightarrow> ((no_item, Some (ErrSelect c)), pl', d)
           | (Inr (None, _), pl') \<Rightarrow> ((no_item, Some ErrNoEligibleWork), pl', d)
           | (Inr (Some w, cls), pl') \<Rightarrow>
               (case claimSelected (xe_claim ev) w cls (xe_now ev) pl' (xe_before_claim ev d) of
                  ((res, Inl e), pl'', d') \<Rightarrow> ((res, Some e), pl'', d')
                | ((res, Inr wk), pl'', d') \<Rightarrow>
                    (case scan_and_complete cfg ev res wk d' of (out, d'') \<Rightarrow> (out, pl'', d'')))))"

end
