(* ===== verification/Cycle.thy ===== *)
theory Cycle
  imports Executor
begin

text \<open>
  The bounded cycles above the executor: the serial cycle (\<open>incrementalexec/cycle.go\<close>), the orchestration
  that first emits the due polls (\<open>incrementalorch\<close>), and the runtime that repeats it
  (\<open>incrementalruntime\<close>): promotion of due retries, recovery of interrupted claims, the burst gate and
  the coalesced wake reasons. The state of a context is read at fixed points; its value there is an
  argument. The timer, the channel and the logger are left out.
\<close>

section \<open>The serial cycle\<close>

definition MaxCycleItems :: int where
  "MaxCycleItems = 5"

definition MaxCycleWallTime :: duration where
  "MaxCycleWallTime = 60 * second"

record CycleConfig =
  cc_ReadWorkers :: int
  cc_MaxItems :: int
  cc_MaxWallTime :: duration

definition cycle_Validate :: "CycleConfig \<Rightarrow> exec_error + unit" where
  "cycle_Validate c =
     (let pooled = (cc_ReadWorkers c \<noteq> 0 \<and> cc_ReadWorkers c \<noteq> 1);
          bound = (if pooled then 8 else MaxCycleItems)
      in if pooled \<and> cc_ReadWorkers c \<noteq> 2 \<and> cc_ReadWorkers c \<noteq> 4 \<and> cc_ReadWorkers c \<noteq> 8
         then Inl ErrInvalidConfig
         else if cc_MaxItems c < 1 \<or> cc_MaxItems c > bound then Inl ErrInvalidConfig
         else if cc_MaxWallTime c \<le> 0 \<or> cc_MaxWallTime c > MaxCycleWallTime then Inl ErrInvalidConfig
         else Inr ())"

datatype StopReason =
    StopNone | StopNoEligibleWork | StopMaxItems | StopMaxWallTime | StopStaleSelection
  | StopInternalItemFailure | StopSystemicError | StopContextCancelled

record CycleResult =
  cy_StopReason :: StopReason
  cy_Invocations :: int
  cy_SelectedItems :: int
  cy_Succeeded :: int
  cy_Failed :: int
  cy_Last :: exec_Result
  cy_InterruptedInFlight :: bool
  cy_InterruptedRoots :: "uuid list"

definition no_cycle :: CycleResult where
  "no_cycle =
     \<lparr>cy_StopReason = StopNone, cy_Invocations = 0, cy_SelectedItems = 0, cy_Succeeded = 0, cy_Failed = 0,
      cy_Last = no_item, cy_InterruptedInFlight = False, cy_InterruptedRoots = []\<rparr>"

definition stop :: "StopReason \<Rightarrow> CycleResult \<Rightarrow> CycleResult" where
  "stop reason r = r\<lparr>cy_StopReason := reason\<rparr>"

text \<open>The states of the parent context and of the cycle's own context, before and after an item.\<close>

record item_ctx =
  ic_parent :: "ctx_error option"
  ic_cycle :: bool
  ic_parent_after :: "ctx_error option"
  ic_cycle_after :: bool

text \<open>The boundary checks before an item: the answer when the cycle ends here.\<close>

definition boundary :: "CycleConfig \<Rightarrow> item_ctx \<Rightarrow> CycleResult \<Rightarrow> (CycleResult \<times> exec_error option) option" where
  "boundary cfg ic res =
     (case ic_parent ic of
        Some e \<Rightarrow> Some (stop StopContextCancelled res, Some (ErrContext e))
      | None \<Rightarrow>
          if cy_SelectedItems res \<ge> cc_MaxItems cfg then Some (stop StopMaxItems res, None)
          else if ic_cycle ic then Some (stop StopMaxWallTime res, None)
          else None)"

definition count_item :: "exec_Result \<Rightarrow> CycleResult \<Rightarrow> CycleResult" where
  "count_item item res =
     (let res = res\<lparr>cy_Invocations := cy_Invocations res + 1\<rparr>
      in if xr_Selected item
         then res\<lparr>cy_SelectedItems := cy_SelectedItems res + 1, cy_Last := item\<rparr> else res)"

text \<open>The classification of an item: the cycle goes on, or ends with an answer.\<close>

datatype verdict = Continue CycleResult | Finish CycleResult "exec_error option"

definition is_scanner_failure :: "exec_error \<Rightarrow> bool" where
  "is_scanner_failure e = (case e of ErrScannerFailed _ \<Rightarrow> True | _ \<Rightarrow> False)"

definition classify :: "item_ctx \<Rightarrow> exec_Result \<Rightarrow> exec_error option \<Rightarrow> CycleResult \<Rightarrow> verdict" where
  "classify ic item err res =
     (let interrupted = res\<lparr>cy_InterruptedInFlight := (xr_ClaimedSignalSeq item > 0)\<rparr>
      in case err of
           None \<Rightarrow> Continue (res\<lparr>cy_Succeeded := cy_Succeeded res + 1\<rparr>)
         | Some e \<Rightarrow>
             (case ic_parent_after ic of
                Some p \<Rightarrow> Finish (stop StopContextCancelled interrupted) (Some (ErrContext p))
              | None \<Rightarrow>
                  if e = ErrNoEligibleWork then Finish (stop StopNoEligibleWork res) None
                  else if e = ErrStaleSelection then Finish (stop StopStaleSelection res) (Some e)
                  else if is_scanner_failure e
                  then (case xr_FailureClass item of
                          None \<Rightarrow> Finish (stop StopSystemicError res) (Some e)
                        | Some ErrorInternal \<Rightarrow>
                            Finish (stop StopInternalItemFailure (res\<lparr>cy_Failed := cy_Failed res + 1\<rparr>)) (Some e)
                        | Some (OtherErrorClass _) \<Rightarrow> Finish (stop StopSystemicError res) (Some e)
                        | Some _ \<Rightarrow> Continue (res\<lparr>cy_Failed := cy_Failed res + 1\<rparr>))
                  else if context_error e
                  then (if \<not> ic_cycle_after ic then Finish (stop StopSystemicError res) (Some e)
                        else Finish (stop StopMaxWallTime interrupted) None)
                  else Finish (stop StopSystemicError res) (Some e)))"

text \<open>The loop over items. The executor is an interface: its \<open>k\<close>-th invocation maps its private state and
  the database to an answer. The fuel bounds the number of invocations.\<close>

fun cycle_loop ::
  "nat \<Rightarrow> CycleConfig \<Rightarrow> (nat \<Rightarrow> item_ctx) \<Rightarrow> (nat \<Rightarrow> 's \<Rightarrow> db \<Rightarrow> (exec_Result \<times> exec_error option) \<times> 's \<times> db)
     \<Rightarrow> nat \<Rightarrow> CycleResult \<Rightarrow> 's \<Rightarrow> db \<Rightarrow> ((CycleResult \<times> exec_error option) \<times> 's \<times> db) option" where
  "cycle_loop 0 cfg ctx one k res s d = None"
| "cycle_loop (Suc fuel) cfg ctx one k res s d =
     (case boundary cfg (ctx k) res of
        Some out \<Rightarrow> Some (out, s, d)
      | None \<Rightarrow>
          (case one k s d of
             ((item, err), s', d') \<Rightarrow>
               (case classify (ctx k) item err (count_item item res) of
                  Continue res' \<Rightarrow> cycle_loop fuel cfg ctx one (Suc k) res' s' d'
                | Finish res' e \<Rightarrow> Some ((res', e), s', d'))))"

definition Run ::
  "nat \<Rightarrow> CycleConfig \<Rightarrow> (CycleConfig \<Rightarrow> 's \<Rightarrow> exec_error + 's) \<Rightarrow> (nat \<Rightarrow> item_ctx)
     \<Rightarrow> (nat \<Rightarrow> 's \<Rightarrow> db \<Rightarrow> (exec_Result \<times> exec_error option) \<times> 's \<times> db) \<Rightarrow> 's \<Rightarrow> db
     \<Rightarrow> ((CycleResult \<times> exec_error option) \<times> 's \<times> db) option" where
  "Run fuel cfg prepare ctx one s d =
     (case cycle_Validate cfg of
        Inl e \<Rightarrow> Some ((no_cycle, Some e), s, d)
      | Inr _ \<Rightarrow>
          (case prepare cfg s of
             Inl e \<Rightarrow> Some ((stop StopSystemicError no_cycle, Some e), s, d)
           | Inr s' \<Rightarrow> cycle_loop fuel cfg ctx one 0 no_cycle s' d))"

text \<open>The cycle of the executor of this development.\<close>

definition serial_cycle ::
  "ExecConfig \<Rightarrow> (nat \<Rightarrow> item_ctx) \<Rightarrow> (nat \<Rightarrow> exec_env) \<Rightarrow> CycleConfig \<Rightarrow> planner \<Rightarrow> db
     \<Rightarrow> ((CycleResult \<times> exec_error option) \<times> planner \<times> db) option" where
  "serial_cycle xc ctx evs cfg pl d =
     Run (Suc (nat (cc_MaxItems cfg))) cfg (\<lambda>c. PrepareCycle xc (cc_MaxItems c)) ctx
       (\<lambda>k. ExecuteOne xc (evs k)) pl d"

section \<open>Orchestration\<close>

definition MaxDueWatchAttemptsCap :: int where
  "MaxDueWatchAttemptsCap = 5"

record OrchConfig =
  og_ReadWorkers :: int
  og_MirrorRevisitEnabled :: bool
  og_MaxDueWatchAttempts :: int
  og_MaxExecuteItems :: int
  og_MaxWallTime :: duration

definition orch_Validate :: "OrchConfig \<Rightarrow> exec_error + unit" where
  "orch_Validate c =
     (let pooled = (og_ReadWorkers c \<noteq> 0 \<and> og_ReadWorkers c \<noteq> 1);
          bound = (if pooled then 8 else 5)
      in if og_MirrorRevisitEnabled c \<and> og_MaxDueWatchAttempts c < 2 then Inl ErrInvalidConfig
         else if og_MaxDueWatchAttempts c < 1 \<or> og_MaxDueWatchAttempts c > MaxDueWatchAttemptsCap
         then Inl ErrInvalidConfig
         else if pooled \<and> og_ReadWorkers c \<noteq> 2 \<and> og_ReadWorkers c \<noteq> 4 \<and> og_ReadWorkers c \<noteq> 8
         then Inl ErrInvalidConfig
         else if og_MaxExecuteItems c < 1 \<or> og_MaxExecuteItems c > bound then Inl ErrInvalidConfig
         else if og_MaxWallTime c \<le> 0 \<or> og_MaxWallTime c > 60 * second then Inl ErrInvalidConfig
         else Inr ())"

datatype OrchStop =
    OrchNone | OrchCompleted | OrchMaxWallTime | OrchContextCancelled | OrchMaterializationError
  | OrchExecutorError

datatype orch_error =
    OrchInvalidConfig | OrchContext ctx_error | OrchListDue cause | OrchEmit cause | OrchExecutor exec_error

record OrchResult =
  or_StopReason :: OrchStop
  or_DueCandidates :: int
  or_DueAttempted :: int
  or_DueEmitted :: int
  or_DueStale :: int
  or_MoreDueWatches :: bool
  or_MaterializationInterrupted :: bool
  or_ExecutorRan :: bool
  or_Executor :: CycleResult

definition no_orch :: OrchResult where
  "no_orch =
     \<lparr>or_StopReason = OrchNone, or_DueCandidates = 0, or_DueAttempted = 0, or_DueEmitted = 0, or_DueStale = 0,
      or_MoreDueWatches = False, or_MaterializationInterrupted = False, or_ExecutorRan = False,
      or_Executor = no_cycle\<rparr>"

definition orch_stop :: "OrchStop \<Rightarrow> OrchResult \<Rightarrow> OrchResult" where
  "orch_stop reason r = r\<lparr>or_StopReason := reason\<rparr>"

text \<open>The states of the parent context and of the orchestration's own context at a boundary.\<close>

record orch_ctx =
  ox_parent :: "ctx_error option"
  ox_own :: bool

definition orch_boundary :: "orch_ctx \<Rightarrow> OrchResult \<Rightarrow> (OrchResult \<times> orch_error option) option" where
  "orch_boundary c res =
     (case ox_parent c of
        Some e \<Rightarrow> Some (orch_stop OrchContextCancelled res, Some (OrchContext e))
      | None \<Rightarrow> if ox_own c then Some (orch_stop OrchMaxWallTime res, None) else None)"

text \<open>The surroundings of an orchestration: the instant it observes, the contexts at the boundaries and
  after a failing call, the failures of the calls, and what other sessions commit before each emission.\<close>

record orch_env =
  oe_observedAt :: gotime
  oe_start :: orch_ctx
  oe_list :: fault
  oe_list_after :: orch_ctx
  oe_emit_before :: "nat \<Rightarrow> orch_ctx"
  oe_emit :: "nat \<Rightarrow> fault"
  oe_emit_after :: "nat \<Rightarrow> orch_ctx"
  oe_others :: "nat \<Rightarrow> db \<Rightarrow> db"
  oe_run_before :: orch_ctx
  oe_run_after :: orch_ctx

definition due_watches :: "OrchConfig \<Rightarrow> orch_env \<Rightarrow> db \<Rightarrow> cause + ScopeWatchState list" where
  "due_watches cfg ev d =
     (case oe_list ev of
        Fault e _ \<Rightarrow> Inl (cause_of e)
      | NoFault \<Rightarrow>
          map_sum StoreErr id
            ((if og_MirrorRevisitEnabled cfg then ListDueWatchesWithMirrorFairness else ListDueWatches)
               d (oe_observedAt ev) (og_MaxDueWatchAttempts cfg + 1)))"

text \<open>Emitting the due polls: the result so far and, when the loop returns from the cycle, its answer.\<close>

fun emit_loop ::
  "orch_env \<Rightarrow> nat \<Rightarrow> ScopeWatchState list \<Rightarrow> OrchResult \<Rightarrow> db
     \<Rightarrow> (OrchResult \<times> (OrchResult \<times> orch_error option) option) \<times> db" where
  "emit_loop ev k [] res d = ((res, None), d)"
| "emit_loop ev k (w # ws) res d =
     (case orch_boundary (oe_emit_before ev k) res of
        Some out \<Rightarrow> ((res, Some out), d)
      | None \<Rightarrow>
          let res = res\<lparr>or_DueAttempted := or_DueAttempted res + 1\<rparr>;
              (r, d') = store_call (oe_emit ev k)
                (whole (EmitDuePoll (sw_RootID w) (sw_ScopeKey w) (sw_Version w) (oe_observedAt ev)))
                (oe_others ev k d)
          in (case r of
                Inr _ \<Rightarrow> emit_loop ev (Suc k) ws (res\<lparr>or_DueEmitted := or_DueEmitted res + 1\<rparr>) d'
              | Inl c \<Rightarrow>
                  if c = StoreErr ErrStateCASConflict
                  then emit_loop ev (Suc k) ws (res\<lparr>or_DueStale := or_DueStale res + 1\<rparr>) d'
                  else (case ox_parent (oe_emit_after ev k) of
                          Some e \<Rightarrow> ((res, Some (orch_stop OrchContextCancelled res, Some (OrchContext e))), d')
                        | None \<Rightarrow>
                            if is_ctx c \<and> ox_own (oe_emit_after ev k)
                            then ((res, Some (orch_stop OrchMaxWallTime (res\<lparr>or_MaterializationInterrupted := True\<rparr>),
                                   None)), d')
                            else ((res, Some (orch_stop OrchMaterializationError res, Some (OrchEmit c))), d'))))"

definition executed ::
  "orch_ctx \<Rightarrow> OrchResult \<Rightarrow> CycleResult \<times> exec_error option \<Rightarrow> OrchResult \<times> orch_error option" where
  "executed c res out =
     (let res = res\<lparr>or_ExecutorRan := True, or_Executor := fst out\<rparr>
      in case snd out of
           None \<Rightarrow>
             (case orch_boundary c res of
                Some answer \<Rightarrow> answer
              | None \<Rightarrow> (orch_stop OrchCompleted res, None))
         | Some e \<Rightarrow>
             (case ox_parent c of
                Some p \<Rightarrow> (orch_stop OrchContextCancelled res, Some (OrchContext p))
              | None \<Rightarrow>
                  if context_error e \<and> ox_own c then (orch_stop OrchMaxWallTime res, None)
                  else (orch_stop OrchExecutorError res, Some (OrchExecutor e))))"

definition RunCycle ::
  "OrchConfig \<Rightarrow> orch_env \<Rightarrow> (CycleConfig \<Rightarrow> 's \<Rightarrow> db \<Rightarrow> ((CycleResult \<times> exec_error option) \<times> 's \<times> db) option)
     \<Rightarrow> 's \<Rightarrow> db \<Rightarrow> ((OrchResult \<times> orch_error option) \<times> 's \<times> db) option" where
  "RunCycle cfg ev exec s d =
     (case orch_Validate cfg of
        Inl _ \<Rightarrow> Some ((no_orch, Some OrchInvalidConfig), s, d)
      | Inr _ \<Rightarrow>
          (case orch_boundary (oe_start ev) no_orch of
             Some out \<Rightarrow> Some (out, s, d)
           | None \<Rightarrow>
               (case due_watches cfg ev d of
                  Inl c \<Rightarrow>
                    Some ((case ox_parent (oe_list_after ev) of
                             Some e \<Rightarrow> (orch_stop OrchContextCancelled no_orch, Some (OrchContext e))
                           | None \<Rightarrow>
                               if is_ctx c \<and> ox_own (oe_list_after ev)
                               then (orch_stop OrchMaxWallTime no_orch, None)
                               else (orch_stop OrchMaterializationError no_orch, Some (OrchListDue c))), s, d)
                | Inr watches \<Rightarrow>
                    let cap = og_MaxDueWatchAttempts cfg;
                        res = no_orch\<lparr>or_DueCandidates := int (length watches),
                          or_MoreDueWatches := (int (length watches) > cap)\<rparr>
                    in (case emit_loop ev 0 (take (nat cap) watches) res d of
                          ((_, Some out), d') \<Rightarrow> Some (out, s, d')
                        | ((res', None), d') \<Rightarrow>
                            (case orch_boundary (oe_run_before ev) res' of
                               Some out \<Rightarrow> Some (out, s, d')
                             | None \<Rightarrow>
                                 map_option (\<lambda>(out, s', d''). (executed (oe_run_after ev) res' out, s', d''))
                                   (exec \<lparr>cc_ReadWorkers = og_ReadWorkers cfg,
                                      cc_MaxItems = og_MaxExecuteItems cfg,
                                      cc_MaxWallTime = og_MaxWallTime cfg\<rparr> s d'))))))"

end
