(* ===== verification/Runtime.thy ===== *)
theory Runtime
  imports Cycle "HOL-Library.Word"
begin

unbundle bit_operations_syntax

text \<open>
  The incremental runtime (\<open>incrementalruntime\<close>) and the ingestion of hints (\<open>incrementalhint\<close>,
  \<open>notifyingIngester\<close>): bounded promotion of due retries, one orchestrated cycle, recovery of interrupted
  claims, recovery at startup, the burst gate, the coalesced wake reasons, and the fields of a failure
  report. The timer, the wake channel beyond its one token, and the logger are left out; white space is
  that of ASCII.
\<close>

section \<open>Configuration\<close>

definition MaxRetryPromotionsCap :: int where
  "MaxRetryPromotionsCap = 5"

definition MaxConsecutiveCyclesPerBurst :: int where
  "MaxConsecutiveCyclesPerBurst = 4"

definition BurstCooldown :: duration where
  "BurstCooldown = second"

definition InflightRecoveryBatch :: int where
  "InflightRecoveryBatch = 100"

record RuntimeConfig =
  rc_WakeInterval :: duration
  rc_MaxRetryPromotions :: int
  rc_Cycle :: OrchConfig

definition DefaultCycleConfig :: OrchConfig where
  "DefaultCycleConfig =
     \<lparr>og_ReadWorkers = 0, og_MirrorRevisitEnabled = False, og_MaxDueWatchAttempts = 5,
      og_MaxExecuteItems = 5, og_MaxWallTime = 60 * second\<rparr>"

definition runtime_Validate :: "RuntimeConfig \<Rightarrow> exec_error + unit" where
  "runtime_Validate c =
     (if rc_WakeInterval c < second \<or> rc_WakeInterval c > 60 * second then Inl ErrInvalidConfig
      else if rc_MaxRetryPromotions c < 1 \<or> rc_MaxRetryPromotions c > MaxRetryPromotionsCap
      then Inl ErrInvalidConfig
      else orch_Validate (rc_Cycle c))"

text \<open>The configuration that the application builds (\<open>app/incremental_runtime.go\<close>).\<close>

definition runtimeConfig :: "duration \<Rightarrow> duration \<Rightarrow> int \<Rightarrow> RuntimeConfig" where
  "runtimeConfig wakeInterval mirrorRevisit readWorkers =
     (let cycle = DefaultCycleConfig\<lparr>og_MirrorRevisitEnabled := (mirrorRevisit > 0)\<rparr>;
          cycle = (if readWorkers > 1 then cycle\<lparr>og_ReadWorkers := readWorkers, og_MaxExecuteItems := 8\<rparr>
                   else cycle)
      in \<lparr>rc_WakeInterval = wakeInterval, rc_MaxRetryPromotions = MaxRetryPromotionsCap, rc_Cycle = cycle\<rparr>)"

section \<open>Wake reasons\<close>

definition wakeStartup :: "32 word" where "wakeStartup = 1"
definition wakeContention :: "32 word" where "wakeContention = 2"
definition wakeHint :: "32 word" where "wakeHint = 4"
definition wakeBacklog :: "32 word" where "wakeBacklog = 8"
definition wakeTimer :: "32 word" where "wakeTimer = 16"

text \<open>The state of the runtime: whether the wake channel holds its token, the reasons collected, the
  length of the current burst and the end of the last cycle.\<close>

record Runtime =
  rn_wake :: bool
  rn_wakeBits :: "32 word"
  rn_burstCount :: int
  rn_lastCycleFinishedAt :: gotime

definition new_runtime :: Runtime where
  "new_runtime =
     \<lparr>rn_wake = False, rn_wakeBits = 0, rn_burstCount = 0, rn_lastCycleFinishedAt = zero_time\<rparr>"

definition recordWake :: "32 word \<Rightarrow> Runtime \<Rightarrow> Runtime" where
  "recordWake reason r = r\<lparr>rn_wakeBits := rn_wakeBits r OR reason\<rparr>"

definition wakeWith :: "32 word \<Rightarrow> Runtime \<Rightarrow> Runtime" where
  "wakeWith reason r = (recordWake reason r)\<lparr>rn_wake := True\<rparr>"

definition Wake :: "Runtime \<Rightarrow> Runtime" where
  "Wake r = wakeWith wakeHint r"

definition wake_names :: "(32 word \<times> string) list" where
  "wake_names =
     [(wakeStartup, ''startup''), (wakeContention, ''contention''), (wakeHint, ''hint''),
      (wakeBacklog, ''backlog''), (wakeTimer, ''timer'')]"

definition consumeWakeReason :: "Runtime \<Rightarrow> string \<times> Runtime" where
  "consumeWakeReason r =
     (let bits = rn_wakeBits r; r' = r\<lparr>rn_wakeBits := 0\<rparr>
      in if bits = 0 then (''wake'', r')
         else (join_with '','' (map snd (filter (\<lambda>(bit, _). bits AND bit \<noteq> 0) wake_names)), r'))"

section \<open>The burst gate\<close>

definition burstWaitBeforeStart :: "gotime \<Rightarrow> Runtime \<Rightarrow> duration \<times> Runtime" where
  "burstWaitBeforeStart now r =
     (if rn_lastCycleFinishedAt r = zero_time then (0, r)
      else let idle = time_sub now (rn_lastCycleFinishedAt r)
           in if idle \<ge> BurstCooldown then (0, r\<lparr>rn_burstCount := 0\<rparr>)
              else if rn_burstCount r < MaxConsecutiveCyclesPerBurst then (0, r)
              else (BurstCooldown - idle, r))"

definition markCycleFinished :: "gotime \<Rightarrow> Runtime \<Rightarrow> Runtime" where
  "markCycleFinished now r =
     r\<lparr>rn_lastCycleFinishedAt := now, rn_burstCount := rn_burstCount r + 1\<rparr>"

section \<open>Recovery at startup\<close>

text \<open>One batch of roots: how many items were recovered, and the failure of a call. The failures of the
  calls are an argument.\<close>

fun recover_batch :: "(uuid \<Rightarrow> fault) \<Rightarrow> uuid list \<Rightarrow> nat \<Rightarrow> db \<Rightarrow> (cause + nat) \<times> db" where
  "recover_batch faults [] n d = (Inr n, d)"
| "recover_batch faults (rid # rest) n d =
     (case store_call (faults rid) (whole (RecoverStaleInflight rid)) d of
        (Inl c, d') \<Rightarrow> (Inl c, d')
      | (Inr k, d') \<Rightarrow> recover_batch faults rest (n + k) d')"

datatype recovery_error = RecoveryStore cause | RecoveryNoProgress

definition inflight_roots :: "fault \<Rightarrow> db \<Rightarrow> cause + uuid list" where
  "inflight_roots f d =
     (case f of Fault e _ \<Rightarrow> Inl (cause_of e) | NoFault \<Rightarrow> Inr (ListInflightRoots d InflightRecoveryBatch))"

fun recover_startup ::
  "nat \<Rightarrow> (nat \<Rightarrow> fault) \<Rightarrow> (nat \<Rightarrow> uuid \<Rightarrow> fault) \<Rightarrow> nat \<Rightarrow> nat \<Rightarrow> db
     \<Rightarrow> ((nat \<times> recovery_error option) \<times> db) option" where
  "recover_startup 0 reads faults k sum_so_far d = None"
| "recover_startup (Suc fuel) reads faults k sum_so_far d =
     (case inflight_roots (reads k) d of
        Inl c \<Rightarrow> Some ((sum_so_far, Some (RecoveryStore c)), d)
      | Inr roots \<Rightarrow>
          if roots = [] then Some ((sum_so_far, None), d)
          else (case recover_batch (faults k) roots 0 d of
                  (Inl c, d') \<Rightarrow> Some ((sum_so_far, Some (RecoveryStore c)), d')
                | (Inr n, d') \<Rightarrow>
                    if n = 0 then Some ((sum_so_far + n, Some RecoveryNoProgress), d')
                    else recover_startup fuel reads faults (Suc k) (sum_so_far + n) d'))"

definition RecoverStartupInflight ::
  "nat \<Rightarrow> (nat \<Rightarrow> fault) \<Rightarrow> (nat \<Rightarrow> uuid \<Rightarrow> fault) \<Rightarrow> db \<Rightarrow> ((nat \<times> recovery_error option) \<times> db) option" where
  "RecoverStartupInflight fuel reads faults d = recover_startup fuel reads faults 0 0 d"

section \<open>One pass\<close>

record retryPromotionResult =
  pr_candidates :: int
  pr_attempted :: int
  pr_promoted :: int
  pr_stale :: int
  pr_more :: bool

fun promote_loop ::
  "(nat \<Rightarrow> fault) \<Rightarrow> (nat \<Rightarrow> db \<Rightarrow> db) \<Rightarrow> gotime \<Rightarrow> nat \<Rightarrow> DirtyScopeWork list \<Rightarrow> retryPromotionResult \<Rightarrow> db
     \<Rightarrow> (retryPromotionResult \<times> cause option) \<times> db" where
  "promote_loop faults others now k [] out d = ((out, None), d)"
| "promote_loop faults others now k (c # cs) out d =
     (let out = out\<lparr>pr_attempted := pr_attempted out + 1\<rparr>
      in case store_call (faults k) (whole (RetryReady (wk_RootID c) (wk_ScopeKey c) (wk_Version c) now))
                (others k d) of
           (Inr _, d') \<Rightarrow>
             promote_loop faults others now (Suc k) cs (out\<lparr>pr_promoted := pr_promoted out + 1\<rparr>) d'
         | (Inl e, d') \<Rightarrow>
             if e = StoreErr ErrStateCASConflict
             then promote_loop faults others now (Suc k) cs (out\<lparr>pr_stale := pr_stale out + 1\<rparr>) d'
             else ((out, Some e), d'))"

definition promoteDueRetries ::
  "RuntimeConfig \<Rightarrow> fault \<Rightarrow> (nat \<Rightarrow> fault) \<Rightarrow> (nat \<Rightarrow> db \<Rightarrow> db) \<Rightarrow> gotime \<Rightarrow> db
     \<Rightarrow> (retryPromotionResult \<times> cause option) \<times> db" where
  "promoteDueRetries cfg list_fault faults others now d =
     (let none = \<lparr>pr_candidates = 0, pr_attempted = 0, pr_promoted = 0, pr_stale = 0, pr_more = False\<rparr>;
          cap = rc_MaxRetryPromotions cfg
      in case (case list_fault of
                 Fault e _ \<Rightarrow> Inl (cause_of e)
               | NoFault \<Rightarrow> map_sum StoreErr id (ListDueRetryWork d now (cap + 1))) of
           Inl c \<Rightarrow> ((none, Some c), d)
         | Inr cs \<Rightarrow>
             promote_loop faults others now 0 (take (nat cap) cs)
               (none\<lparr>pr_candidates := int (length cs), pr_more := (int (length cs) > cap)\<rparr>) d)"

datatype fatalPhase = phaseRetryMaintenance | phaseCycle | phaseInterruptedRecovery

type_synonym fatal = "fatalPhase \<times> string"

definition isBoundedContention :: "OrchResult \<Rightarrow> orch_error \<Rightarrow> bool" where
  "isBoundedContention res e \<longleftrightarrow>
     cy_StopReason (or_Executor res) = StopStaleSelection \<or> e = OrchExecutor ErrStaleSelection"

fun recover_roots :: "(uuid \<Rightarrow> fault) \<Rightarrow> bool \<Rightarrow> uuid list \<Rightarrow> db \<Rightarrow> fatal option \<times> db" where
  "recover_roots faults interrupted [] d = (None, d)"
| "recover_roots faults interrupted (rid # rest) d =
     (if \<not> interrupted \<or> rid = [] then (Some (phaseInterruptedRecovery, ''invalid_root''), d)
      else case store_call (faults rid) (whole (RecoverStaleInflight rid)) d of
             (Inl _, d') \<Rightarrow> (Some (phaseInterruptedRecovery, ''store''), d')
           | (Inr _, d') \<Rightarrow> recover_roots faults interrupted rest d')"

definition interrupted_roots :: "CycleResult \<Rightarrow> uuid list" where
  "interrupted_roots r =
     (if cy_InterruptedInFlight r \<and> cy_InterruptedRoots r = [] \<and> xr_ClaimedSignalSeq (cy_Last r) > 0 \<and>
         xr_RootID (cy_Last r) \<noteq> []
      then [xr_RootID (cy_Last r)] else cy_InterruptedRoots r)"

text \<open>The surroundings of a pass: the clock of the promotion, whether the parent context is cancelled
  after a failing promotion or cycle, and the failures and sessions around the calls.\<close>

record pass_env =
  pe_now :: gotime
  pe_promote_list :: fault
  pe_promote :: "nat \<Rightarrow> fault"
  pe_promote_others :: "nat \<Rightarrow> db \<Rightarrow> db"
  pe_promote_ctx :: "ctx_error option"
  pe_cycle_ctx :: "ctx_error option"
  pe_recover :: "uuid \<Rightarrow> fault"

datatype pass = Passed bool bool | Fatal fatal

definition runOnce ::
  "RuntimeConfig \<Rightarrow> pass_env \<Rightarrow> (OrchConfig \<Rightarrow> 's \<Rightarrow> db \<Rightarrow> ((OrchResult \<times> orch_error option) \<times> 's \<times> db) option)
     \<Rightarrow> 's \<Rightarrow> db \<Rightarrow> (pass \<times> 's \<times> db) option" where
  "runOnce cfg ev cycle s d =
     (case promoteDueRetries cfg (pe_promote_list ev) (pe_promote ev) (pe_promote_others ev) (pe_now ev) d of
        ((_, Some c), d1) \<Rightarrow>
          (case pe_promote_ctx ev of
             Some e \<Rightarrow> Some ((if c = CtxErr e then Passed False False else Fatal (phaseRetryMaintenance, ''store'')), s, d1)
           | None \<Rightarrow> Some (Fatal (phaseRetryMaintenance, ''store''), s, d1))
      | ((promo, None), d1) \<Rightarrow>
          (case cycle (rc_Cycle cfg) s d1 of
             None \<Rightarrow> None
           | Some ((res, Some e), s', d2) \<Rightarrow>
               Some (if pe_cycle_ctx ev \<noteq> None then Passed False False
                     else if isBoundedContention res e then Passed True True
                     else Fatal (phaseCycle, ''executor''), s', d2)
           | Some ((res, None), s', d2) \<Rightarrow>
               if length (cy_InterruptedRoots (or_Executor res)) > 8
               then Some (Fatal (phaseInterruptedRecovery, ''invalid_root_bound''), s', d2)
               else (case recover_roots (pe_recover ev) (cy_InterruptedInFlight (or_Executor res))
                             (interrupted_roots (or_Executor res)) d2 of
                       (Some f, d3) \<Rightarrow> Some (Fatal f, s', d3)
                     | (None, d3) \<Rightarrow>
                         Some (Passed (pr_more promo \<or> or_MoreDueWatches res \<or>
                                 cy_StopReason (or_Executor res) = StopMaxItems) False, s', d3))))"

section \<open>The event loop\<close>

datatype event = Cancelled | WakeToken | TimerFired

text \<open>One iteration: the event, the clock before the gate and after the cycle, and whether a wait at the
  gate ran to its end.\<close>

record loop_env =
  le_event :: event
  le_now :: gotime
  le_slept :: bool
  le_finished :: gotime

text \<open>What the iteration does before its cycle: stop, or start it after the given wait.\<close>

datatype start = Stopped | Started duration Runtime

definition start_cycle :: "loop_env \<Rightarrow> Runtime \<Rightarrow> start" where
  "start_cycle ev r =
     (case le_event ev of
        Cancelled \<Rightarrow> Stopped
      | e \<Rightarrow>
          let r1 = (if e = TimerFired then recordWake wakeTimer r else r\<lparr>rn_wake := False\<rparr>);
              (wait, r2) = burstWaitBeforeStart (le_now ev) r1
          in if wait > 0
             then (if \<not> le_slept ev then Stopped
                   else Started wait (snd (consumeWakeReason (r2\<lparr>rn_burstCount := 0\<rparr>))))
             else Started 0 (snd (consumeWakeReason r2)))"

definition finish_cycle :: "loop_env \<Rightarrow> bool \<Rightarrow> bool \<Rightarrow> Runtime \<Rightarrow> Runtime" where
  "finish_cycle ev backlog contention r =
     (let r = markCycleFinished (le_finished ev) r
      in if backlog then wakeWith (if contention then wakeContention else wakeBacklog) r else r)"

text \<open>An iteration of \<open>Run\<close>: it ends the loop, with or without a fatal error, or goes round again.\<close>

datatype 's iteration = Ended "fatal option" 's db | Again Runtime 's db

definition loop_iteration ::
  "RuntimeConfig \<Rightarrow> loop_env \<Rightarrow> pass_env
     \<Rightarrow> (OrchConfig \<Rightarrow> 's \<Rightarrow> db \<Rightarrow> ((OrchResult \<times> orch_error option) \<times> 's \<times> db) option)
     \<Rightarrow> Runtime \<Rightarrow> 's \<Rightarrow> db \<Rightarrow> 's iteration option" where
  "loop_iteration cfg ev pass cycle r s d =
     (case start_cycle ev r of
        Stopped \<Rightarrow> Some (Ended None s d)
      | Started _ r' \<Rightarrow>
          map_option (\<lambda>(p, s', d').
            case p of
              Fatal f \<Rightarrow> Ended (Some f) s' d'
            | Passed backlog contention \<Rightarrow> Again (finish_cycle ev backlog contention r') s' d')
            (runOnce cfg pass cycle s d))"

section \<open>Failure report\<close>

definition error_class_str :: "ErrorClass \<Rightarrow> string" where
  "error_class_str c =
     (case c of
        ErrorTransientProvider \<Rightarrow> ''TRANSIENT_PROVIDER''
      | ErrorThrottled \<Rightarrow> ''THROTTLED''
      | ErrorAuthOrPermission \<Rightarrow> ''AUTH_OR_PERMISSION''
      | ErrorScopeTooLarge \<Rightarrow> ''SCOPE_TOO_LARGE''
      | ErrorInvalidScope \<Rightarrow> ''INVALID_SCOPE''
      | ErrorRootInactive \<Rightarrow> ''ROOT_INACTIVE''
      | ErrorConfigInvalid \<Rightarrow> ''CONFIG_INVALID''
      | ErrorInternal \<Rightarrow> ''INTERNAL''
      | OtherErrorClass s \<Rightarrow> s)"

definition stop_reason_str :: "StopReason \<Rightarrow> string" where
  "stop_reason_str r =
     (case r of
        StopNone \<Rightarrow> []
      | StopNoEligibleWork \<Rightarrow> ''NO_ELIGIBLE_WORK''
      | StopMaxItems \<Rightarrow> ''MAX_ITEMS''
      | StopMaxWallTime \<Rightarrow> ''MAX_WALL_TIME''
      | StopStaleSelection \<Rightarrow> ''STALE_SELECTION''
      | StopInternalItemFailure \<Rightarrow> ''INTERNAL_ITEM_FAILURE''
      | StopSystemicError \<Rightarrow> ''SYSTEMIC_ERROR''
      | StopContextCancelled \<Rightarrow> ''CONTEXT_CANCELLED'')"

definition orch_context :: "orch_error \<Rightarrow> bool" where
  "orch_context e =
     (case e of
        OrchInvalidConfig \<Rightarrow> False
      | OrchContext _ \<Rightarrow> True
      | OrchListDue c \<Rightarrow> is_ctx c
      | OrchEmit c \<Rightarrow> is_ctx c
      | OrchExecutor e \<Rightarrow> context_error e)"

record failureFields =
  ff_p6_stop_reason :: string
  ff_failure_class :: string
  ff_error_family :: string
  ff_sql_state :: string
  ff_root_fingerprint :: string
  ff_scope_fingerprint :: string
  ff_snapshot_fingerprint :: string
  ff_claimed_signal_seq :: int

definition sql_state_char :: "char \<Rightarrow> bool" where
  "sql_state_char c \<longleftrightarrow> c \<in> set ''0123456789'' \<or> c \<in> set ''ABCDEFGHIJKLMNOPQRSTUVWXYZ''"

definition fingerprint :: "string \<Rightarrow> string" where
  "fingerprint value = (if value = [] then [] else take 20 (hex_encode (sha256 value)))"

definition error_family :: "orch_error \<Rightarrow> string" where
  "error_family e =
     (if orch_context e then ''CONTEXT''
      else case e of
             OrchExecutor (ErrCompletionFailed _) \<Rightarrow> ''COMPLETION_FAILURE''
           | OrchExecutor (ErrScannerFailed _) \<Rightarrow> ''SCANNER_FAILURE''
           | OrchExecutor ErrStaleSelection \<Rightarrow> ''STALE_SELECTION''
           | _ \<Rightarrow> ''UNCLASSIFIED'')"

text \<open>The SQL state in the chain of the error, when there is one, is an argument.\<close>

definition cycleFailureFields :: "OrchResult \<Rightarrow> orch_error \<Rightarrow> string option \<Rightarrow> failureFields" where
  "cycleFailureFields res e sqlerr =
     (let last_item = cy_Last (or_Executor res)
      in \<lparr>ff_p6_stop_reason = (if cy_StopReason (or_Executor res) = StopNone then ''UNKNOWN''
                               else stop_reason_str (cy_StopReason (or_Executor res))),
          ff_failure_class = (case xr_FailureClass last_item of
                                None \<Rightarrow> ''NONE''
                              | Some (OtherErrorClass _) \<Rightarrow> ''UNKNOWN''
                              | Some c \<Rightarrow> error_class_str c),
          ff_error_family = error_family e,
          ff_sql_state = (case sqlerr of
                            None \<Rightarrow> ''UNKNOWN''
                          | Some code \<Rightarrow>
                              if length code = 5 \<and> list_all sql_state_char code then code else ''UNKNOWN''),
          ff_root_fingerprint = fingerprint (xr_RootID last_item),
          ff_scope_fingerprint = fingerprint (xr_ScopeKey last_item),
          ff_snapshot_fingerprint = fingerprint (xr_SnapshotID last_item),
          ff_claimed_signal_seq = xr_ClaimedSignalSeq last_item\<rparr>)"

section \<open>Hints\<close>

record HintRequest =
  hr_RootID :: uuid
  hr_ScopeKey :: string
  hr_Reason :: TriggerReason

datatype hint_error = HintRootRequired | HintInvalidScope state_error | HintReason | HintStore store_error

text \<open>The reason as the caller gave it; an empty one is the default.\<close>

definition normalizeHintReason :: "TriggerReason \<Rightarrow> hint_error + TriggerReason" where
  "normalizeHintReason r =
     (if r = OtherReason [] then Inr ReasonPossibleChange
      else if r \<in> {ReasonPossibleChange, ReasonDeleteHint, ReasonMoveUncertain, ReasonMetadataUncertain}
      then Inr r else Inl HintReason)"

definition hint_signal :: "HintRequest \<Rightarrow> TriggerReason \<Rightarrow> gotime \<Rightarrow> DirtySignal" where
  "hint_signal req reason acceptedAt =
     \<lparr>ds_RootID = hr_RootID req, ds_ScopeKey = hr_ScopeKey req, ds_Source = SourceMutationHint,
      ds_Reason = reason, ds_Priority = PriorityHigh, ds_NotBefore = Some acceptedAt,
      ds_SeenAt = acceptedAt\<rparr>"

definition IngestOne :: "HintRequest \<Rightarrow> gotime \<Rightarrow> db \<Rightarrow> (hint_error + DirtyScopeWork) \<times> db" where
  "IngestOne req now d =
     (if trim_space (hr_RootID req) = [] then (Inl HintRootRequired, d)
      else case ValidateScopeKey (hr_ScopeKey req) of
             Inl e \<Rightarrow> (Inl (HintInvalidScope e), d)
           | Inr _ \<Rightarrow>
               (case normalizeHintReason (hr_Reason req) of
                  Inl e \<Rightarrow> (Inl e, d)
                | Inr reason \<Rightarrow>
                    (case whole (MergeSignal (hint_signal req reason now)) d of
                       (r, d') \<Rightarrow> (map_sum HintStore id r, d'))))"

definition notifyingIngester ::
  "HintRequest \<Rightarrow> gotime \<Rightarrow> Runtime \<Rightarrow> db \<Rightarrow> (hint_error + DirtyScopeWork) \<times> Runtime \<times> db" where
  "notifyingIngester req now r d =
     (case IngestOne req now d of
        (Inl e, d') \<Rightarrow> (Inl e, r, d')
      | (Inr wk, d') \<Rightarrow> (Inr wk, Wake r, d'))"

end
