(* ===== verification/Marks.thy ===== *)
theory Marks
  imports WorkFlow
begin

text \<open>
  The effect of every operation of the work store on claims and verifications. A row is reduced to a mark:
  whether it is in flight, the claimed sequence, and what was verified when. Signals, polls, watches and
  the transitions back to \<open>PENDING\<close> leave every mark as it is; a claim, a completion and a recovery change
  the marks they are about and no others.
\<close>

section \<open>Marks\<close>

record mark =
  mk_busy :: bool
  mk_claim :: "int option"
  mk_at :: "gotime option"
  mk_seq :: "int option"

definition no_mark :: mark where
  "no_mark = \<lparr>mk_busy = False, mk_claim = None, mk_at = None, mk_seq = None\<rparr>"

definition mark_of :: "DirtyScopeWork \<Rightarrow> mark" where
  "mark_of w = \<lparr>mk_busy = (wk_WorkState w = WorkInFlight), mk_claim = wk_ClaimedSignalSeq w,
     mk_at = wk_LastVerifiedAt w, mk_seq = wk_LastVerifiedSignalSeq w\<rparr>"

definition marks :: "db \<Rightarrow> uuid \<times> string \<Rightarrow> mark" where
  "marks d = (\<lambda>(rid, key). case find_work d rid key of None \<Rightarrow> no_mark | Some w \<Rightarrow> mark_of w)"

abbreviation busy :: "db \<Rightarrow> uuid \<times> string \<Rightarrow> bool" where
  "busy d p \<equiv> mk_busy (marks d p)"

lemma marks_cong: "db_works d' = db_works d \<Longrightarrow> marks d' = marks d"
  by (simp add: marks_def find_work_def fun_eq_iff)

lemma busy_flying: "busy d (rid, key) \<longleftrightarrow> flying d rid key"
  by (simp add: marks_def flying_def in_flight_def mark_of_def no_mark_def split: option.splits)

lemma busy_row: "busy d (rid, key) \<Longrightarrow> \<exists>w. find_work d rid key = Some w \<and> wk_WorkState w = WorkInFlight"
  by (auto simp: marks_def mark_of_def no_mark_def split: option.splits)

lemma busy_root:
  assumes "state_ok d" and "busy d (rid, key)"
  shows "find_root d rid \<noteq> None"
  using busy_row [OF assms(2)] assms(1) by (auto simp: state_ok_def dest!: find_work_Some)

section \<open>Rows\<close>

lemma guarded [simp]: "(if b then Inl e else x) = Inr y \<longleftrightarrow> \<not> b \<and> x = Inr y"
  by simp

lemma scan_mark: "scanWork w = Inr v \<Longrightarrow> mark_of v = mark_of w \<and> wk_RootID v = wk_RootID w \<and> wk_ScopeKey v = wk_ScopeKey w"
  by (auto simp: scanWork_def mark_of_def)

lemma mark_version [simp]: "mark_of (w\<lparr>wk_Version := v\<rparr>) = mark_of w"
  by (simp add: mark_of_def)

lemma load_mark:
  assumes "loadWorkForUpdate d rid key = Inr (Some w)"
  shows "mark_of w = marks d (rid, key)" "find_work d rid key \<noteq> None" "wk_RootID w = rid" "wk_ScopeKey w = key"
  using assms
  by (auto simp: loadWorkForUpdate_def marks_def split: option.splits dest!: scan_mark find_work_Some)

lemma find_put:
  assumes "put_work row d = Inr d'"
  shows "find_work d' rid key = (if rid = wk_RootID row \<and> key = wk_ScopeKey row \<and> find_work d rid key \<noteq> None
    then Some row else find_work d rid key)"
proof -
  let ?hit = "\<lambda>w. wk_RootID w = rid \<and> wk_ScopeKey w = key"
  have "List.find ?hit (map (\<lambda>w. if wk_RootID w = wk_RootID row \<and> wk_ScopeKey w = wk_ScopeKey row then row else w) ws)
      = (if rid = wk_RootID row \<and> key = wk_ScopeKey row \<and> List.find ?hit ws \<noteq> None
         then Some row else List.find ?hit ws)" for ws
    by (induction ws) auto
  then show ?thesis
    using assms by (auto simp: put_work_def find_work_def work_key_def split: if_splits)
qed

lemma put_marks:
  assumes "put_work row d = Inr d'" and "find_work d (wk_RootID row) (wk_ScopeKey row) \<noteq> None"
  shows "marks d' = (marks d)((wk_RootID row, wk_ScopeKey row) := mark_of row)"
  using assms(2) by (auto simp: marks_def fun_eq_iff find_put [OF assms(1)])

lemma write_marks:
  assumes "writeWork row d = Inr (out, d')"
  shows "marks d' = (marks d)((wk_RootID row, wk_ScopeKey row) := mark_of row)"
  using assms put_marks [of "row\<lparr>wk_Version := v\<rparr>" d d' for v]
  by (auto simp: writeWork_def Let_def split: option.splits)

lemma insert_marks:
  assumes "insertWork row d = Inr (out, d')" and "mark_of row = no_mark"
  shows "marks d' = marks d"
proof -
  let ?row = "row\<lparr>wk_Version := 1\<rparr>"
  have d': "db_works d' = db_works d @ [?row]" "find_work d (wk_RootID row) (wk_ScopeKey row) = None"
    using assms(1) by (auto simp: insertWork_def Let_def split: if_splits)
  have "List.find P (xs @ [x]) = (case List.find P xs of None \<Rightarrow> if P x then Some x else None | r \<Rightarrow> r)"
    for P and xs :: "DirtyScopeWork list" and x by (induction xs) auto
  then show ?thesis
    using d' assms(2) by (auto simp: marks_def fun_eq_iff find_work_def split: option.splits)
qed

lemma update_watch_works: "update_watch rid key cond f d = Inr (n, d') \<Longrightarrow> db_works d' = db_works d"
  by (auto simp: update_watch_def Let_def split: if_splits)

lemma watch_op_works:
  assumes "(if q then and_then (update_watch rid key cond f d) exactly_one else Inr d) = Inr d'"
  shows "marks d' = marks d"
  using assms by (auto simp: exactly_one_def split: if_splits intro!: marks_cong dest!: update_watch_works)

section \<open>Signals and polls\<close>

lemma merge_mark:
  assumes "applyMerge w sig active = Inr m"
  shows "mark_of m = mark_of w \<and> wk_RootID m = wk_RootID w \<and> wk_ScopeKey m = wk_ScopeKey w"
  using assms
  by (auto simp: applyMerge_def merge_pending_def mark_of_def split: WorkState.splits if_splits)

lemma mergeSignalTx_marks:
  assumes "mergeSignalTx sig active d = Inr (out, d')"
  shows "marks d' = marks d"
proof -
  from assms obtain found where found: "loadWorkForUpdate d (ds_RootID sig) (ds_ScopeKey sig) = Inr found"
    by (auto simp: mergeSignalTx_def)
  show ?thesis
  proof (cases found)
    case None
    then have "insertWork (newWorkFromSignal sig active) d = Inr (out, d')"
      using assms found by (simp add: mergeSignalTx_def)
    then show ?thesis by (rule insert_marks) (simp add: newWorkFromSignal_def mark_of_def no_mark_def)
  next
    case (Some w)
    then obtain m where m: "applyMerge w sig active = Inr m" "writeWork m d = Inr (out, d')"
      using assms found by (auto simp: mergeSignalTx_def)
    then show ?thesis
      using write_marks [OF m(2)] merge_mark [OF m(1)] load_mark [of d "ds_RootID sig" "ds_ScopeKey sig" w] found Some
      by simp
  qed
qed

lemma MergeSignal_marks: "MergeSignal sig d = Inr (out, d') \<Longrightarrow> marks d' = marks d"
proof -
  have "merge_attempts n sig d = Inr (out, d') \<Longrightarrow> marks d' = marks d" for n
    by (induction n) (auto simp: merge_attempt_def split: sum.splits if_splits dest: mergeSignalTx_marks)
  then show "MergeSignal sig d = Inr (out, d') \<Longrightarrow> marks d' = marks d" by (auto simp: MergeSignal_def)
qed

lemma EmitDuePoll_marks: "EmitDuePoll rid key ver now d = Inr (out, d') \<Longrightarrow> marks d' = marks d"
  by (auto simp: EmitDuePoll_def split: if_splits option.splits dest!: mergeSignalTx_marks update_watch_works marks_cong)

lemma RetryReady_marks: "RetryReady rid key ver now d = Inr (out, d') \<Longrightarrow> marks d' = marks d"
proof -
  assume step: "RetryReady rid key ver now d = Inr (out, d')"
  then obtain w where w: "find_work d rid key = Some w" "wk_WorkState w = WorkRetryWait"
      "put_work (w\<lparr>wk_WorkState := WorkPending, wk_PendingNotBefore := None, wk_Version := wk_Version w + 1\<rparr>) d = Inr d'"
    by (auto simp: RetryReady_def to_pending_def cas_work_def Let_def split: if_splits option.splits)
  then show ?thesis
    using put_marks [OF w(3)] find_work_Some [OF w(1)] by (auto simp: marks_def mark_of_def fun_eq_iff)
qed

section \<open>Claims\<close>

lemma ClaimWork_marks:
  assumes "ClaimWork rid key ver now d = (r, d')"
  shows "case r of
      Inl _ \<Rightarrow> marks d' = marks d
    | Inr wk \<Rightarrow> wk_RootID wk = rid \<and> wk_ScopeKey wk = key \<and> (\<exists>q. wk_ClaimedSignalSeq wk = Some q) \<and>
        marks d' = (marks d)((rid, key) := (marks d (rid, key))\<lparr>mk_busy := True, mk_claim := wk_ClaimedSignalSeq wk\<rparr>)"
proof -
  let ?pre = "and_then (state_err (ValidateScopeKey key)) (\<lambda>_.
      and_then (lockRootForUpdate d rid) (\<lambda>lifecycle.
      and_then (lockWatchForUpdate d rid key) (\<lambda>_.
      and_then (found_work d rid key) (\<lambda>wk.
        if wk_Version wk \<noteq> ver then Inl ErrStateCASConflict
        else Inr (activeFromLifecycle lifecycle, wk)))))"
  show ?thesis
  proof (cases ?pre)
    case (Inl e)
    then show ?thesis using assms by (auto simp: ClaimWork_def)
  next
    case (Inr a)
    obtain active w where a: "a = (active, w)" by (cases a)
    have "loadWorkForUpdate d rid key = Inr (Some w)"
      using Inr a by (auto simp: found_work_def split: option.splits if_splits)
    note lw = load_mark [OF this]
    show ?thesis
    proof (cases active)
      case False
      have "marks d1 = marks d" if "wk_WorkState w = WorkPending" "writeWork (w\<lparr>wk_WorkState := WorkSuspended\<rparr>) d = Inr (out, d1)"
        for out d1
        using write_marks [OF that(2)] that(1) lw by (simp add: mark_of_def fun_eq_iff)
      then show ?thesis
        using assms Inr a False by (auto simp: ClaimWork_def split: if_splits sum.splits)
    next
      case True
      show ?thesis
      proof (cases "claim_row rid key w now d")
        case (Inl e)
        then show ?thesis using assms Inr a True by (auto simp: ClaimWork_def)
      next
        case (Inr out)
        then obtain wk where out: "r = Inr wk" "out = (wk, d')"
          using assms \<open>?pre = Inr a\<close> a True by (cases out) (auto simp: ClaimWork_def)
        then obtain d1 where d1: "(if ContainsTriggerSource (wk_PendingSourceSet w) SourcePollSchedule
            then watchBumpAttemptStart rid key now d else Inr d) = Inr d1" "writeWork (claimed now w) d1 = Inr (wk, d')"
          using Inr by (auto simp: claim_row_def split: if_splits)
        have same: "marks d1 = marks d"
          using d1(1) unfolding watchBumpAttemptStart_def by (rule watch_op_works)
        have wk: "mark_of wk = mark_of (claimed now w)" "wk_RootID wk = rid" "wk_ScopeKey wk = key"
          using d1(2) lw by (auto simp: writeWork_def Let_def claimed_def split: option.splits dest!: scan_mark)
        have "marks d' = (marks d)((rid, key) := mark_of (claimed now w))"
          using write_marks [OF d1(2)] same lw by (simp add: claimed_def)
        moreover have "mark_of (claimed now w) = (marks d (rid, key))\<lparr>mk_busy := True, mk_claim := wk_ClaimedSignalSeq wk\<rparr>"
          using wk(1) lw(1) [symmetric] by (simp add: claimed_def mark_of_def)
        moreover have "\<exists>q. wk_ClaimedSignalSeq wk = Some q" using wk(1) by (simp add: mark_of_def claimed_def)
        ultimately show ?thesis using out(1) wk by simp
      qed
    qed
  qed
qed

section \<open>Completion\<close>

lemma CompleteFailure_marks:
  assumes "CompleteFailure rid key seq cls rnb now d = Inr (out, d')"
  shows "marks d' = (marks d)((rid, key) := (marks d (rid, key))\<lparr>mk_busy := False, mk_claim := None\<rparr>)"
proof -
  from assms obtain w given d1 where w: "loadWorkForUpdate d rid key = Inr (Some w)" "restored w = Inr given"
      "(if ContainsTriggerSource (set_of (wk_ClaimedSourceSet w)) SourcePollSchedule
        then watchRecordFailure rid key cls (IsProviderFailure cls) now d else Inr d) = Inr d1"
      "writeWork (failed_row cls rnb now given) d1 = Inr (out, d')"
    by (auto simp: CompleteFailure_def found_work_def split: option.splits if_splits)
  note lw = load_mark [OF w(1)]
  have same: "marks d1 = marks d"
    using w(3) unfolding watchRecordFailure_def by (rule watch_op_works)
  have given: "wk_RootID given = rid" "wk_ScopeKey given = key" "wk_LastVerifiedAt given = wk_LastVerifiedAt w"
      "wk_LastVerifiedSignalSeq given = wk_LastVerifiedSignalSeq w"
    using w(2) lw by (auto simp: restored_def)
  have "TargetWorkState cls \<noteq> WorkInFlight" by (cases cls) simp_all
  then have "mark_of (failed_row cls rnb now given) = (marks d (rid, key))\<lparr>mk_busy := False, mk_claim := None\<rparr>"
    using lw(1) [symmetric] given by (simp add: mark_of_def failed_row_def releaseClaim_def)
  then show ?thesis
    using write_marks [OF w(4)] same given by (simp add: failed_row_def releaseClaim_def)
qed

lemma mirror_child_works:
  assumes "mirror_child interval proofs rid child pr watch now stats d = Inr (r, d')"
  shows "db_works d' = db_works d"
  using assms
  by (auto simp: mirror_child_def Let_def enroll_def split: if_splits option.splits)

lemma queue_children_marks:
  "queue_children policy rid ps now children stats d = Inr (stats', d') \<Longrightarrow> marks d' = marks d"
proof (induction children arbitrary: stats d)
  case (Cons child rest)
  from Cons.prems obtain watch skip stats1 d1 where d1: "lockWatchForUpdate d rid child = Inr watch"
    "(case policy of None \<Rightarrow> Inr ((False, stats), d)
       | Some (interval, proofs) \<Rightarrow>
           mirror_child interval proofs rid child (child_priority ps child) watch now stats d) = Inr ((skip, stats1), d1)"
    by auto
  have same: "marks d1 = marks d"
    using d1(2) by (auto split: option.splits intro!: marks_cong dest: mirror_child_works)
  show ?case
  proof (cases skip)
    case True
    then show ?thesis using Cons.IH [of stats1 d1] Cons.prems d1 same by simp
  next
    case False
    then obtain out d2 where d2: "mergeSignalTx (child_signal rid child (child_priority ps child) now) True d1 = Inr (out, d2)"
        "queue_children policy rid ps now rest stats1 d2 = Inr (stats', d')"
      using Cons.prems d1 by auto
    then show ?thesis
      using Cons.IH [OF d2(2)] mergeSignalTx_marks [OF d2(1)] same by simp
  qed
qed simp

lemma completeDiscovery_marks:
  assumes "completeDiscovery policy rid key seq children ps now d = Inr ((out, stats), d')"
  shows "marks d' = (marks d)((rid, key) :=
      \<lparr>mk_busy = False, mk_claim = None, mk_at = Some now, mk_seq = Some seq\<rparr>)"
    and "mk_claim (marks d (rid, key)) = Some seq"
proof -
  from assms obtain w pol d1 d2 where w: "loadWorkForUpdate d rid key = Inr (Some w)" "owns w seq"
      "queue_children pol rid ps now children no_stats d = Inr (stats, d1)"
      "(if ContainsTriggerSource (set_of (wk_ClaimedSourceSet w)) SourcePollSchedule
        then watchRecordSuccess rid key now d1 else Inr d1) = Inr d2"
      "writeWork (completed_row seq now w) d2 = Inr (out, d')"
    by (auto simp: completeDiscovery_def found_work_def split: option.splits)
  note lw = load_mark [OF w(1)]
  have "marks d2 = marks d1"
    using w(4) unfolding watchRecordSuccess_def by (rule watch_op_works)
  then have same: "marks d2 = marks d" using queue_children_marks [OF w(3)] by simp
  have "mark_of (completed_row seq now w) = \<lparr>mk_busy = False, mk_claim = None, mk_at = Some now, mk_seq = Some seq\<rparr>"
    by (simp add: mark_of_def completed_row_def releaseClaim_def)
  then show "marks d' = (marks d)((rid, key) :=
      \<lparr>mk_busy = False, mk_claim = None, mk_at = Some now, mk_seq = Some seq\<rparr>)"
    using write_marks [OF w(5)] same lw by simp
  show "mk_claim (marks d (rid, key)) = Some seq"
    using w(2) lw(1) [symmetric] by (simp add: owns_def mark_of_def)
qed

section \<open>Recovery\<close>

lemma RecoverStaleInflight_marks:
  assumes ok: "state_ok d" and "RecoverStaleInflight rid d = Inr (n, d')"
  shows "\<not> busy d' (rid, key)" "x \<noteq> rid \<Longrightarrow> marks d' (x, key) = marks d (x, key)"
proof -
  obtain r where r: "find_root d rid = Some r"
    using assms(2) by (auto simp: RecoverStaleInflight_def lockRootForUpdate_def split: option.splits)
  let ?a = "root_LifecycleState r = RootActive"
  have rows: "find_work d' x k = (if x = rid then map_option (recover1 ?a) (find_work d x k) else find_work d x k)"
    for x k using recovery_spec [OF ok r] assms(2) by auto
  have "wk_WorkState (recovery ?a w) \<noteq> WorkInFlight" if "find_work d rid key = Some w" "in_flight w" for w
    using recovery_fields(1) [of w ?a] loaded(2) [OF ok that(1)] that(2) by (simp add: in_flight_def)
  then show "\<not> busy d' (rid, key)"
    by (auto simp: busy_flying flying_def rows recover1_def in_flight_def split: option.splits)
  show "marks d' (x, key) = marks d (x, key)" if "x \<noteq> rid" using that by (simp add: marks_def rows)
qed

lemma whole_marks:
  assumes "whole tx d = (Inl e, d')"
  shows "d' = d"
  using assms by (auto simp: whole_def split: sum.splits)

end
