(* ===== verification/ExecProps.thy ===== *)
theory ExecProps
  imports Runtime Marks
begin

text \<open>
  The executor: what one invocation does to claims and verifications, whatever the other sessions do in
  between as long as they neither claim nor complete items, which the writer lock reserves to this process.
\<close>

section \<open>Healthy databases and calm surroundings\<close>

definition healthy :: "db \<Rightarrow> bool" where
  "healthy d \<longleftrightarrow> state_ok d \<and> find_root d [] = None"

definition idle :: "db \<Rightarrow> bool" where
  "idle d \<longleftrightarrow> healthy d \<and> (\<forall>p. \<not> busy d p)"

definition calm :: "(db \<Rightarrow> db) \<Rightarrow> bool" where
  "calm g \<longleftrightarrow> (\<forall>d. healthy d \<longrightarrow> healthy (g d) \<and> marks (g d) = marks d)"

lemma calmD: "calm g \<Longrightarrow> healthy d \<Longrightarrow> healthy (g d)" "calm g \<Longrightarrow> healthy d \<Longrightarrow> marks (g d) = marks d"
  by (simp_all add: calm_def)

lemma calm_id: "calm (\<lambda>d. d)"
  by (simp add: calm_def)

lemma progress_healthy: "healthy d \<Longrightarrow> progress d d' \<Longrightarrow> healthy d'"
  by (simp add: healthy_def progress_def find_root_def)

context work_step
begin

lemma call_healthy: "healthy d \<Longrightarrow> healthy (snd (store_call f tx d))"
  using moves [of d] progress_healthy [of d "snd (tx d)"]
  by (auto simp: store_call_def healthy_def split: fault.splits)

end

text \<open>The answer of a call that was not cut short is that of the transaction.\<close>

lemma store_call_Inr: "store_call f (whole tx) d = (Inr r, d') \<longleftrightarrow> f = NoFault \<and> tx d = Inr (r, d')"
  by (auto simp: store_call_def whole_def cause_of_def split: fault.splits sum.splits)

lemma store_call_cases:
  assumes "store_call f (whole tx) d = (r, d')"
  shows "d' = d \<or> (\<exists>x. tx d = Inr (x, d'))"
  using assms by (auto simp: store_call_def whole_def split: fault.splits sum.splits if_splits)

lemma store_call_marks:
  assumes "store_call f (whole tx) d = (r, d')" and "\<And>x d''. tx d = Inr (x, d'') \<Longrightarrow> marks d'' = m"
  shows "\<not> isl r \<Longrightarrow> marks d' = m" "marks d' = marks d \<or> marks d' = m"
  using assms store_call_cases [OF assms(1)] by (cases r; auto simp: store_call_Inr)+

lemma claim_positive:
  assumes "state_ok d" "mk_claim (marks d (rid, key)) = Some q"
  shows "0 < q"
proof -
  obtain w where w: "find_work d rid key = Some w" "wk_ClaimedSignalSeq w = Some q"
    using assms(2) by (auto simp: marks_def mark_of_def no_mark_def split: option.splits)
  then have "work_row_ok w" using loaded(2) [OF assms(1) w(1)] row_okD by blast
  then show ?thesis using w(2) by (simp add: work_row_ok_def opt_all_iff)
qed

section \<open>Completions\<close>

definition item_of :: "exec_Result \<Rightarrow> uuid \<times> string" where
  "item_of r = (xr_RootID r, xr_ScopeKey r)"

text \<open>Two results speak of the same claim.\<close>

definition same_claim :: "exec_Result \<Rightarrow> exec_Result \<Rightarrow> bool" where
  "same_claim r r' \<longleftrightarrow> item_of r' = item_of r \<and> xr_Selected r' = xr_Selected r \<and>
     xr_ClaimedSignalSeq r' = xr_ClaimedSignalSeq r"

definition verification :: "db \<Rightarrow> uuid \<times> string \<Rightarrow> gotime option \<times> int option" where
  "verification d p = (mk_at (marks d p), mk_seq (marks d p))"

lemma completeFailure_effect:
  assumes "healthy d" and "completeFailure cfg ev res wk cls d = ((res', err), d')"
    and "item_of res = (wk_RootID wk, wk_ScopeKey wk)"
  shows "healthy d'" "same_claim res res'" "p \<noteq> item_of res \<Longrightarrow> marks d' p = marks d p"
    "verification d' p = verification d p"
    "(err = Some (ErrScannerFailed cls) \<and> xr_FailureClass res' = Some cls \<and> \<not> busy d' (item_of res)) \<or>
     (\<exists>c. err = Some (ErrCompletionFailed c))"
proof -
  let ?tx = "CompleteFailure (wk_RootID wk) (wk_ScopeKey wk) (claim_seq wk) cls
      (retry_at cfg (xe_retryFloor ev) (wk_RootID wk) cls (xe_finish ev)) (xe_finish ev)"
  obtain r where r: "store_call (xe_complete ev) (whole ?tx) d = (r, d')"
    using assms(2) by (cases "store_call (xe_complete ev) (whole ?tx) d")
      (auto simp: completeFailure_def Let_def split: sum.splits)
  have eq: "(res', err) = (case r of Inl c \<Rightarrow> (res, Some (ErrCompletionFailed c))
      | Inr out \<Rightarrow> (res\<lparr>xr_FailureClass := Some cls, xr_FinalWorkState := Some (wk_WorkState out)\<rparr>,
          Some (ErrScannerFailed cls)))"
    using assms(2) r by (auto simp: completeFailure_def Let_def split: sum.splits)
  have "healthy (snd (store_call (xe_complete ev) (whole ?tx) d))" by (rule complete_failure.call_healthy [OF assms(1)])
  then show "healthy d'" using r by simp
  show "same_claim res res'" using eq by (auto simp: same_claim_def item_of_def split: sum.splits)
  have m: "marks d' = marks d \<or> marks d' = (marks d)(item_of res :=
      (marks d (item_of res))\<lparr>mk_busy := False, mk_claim := None\<rparr>)"
    using store_call_cases [OF r] CompleteFailure_marks assms(3) by (metis (no_types, lifting))
  then show "p \<noteq> item_of res \<Longrightarrow> marks d' p = marks d p" "verification d' p = verification d p"
    by (auto simp: verification_def)
  show "(err = Some (ErrScannerFailed cls) \<and> xr_FailureClass res' = Some cls \<and> \<not> busy d' (item_of res)) \<or>
     (\<exists>c. err = Some (ErrCompletionFailed c))"
  proof (cases r)
    case (Inr out)
    then have "?tx d = Inr (out, d')" using r by (simp add: store_call_Inr)
    from CompleteFailure_marks [OF this] show ?thesis using eq Inr assms(3) by simp
  qed (use eq in simp)
qed

lemma complete_success_effect:
  assumes "healthy d" and "complete_success cfg ev wk mirror children d = (r, d')"
  shows "healthy d'" "p \<noteq> (wk_RootID wk, wk_ScopeKey wk) \<Longrightarrow> marks d' p = marks d p"
    "\<not> isl r \<Longrightarrow> \<not> busy d' (wk_RootID wk, wk_ScopeKey wk)"
    "marks d' = marks d \<or> mk_seq (marks d' (wk_RootID wk, wk_ScopeKey wk)) = Some (claim_seq wk)"
proof -
  let ?p = "(wk_RootID wk, wk_ScopeKey wk)" and ?now = "xe_finish ev" and ?seq = "claim_seq wk"
  let ?m = "(marks d)(?p := \<lparr>mk_busy = False, mk_claim = None, mk_at = Some ?now, mk_seq = Some ?seq\<rparr>)"
  note discovery = completeDiscovery_marks(1) [of _ "wk_RootID wk" "wk_ScopeKey wk" ?seq _ _ ?now]
  have "healthy d' \<and> (\<not> isl r \<longrightarrow> marks d' = ?m) \<and> (marks d' = marks d \<or> marks d' = ?m)"
  proof (cases "children \<noteq> [] \<and> mirror \<and> xc_MirrorRevisitInterval cfg > 0")
    case True
    let ?tx = "CompleteSuccessWithMirrorChildren (xe_changed ev) (wk_RootID wk) (wk_ScopeKey wk) ?seq children
        (xc_DiscoveryScope cfg) ?now (xc_MirrorRevisitInterval cfg)"
    have r: "store_call (xe_complete ev) (whole ?tx) d = (r, d')"
      using assms(2) True by (simp add: complete_success_def)
    have m: "marks d'' = ?m" if "?tx d = Inr (x, d'')" for x d''
      using that by (cases x) (auto simp: CompleteSuccessWithMirrorChildren_def dest!: discovery)
    have "healthy (snd (store_call (xe_complete ev) (whole ?tx) d))" by (rule complete_mirror.call_healthy [OF assms(1)])
    with store_call_marks [OF r m] r show ?thesis by auto
  next
    case False
    let ?tx = "if children \<noteq> []
        then CompleteSuccessWithPrioritizedChildren (wk_RootID wk) (wk_ScopeKey wk) ?seq children (xc_DiscoveryScope cfg) ?now
        else CompleteSuccess (wk_RootID wk) (wk_ScopeKey wk) ?seq ?now"
    obtain r0 where r: "store_call (xe_complete ev) (whole ?tx) d = (r0, d')" "isl r = isl r0"
      using assms(2) False
      by (cases "store_call (xe_complete ev) (whole ?tx) d"; cases "fst (store_call (xe_complete ev) (whole ?tx) d)")
         (auto simp: complete_success_def Let_def)
    obtain cs ps where tx: "?tx = CompleteSuccessWithPrioritizedChildren (wk_RootID wk) (wk_ScopeKey wk) ?seq cs ps ?now"
      by (cases "children = []") (auto simp: CompleteSuccess_def [abs_def] CompleteSuccessWithChildren_def [abs_def])
    have m: "marks d'' = ?m" if "?tx d = Inr (x, d'')" for x d''
      using that unfolding tx
      by (auto simp: CompleteSuccessWithPrioritizedChildren_def map_sum_Inr dest!: discovery)
    have "healthy (snd (store_call (xe_complete ev) (whole ?tx) d))"
      unfolding tx by (rule complete_success.call_healthy [OF assms(1)])
    with store_call_marks [OF r(1) m] r show ?thesis by auto
  qed
  then show "healthy d'" "p \<noteq> ?p \<Longrightarrow> marks d' p = marks d p" "\<not> isl r \<Longrightarrow> \<not> busy d' ?p"
    "marks d' = marks d \<or> mk_seq (marks d' ?p) = Some ?seq"
    by auto
qed

section \<open>One invocation\<close>

definition calm_env :: "exec_env \<Rightarrow> bool" where
  "calm_env ev \<longleftrightarrow> calm (xe_before_claim ev) \<and> calm (xe_before_complete ev) \<and>
     (\<forall>wk n. calm (\<lambda>d. snd (xe_scan ev wk n d)))"

lemma completeScan_effect:
  assumes "healthy d" and "completeScan cfg ev res wk scanned d = ((res', err), d')"
    and "item_of res = (wk_RootID wk, wk_ScopeKey wk)"
  shows "healthy d' \<and> same_claim res res' \<and> (\<forall>p. p \<noteq> item_of res \<longrightarrow> marks d' p = marks d p) \<and>
    (case err of
       None \<Rightarrow> \<not> busy d' (item_of res)
     | Some e \<Rightarrow> (\<exists>cls. e = ErrScannerFailed cls \<and> xr_FailureClass res' = Some cls \<and> \<not> busy d' (item_of res)) \<or>
         (\<exists>c. e = ErrCompletionFailed c) \<or> (\<exists>c. e = ErrContext c \<and> d' = d)) \<and>
    (\<forall>p. verification d' p \<noteq> verification d p \<longrightarrow> p = item_of res \<and> xe_ctx ev = None \<and>
       mk_seq (marks d' p) = Some (claim_seq wk) \<and>
       (\<exists>sr. scanned = Inr sr \<and> verifiesCoverage (oc_Status (sr_Outcome sr))))"
proof (cases "xe_ctx ev")
  case (Some e)
  then show ?thesis using assms by (auto simp: completeScan_def same_claim_def)
next
  case None
  have failure: ?thesis
    if "completeFailure cfg ev r wk cls d = ((res', err), d')" "same_claim res r" for r cls
  proof -
    have "item_of r = (wk_RootID wk, wk_ScopeKey wk)" using that(2) assms(3) by (simp add: same_claim_def)
    note f = completeFailure_effect [OF assms(1) that(1) this]
    have "same_claim res res'" "item_of r = item_of res" using that(2) f(2) by (auto simp: same_claim_def)
    then show ?thesis using f by (auto split: option.splits)
  qed
  show ?thesis
  proof (cases scanned)
    case (Inl e)
    then show ?thesis
      using failure [of res] assms(2) None by (simp add: completeScan_def same_claim_def)
  next
    case (Inr sr)
    let ?r = "res\<lparr>xr_SnapshotID := sr_SnapshotID sr\<rparr>"
    let ?kids = "discoveryChildren (if sr_MirrorPresence sr then ''/'' else xc_DiscoveryScope cfg) (wk_ScopeKey wk) (sr_ChildScopes sr)"
    have r: "same_claim res ?r" by (simp add: same_claim_def item_of_def)
    show ?thesis
    proof (cases "verifiesCoverage (oc_Status (sr_Outcome sr)) \<and> ?kids \<noteq> None")
      case False
      then show ?thesis
        using failure [OF _ r] assms(2) None Inr by (auto simp: completeScan_def Let_def split: if_splits option.splits)
    next
      case True
      then obtain children where kids: "?kids = Some children" and v: "verifiesCoverage (oc_Status (sr_Outcome sr))" by blast
      obtain q d1 where q: "complete_success cfg ev wk (sr_MirrorPresence sr) children d = (q, d1)" by fastforce
      note s = complete_success_effect [OF assms(1) q]
      have out: "d' = d1" "(res', err) = (case q of Inl c \<Rightarrow> (?r, Some (ErrCompletionFailed c))
          | Inr (out, stats) \<Rightarrow> (?r\<lparr>xr_Discovery := stats, xr_FinalWorkState := Some (wk_WorkState out)\<rparr>, None))"
        using assms(2) None Inr v kids q by (auto simp: completeScan_def Let_def split: sum.splits prod.splits)
      have "same_claim res res'"
        using out(2) by (auto simp: same_claim_def item_of_def split: sum.splits prod.splits)
      moreover have "verification d' p \<noteq> verification d p \<Longrightarrow> p = item_of res \<and> mk_seq (marks d' p) = Some (claim_seq wk)" for p
        using s(2) [of p] s(4) out(1) assms(3) by (cases "p = item_of res") (auto simp: verification_def)
      ultimately show ?thesis
        using s(1-3) out assms(3) None Inr v by (auto split: sum.splits prod.splits)
    qed
  qed
qed

lemma claimSelected_effect:
  assumes "healthy d" and "claimSelected f w cls now pl d = ((res, r), pl', d')"
  shows "healthy d'" "item_of res = (wk_RootID w, wk_ScopeKey w)" "xr_Selected res"
    "p \<noteq> item_of res \<Longrightarrow> marks d' p = marks d p" "verification d' p = verification d p"
    "r = Inl e \<Longrightarrow> e = ErrStaleSelection \<or> (\<exists>c. e = ErrClaim c)"
    "r = Inl e \<Longrightarrow> f = NoFault \<Longrightarrow> marks d' = marks d"
    "r = Inr wk \<Longrightarrow> (wk_RootID wk, wk_ScopeKey wk) = item_of res \<and> claim_seq wk = xr_ClaimedSignalSeq res \<and>
       0 < xr_ClaimedSignalSeq res"
proof -
  let ?tx = "ClaimWork (wk_RootID w) (wk_ScopeKey w) (wk_Version w) now"
  let ?p = "(wk_RootID w, wk_ScopeKey w)"
  obtain a d1 where tx: "?tx d = (a, d1)" by fastforce
  note m = ClaimWork_marks [OF tx]
  obtain c where c: "store_call f ?tx d = (c, d')"
    using assms(2) by (cases "store_call f ?tx d") (auto simp: claimSelected_def Let_def split: sum.splits option.splits)
  have eq: "((res, r), pl') = (case c of
      Inl e \<Rightarrow> ((selected_result w cls, Inl (if e = StoreErr ErrStateCASConflict then ErrStaleSelection else ErrClaim e)), pl)
    | Inr wk \<Rightarrow> (case wk_ClaimedSignalSeq wk of
        None \<Rightarrow> ((selected_result w cls, Inl ErrMissingSequence), pl)
      | Some q \<Rightarrow> (((selected_result w cls)\<lparr>xr_ClaimedSignalSeq := q\<rparr>, Inr wk), recordSelection (wk_RootID wk) cls pl)))"
    using assms(2) c by (auto simp: claimSelected_def Let_def split: sum.splits option.splits)
  have d': "d' = d \<or> d' = d1" "\<And>x. c = Inr x \<Longrightarrow> a = Inr x \<and> d' = d1"
      "\<And>x. c = Inl x \<Longrightarrow> f = NoFault \<Longrightarrow> isl a \<and> d' = d1"
    using c tx by (auto simp: store_call_def cause_of_def map_sum_def split: fault.splits sum.splits if_splits)
  have "healthy (snd (store_call f ?tx d))" by (rule claim_work.call_healthy [OF assms(1)])
  then show healthy: "healthy d'" using c by simp
  show item: "item_of res = ?p" and "xr_Selected res"
    using eq by (auto simp: item_of_def selected_result_def split: sum.splits option.splits)
  show "p \<noteq> item_of res \<Longrightarrow> marks d' p = marks d p" "verification d' p = verification d p"
    using d'(1) m item by (auto simp: verification_def split: sum.splits)
  show "r = Inl e \<Longrightarrow> e = ErrStaleSelection \<or> (\<exists>c. e = ErrClaim c)"
    using eq m d'(2) by (auto split: sum.splits option.splits if_splits)
  show "r = Inl e \<Longrightarrow> f = NoFault \<Longrightarrow> marks d' = marks d"
    using eq m d'(2,3) by (cases c; cases a) (auto split: option.splits)
  show "(wk_RootID wk, wk_ScopeKey wk) = item_of res \<and> claim_seq wk = xr_ClaimedSignalSeq res \<and>
      0 < xr_ClaimedSignalSeq res" if granted: "r = Inr wk"
  proof -
    obtain q where wk: "c = Inr wk" "wk_ClaimedSignalSeq wk = Some q" "xr_ClaimedSignalSeq res = q"
      using eq granted by (auto split: sum.splits option.splits)
    then have "mk_claim (marks d' ?p) = Some q" "(wk_RootID wk, wk_ScopeKey wk) = ?p"
      using m d'(2) [OF wk(1)] by auto
    then show ?thesis
      using claim_positive [of d' "wk_RootID w" "wk_ScopeKey w" q] healthy wk item by (simp add: healthy_def claim_seq_def)
  qed
qed

text \<open>Everything an invocation can do: it selects nothing, or fails to claim, or claims and completes, or
  claims and is interrupted. The marks of other items are untouched, and a verification follows a scan that
  verified the coverage.\<close>

definition exec_effect :: "ExecConfig \<Rightarrow> exec_env \<Rightarrow> db \<Rightarrow> exec_Result \<Rightarrow> exec_error option \<Rightarrow> db \<Rightarrow> bool" where
  "exec_effect cfg ev d res err d' \<longleftrightarrow>
     healthy d' \<and> (\<forall>p. p \<noteq> item_of res \<longrightarrow> marks d' p = marks d p) \<and>
     ((\<exists>e. err = Some e \<and> (e \<in> {ErrInvalidConfig, ErrNoEligibleWork} \<or> (\<exists>c. e = ErrSelect c)) \<and>
        \<not> xr_Selected res \<and> d' = d) \<or>
      (\<exists>e. err = Some e \<and> (e = ErrStaleSelection \<or> (\<exists>c. e = ErrClaim c)) \<and> xr_Selected res \<and>
        (xe_claim ev = NoFault \<longrightarrow> marks d' = marks d)) \<or>
      (xr_Selected res \<and> 0 < xr_ClaimedSignalSeq res \<and>
        ((err = None \<or> (\<exists>cls. err = Some (ErrScannerFailed cls) \<and> xr_FailureClass res = Some cls)) \<and>
           \<not> busy d' (item_of res) \<or>
         (\<exists>c. err = Some (ErrCompletionFailed c)) \<or> (\<exists>c. err = Some (ErrContext c))))) \<and>
     (\<forall>p. verification d' p \<noteq> verification d p \<longrightarrow> p = item_of res \<and> xe_ctx ev = None \<and>
        mk_seq (marks d' p) = Some (xr_ClaimedSignalSeq res) \<and>
        (\<exists>wk d1 sr d2. xe_scan ev wk (xc_MaxEntriesPerScope cfg) d1 = (Inr sr, d2) \<and>
           (wk_RootID wk, wk_ScopeKey wk) = p \<and> verifiesCoverage (oc_Status (sr_Outcome sr))))"

lemma ExecuteOne_effect:
  assumes calm: "calm_env ev" and "healthy d" and step: "ExecuteOne cfg ev pl d = ((res, err), pl', d')"
  shows "exec_effect cfg ev d res err d'"
proof (cases "exec_Validate cfg")
  case (Inl e)
  then have "e = ErrInvalidConfig" by (auto simp: exec_Validate_def retry_Validate_def split: if_splits)
  with Inl show ?thesis using step assms(2) by (auto simp: exec_effect_def ExecuteOne_def no_item_def)
next
  case valid: (Inr _)
  obtain sel pl1 where sel: "select_item cfg ev pl d = (sel, pl1)" by fastforce
  show ?thesis
  proof (cases "\<exists>w cls. sel = Inr (Some w, cls)")
    case False
    then show ?thesis
      using step assms(2) valid sel by (auto simp: exec_effect_def ExecuteOne_def no_item_def split: sum.splits option.splits)
  next
    case True
    then obtain w cls where w: "sel = Inr (Some w, cls)" by blast
    let ?d0 = "xe_before_claim ev d"
    have d0: "healthy ?d0" "marks ?d0 = marks d" using calm assms(2) by (auto simp: calm_env_def calm_def)
    obtain r0 r pl2 d1 where c: "claimSelected (xe_claim ev) w cls (xe_now ev) pl1 ?d0 = ((r0, r), pl2, d1)"
      by (metis prod_cases3 surj_pair)
    note ce = claimSelected_effect [OF d0(1) c]
    show ?thesis
    proof (cases r)
      case (Inl e)
      then have "res = r0" "err = Some e" "d' = d1" using step valid sel w c by (simp_all add: ExecuteOne_def)
      then show ?thesis using ce(1,3,4,5) ce(6,7) [OF Inl] d0(2) by (auto simp: exec_effect_def verification_def)
    next
      case (Inr wk)
      obtain scanned d2 where scan: "xe_scan ev wk (xc_MaxEntriesPerScope cfg) d1 = (scanned, d2)" by fastforce
      have "calm (\<lambda>d. snd (xe_scan ev wk (xc_MaxEntriesPerScope cfg) d))" using calm by (simp add: calm_env_def)
      from calmD [OF this ce(1)] scan have d2: "healthy d2" "marks d2 = marks d1" by simp_all
      let ?d3 = "xe_before_complete ev d2"
      have d3: "healthy ?d3" "marks ?d3 = marks d1" using calm d2 by (auto simp: calm_env_def calm_def)
      have complete: "completeScan cfg ev r0 wk scanned ?d3 = ((res, err), d')"
        using step valid sel w c Inr scan by (auto simp: ExecuteOne_def scan_and_complete_def split: prod.splits)
      note wk = ce(8) [OF Inr]
      note f = completeScan_effect [OF d3(1) complete wk [THEN conjunct1, symmetric]]
      have same: "item_of res = item_of r0" "xr_Selected res" "xr_ClaimedSignalSeq res = xr_ClaimedSignalSeq r0"
        using f ce(3) by (auto simp: same_claim_def)
      have ver: "verification ?d3 p = verification d p" for p
        using ce(5) [of p] d0(2) d3(2) by (simp add: verification_def)
      have outside: "marks d' p = marks d p" if "p \<noteq> item_of res" for p
        using f that same(1) ce(4) [of p] d0(2) d3(2) by (cases p) auto
      have proved: "p = item_of res \<and> xe_ctx ev = None \<and> mk_seq (marks d' p) = Some (xr_ClaimedSignalSeq res) \<and>
          (\<exists>wk d1 sr d2. xe_scan ev wk (xc_MaxEntriesPerScope cfg) d1 = (Inr sr, d2) \<and>
             (wk_RootID wk, wk_ScopeKey wk) = p \<and> verifiesCoverage (oc_Status (sr_Outcome sr)))"
        if "verification d' p \<noteq> verification d p" for p
      proof -
        have "p = item_of r0 \<and> xe_ctx ev = None \<and> mk_seq (marks d' p) = Some (claim_seq wk) \<and>
            (\<exists>sr. scanned = Inr sr \<and> verifiesCoverage (oc_Status (sr_Outcome sr)))"
          using f that unfolding ver by blast
        then show ?thesis using same wk scan by auto
      qed
      have "(err = None \<or> (\<exists>cls. err = Some (ErrScannerFailed cls) \<and> xr_FailureClass res = Some cls)) \<and>
          \<not> busy d' (item_of res) \<or> (\<exists>c. err = Some (ErrCompletionFailed c)) \<or> (\<exists>c. err = Some (ErrContext c))"
        using f same(1) by (cases err) auto
      with f same wk outside proved show ?thesis by (simp add: exec_effect_def)
    qed
  qed
qed

end
