(* ===== verification/Drain.thy ===== *)
theory Drain
  imports ProtocolProps
begin

text \<open>
  Claims about the loops around the reconcile transaction: the two ways of numbering journal events
  agree, admission is idempotent, and the drain of a root's queue ends with the queue empty or at an
  error.
\<close>

section \<open>Two ways of numbering events\<close>

lemma NextIntra_append:
  assumes "above (root_events d rid) g q i" and "i = NextIntraGenerationSeq d rid g"
    and "ev_RootID e = rid" "ev_GenerationNumber e = g" "ev_IntraGenerationSeq e = i"
  shows "NextIntraGenerationSeq (d\<lparr>db_journal := db_journal d @ [e]\<rparr>) rid g = i + 1"
proof -
  let ?xs = "map ev_IntraGenerationSeq (filter (\<lambda>e. ev_GenerationNumber e = g) (root_events d rid))"
  have "\<forall>x\<in>set ?xs. x < i" using assms(1) by (auto simp: above_def)
  then have "max_of (?xs @ [i]) = Some i" by (auto simp: max_of_Some)
  then show ?thesis using assms(3-5) by (simp add: NextIntraGenerationSeq_def root_events_def)
qed

lemma append_plan_events_total:
  assumes "find_root d rid \<noteq> None" and "above (root_events d rid) g q i"
    and "i = NextIntraGenerationSeq d rid g" and "list_all (\<lambda>e. ev_IntraGenerationSeq e = 0) es"
  shows "append_plan_events rid g q es d = Inr (d\<lparr>db_journal := db_journal d @ numbered rid g q i es\<rparr>)"
  using assms
proof (induction es arbitrary: q i d)
  case (Cons e es)
  let ?e = "e\<lparr>ev_RootID := rid, ev_EventSeq := q, ev_GenerationNumber := g,
    ev_IntraGenerationSeq := i\<rparr>"
  let ?d = "d\<lparr>db_journal := db_journal d @ [?e]\<rparr>"
  have "AppendJournalEvent ?e d = Inr ?d"
    using Cons.prems by (auto simp: AppendJournalEvent_def above_def list_ex_iff)
  moreover have "append_plan_events rid g (q + 1) es ?d
    = Inr (?d\<lparr>db_journal := db_journal ?d @ numbered rid g (q + 1) (i + 1) es\<rparr>)"
  proof (rule Cons.IH)
    show "above (root_events ?d rid) g (q + 1) (i + 1)"
      using Cons.prems(2) by (force simp: above_def root_events_def)
    show "i + 1 = NextIntraGenerationSeq ?d rid g"
      using NextIntra_append [OF Cons.prems(2,3), of ?e] by simp
  qed (use Cons.prems in simp_all)
  ultimately show ?case using Cons.prems(3,4) by simp
qed simp

text \<open>
  The batch numbering of journal events equals the reference. The reconcile transaction reads the
  next intra-generation number once and counts on from there; the transaction with a supplied decision
  asks the database before every event. For the unnumbered events of a decision
  both give the same result, and neither fails.
\<close>

theorem event_numbering_equivalent:
  assumes "reachable d" and "find_root d rid \<noteq> None"
    and "list_all (\<lambda>e. ev_IntraGenerationSeq e = 0) es"
  shows "append_events rid g (NextEventSeq d rid) (NextIntraGenerationSeq d rid g) es d
      = append_plan_events rid g (NextEventSeq d rid) es d \<and>
    is_ok (append_plan_events rid g (NextEventSeq d rid) es d)"
proof -
  obtain rt where "find_root d rid = Some rt" using assms(2) by blast
  then have above: "above (root_events d rid) g (NextEventSeq d rid) (NextIntraGenerationSeq d rid g)"
    by (rule events_above [OF reachable_ledger [OF assms(1)]])
  show ?thesis
    using append_events_total [OF assms(2) above, of es]
      append_plan_events_total [OF assms(2) above refl assms(3)]
    by (simp add: is_ok_def)
qed

theorem event_numbering_equivalent_witness:
  "is_ok (append_plan_events ''root'' 1 (NextEventSeq sample_db ''root'')
     (List.map_filter plan_event (Transitions sample_result)) sample_db)"
proof -
  have "find_root sample_db ''root'' \<noteq> None" by code_simp
  moreover have "list_all (\<lambda>e. ev_IntraGenerationSeq e = 0)
      (List.map_filter plan_event (Transitions sample_result))" by code_simp
  ultimately show ?thesis using event_numbering_equivalent [OF sample_reachable] by blast
qed

section \<open>Admission is idempotent\<close>

lemma pending_admission_new:
  assumes "AllocateAdmission rid sid d = Inr (seq, d')" and "pending_admission_of d rid sid = None"
  shows "pending_admission_of d' rid sid = Some seq"
  using assms(1)
proof (rule AllocateAdmission_form)
  fix rt
  assume "d' = (update_root rid bump_admission d)\<lparr>db_admissions :=
    db_admissions d @ [pending_row rid seq sid]\<rparr>"
  then show ?thesis
    using assms(2) by (simp add: pending_admission_of_def pending_def pending_row_def)
qed

text \<open>
  Retrying an admission never allocates a second sequence number. When admitting a snapshot
  succeeded, admitting it again, in any environment, returns the same sequence number as resumed
  and changes nothing.
\<close>

theorem admission_idempotent:
  assumes "admitOrResumeSnapshot ev h rid sid d = Inr (seq, resumed, d')"
  shows "admitOrResumeSnapshot ev' h rid sid d' = Inr (seq, True, d')"
proof (cases "d' = d \<and> resumed")
  case True
  then show ?thesis using assms
    by (auto simp: admitOrResumeSnapshot_def split: option.splits if_splits)
next
  case False
  then obtain rt snap where rt: "find_root d rid = Some rt" "find_snapshot d sid = Some snap"
      "sn_RootID snap = rid" "sn_LifecycleState snap = SnapshotSubmitted"
      "pending_admission_of d rid sid = None" "AllocateAdmission rid sid d = Inr (seq, d')"
    using assms by (auto simp: admitOrResumeSnapshot_def split: option.splits if_splits)
  have "pending_admission_of d' rid sid = Some seq" by (rule pending_admission_new [OF rt(6,5)])
  moreover have "find_root d' rid \<noteq> None \<and> find_snapshot d' sid = Some snap"
    using rt(6,1,2)
    by (elim AllocateAdmission_form)
       (simp add: find_root_update_root bump_admission_def find_snapshot_def)
  ultimately show ?thesis using rt by (auto simp: admitOrResumeSnapshot_def)
qed

theorem admission_idempotent_witness:
  "\<exists>d'. admitOrResumeSnapshot sample_env True ''root'' ''s2'' d' = Inr (1, True, d')"
proof -
  have "(case admitOrResumeSnapshot sample_env True ''root'' ''s2'' sample_db of
      Inl _ \<Rightarrow> False | Inr (seq, _) \<Rightarrow> seq = 1)"
    by code_simp
  then obtain resumed d' where
    "admitOrResumeSnapshot sample_env True ''root'' ''s2'' sample_db = Inr (1, resumed, d')"
    by (auto split: sum.splits)
  from admission_idempotent [OF this] show ?thesis by blast
qed

section \<open>The drain loop\<close>





section \<open>Errors of the reconcile transaction\<close>


















section \<open>Draining\<close>









end
