(* ===== verification/SourceBudget.thy ===== *)
theory SourceBudget
  imports Prelude "HOL-Library.AList"
begin

text \<open>
  The process-local request budget of the source providers (\<open>internal/sourcebudget/budget.go\<close>): spacing
  of requests globally, per root and per provider group, and cooldowns after a provider said it is
  overloaded. The mutex makes each critical section one step; the wait of \<open>acquire\<close> lets other callers in
  between, so its loop takes what happens in each round from its environment. Parsing of URLs and of
  HTTP dates is a library call whose result is an argument.
\<close>

section \<open>Configuration\<close>

datatype budget_error = ErrDeferred | ErrCapacity | ErrEndpoint | ErrBudgetConfig string | ErrContext

record BudgetConfig =
  bc_Global :: duration
  bc_Root :: duration
  bc_Provider :: duration
  bc_Backoff :: duration
  bc_MaxBackoff :: duration
  bc_MaxKeys :: int

definition budget_Defaults :: BudgetConfig where
  "budget_Defaults =
     \<lparr>bc_Global = 100 * millisecond, bc_Root = 100 * millisecond, bc_Provider = 100 * millisecond,
      bc_Backoff = 45 * second, bc_MaxBackoff = 15 * minute, bc_MaxKeys = 4096\<rparr>"

definition budget_Validate :: "BudgetConfig \<Rightarrow> budget_error + unit" where
  "budget_Validate c =
     (if list_ex (\<lambda>d. d < millisecond \<or> d > minute) [bc_Global c, bc_Root c, bc_Provider c]
      then Inl (ErrBudgetConfig ''source spacing must be1ms..1m'')
      else if bc_Backoff c < millisecond \<or> bc_MaxBackoff c < bc_Backoff c \<or> bc_MaxBackoff c > hour \<or>
              bc_MaxKeys c < 1 \<or> bc_MaxKeys c > 4096
      then Inl (ErrBudgetConfig ''invalid bounded source backoff/state policy'')
      else Inr ())"

section \<open>State\<close>

record slot =
  sl_next :: gotime
  sl_until :: gotime
  sl_strikes :: int

definition zero_slot :: slot where
  "zero_slot = \<lparr>sl_next = zero_time, sl_until = zero_time, sl_strikes = 0\<rparr>"

record Manager =
  mg_cfg :: BudgetConfig
  mg_global :: gotime
  mg_roots :: "(string \<times> slot) list"
  mg_groups :: "(string \<times> slot) list"

definition New :: "BudgetConfig \<Rightarrow> budget_error + Manager" where
  "New c =
     (case budget_Validate c of
        Inl e \<Rightarrow> Inl e
      | Inr _ \<Rightarrow> Inr \<lparr>mg_cfg = c, mg_global = zero_time, mg_roots = [], mg_groups = []\<rparr>)"

definition max_time :: "gotime \<Rightarrow> gotime \<Rightarrow> gotime" where
  "max_time a b = (if a < b then b else a)"

definition slot_of :: "(string \<times> slot) list \<Rightarrow> string \<Rightarrow> slot" where
  "slot_of xs k = (case map_of xs k of None \<Rightarrow> zero_slot | Some s \<Rightarrow> s)"

definition ensure :: "string \<Rightarrow> (string \<times> slot) list \<Rightarrow> (string \<times> slot) list" where
  "ensure k xs = (if map_of xs k = None then AList.update k zero_slot xs else xs)"

definition register :: "string \<Rightarrow> string \<Rightarrow> Manager \<Rightarrow> budget_error + Manager" where
  "register rid grp m =
     (if rid = [] \<or> grp = [] \<or> length rid > 128 \<or> length grp > 512 then Inl ErrEndpoint
      else if (map_of (mg_roots m) rid = None \<and> int (length (mg_roots m)) \<ge> bc_MaxKeys (mg_cfg m)) \<or>
              (map_of (mg_groups m) grp = None \<and> int (length (mg_groups m)) \<ge> bc_MaxKeys (mg_cfg m))
      then Inl ErrCapacity
      else Inr (m\<lparr>mg_roots := ensure rid (mg_roots m), mg_groups := ensure grp (mg_groups m)\<rparr>))"

section \<open>Acquiring\<close>

datatype attempt = Granted | Wait duration | Refused budget_error

text \<open>One round of the loop, under the mutex.\<close>

definition acquire_once :: "string \<Rightarrow> string \<Rightarrow> gotime \<Rightarrow> Manager \<Rightarrow> attempt \<times> Manager" where
  "acquire_once rid grp now m =
     (case register rid grp m of
        Inl e \<Rightarrow> (Refused e, m)
      | Inr m \<Rightarrow>
          let r = slot_of (mg_roots m) rid; p = slot_of (mg_groups m) grp;
              until = max_time (sl_until r) (sl_until p)
          in if until > now
             then (Refused ErrDeferred, m\<lparr>mg_roots := AList.update rid (r\<lparr>sl_until := until\<rparr>) (mg_roots m)\<rparr>)
             else let due = max_time (mg_global m) (max_time (sl_next r) (sl_next p))
                  in if \<not> due > now
                     then (Granted, m\<lparr>mg_global := now + bc_Global (mg_cfg m),
                       mg_roots := AList.update rid (r\<lparr>sl_next := now + bc_Root (mg_cfg m)\<rparr>) (mg_roots m),
                       mg_groups := AList.update grp (p\<lparr>sl_next := now + bc_Provider (mg_cfg m)\<rparr>) (mg_groups m)\<rparr>)
                     else (Wait (time_sub due now), m))"

text \<open>What the environment does in a round: whether the context is cancelled, the clock, what other
  callers do to the shared state while this one waits, and whether the wait is cut short.\<close>

record acq_round =
  rd_cancelled :: bool
  rd_now :: gotime
  rd_others :: "Manager \<Rightarrow> Manager"
  rd_interrupted :: bool

text \<open>\<open>None\<close> while the caller still waits after the given rounds.\<close>

fun acquire :: "acq_round list \<Rightarrow> string \<Rightarrow> string \<Rightarrow> Manager \<Rightarrow> ((budget_error + unit) \<times> Manager) option" where
  "acquire [] rid grp m = None"
| "acquire (t # ts) rid grp m =
     (if rd_cancelled t then Some (Inl ErrContext, m)
      else case acquire_once rid grp (rd_now t) m of
        (Refused e, m') \<Rightarrow> Some (Inl e, m')
      | (Granted, m') \<Rightarrow> Some (Inr (), m')
      | (Wait d, m') \<Rightarrow>
          if rd_interrupted t then Some (Inl ErrContext, rd_others t m')
          else acquire ts rid grp (rd_others t m'))"

section \<open>Cooldowns\<close>

function backoff_loop :: "duration \<Rightarrow> int \<Rightarrow> int \<Rightarrow> duration \<Rightarrow> duration" where
  "backoff_loop limit strikes i d =
     (if i < strikes \<and> d < limit then backoff_loop limit strikes (i + 1) (d * 2) else d)"
  by pat_completeness auto
termination
  by (relation "measure (\<lambda>(limit, strikes, i, d). nat (strikes - i))") auto

declare backoff_loop.simps [simp del]

definition penalty :: "BudgetConfig \<Rightarrow> int \<Rightarrow> duration \<Rightarrow> duration" where
  "penalty c strikes retry =
     (let d = backoff_loop (bc_MaxBackoff c) strikes 1 (bc_Backoff c);
          d = (if d > bc_MaxBackoff c then bc_MaxBackoff c else d)
      in if retry > d then retry else d)"

definition Penalize :: "string \<Rightarrow> string \<Rightarrow> duration \<Rightarrow> gotime \<Rightarrow> Manager \<Rightarrow> Manager" where
  "Penalize rid grp retry now m =
     (case register rid grp m of
        Inl _ \<Rightarrow> m
      | Inr m \<Rightarrow>
          let p = slot_of (mg_groups m) grp;
              strikes = (if sl_strikes p < 20 then sl_strikes p + 1 else sl_strikes p);
              until = max_time (sl_until p) (now + penalty (mg_cfg m) strikes retry);
              r = slot_of (mg_roots m) rid
          in m\<lparr>mg_groups := AList.update grp (p\<lparr>sl_strikes := strikes, sl_until := until\<rparr>) (mg_groups m),
               mg_roots := AList.update rid (r\<lparr>sl_until := max_time (sl_until r) until\<rparr>) (mg_roots m)\<rparr>)"

definition RootUntil :: "string \<Rightarrow> Manager \<Rightarrow> gotime" where
  "RootUntil rid m = (case map_of (mg_roots m) rid of None \<Rightarrow> zero_time | Some r \<Rightarrow> sl_until r)"

section \<open>Groups\<close>

text \<open>The parts of \<open>url.Parse\<close>'s result that are read.\<close>

record URL =
  url_Scheme :: string
  url_Host :: string
  url_User :: bool
  url_Hostname :: string
  url_Port :: string

definition char_between :: "char \<Rightarrow> char \<Rightarrow> char \<Rightarrow> bool" where
  "char_between lo hi c \<longleftrightarrow> (of_char lo :: nat) \<le> of_char c \<and> (of_char c :: nat) \<le> of_char hi"

definition lower_char :: "char \<Rightarrow> char" where
  "lower_char c = (if char_between CHR ''A'' CHR ''Z'' c then char_of (of_char c + (32 :: nat)) else c)"

definition group_char :: "char \<Rightarrow> bool" where
  "group_char c \<longleftrightarrow>
     char_between CHR ''a'' CHR ''z'' c \<or> char_between CHR ''A'' CHR ''Z'' c \<or> char_between CHR ''0'' CHR ''9'' c \<or>
     c \<in> set ''._-''"

text \<open>\<open>strings.ToLower\<close> on a host name, which is ASCII, and \<open>net.JoinHostPort\<close>.\<close>

definition join_host_port :: "string \<Rightarrow> string \<Rightarrow> string" where
  "join_host_port host port =
     (if CHR '':'' \<in> set host then ''['' @ host @ '']:'' @ port else host @ '':'' @ port)"

definition Group :: "URL option \<Rightarrow> string \<Rightarrow> budget_error + string" where
  "Group parsed explicit =
     (case parsed of
        None \<Rightarrow> Inl ErrEndpoint
      | Some u \<Rightarrow>
          if url_Host u = [] \<or> url_User u \<or> (url_Scheme u \<noteq> ''http'' \<and> url_Scheme u \<noteq> ''https'')
          then Inl ErrEndpoint
          else if explicit \<noteq> []
          then (if length explicit > 64 \<or> \<not> list_all group_char explicit then Inl ErrEndpoint
                else Inr (''group:'' @ explicit))
          else let host = map lower_char (url_Hostname u);
                   port = (if (url_Scheme u = ''http'' \<and> url_Port u = ''80'') \<or>
                              (url_Scheme u = ''https'' \<and> url_Port u = ''443'') then [] else url_Port u)
               in Inr (url_Scheme u @ ''://'' @
                    (if port \<noteq> [] then join_host_port host port
                     else if CHR '':'' \<in> set host then ''['' @ host @ '']'' else host)))"

definition ReadyAt :: "string \<Rightarrow> URL option \<Rightarrow> string \<Rightarrow> Manager \<Rightarrow> (budget_error + gotime) \<times> Manager" where
  "ReadyAt rid endpoint explicit m =
     (case Group endpoint explicit of
        Inl e \<Rightarrow> (Inl e, m)
      | Inr g \<Rightarrow>
          (case register rid g m of
             Inl e \<Rightarrow> (Inl e, m)
           | Inr m \<Rightarrow>
               let r = slot_of (mg_roots m) rid;
                   until = max_time (sl_until r) (sl_until (slot_of (mg_groups m) g))
               in (Inr until, m\<lparr>mg_roots := AList.update rid (r\<lparr>sl_until := until\<rparr>) (mg_roots m)\<rparr>)))"

definition Succeeded :: "URL option \<Rightarrow> string \<Rightarrow> gotime \<Rightarrow> Manager \<Rightarrow> Manager" where
  "Succeeded endpoint explicit now m =
     (case Group endpoint explicit of
        Inl _ \<Rightarrow> m
      | Inr g \<Rightarrow>
          (case map_of (mg_groups m) g of
             None \<Rightarrow> m
           | Some p \<Rightarrow>
               if \<not> sl_until p > now
               then m\<lparr>mg_groups := AList.update g (p\<lparr>sl_strikes := 0\<rparr>) (mg_groups m)\<rparr> else m))"

section \<open>Answers of the provider\<close>

text \<open>\<open>strconv.ParseInt(raw, 10, 64)\<close>.\<close>

definition is_digit :: "char \<Rightarrow> bool" where
  "is_digit c \<longleftrightarrow> char_between CHR ''0'' CHR ''9'' c"

definition parse_int64 :: "string \<Rightarrow> int option" where
  "parse_int64 raw =
     (let neg = (raw \<noteq> [] \<and> hd raw = CHR ''-'');
          ds = (if raw \<noteq> [] \<and> (hd raw = CHR ''-'' \<or> hd raw = CHR ''+'') then tl raw else raw);
          v = int (dec_value ds)
      in if ds = [] \<or> \<not> list_all is_digit ds then None
         else if neg then (if v > 2 ^ 63 then None else Some (- v))
         else if v \<ge> 2 ^ 63 then None else Some v)"

definition retryAfter :: "string \<Rightarrow> gotime option \<Rightarrow> gotime \<Rightarrow> duration" where
  "retryAfter raw httpTime now =
     (case parse_int64 raw of
        Some n \<Rightarrow>
          if n > 0 then (if n > (2 ^ 63 - 1) div second then 2 ^ 63 - 1 else n * second)
          else (case httpTime of Some t \<Rightarrow> if t > now then time_sub t now else 0 | None \<Rightarrow> 0)
      | None \<Rightarrow> (case httpTime of Some t \<Rightarrow> if t > now then time_sub t now else 0 | None \<Rightarrow> 0))"

record Response =
  resp_StatusCode :: int
  resp_RetryAfter :: string
  resp_RetryTime :: "gotime option"

text \<open>A request: the origin must be the client's, the budget must grant it, and a 429 answer is a
  penalty. \<open>base\<close> is the answer of the transport, \<open>after\<close> the clock when it arrives, \<open>meanwhile\<close> what other
  callers do during the request.\<close>

definition RoundTrip ::
  "string \<Rightarrow> string \<Rightarrow> string \<Rightarrow> URL option \<Rightarrow> acq_round list \<Rightarrow> (Manager \<Rightarrow> Manager) \<Rightarrow> (string + Response) \<Rightarrow> gotime
     \<Rightarrow> Manager \<Rightarrow> ((budget_error + (string + Response)) \<times> Manager) option" where
  "RoundTrip rid grp origin reqURL rounds meanwhile base after m =
     (if Group reqURL [] \<noteq> Inr origin then Some (Inl ErrEndpoint, m)
      else case acquire rounds rid grp m of
        None \<Rightarrow> None
      | Some (Inl e, m') \<Rightarrow> Some (Inl e, m')
      | Some (Inr _, m') \<Rightarrow>
          let m'' = meanwhile m'
          in Some (Inr base,
               case base of
                 Inl _ \<Rightarrow> m''
               | Inr resp \<Rightarrow>
                   if resp_StatusCode resp = 429
                   then Penalize rid grp (retryAfter (resp_RetryAfter resp) (resp_RetryTime resp) after) after m''
                   else m''))"

definition Client :: "string \<Rightarrow> URL option \<Rightarrow> string \<Rightarrow> Manager \<Rightarrow> (budget_error + string \<times> string) \<times> Manager" where
  "Client rid endpoint explicit m =
     (case Group endpoint explicit of
        Inl e \<Rightarrow> (Inl e, m)
      | Inr grp \<Rightarrow>
          (case Group endpoint [] of
             Inl e \<Rightarrow> (Inl e, m)
           | Inr origin \<Rightarrow>
               (case register rid grp m of
                  Inl e \<Rightarrow> (Inl e, m)
                | Inr m' \<Rightarrow> (Inr (grp, origin), m'))))"

section \<open>Histories\<close>

text \<open>Calls of any clients in the order in which they take the mutex, each with the clock it reads; the
  grants they obtain.\<close>

datatype budget_op =
    Acquire string string
  | Penalise string string duration
  | Ready string "URL option" string
  | Success "URL option" string
  | Open string "URL option" string

fun budget_step :: "budget_op \<Rightarrow> gotime \<Rightarrow> Manager \<Rightarrow> (gotime \<times> string \<times> string) list \<times> Manager" where
  "budget_step (Acquire rid grp) now m =
     (case acquire_once rid grp now m of
        (Granted, m') \<Rightarrow> ([(now, rid, grp)], m')
      | (_, m') \<Rightarrow> ([], m'))"
| "budget_step (Penalise rid grp retry) now m = ([], Penalize rid grp retry now m)"
| "budget_step (Ready rid url explicit) now m = ([], snd (ReadyAt rid url explicit m))"
| "budget_step (Success url explicit) now m = ([], Succeeded url explicit now m)"
| "budget_step (Open rid url explicit) now m = ([], snd (Client rid url explicit m))"

fun budget_run :: "(budget_op \<times> gotime) list \<Rightarrow> Manager \<Rightarrow> (gotime \<times> string \<times> string) list" where
  "budget_run [] m = []"
| "budget_run ((call, now) # rest) m =
     (case budget_step call now m of (gs, m') \<Rightarrow> gs @ budget_run rest m')"

section \<open>Reservations only grow\<close>

lemma slot_of_update [simp]: "slot_of (AList.update k v xs) k' = (if k' = k then v else slot_of xs k')"
  by (simp add: slot_of_def update_conv')

lemma slot_of_ensure [simp]: "slot_of (ensure k xs) = slot_of xs"
  by (auto simp: ensure_def slot_of_def update_conv' fun_eq_iff)

lemma max_time_max: "max_time a b = max a b"
  by (simp add: max_time_def max_def)

definition cfg_ok :: "BudgetConfig \<Rightarrow> bool" where
  "cfg_ok c \<longleftrightarrow> 0 \<le> bc_Global c \<and> 0 \<le> bc_Root c \<and> 0 \<le> bc_Provider c \<and> 0 < bc_Backoff c \<and>
     bc_Backoff c \<le> bc_MaxBackoff c"

definition grown :: "Manager \<Rightarrow> Manager \<Rightarrow> bool" where
  "grown m m' \<longleftrightarrow> mg_cfg m' = mg_cfg m \<and> mg_global m \<le> mg_global m' \<and>
     (\<forall>k. sl_next (slot_of (mg_roots m) k) \<le> sl_next (slot_of (mg_roots m') k) \<and>
          sl_until (slot_of (mg_roots m) k) \<le> sl_until (slot_of (mg_roots m') k) \<and>
          sl_next (slot_of (mg_groups m) k) \<le> sl_next (slot_of (mg_groups m') k) \<and>
          sl_until (slot_of (mg_groups m) k) \<le> sl_until (slot_of (mg_groups m') k))"

lemma grown_refl: "grown m m"
  by (simp add: grown_def)

lemma grown_trans: "grown m m1 \<Longrightarrow> grown m1 m2 \<Longrightarrow> grown m m2"
  unfolding grown_def by (metis order_trans)

lemma register_same:
  assumes "register rid grp m = Inr m'"
  shows "mg_cfg m' = mg_cfg m" "mg_global m' = mg_global m"
    "slot_of (mg_roots m') = slot_of (mg_roots m)" "slot_of (mg_groups m') = slot_of (mg_groups m)"
  using assms by (auto simp: register_def split: if_splits)

lemma acquire_cases:
  assumes "register rid grp m = Inr m1"
  defines "r \<equiv> slot_of (mg_roots m) rid" and "p \<equiv> slot_of (mg_groups m) grp"
  obtains (deferred) "acquire_once rid grp now m = (Refused ErrDeferred,
      m1\<lparr>mg_roots := AList.update rid (r\<lparr>sl_until := max (sl_until r) (sl_until p)\<rparr>) (mg_roots m1)\<rparr>)"
  | (granted) "acquire_once rid grp now m = (Granted, m1\<lparr>mg_global := now + bc_Global (mg_cfg m),
       mg_roots := AList.update rid (r\<lparr>sl_next := now + bc_Root (mg_cfg m)\<rparr>) (mg_roots m1),
       mg_groups := AList.update grp (p\<lparr>sl_next := now + bc_Provider (mg_cfg m)\<rparr>) (mg_groups m1)\<rparr>)"
      "sl_until r \<le> now" "sl_until p \<le> now" "mg_global m \<le> now" "sl_next r \<le> now" "sl_next p \<le> now"
  | (waits) d where "acquire_once rid grp now m = (Wait d, m1)" "d = time_sub (max (mg_global m) (max (sl_next r) (sl_next p))) now"
proof -
  note same = register_same [OF assms(1)]
  show ?thesis
  proof (cases "max (sl_until r) (sl_until p) > now")
    case True
    then have "acquire_once rid grp now m = (Refused ErrDeferred,
      m1\<lparr>mg_roots := AList.update rid (r\<lparr>sl_until := max (sl_until r) (sl_until p)\<rparr>) (mg_roots m1)\<rparr>)"
      by (simp add: acquire_once_def assms(1) Let_def max_time_max same r_def p_def)
    then show ?thesis by (rule deferred)
  next
    case no: False
    show ?thesis
    proof (cases "max (mg_global m) (max (sl_next r) (sl_next p)) > now")
      case True
      then have "acquire_once rid grp now m = (Wait (time_sub (max (mg_global m) (max (sl_next r) (sl_next p))) now), m1)"
        using no by (simp only: acquire_once_def assms(1) Let_def max_time_max same r_def [symmetric] p_def [symmetric]
            sum.case if_True if_False not_True_eq_False)
      then show ?thesis using waits by blast
    next
      case False
      then have "acquire_once rid grp now m = (Granted, m1\<lparr>mg_global := now + bc_Global (mg_cfg m),
         mg_roots := AList.update rid (r\<lparr>sl_next := now + bc_Root (mg_cfg m)\<rparr>) (mg_roots m1),
         mg_groups := AList.update grp (p\<lparr>sl_next := now + bc_Provider (mg_cfg m)\<rparr>) (mg_groups m1)\<rparr>)"
        using no by (simp only: acquire_once_def assms(1) Let_def max_time_max same r_def [symmetric] p_def [symmetric]
            sum.case if_True if_False not_False_eq_True)
      then show ?thesis using granted no False by auto
    qed
  qed
qed

lemma acquire_refused: "register rid grp m = Inl e \<Longrightarrow> acquire_once rid grp now m = (Refused e, m)"
  by (simp add: acquire_once_def)

lemma acquire_grant:
  assumes "acquire_once rid grp now m = (Granted, m')"
  shows "mg_global m \<le> now" "sl_next (slot_of (mg_roots m) rid) \<le> now" "sl_next (slot_of (mg_groups m) grp) \<le> now"
    "sl_until (slot_of (mg_roots m) rid) \<le> now" "sl_until (slot_of (mg_groups m) grp) \<le> now"
    "mg_global m' = now + bc_Global (mg_cfg m)"
    "sl_next (slot_of (mg_roots m') rid) = now + bc_Root (mg_cfg m)"
    "sl_next (slot_of (mg_groups m') grp) = now + bc_Provider (mg_cfg m)"
proof -
  obtain m1 where r: "register rid grp m = Inr m1"
    using assms acquire_refused by (cases "register rid grp m") auto
  show "mg_global m \<le> now" "sl_next (slot_of (mg_roots m) rid) \<le> now" "sl_next (slot_of (mg_groups m) grp) \<le> now"
    "sl_until (slot_of (mg_roots m) rid) \<le> now" "sl_until (slot_of (mg_groups m) grp) \<le> now"
    "mg_global m' = now + bc_Global (mg_cfg m)"
    "sl_next (slot_of (mg_roots m') rid) = now + bc_Root (mg_cfg m)"
    "sl_next (slot_of (mg_groups m') grp) = now + bc_Provider (mg_cfg m)"
    by (rule acquire_cases [OF r, of now]; use assms in auto)+
qed

lemma acquire_grown:
  assumes "cfg_ok (mg_cfg m)"
  shows "grown m (snd (acquire_once rid grp now m))"
proof (cases "register rid grp m")
  case (Inl e)
  then show ?thesis by (simp add: acquire_refused grown_refl)
next
  case (Inr m1)
  note same = register_same [OF Inr]
  show ?thesis
    by (rule acquire_cases [OF Inr, of now])
       (use assms in \<open>auto simp: grown_def same cfg_ok_def\<close>)
qed

lemma penalise_grown: "grown m (Penalize rid grp retry now m)"
proof (cases "register rid grp m")
  case (Inr m1)
  note same = register_same [OF Inr]
  show ?thesis by (auto simp: Penalize_def Inr Let_def max_time_max grown_def same)
qed (simp add: Penalize_def grown_refl)

lemma ready_grown: "grown m (snd (ReadyAt rid url explicit m))"
proof (cases "Group url explicit")
  case g: (Inr grp)
  show ?thesis
  proof (cases "register rid grp m")
    case (Inr m1)
    note same = register_same [OF Inr]
    show ?thesis by (auto simp: ReadyAt_def g Inr Let_def max_time_max grown_def same)
  qed (simp add: ReadyAt_def g grown_refl)
qed (simp add: ReadyAt_def grown_refl)

lemma success_grown: "grown m (Succeeded url explicit now m)"
proof (cases "Group url explicit")
  case (Inr g)
  show ?thesis
  proof (cases "map_of (mg_groups m) g")
    case (Some p)
    then have "slot_of (mg_groups m) g = p" by (simp add: slot_of_def)
    then show ?thesis by (auto simp: Succeeded_def Inr Some grown_def)
  qed (simp add: Succeeded_def Inr grown_refl)
qed (simp add: Succeeded_def grown_refl)

lemma client_grown: "grown m (snd (Client rid url explicit m))"
proof (cases "Group url explicit")
  case g: (Inr grp)
  show ?thesis
  proof (cases "register rid grp m")
    case (Inr m1)
    note same = register_same [OF Inr]
    show ?thesis by (cases "Group url []") (auto simp: Client_def g Inr grown_def same)
  qed (auto simp: Client_def g grown_refl split: sum.splits)
qed (simp add: Client_def grown_refl)

lemma step_grown:
  assumes "cfg_ok (mg_cfg m)"
  shows "grown m (snd (budget_step call now m))"
proof (cases call)
  case (Acquire rid grp)
  then show ?thesis
    using acquire_grown [OF assms, of rid grp now] by (auto split: prod.splits attempt.splits)
qed (simp_all add: penalise_grown ready_grown success_grown client_grown)

section \<open>Grants keep their distance\<close>

lemma step_grants:
  assumes "budget_step call now m = (gs, m')" and "(t, r, g) \<in> set gs"
  shows "gs = [(t, r, g)] \<and> acquire_once r g t m = (Granted, m')"
  using assms by (cases call) (auto split: prod.splits attempt.splits)

lemma run_bounds:
  assumes "cfg_ok (mg_cfg m)" and "(t, r, g) \<in> set (budget_run ops m)"
  shows "mg_global m \<le> t" "sl_next (slot_of (mg_roots m) r) \<le> t" "sl_next (slot_of (mg_groups m) g) \<le> t"
    "sl_until (slot_of (mg_roots m) r) \<le> t" "sl_until (slot_of (mg_groups m) g) \<le> t"
proof -
  have "mg_global m \<le> t \<and> sl_next (slot_of (mg_roots m) r) \<le> t \<and> sl_next (slot_of (mg_groups m) g) \<le> t \<and>
      sl_until (slot_of (mg_roots m) r) \<le> t \<and> sl_until (slot_of (mg_groups m) g) \<le> t"
    using assms
  proof (induction ops arbitrary: m)
    case (Cons op ops)
    obtain call now where op: "op = (call, now)" by fastforce
    obtain gs m' where s: "budget_step call now m = (gs, m')" by fastforce
    show ?case
    proof (cases "(t, r, g) \<in> set gs")
      case True
      with step_grants [OF s] show ?thesis using acquire_grant [of r g t m m'] by simp
    next
      case False
      have gr: "grown m m'" using step_grown [OF Cons.prems(1), of call now] s by simp
      moreover have "mg_cfg m' = mg_cfg m" using gr by (simp add: grown_def)
      ultimately show ?thesis
        using Cons.IH [of m'] Cons.prems False op s unfolding grown_def by (fastforce intro: order_trans)
    qed
  qed simp
  then show "mg_global m \<le> t" "sl_next (slot_of (mg_roots m) r) \<le> t" "sl_next (slot_of (mg_groups m) g) \<le> t"
    "sl_until (slot_of (mg_roots m) r) \<le> t" "sl_until (slot_of (mg_groups m) g) \<le> t" by simp_all
qed

definition apart :: "BudgetConfig \<Rightarrow> gotime \<times> string \<times> string \<Rightarrow> gotime \<times> string \<times> string \<Rightarrow> bool" where
  "apart c a b =
     (case (a, b) of ((t, r, g), (t', r', g')) \<Rightarrow>
        t + bc_Global c \<le> t' \<and> (r = r' \<longrightarrow> t + bc_Root c \<le> t') \<and> (g = g' \<longrightarrow> t + bc_Provider c \<le> t'))"

lemma run_apart:
  assumes "cfg_ok (mg_cfg m)"
  shows "sorted_wrt (apart (mg_cfg m)) (budget_run ops m)"
  using assms
proof (induction ops arbitrary: m)
  case (Cons op ops)
  obtain call now where op: "op = (call, now)" by fastforce
  obtain gs m' where s: "budget_step call now m = (gs, m')" by fastforce
  have gr: "grown m m'" using step_grown [OF Cons.prems, of call now] s by simp
  have cfg: "mg_cfg m' = mg_cfg m" using gr by (simp add: grown_def)
  note rest = Cons.IH [of m'] and bounds = run_bounds [of m']
  show ?case
  proof (cases gs)
    case Nil
    then show ?thesis using op s rest Cons.prems cfg by simp
  next
    case (Cons a as)
    obtain t r g where a: "a = (t, r, g)" by (cases a)
    have grant: "gs = [(t, r, g)]" "acquire_once r g t m = (Granted, m')"
      using step_grants [OF s, of t r g] Cons a by auto
    have "apart (mg_cfg m) (t, r, g) b" if "b \<in> set (budget_run ops m')" for b
    proof -
      obtain t' r' g' where b: "b = (t', r', g')" by (cases b)
      show ?thesis
        using bounds [of t' r' g' ops] acquire_grant(6-8) [OF grant(2)] that cfg \<open>cfg_ok (mg_cfg m)\<close>
        unfolding b by (auto simp: apart_def)
    qed
    then show ?thesis using op s grant(1) rest \<open>cfg_ok (mg_cfg m)\<close> cfg by simp
  qed
qed simp

lemma New_ok:
  assumes "New c = Inr m"
  shows "cfg_ok (mg_cfg m)" "mg_cfg m = c"
  using assms by (auto simp: New_def budget_Validate_def cfg_ok_def millisecond_def split: sum.splits if_splits)

text \<open>
  C33: requests keep their distance. Under a valid configuration, whatever the clients do and in whatever
  order they take the mutex, any two granted requests are at least the global spacing apart, two of one
  root at least the root spacing, and two of one provider group at least the provider spacing.
\<close>
theorem grants_spaced:
  assumes "New c = Inr m"
  shows "sorted_wrt (\<lambda>(t, r, g) (t', r', g'). t + bc_Global c \<le> t' \<and> (r = r' \<longrightarrow> t + bc_Root c \<le> t') \<and>
    (g = g' \<longrightarrow> t + bc_Provider c \<le> t')) (budget_run ops m)"
  using run_apart [OF New_ok(1) [OF assms], of ops] unfolding New_ok(2) [OF assms] apart_def
  by (rule sorted_wrt_mono_rel [rotated]) auto

definition sample_ops :: "(budget_op \<times> gotime) list" where
  "sample_ops =
     [(Acquire ''r'' ''g'', 0), (Acquire ''s'' ''g'', 50000000), (Acquire ''s'' ''g'', 120000000),
      (Penalise ''s'' ''g'' 0, 130000000), (Acquire ''r'' ''h'', 300000000), (Acquire ''t'' ''g'', 400000000)]"

theorem grants_spaced_witness:
  "\<exists>m. New budget_Defaults = Inr m \<and>
     budget_run sample_ops m = [(0, ''r'', ''g''), (120000000, ''s'', ''g''), (300000000, ''r'', ''h'')] \<and>
     sorted_wrt (\<lambda>(t, r, g) (t', r', g'). t + bc_Global budget_Defaults \<le> t' \<and>
       (r = r' \<longrightarrow> t + bc_Root budget_Defaults \<le> t') \<and> (g = g' \<longrightarrow> t + bc_Provider budget_Defaults \<le> t'))
       (budget_run sample_ops m)"
proof -
  have "case New budget_Defaults of Inl _ \<Rightarrow> False | Inr m \<Rightarrow> budget_run sample_ops m =
      [(0, ''r'', ''g''), (120000000, ''s'', ''g''), (300000000, ''r'', ''h'')]"
    by code_simp
  then obtain m where "New budget_Defaults = Inr m" "budget_run sample_ops m =
      [(0, ''r'', ''g''), (120000000, ''s'', ''g''), (300000000, ''r'', ''h'')]"
    by (auto split: sum.splits)
  then show ?thesis using grants_spaced [of budget_Defaults m sample_ops] by blast
qed

section \<open>Cooldowns are kept\<close>

lemma backoff_closed:
  assumes "0 < d"
  shows "min limit (backoff_loop limit strikes i d) = min limit (d * 2 ^ nat (strikes - i))"
  using assms
proof (induction limit strikes i d rule: backoff_loop.induct)
  case (1 limit strikes i d)
  show ?case
  proof (cases "i < strikes \<and> d < limit")
    case True
    have "nat (strikes - i) = Suc (nat (strikes - (i + 1)))" using True by arith
    then show ?thesis using 1 True by (simp add: backoff_loop.simps [of limit strikes i d] mult.assoc)
  next
    case False
    have "d \<le> d * 2 ^ nat (strikes - i)" using 1(2) by simp
    then show ?thesis using False by (auto simp: backoff_loop.simps [of limit strikes i d] min_def)
  qed
qed

lemma penalty_closed:
  "0 < bc_Backoff c \<Longrightarrow>
   penalty c strikes retry = max retry (min (bc_MaxBackoff c) (bc_Backoff c * 2 ^ nat (strikes - 1)))"
  using backoff_closed [of "bc_Backoff c" "bc_MaxBackoff c" strikes 1]
  by (auto simp: penalty_def Let_def min_def max_def split: if_splits)

text \<open>
  C34: cooldowns are kept. After a provider's overload answer to a request of a root, no request of that
  root and no request of any root to that provider group is granted until the delay has passed: the
  configured delay doubled per strike up to its cap, or the provider's own delay when that is longer, which
  the cap never shortens.
\<close>
theorem cooldown_kept:
  assumes "budget_Validate (mg_cfg m) = Inr ()" and "register rid grp m = Inr m1"
    and "strikes = (if sl_strikes (slot_of (mg_groups m) grp) < 20
      then sl_strikes (slot_of (mg_groups m) grp) + 1 else sl_strikes (slot_of (mg_groups m) grp))"
  shows "list_all (\<lambda>(t, r, g). r = rid \<or> g = grp \<longrightarrow>
      now + max retry (min (bc_MaxBackoff (mg_cfg m)) (bc_Backoff (mg_cfg m) * 2 ^ nat (strikes - 1))) \<le> t)
    (budget_run ops (Penalize rid grp retry now m))"
proof -
  let ?m = "Penalize rid grp retry now m"
  let ?until = "now + max retry (min (bc_MaxBackoff (mg_cfg m)) (bc_Backoff (mg_cfg m) * 2 ^ nat (strikes - 1)))"
  have ok: "cfg_ok (mg_cfg m)"
    using assms(1) by (auto simp: budget_Validate_def cfg_ok_def millisecond_def split: if_splits)
  note same = register_same [OF assms(2)]
  have cfg: "mg_cfg ?m = mg_cfg m" using penalise_grown [of m] by (simp add: grown_def)
  have "sl_until (slot_of (mg_groups ?m) grp)
      = max (sl_until (slot_of (mg_groups m) grp)) (now + penalty (mg_cfg m) strikes retry)"
    by (simp add: Penalize_def assms(2,3) Let_def max_time_max same)
  moreover have "sl_until (slot_of (mg_groups ?m) grp) \<le> sl_until (slot_of (mg_roots ?m) rid)"
    by (simp add: Penalize_def assms(2) Let_def max_time_max same)
  moreover have "now + penalty (mg_cfg m) strikes retry = ?until"
    using penalty_closed [of "mg_cfg m" strikes retry] ok by (simp add: cfg_ok_def)
  ultimately have "?until \<le> sl_until (slot_of (mg_groups ?m) grp)" "?until \<le> sl_until (slot_of (mg_roots ?m) rid)"
    by linarith+
  then show ?thesis
    using run_bounds(4,5) [of ?m _ _ _ ops] ok cfg by (fastforce simp: list_all_iff)
qed

theorem cooldown_kept_witness:
  "\<exists>m. New budget_Defaults = Inr m \<and>
     list_all (\<lambda>(t, r, g). r = ''r'' \<or> g = ''g'' \<longrightarrow> 3600000000000 \<le> t)
       (budget_run sample_ops (Penalize ''r'' ''g'' hour 0 m))"
proof -
  have "case New budget_Defaults of Inl _ \<Rightarrow> False
    | Inr m \<Rightarrow> mg_cfg m = budget_Defaults \<and> sl_strikes (slot_of (mg_groups m) ''g'') = 0 \<and>
        (case register ''r'' ''g'' m of Inl _ \<Rightarrow> False | Inr _ \<Rightarrow> True)" by code_simp
  then obtain m m1 where m: "New budget_Defaults = Inr m" "mg_cfg m = budget_Defaults"
      "sl_strikes (slot_of (mg_groups m) ''g'') = 0" "register ''r'' ''g'' m = Inr m1"
    by (auto split: sum.splits)
  have v: "budget_Validate (mg_cfg m) = Inr ()" unfolding m(2) by code_simp
  have "hour \<le> max hour (min (bc_MaxBackoff (mg_cfg m)) (bc_Backoff (mg_cfg m) * 2 ^ nat (1 - 1)))" by simp
  then have "list_all (\<lambda>(t, r, g). r = ''r'' \<or> g = ''g'' \<longrightarrow> hour \<le> t)
       (budget_run sample_ops (Penalize ''r'' ''g'' hour 0 m))"
    using cooldown_kept [OF v m(4), of 1 0 hour sample_ops] m(3) by (fastforce simp: list_all_iff)
  then show ?thesis using m(1) by (auto simp: hour_def)
qed

section \<open>Waiting ends\<close>

text \<open>A caller that alone waits as long as it was told is granted in the second round.\<close>

lemma acquire_second_round:
  assumes "acquire_once rid grp (rd_now a) m = (Wait d, m1)" and "\<not> rd_cancelled a" "\<not> rd_interrupted a"
    and "rd_others a = id" "\<not> rd_cancelled b" "rd_now a + d \<le> rd_now b" "d < 2 ^ 63 - 1"
    and "max (sl_until (slot_of (mg_roots m) rid)) (sl_until (slot_of (mg_groups m) grp)) \<le> rd_now a"
    and "rd_now a \<le> rd_now b"
  shows "\<exists>m2. acquire [a, b] rid grp m = Some (Inr (), m2)"
proof -
  obtain m0 where r: "register rid grp m = Inr m0"
    using assms(1) acquire_refused by (cases "register rid grp m") auto
  note same = register_same [OF r]
  have 1: "m1 = m0" "d = time_sub (max (mg_global m) (max (sl_next (slot_of (mg_roots m) rid))
      (sl_next (slot_of (mg_groups m) grp)))) (rd_now a)"
    by (rule acquire_cases [OF r, of "rd_now a"]; use assms(1) in simp)+
  then have due: "max (mg_global m) (max (sl_next (slot_of (mg_roots m) rid)) (sl_next (slot_of (mg_groups m) grp)))
      \<le> rd_now b"
    using assms(6,7) by (auto simp: time_sub_def min_def max_def split: if_splits)
  have "register rid grp m0 = Inr m0"
    using r by (auto simp: register_def ensure_def update_conv' split: if_splits)
  from acquire_cases [OF this, of "rd_now b"] have "\<exists>m2. acquire_once rid grp (rd_now b) m0 = (Granted, m2)"
    using due assms(8,9)
    by (auto simp: acquire_once_def \<open>register rid grp m0 = Inr m0\<close> Let_def max_time_max same)
  then show ?thesis using assms(1-5) 1(1) by auto
qed

end
