(* ===== verification/Collectors.thy ===== *)
theory Collectors
  imports Fence SourceBudget
begin

text \<open>
  The collectors (\<open>internal/collector\<close>): the normalised form of a scan, the adapter for AList and OpenList
  with its full walk and its scoped refresh, and the normalisation of the output of rclone. A reply of the
  source is an argument in decoded form: a JSON body appears as what the decoder of the call makes of it,
  a modification time as the result of its parse. Whatever a context, a timeout or the transport does to a
  call is its transport failure. The digest of the mounts rests on the JSON encoder, an argument.
\<close>

section \<open>Normalised output\<close>

record NormalizedEntry =
  ne_EntryLocalID :: string
  ne_Name :: string
  ne_ParentRef :: string
  ne_IsDir :: bool
  ne_Size :: "int64 option"
  ne_Mtime :: "gotime option"
  ne_ContentHash :: "string option"
  ne_HashAlgorithm :: "string option"
  ne_ProviderObjectID :: "string option"
  ne_ProviderObjectIDScope :: "string option"
  ne_ContentType :: "string option"

record RawScan =
  raw_DirectoryTopologyDigest :: string
  raw_Entries :: "NormalizedEntry list"
  raw_TraversalStatus :: TraversalStatus
  raw_ErrorSummary :: "string option"
  raw_SkippedScopes :: "string option"
  raw_SkippedKnownEmpty :: bool
  raw_Freshness :: FreshnessEvidence
  raw_Assurance :: FailureVisibility
  raw_ProviderIdentityAssurance :: ProviderIdentityAssurance

section \<open>Replies\<close>

text \<open>A request is not formed, fails in the transport, or gets a status and a body. The body cannot be read
  or exceeds its bound, is not JSON, or is an envelope with its data.\<close>

datatype transport_error = Deferred | TransportCanceled | TransportDeadline | TransportFailed

datatype 'd body = BodyUnreadable | BodyInvalid | Envelope int 'd

datatype 'd http = BadEndpoint | Transport transport_error | Reply int "'d body"

record item =
  it_Name :: string
  it_Size :: int64
  it_IsDir :: bool
  it_Modified :: "gotime option"
  it_HashInfo :: "(string \<times> string) list"

text \<open>The scoped decoder keeps the presence of its two members.\<close>

datatype content_field = ContentMissing | ContentNull | ContentMalformed | ContentItems "item list"

record scopedListData =
  sl_Content :: content_field
  sl_Total :: "int option"

record listData =
  ld_Content :: "item list"
  ld_Total :: int

record storage =
  st_ID :: int
  st_Mount :: string
  st_Status :: string
  st_Driver :: string
  st_Disabled :: "bool option"
  st_Modified :: string

record storage_list =
  sg_Total :: "int option"
  sg_Content :: "storage list"

text \<open>The data of a reply decodes (\<open>Some\<close>) or not; that of a listing may be a JSON null.\<close>

record source =
  so_login :: "string \<Rightarrow> string \<Rightarrow> string option http"
  so_list :: "string \<Rightarrow> string \<Rightarrow> int \<Rightarrow> scopedListData option option http"
  so_page :: "string \<Rightarrow> string \<Rightarrow> int \<Rightarrow> int \<Rightarrow> listData option http"
  so_identity :: "nat \<Rightarrow> string \<Rightarrow> string option http"
  so_topology :: "nat \<Rightarrow> string \<Rightarrow> storage_list http"
  so_topologyLogin :: "string \<Rightarrow> string \<Rightarrow> string option http"
  so_marshal :: "storage list \<Rightarrow> string"

section \<open>Typed failures\<close>

datatype ScopedErrorKind =
    ScopedAuthOrPermission | ScopedThrottled | ScopedTransientProvider | ScopedTooLarge
  | ScopedInvalidScope | ScopedConfigInvalid

text \<open>The kind, and the failure of the context in the chain of the error.\<close>

record ScopedError =
  sce_Kind :: ScopedErrorKind
  sce_Transport :: "transport_error option"

definition scopedErrorf :: "ScopedErrorKind \<Rightarrow> ScopedError" where
  "scopedErrorf k = \<lparr>sce_Kind = k, sce_Transport = None\<rparr>"

definition scopedKindFromAPICode :: "int \<Rightarrow> ScopedErrorKind" where
  "scopedKindFromAPICode code =
     (if code = 401 \<or> code = 403 then ScopedAuthOrPermission
      else if code = 429 then ScopedThrottled
      else ScopedTransientProvider)"

definition transport_failure :: "transport_error \<Rightarrow> ScopedError" where
  "transport_failure t =
     (case t of
        Deferred \<Rightarrow> scopedErrorf ScopedThrottled
      | TransportFailed \<Rightarrow> scopedErrorf ScopedTransientProvider
      | _ \<Rightarrow> \<lparr>sce_Kind = ScopedTransientProvider, sce_Transport = Some t\<rparr>)"

definition postScoped :: "'d http \<Rightarrow> ScopedError + int \<times> 'd" where
  "postScoped r =
     (case r of
        BadEndpoint \<Rightarrow> Inl (scopedErrorf ScopedConfigInvalid)
      | Transport t \<Rightarrow> Inl (transport_failure t)
      | Reply status b \<Rightarrow>
          if status \<noteq> 200 then Inl (scopedErrorf (scopedKindFromAPICode status))
          else (case b of
                  BodyUnreadable \<Rightarrow> Inl (scopedErrorf ScopedTransientProvider)
                | BodyInvalid \<Rightarrow> Inl (scopedErrorf ScopedTransientProvider)
                | Envelope code v \<Rightarrow> Inr (code, v)))"

definition loginScoped :: "string option http \<Rightarrow> ScopedError + string" where
  "loginScoped r =
     and_then (postScoped r) (\<lambda>(code, v).
       if code \<noteq> 200 then Inl (scopedErrorf (scopedKindFromAPICode code))
       else (case v of
               None \<Rightarrow> Inl (scopedErrorf ScopedTransientProvider)
             | Some token \<Rightarrow> if token = [] then Inl (scopedErrorf ScopedTransientProvider) else Inr token))"

definition verifyScopedIdentity :: "string \<Rightarrow> string option http \<Rightarrow> ScopedError + unit" where
  "verifyScopedIdentity expected r =
     (case r of
        BadEndpoint \<Rightarrow> Inl (scopedErrorf ScopedConfigInvalid)
      | Transport t \<Rightarrow> Inl (transport_failure t)
      | Reply status b \<Rightarrow>
          if status \<noteq> 200 then Inl (scopedErrorf (scopedKindFromAPICode status))
          else (case b of
                  Envelope code v \<Rightarrow>
                    if code \<noteq> 200 then Inl (scopedErrorf (scopedKindFromAPICode code))
                    else if v \<noteq> Some expected then Inl (scopedErrorf ScopedAuthOrPermission)
                    else Inr ()
                | _ \<Rightarrow> Inl (scopedErrorf ScopedTransientProvider)))"

section \<open>The mounts around a directory\<close>

text \<open>The walk over the mounts: \<open>None\<close> when the answer is empty, otherwise whether a mount covers the
  directory.\<close>

fun mount_loop :: "string \<Rightarrow> string list \<Rightarrow> bool \<Rightarrow> storage list \<Rightarrow> bool option" where
  "mount_loop absolute seen cover [] = Some cover"
| "mount_loop absolute seen cover (s # ss) =
     (if st_ID s \<le> 0 \<or> st_Disabled s = None \<or> \<not> has_prefix (st_Mount s) ''/'' \<or>
         path_clean (st_Mount s) \<noteq> st_Mount s \<or> contains_any (st_Mount s) [backslash, nul] \<or>
         List.member seen (st_Mount s)
      then None
      else if st_Disabled s = Some True then mount_loop absolute (st_Mount s # seen) cover ss
      else if st_Mount s \<noteq> absolute \<and> has_prefix (st_Mount s) (trim_suffix absolute ''/'' @ ''/'') then None
      else if absolute = st_Mount s \<or> has_prefix absolute (trim_suffix (st_Mount s) ''/'' @ ''/'')
      then (if st_Status s \<noteq> ''work'' \<or> st_Driver s \<noteq> ''115 Open'' then None
            else mount_loop absolute (st_Mount s # seen) True ss)
      else mount_loop absolute (st_Mount s # seen) cover ss)"

definition directoryTopology ::
  "(storage list \<Rightarrow> string) \<Rightarrow> string \<Rightarrow> string \<Rightarrow> (string \<Rightarrow> storage_list http) \<Rightarrow> string \<Rightarrow> string" where
  "directoryTopology marshal token expected get scope =
     (if token = [] \<or> expected = [] then []
      else case get token of
             Reply status (Envelope code v) \<Rightarrow>
               if status \<noteq> 200 \<or> code \<noteq> 200 \<or> sg_Total v \<noteq> Some (int (length (sg_Content v))) \<or>
                  length (sg_Content v) > 1000
               then []
               else if \<not> has_prefix expected ''/'' \<or> path_clean expected \<noteq> expected then []
               else (case mount_loop (path_join [expected, trim_prefix scope ''/'']) [] False (sg_Content v) of
                       Some True \<Rightarrow>
                         hex_encode (sha256 (marshal (sort_by (\<lambda>a b. st_Mount a < st_Mount b) (sg_Content v))))
                     | _ \<Rightarrow> [])
           | _ \<Rightarrow> [])"

section \<open>Entries\<close>

definition lookup_or_empty :: "(string \<times> string) list \<Rightarrow> string \<Rightarrow> string" where
  "lookup_or_empty h k = deref (map_of h k)"

fun pick_first :: "(string \<times> string) list \<Rightarrow> string list \<Rightarrow> (string \<times> string) option" where
  "pick_first h [] = None"
| "pick_first h (k # ks) =
     (if lookup_or_empty h k \<noteq> [] then Some (map lower_char k, lookup_or_empty h k) else pick_first h ks)"

definition alist_pickHash :: "(string \<times> string) list \<Rightarrow> (string \<times> string) option" where
  "alist_pickHash h = pick_first h [''sha1'', ''SHA1'', ''md5'', ''MD5'']"

definition normalizePath :: "string \<Rightarrow> string" where
  "normalizePath p = (if p = [] then ''/'' else if \<not> has_prefix p ''/'' then CHR ''/'' # p else p)"

definition trim_right_slash :: "string \<Rightarrow> string" where
  "trim_right_slash s = rev (dropWhile (\<lambda>c. c = CHR ''/'') (rev s))"

definition joinLocal :: "string \<Rightarrow> string \<Rightarrow> string" where
  "joinLocal parent name =
     (if parent = ''/'' then CHR ''/'' # name else trim_right_slash parent @ ''/'' @ name)"

definition alist_entry :: "string \<Rightarrow> item \<Rightarrow> NormalizedEntry" where
  "alist_entry dir it =
     \<lparr>ne_EntryLocalID = joinLocal dir (it_Name it), ne_Name = it_Name it, ne_ParentRef = dir,
      ne_IsDir = it_IsDir it, ne_Size = Some (it_Size it), ne_Mtime = it_Modified it,
      ne_ContentHash = map_option snd (alist_pickHash (it_HashInfo it)),
      ne_HashAlgorithm = map_option fst (alist_pickHash (it_HashInfo it)),
      ne_ProviderObjectID = None, ne_ProviderObjectIDScope = None, ne_ContentType = None\<rparr>"

section \<open>Scoped refresh\<close>

text \<open>The bound of one observation (\<open>MaxScopedEntries\<close> of \<open>alist/scoped.go\<close>).\<close>

definition alist_MaxScopedEntries :: int where
  "alist_MaxScopedEntries = 10000"

record Adapter =
  ad_BaseURL :: string
  ad_Token :: string
  ad_Username :: string
  ad_Password :: string
  ad_ExpectedBasePath :: string
  ad_TopologyToken :: string
  ad_TopologyUsername :: string
  ad_TopologyPassword :: string

text \<open>The URL as \<open>url.Parse\<close> reads it after trimming.\<close>

definition validateScopedBaseURL :: "(string \<Rightarrow> URL option) \<Rightarrow> string \<Rightarrow> bool" where
  "validateScopedBaseURL parse raw \<longleftrightarrow>
     trim_space raw \<noteq> [] \<and>
     (case parse (trim_space raw) of
        None \<Rightarrow> False
      | Some u \<Rightarrow> (url_Scheme u = ''http'' \<or> url_Scheme u = ''https'') \<and> url_Host u \<noteq> [])"

definition listPageRefresh :: "scopedListData option option http \<Rightarrow> ScopedError + item list \<times> int" where
  "listPageRefresh r =
     and_then (postScoped r) (\<lambda>(code, v).
       if code \<noteq> 200 then Inl (scopedErrorf (scopedKindFromAPICode code))
       else (case v of
               None \<Rightarrow> Inl (scopedErrorf ScopedTransientProvider)
             | Some None \<Rightarrow> Inl (scopedErrorf ScopedTransientProvider)
             | Some (Some data) \<Rightarrow>
                 (case sl_Total data of
                    None \<Rightarrow> Inl (scopedErrorf ScopedTransientProvider)
                  | Some total_count \<Rightarrow>
                      (case sl_Content data of
                         ContentMissing \<Rightarrow> Inl (scopedErrorf ScopedTransientProvider)
                       | content \<Rightarrow>
                           if total_count < 0 then Inl (scopedErrorf ScopedTransientProvider)
                           else (case content of
                                   ContentNull \<Rightarrow>
                                     if total_count \<noteq> 0 then Inl (scopedErrorf ScopedTransientProvider)
                                     else Inr ([], 0)
                                 | ContentItems items \<Rightarrow> Inr (items, total_count)
                                 | _ \<Rightarrow> Inl (scopedErrorf ScopedTransientProvider))))))"

definition child_name_ok :: "string \<Rightarrow> bool" where
  "child_name_ok n \<longleftrightarrow> n \<noteq> [] \<and> n \<noteq> ''.'' \<and> n \<noteq> ''..'' \<and> \<not> contains_any n [CHR ''/'', backslash, nul]"

fun scoped_entries :: "string \<Rightarrow> string list \<Rightarrow> item list \<Rightarrow> ScopedError + NormalizedEntry list" where
  "scoped_entries dir seen [] = Inr []"
| "scoped_entries dir seen (it # its) =
     (if \<not> child_name_ok (it_Name it) \<or> List.member seen (it_Name it)
      then Inl (scopedErrorf ScopedTransientProvider)
      else and_then (scoped_entries dir (it_Name it # seen) its) (\<lambda>es. Inr (alist_entry dir it # es)))"

definition topology_token :: "Adapter \<Rightarrow> source \<Rightarrow> string" where
  "topology_token a src =
     (if ad_TopologyToken a = [] \<and> ad_TopologyUsername a \<noteq> [] \<and> ad_TopologyPassword a \<noteq> []
      then (case loginScoped (so_topologyLogin src (ad_TopologyUsername a) (ad_TopologyPassword a)) of
              Inl _ \<Rightarrow> ad_TopologyToken a
            | Inr t \<Rightarrow> t)
      else ad_TopologyToken a)"

definition source_token :: "Adapter \<Rightarrow> source \<Rightarrow> ScopedError + string" where
  "source_token a src =
     (if ad_Token a = [] \<and> ad_Username a \<noteq> []
      then loginScoped (so_login src (ad_Username a) (ad_Password a)) else Inr (ad_Token a))"

definition identity_fence :: "Adapter \<Rightarrow> source \<Rightarrow> nat \<Rightarrow> string \<Rightarrow> ScopedError + unit" where
  "identity_fence a src k token =
     (if ad_ExpectedBasePath a \<noteq> []
      then verifyScopedIdentity (ad_ExpectedBasePath a) (so_identity src k token) else Inr ())"

definition ScanScope_alist ::
  "(string \<Rightarrow> URL option) \<Rightarrow> Adapter \<Rightarrow> source \<Rightarrow> string \<Rightarrow> int \<Rightarrow> ScopedError + RawScan" where
  "ScanScope_alist parse a src scope maxEntries =
     (if maxEntries < 0 \<or> maxEntries > alist_MaxScopedEntries then Inl (scopedErrorf ScopedConfigInvalid)
      else if \<not> validateScopedBaseURL parse (ad_BaseURL a) then Inl (scopedErrorf ScopedConfigInvalid)
      else and_then (source_token a src) (\<lambda>token.
        let dir = normalizePath scope;
            topology = (\<lambda>k. directoryTopology (so_marshal src) (topology_token a src) (ad_ExpectedBasePath a)
              (so_topology src k) dir);
            before = topology 0
        in and_then (identity_fence a src 0 token) (\<lambda>_.
           and_then (listPageRefresh (so_list src token dir (maxEntries + 1))) (\<lambda>(items, total_count).
             if total_count > maxEntries then Inl (scopedErrorf ScopedTooLarge)
             else if total_count \<noteq> int (length items) then Inl (scopedErrorf ScopedTransientProvider)
             else and_then (scoped_entries dir [] items) (\<lambda>entries.
               and_then (identity_fence a src 1 token) (\<lambda>_.
                 Inr \<lparr>raw_DirectoryTopologyDigest =
                        (if before \<noteq> [] \<and> topology 1 = before then before else []),
                      raw_Entries = entries, raw_TraversalStatus = TraversalPartial,
                      raw_ErrorSummary = None, raw_SkippedScopes = None, raw_SkippedKnownEmpty = False,
                      raw_Freshness = FreshRefreshed, raw_Assurance = WeakFailureVisibility,
                      raw_ProviderIdentityAssurance = IdentityUnverified\<rparr>))))))"

section \<open>The full walk\<close>

text \<open>Errors of the untyped calls are texts.\<close>

definition post :: "string \<Rightarrow> 'd http \<Rightarrow> string + int \<times> 'd" where
  "post base r =
     (if trim_right_slash base = [] then Inl ''alist base URL is required''
      else case r of
             BadEndpoint \<Rightarrow> Inl ''request''
           | Transport _ \<Rightarrow> Inl ''transport''
           | Reply _ BodyUnreadable \<Rightarrow> Inl ''read''
           | Reply _ BodyInvalid \<Rightarrow> Inl ''json''
           | Reply _ (Envelope code v) \<Rightarrow> Inr (code, v))"

definition login :: "string \<Rightarrow> string option http \<Rightarrow> string + string" where
  "login base r =
     and_then (post base r) (\<lambda>(code, v).
       if code \<noteq> 200 then Inl ''alist login failed''
       else (case v of
               None \<Rightarrow> Inl ''json''
             | Some token \<Rightarrow> if token = [] then Inl ''alist login returned no token'' else Inr token))"

definition listPage :: "string \<Rightarrow> listData option http \<Rightarrow> string + item list \<times> int" where
  "listPage base r =
     and_then (post base r) (\<lambda>(code, v).
       if code \<noteq> 200 then Inl ''alist list failed''
       else (case v of None \<Rightarrow> Inl ''json'' | Some data \<Rightarrow> Inr (ld_Content data, ld_Total data)))"

text \<open>The pages of a directory. A source that never stops delivering entries below its declared number, or
  declares a negative one, keeps the loop going, so it has fuel.\<close>

fun list_loop ::
  "nat \<Rightarrow> string \<Rightarrow> (int \<Rightarrow> listData option http) \<Rightarrow> int \<Rightarrow> int \<Rightarrow> item list \<Rightarrow> (string + item list) option" where
  "list_loop 0 base pages page total_count collected = None"
| "list_loop (Suc fuel) base pages page total_count collected =
     (case listPage base (pages page) of
        Inl e \<Rightarrow> Some (Inl e)
      | Inr (items, t) \<Rightarrow>
          let total_count = (if total_count < 0 then t else total_count); collected = collected @ items
          in if items = [] \<or> (total_count \<ge> 0 \<and> int (length collected) \<ge> total_count)
             then Some (if total_count \<ge> 0 \<and> int (length collected) \<noteq> total_count
                        then Inl ''alist list truncated'' else Inr collected)
             else list_loop fuel base pages (page + 1) total_count collected)"

definition listAll :: "nat \<Rightarrow> string \<Rightarrow> (int \<Rightarrow> listData option http) \<Rightarrow> (string + item list) option" where
  "listAll fuel base pages = list_loop fuel base pages 1 (- 1) []"

definition failScan :: "string \<Rightarrow> RawScan" where
  "failScan e =
     \<lparr>raw_DirectoryTopologyDigest = [], raw_Entries = [], raw_TraversalStatus = TraversalFailed,
      raw_ErrorSummary = Some e, raw_SkippedScopes = None, raw_SkippedKnownEmpty = False,
      raw_Freshness = FreshDirect, raw_Assurance = WeakFailureVisibility,
      raw_ProviderIdentityAssurance = IdentityUnverified\<rparr>"

text \<open>The walk over the tree, breadth first. The tree is the source's, so the walk has fuel.\<close>

fun walk ::
  "nat \<Rightarrow> nat \<Rightarrow> Adapter \<Rightarrow> source \<Rightarrow> string \<Rightarrow> string list \<Rightarrow> string list \<Rightarrow> NormalizedEntry list
     \<Rightarrow> (string + NormalizedEntry list) option" where
  "walk 0 pages a src token seen queue entries = None"
| "walk (Suc fuel) pages a src token seen [] entries = Some (Inr entries)"
| "walk (Suc fuel) pages a src token seen (dir # queue) entries =
     (if List.member seen dir then walk fuel pages a src token seen queue entries
      else case listAll pages (ad_BaseURL a) (\<lambda>page. so_page src token dir page 1000) of
             None \<Rightarrow> None
           | Some (Inl e) \<Rightarrow> Some (Inl e)
           | Some (Inr items) \<Rightarrow>
               walk fuel pages a src token (dir # seen)
                 (queue @ map ne_EntryLocalID (filter ne_IsDir (map (alist_entry dir) items)))
                 (entries @ map (alist_entry dir) items))"

definition Scan_alist :: "nat \<Rightarrow> nat \<Rightarrow> Adapter \<Rightarrow> source \<Rightarrow> string \<Rightarrow> RawScan option" where
  "Scan_alist fuel pages a src subPath =
     (case (if ad_Token a = [] \<and> ad_Username a \<noteq> []
            then login (ad_BaseURL a) (so_login src (ad_Username a) (ad_Password a)) else Inr (ad_Token a)) of
        Inl e \<Rightarrow> Some (failScan e)
      | Inr token \<Rightarrow>
          map_option (\<lambda>r. case r of
              Inl e \<Rightarrow> failScan e
            | Inr entries \<Rightarrow>
                (failScan [])\<lparr>raw_Entries := entries, raw_TraversalStatus := TraversalSuccess,
                  raw_ErrorSummary := None\<rparr>)
            (walk fuel pages a src token [] [normalizePath subPath] []))"

section \<open>rclone\<close>

record rclone_Entry =
  rl_Path :: string
  rl_Name :: string
  rl_Size :: int64
  rl_MimeType :: string
  rl_ModTime :: "gotime option"
  rl_IsDir :: bool
  rl_ID :: string
  rl_Hashes :: "(string \<times> string) list"

definition rclone_pickHash :: "(string \<times> string) list \<Rightarrow> (string \<times> string) option" where
  "rclone_pickHash hashes =
     (if hashes = [] then None
      else case pick_first hashes [''SHA-1'', ''MD5''] of
             Some r \<Rightarrow> Some r
           | None \<Rightarrow> pick_first hashes [hd (sort_strings (map fst hashes))])"

definition normalizeEntry :: "rclone_Entry \<Rightarrow> NormalizedEntry" where
  "normalizeEntry e =
     \<lparr>ne_EntryLocalID = rl_Path e, ne_Name = rl_Name e,
      ne_ParentRef = path_dir (CHR ''/'' # trim_prefix (rl_Path e) ''/''), ne_IsDir = rl_IsDir e,
      ne_Size = (if 0 <s rl_Size e \<or> \<not> rl_IsDir e then Some (rl_Size e) else None),
      ne_Mtime = rl_ModTime e,
      ne_ContentHash = map_option snd (rclone_pickHash (rl_Hashes e)),
      ne_HashAlgorithm = map_option fst (rclone_pickHash (rl_Hashes e)),
      ne_ProviderObjectID = (if rl_ID e \<noteq> [] then Some (rl_ID e) else None),
      ne_ProviderObjectIDScope = (if rl_ID e \<noteq> [] then Some ''rclone'' else None),
      ne_ContentType = (if rl_MimeType e \<noteq> [] \<and> \<not> rl_IsDir e then Some (rl_MimeType e) else None)\<rparr>"

text \<open>The output as the decoder reads it, or the error of the run or of the decoder.\<close>

definition NormalizeWithAssurance ::
  "string + rclone_Entry list \<Rightarrow> FailureVisibility \<Rightarrow> RawScan" where
  "NormalizeWithAssurance out assurance =
     (let scan = \<lparr>raw_DirectoryTopologyDigest = [], raw_Entries = [], raw_TraversalStatus = TraversalSuccess,
            raw_ErrorSummary = None, raw_SkippedScopes = None, raw_SkippedKnownEmpty = False,
            raw_Freshness = FreshDirect,
            raw_Assurance = (if assurance = FailureVisibilityEmpty then UnknownFailureVisibility else assurance),
            raw_ProviderIdentityAssurance = IdentityUnverified\<rparr>
      in case out of
           Inl e \<Rightarrow> scan\<lparr>raw_TraversalStatus := TraversalFailed, raw_ErrorSummary := Some e\<rparr>
         | Inr raw \<Rightarrow> scan\<lparr>raw_Entries := map normalizeEntry raw\<rparr>)"

definition Normalize :: "string + rclone_Entry list \<Rightarrow> RawScan" where
  "Normalize out = NormalizeWithAssurance out WeakFailureVisibility"

text \<open>The command line, and the scan over the output of the process.\<close>

definition rclone_args :: "string \<Rightarrow> string \<Rightarrow> string \<Rightarrow> string list" where
  "rclone_args remote configPath subPath =
     [''lsjson'', ''--recursive''] @ (if configPath \<noteq> [] then [''--config'', configPath] else []) @
     [if remote \<noteq> [] then remote @ '':'' @ subPath else subPath]"

definition Scan_rclone ::
  "(string \<Rightarrow> string list \<Rightarrow> string + rclone_Entry list) \<Rightarrow> string \<Rightarrow> string \<Rightarrow> string \<Rightarrow> FailureVisibility \<Rightarrow> string
     \<Rightarrow> RawScan" where
  "Scan_rclone run binary remote configPath assurance subPath =
     NormalizeWithAssurance
       (run (if binary = [] then ''rclone'' else binary) (rclone_args remote configPath subPath))
       (if assurance = FailureVisibilityEmpty then WeakFailureVisibility else assurance)"

end
