(* ===== verification/Scan.thy ===== *)
theory Scan
  imports Executor Drain Collectors
begin

text \<open>
  The scan service (\<open>internal/runtime/scan\<close>): the full scan of a root, the scoped refresh of one directory,
  the fetch that is fenced by a claim, and the batch of sibling directories whose observations are frozen
  before any of them is committed. Every call of the store can be cut short and other sessions commit
  before it; both are arguments, by the place of the call. The budget of the source is passed along, with
  what the requests of the adapter and other readers do to it as an argument. A prototype serves one caller
  here, so that its mutex and its commit lane are left out; log lines too.
\<close>

section \<open>Configuration and surroundings\<close>

record adapterConfig =
  ak_Remote :: string
  ak_Path :: string
  ak_BaseURL :: string
  ak_UsernameEnv :: string
  ak_PasswordEnv :: string
  ak_TokenEnv :: string
  ak_MirrorPresence :: bool
  ak_ExpectedBasePath :: string
  ak_TopologyTokenEnv :: string
  ak_TopologyUsernameEnv :: string
  ak_TopologyPasswordEnv :: string
  ak_RequestBudgetGroup :: string

datatype place =
    AtWork | AtRoot | AtAdapter | AtParent | AtPolicy | AtResolve | AtDraft | AtSubmit | AtProcess | AtRetry
  | AtDrain | AtDrainAgain | AtLifecycle | AtSnapshot | AtFreeze | AtEntries

datatype moment = OnFetch | OnEntry | AfterRead | BeforeCommit | AfterReads

text \<open>The configuration text as \<open>json.Unmarshal\<close> reads it, the process environment, the parser of URLs, the
  source, the process of rclone; the identifier and the instant of the observation; the clocks, the fresh
  identifiers and the other sessions of the reconcile transactions, by place and round of the drain.\<close>

record scan_env =
  sv_decode :: "string \<Rightarrow> adapterConfig option"
  sv_getenv :: "string \<Rightarrow> string"
  sv_parse :: "string \<Rightarrow> URL option"
  sv_source :: source
  sv_run :: "string \<Rightarrow> string list \<Rightarrow> string + rclone_Entry list"
  sv_rclonePath :: string
  sv_rcloneConfig :: string
  sv_snapID :: uuid
  sv_observedAt :: gotime
  sv_now :: gotime
  sv_fault :: "place \<Rightarrow> fault"
  sv_others :: "place \<Rightarrow> db \<Rightarrow> db"
  sv_ctx :: "moment \<Rightarrow> ctx_error option"
  sv_traffic :: "Manager \<Rightarrow> Manager"
  sv_env :: "place \<Rightarrow> nat \<Rightarrow> env"
  sv_ids :: "place \<Rightarrow> nat \<Rightarrow> nat \<Rightarrow> uuid"
  sv_between :: "place \<Rightarrow> nat \<Rightarrow> nat \<Rightarrow> db \<Rightarrow> db"
  sv_drainFault :: "place \<Rightarrow> nat \<Rightarrow> fault"

section \<open>Errors\<close>

definition plain_error :: "cause \<Rightarrow> scan_error" where
  "plain_error c =
     \<lparr>se_Kind = None, se_Stale = (c = StoreErr ErrScopedFetchStale), se_Batch = None,
      se_Ctx = (case c of CtxErr e \<Rightarrow> Some e | _ \<Rightarrow> None)\<rparr>"

definition scopeWrap :: "ScopeFailureKind \<Rightarrow> cause \<Rightarrow> scan_error" where
  "scopeWrap k c = (plain_error c)\<lparr>se_Kind := Some k\<rparr>"

definition scopeErrorf :: "ScopeFailureKind \<Rightarrow> scan_error" where
  "scopeErrorf k = \<lparr>se_Kind = Some k, se_Stale = False, se_Batch = None, se_Ctx = None\<rparr>"

text \<open>\<open>ErrFetchBusy\<close>, \<open>ErrFetchConsumed\<close>, \<open>ErrReadOrder\<close> and other untyped errors.\<close>

definition untyped_error :: scan_error where
  "untyped_error = \<lparr>se_Kind = None, se_Stale = False, se_Batch = None, se_Ctx = None\<rparr>"

definition mapAListScopedError :: "ScopedError \<Rightarrow> scan_error" where
  "mapAListScopedError e =
     (scopeErrorf (case sce_Kind e of
         ScopedAuthOrPermission \<Rightarrow> ScopeFailureAuthOrPermission
       | ScopedThrottled \<Rightarrow> ScopeFailureThrottled
       | ScopedTransientProvider \<Rightarrow> ScopeFailureTransientProvider
       | ScopedTooLarge \<Rightarrow> ScopeFailureTooLarge
       | ScopedInvalidScope \<Rightarrow> ScopeFailureInvalidScope
       | ScopedConfigInvalid \<Rightarrow> ScopeFailureConfigInvalid))
     \<lparr>se_Ctx := (case sce_Transport e of
         Some TransportCanceled \<Rightarrow> Some Canceled
       | Some TransportDeadline \<Rightarrow> Some DeadlineExceeded
       | _ \<Rightarrow> None)\<rparr>"

definition read_call :: "fault \<Rightarrow> store_error + 'r \<Rightarrow> cause + 'r" where
  "read_call f r = (case f of NoFault \<Rightarrow> map_sum StoreErr id r | Fault e _ \<Rightarrow> Inl (cause_of e))"

definition GetAdapterConfig :: "db \<Rightarrow> uuid \<Rightarrow> store_error + AdapterConfig" where
  "GetAdapterConfig d rid = (case find_adapter d rid of None \<Rightarrow> Inl ErrNotFound | Some a \<Rightarrow> Inr a)"

section \<open>Paths\<close>

definition canonicalScopePath :: "string \<Rightarrow> string option" where
  "canonicalScopePath scope =
     (let trimmed = trim_char CHR ''/'' (trim_space scope)
      in if trimmed = [] then Some []
         else if list_ex (\<lambda>seg. seg = [] \<or> seg = ''.'' \<or> seg = ''..'') (split_on CHR ''/'' trimmed) then None
         else Some (CHR ''/'' # trimmed))"

definition normalizeAPIPath :: "string \<Rightarrow> string" where
  "normalizeAPIPath p =
     (let kept = filter (\<lambda>s. s \<noteq> [] \<and> s \<noteq> ''.'') (split_on CHR ''/'' (trim_space p))
      in if kept = [] then ''/'' else CHR ''/'' # join_with ''/'' kept)"

definition pathWithin :: "string \<Rightarrow> string \<Rightarrow> bool" where
  "pathWithin base p =
     (if base = ''/'' then has_prefix p ''/'' else p = base \<or> has_prefix p (base @ ''/''))"

definition validateRootProviderPath :: "string \<Rightarrow> bool" where
  "validateRootProviderPath rootPath \<longleftrightarrow> ''..'' \<notin> set (split_on CHR ''/'' (trim_space rootPath))"

definition scopeAPIPath :: "string \<Rightarrow> string \<Rightarrow> string option" where
  "scopeAPIPath rootPath rel =
     (if ''..'' \<in> set (split_on CHR ''/'' (trim_space rootPath)) then None
      else if ''..'' \<in> set (split_on CHR ''/'' (trim_char CHR ''/'' rel)) then None
      else let base = normalizeAPIPath (trim_space rootPath); joined = normalizeAPIPath (base @ rel)
           in if pathWithin base joined then Some joined else None)"

section \<open>Reading a scope\<close>

record scopeObservation =
  obs_root :: ResourceRoot
  obs_binding :: AdapterConfig
  obs_config :: adapterConfig
  obs_raw :: RawScan
  obs_rel :: string
  obs_target :: string
  obs_parentID :: string
  obs_maxEntries :: int
  obs_observedAt :: gotime

definition requirePresentDirectory :: "fault \<Rightarrow> db \<Rightarrow> uuid \<Rightarrow> string \<Rightarrow> scan_error + uuid" where
  "requirePresentDirectory f d rid target =
     (case read_call f (Inr (PresentResourcesAtPath d rid target)) of
        Inl c \<Rightarrow> Inl (scopeWrap ScopeFailureInternal c)
      | Inr [r] \<Rightarrow>
          if IsDir r = Some True then Inr (ResourceID r) else Inl (scopeErrorf ScopeFailureInvalidScope)
      | Inr _ \<Rightarrow> Inl (scopeErrorf ScopeFailureInvalidScope))"

definition scoped_adapter :: "(string \<Rightarrow> string) \<Rightarrow> adapterConfig \<Rightarrow> Adapter" where
  "scoped_adapter getenv ac =
     (let topology = (\<lambda>v. if ak_MirrorPresence ac then getenv v else [])
      in \<lparr>ad_BaseURL = ak_BaseURL ac, ad_Token = getenv (ak_TokenEnv ac),
          ad_Username = getenv (ak_UsernameEnv ac), ad_Password = getenv (ak_PasswordEnv ac),
          ad_ExpectedBasePath = (if ak_MirrorPresence ac then ak_ExpectedBasePath ac else []),
          ad_TopologyToken = topology (ak_TopologyTokenEnv ac),
          ad_TopologyUsername = topology (ak_TopologyUsernameEnv ac),
          ad_TopologyPassword = topology (ak_TopologyPasswordEnv ac)\<rparr>)"

text \<open>The part before the source is asked: the root, the binding, its configuration, the paths and the
  parent.\<close>

definition scope_request ::
  "scan_env \<Rightarrow> uuid \<Rightarrow> string \<Rightarrow> int \<Rightarrow> db
     \<Rightarrow> (scan_error + ResourceRoot \<times> AdapterConfig \<times> adapterConfig \<times> string \<times> string \<times> uuid) \<times> db" where
  "scope_request sv rid scope maxEntries d =
     (let d1 = sv_others sv AtRoot d; d2 = sv_others sv AtAdapter d1; d3 = sv_others sv AtParent d2
      in case read_call (sv_fault sv AtRoot) (GetRoot d1 rid) of
           Inl c \<Rightarrow> (Inl (scopeWrap ScopeFailureInternal c), d1)
         | Inr rt \<Rightarrow>
             if root_LifecycleState rt \<noteq> RootActive then (Inl (scopeErrorf ScopeFailureRootInactive), d1)
             else (case read_call (sv_fault sv AtAdapter) (GetAdapterConfig d2 rid) of
                     Inl c \<Rightarrow>
                       (Inl (scopeWrap (if c = StoreErr ErrNotFound then ScopeFailureConfigInvalid
                               else ScopeFailureInternal) c), d2)
                   | Inr acfg \<Rightarrow>
                       (case sv_decode sv (ac_Config acfg) of
                          None \<Rightarrow> (Inl (scopeErrorf ScopeFailureConfigInvalid), d2)
                        | Some ac \<Rightarrow>
                            if ac_CollectorKind acfg \<noteq> ''alist'' \<and> ac_CollectorKind acfg \<noteq> ''openlist''
                            then (Inl (scopeErrorf ScopeFailureConfigInvalid), d2)
                            else if maxEntries < 0 \<or> maxEntries > alist_MaxScopedEntries
                            then (Inl (scopeErrorf ScopeFailureConfigInvalid), d2)
                            else if \<not> validateRootProviderPath (ak_Path ac)
                            then (Inl (scopeErrorf ScopeFailureConfigInvalid), d2)
                            else (case canonicalScopePath scope of
                                    None \<Rightarrow> (Inl (scopeErrorf ScopeFailureInvalidScope), d2)
                                  | Some rel \<Rightarrow>
                                      (case scopeAPIPath (ak_Path ac) rel of
                                         None \<Rightarrow> (Inl (scopeErrorf ScopeFailureInvalidScope), d2)
                                       | Some target \<Rightarrow>
                                           if rel = [] then (Inr (rt, acfg, ac, rel, target, []), d2)
                                           else (case requirePresentDirectory (sv_fault sv AtParent) d3 rid target of
                                                   Inl e \<Rightarrow> (Inl e, d3)
                                                 | Inr p \<Rightarrow> (Inr (rt, acfg, ac, rel, target, p), d3)))))))"

text \<open>The request to the source, through the budget when there is one.\<close>

definition observe ::
  "scan_env \<Rightarrow> uuid \<Rightarrow> adapterConfig \<Rightarrow> string \<Rightarrow> int \<Rightarrow> Manager option \<Rightarrow> (scan_error + RawScan) \<times> Manager option" where
  "observe sv rid ac target maxEntries budget =
     (let endpoint = sv_parse sv (ak_BaseURL ac); explicit = ak_RequestBudgetGroup ac;
          (client, budget) = (case budget of
             None \<Rightarrow> (Inr (), None)
           | Some m \<Rightarrow> (case Client rid endpoint explicit m of (r, m') \<Rightarrow> (map_sum id (\<lambda>_. ()) r, Some m')))
      in case client of
           Inl _ \<Rightarrow> (Inl (scopeErrorf ScopeFailureConfigInvalid), budget)
         | Inr _ \<Rightarrow>
             if ak_MirrorPresence ac \<and> ak_ExpectedBasePath ac = []
             then (Inl (scopeErrorf ScopeFailureConfigInvalid), budget)
             else let budget = map_option (sv_traffic sv) budget
                  in case ScanScope_alist (sv_parse sv) (scoped_adapter (sv_getenv sv) ac) (sv_source sv) target maxEntries of
                       Inl e \<Rightarrow>
                         (Inl (mapAListScopedError e),
                          (case budget of
                             None \<Rightarrow> None
                           | Some m \<Rightarrow>
                               Some (if sce_Kind e = ScopedThrottled \<and> \<not> RootUntil rid m > sv_now sv
                                     then (case Group endpoint explicit of
                                             Inl _ \<Rightarrow> Penalize rid [] 0 (sv_now sv) m
                                           | Inr g \<Rightarrow> Penalize rid g 0 (sv_now sv) m)
                                     else m)))
                     | Inr raw \<Rightarrow>
                         if raw_TraversalStatus raw \<noteq> TraversalPartial
                         then (Inl (scopeErrorf ScopeFailureInternal), budget)
                         else (case sv_ctx sv AfterRead of
                                 Some e \<Rightarrow> (Inl (plain_error (CtxErr e)), budget)
                               | None \<Rightarrow>
                                   (Inr raw, map_option (Succeeded endpoint explicit (sv_now sv)) budget)))"

definition readScope ::
  "scan_env \<Rightarrow> uuid \<Rightarrow> string \<Rightarrow> int \<Rightarrow> Manager option \<Rightarrow> db
     \<Rightarrow> (scan_error + scopeObservation) \<times> Manager option \<times> db" where
  "readScope sv rid scope maxEntries budget d =
     (case sv_ctx sv OnEntry of
        Some e \<Rightarrow> (Inl (plain_error (CtxErr e)), budget, d)
      | None \<Rightarrow>
          (case scope_request sv rid scope maxEntries d of
             (Inl e, d') \<Rightarrow> (Inl e, budget, d')
           | (Inr (rt, acfg, ac, rel, target, parent), d') \<Rightarrow>
               (case observe sv rid ac target maxEntries budget of
                  (Inl e, budget') \<Rightarrow> (Inl e, budget', d')
                | (Inr raw, budget') \<Rightarrow>
                    (Inr \<lparr>obs_root = rt, obs_binding = acfg, obs_config = ac, obs_raw = raw, obs_rel = rel,
                          obs_target = target, obs_parentID = parent, obs_maxEntries = maxEntries,
                          obs_observedAt = sv_observedAt sv\<rparr>, budget', d'))))"

section \<open>Committing an observation\<close>

definition toEntries :: "RawScan \<Rightarrow> SnapshotEntry list" where
  "toEntries raw =
     map (\<lambda>e. \<lparr>se_SnapshotID = [], se_EntryLocalID = ne_EntryLocalID e, se_Name = ne_Name e,
            se_ParentRef = ne_ParentRef e, se_IsDir = ne_IsDir e, se_Size = ne_Size e, se_Mtime = ne_Mtime e,
            se_ContentHash = ne_ContentHash e, se_HashAlgorithm = ne_HashAlgorithm e,
            se_ProviderObjectID = ne_ProviderObjectID e, se_ProviderObjectIDScope = ne_ProviderObjectIDScope e,
            se_ContentType = ne_ContentType e,
            se_ProviderIdentityAssurance = Some (raw_ProviderIdentityAssurance raw), se_ExtraEvidence = None\<rparr>)
       (raw_Entries raw)"

text \<open>The draft of a scan: what the collector reported, under the given provenance and flag.\<close>

definition scan_draft ::
  "uuid \<Rightarrow> uuid \<Rightarrow> Provenance \<Rightarrow> gotime \<Rightarrow> CompletenessFlag \<Rightarrow> RawScan \<Rightarrow> Snapshot" where
  "scan_draft sid rid provenance observedAt flag raw =
     \<lparr>sn_SnapshotID = sid, sn_RootID = rid, sn_Provenance = provenance, sn_ObservedAt = observedAt,
      sn_TraversalStatus = raw_TraversalStatus raw, sn_ErrorSummary = raw_ErrorSummary raw,
      sn_SkippedScopes = raw_SkippedScopes raw, sn_SkippedScopesKnownEmpty = raw_SkippedKnownEmpty raw,
      sn_FreshnessEvidence = Some (raw_Freshness raw),
      sn_CollectorCompletenessAssurance = Some (raw_Assurance raw), sn_ScopeShrinkCorroboration = None,
      sn_CompletenessFlag = flag, sn_AcceptanceState = None, sn_LifecycleState = SnapshotDraft,
      sn_EntryCount = Some (int (length (raw_Entries raw)))\<rparr>"

text \<open>The heads before this scan are processed first. Another session may keep adding heads, so the loop has
  fuel.\<close>

fun drainHead ::
  "nat \<Rightarrow> scan_env \<Rightarrow> place \<Rightarrow> Resolve.Config \<Rightarrow> uuid \<Rightarrow> db \<Rightarrow> (cause option \<times> db) option" where
  "drainHead 0 sv p cfg rid d = None"
| "drainHead (Suc n) sv p cfg rid d =
     (case store_call (sv_drainFault sv p n)
             (ProcessHead (sv_env sv p n) (cfg\<lparr>NewID := sv_ids sv p n\<rparr>) (sv_between sv p n) rid) d of
        (Inl c, d') \<Rightarrow>
          if c = StoreErr ErrStaleHeadConsumed then drainHead n sv p cfg rid d' else Some (Some c, d')
      | (Inr None, d') \<Rightarrow> Some (None, d')
      | (Inr (Some _), d') \<Rightarrow> drainHead n sv p cfg rid d')"

definition process_once ::
  "scan_env \<Rightarrow> place \<Rightarrow> Resolve.Config \<Rightarrow> uuid \<Rightarrow> uuid \<Rightarrow> db \<Rightarrow> (cause + ReconcileOutcome) \<times> db" where
  "process_once sv p cfg rid sid d =
     store_call (sv_fault sv p) (ProcessSnapshot (sv_env sv p 0) (cfg\<lparr>NewID := sv_ids sv p 0\<rparr>) (sv_between sv p 0) rid sid)
       (sv_others sv p d)"

text \<open>The snapshot is processed; when another head is in front, that one is drained and the snapshot tried
  once more.\<close>

definition process_own ::
  "nat \<Rightarrow> scan_env \<Rightarrow> Resolve.Config \<Rightarrow> uuid \<Rightarrow> uuid \<Rightarrow> db \<Rightarrow> ((cause + ReconcileOutcome) \<times> db) option" where
  "process_own fuel sv cfg rid sid d =
     (case process_once sv AtProcess cfg rid sid d of
        (Inl c, d1) \<Rightarrow>
          if c = StoreErr ErrNotHead
          then (case drainHead fuel sv AtDrainAgain cfg rid d1 of
                  None \<Rightarrow> None
                | Some (Some e, d2) \<Rightarrow> Some (Inl e, d2)
                | Some (None, d2) \<Rightarrow> Some (process_once sv AtRetry cfg rid sid d2))
          else Some (Inl c, d1)
      | (Inr out, d1) \<Rightarrow> Some (Inr out, d1))"

text \<open>From recovery of stranded snapshots to the outcome of this one. The two ways a scan reports a failure
  differ in its wrapping only.\<close>

definition commit_draft ::
  "nat \<Rightarrow> scan_env \<Rightarrow> Resolve.Config \<Rightarrow> Snapshot \<Rightarrow> SnapshotEntry list \<Rightarrow> db
     \<Rightarrow> (((cause option) + ReconcileOutcome) \<times> db) option" where
  "commit_draft fuel sv cfg snap entries d =
     (let rid = sn_RootID snap; sid = sn_SnapshotID snap
      in case store_call (sv_fault sv AtResolve) (ResolveUnadmittedSubmittedForRoot (sv_env sv AtResolve 0) rid)
              (sv_others sv AtResolve d) of
           (Inl c, d1) \<Rightarrow> Some (Inl (Some c), d1)
         | (Inr (_, ambiguous), d1) \<Rightarrow>
             if ambiguous then Some (Inl None, d1)
             else (case drainHead fuel sv AtDrain cfg rid d1 of
                     None \<Rightarrow> None
                   | Some (Some c, d2) \<Rightarrow> Some (Inl (Some c), d2)
                   | Some (None, d2) \<Rightarrow>
                       (case store_call (sv_fault sv AtDraft)
                               (whole (\<lambda>d. map_sum id (Pair ()) (CreateDraftSnapshot snap (Some SnapshotDraft) entries d)))
                               (sv_others sv AtDraft d2) of
                          (Inl c, d3) \<Rightarrow> Some (Inl (Some c), d3)
                        | (Inr _, d3) \<Rightarrow>
                            (case store_call (sv_fault sv AtSubmit) (whole (SubmitAndAdmitSnapshot (sv_env sv AtSubmit 0) rid sid))
                                    (sv_others sv AtSubmit d3) of
                               (Inl c, d4) \<Rightarrow> Some (Inl (Some c), d4)
                             | (Inr _, d4) \<Rightarrow>
                                 map_option (\<lambda>(r, d5). (map_sum Some id r, d5)) (process_own fuel sv cfg rid sid d4)))))"

datatype outcome_error = ErrSourceFailed | ErrReconcileRejected

definition scanOutcomeError :: "TraversalStatus \<Rightarrow> ReconcileOutcome \<Rightarrow> outcome_error option" where
  "scanOutcomeError traversal out =
     (if IsSourceFailure traversal then Some ErrSourceFailed
      else if oc_Status out = AdmissionRejected then Some ErrReconcileRejected
      else None)"

definition lifecycleFailureKind :: "fault \<Rightarrow> db \<Rightarrow> uuid \<Rightarrow> ScopeFailureKind" where
  "lifecycleFailureKind f d rid =
     (case read_call f (GetRoot d rid) of
        Inr rt \<Rightarrow> if root_LifecycleState rt \<noteq> RootActive then ScopeFailureRootInactive else ScopeFailureInternal
      | Inl _ \<Rightarrow> ScopeFailureInternal)"

definition scope_coverage :: "int \<Rightarrow> scopeObservation \<Rightarrow> DirectoryCoverage json_member" where
  "scope_coverage version obs =
     (if ak_MirrorPresence (obs_config obs) \<and> raw_DirectoryTopologyDigest (obs_raw obs) \<noteq> []
      then Decoded \<lparr>dc_Version = version, dc_Path = obs_target obs,
             dc_Generation = root_CurrentGeneration (obs_root obs),
             dc_AdapterDigest = AdapterConfigDigest (obs_binding obs),
             dc_EntryCount = int (length (raw_Entries (obs_raw obs))),
             dc_TopologyDigest = raw_DirectoryTopologyDigest (obs_raw obs)\<rparr>
      else Absent)"

definition child_scopes :: "string \<Rightarrow> RawScan \<Rightarrow> string list" where
  "child_scopes rel raw =
     map (\<lambda>e. trim_suffix (CHR ''/'' # trim_char CHR ''/'' rel) ''/'' @ ''/'' @ ne_Name e)
       (filter ne_IsDir (raw_Entries raw))"

definition scope_snapshot :: "scan_env \<Rightarrow> scopeObservation \<Rightarrow> ScopedFetchFence option \<Rightarrow> Snapshot" where
  "scope_snapshot sv obs fence =
     scan_draft (sv_snapID sv) (root_RootID (obs_root obs))
       (ObjectProvenance (case fence of None \<Rightarrow> Absent | Some f \<Rightarrow> Decoded f) (scope_coverage 2 obs) Absent)
       (obs_observedAt obs) CompletenessFlagPartial (obs_raw obs)"

definition commitScope ::
  "nat \<Rightarrow> scan_env \<Rightarrow> scopeObservation \<Rightarrow> ScopedFetchFence option \<Rightarrow> db
     \<Rightarrow> ((scan_error + scan_Result) \<times> db) option" where
  "commitScope fuel sv obs fence d =
     (let rid = root_RootID (obs_root obs); raw = obs_raw obs; d1 = sv_others sv AtPolicy d
      in case sv_ctx sv BeforeCommit of
           Some e \<Rightarrow> Some (Inl (plain_error (CtxErr e)), d)
         | None \<Rightarrow>
             (case read_call (sv_fault sv AtPolicy) (GetRootPolicy d1 rid) of
                Inl c \<Rightarrow>
                  Some (Inl (scopeWrap (if c = StoreErr ErrNotFound then ScopeFailureConfigInvalid
                          else ScopeFailureInternal) c), d1)
              | Inr policy \<Rightarrow>
                  let cfg = ReconcileConfig (sv_ids sv AtProcess 0) policy
                  in if Validate cfg \<noteq> Inr () then Some (Inl (scopeErrorf ScopeFailureConfigInvalid), d1)
                     else (case commit_draft fuel sv cfg (scope_snapshot sv obs fence) (toEntries raw) d1 of
                             None \<Rightarrow> None
                           | Some (Inl None, d2) \<Rightarrow> Some (Inl (scopeErrorf ScopeFailureInternal), d2)
                           | Some (Inl (Some c), d2) \<Rightarrow> Some (Inl (scopeWrap ScopeFailureInternal c), d2)
                           | Some (Inr out, d2) \<Rightarrow>
                               (case scanOutcomeError (raw_TraversalStatus raw) out of
                                  Some _ \<Rightarrow>
                                    let d3 = sv_others sv AtLifecycle d2
                                    in Some (Inl (scopeErrorf (lifecycleFailureKind (sv_fault sv AtLifecycle) d3 rid)), d3)
                                | None \<Rightarrow>
                                    Some (Inr \<lparr>sr_SnapshotID = sv_snapID sv, sr_Outcome = out,
                                               sr_ChildScopes = child_scopes (obs_rel obs) raw,
                                               sr_MirrorPresence = ak_MirrorPresence (obs_config obs)\<rparr>, d2)))))"

definition ScanScope ::
  "nat \<Rightarrow> scan_env \<Rightarrow> uuid \<Rightarrow> string \<Rightarrow> int \<Rightarrow> Manager option \<Rightarrow> db
     \<Rightarrow> ((scan_error + scan_Result) \<times> Manager option \<times> db) option" where
  "ScanScope fuel sv rid scope maxEntries budget d =
     (case readScope sv rid scope maxEntries budget d of
        (Inl e, budget', d') \<Rightarrow> Some (Inl e, budget', d')
      | (Inr obs, budget', d') \<Rightarrow>
          map_option (\<lambda>(r, d''). (r, budget', d'')) (commitScope fuel sv obs None d'))"

section \<open>The readiness of a source\<close>

definition SourceReadyAt ::
  "scan_env \<Rightarrow> uuid \<Rightarrow> Manager option \<Rightarrow> db \<Rightarrow> ((budget_error + cause) + gotime) \<times> Manager option" where
  "SourceReadyAt sv rid budget d =
     (case budget of
        None \<Rightarrow> (Inr zero_time, None)
      | Some m \<Rightarrow>
          (case read_call (sv_fault sv AtAdapter) (GetAdapterConfig (sv_others sv AtAdapter d) rid) of
             Inl c \<Rightarrow> (if c = StoreErr ErrNotFound then Inr zero_time else Inl (Inr c), budget)
           | Inr a \<Rightarrow>
               (case sv_decode sv (ac_Config a) of
                  None \<Rightarrow> (Inr zero_time, budget)
                | Some c \<Rightarrow>
                    if ac_CollectorKind a \<noteq> ''alist'' \<and> ac_CollectorKind a \<noteq> ''openlist''
                    then (Inr zero_time, budget)
                    else (case ReadyAt rid (sv_parse sv (ak_BaseURL c)) (ak_RequestBudgetGroup c) m of
                            (Inl e, m') \<Rightarrow> (if e = ErrEndpoint then Inr zero_time else Inl (Inl e), Some m')
                          | (Inr t, m') \<Rightarrow> (Inr t, Some m')))))"

section \<open>The full scan\<close>

datatype full_error =
    FullCause cause | FullDeleted | FullParse | FullUnsupported | FullAmbiguous | FullOutcome outcome_error

text \<open>The collector of a binding. The walk of AList has fuel of its own.\<close>

definition collector_scan ::
  "nat \<Rightarrow> scan_env \<Rightarrow> string \<Rightarrow> adapterConfig \<Rightarrow> (full_error + RawScan) option" where
  "collector_scan fuel sv kind ac =
     (if kind = ''rclone''
      then Some (Inr (Scan_rclone (sv_run sv) (sv_rclonePath sv) (ak_Remote ac) (sv_rcloneConfig sv)
             FailureVisibilityEmpty (ak_Path ac)))
      else if kind = ''alist'' \<or> kind = ''openlist''
      then map_option Inr (Scan_alist fuel fuel
             \<lparr>ad_BaseURL = ak_BaseURL ac, ad_Token = sv_getenv sv (ak_TokenEnv ac),
              ad_Username = sv_getenv sv (ak_UsernameEnv ac), ad_Password = sv_getenv sv (ak_PasswordEnv ac),
              ad_ExpectedBasePath = [], ad_TopologyToken = [], ad_TopologyUsername = [],
              ad_TopologyPassword = []\<rparr> (sv_source sv) (ak_Path ac))
      else Some (Inl FullUnsupported))"

definition full_snapshot :: "scan_env \<Rightarrow> uuid \<Rightarrow> RawScan \<Rightarrow> Snapshot" where
  "full_snapshot sv rid raw =
     scan_draft (sv_snapID sv) rid (ObjectProvenance Absent Absent Absent) (sv_observedAt sv)
       (if raw_TraversalStatus raw \<noteq> TraversalSuccess then CompletenessFlagPartial
        else CompletenessFlagComplete) raw"

definition Scan ::
  "nat \<Rightarrow> scan_env \<Rightarrow> uuid \<Rightarrow> db \<Rightarrow> ((full_error + uuid \<times> ReconcileOutcome) \<times> db) option" where
  "Scan fuel sv rid d =
     (let d1 = sv_others sv AtRoot d; d2 = sv_others sv AtAdapter d1; d3 = sv_others sv AtPolicy d2
      in case read_call (sv_fault sv AtRoot) (GetRoot d1 rid) of
           Inl c \<Rightarrow> Some (Inl (FullCause c), d1)
         | Inr rt \<Rightarrow>
             if root_LifecycleState rt = RootDeleted then Some (Inl FullDeleted, d1)
             else (case read_call (sv_fault sv AtAdapter) (GetAdapterConfig d2 rid) of
                     Inl c \<Rightarrow> Some (Inl (FullCause c), d2)
                   | Inr acfg \<Rightarrow>
                       (case sv_decode sv (ac_Config acfg) of
                          None \<Rightarrow> Some (Inl FullParse, d2)
                        | Some ac \<Rightarrow>
                            (case collector_scan fuel sv (ac_CollectorKind acfg) ac of
                               None \<Rightarrow> None
                             | Some (Inl e) \<Rightarrow> Some (Inl e, d2)
                             | Some (Inr raw) \<Rightarrow>
                                 (case read_call (sv_fault sv AtPolicy) (RootReconcileConfig (sv_ids sv AtProcess 0) d3 rid) of
                                    Inl c \<Rightarrow> Some (Inl (FullCause c), d3)
                                  | Inr cfg \<Rightarrow>
                                      map_option (\<lambda>(r, d4).
                                        (case r of
                                           Inl None \<Rightarrow> Inl FullAmbiguous
                                         | Inl (Some c) \<Rightarrow> Inl (FullCause c)
                                         | Inr out \<Rightarrow>
                                             (case scanOutcomeError (raw_TraversalStatus raw) out of
                                                Some e \<Rightarrow> Inl (FullOutcome e)
                                              | None \<Rightarrow> Inr (sv_snapID sv, out)), d4))
                                        (commit_draft fuel sv cfg (full_snapshot sv rid raw) (toEntries raw) d3))))))"

section \<open>The fenced fetch\<close>

record FetchPrototype =
  fp_limit :: int
  fp_roots :: "uuid list"

definition NewFetchPrototype :: "duration \<Rightarrow> int \<Rightarrow> FetchPrototype option" where
  "NewFetchPrototype timeout limit =
     (if timeout \<le> 0 \<or> limit < 1 \<or> limit > 8 then None else Some \<lparr>fp_limit = limit, fp_roots = []\<rparr>)"

record fetchedScope =
  fs_obs :: scopeObservation
  fs_fence :: ScopedFetchFence
  fs_consumed :: bool

definition claimMatches :: "DirtyScopeWork \<Rightarrow> DirtyScopeWork \<Rightarrow> bool" where
  "claimMatches a b \<longleftrightarrow>
     wk_WorkState a = WorkInFlight \<and> wk_WorkState b = WorkInFlight \<and> wk_RootID a = wk_RootID b \<and>
     wk_ScopeKey a = wk_ScopeKey b \<and> wk_ClaimedSignalSeq a \<noteq> None \<and>
     wk_ClaimedSignalSeq a = wk_ClaimedSignalSeq b \<and> wk_AttemptCount a = wk_AttemptCount b \<and>
     wk_LastAttemptStartedAt a \<noteq> None \<and> wk_LastAttemptStartedAt a = wk_LastAttemptStartedAt b"

definition too_deep_scope :: "string \<Rightarrow> bool" where
  "too_deep_scope key \<longleftrightarrow> length (split_on CHR ''/'' (trim_char CHR ''/'' key)) > 8"

definition attempt_started :: "DirtyScopeWork \<Rightarrow> gotime" where
  "attempt_started w = (case wk_LastAttemptStartedAt w of None \<Rightarrow> zero_time | Some t \<Rightarrow> t)"

definition fetch_fence :: "int \<Rightarrow> scopeObservation \<Rightarrow> DirtyScopeWork \<Rightarrow> ScopedReadLineage option \<Rightarrow> ScopedFetchFence" where
  "fetch_fence version obs w lineage =
     \<lparr>fe_Version = version, fe_Generation = root_CurrentGeneration (obs_root obs),
      fe_AdmissionFrontier = root_LatestAdmissionSeq (obs_root obs),
      fe_AdapterDigest = AdapterConfigDigest (obs_binding obs), fe_AdapterRevision = ac_Revision (obs_binding obs),
      fe_ScopeKey = wk_ScopeKey w, fe_TargetPath = obs_target obs, fe_ParentID = obs_parentID obs,
      fe_ClaimedSequence = claim_seq w, fe_Attempt = wk_AttemptCount w,
      fe_AttemptStartedAt = attempt_started w, fe_Lineage = lineage\<rparr>"

definition release :: "uuid \<Rightarrow> FetchPrototype \<Rightarrow> FetchPrototype" where
  "release rid p = p\<lparr>fp_roots := removeAll rid (fp_roots p)\<rparr>"

definition FetchScope ::
  "scan_env \<Rightarrow> DirtyScopeWork \<Rightarrow> int \<Rightarrow> FetchPrototype \<Rightarrow> Manager option \<Rightarrow> db
     \<Rightarrow> (scan_error + fetchedScope) \<times> FetchPrototype \<times> Manager option \<times> db" where
  "FetchScope sv w maxEntries p budget d =
     (let rid = wk_RootID w
      in case sv_ctx sv OnFetch of
           Some e \<Rightarrow> (Inl (plain_error (CtxErr e)), p, budget, d)
         | None \<Rightarrow>
             if maxEntries < 0 \<or> maxEntries > 1000 then (Inl (scopeErrorf ScopeFailureConfigInvalid), p, budget, d)
             else if ValidateScopeKey (wk_ScopeKey w) \<noteq> Inr () \<or>
                     (wk_ScopeKey w \<noteq> ''/'' \<and> too_deep_scope (wk_ScopeKey w))
             then (Inl (scopeErrorf ScopeFailureInvalidScope), p, budget, d)
             else if List.member (fp_roots p) rid \<or> int (length (fp_roots p)) \<ge> fp_limit p
             then (Inl untyped_error, p, budget, d)
             else let d1 = sv_others sv AtWork d
                  in (case read_call (sv_fault sv AtWork) (GetWork d1 rid (wk_ScopeKey w)) of
                        Inl c \<Rightarrow> (Inl (plain_error c), p, budget, d1)
                      | Inr current \<Rightarrow>
                          if \<not> claimMatches w current
                          then (Inl (plain_error (StoreErr ErrScopedFetchStale)), p, budget, d1)
                          else (case readScope sv rid (wk_ScopeKey w) maxEntries budget d1 of
                                  (Inl e, budget', d2) \<Rightarrow> (Inl e, p, budget', d2)
                                | (Inr obs, budget', d2) \<Rightarrow>
                                    (Inr \<lparr>fs_obs = obs, fs_fence = fetch_fence 1 obs current None,
                                          fs_consumed = False\<rparr>,
                                     p\<lparr>fp_roots := rid # fp_roots p\<rparr>, budget', d2))))"

definition DiscardFetchedScope :: "fetchedScope \<Rightarrow> FetchPrototype \<Rightarrow> bool \<times> fetchedScope \<times> FetchPrototype" where
  "DiscardFetchedScope f p =
     (if fs_consumed f then (False, f, p)
      else (True, f\<lparr>fs_consumed := True\<rparr>, release (root_RootID (obs_root (fs_obs f))) p))"

definition CommitFetchedScope ::
  "nat \<Rightarrow> scan_env \<Rightarrow> fetchedScope \<Rightarrow> FetchPrototype \<Rightarrow> db
     \<Rightarrow> ((scan_error + scan_Result) \<times> fetchedScope \<times> FetchPrototype \<times> db) option" where
  "CommitFetchedScope fuel sv f p d =
     (if fs_consumed f then Some (Inl untyped_error, f, p, d)
      else let f' = f\<lparr>fs_consumed := True\<rparr>; p' = release (root_RootID (obs_root (fs_obs f))) p
           in map_option (\<lambda>(r, d'). (r, f', p', d')) (commitScope fuel sv (fs_obs f) (Some (fs_fence f)) d))"

definition verified_status :: "AdmissionStatus \<Rightarrow> bool" where
  "verified_status s \<longleftrightarrow> s = AdmissionApplied \<or> s = AdmissionNoop"

text \<open>The scanner of the runtime: fetch under the claim, commit under the fence.\<close>

definition ScanClaimedScope ::
  "nat \<Rightarrow> scan_env \<Rightarrow> duration \<Rightarrow> DirtyScopeWork \<Rightarrow> int \<Rightarrow> Manager option \<Rightarrow> db
     \<Rightarrow> ((scan_error + scan_Result) \<times> Manager option \<times> db) option" where
  "ScanClaimedScope fuel sv timeout w maxEntries budget d =
     (case NewFetchPrototype timeout 1 of
        None \<Rightarrow> Some (Inl untyped_error, budget, d)
      | Some p \<Rightarrow>
          (case FetchScope sv w maxEntries p budget d of
             (Inl e, p', budget', d') \<Rightarrow> Some (Inl e, budget', d')
           | (Inr f, p', budget', d') \<Rightarrow>
               map_option (\<lambda>(r, _, _, d'').
                 ((case r of
                     Inl e \<Rightarrow> Inl (if se_Stale e
                       then scopeWrap ScopeFailureTransientProvider (StoreErr ErrScopedFetchStale) else e)
                   | Inr out \<Rightarrow>
                       if \<not> verified_status (oc_Status (sr_Outcome out))
                       then Inl (scopeWrap ScopeFailureTransientProvider (StoreErr ErrScopedFetchStale))
                       else Inr out), budget', d''))
                 (CommitFetchedScope fuel sv f p' d')))"

end
