(* ===== verification/Batch.thy ===== *)
theory Batch
  imports Scan
begin

text \<open>
  Sibling directories of one root, read together and committed in a fixed order
  (\<open>scan/same_root_prototype.go\<close>). The readers run at the same time; each reads the store and the source on
  its own, so that their results are those of reads in any order, with the other sessions in between. A
  reader that finds the context ended records that error; a failing reader ends the context of the others.
\<close>

section \<open>Fetching\<close>

record SameRootPrototype =
  sp_workers :: int
  sp_busy :: bool

definition NewSameRootPrototype :: "duration \<Rightarrow> int \<Rightarrow> SameRootPrototype option" where
  "NewSameRootPrototype timeout workers =
     (if timeout \<le> 0 \<or> (workers \<noteq> 1 \<and> workers \<noteq> 2 \<and> workers \<noteq> 4 \<and> workers \<noteq> 8) then None
      else Some \<lparr>sp_workers = workers, sp_busy = False\<rparr>)"

record sameRootBatch =
  sb_root :: uuid
  sb_ids :: "uuid list"
  sb_next :: nat
  sb_closed :: bool

definition Checkpoint :: "sameRootBatch \<Rightarrow> uuid" where
  "Checkpoint b = (case sb_ids b of [] \<Rightarrow> [] | i # _ \<Rightarrow> i)"

definition Close :: "sameRootBatch \<Rightarrow> SameRootPrototype \<Rightarrow> sameRootBatch \<times> SameRootPrototype" where
  "Close b p = (if sb_closed b then (b, p) else (b\<lparr>sb_closed := True\<rparr>, p\<lparr>sp_busy := False\<rparr>))"

definition batch_claim_ok :: "DirtyScopeWork \<Rightarrow> DirtyScopeWork \<Rightarrow> bool" where
  "batch_claim_ok lead c \<longleftrightarrow>
     wk_ScopeKey c \<noteq> ''/'' \<and> ValidateScopeKey (wk_ScopeKey c) = Inr () \<and> \<not> too_deep_scope (wk_ScopeKey c) \<and>
     wk_LastAttemptStartedAt c \<noteq> None \<and> wk_ClaimedSignalSeq c \<noteq> None \<and> wk_RootID c = wk_RootID lead \<and>
     path_dir (wk_ScopeKey c) = path_dir (wk_ScopeKey lead)"

definition claim_before :: "DirtyScopeWork \<Rightarrow> DirtyScopeWork \<Rightarrow> bool" where
  "claim_before a b =
     (if attempt_started a = attempt_started b then wk_ScopeKey a < wk_ScopeKey b
      else attempt_started a < attempt_started b)"

text \<open>The surroundings: those of the call as a whole, those of each reader, and the fresh identifiers.\<close>

record batch_env =
  be_call :: scan_env
  be_job :: "nat \<Rightarrow> scan_env"
  be_ids :: "nat \<Rightarrow> uuid"

text \<open>Every claim is still the one in the store.\<close>

fun check_claims :: "batch_env \<Rightarrow> nat \<Rightarrow> DirtyScopeWork option \<Rightarrow> DirtyScopeWork list \<Rightarrow> db \<Rightarrow> scan_error option \<times> db" where
  "check_claims be i prev [] d = (None, d)"
| "check_claims be i prev (c # cs) d =
     (if map_option wk_ScopeKey prev = Some (wk_ScopeKey c) then (Some untyped_error, d)
      else let sv = be_job be i; d1 = sv_others sv AtWork d
           in case read_call (sv_fault sv AtWork) (GetWork d1 (wk_RootID c) (wk_ScopeKey c)) of
                Inl e \<Rightarrow> (Some (plain_error e), d1)
              | Inr current \<Rightarrow>
                  if \<not> claimMatches c current then (Some (plain_error (StoreErr ErrScopedFetchStale)), d1)
                  else check_claims be (Suc i) (Some c) cs d1)"

fun read_all ::
  "batch_env \<Rightarrow> nat \<Rightarrow> DirtyScopeWork list \<Rightarrow> Manager option \<Rightarrow> db
     \<Rightarrow> (scan_error + scopeObservation) list \<times> Manager option \<times> db" where
  "read_all be i [] budget d = ([], budget, d)"
| "read_all be i (c # cs) budget d =
     (let sv = be_job be i;
          (r, budget1, d1) = (case sv_ctx sv OnFetch of
             Some e \<Rightarrow> (Inl (plain_error (CtxErr e)), budget, d)
           | None \<Rightarrow> readScope sv (wk_RootID c) (wk_ScopeKey c) 1000 budget d);
          (rs, budget2, d2) = read_all be (Suc i) cs budget1 d1
      in (r # rs, budget2, d2))"

text \<open>The failures that are not those of a cancelled peer, with the scopes they belong to.\<close>

definition read_failures :: "DirtyScopeWork list \<Rightarrow> (scan_error + scopeObservation) list \<Rightarrow> (string \<times> scan_error) list" where
  "read_failures claims rs =
     concat (map2 (\<lambda>c r. case r of
         Inl e \<Rightarrow> if se_Ctx e \<noteq> Some Canceled then [(wk_ScopeKey c, e)] else []
       | Inr _ \<Rightarrow> []) claims rs)"

definition observations :: "(scan_error + scopeObservation) list \<Rightarrow> scopeObservation list" where
  "observations rs = concat (map (\<lambda>r. case r of Inl _ \<Rightarrow> [] | Inr o' \<Rightarrow> [o']) rs)"

text \<open>The context after the reads: a reader that failed has ended it.\<close>

definition reads_ctx :: "ctx_error option \<Rightarrow> (scan_error + scopeObservation) list \<Rightarrow> ctx_error option" where
  "reads_ctx c rs = (if list_ex isl rs \<and> c = None then Some Canceled else c)"

definition frozen_input ::
  "uuid list \<Rightarrow> nat \<Rightarrow> DirtyScopeWork \<Rightarrow> scopeObservation \<Rightarrow> FrozenScopeInput" where
  "frozen_input ids i c obs =
     \<lparr>fi_Snapshot = scan_draft (ids ! i) (wk_RootID c)
        (ObjectProvenance
          (Decoded (fetch_fence 2 obs c
             (Some \<lparr>ln_Snapshots = ids, ln_Rank = int i, ln_DependencyDigest = [], ln_PolicyRevision = []\<rparr>)))
          (scope_coverage 3 obs) (Decoded (ak_MirrorPresence (obs_config obs))))
        (obs_observedAt obs) CompletenessFlagPartial (obs_raw obs),
      fi_Entries = toEntries (obs_raw obs)\<rparr>"

definition freeze_reads ::
  "batch_env \<Rightarrow> DirtyScopeWork list \<Rightarrow> scopeObservation list \<Rightarrow> db \<Rightarrow> (scan_error + sameRootBatch) \<times> db" where
  "freeze_reads be claims obs d =
     (let sv = be_call be; ids = map (be_ids be) [0 ..< length claims];
          inputs = map (\<lambda>i. frozen_input ids i (claims ! i) (obs ! i)) [0 ..< length claims]
      in case store_call (sv_fault sv AtFreeze)
              (whole (\<lambda>d. map_sum id (Pair ()) (FreezeScopedReadBatch (sv_env sv AtFreeze 0) inputs d)))
              (sv_others sv AtFreeze d) of
           (Inl c, d') \<Rightarrow> (Inl (plain_error c), d')
         | (Inr _, d') \<Rightarrow>
             (Inr \<lparr>sb_root = wk_RootID (hd claims), sb_ids = ids, sb_next = 0, sb_closed = False\<rparr>, d'))"

definition FetchBatch ::
  "batch_env \<Rightarrow> DirtyScopeWork list \<Rightarrow> SameRootPrototype \<Rightarrow> Manager option \<Rightarrow> db
     \<Rightarrow> (scan_error + sameRootBatch) \<times> SameRootPrototype \<times> Manager option \<times> db" where
  "FetchBatch be claims p budget d =
     (if length claims < 1 \<or> length claims > 8 then (Inl untyped_error, p, budget, d)
      else case sv_ctx (be_call be) OnFetch of
        Some e \<Rightarrow> (Inl (plain_error (CtxErr e)), p, budget, d)
      | None \<Rightarrow>
          if sp_busy p then (Inl untyped_error, p, budget, d)
          else if \<not> distinct (map wk_ScopeKey claims) \<or> \<not> list_all (batch_claim_ok (hd claims)) claims
          then (Inl untyped_error, p, budget, d)
          else let claims = sort_by claim_before claims
               in case check_claims be 0 None claims d of
                    (Some e, d1) \<Rightarrow> (Inl e, p, budget, d1)
                  | (None, d1) \<Rightarrow>
                      (case read_all be 0 claims budget d1 of
                         (rs, budget', d2) \<Rightarrow>
                           (case read_failures claims rs of
                              (scope, e) # peers \<Rightarrow>
                                (Inl (e\<lparr>se_Batch := Some (map (map_prod id se_Kind) ((scope, e) # peers))\<rparr>), p, budget', d2)
                            | [] \<Rightarrow>
                                (case reads_ctx (sv_ctx (be_call be) AfterReads) rs of
                                   Some e \<Rightarrow> (Inl (plain_error (CtxErr e)), p, budget', d2)
                                 | None \<Rightarrow>
                                     (case freeze_reads be claims (observations rs) d2 of
                                        (Inl e, d3) \<Rightarrow> (Inl e, p, budget', d3)
                                      | (Inr b, d3) \<Rightarrow> (Inr b, p\<lparr>sp_busy := True\<rparr>, budget', d3))))))"

section \<open>Committing\<close>

text \<open>The members of a provenance that the commit decodes; \<open>None\<close> when decoding fails. An absent or null
  member leaves its zero value.\<close>

definition decoded_fence :: "Provenance \<Rightarrow> ScopedFetchFence option" where
  "decoded_fence p = (case fence_member p of Malformed \<Rightarrow> None | Decoded f \<Rightarrow> Some f | _ \<Rightarrow> Some zero_fence)"

definition commit_meta :: "Provenance \<Rightarrow> (ScopedFetchFence \<times> bool) option" where
  "commit_meta p =
     (if p = OpaqueProvenance \<or> coverage_member p = Malformed \<or> mirror_member p = Malformed then None
      else map_option (\<lambda>f. (f, mirror_member p = Decoded True)) (decoded_fence p))"

definition batch_children :: "ScopedFetchFence \<Rightarrow> SnapshotEntry list \<Rightarrow> string list" where
  "batch_children f entries =
     map (\<lambda>e. trim_suffix (fe_ScopeKey f) ''/'' @ ''/'' @ se_Name e) (filter se_IsDir entries)"

text \<open>One slot: submit the frozen draft when it is still one, process it, and read its result.\<close>

definition submit_slot :: "scan_env \<Rightarrow> uuid \<Rightarrow> Snapshot \<Rightarrow> db \<Rightarrow> (cause + unit) \<times> db" where
  "submit_slot sv rid snap d =
     (if sn_LifecycleState snap = SnapshotDraft
      then (case store_call (sv_fault sv AtSubmit)
                   (whole (SubmitAndAdmitSnapshot (sv_env sv AtSubmit 0) rid (sn_SnapshotID snap)))
                   (sv_others sv AtSubmit d) of
              (r, d') \<Rightarrow> (map_sum id (\<lambda>_. ()) r, d'))
      else (Inr (), d))"

definition slot_result ::
  "scan_env \<Rightarrow> Snapshot \<Rightarrow> ReconcileOutcome \<Rightarrow> db \<Rightarrow> (scan_error + scan_Result) \<times> db" where
  "slot_result sv snap out d =
     (if \<not> verified_status (oc_Status out) then (Inl (plain_error (StoreErr ErrScopedFetchStale)), d)
      else case commit_meta (sn_Provenance snap) of
             None \<Rightarrow> (Inl untyped_error, d)
           | Some (f, mirror) \<Rightarrow>
               let d1 = sv_others sv AtEntries d
               in (case read_call (sv_fault sv AtEntries) (Inr (ListSnapshotEntries d1 (sn_SnapshotID snap))) of
                     Inl c \<Rightarrow> (Inl (plain_error c), d1)
                   | Inr entries \<Rightarrow>
                       (Inr \<lparr>sr_SnapshotID = sn_SnapshotID snap, sr_Outcome = out,
                             sr_ChildScopes = batch_children f entries, sr_MirrorPresence = mirror\<rparr>, d1)))"

definition commit_slot :: "scan_env \<Rightarrow> uuid \<Rightarrow> uuid \<Rightarrow> db \<Rightarrow> (scan_error + scan_Result) \<times> db" where
  "commit_slot sv rid sid d =
     (let d1 = sv_others sv AtSnapshot d; d2 = sv_others sv AtPolicy d1
      in case sv_ctx sv BeforeCommit of
           Some e \<Rightarrow> (Inl (plain_error (CtxErr e)), d)
         | None \<Rightarrow>
             (case read_call (sv_fault sv AtSnapshot) (GetSnapshot d1 sid) of
                Inl c \<Rightarrow> (Inl (plain_error c), d1)
              | Inr snap \<Rightarrow>
                  (case read_call (sv_fault sv AtPolicy) (RootReconcileConfig (sv_ids sv AtProcess 0) d2 rid) of
                     Inl c \<Rightarrow> (Inl (plain_error c), d2)
                   | Inr cfg \<Rightarrow>
                       (case submit_slot sv rid snap d2 of
                          (Inl c, d3) \<Rightarrow> (Inl (plain_error c), d3)
                        | (Inr _, d3) \<Rightarrow>
                            (case process_once sv AtProcess cfg rid sid d3 of
                               (Inl c, d4) \<Rightarrow> (Inl (plain_error c), d4)
                             | (Inr out, d4) \<Rightarrow> slot_result sv snap out d4)))))"

definition Commit ::
  "scan_env \<Rightarrow> SameRootPrototype \<Rightarrow> sameRootBatch \<Rightarrow> nat \<Rightarrow> db
     \<Rightarrow> (scan_error + scan_Result) \<times> sameRootBatch \<times> SameRootPrototype \<times> db" where
  "Commit sv p b rank d =
     (if sb_closed b \<or> rank < sb_next b then (Inl untyped_error, b, p, d)
      else if rank \<noteq> sb_next b \<or> rank \<ge> length (sb_ids b) then (Inl untyped_error, b, p, d)
      else case commit_slot sv (sb_root b) (sb_ids b ! rank) d of
             (Inl e, d') \<Rightarrow> (Inl e, b\<lparr>sb_closed := True\<rparr>, p\<lparr>sp_busy := False\<rparr>, d')
           | (Inr r, d') \<Rightarrow>
               let b' = b\<lparr>sb_next := Suc (sb_next b)\<rparr>
               in if sb_next b' = length (sb_ids b)
                  then (Inr r, b'\<lparr>sb_closed := True\<rparr>, p\<lparr>sp_busy := False\<rparr>, d')
                  else (Inr r, b', p, d'))"

section \<open>Resuming\<close>

text \<open>The claim of a slot that was reconciled but not completed is still the one of its fence.\<close>

definition claim_owned :: "DirtyScopeWork \<Rightarrow> ScopedFetchFence \<Rightarrow> bool" where
  "claim_owned w f \<longleftrightarrow>
     wk_WorkState w = WorkInFlight \<and> wk_ClaimedSignalSeq w = Some (fe_ClaimedSequence f) \<and>
     wk_AttemptCount w = fe_Attempt f \<and> wk_LastAttemptStartedAt w = Some (fe_AttemptStartedAt f)"

text \<open>Each slot is read in its own state of the database; the answer is the number of finished slots.\<close>

fun resume_loop ::
  "(nat \<Rightarrow> scan_env) \<Rightarrow> (nat \<Rightarrow> db) \<Rightarrow> uuid \<Rightarrow> nat \<Rightarrow> uuid list \<Rightarrow> scan_error + nat" where
  "resume_loop svs states rid i [] = Inr i"
| "resume_loop svs states rid i (sid # sids) =
     (let sv = svs i; d = states i
      in case read_call (sv_fault sv AtSnapshot) (GetSnapshot d sid) of
           Inl c \<Rightarrow> Inl (plain_error c)
         | Inr row \<Rightarrow>
             if sn_RootID row \<noteq> rid then Inl untyped_error
             else if sn_LifecycleState row \<noteq> SnapshotReconciled then Inr i
             else if sn_Provenance row = OpaqueProvenance then Inl untyped_error
             else (case decoded_fence (sn_Provenance row) of
                     None \<Rightarrow> Inl untyped_error
                   | Some f \<Rightarrow>
                       (case read_call (sv_fault sv AtWork) (GetWork d rid (fe_ScopeKey f)) of
                          Inl c \<Rightarrow> Inl (plain_error c)
                        | Inr w \<Rightarrow>
                            if (case wk_LastVerifiedSignalSeq w of None \<Rightarrow> True | Some q \<Rightarrow> q < fe_ClaimedSequence f)
                            then (if claim_owned w f then Inr i
                                  else Inl (plain_error (StoreErr ErrScopedFetchStale)))
                            else resume_loop svs states rid (Suc i) sids)))"

definition ResumeBatch ::
  "(nat \<Rightarrow> scan_env) \<Rightarrow> scan_env \<Rightarrow> (nat \<Rightarrow> db) \<Rightarrow> uuid \<Rightarrow> SameRootPrototype \<Rightarrow> db
     \<Rightarrow> (scan_error + sameRootBatch) \<times> SameRootPrototype" where
  "ResumeBatch svs sv states checkpoint p d =
     (if sp_busy p then (Inl untyped_error, p)
      else case read_call (sv_fault sv AtSnapshot) (GetSnapshot d checkpoint) of
             Inl c \<Rightarrow> (Inl (plain_error c), p)
           | Inr snap \<Rightarrow>
               (case fence_member (sn_Provenance snap) of
                  Decoded f \<Rightarrow>
                    (case fe_Lineage f of
                       None \<Rightarrow> (Inl untyped_error, p)
                     | Some l \<Rightarrow>
                         if fe_Version f \<noteq> 2 \<or> ln_Rank l \<noteq> 0 \<or> length (ln_Snapshots l) < 1 \<or>
                            length (ln_Snapshots l) > 8 \<or> hd (ln_Snapshots l) \<noteq> checkpoint
                         then (Inl untyped_error, p)
                         else (case resume_loop svs states (sn_RootID snap) 0 (ln_Snapshots l) of
                                 Inl e \<Rightarrow> (Inl e, p)
                               | Inr n \<Rightarrow>
                                   (Inr \<lparr>sb_root = sn_RootID snap, sb_ids = ln_Snapshots l, sb_next = n,
                                         sb_closed = False\<rparr>, p\<lparr>sp_busy := True\<rparr>)))
                | _ \<Rightarrow> (Inl untyped_error, p)))"

end
