(* ===== verification/ScanProps.thy ===== *)
theory ScanProps
  imports ExecProps Batch
begin

text \<open>
  The scan service against the work queue: whatever a scan commits, it leaves the queue, the watches and the
  set of roots as they are, so that the claim under which it runs is neither lost nor completed by it.
\<close>

section \<open>Operations beside the queue\<close>

definition queue_view :: "db \<Rightarrow> DirtyScopeWork list \<times> ScopeWatchState list \<times> uuid list" where
  "queue_view d = (db_works d, db_watches d, map root_RootID (db_roots d))"

lemma find_root_known: "find_root d rid = None \<longleftrightarrow> rid \<notin> set (map root_RootID (db_roots d))"
proof -
  have "List.find (root_key rid) xs = None \<longleftrightarrow> rid \<notin> set (map root_RootID xs)" for xs
    by (induction xs) (auto simp: root_key_def)
  then show ?thesis by (simp add: find_root_def)
qed

lemma queue_view_ledger:
  assumes "ledger d' = ledger d"
  shows "queue_view d' = queue_view d"
  using ledger_fields [OF assms] by (simp add: queue_view_def)

lemma queue_view_update [simp]:
  "queue_view (d\<lparr>db_generations := gs\<rparr>) = queue_view d"
  "queue_view (d\<lparr>db_resources := rs\<rparr>) = queue_view d"
  "queue_view (d\<lparr>db_observations := obs\<rparr>) = queue_view d"
  "queue_view (d\<lparr>db_snapshots := ss\<rparr>) = queue_view d"
  "queue_view (d\<lparr>db_entries := es\<rparr>) = queue_view d"
  "queue_view (d\<lparr>db_admissions := as\<rparr>) = queue_view d"
  "queue_view (d\<lparr>db_applied := hs\<rparr>) = queue_view d"
  "queue_view (d\<lparr>db_journal := js\<rparr>) = queue_view d"
  "queue_view (d\<lparr>db_results := rrs\<rparr>) = queue_view d"
  by (simp_all add: queue_view_def)

lemma queue_view_update_root [simp]:
  assumes "\<And>r. root_RootID (f r) = root_RootID r"
  shows "queue_view (update_root rid f d) = queue_view d"
  using assms by (simp add: queue_view_def update_root_def comp_def if_distrib cong: if_cong)

lemma queue_view_snapshot [simp]: "queue_view (update_snapshot sid f d) = queue_view d"
  by (simp add: update_snapshot_def)

lemma queue_view_evaluated [simp]: "queue_view (evaluated sid acc cor d) = queue_view d"
  by (simp add: evaluated_def)

definition quietly :: "db \<Rightarrow> db \<Rightarrow> bool" where
  "quietly d d' \<longleftrightarrow> (healthy d \<longrightarrow> healthy d' \<and> marks d' = marks d)"

lemma quietly_refl [simp]: "quietly d d"
  by (simp add: quietly_def)

lemma quietly_trans: "quietly d1 d2 \<Longrightarrow> quietly d2 d3 \<Longrightarrow> quietly d1 d3"
  by (simp add: quietly_def)

lemma calm_quietly: "calm g \<longleftrightarrow> (\<forall>d. quietly d (g d))"
  by (simp add: calm_def quietly_def)

lemma quietly_view: "queue_view d' = queue_view d \<Longrightarrow> quietly d d'"
  by (auto simp: quietly_def healthy_def queue_view_def state_ok_def find_root_known intro: marks_cong)

section \<open>The transactions of a scan\<close>

lemma finish_view: "queue_view (finish rid seq sid st ap lc oc rs g d) = queue_view d"
  by (simp add: finish_defs)

lemma refusal_view: "refusal rid seq sid g d out d' \<Longrightarrow> queue_view d' = queue_view d"
  by (auto simp: refusal_def finish_view)

lemma reconciled_view: "reconciled ev cfg rid seq snap g coverage d res d2 out d' \<Longrightarrow> queue_view d' = queue_view d"
proof (elim reconciled_ledger)
  fix acc cor ident
  let ?e = "evaluated (sn_SnapshotID snap) acc cor d"
  assume l: "ledger d2 = ledger (advanced (MutatesCanonical res) rid seq (sn_SnapshotID snap) g ?e)"
    and d': "d' = committed rid seq (sn_SnapshotID snap) g ident res ?e d2"
  have "queue_view d' = queue_view d2" by (simp add: d' committed_def finish_view Let_def)
  also have "\<dots> = queue_view ?e"
    using queue_view_ledger [OF l] by (simp add: advanced_def bump_def)
  finally show "queue_view d' = queue_view d" by simp
qed

lemma reconcile_view:
  assumes "reconcileHeadSafe ev cfg rid seq sid d = Inr (out, d')"
  shows "queue_view d' = queue_view d"
  using assms
proof (cases rule: reconcileHeadSafe_cases)
  case (head rt snap)
  from head(3) show ?thesis
  proof (cases rule: process_head_snapshot_cases)
    case (processed coverage)
    from processed(4) show ?thesis
      by (cases rule: process_evaluated_cases) (auto dest: refusal_view reconciled_view)
  qed (rule refusal_view)
qed simp

lemma allocate_view: "AllocateAdmission rid sid d = Inr (seq, d') \<Longrightarrow> queue_view d' = queue_view d"
  by (auto simp: AllocateAdmission_def insert_admission_def Let_def split: if_splits option.splits)

lemma admit_view: "admitOrResumeSnapshot ev th rid sid d = Inr (seq, old, d') \<Longrightarrow> queue_view d' = queue_view d"
  by (auto simp: admitOrResumeSnapshot_def split: if_splits option.splits dest: allocate_view)

lemma submit_view: "SubmitAndAdmitSnapshot ev rid sid d = Inr (seq, d') \<Longrightarrow> queue_view d' = queue_view d"
  by (auto simp: SubmitAndAdmitSnapshot_def MarkSnapshotSubmitted_def split: if_splits option.splits
      dest!: allocate_view)

lemma insert_draft_aside: "insert_draft snap entries d = Inr d' \<Longrightarrow> queue_view d' = queue_view d"
proof -
  assume "insert_draft snap entries d = Inr d'"
  then obtain d1 where d1: "InsertSnapshotStub snap d = Inr d1"
      "fold_err (\<lambda>e. InsertSnapshotEntry (e\<lparr>se_SnapshotID := sn_SnapshotID snap\<rparr>)) entries d1 = Inr d'"
    by (auto simp: insert_draft_def)
  have "queue_view d' = queue_view d1"
    by (rule fold_err_invariant [OF d1(2)]) (auto simp: InsertSnapshotEntry_def split: if_splits)
  then show ?thesis using d1(1) by (auto simp: InsertSnapshotStub_def split: if_splits)
qed

lemma freeze_loop_aside:
  "freeze_loop ev rt revision roster ff i earlier inputs d = Inr d' \<Longrightarrow> queue_view d' = queue_view d"
  by (induction inputs arbitrary: ff i earlier d)
     (auto simp: Let_def split: if_splits option.splits dest!: insert_draft_aside)

lemma freeze_aside: "FreezeScopedReadBatch ev inputs d = Inr d' \<Longrightarrow> queue_view d' = queue_view d"
  by (auto simp: FreezeScopedReadBatch_def Let_def split: if_splits option.splits dest!: freeze_loop_aside)

section \<open>The steps of a scan\<close>

text \<open>Other sessions are calm at every place.\<close>

definition calm_scan :: "scan_env \<Rightarrow> bool" where
  "calm_scan sv \<longleftrightarrow> (\<forall>p. calm (sv_others sv p)) \<and> (\<forall>p n k. calm (sv_between sv p n k))"

lemma calm_others: "calm_scan sv \<Longrightarrow> quietly d (sv_others sv p d)"
  by (simp add: calm_scan_def calm_quietly)

lemma quiet_call:
  assumes "store_call f tx d = (r, d')" and "quietly d (snd (tx d))"
  shows "quietly d d'"
  using assms by (auto simp: store_call_def split: fault.splits if_splits)

lemma quiet_whole:
  assumes "\<And>r d'. tx d = Inr (r, d') \<Longrightarrow> queue_view d' = queue_view d"
  shows "quietly d (snd (whole tx d))"
  using assms by (auto simp: whole_def intro: quietly_view split: sum.splits)

lemma ProcessHead_quiet_beside:
  assumes "\<And>k. calm (between k)"
  shows "quietly d (snd (ProcessHead ev cfg between rid d))"
proof -
  have b: "quietly d (between k d)" for k d using assms by (simp add: calm_quietly)
  have r: "reconcileHeadSafe ev cfg rid seq sid d1 = Inr (out, d2) \<Longrightarrow> quietly d1 d2" for seq sid d1 out d2
    by (rule quietly_view) (rule reconcile_view)
  show ?thesis
    using b [of d 0] b [of "between 0 d" 1] r
    by (auto simp: ProcessHead_def Let_def intro: quietly_trans
        split: sum.splits option.splits store_error.splits bool.splits prod.splits)
qed

lemma ProcessSnapshot_quiet:
  assumes "\<And>k. calm (between k)"
  shows "quietly d (snd (ProcessSnapshot ev cfg between rid sid d))"
proof -
  have b: "quietly d (between k d)" for k d using assms by (simp add: calm_quietly)
  have r: "reconcileHeadSafe e cfg rid seq sid d1 = Inr (out, d2) \<Longrightarrow> quietly d1 d2" for e seq d1 out d2
    by (rule quietly_view) (rule reconcile_view)
  have a: "admitOrResumeSnapshot ev True rid sid d = Inr (seq, old, d1) \<Longrightarrow> quietly d d1" for seq old d1
    by (rule quietly_view) (rule admit_view)
  show ?thesis
    using b r a
    by (auto simp: ProcessSnapshot_def Let_def intro!: quietly_trans [OF quietly_trans [OF a b] r] quietly_trans [OF a b]
        split: sum.splits prod.splits)
qed

lemma Resolve_quiet: "quietly d (snd (ResolveUnadmittedSubmittedForRoot ev rid d))"
  by (auto simp: ResolveUnadmittedSubmittedForRoot_def AdmitOrResumeSnapshot_def
      split: list.splits sum.splits prod.splits intro!: quietly_view dest: admit_view)

lemma drainHead_quiet:
  assumes "calm_scan sv"
  shows "drainHead n sv p cfg rid d = Some (r, d') \<Longrightarrow> quietly d d'"
proof (induction n arbitrary: d)
  case (Suc n)
  let ?tx = "ProcessHead (sv_env sv p n) (cfg\<lparr>NewID := sv_ids sv p n\<rparr>) (sv_between sv p n) rid"
  obtain a d1 where call: "store_call (sv_drainFault sv p n) ?tx d = (a, d1)" by fastforce
  have "quietly d d1"
    by (rule quiet_call [OF call]) (use assms in \<open>auto simp: calm_scan_def intro!: ProcessHead_quiet_beside\<close>)
  then show ?case
    using Suc.prems Suc.IH [of d1] call by (auto split: sum.splits option.splits if_splits intro: quietly_trans)
qed simp

lemma process_once_quiet:
  assumes "calm_scan sv" and "process_once sv p cfg rid sid d = (r, d')"
  shows "quietly d d'"
proof -
  have "quietly (sv_others sv p d) d'"
    using assms(2) unfolding process_once_def
    by (rule quiet_call) (use assms(1) in \<open>auto simp: calm_scan_def intro!: ProcessSnapshot_quiet\<close>)
  then show ?thesis using calm_others [OF assms(1)] quietly_trans by blast
qed

lemma process_own_quiet:
  assumes "calm_scan sv" and "process_own fuel sv cfg rid sid d = Some (r, d')"
  shows "quietly d d'"
proof -
  obtain c d1 where first: "process_once sv AtProcess cfg rid sid d = (c, d1)" by fastforce
  note q = process_once_quiet [OF assms(1) first]
  show ?thesis
  proof (cases "c = Inl (StoreErr ErrNotHead)")
    case True
    then obtain e d2 where drained: "drainHead fuel sv AtDrainAgain cfg rid d1 = Some (e, d2)"
        "d' = d2 \<or> process_once sv AtRetry cfg rid sid d2 = (r, d')"
      using assms(2) first by (auto simp: process_own_def split: option.splits)
    have "quietly d d2" using quietly_trans [OF q drainHead_quiet [OF assms(1) drained(1)]] .
    then show ?thesis using drained(2) process_once_quiet [OF assms(1)] quietly_trans by blast
  next
    case False
    then have "d' = d1" using assms(2) first by (auto simp: process_own_def split: sum.splits if_splits)
    then show ?thesis using q by simp
  qed
qed

text \<open>A call with the sessions before it.\<close>

lemma placed_call:
  assumes "calm_scan sv" and "store_call f tx (sv_others sv p d) = (r, d')" and "\<And>d. quietly d (snd (tx d))"
  shows "quietly d d'"
  using quietly_trans [OF calm_others [OF assms(1)] quiet_call [OF assms(2,3)]] .

lemma draft_quiet: "quietly d (snd (whole (\<lambda>d. map_sum id (Pair ()) (CreateDraftSnapshot snap st es d)) d))"
  by (rule quiet_whole) (auto simp: CreateDraftSnapshot_def map_sum_Inr split: if_splits dest: insert_draft_aside)

lemma submit_quiet: "quietly d (snd (whole (SubmitAndAdmitSnapshot ev rid sid) d))"
  by (rule quiet_whole) (rule submit_view)

lemma freeze_quiet: "quietly d (snd (whole (\<lambda>d. map_sum id (Pair ()) (FreezeScopedReadBatch ev inputs d)) d))"
  by (rule quiet_whole) (auto simp: map_sum_Inr dest: freeze_aside)

lemma commit_draft_quiet:
  assumes calm: "calm_scan sv" and "commit_draft fuel sv cfg snap entries d = Some (r, d')"
  shows "quietly d d'"
proof -
  obtain a d1 where resolve: "store_call (sv_fault sv AtResolve)
      (ResolveUnadmittedSubmittedForRoot (sv_env sv AtResolve 0) (sn_RootID snap)) (sv_others sv AtResolve d) = (a, d1)"
    by fastforce
  have q1: "quietly d d1" by (rule placed_call [OF calm resolve Resolve_quiet])
  show ?thesis
  proof (cases "\<exists>n. a = Inr (n, False)")
    case False
    then show ?thesis using assms(2) resolve q1 by (auto simp: commit_draft_def Let_def split: sum.splits prod.splits if_splits)
  next
    case True
    then obtain e d2 where drain: "drainHead fuel sv AtDrain cfg (sn_RootID snap) d1 = Some (e, d2)"
      using assms(2) resolve by (auto simp: commit_draft_def Let_def split: option.splits)
    have q2: "quietly d d2" by (rule quietly_trans [OF q1 drainHead_quiet [OF calm drain]])
    obtain b d3 where draft: "store_call (sv_fault sv AtDraft)
        (whole (\<lambda>d. map_sum id (Pair ()) (CreateDraftSnapshot snap (Some SnapshotDraft) entries d)))
        (sv_others sv AtDraft d2) = (b, d3)"
      by fastforce
    have q3: "quietly d d3" by (rule quietly_trans [OF q2 placed_call [OF calm draft draft_quiet]])
    obtain c d4 where submit: "store_call (sv_fault sv AtSubmit)
        (whole (SubmitAndAdmitSnapshot (sv_env sv AtSubmit 0) (sn_RootID snap) (sn_SnapshotID snap)))
        (sv_others sv AtSubmit d3) = (c, d4)"
      by fastforce
    have q4: "quietly d d4" by (rule quietly_trans [OF q3 placed_call [OF calm submit submit_quiet]])
    have "d' \<in> {d2, d3, d4} \<or> (\<exists>r. process_own fuel sv cfg (sn_RootID snap) (sn_SnapshotID snap) d4 = Some (r, d'))"
      using assms(2) resolve True drain draft submit
      by (auto simp: commit_draft_def Let_def split: option.splits sum.splits)
    then show ?thesis using q2 q3 q4 process_own_quiet [OF calm] quietly_trans by blast
  qed
qed

lemma commitScope_quiet:
  assumes "calm_scan sv" and "commitScope fuel sv obs fence d = Some (r, d')"
  shows "quietly d d'"
proof -
  let ?d1 = "sv_others sv AtPolicy d"
  have q: "quietly d ?d1" by (rule calm_others [OF assms(1)])
  have "d' = d \<or> d' = ?d1 \<or> (\<exists>cfg a d2. commit_draft fuel sv cfg (scope_snapshot sv obs fence) (toEntries (obs_raw obs)) ?d1
      = Some (a, d2) \<and> (d' = d2 \<or> d' = sv_others sv AtLifecycle d2))"
    using assms(2)
    by (clarsimp simp: commitScope_def Let_def split: option.splits sum.splits if_splits; blast)
  then show ?thesis
    using q commit_draft_quiet [OF assms(1)] calm_others [OF assms(1)] quietly_trans quietly_refl by metis
qed

lemma scope_request_quiet:
  assumes "calm_scan sv" and "scope_request sv rid scope n d = (r, d')"
  shows "quietly d d'"
proof -
  note o = calm_others [OF assms(1)]
  let ?d1 = "sv_others sv AtRoot d"
  let ?d2 = "sv_others sv AtAdapter ?d1"
  have q: "quietly d ?d1" "quietly d ?d2" "quietly d (sv_others sv AtParent ?d2)"
    using o quietly_trans by blast+
  have "d' = ?d1 \<or> d' = ?d2 \<or> d' = sv_others sv AtParent ?d2"
    using assms(2) by (auto simp: scope_request_def Let_def split: sum.splits option.splits if_splits)
  then show ?thesis using q by auto
qed

lemma readScope_quiet:
  assumes "calm_scan sv" and "readScope sv rid scope n budget d = (r, budget', d')"
  shows "quietly d d'"
  using assms(2) scope_request_quiet [OF assms(1)]
  by (auto simp: readScope_def split: option.splits sum.splits prod.splits)

lemma FetchScope_quiet:
  assumes "calm_scan sv" and "FetchScope sv w n p budget d = (r, p', budget', d')"
  shows "quietly d d'"
proof -
  have "d' = d \<or> d' = sv_others sv AtWork d \<or>
      (\<exists>a b. readScope sv (wk_RootID w) (wk_ScopeKey w) n budget (sv_others sv AtWork d) = (a, b, d'))"
    using assms(2) by (auto simp: FetchScope_def Let_def split: option.splits sum.splits if_splits prod.splits)
  then show ?thesis
    using calm_others [OF assms(1)] readScope_quiet [OF assms(1)] quietly_trans quietly_refl by metis
qed

text \<open>A claimed scan leaves every mark of the queue as it is.\<close>

lemma ScanClaimedScope_quiet:
  assumes "calm_scan sv" and "ScanClaimedScope fuel sv timeout w n budget d = Some (r, budget', d')"
  shows "quietly d d'"
proof (cases "NewFetchPrototype timeout 1")
  case None
  then show ?thesis using assms(2) by (simp add: ScanClaimedScope_def)
next
  case (Some p)
  obtain f p1 b1 d1 where fetch: "FetchScope sv w n p budget d = (f, p1, b1, d1)" by (metis prod_cases4)
  have q: "quietly d d1" by (rule FetchScope_quiet [OF assms(1) fetch])
  have "d' = d1 \<or> (\<exists>obs fence a. commitScope fuel sv obs fence d1 = Some (a, d'))"
    using assms(2) Some fetch
    by (cases f) (auto simp: ScanClaimedScope_def CommitFetchedScope_def Let_def split: if_splits)
  then show ?thesis using q commitScope_quiet [OF assms(1)] quietly_trans by blast
qed

section \<open>Batches\<close>

definition calm_batch :: "batch_env \<Rightarrow> bool" where
  "calm_batch be \<longleftrightarrow> calm_scan (be_call be) \<and> (\<forall>i. calm_scan (be_job be i))"

lemma check_claims_quiet:
  assumes "calm_batch be"
  shows "check_claims be i prev cs d = (r, d') \<Longrightarrow> quietly d d'"
proof (induction cs arbitrary: i prev d)
  case (Cons c cs)
  have q: "quietly d (sv_others (be_job be i) AtWork d)" using assms calm_others by (auto simp: calm_batch_def)
  show ?case
    using Cons.prems Cons.IH [THEN quietly_trans [OF q]] q by (auto simp: Let_def split: if_splits sum.splits)
qed simp

lemma read_all_quiet:
  assumes "calm_batch be"
  shows "read_all be i cs budget d = (rs, budget', d') \<Longrightarrow> quietly d d'"
proof (induction cs arbitrary: i budget d rs budget' d')
  case (Cons c cs)
  let ?sv = "be_job be i"
  obtain r b1 d1 where job: "(case sv_ctx ?sv OnFetch of
      Some e \<Rightarrow> (Inl (plain_error (CtxErr e)), budget, d)
    | None \<Rightarrow> readScope ?sv (wk_RootID c) (wk_ScopeKey c) 1000 budget d) = (r, b1, d1)"
    by (metis prod_cases3)
  obtain rs' b2 d2 where rest: "read_all be (Suc i) cs b1 d1 = (rs', b2, d2)" by (metis prod_cases3)
  have "quietly d d1"
    using job assms readScope_quiet [of ?sv] by (auto simp: calm_batch_def split: option.splits)
  moreover have "d' = d2" using Cons.prems job rest by (simp add: Let_def)
  ultimately show ?case using Cons.IH [OF rest] quietly_trans by blast
qed simp

lemma FetchBatch_quiet:
  assumes calm: "calm_batch be" and "FetchBatch be claims p budget d = (r, p', budget', d')"
  shows "quietly d d'"
proof -
  let ?cs = "sort_by claim_before claims" and ?sv = "be_call be"
  obtain e d1 where check: "check_claims be 0 None ?cs d = (e, d1)" by fastforce
  obtain rs b2 d2 where reads: "read_all be 0 ?cs budget d1 = (rs, b2, d2)" by (metis prod_cases3)
  obtain f d3 where freeze: "freeze_reads be ?cs (observations rs) d2 = (f, d3)" by fastforce
  have q1: "quietly d d1" by (rule check_claims_quiet [OF calm check])
  have q2: "quietly d d2" by (rule quietly_trans [OF q1 read_all_quiet [OF calm reads]])
  have "quietly d2 d3"
    using freeze placed_call [of ?sv "sv_fault ?sv AtFreeze" _ AtFreeze, OF _ _ freeze_quiet] calm
    by (auto simp: freeze_reads_def Let_def calm_batch_def split: sum.splits prod.splits)
  then have q3: "quietly d d3" by (rule quietly_trans [OF q2])
  have "d' \<in> {d, d1, d2, d3}"
    using assms(2) check reads freeze
    by (auto simp: FetchBatch_def Let_def split: if_splits option.splits list.splits sum.splits prod.splits)
  then show ?thesis using q1 q2 q3 by auto
qed

lemma commit_slot_quiet:
  assumes calm: "calm_scan sv" and "commit_slot sv rid sid d = (r, d')"
  shows "quietly d d'"
proof -
  note o = calm_others [OF calm]
  let ?d1 = "sv_others sv AtSnapshot d"
  let ?d2 = "sv_others sv AtPolicy ?d1"
  have q: "quietly d ?d1" "quietly d ?d2" using o quietly_trans by blast+
  have submit: "quietly d3 d4" if "submit_slot sv rid snap d3 = (a, d4)" for snap d3 a d4
    using that placed_call [OF calm _ submit_quiet] by (auto simp: submit_slot_def split: if_splits prod.splits)
  have result: "quietly d3 d4" if "slot_result sv snap out d3 = (a, d4)" for snap out d3 a d4
    using that o by (auto simp: slot_result_def Let_def split: if_splits option.splits sum.splits)
  have "d' \<in> {d, ?d1, ?d2} \<or> (\<exists>snap a d3. submit_slot sv rid snap ?d2 = (a, d3) \<and>
      (d' = d3 \<or> (\<exists>cfg b d4. process_once sv AtProcess cfg rid sid d3 = (b, d4) \<and>
        (d' = d4 \<or> (\<exists>out x. slot_result sv snap out d4 = (x, d'))))))"
    using assms(2)
    by (clarsimp simp: commit_slot_def Let_def split: option.splits sum.splits prod.splits; blast)
  then show ?thesis
    using q submit result process_once_quiet [OF calm]
    by (elim disjE exE conjE) (auto, (meson quietly_trans)+)
qed

lemma Commit_quiet:
  assumes "calm_scan sv" and "Commit sv p b rank d = (r, b', p', d')"
  shows "quietly d d'"
  using assms(2) commit_slot_quiet [OF assms(1)]
  by (auto simp: Commit_def Let_def split: if_splits sum.splits prod.splits)

end
