(* ===== verification/ScanSafety.thy ===== *)
theory ScanSafety
  imports ScanProps Pipeline
begin

text \<open>
  What the scans of the program can do to the inventory, and what an observation looks like. The evidence of
  every collector leaves the skipped scopes unknown, so no snapshot that the program drafts is ever accepted
  as COMPLETE; only a scoped observation of a mirror root, read under an unchanged topology, has the
  authority to remove anything.
\<close>

section \<open>The inventory under a plan\<close>

lemma find_resource_update:
  "find_resource (d\<lparr>db_resources := map (\<lambda>r. if ResourceID r = y then f r else r) (db_resources d)\<rparr>) x
     = map_option (\<lambda>r. if x = y then f r else r) (find_resource d x)" if "\<And>r. ResourceID (f r) = ResourceID r"
proof -
  have "List.find (\<lambda>r. ResourceID r = x) (map (\<lambda>r. if ResourceID r = y then f r else r) rs)
    = map_option (\<lambda>r. if x = y then f r else r) (List.find (\<lambda>r. ResourceID r = x) rs)" for rs
    by (induction rs) (auto simp: that)
  then show ?thesis by (simp add: find_resource_def)
qed

text \<open>The row of a resource stays; under the condition \<open>b\<close> its presence stays too.\<close>

definition kept :: "bool \<Rightarrow> uuid \<Rightarrow> db \<Rightarrow> db \<Rightarrow> bool" where
  "kept b x d d' \<longleftrightarrow> (\<forall>r. find_resource d x = Some r \<longrightarrow>
     (\<exists>r'. find_resource d' x = Some r' \<and> (b \<longrightarrow> Presence r' = Presence r)))"

lemma kept_refl [simp]: "kept b x d d"
  by (simp add: kept_def)

lemma kept_trans: "kept b x d1 d2 \<Longrightarrow> kept b x d2 d3 \<Longrightarrow> kept b x d1 d3"
  unfolding kept_def by metis

lemma kept_resources: "db_resources d' = db_resources d \<Longrightarrow> kept b x d d'"
  by (simp add: kept_def find_resource_def)

lemma update_kept:
  assumes "update_resource y f d = Inr d'" and "\<And>r. ResourceID (f r) = ResourceID r"
    and "\<And>r. b \<Longrightarrow> x = y \<Longrightarrow> Presence (f r) = Presence r"
  shows "kept b x d d'"
  using assms(1,3) find_resource_update [OF assms(2)]
  by (auto simp: update_resource_def kept_def split: if_splits)

lemma insert_kept: "InsertCanonicalResource r d = Inr d' \<Longrightarrow> kept b x d d'"
proof -
  have "List.find P rs = Some a \<Longrightarrow> List.find P (rs @ [b]) = Some a" for P and rs :: "CanonicalResource list" and a b
    by (induction rs) (auto split: if_splits)
  then show "InsertCanonicalResource r d = Inr d' \<Longrightarrow> kept b x d d'"
    by (auto simp: InsertCanonicalResource_def kept_def find_resource_def split: if_splits)
qed

lemma transition_kept:
  assumes "applyTransition rid g tr d = Inr d'" and "b \<Longrightarrow> \<not> (tr_Kind tr = KindConfirmRemoved \<and> tr_ResourceID tr = x)"
  shows "kept b x d d'"
proof (cases "tr_Kind tr")
  case KindAdd
  then show ?thesis using assms(1) by (auto simp: applyTransition_def intro: insert_kept)
next
  case KindUpdate
  then show ?thesis
    using assms(1)
    by (auto simp: applyTransition_def UpdateResourceAttributes_def intro: update_kept split: option.splits)
next
  case KindConfirmRemoved
  then obtain d1 where "set_evidence RemovalEvidenceCandidate tr d = Inr d1" "ConfirmRemoval (tr_ResourceID tr) g d1 = Inr d'"
    using assms(1) by (auto simp: applyTransition_def and_then_def split: sum.splits)
  then have "kept b x d d1" "kept b x d1 d'"
    using KindConfirmRemoved assms(2)
    by (auto simp: set_evidence_def SetRemovalEvidence_def ConfirmRemoval_def intro: update_kept)
  then show ?thesis by (rule kept_trans)
qed (use assms(1) in \<open>auto simp: applyTransition_def apply_path_def set_evidence_def SetRemovalEvidence_def
      ResetRemovalEvidence_def UpdateResourcePath_def intro: update_kept split: option.splits\<close>)

lemma observation_kept: "AppendObservation sid y e tm d = Inr d' \<Longrightarrow> kept b x d d'"
  by (rule kept_resources) (auto simp: AppendObservation_def InsertIdentityEvidence_def split: if_splits)

lemma apply_result_kept:
  assumes "apply_result rid sid tm res g d = Inr d'"
    and "b \<Longrightarrow> \<forall>t\<in>set (Transitions res). \<not> (tr_Kind t = KindConfirmRemoved \<and> tr_ResourceID t = x)"
  shows "kept b x d d'"
proof -
  from assms(1) obtain d1 where d1: "fold_err (applyTransition rid g) (Transitions res) d = Inr d1"
    "fold_err (\<lambda>ob. AppendObservation sid (obs_ResourceID ob) (obs_Entry ob) tm) (Observations res) d1 = Inr d'"
    by (auto simp: apply_result_def and_then_def split: sum.splits)
  have "kept b x d d1"
  proof (rule fold_err_invariant [OF d1(1)])
    fix t s s'
    assume t: "t \<in> set (Transitions res)" and step: "applyTransition rid g t s = Inr s'" and "kept b x d s"
    moreover have "kept b x s s'" by (rule transition_kept [OF step]) (use assms(2) t in blast)
    ultimately show "kept b x d s'" using kept_trans by blast
  qed simp
  moreover have "kept b x d1 d'"
    by (rule fold_err_invariant [OF d1(2)]) (auto intro: kept_trans observation_kept)
  ultimately show ?thesis by (rule kept_trans)
qed

lemma finish_resources: "db_resources (finish rid seq sid st ap lc oc rs g d) = db_resources d"
  by (simp add: finish_def insertResult_def SetSnapshotLifecycleState_def SetAdmissionStatus_def
      update_snapshot_def update_admission_def)

lemma advanced_resources: "db_resources (advanced m rid seq sid g d) = db_resources d"
  by (simp add: advanced_def update_root_def)

section \<open>What the program drafts\<close>

text \<open>The snapshots that the scans draft, with the scoped observation they rest on.\<close>

inductive drafted :: "Snapshot \<Rightarrow> scopeObservation option \<Rightarrow> bool" where
  full: "collector_scan fuel sv kind ac = Some (Inr raw) \<Longrightarrow> drafted (full_snapshot sv rid raw) None"
| scoped: "readScope sv rid scope maxEntries budget d = (Inr obs, budget', d') \<Longrightarrow>
    drafted (scope_snapshot sv obs fence) (Some obs)"
| frozen: "readScope sv rid scope maxEntries budget d = (Inr obs, budget', d') \<Longrightarrow>
    drafted (fi_Snapshot (frozen_input ids i c obs)) (Some obs)"

text \<open>The evidence of a draft that its row keeps through submission, evaluation and reconcile.\<close>

definition carries :: "Snapshot \<Rightarrow> Snapshot \<Rightarrow> bool" where
  "carries row draft \<longleftrightarrow>
     sn_SkippedScopesKnownEmpty row = sn_SkippedScopesKnownEmpty draft \<and>
     coverage_member (sn_Provenance row) = coverage_member (sn_Provenance draft)"

lemma Scan_alist_uncertain: "Scan_alist fuel pages a src sub = Some raw \<Longrightarrow> \<not> raw_SkippedKnownEmpty raw"
proof -
  assume scan: "Scan_alist fuel pages a src sub = Some raw"
  let ?finish = "case_sum failScan (\<lambda>es. (failScan [])\<lparr>raw_Entries := es,
      raw_TraversalStatus := TraversalSuccess, raw_ErrorSummary := None\<rparr>)"
  have "\<not> raw_SkippedKnownEmpty (?finish r)" for r by (cases r) (simp_all add: failScan_def)
  moreover have "(\<exists>e. raw = failScan e) \<or> (\<exists>r. raw = ?finish r)"
    using scan unfolding Scan_alist_def
    by (cases "if ad_Token a = [] \<and> ad_Username a \<noteq> []
          then login (ad_BaseURL a) (so_login src (ad_Username a) (ad_Password a)) else Inr (ad_Token a)")
       (simp only: sum.case map_option_eq_Some option.inject, blast)+
  ultimately show ?thesis by (auto simp: failScan_def)
qed

lemma Scan_rclone_uncertain: "\<not> raw_SkippedKnownEmpty (Scan_rclone run bin remote conf vis sub)"
  unfolding Scan_rclone_def NormalizeWithAssurance_def Let_def by (simp split: sum.split)

lemma collector_uncertain: "collector_scan fuel sv kind ac = Some (Inr raw) \<Longrightarrow> \<not> raw_SkippedKnownEmpty raw"
  by (auto simp: collector_scan_def Scan_rclone_uncertain dest: Scan_alist_uncertain split: if_splits)

lemma ScanScope_alist_uncertain: "ScanScope_alist parse a src scope n = Inr raw \<Longrightarrow> \<not> raw_SkippedKnownEmpty raw"
  by (auto simp: ScanScope_alist_def and_then_def Let_def split: if_splits sum.splits prod.splits)

lemma observe_raw:
  assumes "observe sv rid ac target n budget = (Inr raw, budget')"
  shows "ScanScope_alist (sv_parse sv) (scoped_adapter (sv_getenv sv) ac) (sv_source sv) target n = Inr raw"
  using assms
  by (auto simp: Scan.observe_def Let_def split: if_splits sum.splits option.splits prod.splits)

lemma readScope_observed:
  assumes "readScope sv rid scope n budget d = (Inr obs, budget', d')"
  shows "ScanScope_alist (sv_parse sv) (scoped_adapter (sv_getenv sv) (obs_config obs)) (sv_source sv) (obs_target obs) n
    = Inr (obs_raw obs)"
  using assms observe_raw
  by (auto simp: readScope_def split: option.splits sum.splits prod.splits)

lemma drafted_uncertain: "drafted draft seen \<Longrightarrow> \<not> sn_SkippedScopesKnownEmpty draft"
  by (induction rule: drafted.induct)
     (auto simp: full_snapshot_def scope_snapshot_def frozen_input_def scan_draft_def collector_uncertain
       dest: readScope_observed ScanScope_alist_uncertain)

lemma drafted_coverage:
  assumes "drafted draft seen" and "coverage_member (sn_Provenance draft) = Decoded c"
  obtains obs where "seen = Some obs" "ak_MirrorPresence (obs_config obs)"
    "raw_DirectoryTopologyDigest (obs_raw obs) \<noteq> []" "dc_Path c = obs_target obs"
  using assms
  by (induction rule: drafted.induct)
     (auto simp: full_snapshot_def scope_snapshot_def frozen_input_def scan_draft_def scope_coverage_def
       split: if_splits)

section \<open>The authority to remove\<close>

lemma evaluate_uncertain:
  assumes "\<not> sn_SkippedScopesKnownEmpty snap"
  shows "pr_Acceptance (evaluate_head ev cfg d seq snap prior entries coverage) \<noteq> AcceptanceComplete"
  using assms by (cases coverage) (simp_all add: evaluate_head_def Let_def pipeline_complete_exact)

text \<open>The resources at or below an absent child of a directory.\<close>

definition below :: "string \<Rightarrow> PriorResource \<Rightarrow> bool" where
  "below dir p \<longleftrightarrow> path_dir (canonicalPath p) = dir \<or>
     (\<exists>child. path_dir child = dir \<and> prefix (child @ ''/'') (canonicalPath p))"

lemma decide_removes:
  assumes "t \<in> set (Transitions (decide_head ev cfg snap prior entries coverage acc))"
    and "tr_Kind t = KindConfirmRemoved" and "acc \<noteq> AcceptanceComplete"
  obtains c p where "coverage = Some c" "p \<in> set prior" "ResourceID p = tr_ResourceID t" "below (dc_Path c) p"
proof (cases coverage)
  case None
  then have "t \<in> set (Transitions (Reconcile prior entries acc cfg (snapshot_time ev snap) (sn_SnapshotID snap)))"
    using assms(1) by (simp add: decide_head_def)
  from Reconcile_transition_cases [OF this] assms(2,3) show thesis
    using entry_transition_kind [of prior entries cfg "snapshot_time ev snap" t] by (auto simp: entry_kinds_def)
next
  case (Some c)
  let ?now = "snapshot_time ev snap" and ?sid = "sn_SnapshotID snap"
  have "t \<in> set (Transitions (Reconcile prior entries AcceptancePartial cfg ?now ?sid)) \<or>
      (\<exists>p\<in>set (directory_removed prior entries (dc_Path c) cfg ?now ?sid). t = directory_transition p ?now ?sid)"
    using assms(1) Some by (auto simp: decide_head_def ReconcileDirectory_transitions)
  then obtain p where p: "p \<in> set (directory_removed prior entries (dc_Path c) cfg ?now ?sid)"
      "t = directory_transition p ?now ?sid"
    using assms(2) partial_not_removed by blast
  then have "below (dc_Path c) p" "p \<in> set prior"
    by (auto simp: directory_removed_def Let_def directory_missing_def absent_dirs_def directory_absent_def below_def
        canonicalPath_def list_ex_iff has_prefix_def split: option.splits)
  with Some p(2) that show thesis by simp
qed

lemma reconciled_removes:
  assumes "reconciled ev cfg rid seq snap g coverage d res d2 out d'" and "\<not> sn_SkippedScopesKnownEmpty snap"
    and "t \<in> set (Transitions res)" "tr_Kind t = KindConfirmRemoved"
  obtains c p where "coverage = Some c" "p \<in> set (LoadPriorResources d rid)" "ResourceID p = tr_ResourceID t"
    "below (dc_Path c) p"
proof -
  obtain eval where "res = decide_head ev cfg snap (LoadPriorResources d rid)
      (ListSnapshotEntries d (sn_SnapshotID snap)) coverage (pr_Acceptance eval)"
    and "eval = evaluate_head ev cfg d seq snap (LoadPriorResources d rid) (ListSnapshotEntries d (sn_SnapshotID snap)) coverage"
    using assms(1) by (auto simp: reconciled_def Let_def)
  with assms(3,4) evaluate_uncertain [OF assms(2)] show thesis by (metis decide_removes that)
qed

lemma reconciled_kept:
  assumes "reconciled ev cfg rid seq snap g coverage d res d2 out d'"
  shows "kept (\<forall>t\<in>set (Transitions res). \<not> (tr_Kind t = KindConfirmRemoved \<and> tr_ResourceID t = x)) x d d'"
proof -
  obtain ag tm dm where step: "apply_result rid (sn_SnapshotID snap) tm res ag dm = Inr d2"
    and res: "db_resources dm = db_resources d" "db_resources d' = db_resources d2"
    using assms unfolding reconciled_def Let_def committed_def
    by (force simp: advanced_resources finish_resources)
  let ?b = "\<forall>t\<in>set (Transitions res). \<not> (tr_Kind t = KindConfirmRemoved \<and> tr_ResourceID t = x)"
  have "kept ?b x d dm" "kept ?b x dm d2" "kept ?b x d2 d'"
    using res apply_result_kept [OF step] by (auto intro: kept_resources)
  then show ?thesis by (blast intro: kept_trans)
qed

text \<open>
  C4: only a mirror read can remove. Whatever a scan of the program drafted and however its row is
  reconciled, a present resource stays present, unless the snapshot is a scoped observation of a root with
  mirror presence whose topology was the same before and after the listing; and then the resource is a child
  of the observed directory or lies below such a child. A full scan removes nothing.
\<close>

theorem removal_authority:
  assumes "reconcileHeadSafe ev cfg rid seq sid d = Inr (out, d')"
    and "find_snapshot d sid = Some row" and "carries row draft" and "drafted draft seen"
    and "find_resource d x = Some r" and "Presence r = ResourcePresent"
  shows "\<exists>r'. find_resource d' x = Some r' \<and>
    (Presence r' = ResourcePresent \<or>
     (\<exists>obs p. seen = Some obs \<and> ak_MirrorPresence (obs_config obs) \<and>
        raw_DirectoryTopologyDigest (obs_raw obs) \<noteq> [] \<and> p \<in> set (LoadPriorResources d rid) \<and>
        ResourceID p = x \<and> below (obs_target obs) p))"
  using assms(1)
proof (cases rule: reconcileHeadSafe_cases)
  case (receipt rt q)
  then show ?thesis using assms(5,6) by simp
next
  case (head rt snap)
  then have snap: "snap = row" using assms(2) by (simp add: at_head_def)
  have uncertain: "\<not> sn_SkippedScopesKnownEmpty snap"
    using drafted_uncertain [OF assms(4)] assms(3) snap by (simp add: carries_def)
  from head(3) show ?thesis
  proof (cases rule: process_head_snapshot_cases)
    case early
    then show ?thesis using assms(5,6) by (auto simp: refusal_def finish_resources find_resource_def)
  next
    case (processed coverage)
    have member: "coverage = None \<or> coverage_member (sn_Provenance row) = Decoded (the coverage)"
      using processed(3) snap
      by (auto simp: directoryCoverage_def and_then_def split: json_member.splits sum.splits if_splits option.splits)
    from processed(4) show ?thesis
    proof (cases rule: process_evaluated_cases)
      case (refused acc cor)
      then show ?thesis using assms(5,6) by (auto simp: refusal_def finish_resources find_resource_def)
    next
      case (applied res d2)
      let ?b = "\<forall>t\<in>set (Transitions res). \<not> (tr_Kind t = KindConfirmRemoved \<and> tr_ResourceID t = x)"
      from reconciled_kept [OF applied, of x] assms(5) obtain r' where
        r': "find_resource d' x = Some r'" "?b \<longrightarrow> Presence r' = Presence r" by (auto simp: kept_def)
      show ?thesis
      proof (cases ?b)
        case True
        then show ?thesis using r' assms(6) by simp
      next
        case False
        then obtain t where "t \<in> set (Transitions res)" "tr_Kind t = KindConfirmRemoved" "tr_ResourceID t = x" by blast
        with reconciled_removes [OF applied] uncertain obtain c p where
          c: "coverage = Some c" "p \<in> set (LoadPriorResources d rid)" "ResourceID p = x" "below (dc_Path c) p"
          by metis
        with member assms(3) have "coverage_member (sn_Provenance draft) = Decoded c" by (simp add: carries_def)
        from drafted_coverage [OF assms(4) this] show ?thesis using r'(1) c by metis
      qed
    qed
  qed
qed

definition sample_listed :: rclone_Entry where
  "sample_listed = \<lparr>rl_Path = ''b'', rl_Name = ''b'', rl_Size = 3, rl_MimeType = [], rl_ModTime = Some 400,
     rl_IsDir = False, rl_ID = [], rl_Hashes = []\<rparr>"

definition sample_scan_env :: scan_env where
  "sample_scan_env =
     \<lparr>sv_decode = (\<lambda>_. None), sv_getenv = (\<lambda>_. []), sv_parse = (\<lambda>_. None),
      sv_source = \<lparr>so_login = (\<lambda>_ _. BadEndpoint), so_list = (\<lambda>_ _ _. BadEndpoint), so_page = (\<lambda>_ _ _ _. BadEndpoint),
        so_identity = (\<lambda>_ _. BadEndpoint), so_topology = (\<lambda>_ _. BadEndpoint),
        so_topologyLogin = (\<lambda>_ _. BadEndpoint), so_marshal = (\<lambda>_. [])\<rparr>,
      sv_run = (\<lambda>_ _. Inr [sample_listed]), sv_rclonePath = [], sv_rcloneConfig = [], sv_snapID = ''s'', sv_observedAt = 450,
      sv_now = 450, sv_fault = (\<lambda>_. NoFault), sv_others = (\<lambda>_ d. d), sv_ctx = (\<lambda>_. None), sv_traffic = (\<lambda>m. m),
      sv_env = (\<lambda>_ _. \<lparr>env_Clock = (\<lambda>_. 450), env_Marshal = (\<lambda>_ _. []), env_NestedQuery = False\<rparr>),
      sv_ids = (\<lambda>_ _ _. ''n''), sv_between = (\<lambda>_ _ _ d. d), sv_drainFault = (\<lambda>_ _. NoFault)\<rparr>"


text \<open>A full scan whose listing lacks the one resource of the root.\<close>

definition sample_binding :: adapterConfig where
  "sample_binding =
     \<lparr>ak_Remote = ''disk'', ak_Path = ''/'', ak_BaseURL = [], ak_UsernameEnv = [], ak_PasswordEnv = [], ak_TokenEnv = [],
      ak_MirrorPresence = False, ak_ExpectedBasePath = [], ak_TopologyTokenEnv = [], ak_TopologyUsernameEnv = [],
      ak_TopologyPasswordEnv = [], ak_RequestBudgetGroup = []\<rparr>"

definition walk_raw :: RawScan where
  "walk_raw = Normalize (Inr [sample_listed])"

definition walk_draft :: Snapshot where
  "walk_draft = full_snapshot sample_scan_env ''root'' walk_raw"

lemma walk_drafted: "drafted walk_draft None"
  unfolding walk_draft_def
  by (rule drafted.full [of 0 _ "''rclone''" sample_binding])
     (simp add: collector_scan_def Scan_rclone_def sample_scan_env_def walk_raw_def Normalize_def)

definition walk_draft_db :: db where
  "walk_draft_db = ok_db sample_root_db (CreateDraftSnapshot walk_draft None (toEntries walk_raw) sample_root_db)"

definition walk_submit_db :: db where
  "walk_submit_db = ok_db walk_draft_db (map_sum id snd (SubmitAndAdmitSnapshot sample_env ''root'' ''s'' walk_draft_db))"

lemma walk_reachable: "reachable walk_submit_db"
proof -
  have "is_ok (CreateDraftSnapshot walk_draft None (toEntries walk_raw) sample_root_db)" by code_simp
  then have "reachable walk_draft_db"
    unfolding walk_draft_db_def by (rule r_draft [OF sample_root_reachable ok_db_Inr])
  moreover have "(case SubmitAndAdmitSnapshot sample_env ''root'' ''s'' walk_draft_db of
      Inl _ \<Rightarrow> False | Inr (seq, _) \<Rightarrow> seq = 1)" by code_simp
  then have "SubmitAndAdmitSnapshot sample_env ''root'' ''s'' walk_draft_db = Inr (1, walk_submit_db)"
    by (auto simp: walk_submit_db_def ok_db_def split: sum.splits)
  ultimately show ?thesis by (rule r_submit)
qed

definition walk_db :: db where
  "walk_db = walk_submit_db\<lparr>db_resources := [CanonicalResource.truncate (sample_resource ''r1'' ''/a'')]\<rparr>"

definition walk_row :: Snapshot where
  "walk_row = walk_draft\<lparr>sn_LifecycleState := SnapshotSubmitted\<rparr>"

lemma walk_ledger: "ledger_ok walk_db"
proof -
  have "view walk_db rid = view walk_submit_db rid" for rid by (simp add: walk_db_def view_def root_events_def find_root_def)
  then show ?thesis using reachable_ledger [OF walk_reachable] by (simp add: ledger_ok_def)
qed

lemma walk_head: "at_head walk_db ''root'' 1 walk_row sample_root"
  by code_simp

lemma walk_rows:
  "LoadPriorResources walk_db ''root'' = [sample_resource ''r1'' ''/a'']"
  "map se_Name (ListSnapshotEntries walk_db ''s'') = [''b'']"
  by code_simp+

definition walk_eval :: PipelineResult where
  "walk_eval = evaluate_head sample_env (sample_cfg 0 0) walk_db 1 walk_row
     (LoadPriorResources walk_db ''root'') (ListSnapshotEntries walk_db ''s'') None"

lemma walk_evaluation: "pr_Corroboration walk_eval = ShrinkNone" "pr_Acceptance walk_eval = AcceptanceSuspicious"
proof -
  have n: "length (ListSnapshotEntries walk_db ''s'') = 1" using arg_cong [OF walk_rows(2), of length] by simp
  show 1: "pr_Corroboration walk_eval = ShrinkNone"
    using n by (simp add: walk_eval_def evaluate_head_def pipeline_Evaluate_def Let_def walk_rows(1)
        coordinator_significantShrink_def sample_resource_def sub_int64_def)
  show "pr_Acceptance walk_eval = AcceptanceSuspicious"
    unfolding walk_eval_def evaluate_head_acceptance 1 [unfolded walk_eval_def] by code_simp
qed

definition walk_result :: Result where
  "walk_result = Reconcile (LoadPriorResources walk_db ''root'') (ListSnapshotEntries walk_db ''s'') AcceptanceSuspicious
     (sample_cfg 0 0) (snapshot_time sample_env walk_row) ''s''"

lemma walk_applied:
  "\<exists>d'. reconcileHeadSafe sample_env (sample_cfg 0 0) ''root'' 1 ''s'' walk_db = Inr (applied_outcome True 0, d')"
proof -
  have "is_ok (apply_result ''root'' ''s'' (sn_ObservedAt walk_row) walk_result 1 (advanced True ''root'' 1 ''s'' 0
      (evaluated ''s'' AcceptanceSuspicious (Some ShrinkNone) walk_db)))" by code_simp
  from ok_db_Inr [OF this] obtain d2 where writes: "apply_result ''root'' ''s'' (sn_ObservedAt walk_row) walk_result 1
      (advanced True ''root'' 1 ''s'' 0 (evaluated ''s'' AcceptanceSuspicious (Some ShrinkNone) walk_db)) = Inr d2" by blast
  have sid: "sn_SnapshotID walk_row = ''s''" and g: "root_CurrentGeneration sample_root = 0"
    and m: "MutatesCanonical walk_result" and none: "db_applied walk_db = []"
    and live: "sn_LifecycleState walk_row = SnapshotSubmitted" "root_LifecycleState sample_root \<noteq> RootDeleted"
      "fence_member (sn_Provenance walk_row) = Absent" "coverage_member (sn_Provenance walk_row) = Absent"
    by code_simp+
  have "\<not> AppliedExistsAtGeneration walk_db ''root'' i n" for i n using none by (simp add: AppliedExistsAtGeneration_def)
  with head_applies [OF walk_ledger walk_head live walk_eval_def [folded sid], of walk_result d2] writes show ?thesis
    by (simp add: sid g m walk_evaluation walk_result_def [symmetric])
qed

theorem removal_authority_witness:
  "\<exists>out d' r'. reconcileHeadSafe sample_env (sample_cfg 0 0) ''root'' 1 ''s'' walk_db = Inr (out, d') \<and>
     find_resource d' ''r1'' = Some r' \<and> Presence r' = ResourcePresent"
proof -
  obtain out d' where step: "reconcileHeadSafe sample_env (sample_cfg 0 0) ''root'' 1 ''s'' walk_db = Inr (out, d')"
    using walk_applied by blast
  have row: "find_snapshot walk_db ''s'' = Some walk_row" by code_simp
  have carries: "carries walk_row walk_draft" by code_simp
  have r: "find_resource walk_db ''r1'' = Some (CanonicalResource.truncate (sample_resource ''r1'' ''/a''))"
    "Presence (CanonicalResource.truncate (sample_resource ''r1'' ''/a'')) = ResourcePresent" by code_simp+
  from removal_authority [OF step row carries walk_drafted r] step show ?thesis by auto
qed

section \<open>What a scoped read observes\<close>









text \<open>The containment is one of strings: white space that is cut off after the components were checked lets a
  \<open>..\<close> through, from a key that the store accepts.\<close>

lemma scope_escape_example:
  "ValidateScopeKey ''/.. / '' = Inr ()" "canonicalScopePath ''/.. / '' = Some ''/.. ''"
  "scopeAPIPath ''/lib'' ''/.. '' = Some ''/lib/..''"
  by code_simp+

text \<open>A directory whose name ends in a blank cannot be refreshed: its key resolves to another path.\<close>

lemma trailing_blank_example:
  "ValidateScopeKey ''/a '' = Inr ()" "canonicalScopePath ''/a '' = Some ''/a''"
  by code_simp+







section \<open>A batch is frozen whole or not at all\<close>














section \<open>Scans leave the queue alone\<close>

text \<open>
  A claimed scan never touches a claim. Whatever it reads, commits or loses on the way, and as long as
  other sessions do not claim or complete items, the scan of a claimed scope leaves the claims and the
  verifications of all items as they were: completing its item is left to the executor.
\<close>

theorem scan_keeps_claims:
  assumes "fresh d0" and "wstep\<^sup>*\<^sup>* d0 d" and "find_root d [] = None" and "calm_scan sv"
    and "ScanClaimedScope fuel sv timeout w maxEntries budget d = Some (r, budget', d')"
  shows "marks d' = marks d"
  using ScanClaimedScope_quiet [OF assms(4,5)] history_ok [OF assms(1,2)] assms(3)
  by (simp add: quietly_def healthy_def)

lemma sample_calm_scan: "calm_scan sample_scan_env"
  by (simp add: calm_scan_def sample_scan_env_def calm_id)

theorem scan_keeps_claims_witness:
  "\<exists>r budget' d'. ScanClaimedScope 3 sample_scan_env second (hd (db_works work_db2)) 10 None work_db2 = Some (r, budget', d') \<and>
     busy d' (''r'', ''/a'')"
proof -
  let ?scan = "ScanClaimedScope 3 sample_scan_env second (hd (db_works work_db2)) 10 None work_db2"
  have "(case ?scan of None \<Rightarrow> False | Some _ \<Rightarrow> True)" by code_simp
  then obtain r budget' d' where scan: "?scan = Some (r, budget', d')" by (auto split: option.splits)
  have "find_root work_db2 [] = None" by code_simp
  from scan_keeps_claims [OF sample_fresh sample_history(2) this sample_calm_scan scan] have "marks d' = marks work_db2" .
  moreover have "busy work_db2 (''r'', ''/a'')" by code_simp
  ultimately show ?thesis using scan by simp
qed

end
