(* ===== verification/Listing.thy ===== *)
theory Listing
  imports ScanSafety
begin

text \<open>
  When the listing of a root can change. The transactions of the program are a step relation on databases;
  resource identifiers stay unique, and what a reader sees of a root's resources changes only in a step that
  also advances the root's generation.
\<close>

section \<open>Steps of the program\<close>

inductive pstep :: "db \<Rightarrow> db \<Rightarrow> bool" where
  p_create: "CreateRoot rid scope lifecycle d = Inr d' \<Longrightarrow> pstep d d'"
| p_draft: "CreateDraftSnapshot snap stated entries d = Inr d' \<Longrightarrow> pstep d d'"
| p_freeze: "FreezeScopedReadBatch ev inputs d = Inr d' \<Longrightarrow> pstep d d'"
| p_submit: "SubmitAndAdmitSnapshot ev rid sid d = Inr (seq, d') \<Longrightarrow> pstep d d'"
| p_admit: "AdmitSnapshot ev rid sid d = Inr (seq, d') \<Longrightarrow> pstep d d'"
| p_resume: "admitOrResumeSnapshot ev h rid sid d = Inr (seq, resumed, d') \<Longrightarrow> pstep d d'"
| p_reconcile: "reconcileHeadSafe ev cfg rid seq sid d = Inr (out, d') \<Longrightarrow> pstep d d'"
| p_repair: "RepairJournal rid corrective d = Inr (e, d') \<Longrightarrow> pstep d d'"
| p_lifecycle: "TransitionRootLifecycle rid st d = Inr (res, d') \<Longrightarrow> pstep d d'"
| p_operational: "pstep d (d\<lparr>db_policies := ps, db_adapters := as, db_watches := ws, db_works := ks\<rparr>)"

lemma pstep_reachable: "pstep d d' \<Longrightarrow> reachable d \<Longrightarrow> reachable d'"
  by (induction rule: pstep.induct) (blast intro: reachable.intros)+

lemma psteps_reachable: "pstep\<^sup>*\<^sup>* d d' \<Longrightarrow> reachable d \<Longrightarrow> reachable d'"
  by (induction rule: rtranclp_induct) (auto intro: pstep_reachable)

section \<open>What a reader sees of a row\<close>

text \<open>A row without its removal evidence and without the generation that last confirmed it.\<close>

definition stable_row :: "CanonicalResource \<Rightarrow> CanonicalResource" where
  "stable_row r = r\<lparr>EvidenceState := RemovalEvidenceNone, MissingSince := None, ConsecutiveCompleteMissing := 0,
     MissingFirstSnapshotID := None, MissingLastSnapshotID := None, LastConfirmedGeneration := 0\<rparr>"

definition listing :: "db \<Rightarrow> uuid \<Rightarrow> CanonicalResource list" where
  "listing d x = map stable_row (filter (\<lambda>r. RootID r = x) (db_resources d))"

lemma stable_row_fields [simp]:
  "ResourceID (stable_row r) = ResourceID r" "RootID (stable_row r) = RootID r" "Presence (stable_row r) = Presence r"
  "CanonicalPath (stable_row r) = CanonicalPath r" "ParentResourceID (stable_row r) = ParentResourceID r"
  by (simp_all add: stable_row_def)

definition ids :: "db \<Rightarrow> uuid list" where
  "ids d = map ResourceID (db_resources d)"

lemma listing_cong: "db_resources d' = db_resources d \<Longrightarrow> listing d' x = listing d x"
  by (simp add: listing_def)

lemma listing_ids: "ResourceID ` set (filter (\<lambda>r. RootID r = x) (db_resources d)) = ResourceID ` set (listing d x)"
  by (simp add: listing_def image_image)

text \<open>An update of one row is unseen when it writes evidence only, or when the row is another root's.\<close>

lemma update_listing:
  assumes "update_resource y f d = Inr d'" and "\<And>r. RootID (f r) = RootID r"
    and "(\<forall>r. stable_row (f r) = stable_row r) \<or> y \<notin> ResourceID ` set (listing d x)"
  shows "listing d' x = listing d x"
proof -
  have keep: "map stable_row (filter (\<lambda>r. RootID r = x) (map (\<lambda>r. if ResourceID r = y then f r else r) rs))
      = map stable_row (filter (\<lambda>r. RootID r = x) rs)"
    if "(\<forall>r. stable_row (f r) = stable_row r) \<or> y \<notin> ResourceID ` set (filter (\<lambda>r. RootID r = x) rs)" for rs
    using that by (induction rs) (auto simp: assms(2) split: if_splits)
  have "db_resources d' = map (\<lambda>r. if ResourceID r = y then f r else r) (db_resources d)"
    using assms(1) by (auto simp: update_resource_def split: if_splits)
  then show ?thesis using keep [of "db_resources d"] assms(3) unfolding listing_ids [symmetric] by (simp only: listing_def)
qed

lemma update_ids: "update_resource y f d = Inr d' \<Longrightarrow> (\<And>r. ResourceID (f r) = ResourceID r) \<Longrightarrow> ids d' = ids d"
  by (auto simp: update_resource_def ids_def split: if_splits)

lemma insert_ids:
  assumes "InsertCanonicalResource r d = Inr d'" and "distinct (ids d)"
  shows "distinct (ids d')"
  using assms by (force simp: InsertCanonicalResource_def ids_def find_resource_def find_None_iff split: if_splits)

lemma evidence_stable [simp]:
  "stable_row (r\<lparr>EvidenceState := st, MissingSince := since, ConsecutiveCompleteMissing := n,
     MissingFirstSnapshotID := a, MissingLastSnapshotID := b, LastConfirmedGeneration := g\<rparr>) = stable_row r"
  by (simp add: stable_row_def)

lemmas row_writes = UpdateResourceAttributes_def UpdateResourcePath_def SetRemovalEvidence_def ResetRemovalEvidence_def
  ConfirmRemoval_def set_evidence_def apply_path_def

lemma transition_ids:
  assumes "applyTransition rid g t d = Inr d'" and "distinct (ids d)"
  shows "distinct (ids d')"
proof (cases "tr_Kind t")
  case KindConfirmRemoved
  then obtain d1 where "set_evidence RemovalEvidenceCandidate t d = Inr d1" "ConfirmRemoval (tr_ResourceID t) g d1 = Inr d'"
    using assms(1) by (auto simp: applyTransition_def)
  then have "ids d1 = ids d" "ids d' = ids d1" by (auto simp: row_writes intro: update_ids)
  then show ?thesis using assms(2) by simp
qed (use assms in \<open>auto simp: applyTransition_def row_writes dest: update_ids insert_ids split: option.splits\<close>)

text \<open>A transition is foreign to a root when it names no row of it.\<close>

definition foreign :: "uuid \<Rightarrow> uuid \<Rightarrow> db \<Rightarrow> Transition \<Rightarrow> bool" where
  "foreign rid x d t \<longleftrightarrow> rid \<noteq> x \<and>
     (tr_Kind t \<noteq> KindAdd \<longrightarrow> tr_ResourceID t \<notin> ResourceID ` set (listing d x)) \<and>
     (case tr_Prior t of None \<Rightarrow> True | Some p \<Rightarrow> ResourceID p \<notin> ResourceID ` set (listing d x))"

lemma transition_listing:
  assumes "applyTransition rid g t d = Inr d'" and "\<not> GenerationProducing (tr_Kind t) \<or> foreign rid x d t"
  shows "listing d' x = listing d x"
proof (cases "tr_Kind t")
  case KindAdd
  with assms show ?thesis
    by (auto simp: applyTransition_def InsertCanonicalResource_def listing_def foreign_def new_resource_def Let_def
        split: if_splits option.splits)
next
  case KindConfirmRemoved
  then obtain d1 where "set_evidence RemovalEvidenceCandidate t d = Inr d1" "ConfirmRemoval (tr_ResourceID t) g d1 = Inr d'"
    using assms(1) by (auto simp: applyTransition_def)
  moreover from this(1) have "listing d1 x = listing d x" by (auto simp: row_writes intro: update_listing)
  moreover have "tr_ResourceID t \<notin> ResourceID ` set (listing d x)"
    using assms(2) KindConfirmRemoved by (simp add: foreign_def)
  ultimately show ?thesis
    using update_listing [of "tr_ResourceID t" _ d1 d' x] by (simp add: ConfirmRemoval_def)
next
  case KindUpdate
  with assms show ?thesis
    by (auto simp: applyTransition_def row_writes foreign_def CanonicalResource.defs
        elim!: update_listing split: option.splits)
qed (use assms in \<open>auto simp: applyTransition_def row_writes foreign_def elim!: update_listing split: option.splits\<close>)

section \<open>A reconcile\<close>

lemma observation_rows: "AppendObservation sid y e tm d = Inr d' \<Longrightarrow> db_resources d' = db_resources d"
  by (auto simp: AppendObservation_def InsertIdentityEvidence_def split: if_splits)

lemma apply_result_fold:
  assumes "apply_result rid sid tm res g d = Inr d'"
  obtains d1 where "fold_err (applyTransition rid g) (Transitions res) d = Inr d1" "db_resources d' = db_resources d1"
proof -
  from assms obtain d1 where d1: "fold_err (applyTransition rid g) (Transitions res) d = Inr d1"
    "fold_err (\<lambda>ob. AppendObservation sid (obs_ResourceID ob) (obs_Entry ob) tm) (Observations res) d1 = Inr d'"
    by (auto simp: apply_result_def)
  have "db_resources d' = db_resources d1"
    by (rule fold_err_invariant [OF d1(2)]) (auto dest: observation_rows)
  with d1(1) show thesis by (rule that)
qed

lemma apply_result_ids:
  assumes "apply_result rid sid tm res g d = Inr d'" and "distinct (ids d)"
  shows "distinct (ids d')"
proof -
  obtain d1 where d1: "fold_err (applyTransition rid g) (Transitions res) d = Inr d1" "db_resources d' = db_resources d1"
    using assms(1) by (rule apply_result_fold)
  have "distinct (ids d1)" by (rule fold_err_invariant [OF d1(1)]) (auto simp: assms(2) intro: transition_ids)
  then show ?thesis by (simp add: ids_def d1(2))
qed

lemma apply_result_listing:
  assumes "apply_result rid sid tm res g d = Inr d'"
    and "\<And>t. t \<in> set (Transitions res) \<Longrightarrow> \<not> GenerationProducing (tr_Kind t) \<or> foreign rid x d t"
  shows "listing d' x = listing d x"
proof -
  obtain d1 where d1: "fold_err (applyTransition rid g) (Transitions res) d = Inr d1" "db_resources d' = db_resources d1"
    using assms(1) by (rule apply_result_fold)
  have "listing d1 x = listing d x"
  proof (rule fold_err_invariant [OF d1(1)])
    fix t s s'
    assume t: "t \<in> set (Transitions res)" and step: "applyTransition rid g t s = Inr s'" and same: "listing s x = listing d x"
    from same assms(2) [OF t] have "\<not> GenerationProducing (tr_Kind t) \<or> foreign rid x s t"
      by (cases "tr_Prior t") (simp_all add: foreign_def)
    from transition_listing [OF step this] same show "listing s' x = listing d x" by simp
  qed simp
  then show ?thesis by (simp add: listing_cong [OF d1(2)])
qed

text \<open>The transitions of a decision add resources or name resources of the inventory that was loaded.\<close>

lemma decide_names:
  assumes "t \<in> set (Transitions (decide_head ev cfg snap prior entries coverage acc))" and "GenerationProducing (tr_Kind t)"
  shows "tr_Kind t = KindAdd \<and> tr_Prior t = None \<or>
    (\<exists>p\<in>set prior. tr_Prior t = Some p \<and> tr_ResourceID t = ResourceID p)"
proof -
  have entry: ?thesis if "entry_transition prior entries cfg now t" for now
    using that assms(2)
    by (auto simp: entry_transition_def list_ex_iff matched_transition_def matched_sound split: option.splits)
  have whole: ?thesis if "t \<in> set (Transitions (Reconcile prior entries acc' cfg now sid))" for acc' now sid
    using Reconcile_transition_cases [OF that] entry by (auto simp: unobserved_def)
  show ?thesis
  proof (cases coverage)
    case None
    then show ?thesis using assms(1) whole by (auto simp: decide_head_def)
  next
    case (Some c)
    then consider (plain) now sid where "t \<in> set (Transitions (Reconcile prior entries AcceptancePartial cfg now sid))"
      | (removed) p now sid where "p \<in> set (directory_removed prior entries (dc_Path c) cfg now sid)" "t = directory_transition p now sid"
      using assms(1) by (auto simp: decide_head_def ReconcileDirectory_transitions)
    then show ?thesis
    proof cases
      case (plain now sid)
      then show ?thesis by (rule whole)
    next
      case removed
      then show ?thesis by (auto simp: directory_removed_def Let_def directory_missing_def)
    qed
  qed
qed

lemma prior_row: "p \<in> set (LoadPriorResources d rid) \<Longrightarrow> \<exists>r\<in>set (db_resources d). ResourceID r = ResourceID p \<and> RootID r = rid"
  by (auto simp: LoadPriorResources_def loadPriorWhere_def enrich_def CanonicalResource.defs Let_def)

lemma foreign_row:
  assumes "distinct (ids d)" and "r \<in> set (db_resources d)" and "RootID r \<noteq> x"
  shows "ResourceID r \<notin> ResourceID ` set (listing d x)"
proof
  assume "ResourceID r \<in> ResourceID ` set (listing d x)"
  then obtain r' where r': "r' \<in> set (db_resources d)" "RootID r' = x" "ResourceID r' = ResourceID r"
    by (auto simp: listing_def)
  from assms(1) have "inj_on ResourceID (set (db_resources d))" by (simp add: ids_def distinct_map)
  then show False using r' assms(2,3) by (auto dest: inj_onD)
qed

lemma reconciled_rows:
  assumes "reconciled ev cfg rid seq snap g coverage d res d2 out d'" and "distinct (ids d)"
  shows "distinct (ids d')" and "x \<noteq> rid \<or> \<not> MutatesCanonical res \<Longrightarrow> listing d' x = listing d x"
proof -
  obtain acc ag dm where step: "apply_result rid (sn_SnapshotID snap) (sn_ObservedAt snap) res ag dm = Inr d2"
    and rows: "db_resources dm = db_resources d" "db_resources d' = db_resources d2"
    and res: "res = decide_head ev cfg snap (LoadPriorResources d rid) (ListSnapshotEntries d (sn_SnapshotID snap)) coverage acc"
    using assms(1) unfolding reconciled_def Let_def committed_def
    by (force simp: advanced_resources finish_resources)
  have dm: "ids dm = ids d" "ids d' = ids d2" "listing dm x = listing d x" "listing d' x = listing d2 x" for x
    using rows by (simp_all add: ids_def listing_def)
  show "distinct (ids d')" using apply_result_ids [OF step] assms(2) dm by simp
  have ok: "result_ok res" unfolding res decide_head_def
    by (cases coverage) (simp_all add: Reconcile_ok ReconcileDirectory_ok)
  show "listing d' x = listing d x" if other: "x \<noteq> rid \<or> \<not> MutatesCanonical res"
  proof -
    have "\<not> GenerationProducing (tr_Kind t) \<or> foreign rid x dm t" if t: "t \<in> set (Transitions res)" for t
    proof (cases "MutatesCanonical res \<and> GenerationProducing (tr_Kind t)")
      case True
      with other have x: "rid \<noteq> x" by blast
      have named: "ResourceID p \<notin> ResourceID ` set (listing d x)" if "p \<in> set (LoadPriorResources d rid)" for p
        using prior_row [OF that] foreign_row [OF assms(2)] x by metis
      from decide_names [OF t [unfolded res]] True show ?thesis
        using x named unfolding foreign_def dm(3) by (cases "tr_Prior t") force+
    qed (use ok t in \<open>auto simp: result_ok_def list_ex_iff\<close>)
    from apply_result_listing [OF step this] show ?thesis by (simp add: dm)
  qed
qed

section \<open>Every step\<close>

lemma draft_rows: "insert_draft snap entries d = Inr d' \<Longrightarrow> db_resources d' = db_resources d \<and> db_roots d' = db_roots d"
proof -
  assume "insert_draft snap entries d = Inr d'"
  then obtain d1 where 1: "InsertSnapshotStub snap d = Inr d1"
    and 2: "fold_err (\<lambda>e. InsertSnapshotEntry (e\<lparr>se_SnapshotID := sn_SnapshotID snap\<rparr>)) entries d1 = Inr d'"
    by (auto simp: insert_draft_def)
  have "db_resources d1 = db_resources d \<and> db_roots d1 = db_roots d"
    using 1 by (auto simp: InsertSnapshotStub_def split: if_splits)
  then show ?thesis
    by (rule fold_err_invariant [OF 2]) (auto simp: InsertSnapshotEntry_def split: if_splits)
qed

lemma freeze_loop_resources:
  "freeze_loop ev rt revision roster ff i earlier inputs d = Inr d' \<Longrightarrow>
   db_resources d' = db_resources d \<and> db_roots d' = db_roots d"
proof (induction inputs arbitrary: ff i earlier d)
  case (Cons inp inputs)
  then show ?case by (auto simp: Let_def split: if_splits option.splits) (metis draft_rows)+
qed simp

lemma freeze_rows: "FreezeScopedReadBatch ev inputs d = Inr d' \<Longrightarrow> db_resources d' = db_resources d \<and> db_roots d' = db_roots d"
  by (auto simp: FreezeScopedReadBatch_def Let_def dest: freeze_loop_resources split: if_splits option.splits)

lemma admission_rows:
  assumes "admitOrResumeSnapshot ev h rid sid d = Inr (seq, resumed, d') \<or> AdmitSnapshot ev rid sid d = Inr (seq, d') \<or>
    SubmitAndAdmitSnapshot ev rid sid d = Inr (seq, d')"
  shows "db_resources d' = db_resources d"
proof -
  have alloc: "db_resources e' = db_resources e" if "AllocateAdmission x s e = Inr (q, e')" for x s e e' q
    using that by (auto elim: AllocateAdmission_form simp: update_root_def)
  have mark: "db_resources e' = db_resources e" if "MarkSnapshotSubmitted sid e = Inr e'" for e e'
    using that by (auto simp: MarkSnapshotSubmitted_def update_snapshot_def split: option.splits if_splits)
  show ?thesis using assms
    by (auto simp: admitOrResumeSnapshot_def AdmitSnapshot_def SubmitAndAdmitSnapshot_def
        split: option.splits if_splits dest!: alloc mark)
qed

text \<open>A step is unseen by the readers of a root: the generation and the lifecycle state stay and the listing
  too, or the generation advances.\<close>

definition unseen :: "uuid \<Rightarrow> db \<Rightarrow> db \<Rightarrow> bool" where
  "unseen x d d' \<longleftrightarrow> (\<forall>rt. find_root d x = Some rt \<longrightarrow> (\<exists>rt'. find_root d' x = Some rt' \<and>
     (root_CurrentGeneration rt < root_CurrentGeneration rt' \<or>
      root_CurrentGeneration rt' = root_CurrentGeneration rt \<and> root_LifecycleState rt' = root_LifecycleState rt \<and>
      listing d' x = listing d x)))"

lemma unseen_refl [simp]: "unseen x d d"
  by (simp add: unseen_def)

lemma unseen_trans: "unseen x d1 d2 \<Longrightarrow> unseen x d2 d3 \<Longrightarrow> unseen x d1 d3"
  unfolding unseen_def by (smt (verit))

lemma unseen_rows: "db_roots d' = db_roots d \<Longrightarrow> listing d' x = listing d x \<Longrightarrow> unseen x d d'"
  by (simp add: unseen_def find_root_def)

lemma unseen_view: "view d' x = view d x \<Longrightarrow> listing d' x = listing d x \<Longrightarrow> unseen x d d'"
  by (auto simp: unseen_def view_def)

lemma admits_unseen:
  assumes "admits rid d d'" and "listing d' x = listing d x"
  shows "unseen x d d'"
proof (cases "d' = d")
  case False
  then obtain d0 sid seq where d0: "view d0 = view d" "AllocateAdmission rid sid d0 = Inr (seq, d')"
    using assms(1) by (auto simp: admits_def)
  then have "view d' x = (if x = rid then (view d x)\<lparr>rv_root := map_option bump_admission (find_root d x),
      rv_admissions := rv_admissions (view d x) @ [pending_row rid seq sid]\<rparr> else view d x)"
    by (elim AllocateAdmission_form) (auto simp: view_def fun_eq_iff)
  then have "find_root d' x = (if x = rid then map_option bump_admission (find_root d x) else find_root d x)"
    by (auto simp: view_def split: if_splits)
  with assms(2) show ?thesis by (auto simp: unseen_def bump_admission_def)
qed simp

lemma reconcile_rows:
  assumes ok: "ledger_ok d" and unique: "distinct (ids d)" and step: "reconcileHeadSafe ev cfg rid seq sid d = Inr (out, d')"
  shows "distinct (ids d')" and "unseen x d d'"
proof -
  from ok step have "distinct (ids d') \<and> unseen x d d'"
  proof (cases rule: reconcile_summary)
    case (receipt rt q)
    then show ?thesis using unique by simp
  next
    case (refused rt snap a e)
    then have "db_resources d' = db_resources d" "db_roots d' = db_roots d"
      using refusal_isolated(2,5) [OF refused(7)] unevaluated_fields(2,6) [OF refused(6)] by simp_all
    then show ?thesis using unique by (auto simp: ids_def listing_def intro: unseen_rows)
  next
    case (applied rt snap a coverage res d2)
    note rows = reconciled_rows [OF applied(8) unique]
    have "unseen x d d'"
    proof (cases "x = rid")
      case True
      obtain acc cor ident where *: "ledger d2 = ledger (advanced (MutatesCanonical res) rid seq
          (sn_SnapshotID snap) (root_CurrentGeneration rt) (evaluated (sn_SnapshotID snap) acc cor d))"
        "d' = committed rid seq (sn_SnapshotID snap) (root_CurrentGeneration rt) ident res
           (evaluated (sn_SnapshotID snap) acc cor d) d2"
        using applied(8) by (rule reconciled_ledger)
      have rt: "find_root d rid = Some rt" using applied(1) by (simp add: at_head_def)
      then have "rv_root (view d' rid) = Some (if MutatesCanonical res then bump rt else rt)"
        by (simp add: *(2) view_committed [OF *(1)] del: view_fields)
      then show ?thesis using True rt rows(2) [of x] by (auto simp: unseen_def bump_def)
    next
      case False
      from unseen_view [OF reconciled_isolated(1) [OF applied(8) False] rows(2)] False show ?thesis by blast
    qed
    with rows(1) show ?thesis by blast
  qed
  then show "distinct (ids d')" "unseen x d d'" by simp_all
qed

text \<open>Both facts for every step: identifiers stay unique, and no step changes a listing without advancing the
  generation of its root.\<close>

lemma pstep_rows:
  assumes step: "pstep d d'" and ok: "ledger_ok d" and unique: "distinct (ids d)"
  shows "distinct (ids d') \<and> unseen x d d'"
  using step
proof cases
  case p_create
  then have "db_resources d' = db_resources d" "\<And>r. find_root d x = Some r \<Longrightarrow> find_root d' x = Some r"
    by (auto simp: CreateRoot_def find_root_def find_append split: if_splits option.splits)
  then show ?thesis using unique by (auto simp: ids_def listing_def unseen_def)
next
  case p_draft
  then have "db_resources d' = db_resources d \<and> db_roots d' = db_roots d"
    by (auto simp: CreateDraftSnapshot_def dest: draft_rows split: if_splits)
  then show ?thesis using unique by (auto simp: ids_def listing_def intro: unseen_rows)
next
  case p_freeze
  from freeze_rows [OF this] show ?thesis using unique by (auto simp: ids_def listing_def intro: unseen_rows)
next
  case (p_submit ev rid sid seq)
  then show ?thesis using unique admission_rows [of ev _ rid sid d seq _ d'] admissions(3) [of ev rid sid d seq d']
    by (auto simp: ids_def listing_def intro: admits_unseen)
next
  case (p_admit ev rid sid seq)
  then show ?thesis using unique admission_rows [of ev _ rid sid d seq _ d'] admissions(2) [of ev rid sid d seq d']
    by (auto simp: ids_def listing_def intro: admits_unseen)
next
  case (p_resume ev h rid sid seq resumed)
  then show ?thesis using unique admission_rows [of ev h rid sid d seq resumed d'] admissions(1) [of ev h rid sid d seq resumed d']
    by (auto simp: ids_def listing_def intro: admits_unseen)
next
  case p_reconcile
  then show ?thesis using reconcile_rows [OF ok unique] by blast
next
  case (p_repair rid corrective e)
  obtain rt where "d' = d\<lparr>db_journal := db_journal d @ [e]\<rparr>"
    by (rule RepairJournal_form [OF ok p_repair]) simp
  then show ?thesis using unique by (auto simp: ids_def listing_def intro!: unseen_rows)
next
  case (p_lifecycle rid st res)
  from ok p_lifecycle show ?thesis
  proof (cases rule: TransitionRootLifecycle_form)
    case (moved rt es)
    have "find_root d' x = map_option (\<lambda>r. if x = rid then r\<lparr>root_LifecycleState := st,
        root_CurrentGeneration := root_CurrentGeneration rt + 1\<rparr> else r) (find_root d x)"
      unfolding moved(3) transitioned_def by (simp add: find_root_update_root option.map_ident)
    then have "unseen x d d'" using moved(1,3) by (auto simp: unseen_def listing_def transitioned_def update_root_def)
    then show ?thesis using unique moved(3) by (simp add: ids_def transitioned_def update_root_def)
  qed (use unique in simp)
next
  case p_operational
  then show ?thesis using unique by (auto simp: ids_def listing_def intro!: unseen_rows)
qed

lemma reachable_psteps: "reachable d \<Longrightarrow> pstep\<^sup>*\<^sup>* empty_db d"
  by (induction rule: reachable.induct) (blast intro: pstep.intros rtranclp.rtrancl_into_rtrancl)+

lemma psteps_rows:
  assumes "pstep\<^sup>*\<^sup>* d d'" and "reachable d" and "distinct (ids d)"
  shows "distinct (ids d') \<and> unseen x d d'"
  using assms(1)
proof (induction rule: rtranclp_induct)
  case (step e e')
  have "ledger_ok e" using step(1) assms(2) by (simp add: psteps_reachable reachable_ledger)
  from pstep_rows [OF step(2) this, of x] step(3) show ?case by (blast intro: unseen_trans)
qed (use assms(3) in simp)

lemma reachable_ids: "reachable d \<Longrightarrow> distinct (ids d)"
  using psteps_rows [OF reachable_psteps r_empty] by (simp add: ids_def empty_db_def)

end
