(* ===== verification/Query.thy ===== *)
theory Query
  imports Coordinator SourceBudget
begin

text \<open>
  The read side: the query contract (\<open>internal/query\<close>), its implementation over the tables
  (\<open>store/postgres/query.go\<close>) and its HTTP form (\<open>internal/transport/httpapi\<close>). A read runs in one consistent
  state of the database; a failure of the database server is the error \<open>QueryFailed\<close>, which an argument
  brings about. The instants at which rows were created are arguments, and a journal payload is its
  decoded reason; the column \<open>event_id\<close>, which the program never writes, is left out. Strings are ordered by their bytes.
\<close>

section \<open>Views\<close>

record ReadOptions =
  IncludeRemoved :: bool
  IncludeDeprecatedRoot :: bool
  IncludeDeletedRoot :: bool

datatype query_error = ErrStaleCursor | QueryNotFound | QueryFailed

record RootView =
  rv_RootID :: uuid
  rv_ScopeDescriptor :: string
  rv_LifecycleState :: RootLifecycleState
  rv_CurrentGeneration :: int
  rv_CreatedAt :: gotime

record ResourceView =
  vw_ResourceID :: uuid
  vw_RootID :: uuid
  vw_CanonicalPath :: "string option"
  vw_ParentResourceID :: "uuid option"
  vw_Name :: "string option"
  vw_IsDir :: "bool option"
  vw_Size :: "int64 option"
  vw_Mtime :: "gotime option"
  vw_ContentHash :: "string option"
  vw_ContentType :: "string option"
  vw_ResourcePresence :: ResourcePresence
  vw_IntroducedAtGeneration :: int
  vw_LastConfirmedGeneration :: int

record JournalEventView =
  jv_EventSeq :: int
  jv_RootID :: uuid
  jv_GenerationNumber :: int
  jv_IntraGenerationSeq :: int
  jv_EventType :: EventType
  jv_ResourceID :: "uuid option"
  jv_Payload :: string
  jv_CommittedAt :: gotime

record RootStatus =
  rs_RootID :: uuid
  rs_LifecycleState :: RootLifecycleState
  rs_CurrentGeneration :: int
  rs_LastAppliedAdmissionSeq :: "int option"

record Cursor =
  cu_RootID :: uuid
  cu_Generation :: int
  cu_HasAfter :: bool
  cu_AfterPath :: string
  cu_AfterResourceID :: uuid

record ResourcePage =
  pg_Items :: "ResourceView list"
  pg_Next :: "Cursor option"

record PathResolution =
  px_Matches :: "ResourceView list"
  px_Ambiguous :: bool

definition View :: "CanonicalResource \<Rightarrow> ResourceView" where
  "View r =
     \<lparr>vw_ResourceID = ResourceID r, vw_RootID = RootID r, vw_CanonicalPath = CanonicalPath r,
      vw_ParentResourceID = ParentResourceID r, vw_Name = Name r, vw_IsDir = IsDir r, vw_Size = Size r,
      vw_Mtime = Mtime r, vw_ContentHash = ContentHash r, vw_ContentType = ContentType r,
      vw_ResourcePresence = Presence r, vw_IntroducedAtGeneration = IntroducedAtGeneration r,
      vw_LastConfirmedGeneration = LastConfirmedGeneration r\<rparr>"

section \<open>Reading the tables\<close>

definition defaultPageSize :: int where
  "defaultPageSize = 100"

definition rootVisible :: "RootLifecycleState \<Rightarrow> ReadOptions \<Rightarrow> bool" where
  "rootVisible lc opts =
     (case lc of
        RootDeprecated \<Rightarrow> IncludeDeprecatedRoot opts
      | RootDeleted \<Rightarrow> IncludeDeletedRoot opts
      | _ \<Rightarrow> True)"

text \<open>The predicate of \<open>rootVisibilityClause\<close> on a row of resources; the root is found by its primary key.\<close>

definition rootVisibilityClause :: "ReadOptions \<Rightarrow> db \<Rightarrow> uuid \<Rightarrow> bool" where
  "rootVisibilityClause opts d rid =
     (case find_root d rid of
        None \<Rightarrow> False
      | Some r \<Rightarrow>
          root_LifecycleState r = RootNew \<or> root_LifecycleState r = RootActive \<or>
          IncludeDeprecatedRoot opts \<and> root_LifecycleState r = RootDeprecated \<or>
          IncludeDeletedRoot opts \<and> root_LifecycleState r = RootDeleted)"

definition scanRoot :: "(uuid \<Rightarrow> gotime) \<Rightarrow> ResourceRoot \<Rightarrow> RootView" where
  "scanRoot created r =
     \<lparr>rv_RootID = root_RootID r, rv_ScopeDescriptor = root_ScopeDescriptor r,
      rv_LifecycleState = root_LifecycleState r, rv_CurrentGeneration = root_CurrentGeneration r,
      rv_CreatedAt = created (root_RootID r)\<rparr>"

definition ListRoots ::
  "bool \<Rightarrow> (uuid \<Rightarrow> gotime) \<Rightarrow> bool \<Rightarrow> bool \<Rightarrow> db \<Rightarrow> query_error + RootView list" where
  "ListRoots fault created includeDeprecated includeDeleted d =
     (if fault then Inl QueryFailed
      else Inr (map (scanRoot created)
        (sort_by (\<lambda>a b. (created (root_RootID a), root_RootID a) < (created (root_RootID b), root_RootID b))
          (filter (\<lambda>r. root_LifecycleState r = RootNew \<or> root_LifecycleState r = RootActive \<or>
             includeDeprecated \<and> root_LifecycleState r = RootDeprecated \<or>
             includeDeleted \<and> root_LifecycleState r = RootDeleted) (db_roots d)))))"

definition query_GetRoot ::
  "bool \<Rightarrow> (uuid \<Rightarrow> gotime) \<Rightarrow> uuid \<Rightarrow> ReadOptions \<Rightarrow> db \<Rightarrow> query_error + RootView option" where
  "query_GetRoot fault created rid opts d =
     (if fault then Inl QueryFailed
      else case find_root d rid of
             None \<Rightarrow> Inr None
           | Some r \<Rightarrow> if \<not> rootVisible (root_LifecycleState r) opts then Inr None else Inr (Some (scanRoot created r)))"

definition query_RootStatus :: "bool \<Rightarrow> uuid \<Rightarrow> ReadOptions \<Rightarrow> db \<Rightarrow> query_error + RootStatus" where
  "query_RootStatus fault rid opts d =
     (if fault then Inl QueryFailed
      else case find_root d rid of
             None \<Rightarrow> Inl QueryNotFound
           | Some r \<Rightarrow>
               if \<not> rootVisible (root_LifecycleState r) opts then Inl QueryNotFound
               else Inr \<lparr>rs_RootID = root_RootID r, rs_LifecycleState = root_LifecycleState r,
                         rs_CurrentGeneration = root_CurrentGeneration r,
                         rs_LastAppliedAdmissionSeq = max_of (map adm_AdmissionSeq
                           (filter (\<lambda>a. adm_RootID a = rid \<and> adm_Status a = AdmissionApplied) (db_admissions d)))\<rparr>)"

definition GetResource :: "bool \<Rightarrow> uuid \<Rightarrow> ReadOptions \<Rightarrow> db \<Rightarrow> query_error + ResourceView option" where
  "GetResource fault x opts d =
     (if fault then Inl QueryFailed
      else case find_resource d x of
             None \<Rightarrow> Inr None
           | Some r \<Rightarrow>
               if \<not> rootVisibilityClause opts d (RootID r) then Inr None
               else if Presence r = ResourceRemoved \<and> \<not> IncludeRemoved opts then Inr None
               else Inr (Some (View r)))"

text \<open>The sort key of a page.\<close>

definition page_key :: "ResourceView \<Rightarrow> string \<times> uuid" where
  "page_key v = (deref (vw_CanonicalPath v), vw_ResourceID v)"

definition page_rows ::
  "(CanonicalResource \<Rightarrow> bool) \<Rightarrow> ReadOptions \<Rightarrow> uuid \<Rightarrow> db \<Rightarrow> ResourceView list" where
  "page_rows sel opts rid d =
     sort_by (\<lambda>a b. page_key a < page_key b)
       (map View (filter (\<lambda>r. RootID r = rid \<and> sel r \<and> rootVisibilityClause opts d rid) (db_resources d)))"

definition listPageInternal ::
  "bool \<Rightarrow> (CanonicalResource \<Rightarrow> bool) \<Rightarrow> ReadOptions \<Rightarrow> uuid \<Rightarrow> Cursor option \<Rightarrow> int \<Rightarrow> db
     \<Rightarrow> query_error + ResourcePage" where
  "listPageInternal fault sel opts rid cur limit d =
     (let limit = (if limit \<le> 0 then defaultPageSize else limit)
      in if fault then Inl QueryFailed
         else case find_root d rid of
                None \<Rightarrow> Inl QueryNotFound
              | Some rt \<Rightarrow>
                  let currentGeneration = root_CurrentGeneration rt
                  in if (case cur of None \<Rightarrow> False
                         | Some c \<Rightarrow> cu_RootID c \<noteq> rid \<or> cu_Generation c \<noteq> currentGeneration)
                     then Inl ErrStaleCursor
                     else let after = (case cur of None \<Rightarrow> (\<lambda>_. True)
                                | Some c \<Rightarrow> (\<lambda>v. cu_HasAfter c \<longrightarrow> (cu_AfterPath c, cu_AfterResourceID c) < page_key v));
                              items = take (nat limit) (filter after (page_rows sel opts rid d))
                          in Inr \<lparr>pg_Items = items,
                                  pg_Next = (if int (length items) = limit
                                     then Some \<lparr>cu_RootID = rid, cu_Generation = currentGeneration, cu_HasAfter = True,
                                                cu_AfterPath = deref (vw_CanonicalPath (last items)),
                                                cu_AfterResourceID = vw_ResourceID (last items)\<rparr>
                                     else None)\<rparr>)"

definition present :: "CanonicalResource \<Rightarrow> bool" where
  "present r \<longleftrightarrow> Presence r = ResourcePresent"

definition ListResources ::
  "bool \<Rightarrow> uuid \<Rightarrow> uuid option \<Rightarrow> ReadOptions \<Rightarrow> Cursor option \<Rightarrow> int \<Rightarrow> db \<Rightarrow> query_error + ResourcePage" where
  "ListResources fault rid parent opts cur limit d =
     listPageInternal fault
       (\<lambda>r. (present r \<or> IncludeRemoved opts \<and> Presence r = ResourceRemoved) \<and> ParentResourceID r = parent) opts rid cur limit d"

definition ListActivePage :: "bool \<Rightarrow> uuid \<Rightarrow> Cursor option \<Rightarrow> int \<Rightarrow> db \<Rightarrow> query_error + ResourcePage" where
  "ListActivePage fault rid cur limit d =
     listPageInternal fault present
       \<lparr>IncludeRemoved = False, IncludeDeprecatedRoot = False, IncludeDeletedRoot = False\<rparr> rid cur limit d"

definition ListRemovedPage :: "bool \<Rightarrow> uuid \<Rightarrow> Cursor option \<Rightarrow> int \<Rightarrow> db \<Rightarrow> query_error + ResourcePage" where
  "ListRemovedPage fault rid cur limit d =
     listPageInternal fault (\<lambda>r. Presence r = ResourceRemoved)
       \<lparr>IncludeRemoved = True, IncludeDeprecatedRoot = True, IncludeDeletedRoot = True\<rparr> rid cur limit d"

definition path_matches :: "uuid \<Rightarrow> string \<Rightarrow> ReadOptions \<Rightarrow> db \<Rightarrow> ResourcePresence \<Rightarrow> ResourceView list" where
  "path_matches rid path opts d presence =
     map View (sort_by (\<lambda>a b. ResourceID a < ResourceID b)
       (filter (\<lambda>r. RootID r = rid \<and> CanonicalPath r = Some path \<and> Presence r = presence \<and>
          rootVisibilityClause opts d rid) (db_resources d)))"

definition ResolvePath :: "bool \<Rightarrow> uuid \<Rightarrow> string \<Rightarrow> ReadOptions \<Rightarrow> db \<Rightarrow> query_error + PathResolution" where
  "ResolvePath fault rid path opts d =
     (if fault then Inl QueryFailed
      else let matches = concat (map (path_matches rid path opts d)
                 (ResourcePresent # (if IncludeRemoved opts then [ResourceRemoved] else [])))
           in Inr \<lparr>px_Matches = matches, px_Ambiguous = (length matches > 1)\<rparr>)"

definition journal_view :: "(int \<Rightarrow> gotime) \<Rightarrow> JournalEvent \<Rightarrow> JournalEventView" where
  "journal_view committedAt e =
     \<lparr>jv_EventSeq = ev_EventSeq e, jv_RootID = ev_RootID e, jv_GenerationNumber = ev_GenerationNumber e,
      jv_IntraGenerationSeq = ev_IntraGenerationSeq e, jv_EventType = ev_EventType e,
      jv_ResourceID = ev_ResourceID e, jv_Payload = ev_Reason e, jv_CommittedAt = committedAt (ev_EventSeq e)\<rparr>"

definition query_ReadJournal ::
  "bool \<Rightarrow> (int \<Rightarrow> gotime) \<Rightarrow> uuid \<Rightarrow> int \<Rightarrow> int \<Rightarrow> db \<Rightarrow> query_error + JournalEventView list" where
  "query_ReadJournal fault committedAt rid afterSeq limit d =
     (let limit = (if limit \<le> 0 then defaultPageSize else limit)
      in if fault then Inl QueryFailed
         else Inr (map (journal_view committedAt) (ReadJournal d rid afterSeq (nat limit))))"

section \<open>Cursors on the wire\<close>

text \<open>\<open>base64.RawURLEncoding\<close>: six bits per character, no padding. The decoder skips line ends.\<close>

definition b64_alphabet :: string where
  "b64_alphabet = ''ABCDEFGHIJKLMNOPQRSTUVWXYZabcdefghijklmnopqrstuvwxyz0123456789-_''"

definition b64_char :: "nat \<Rightarrow> char" where
  "b64_char n = b64_alphabet ! n"

fun b64_encode :: "string \<Rightarrow> string" where
  "b64_encode [] = []"
| "b64_encode [a] =
     (let x = of_char a :: nat in [b64_char (x div 4), b64_char (x mod 4 * 16)])"
| "b64_encode [a, b] =
     (let x = of_char a; y = of_char b :: nat
      in [b64_char (x div 4), b64_char (x mod 4 * 16 + y div 16), b64_char (y mod 16 * 4)])"
| "b64_encode (a # b # c # s) =
     (let x = of_char a; y = of_char b; z = of_char c :: nat
      in [b64_char (x div 4), b64_char (x mod 4 * 16 + y div 16), b64_char (y mod 16 * 4 + z div 64), b64_char (z mod 64)]
         @ b64_encode s)"

fun b64_index :: "string \<Rightarrow> nat \<Rightarrow> char \<Rightarrow> nat option" where
  "b64_index [] n c = None"
| "b64_index (x # xs) n c = (if x = c then Some n else b64_index xs (Suc n) c)"

definition b64_value :: "char \<Rightarrow> nat option" where
  "b64_value c = b64_index b64_alphabet 0 c"

fun b64_values :: "nat list \<Rightarrow> string option" where
  "b64_values [] = Some []"
| "b64_values [p] = None"
| "b64_values [p, q] = Some [char_of (p * 4 + q div 16)]"
| "b64_values [p, q, r] = Some [char_of (p * 4 + q div 16), char_of (q mod 16 * 16 + r div 4)]"
| "b64_values (p # q # r # t # vs) =
     map_option (\<lambda>s. [char_of (p * 4 + q div 16), char_of (q mod 16 * 16 + r div 4), char_of (r mod 4 * 64 + t)] @ s)
       (b64_values vs)"

definition b64_decode :: "string \<Rightarrow> string option" where
  "b64_decode s =
     (let values = map b64_value (filter (\<lambda>c. c \<noteq> CHR 0x0A \<and> c \<noteq> CHR 0x0D) s)
      in if list_ex (\<lambda>v. v = None) values then None else b64_values (map the values))"

text \<open>The JSON codec of a cursor is an argument.\<close>

definition encodeCursor :: "(Cursor \<Rightarrow> string) \<Rightarrow> Cursor option \<Rightarrow> string" where
  "encodeCursor marshal c = (case c of None \<Rightarrow> [] | Some c \<Rightarrow> b64_encode (marshal c))"

definition decodeCursor :: "(string \<Rightarrow> Cursor option) \<Rightarrow> string \<Rightarrow> Cursor option option" where
  "decodeCursor unmarshal token =
     (if token = [] then Some None
      else case b64_decode token of
             None \<Rightarrow> None
           | Some b \<Rightarrow> (case unmarshal b of None \<Rightarrow> None | Some c \<Rightarrow> Some (Some c)))"

end
