(* ===== verification/HttpApi.thy ===== *)
theory HttpApi
  imports Query
begin

text \<open>
  The read-only HTTP transport (\<open>internal/transport/httpapi\<close>) with the readiness probe it calls
  (\<open>internal/health\<close>, \<open>store/postgres/readiness.go\<close>, \<open>store/postgres/schema.go\<close>). A request is the values of
  its path wildcards and of its query parameters, an absent parameter being empty; an answer is a status
  with the value that is written as JSON. The error text of a failed read is logged and not answered.
\<close>

section \<open>Requests and answers\<close>

record http_request =
  rq_PathValue :: "string \<Rightarrow> string"
  rq_Query :: "string \<Rightarrow> string"

record rootDTO =
  rd_RootID :: uuid
  rd_LifecycleState :: RootLifecycleState
  rd_CurrentGeneration :: int
  rd_CreatedAt :: gotime

record rootStatusDTO =
  sd_RootID :: uuid
  sd_LifecycleState :: RootLifecycleState
  sd_CurrentGeneration :: int
  sd_LastAppliedAdmissionSeq :: "int option"

record resourceDTO =
  dt_ResourceID :: uuid
  dt_RootID :: uuid
  dt_CanonicalPath :: "string option"
  dt_ParentResourceID :: "uuid option"
  dt_Name :: "string option"
  dt_IsDir :: "bool option"
  dt_Size :: "int64 option"
  dt_Mtime :: "gotime option"
  dt_ContentHash :: "string option"
  dt_ContentType :: "string option"
  dt_ResourcePresence :: ResourcePresence
  dt_IntroducedAtGeneration :: int
  dt_LastConfirmedGeneration :: int

record journalDTO =
  jd_EventSeq :: int
  jd_GenerationNumber :: int
  jd_IntraGenerationSeq :: int
  jd_EventType :: EventType
  jd_ResourceID :: "uuid option"
  jd_Payload :: string
  jd_CommittedAt :: gotime

record SchemaState =
  sc_Applied :: nat
  sc_Required :: nat
  sc_Missing :: "string list"
  sc_Unexpected :: "string list"

datatype http_body =
    ErrorBody string string
  | AliveBody string
  | ReadyBody nat
  | SchemaBody SchemaState
  | RootsBody "rootDTO list"
  | RootBody rootDTO
  | StatusBody rootStatusDTO
  | PageBody "resourceDTO list" string
  | MatchesBody "resourceDTO list" bool
  | JournalBody "journalDTO list"
  | ResourceBody resourceDTO

record http_answer =
  an_Status :: nat
  an_Body :: http_body

definition writeJSON :: "nat \<Rightarrow> http_body \<Rightarrow> http_answer" where
  "writeJSON status body = \<lparr>an_Status = status, an_Body = body\<rparr>"

definition writeError :: "nat \<Rightarrow> string \<Rightarrow> string \<Rightarrow> http_answer" where
  "writeError status code message = writeJSON status (ErrorBody code message)"

definition toRootDTO :: "RootView \<Rightarrow> rootDTO" where
  "toRootDTO v =
     \<lparr>rd_RootID = rv_RootID v, rd_LifecycleState = rv_LifecycleState v,
      rd_CurrentGeneration = rv_CurrentGeneration v, rd_CreatedAt = rv_CreatedAt v\<rparr>"

definition toResourceDTO :: "ResourceView \<Rightarrow> resourceDTO" where
  "toResourceDTO v =
     \<lparr>dt_ResourceID = vw_ResourceID v, dt_RootID = vw_RootID v, dt_CanonicalPath = vw_CanonicalPath v,
      dt_ParentResourceID = vw_ParentResourceID v, dt_Name = vw_Name v, dt_IsDir = vw_IsDir v,
      dt_Size = vw_Size v, dt_Mtime = vw_Mtime v, dt_ContentHash = vw_ContentHash v,
      dt_ContentType = vw_ContentType v, dt_ResourcePresence = vw_ResourcePresence v,
      dt_IntroducedAtGeneration = vw_IntroducedAtGeneration v,
      dt_LastConfirmedGeneration = vw_LastConfirmedGeneration v\<rparr>"

definition toJournalDTO :: "JournalEventView \<Rightarrow> journalDTO" where
  "toJournalDTO v =
     \<lparr>jd_EventSeq = jv_EventSeq v, jd_GenerationNumber = jv_GenerationNumber v,
      jd_IntraGenerationSeq = jv_IntraGenerationSeq v, jd_EventType = jv_EventType v,
      jd_ResourceID = jv_ResourceID v, jd_Payload = jv_Payload v, jd_CommittedAt = jv_CommittedAt v\<rparr>"

section \<open>Parameters and errors\<close>

definition boolParam :: "http_request \<Rightarrow> string \<Rightarrow> bool" where
  "boolParam r name = (let v = rq_Query r name in v = ''1'' \<or> v = ''true'')"

definition int64Param :: "http_request \<Rightarrow> string \<Rightarrow> int \<Rightarrow> int" where
  "int64Param r name def =
     (let v = rq_Query r name
      in if v = [] then def
         else case parse_int64 v of None \<Rightarrow> def | Some n \<Rightarrow> if n < 0 then def else n)"

definition limitParam :: "http_request \<Rightarrow> int" where
  "limitParam r = int64Param r ''limit'' 0"

definition readOptions :: "http_request \<Rightarrow> ReadOptions" where
  "readOptions r =
     \<lparr>IncludeRemoved = boolParam r ''include_removed'',
      IncludeDeprecatedRoot = boolParam r ''include_deprecated_root'',
      IncludeDeletedRoot = boolParam r ''include_deleted_root''\<rparr>"

definition http_fail :: "query_error \<Rightarrow> http_answer" where
  "http_fail e =
     (case e of
        ErrStaleCursor \<Rightarrow> writeError 409 ''stale_cursor'' ''cursor generation is no longer current''
      | QueryNotFound \<Rightarrow> writeError 404 ''not_found'' ''not found''
      | QueryFailed \<Rightarrow> writeError 500 ''internal_error'' ''query failed'')"

definition http_cursor ::
  "(string \<Rightarrow> Cursor option) \<Rightarrow> http_request \<Rightarrow> http_answer + Cursor option" where
  "http_cursor unmarshal r =
     (case decodeCursor unmarshal (rq_Query r ''cursor'') of
        None \<Rightarrow> Inl (writeError 400 ''invalid_cursor'' ''cursor is not decodable'')
      | Some c \<Rightarrow> Inr c)"

definition writePage :: "(Cursor \<Rightarrow> string) \<Rightarrow> ResourcePage \<Rightarrow> http_answer" where
  "writePage marshal page =
     writeJSON 200 (PageBody (map toResourceDTO (pg_Items page)) (encodeCursor marshal (pg_Next page)))"

section \<open>Readiness\<close>

definition Compatible :: "SchemaState \<Rightarrow> bool" where
  "Compatible s \<longleftrightarrow> sc_Missing s = [] \<and> sc_Unexpected s = []"

text \<open>The report over the migrations that the binary knows and the table of applied ones, absent before
  the first migration; \<open>fault\<close> is a failed query.\<close>

definition SchemaStatus :: "bool \<Rightarrow> string list \<Rightarrow> string list option \<Rightarrow> SchemaState option" where
  "SchemaStatus fault names applied =
     (if fault then None
      else Some (case applied of
        None \<Rightarrow> \<lparr>sc_Applied = 0, sc_Required = length names, sc_Missing = names, sc_Unexpected = []\<rparr>
      | Some versions \<Rightarrow>
          \<lparr>sc_Applied = length (filter (\<lambda>n. List.member versions n) names), sc_Required = length names,
           sc_Missing = filter (\<lambda>n. \<not> List.member versions n) names,
           sc_Unexpected = filter (\<lambda>v. \<not> List.member names v) versions\<rparr>))"

definition healthz :: "string \<Rightarrow> http_answer" where
  "healthz version = writeJSON 200 (AliveBody version)"

text \<open>\<open>info\<close> is the answer of the schema check, \<open>ready\<close> the runtime's own flag when there is one.\<close>

definition readyz :: "bool \<Rightarrow> SchemaState option \<Rightarrow> bool option \<Rightarrow> http_answer" where
  "readyz ping info ready =
     (if \<not> ping then writeError 503 ''not_ready'' ''database_unreachable''
      else case info of
             None \<Rightarrow> writeError 503 ''not_ready'' ''schema_check_failed''
           | Some s \<Rightarrow>
               if \<not> Compatible s then writeJSON 503 (SchemaBody s)
               else if ready = Some False then writeError 503 ''not_ready'' ''runtime_not_initialized''
               else writeJSON 200 (ReadyBody (sc_Applied s)))"

section \<open>The handlers\<close>

definition http_listRoots :: "bool \<Rightarrow> (uuid \<Rightarrow> gotime) \<Rightarrow> http_request \<Rightarrow> db \<Rightarrow> http_answer" where
  "http_listRoots fault created r d =
     (case ListRoots fault created (boolParam r ''include_deprecated'') (boolParam r ''include_deleted'') d of
        Inl e \<Rightarrow> http_fail e
      | Inr roots \<Rightarrow> writeJSON 200 (RootsBody (map toRootDTO roots)))"

definition http_getRoot :: "bool \<Rightarrow> (uuid \<Rightarrow> gotime) \<Rightarrow> http_request \<Rightarrow> db \<Rightarrow> http_answer" where
  "http_getRoot fault created r d =
     (case query_GetRoot fault created (rq_PathValue r ''root_id'') (readOptions r) d of
        Inl e \<Rightarrow> http_fail e
      | Inr None \<Rightarrow> writeError 404 ''not_found'' ''root not visible''
      | Inr (Some v) \<Rightarrow> writeJSON 200 (RootBody (toRootDTO v)))"

definition http_rootStatus :: "bool \<Rightarrow> http_request \<Rightarrow> db \<Rightarrow> http_answer" where
  "http_rootStatus fault r d =
     (case query_RootStatus fault (rq_PathValue r ''root_id'') (readOptions r) d of
        Inl e \<Rightarrow> http_fail e
      | Inr st \<Rightarrow> writeJSON 200 (StatusBody
          \<lparr>sd_RootID = rs_RootID st, sd_LifecycleState = rs_LifecycleState st,
           sd_CurrentGeneration = rs_CurrentGeneration st,
           sd_LastAppliedAdmissionSeq = rs_LastAppliedAdmissionSeq st\<rparr>))"

definition http_listResources ::
  "bool \<Rightarrow> (string \<Rightarrow> Cursor option) \<Rightarrow> (Cursor \<Rightarrow> string) \<Rightarrow> http_request \<Rightarrow> db \<Rightarrow> http_answer" where
  "http_listResources fault unmarshal marshal r d =
     (let p = rq_Query r ''parent_id'';
          parent = (if p = [] then None else Some p)
      in case http_cursor unmarshal r of
           Inl a \<Rightarrow> a
         | Inr cur \<Rightarrow>
             (case ListResources fault (rq_PathValue r ''root_id'') parent (readOptions r) cur (limitParam r) d of
                Inl e \<Rightarrow> http_fail e
              | Inr page \<Rightarrow> writePage marshal page))"

definition http_listActive ::
  "bool \<Rightarrow> (string \<Rightarrow> Cursor option) \<Rightarrow> (Cursor \<Rightarrow> string) \<Rightarrow> http_request \<Rightarrow> db \<Rightarrow> http_answer" where
  "http_listActive fault unmarshal marshal r d =
     (case http_cursor unmarshal r of
        Inl a \<Rightarrow> a
      | Inr cur \<Rightarrow>
          (case ListActivePage fault (rq_PathValue r ''root_id'') cur (limitParam r) d of
             Inl e \<Rightarrow> http_fail e
           | Inr page \<Rightarrow> writePage marshal page))"

definition http_listRemoved ::
  "bool \<Rightarrow> (string \<Rightarrow> Cursor option) \<Rightarrow> (Cursor \<Rightarrow> string) \<Rightarrow> http_request \<Rightarrow> db \<Rightarrow> http_answer" where
  "http_listRemoved fault unmarshal marshal r d =
     (case http_cursor unmarshal r of
        Inl a \<Rightarrow> a
      | Inr cur \<Rightarrow>
          (case ListRemovedPage fault (rq_PathValue r ''root_id'') cur (limitParam r) d of
             Inl e \<Rightarrow> http_fail e
           | Inr page \<Rightarrow> writePage marshal page))"

definition http_resolvePath :: "bool \<Rightarrow> http_request \<Rightarrow> db \<Rightarrow> http_answer" where
  "http_resolvePath fault r d =
     (let path = rq_Query r ''path''
      in if path = [] then writeError 400 ''invalid_request'' ''path is required''
         else case ResolvePath fault (rq_PathValue r ''root_id'') path (readOptions r) d of
                Inl e \<Rightarrow> http_fail e
              | Inr res \<Rightarrow> writeJSON 200 (MatchesBody (map toResourceDTO (px_Matches res)) (px_Ambiguous res)))"

definition http_readJournal :: "bool \<Rightarrow> (int \<Rightarrow> gotime) \<Rightarrow> http_request \<Rightarrow> db \<Rightarrow> http_answer" where
  "http_readJournal fault committedAt r d =
     (let after = int64Param r ''after_seq'' 0
      in case query_ReadJournal fault committedAt (rq_PathValue r ''root_id'') after (limitParam r) d of
           Inl e \<Rightarrow> http_fail e
         | Inr events \<Rightarrow> writeJSON 200 (JournalBody (map toJournalDTO events)))"

definition http_getResource :: "bool \<Rightarrow> http_request \<Rightarrow> db \<Rightarrow> http_answer" where
  "http_getResource fault r d =
     (case GetResource fault (rq_PathValue r ''resource_id'') (readOptions r) d of
        Inl e \<Rightarrow> http_fail e
      | Inr None \<Rightarrow> writeError 404 ''not_found'' ''resource not visible''
      | Inr (Some v) \<Rightarrow> writeJSON 200 (ResourceBody (toResourceDTO v)))"

end
