(* ===== verification/QueryProps.thy ===== *)
theory QueryProps
  imports Listing HttpApi
begin

text \<open>
  Properties of the read side. Cursors survive their encoding, pages follow one another without a gap or an
  overlap, and what a client collects page by page while the program writes is the listing of one
  generation; rows that a reader did not ask for stay hidden.
\<close>

section \<open>Base64\<close>

lemma b64_chars:
  assumes "n < 64"
  shows "b64_value (b64_char n) = Some n" "b64_char n \<noteq> CHR 0x0A" "b64_char n \<noteq> CHR 0x0D"
proof -
  have "list_all (\<lambda>n. b64_value (b64_char n) = Some n \<and> b64_char n \<noteq> CHR 0x0A \<and> b64_char n \<noteq> CHR 0x0D) [0..<64]"
    by code_simp
  with assms show "b64_value (b64_char n) = Some n" "b64_char n \<noteq> CHR 0x0A" "b64_char n \<noteq> CHR 0x0D"
    by (auto simp only: list_all_iff set_upt atLeastLessThan_iff)
qed

lemma b64_decode_chars:
  assumes "list_all (\<lambda>v. v < 64) vs"
  shows "b64_decode (map b64_char vs) = b64_values vs"
proof -
  have "filter (\<lambda>c. c \<noteq> CHR 0x0A \<and> c \<noteq> CHR 0x0D) (map b64_char vs) = map b64_char vs"
    using assms by (induction vs) (auto simp: b64_chars(2,3))
  moreover have "map b64_value (map b64_char vs) = map Some vs"
    using assms by (induction vs) (auto simp: b64_chars(1))
  ultimately show ?thesis unfolding b64_decode_def Let_def by (simp only:) (simp add: list_ex_iff comp_def)
qed

fun sextets :: "string \<Rightarrow> nat list" where
  "sextets [] = []"
| "sextets [a] = (let x = of_char a in [x div 4, x mod 4 * 16])"
| "sextets [a, b] = (let x = of_char a; y = of_char b in [x div 4, x mod 4 * 16 + y div 16, y mod 16 * 4])"
| "sextets (a # b # c # s) =
     (let x = of_char a; y = of_char b; z = of_char c
      in [x div 4, x mod 4 * 16 + y div 16, y mod 16 * 4 + z div 64, z mod 64] @ sextets s)"

lemma b64_encode_sextets: "b64_encode s = map b64_char (sextets s)"
  by (induction s rule: sextets.induct) (simp_all add: Let_def)

lemma sextet_bounds:
  assumes "(x::nat) < 256" "(y::nat) < 256"
  shows "x div 4 < 64" "x mod 4 * 16 + y div 16 < 64" "x mod 16 * 4 + y div 64 < 64" "x mod 4 * 16 < 64" "x mod 16 * 4 < 64"
proof -
  have "x mod 4 < 4" "x mod 16 < 16" "y div 16 < 16" "y div 64 < 4" "x div 4 < 64"
    using assms by (simp_all add: less_mult_imp_div_less)
  then show "x div 4 < 64" "x mod 4 * 16 + y div 16 < 64" "x mod 16 * 4 + y div 64 < 64" "x mod 4 * 16 < 64" "x mod 16 * 4 < 64"
    by linarith+
qed

lemma sextet_join:
  assumes "(y::nat) < 256"
  shows "(m * 16 + y div 16) div 16 = m" "(m * 16 + y div 16) mod 16 = y div 16"
    "(m * 4 + y div 64) div 4 = m" "(m * 4 + y div 64) mod 4 = y div 64"
proof -
  have "y div 16 < 16" "y div 64 < 4" using assms by (simp_all add: less_mult_imp_div_less)
  then show "(m * 16 + y div 16) div 16 = m" "(m * 16 + y div 16) mod 16 = y div 16"
    "(m * 4 + y div 64) div 4 = m" "(m * 4 + y div 64) mod 4 = y div 64" by auto
qed

lemma sextets_small: "list_all (\<lambda>v. v < 64) (sextets s)"
proof (induction s rule: sextets.induct)
  case (4 a b c s)
  have small: "of_char a < (256::nat)" "of_char b < (256::nat)" "of_char c < (256::nat)" by simp_all
  with 4 show ?case by (simp add: Let_def sextet_bounds sextet_bounds(1) [OF small(1,1)])
next
  case (3 a b)
  have small: "of_char a < (256::nat)" "of_char b < (256::nat)" by simp_all
  then show ?case by (simp add: Let_def sextet_bounds sextet_bounds(1) [OF small(1,1)])
next
  case (2 a)
  have small: "of_char a < (256::nat)" by simp
  then show ?case by (simp add: Let_def sextet_bounds sextet_bounds(1) [OF small small])
qed simp

lemma values_sextets: "b64_values (sextets s) = Some s"
proof (induction s rule: sextets.induct)
  case (3 a b)
  have "of_char b < (256::nat)" by simp
  note join = sextet_join [OF this]
  show ?case by (simp only: sextets.simps b64_values.simps Let_def join) simp
next
  case (4 a b c s)
  have "of_char b < (256::nat)" "of_char c < (256::nat)" by simp_all
  note join = sextet_join [OF this(1)] sextet_join [OF this(2)]
  from 4 show ?case by (simp only: sextets.simps b64_values.simps Let_def join append.simps list.simps option.map) simp
qed (simp_all add: Let_def)

lemma b64_encode_empty: "b64_encode s = [] \<longleftrightarrow> s = []"
  by (cases s rule: sextets.cases) (simp_all add: Let_def)

lemma b64_roundtrip: "b64_decode (b64_encode s) = Some s"
  by (simp add: b64_encode_sextets b64_decode_chars sextets_small values_sextets)

section \<open>One page\<close>

definition before :: "ResourceView \<Rightarrow> ResourceView \<Rightarrow> bool" where
  "before a b \<longleftrightarrow> page_key a < page_key b"

lemma page_rows_ids: "distinct (ids d) \<Longrightarrow> distinct (map vw_ResourceID (page_rows sel opts rid d))"
proof -
  let ?P = "\<lambda>r. RootID r = rid \<and> sel r \<and> rootVisibilityClause opts d rid"
  assume "distinct (ids d)"
  then have "distinct (map vw_ResourceID (map View (filter ?P (db_resources d))))"
    by (simp add: ids_def View_def comp_def distinct_map_filter)
  moreover have "mset (map vw_ResourceID (page_rows sel opts rid d)) = mset (map vw_ResourceID (map View (filter ?P (db_resources d))))"
    by (simp add: page_rows_def multiset.map_comp del: mset_filter)
  ultimately show ?thesis by (metis mset_eq_imp_distinct_iff)
qed

lemma page_rows_strict:
  assumes "distinct (ids d)"
  shows "sorted_wrt before (page_rows sel opts rid d)"
proof -
  let ?rs = "page_rows sel opts rid d"
  have weak: "sorted_wrt (\<lambda>a b. \<not> page_key b < page_key a) ?rs"
    using by_key.sorted_sort [of page_key] by (simp add: sorted_by_def page_rows_def)
  show ?thesis
  proof (unfold sorted_wrt_iff_nth_less, intro allI impI)
    fix i j assume ij: "i < j" "j < length ?rs"
    then have "map vw_ResourceID ?rs ! i \<noteq> map vw_ResourceID ?rs ! j"
      using page_rows_ids [OF assms] by (subst nth_eq_iff_index_eq) auto
    then have "page_key (?rs ! i) \<noteq> page_key (?rs ! j)" using ij by (simp add: page_key_def)
    with sorted_wrt_nth_less [OF weak ij] show "before (?rs ! i) (?rs ! j)" unfolding before_def by (meson linorder_neqE)
  qed
qed

lemma filter_after:
  assumes "sorted_wrt before rs" and "0 < m" "m \<le> length rs"
  shows "filter (\<lambda>v. page_key (rs ! (m - 1)) < page_key v) rs = drop m rs"
proof -
  let ?k = "page_key (rs ! (m - 1))"
  have "filter (\<lambda>v. ?k < page_key v) (take m rs) = []"
  proof (unfold filter_empty_conv, intro ballI)
    fix v assume "v \<in> set (take m rs)"
    then obtain i where i: "i < m" "v = rs ! i" by (auto simp: in_set_conv_nth)
    then consider "i = m - 1" | "i < m - 1" by linarith
    then show "\<not> ?k < page_key v"
    proof cases
      case 2
      have "m - 1 < length rs" using assms(2,3) by linarith
      from sorted_wrt_nth_less [OF assms(1) 2 this] show ?thesis unfolding i(2) before_def by (rule less_not_sym)
    qed (simp add: i)
  qed
  moreover have "filter (\<lambda>v. ?k < page_key v) (drop m rs) = drop m rs"
  proof (unfold filter_id_conv, intro ballI)
    fix v assume "v \<in> set (drop m rs)"
    then obtain i where "v = rs ! (m + i)" "m + i < length rs" by (auto simp: in_set_conv_nth)
    then show "?k < page_key v"
      using assms sorted_wrt_nth_less [OF assms(1), of "m - 1" "m + i"] by (simp add: before_def)
  qed
  ultimately show ?thesis by (metis append_take_drop_id append_Nil filter_append)
qed

text \<open>The cursor after the first \<open>m\<close> rows of a listing.\<close>

definition cursor_at :: "uuid \<Rightarrow> int \<Rightarrow> ResourceView list \<Rightarrow> nat \<Rightarrow> Cursor option" where
  "cursor_at rid g rs m =
     (if m = 0 then None
      else Some \<lparr>cu_RootID = rid, cu_Generation = g, cu_HasAfter = True,
                 cu_AfterPath = deref (vw_CanonicalPath (rs ! (m - 1))), cu_AfterResourceID = vw_ResourceID (rs ! (m - 1))\<rparr>)"

definition page_size :: "int \<Rightarrow> nat" where
  "page_size limit = nat (if limit \<le> 0 then defaultPageSize else limit)"

lemma page_size_pos [simp]: "0 < page_size limit"
  by (simp add: page_size_def defaultPageSize_def)

lemma page_size_nonzero [simp]: "page_size limit \<noteq> 0"
  using page_size_pos [of limit] by linarith

lemma page_at:
  assumes "sorted_wrt before (page_rows sel opts rid d)" and "find_root d rid = Some rt" and "m \<le> length (page_rows sel opts rid d)"
  shows "listPageInternal False sel opts rid (cursor_at rid (root_CurrentGeneration rt) (page_rows sel opts rid d) m) limit d =
    Inr \<lparr>pg_Items = take (page_size limit) (drop m (page_rows sel opts rid d)),
         pg_Next = (if m + page_size limit \<le> length (page_rows sel opts rid d)
           then cursor_at rid (root_CurrentGeneration rt) (page_rows sel opts rid d) (m + page_size limit) else None)\<rparr>"
proof -
  let ?rs = "page_rows sel opts rid d" and ?n = "page_size limit"
  let ?items = "take ?n (drop m ?rs)"
  have after: "filter (case cursor_at rid (root_CurrentGeneration rt) ?rs m of None \<Rightarrow> (\<lambda>_. True)
      | Some c \<Rightarrow> (\<lambda>v. cu_HasAfter c \<longrightarrow> (cu_AfterPath c, cu_AfterResourceID c) < page_key v)) ?rs = drop m ?rs"
    using filter_after [OF assms(1)] assms(3) by (simp add: cursor_at_def page_key_def)
  have full: "int (length ?items) = (if limit \<le> 0 then defaultPageSize else limit) \<longleftrightarrow> m + ?n \<le> length ?rs"
    using assms(3) by (auto simp: page_size_def defaultPageSize_def split: if_splits)
  have "last ?items = ?rs ! (m + ?n - 1)" if "m + ?n \<le> length ?rs"
  proof -
    have "?items = [] \<longleftrightarrow> False" "length ?items = ?n"
      using that page_size_pos [of limit] by (auto simp del: page_size_pos)
    then show ?thesis using that page_size_pos [of limit] by (simp add: last_conv_nth del: page_size_pos)
  qed
  then show ?thesis using assms(2) after full page_size_pos [of limit]
    by (auto simp: listPageInternal_def Let_def cursor_at_def page_size_def simp del: page_size_pos split: option.splits if_splits)
qed

section \<open>Listings through time\<close>

text \<open>What two states of a database with the same listing show: the same rows up to the generation that last
  confirmed them.\<close>

definition steady :: "ResourceView \<Rightarrow> ResourceView" where
  "steady v = v\<lparr>vw_LastConfirmedGeneration := 0\<rparr>"

lemma steady_fields [simp]:
  "page_key (steady v) = page_key v" "vw_CanonicalPath (steady v) = vw_CanonicalPath v" "vw_ResourceID (steady v) = vw_ResourceID v"
  by (simp_all add: steady_def page_key_def)

lemma steady_View [simp]: "steady (View (stable_row r)) = steady (View r)"
  by (simp add: steady_def View_def stable_row_def)

lemma map_insert_by: "(\<And>a b. lt (f a) (f b) = lt a b) \<Longrightarrow> map f (insert_by lt x xs) = insert_by lt (f x) (map f xs)"
  by (induction xs) auto

lemma map_sort_by: "(\<And>a b. lt (f a) (f b) = lt a b) \<Longrightarrow> map f (sort_by lt xs) = sort_by lt (map f xs)"
  by (induction xs) (simp_all add: map_insert_by)

lemma steady_rows:
  assumes "\<And>r. sel (stable_row r) = sel r"
  shows "map steady (page_rows sel opts rid d) = sort_by (\<lambda>a b. page_key a < page_key b)
    (map (\<lambda>r. steady (View r)) (filter (\<lambda>r. sel r \<and> rootVisibilityClause opts d rid) (listing d rid)))"
proof -
  have "map (\<lambda>r. steady (View r)) (filter (\<lambda>r. RootID r = rid \<and> sel r \<and> vis) rs) =
      map (\<lambda>r. steady (View r)) (filter (\<lambda>r. sel r \<and> vis) (map stable_row (filter (\<lambda>r. RootID r = rid) rs)))" for vis rs
    by (induction rs) (auto simp: assms)
  then show ?thesis by (simp add: page_rows_def listing_def map_sort_by comp_def)
qed

lemma rows_through:
  assumes "unseen rid d d'" and "find_root d rid = Some rt" and "find_root d' rid = Some rt'"
    and "root_CurrentGeneration rt' = root_CurrentGeneration rt" and "\<And>r. sel (stable_row r) = sel r"
  shows "map steady (page_rows sel opts rid d') = map steady (page_rows sel opts rid d)"
proof -
  have "root_LifecycleState rt' = root_LifecycleState rt" "listing d' rid = listing d rid"
    using assms(1-4) by (auto simp: unseen_def)
  with assms(2,3) show ?thesis unfolding steady_rows [of sel, OF assms(5)] by (simp add: rootVisibilityClause_def)
qed

lemma cursor_steady:
  assumes "map steady rs' = map steady rs" and "m \<le> length rs"
  shows "cursor_at rid g rs' m = cursor_at rid g rs m"
proof (cases m)
  case (Suc k)
  from assms have "length rs' = length rs" using map_eq_imp_length_eq by blast
  then have "steady (rs' ! k) = steady (rs ! k)" using assms Suc by (metis Suc_le_lessD nth_map)
  then show ?thesis using Suc steady_fields by (metis (no_types, lifting) cursor_at_def diff_Suc_1)
qed (simp add: cursor_at_def)

section \<open>A client of the listings\<close>

datatype listing_endpoint = ListChildren | ListActive | ListRemoved

definition serve_page ::
  "listing_endpoint \<Rightarrow> (string \<Rightarrow> Cursor option) \<Rightarrow> (Cursor \<Rightarrow> string) \<Rightarrow> http_request \<Rightarrow> db \<Rightarrow> http_answer" where
  "serve_page ep unmarshal marshal r d =
     (case ep of
        ListChildren \<Rightarrow> http_listResources False unmarshal marshal r d
      | ListActive \<Rightarrow> http_listActive False unmarshal marshal r d
      | ListRemoved \<Rightarrow> http_listRemoved False unmarshal marshal r d)"

definition endpoint_options :: "listing_endpoint \<Rightarrow> http_request \<Rightarrow> ReadOptions" where
  "endpoint_options ep r =
     (case ep of
        ListChildren \<Rightarrow> readOptions r
      | ListActive \<Rightarrow> \<lparr>IncludeRemoved = False, IncludeDeprecatedRoot = False, IncludeDeletedRoot = False\<rparr>
      | ListRemoved \<Rightarrow> \<lparr>IncludeRemoved = True, IncludeDeprecatedRoot = True, IncludeDeletedRoot = True\<rparr>)"

definition endpoint_selects :: "listing_endpoint \<Rightarrow> http_request \<Rightarrow> CanonicalResource \<Rightarrow> bool" where
  "endpoint_selects ep r x \<longleftrightarrow>
     (case ep of
        ListChildren \<Rightarrow> (Presence x = ResourcePresent \<or> boolParam r ''include_removed'' \<and> Presence x = ResourceRemoved) \<and>
          ParentResourceID x = (if rq_Query r ''parent_id'' = [] then None else Some (rq_Query r ''parent_id''))
      | ListActive \<Rightarrow> Presence x = ResourcePresent
      | ListRemoved \<Rightarrow> Presence x = ResourceRemoved)"

definition endpoint_rows :: "listing_endpoint \<Rightarrow> http_request \<Rightarrow> db \<Rightarrow> ResourceView list" where
  "endpoint_rows ep r d = page_rows (endpoint_selects ep r) (endpoint_options ep r) (rq_PathValue r ''root_id'') d"

definition with_cursor :: "http_request \<Rightarrow> string \<Rightarrow> http_request" where
  "with_cursor r token = r\<lparr>rq_Query := (rq_Query r)(''cursor'' := token)\<rparr>"

lemma serve_page_form:
  "serve_page ep unmarshal marshal r d =
     (case http_cursor unmarshal r of
        Inl a \<Rightarrow> a
      | Inr cur \<Rightarrow>
          (case listPageInternal False (endpoint_selects ep r) (endpoint_options ep r) (rq_PathValue r ''root_id'') cur (limitParam r) d of
             Inl e \<Rightarrow> http_fail e
           | Inr page \<Rightarrow> writePage marshal page))"
  by (cases ep)
     (simp_all add: serve_page_def http_listResources_def http_listActive_def http_listRemoved_def ListResources_def
       ListActivePage_def ListRemovedPage_def endpoint_selects_def [abs_def] endpoint_options_def present_def [abs_def]
       readOptions_def Let_def cong: sum.case_cong)

lemma with_cursor_simps [simp]:
  "rq_PathValue (with_cursor r t) = rq_PathValue r" "rq_Query (with_cursor r t) ''cursor'' = t"
  "name \<noteq> ''cursor'' \<Longrightarrow> rq_Query (with_cursor r t) name = rq_Query r name"
  by (simp_all add: with_cursor_def)

lemma with_cursor_params [simp]:
  "endpoint_selects ep (with_cursor r t) = endpoint_selects ep r" "endpoint_options ep (with_cursor r t) = endpoint_options ep r"
  "limitParam (with_cursor r t) = limitParam r"
  by (simp_all add: endpoint_selects_def [abs_def] endpoint_options_def readOptions_def boolParam_def limitParam_def int64Param_def
      with_cursor_def split: listing_endpoint.splits)

text \<open>What is relied on of the JSON codec: it keeps the cursors that it encodes and never yields the empty
  text.\<close>

definition codec_ok :: "(string \<Rightarrow> Cursor option) \<Rightarrow> (Cursor \<Rightarrow> string) \<Rightarrow> bool" where
  "codec_ok unmarshal marshal \<longleftrightarrow> (\<forall>c. unmarshal (marshal c) = Some c \<and> marshal c \<noteq> [])"

lemma token_roundtrip: "codec_ok unmarshal marshal \<Longrightarrow> decodeCursor unmarshal (encodeCursor marshal cur) = Some cur"
  by (cases cur) (simp_all add: codec_ok_def encodeCursor_def decodeCursor_def b64_roundtrip b64_encode_empty)

lemma token_empty: "codec_ok unmarshal marshal \<Longrightarrow> encodeCursor marshal cur = [] \<longleftrightarrow> cur = None"
  by (cases cur) (simp_all add: codec_ok_def encodeCursor_def b64_encode_empty)

text \<open>The token after the first \<open>m\<close> rows of an endpoint, and the page that it asks for.\<close>

definition token_at :: "(Cursor \<Rightarrow> string) \<Rightarrow> http_request \<Rightarrow> int \<Rightarrow> ResourceView list \<Rightarrow> nat \<Rightarrow> string" where
  "token_at marshal r g rs m = encodeCursor marshal (cursor_at (rq_PathValue r ''root_id'') g rs m)"

lemma token_start [simp]: "token_at marshal r g rs 0 = []"
  by (simp add: token_at_def cursor_at_def encodeCursor_def)

lemma token_at_empty: "codec_ok unmarshal marshal \<Longrightarrow> token_at marshal r g rs m = [] \<longleftrightarrow> m = 0"
  by (simp add: token_at_def token_empty cursor_at_def)

lemma serve_at:
  assumes codec: "codec_ok unmarshal marshal"
    and "distinct (ids d)" and "find_root d (rq_PathValue r ''root_id'') = Some rt" and "m \<le> length (endpoint_rows ep r d)"
  shows "serve_page ep unmarshal marshal (with_cursor r (token_at marshal r (root_CurrentGeneration rt) (endpoint_rows ep r d) m)) d =
    writeJSON 200 (PageBody (map toResourceDTO (take (page_size (limitParam r)) (drop m (endpoint_rows ep r d))))
      (if m + page_size (limitParam r) \<le> length (endpoint_rows ep r d)
       then token_at marshal r (root_CurrentGeneration rt) (endpoint_rows ep r d) (m + page_size (limitParam r)) else []))"
  using page_at [OF page_rows_strict [OF assms(2)] assms(3), of m "endpoint_selects ep r" "endpoint_options ep r" "limitParam r"] assms(4)
  by (simp add: serve_page_form http_cursor_def token_at_def token_roundtrip [OF codec] writePage_def endpoint_rows_def encodeCursor_def [of _ None])

text \<open>A client that follows the cursors, its pages served from one state of the database after the other.\<close>

fun browse :: "(http_request \<Rightarrow> db \<Rightarrow> http_answer) \<Rightarrow> http_request \<Rightarrow> db list \<Rightarrow> string \<Rightarrow> resourceDTO list option" where
  "browse serve r [] token = None"
| "browse serve r (d # ds) token =
     (case an_Body (serve (with_cursor r token) d) of
        PageBody items nxt \<Rightarrow>
          if nxt = [] then Some items else map_option ((@) items) (browse serve r ds nxt)
      | _ \<Rightarrow> None)"

lemma map_take_drop: "map f (drop m xs) = map f (take k (drop m xs)) @ map f (drop (m + k) xs)"
  unfolding map_append [symmetric] by (metis add.commute append_take_drop_id drop_drop)

lemma browse_from:
  assumes codec: "codec_ok unmarshal marshal"
    and "distinct (ids d)" and "find_root d (rq_PathValue r ''root_id'') = Some rt" and "m \<le> length (endpoint_rows ep r d)"
    and "length (endpoint_rows ep r d) - m < n"
  shows "browse (serve_page ep unmarshal marshal) r (replicate n d)
      (token_at marshal r (root_CurrentGeneration rt) (endpoint_rows ep r d) m)
    = Some (map toResourceDTO (drop m (endpoint_rows ep r d)))"
  using assms(4,5)
proof (induction n arbitrary: m)
  case (Suc n)
  let ?rs = "endpoint_rows ep r d" and ?k = "page_size (limitParam r)"
  note page = serve_at [OF codec assms(2,3) Suc(2)]
  show ?case
  proof (cases "m + ?k \<le> length ?rs")
    case True
    have k: "0 < ?k" by simp
    then have "length ?rs - (m + ?k) < n" using True Suc(3) by linarith
    note rest = Suc.IH [OF True this]
    show ?thesis using True rest k
      by (simp add: page writeJSON_def token_at_empty [OF codec] map_take_drop [of _ m _ ?k])
  qed (simp add: page writeJSON_def)
qed simp

text \<open>The steps between the pages do not matter as long as every page is served.\<close>

definition dt_steady :: "resourceDTO \<Rightarrow> resourceDTO" where
  "dt_steady x = x\<lparr>dt_LastConfirmedGeneration := 0\<rparr>"

lemma dt_steady_DTO: "dt_steady (toResourceDTO v) = toResourceDTO (steady v)"
  by (simp add: dt_steady_def toResourceDTO_def steady_def)

lemma endpoint_selects_stable [simp]: "endpoint_selects ep r (stable_row x) = endpoint_selects ep r x"
  by (simp add: endpoint_selects_def split: listing_endpoint.splits)

lemma serve_stale:
  assumes "codec_ok unmarshal marshal" and "0 < m" and "find_root d (rq_PathValue r ''root_id'') = Some rt"
    and "root_CurrentGeneration rt \<noteq> g"
  shows "an_Body (serve_page ep unmarshal marshal (with_cursor r (token_at marshal r g rs m)) d)
    = ErrorBody ''stale_cursor'' ''cursor generation is no longer current''"
  using assms(2-4)
  by (simp add: serve_page_form http_cursor_def token_at_def token_roundtrip [OF assms(1)] cursor_at_def listPageInternal_def
      http_fail_def writeError_def writeJSON_def)

lemma page_through:
  assumes codec: "codec_ok unmarshal marshal" and d0: "reachable d0"
    and rt: "find_root d0 (rq_PathValue r ''root_id'') = Some rt" and steps: "pstep\<^sup>*\<^sup>* d0 d"
    and m: "m \<le> length (endpoint_rows ep r d0)" and start: "m = 0 \<longrightarrow> d = d0"
    and page: "an_Body (serve_page ep unmarshal marshal
      (with_cursor r (token_at marshal r (root_CurrentGeneration rt) (endpoint_rows ep r d0) m)) d) = PageBody items nxt"
  shows "map dt_steady items = map (\<lambda>v. dt_steady (toResourceDTO v)) (take (page_size (limitParam r)) (drop m (endpoint_rows ep r d0)))"
    and "nxt = (if m + page_size (limitParam r) \<le> length (endpoint_rows ep r d0)
      then token_at marshal r (root_CurrentGeneration rt) (endpoint_rows ep r d0) (m + page_size (limitParam r)) else [])"
proof -
  let ?rid = "rq_PathValue r ''root_id''" and ?rs = "endpoint_rows ep r"
  have unseen: "unseen ?rid d0 d" and unique: "distinct (ids d)" using psteps_rows [OF steps d0 reachable_ids [OF d0]] by blast+
  then obtain rt' where rt': "find_root d ?rid = Some rt'" using rt by (auto simp: unseen_def)
  have g: "root_CurrentGeneration rt' = root_CurrentGeneration rt"
  proof (cases "m = 0")
    case False
    then show ?thesis using serve_stale [OF codec _ rt', of m] page by fastforce
  qed (use start rt rt' in simp)
  have same: "map steady (?rs d) = map steady (?rs d0)"
    using rows_through [OF unseen rt rt' g] by (simp add: endpoint_rows_def)
  then have len: "length (?rs d) = length (?rs d0)" by (rule map_eq_imp_length_eq)
  have token: "token_at marshal r x (?rs d) k = token_at marshal r x (?rs d0) k" if "k \<le> length (?rs d0)" for x k
    using cursor_steady [OF same that] by (simp add: token_at_def)
  have body: "PageBody items nxt = PageBody (map toResourceDTO (take (page_size (limitParam r)) (drop m (?rs d))))
      (if m + page_size (limitParam r) \<le> length (?rs d0)
       then token_at marshal r (root_CurrentGeneration rt) (?rs d0) (m + page_size (limitParam r)) else [])"
    using page serve_at [OF codec unique rt', of m ep] m by (simp add: token g len writeJSON_def split: if_splits)
  then show "nxt = (if m + page_size (limitParam r) \<le> length (?rs d0)
      then token_at marshal r (root_CurrentGeneration rt) (?rs d0) (m + page_size (limitParam r)) else [])" by simp
  have "map dt_steady items = map toResourceDTO (take (page_size (limitParam r)) (drop m (map steady (?rs d))))"
    using body by (simp add: dt_steady_DTO take_map drop_map)
  then show "map dt_steady items = map (\<lambda>v. dt_steady (toResourceDTO v)) (take (page_size (limitParam r)) (drop m (?rs d0)))"
    by (simp add: same dt_steady_DTO take_map drop_map)
qed

lemma browse_through:
  assumes codec: "codec_ok unmarshal marshal" and d0: "reachable d0"
    and rt: "find_root d0 (rq_PathValue r ''root_id'') = Some rt"
    and "successively (\<lambda>a b. pstep\<^sup>*\<^sup>* a b) (d0 # ds)" and "m \<le> length (endpoint_rows ep r d0)"
    and "m = 0 \<longrightarrow> (case ds of [] \<Rightarrow> True | d # _ \<Rightarrow> d = d0)"
    and "browse (serve_page ep unmarshal marshal) r ds (token_at marshal r (root_CurrentGeneration rt) (endpoint_rows ep r d0) m)
      = Some items"
  shows "map dt_steady items = map (\<lambda>v. dt_steady (toResourceDTO v)) (drop m (endpoint_rows ep r d0))"
  using assms(4-7)
proof (induction ds arbitrary: m items)
  case (Cons d ds)
  let ?k = "page_size (limitParam r)" and ?rs = "endpoint_rows ep r d0"
  let ?token = "token_at marshal r (root_CurrentGeneration rt) ?rs"
  from Cons.prems(4) obtain page nxt where
    page: "an_Body (serve_page ep unmarshal marshal (with_cursor r (?token m)) d) = PageBody page nxt"
    and rest: "Some items = (if nxt = [] then Some page else map_option ((@) page) (browse (serve_page ep unmarshal marshal) r ds nxt))"
    by (simp split: http_body.splits)
  have steps: "pstep\<^sup>*\<^sup>* d0 d" using Cons.prems(1) by simp
  have start: "m = 0 \<longrightarrow> d = d0" using Cons.prems(3) by simp
  note served = page_through [OF codec d0 rt steps Cons.prems(2) start page]
  show ?case
  proof (cases "m + ?k \<le> length ?rs")
    case True
    then obtain more_items where more_items: "browse (serve_page ep unmarshal marshal) r ds (?token (m + ?k)) = Some more_items"
      "items = page @ more_items"
      using rest served(2) token_at_empty [OF codec] by (auto simp: eq_commute [of "Some _"])
    have "successively (\<lambda>a b. pstep\<^sup>*\<^sup>* a b) (d0 # ds)"
      using Cons.prems(1) by (cases ds) (auto intro: rtranclp_trans)
    from Cons.IH [OF this True _ more_items(1)] served(1) show ?thesis
      unfolding more_items(2) map_take_drop [of _ m ?rs ?k] by simp
  next
    case False
    then show ?thesis using rest served by simp
  qed
qed simp

section \<open>Sample values\<close>

text \<open>A codec of cursors that stands in for JSON where a concrete one is needed.\<close>

fun quoted :: "string \<Rightarrow> string" where
  "quoted [] = ''.''"
| "quoted (c # s) = CHR '','' # c # quoted s"

fun unquoted :: "string \<Rightarrow> (string \<times> string) option" where
  "unquoted (x # s) =
     (if x = CHR ''.'' then Some ([], s)
      else case s of [] \<Rightarrow> None | c # t \<Rightarrow> map_option (\<lambda>(a, b). (c # a, b)) (unquoted t))"
| "unquoted [] = None"

lemma unquoted_quoted [simp]: "unquoted (quoted s @ t) = Some (s, t)"
  by (induction s) simp_all

definition sample_marshal :: "Cursor \<Rightarrow> string" where
  "sample_marshal c =
     quoted (cu_RootID c) @ quoted (replicate (nat (cu_Generation c)) CHR ''+'') @
     quoted (replicate (nat (- cu_Generation c)) CHR ''-'') @ quoted (if cu_HasAfter c then ''t'' else []) @
     quoted (cu_AfterPath c) @ quoted (cu_AfterResourceID c)"

definition sample_unmarshal :: "string \<Rightarrow> Cursor option" where
  "sample_unmarshal s =
     Option.bind (unquoted s) (\<lambda>(rid, s). Option.bind (unquoted s) (\<lambda>(p, s). Option.bind (unquoted s) (\<lambda>(m, s).
       Option.bind (unquoted s) (\<lambda>(h, s). Option.bind (unquoted s) (\<lambda>(path, s). Option.bind (unquoted s) (\<lambda>(x, s).
         Some \<lparr>cu_RootID = rid, cu_Generation = int (length p) - int (length m), cu_HasAfter = (h \<noteq> []),
               cu_AfterPath = path, cu_AfterResourceID = x\<rparr>))))))"

lemma sample_codec: "codec_ok sample_unmarshal sample_marshal"
proof -
  have "sample_unmarshal (sample_marshal c) = Some c" for c
    using unquoted_quoted [of "cu_AfterResourceID c" "[]"]
    by (simp add: sample_unmarshal_def sample_marshal_def del: unquoted_quoted) simp
  moreover have "sample_marshal c \<noteq> []" for c by (cases "cu_RootID c") (simp_all add: sample_marshal_def)
  ultimately show ?thesis by (simp add: codec_ok_def)
qed

definition sample_listing :: http_request where
  "sample_listing = \<lparr>rq_PathValue = (\<lambda>name. if name = ''root_id'' then ''root'' else []),
     rq_Query = (\<lambda>name. if name = ''limit'' then ''1'' else [])\<rparr>"

text \<open>A database that holds the resource of the sample snapshot.\<close>

lemma sample_populated:
  obtains d where "reachable d" "length (endpoint_rows ListActive sample_listing d) = 1"
    "map_option root_LifecycleState (find_root d ''root'') = Some RootActive"
proof -
  let ?d1 = "advanced True ''root'' 1 ''s2'' 0 (evaluated ''s2'' AcceptanceComplete (Some ShrinkNone) sample_db)"
  let ?apply = "apply_result ''root'' ''s2'' 9000 sample_result 1 ?d1"
  have rows: "case ?apply of Inl _ \<Rightarrow> False
    | Inr d2 \<Rightarrow> list_all (\<lambda>x. RootID x = ''root'' \<and> Presence x = ResourcePresent) (db_resources d2) \<and> length (db_resources d2) = 1"
    by code_simp
  then obtain d2 where d2: "?apply = Inr d2" by (auto split: sum.splits)
  obtain ident where step: "reconcileHeadSafe sample_env (sample_cfg 0 0) ''root'' 1 ''s2'' sample_db
      = Inr (applied_outcome True 0, committed ''root'' 1 ''s2'' 0 ident sample_result
          (evaluated ''s2'' (pr_Acceptance sample_eval) (Some (pr_Corroboration sample_eval)) sample_db) d2)"
    using head_applies [OF reachable_ledger [OF sample_reachable] sample_head sample_live
        sample_eval_def [folded sample_fields(1)], of sample_result d2] d2
    by (simp add: sample_fields sample_decision sample_mutates sample_unapplied sample_acceptance cong: if_cong)
  let ?d = "committed ''root'' 1 ''s2'' 0 ident sample_result
    (evaluated ''s2'' (pr_Acceptance sample_eval) (Some (pr_Corroboration sample_eval)) sample_db) d2"
  have reach: "reachable ?d" using r_reconcile [OF sample_reachable step] .
  have res: "db_resources ?d = db_resources d2" by (simp add: committed_def finish_resources Let_def)
  have root: "map_option root_LifecycleState (find_root ?d ''root'') = Some RootActive"
  proof -
    have "db_roots ?d = db_roots d2"
      by (simp add: committed_def Let_def finish_def insertResult_def SetSnapshotLifecycleState_def SetAdmissionStatus_def
          update_snapshot_def update_admission_def)
    also have "\<dots> = db_roots ?d1" using ledger_fields [OF apply_result_ledger [OF d2]] by blast
    finally have "find_root ?d = find_root ?d1" by (rule find_root_cong)
    moreover have "map_option root_LifecycleState (find_root ?d1 ''root'') = Some RootActive" by code_simp
    ultimately show ?thesis by simp
  qed
  show thesis
  proof (rule that [OF reach _ root])
    show "length (endpoint_rows ListActive sample_listing ?d) = 1" using rows root
      by (auto simp: d2 endpoint_rows_def page_rows_def res endpoint_selects_def rootVisibilityClause_def sample_listing_def list_all_iff)
  qed
qed

section \<open>Claims\<close>

text \<open>
  C12: following the cursors of a listing yields the listing. With a codec that keeps its cursors, a client
  that starts without a cursor and follows every cursor that it is given, for any page size, gets all pages
  within one more request than there are rows: the rows that the endpoint selects of the root, when the root is
  visible, each exactly once, in the order of path and identifier.
\<close>

theorem paging_complete:
  assumes "codec_ok unmarshal marshal" and "reachable d" and "find_root d (rq_PathValue r ''root_id'') = Some rt"
    and "length (endpoint_rows ep r d) < n"
  shows "browse (serve_page ep unmarshal marshal) r (replicate n d) [] = Some (map toResourceDTO (endpoint_rows ep r d)) \<and>
    set (endpoint_rows ep r d) = View ` {x \<in> set (db_resources d). RootID x = rq_PathValue r ''root_id'' \<and>
      endpoint_selects ep r x \<and> rootVisibilityClause (endpoint_options ep r) d (RootID x)} \<and>
    distinct (map vw_ResourceID (endpoint_rows ep r d)) \<and>
    sorted_wrt (\<lambda>a b. page_key a < page_key b) (endpoint_rows ep r d)"
proof -
  note unique = reachable_ids [OF assms(2)]
  have "browse (serve_page ep unmarshal marshal) r (replicate n d) [] = Some (map toResourceDTO (endpoint_rows ep r d))"
    using browse_from [OF assms(1) unique assms(3), of 0 ep n] assms(4) by simp
  moreover have "sorted_wrt (\<lambda>a b. page_key a < page_key b) (endpoint_rows ep r d)"
    using page_rows_strict [OF unique] by (simp add: endpoint_rows_def before_def [abs_def])
  moreover have "set (endpoint_rows ep r d) = View ` {x \<in> set (db_resources d). RootID x = rq_PathValue r ''root_id'' \<and>
      endpoint_selects ep r x \<and> rootVisibilityClause (endpoint_options ep r) d (RootID x)}"
    by (auto simp: endpoint_rows_def page_rows_def)
  ultimately show ?thesis using page_rows_ids [OF unique] by (simp add: endpoint_rows_def)
qed

theorem paging_complete_witness:
  "\<exists>d items. reachable d \<and> browse (serve_page ListActive sample_unmarshal sample_marshal) sample_listing (replicate 2 d) [] = Some items \<and>
     length items = 1"
proof -
  obtain d where d: "reachable d" "length (endpoint_rows ListActive sample_listing d) = 1"
    "map_option root_LifecycleState (find_root d ''root'') = Some RootActive" by (rule sample_populated)
  then obtain rt where "find_root d (rq_PathValue sample_listing ''root_id'') = Some rt" by (auto simp: sample_listing_def)
  from paging_complete [OF sample_codec d(1) this, of ListActive 2] d(1,2) show ?thesis by auto
qed

text \<open>
  C6: a completed listing is a snapshot. While a client follows the cursors of a listing the program may commit
  any number of its transactions between two pages. If every page is answered, then the rows that the client
  collected are the rows of the listing at the first page, up to the generation that last confirmed
  them: no row is lost, doubled or mixed in from a later generation. A page asked for after the
  generation moved is refused as stale.
\<close>

theorem listing_consistent:
  assumes "codec_ok unmarshal marshal" and "reachable d" and "find_root d (rq_PathValue r ''root_id'') = Some rt"
    and "successively (\<lambda>a b. pstep\<^sup>*\<^sup>* a b) (d # ds)"
    and "browse (serve_page ep unmarshal marshal) r (d # ds) [] = Some items"
  shows "map dt_steady items = map (\<lambda>v. dt_steady (toResourceDTO v)) (endpoint_rows ep r d)"
  using browse_through [OF assms(1-3), of "d # ds" 0 ep items] assms(4,5) by simp

theorem listing_consistent_witness:
  "\<exists>d items. reachable d \<and> browse (serve_page ListActive sample_unmarshal sample_marshal) sample_listing [d, d] [] = Some items \<and>
     map dt_steady items = map (\<lambda>v. dt_steady (toResourceDTO v)) (endpoint_rows ListActive sample_listing d)"
proof -
  obtain d where d: "reachable d" "length (endpoint_rows ListActive sample_listing d) = 1"
    "map_option root_LifecycleState (find_root d ''root'') = Some RootActive" by (rule sample_populated)
  then obtain rt where rt: "find_root d (rq_PathValue sample_listing ''root_id'') = Some rt" by (auto simp: sample_listing_def)
  from browse_from [OF sample_codec reachable_ids [OF d(1)] rt, of 0 ListActive 2] d(2)
  obtain items where "browse (serve_page ListActive sample_unmarshal sample_marshal) sample_listing [d, d] [] = Some items"
    by (auto simp: numeral_2_eq_2)
  moreover from listing_consistent [OF sample_codec d(1) rt _ this]
  have "map dt_steady items = map (\<lambda>v. dt_steady (toResourceDTO v)) (endpoint_rows ListActive sample_listing d)" by simp
  ultimately show ?thesis using d(1) by blast
qed

text \<open>
  A path is never resolved to an invented winner. Resolving a path of a visible root answers with every
  present resource at that path and, only when removed ones were asked for, every removed one; each appears
  once, present ones first, and the answer is marked ambiguous exactly when there is more than one. A root whose
  lifecycle state was not asked for yields nothing.
\<close>

theorem resolve_exact:
  assumes "reachable d" and "rq_Query r ''path'' \<noteq> []"
  shows "\<exists>xs ys. http_resolvePath False r d =
      writeJSON 200 (MatchesBody (map (\<lambda>x. toResourceDTO (View x)) (xs @ ys)) (length (xs @ ys) > 1)) \<and>
    distinct (map ResourceID (xs @ ys)) \<and>
    set xs = {x \<in> set (db_resources d). RootID x = rq_PathValue r ''root_id'' \<and> CanonicalPath x = Some (rq_Query r ''path'') \<and>
      Presence x = ResourcePresent \<and> rootVisibilityClause (readOptions r) d (RootID x)} \<and>
    set ys = {x \<in> set (db_resources d). RootID x = rq_PathValue r ''root_id'' \<and> CanonicalPath x = Some (rq_Query r ''path'') \<and>
      Presence x = ResourceRemoved \<and> boolParam r ''include_removed'' \<and> rootVisibilityClause (readOptions r) d (RootID x)}"
proof -
  let ?rows = "\<lambda>presence. sort_by (\<lambda>a b. ResourceID a < ResourceID b) (filter (\<lambda>x. RootID x = rq_PathValue r ''root_id'' \<and>
    CanonicalPath x = Some (rq_Query r ''path'') \<and> Presence x = presence \<and>
    rootVisibilityClause (readOptions r) d (rq_PathValue r ''root_id'')) (db_resources d))"
  let ?xs = "?rows ResourcePresent" and ?ys = "if boolParam r ''include_removed'' then ?rows ResourceRemoved else []"
  have inj: "inj_on ResourceID (set (db_resources d))" and rows: "distinct (db_resources d)"
    using reachable_ids [OF assms(1)] by (auto simp: ids_def distinct_map)
  have "distinct (?xs @ ?ys)" using rows by auto
  moreover have "set (?xs @ ?ys) \<subseteq> set (db_resources d)" by auto
  ultimately have "distinct (map ResourceID (?xs @ ?ys))" unfolding distinct_map using inj inj_on_subset by blast
  moreover have "http_resolvePath False r d =
      writeJSON 200 (MatchesBody (map (\<lambda>x. toResourceDTO (View x)) (?xs @ ?ys)) (length (?xs @ ?ys) > 1))"
    using assms(2) by (simp add: http_resolvePath_def ResolvePath_def path_matches_def Let_def readOptions_def comp_def)
  moreover have "set ?xs = {x \<in> set (db_resources d). RootID x = rq_PathValue r ''root_id'' \<and> CanonicalPath x = Some (rq_Query r ''path'') \<and>
      Presence x = ResourcePresent \<and> rootVisibilityClause (readOptions r) d (RootID x)}"
    "set ?ys = {x \<in> set (db_resources d). RootID x = rq_PathValue r ''root_id'' \<and> CanonicalPath x = Some (rq_Query r ''path'') \<and>
      Presence x = ResourceRemoved \<and> boolParam r ''include_removed'' \<and> rootVisibilityClause (readOptions r) d (RootID x)}"
    by auto
  ultimately show ?thesis by (intro exI [of _ ?xs] exI [of _ ?ys] conjI)
qed

definition sample_path :: http_request where
  "sample_path = \<lparr>rq_PathValue = (\<lambda>name. ''root''), rq_Query = (\<lambda>name. if name = ''path'' then ''/a'' else [])\<rparr>"

theorem resolve_exact_witness:
  "\<exists>xs ys. http_resolvePath False sample_path sample_db =
     writeJSON 200 (MatchesBody (map (\<lambda>x. toResourceDTO (View x)) (xs @ ys)) (length (xs @ ys) > 1)) \<and> ys = []"
proof -
  have "rq_Query sample_path ''path'' \<noteq> []" "\<not> boolParam sample_path ''include_removed''" by code_simp+
  with resolve_exact [OF sample_reachable this(1)] show ?thesis by auto
qed

end
