(* ===== verification/CycleProps.thy ===== *)
theory CycleProps
  imports ExecProps
begin

text \<open>
  The cycles above the executor. A cycle is bounded, accounts for every item, and names the roots of the
  items that it leaves in flight; the runtime recovers those, so that a pass that lets it go on leaves no
  item in flight. The serial cycle and the read pool are used through one contract.
\<close>

section \<open>The contract of an executor\<close>

text \<open>An item in flight when the invocation returns: its completion failed, or the context ended.\<close>

definition unsettled :: "exec_error \<Rightarrow> bool" where
  "unsettled e \<longleftrightarrow> (\<exists>c. e = ErrCompletionFailed c) \<or> (\<exists>c. e = ErrContext c)"

text \<open>What a cycle relies on. The flag stands for the conditions on the surroundings, the contexts for those
  of the cycle: a context error is reported only once the cycle's context has ended.\<close>

locale one_shot =
  fixes one :: "nat \<Rightarrow> 's \<Rightarrow> db \<Rightarrow> (exec_Result \<times> exec_error option) \<times> 's \<times> db"
    and ctx :: "nat \<Rightarrow> item_ctx"
    and fair :: bool
  assumes selects: "one k s d = ((item, err), s', d') \<Longrightarrow> err = None \<or> (\<exists>c. err = Some (ErrScannerFailed c)) \<Longrightarrow>
      xr_Selected item"
    and settles: "fair \<Longrightarrow> idle d \<Longrightarrow> one k s d = ((item, err), s', d') \<Longrightarrow>
      healthy d' \<and> (\<forall>x key. busy d' (x, key) \<longrightarrow> (\<exists>e. err = Some e \<and> unsettled e) \<and> xr_Selected item \<and>
        x = xr_RootID item \<and> 0 < xr_ClaimedSignalSeq item)"
    and honest: "fair \<Longrightarrow> one k s d = ((item, Some e), s', d') \<Longrightarrow> context_error e \<Longrightarrow> ic_cycle_after (ctx k)"

text \<open>What the orchestration and the runtime rely on: whenever a cycle ends without an error or with that of
  a context, every item still in flight belongs to a root that the result names for recovery; and a cycle
  that lost a race for an item leaves nothing in flight.\<close>

definition tame :: "exec_error option \<Rightarrow> bool" where
  "tame e = (case e of None \<Rightarrow> True | Some x \<Rightarrow> context_error x)"

definition contended :: "CycleResult \<Rightarrow> exec_error option \<Rightarrow> bool" where
  "contended r e \<longleftrightarrow> cy_StopReason r = StopStaleSelection \<or> e = Some ErrStaleSelection"

definition reported :: "CycleResult \<Rightarrow> db \<Rightarrow> bool" where
  "reported r d \<longleftrightarrow> (\<forall>x key. busy d (x, key) \<longrightarrow> cy_InterruptedInFlight r \<and> x \<in> set (interrupted_roots r))"

locale cycle_runner =
  fixes exec :: "CycleConfig \<Rightarrow> 's \<Rightarrow> db \<Rightarrow> ((CycleResult \<times> exec_error option) \<times> 's \<times> db) option"
    and fair :: bool
  assumes reports: "fair \<Longrightarrow> idle d \<Longrightarrow> exec cfg s d = Some ((r, e), s', d') \<Longrightarrow>
      healthy d' \<and> (tame e \<longrightarrow> reported r d') \<and> (contended r e \<longrightarrow> idle d')"

lemma idle_reported: "idle d \<Longrightarrow> reported r d"
  by (simp add: idle_def reported_def)

section \<open>The serial cycle meets its contract\<close>

context one_shot
begin

lemma loop_ends:
  assumes "nat (cc_MaxItems cfg - cy_SelectedItems res) < fuel"
  shows "\<exists>out. cycle_loop fuel cfg ctx one k res s d = Some out"
  using assms
proof (induction fuel arbitrary: k res s d)
  case (Suc fuel)
  obtain item err s' d' where one: "one k s d = ((item, err), s', d')" by (metis prod.collapse)
  show ?case
  proof (cases "boundary cfg (ctx k) res")
    case None
    then have more: "cy_SelectedItems res < cc_MaxItems cfg" by (auto simp: boundary_def split: option.splits if_splits)
    show ?thesis
    proof (cases "classify (ctx k) item err (count_item item res)")
      case (Continue res')
      then have "err = None \<or> (\<exists>c. err = Some (ErrScannerFailed c))"
        by (auto simp: classify_def Let_def is_scanner_failure_def split: option.splits if_splits ErrorClass.splits exec_error.splits)
      from selects [OF one this] have "cy_SelectedItems res' = cy_SelectedItems res + 1"
        using Continue by (auto simp: classify_def Let_def count_item_def split: option.splits if_splits ErrorClass.splits)
      then have "nat (cc_MaxItems cfg - cy_SelectedItems res') < fuel" using Suc.prems more by linarith
      from Suc.IH [OF this] show ?thesis using None one Continue by simp
    qed (use None one in simp)
  qed simp
qed simp

text \<open>At the head of the loop every selected item has been counted as succeeded or failed.\<close>

definition balanced :: "CycleConfig \<Rightarrow> CycleResult \<Rightarrow> bool" where
  "balanced cfg r \<longleftrightarrow> 0 \<le> cy_Succeeded r \<and> 0 \<le> cy_Failed r \<and> cy_SelectedItems r = cy_Succeeded r + cy_Failed r \<and>
     cy_Invocations r = cy_SelectedItems r \<and> cy_SelectedItems r \<le> cc_MaxItems cfg \<and> cy_InterruptedRoots r = [] \<and>
     \<not> cy_InterruptedInFlight r"

lemma loop_counts:
  assumes "cycle_loop fuel cfg ctx one k res s d = Some ((r, e), s', d')" and "balanced cfg res"
  shows "0 \<le> cy_Succeeded r \<and> 0 \<le> cy_Failed r \<and> cy_Succeeded r + cy_Failed r \<le> cy_SelectedItems r \<and>
    cy_SelectedItems r \<le> cy_Succeeded r + cy_Failed r + 1 \<and> cy_SelectedItems r \<le> cy_Invocations r \<and>
    cy_Invocations r \<le> cc_MaxItems cfg \<and>
    (cy_StopReason r = StopMaxItems \<longrightarrow> cy_Succeeded r + cy_Failed r = cc_MaxItems cfg)"
  using assms
proof (induction fuel arbitrary: k res s d)
  case (Suc fuel)
  obtain item err s1 d1 where one: "one k s d = ((item, err), s1, d1)" by (metis prod.collapse)
  show ?case
  proof (cases "boundary cfg (ctx k) res")
    case (Some out)
    then show ?thesis
      using Suc.prems by (auto simp: boundary_def stop_def balanced_def split: option.splits if_splits)
  next
    case None
    then have more: "cy_SelectedItems res < cc_MaxItems cfg" by (auto simp: boundary_def split: option.splits if_splits)
    show ?thesis
    proof (cases "classify (ctx k) item err (count_item item res)")
      case (Continue res')
      then have "err = None \<or> (\<exists>c. err = Some (ErrScannerFailed c))"
        by (auto simp: classify_def Let_def is_scanner_failure_def split: option.splits if_splits ErrorClass.splits exec_error.splits)
      from selects [OF one this] have "balanced cfg res'"
        using Continue Suc.prems(2) more
        by (auto simp: classify_def Let_def count_item_def balanced_def split: option.splits if_splits ErrorClass.splits)
      then show ?thesis using Suc.IH [of "Suc k" res' s1 d1] Suc.prems(1) None one Continue by simp
    next
      case (Finish res' e')
      then have "r = res'" using Suc.prems(1) None one by simp
      moreover have "xr_Selected item" if "err = Some x" "is_scanner_failure x" for x
        using selects [OF one] that by (auto simp: is_scanner_failure_def split: exec_error.splits)
      ultimately show ?thesis
        using Finish Suc.prems(2) more
        by (auto simp: classify_def Let_def count_item_def balanced_def stop_def split: option.splits if_splits ErrorClass.splits)
    qed
  qed
qed simp

text \<open>An item left in flight is the last one of the cycle, and its root is named.\<close>

lemma finish_reported:
  assumes fair "idle d" and one: "one k s d = ((item, err), s', d')"
    and "classify (ctx k) item err (count_item item res) = Finish r e" and "cy_InterruptedRoots res = []"
  shows "healthy d' \<and> (tame e \<longrightarrow> reported r d') \<and> (contended r e \<longrightarrow> idle d')"
proof -
  note settled = settles [OF assms(1,2) one]
  have "cy_InterruptedInFlight r \<and> x \<in> set (interrupted_roots r)" if tame: "tame e" and busy: "busy d' (x, key)" for x key
  proof -
    obtain e' where e': "err = Some e'" "unsettled e'" "xr_Selected item" "x = xr_RootID item" "0 < xr_ClaimedSignalSeq item"
      using settled busy by blast
    have "x \<noteq> []" using busy_root [OF _ busy] settled by (auto simp: healthy_def)
    moreover have "\<not> context_error e' \<or> ic_cycle_after (ctx k)" using honest [OF assms(1) one [unfolded e'(1)]] by blast
    ultimately show ?thesis
      using assms(4,5) e' tame
      by (auto simp: classify_def Let_def count_item_def stop_def interrupted_roots_def unsettled_def tame_def
          is_scanner_failure_def split: option.splits if_splits)
  qed
  moreover have "idle d'" if "contended r e"
    using that assms(4) settled
    by (auto simp: contended_def classify_def Let_def count_item_def stop_def unsettled_def idle_def
        is_scanner_failure_def split: option.splits if_splits ErrorClass.splits exec_error.splits)
  ultimately show ?thesis using settled by (simp add: reported_def)
qed

lemma loop_settled:
  assumes "cycle_loop fuel cfg ctx one k res s d = Some ((r, e), s', d')" and fair and "idle d"
    and "cy_InterruptedRoots res = []"
  shows "healthy d' \<and> (tame e \<longrightarrow> reported r d') \<and> (contended r e \<longrightarrow> idle d')"
  using assms
proof (induction fuel arbitrary: k res s d)
  case (Suc fuel)
  obtain item err s1 d1 where one: "one k s d = ((item, err), s1, d1)" by (metis prod.collapse)
  show ?case
  proof (cases "boundary cfg (ctx k) res")
    case (Some out)
    then show ?thesis using Suc.prems idle_reported by (auto simp: idle_def)
  next
    case None
    show ?thesis
    proof (cases "classify (ctx k) item err (count_item item res)")
      case (Continue res')
      then have "err = None \<or> (\<exists>c. err = Some (ErrScannerFailed c))" "cy_InterruptedRoots res' = []"
        using Suc.prems(4)
        by (auto simp: classify_def Let_def is_scanner_failure_def count_item_def
            split: option.splits if_splits ErrorClass.splits exec_error.splits)
      then have "idle d1" "cy_InterruptedRoots res' = []"
        using settles [OF Suc.prems(2,3) one] by (auto simp: idle_def unsettled_def)
      then show ?thesis using Suc.IH [of "Suc k" res' s1 d1] Suc.prems(1,2) None one Continue by simp
    next
      case (Finish res' e')
      then have "r = res'" "e = e'" "d' = d1" using Suc.prems(1) None one by simp_all
      then show ?thesis using finish_reported [OF Suc.prems(2,3) one Finish Suc.prems(4)] by simp
    qed
  qed
qed simp

lemma Run_settled:
  assumes "Run fuel cfg prepare ctx one s d = Some ((r, e), s', d')" and fair and "idle d"
  shows "healthy d' \<and> (tame e \<longrightarrow> reported r d') \<and> (contended r e \<longrightarrow> idle d')"
  using assms idle_reported loop_settled
  by (auto simp: Run_def idle_def no_cycle_def split: sum.splits)

end

text \<open>The cycle over an executor that meets its contract meets that of a cycle.\<close>

sublocale one_shot \<subseteq> run: cycle_runner "\<lambda>cfg. Run (fuel cfg) cfg prepare ctx one" fair for fuel prepare
  by unfold_locales (rule Run_settled)

section \<open>Calls that leave every claim as it is\<close>

lemma idle_calm: "calm g \<Longrightarrow> idle d \<Longrightarrow> idle (g d)"
  by (simp add: idle_def calm_def)

context work_step
begin

lemma call_calm:
  assumes "\<And>d r d'. state_ok d \<Longrightarrow> tx d = (Inr r, d') \<Longrightarrow> marks d' = marks d"
    and "\<And>d e d'. tx d = (Inl e, d') \<Longrightarrow> d' = d"
  shows "calm (\<lambda>d. snd (store_call f tx d))"
proof -
  have "marks (snd (tx d)) = marks d" if "state_ok d" for d
    using assms(1) [OF that] assms(2) [of d] by (cases "tx d"; cases "fst (tx d)") fastforce+
  then show ?thesis
    using call_healthy by (auto simp: calm_def store_call_def healthy_def split: fault.splits)
qed

end

lemma emit_calm: "calm (\<lambda>d. snd (store_call f (whole (EmitDuePoll rid key ver now)) d))"
  by (rule emit_poll.call_calm) (auto simp: whole_def split: sum.splits dest: EmitDuePoll_marks)

lemma retry_calm: "calm (\<lambda>d. snd (store_call f (whole (RetryReady rid key ver now)) d))"
  by (rule retry_ready.call_calm) (auto simp: whole_def split: sum.splits dest: RetryReady_marks)

lemma calm_call:
  assumes "calm (\<lambda>d. snd (g d))" "g d = (r, d')" "idle d"
  shows "idle d'"
  using idle_calm [OF assms(1,3)] assms(2) by simp

lemma emit_loop_idle:
  assumes "emit_loop ev k ws res d = ((res', out), d')" and "idle d" and "\<And>k. calm (oe_others ev k)"
  shows "idle d' \<and> or_Executor res' = or_Executor res \<and> (\<forall>a. out = Some a \<longrightarrow> or_Executor (fst a) = or_Executor res)"
  using assms(1,2)
proof (induction ws arbitrary: k res d)
  case (Cons w ws)
  let ?call = "store_call (oe_emit ev k) (whole (EmitDuePoll (sw_RootID w) (sw_ScopeKey w) (sw_Version w) (oe_observedAt ev)))"
  show ?case
  proof (cases "orch_boundary (oe_emit_before ev k) res")
    case None
    obtain r d1 where r: "?call (oe_others ev k d) = (r, d1)" by fastforce
    have "idle d1" by (rule calm_call [OF emit_calm r]) (rule idle_calm [OF assms(3) Cons.prems(2)])
    then show ?thesis
      using Cons.prems(1) Cons.IH [of "Suc k" _ d1] None r
      by (auto simp: Let_def orch_stop_def split: sum.splits if_splits option.splits)
  qed (use Cons.prems in \<open>auto simp: orch_boundary_def orch_stop_def split: option.splits if_splits\<close>)
qed simp

lemma promote_idle:
  assumes "promote_loop faults others now k cs out d = ((out', e), d')" and "idle d" and "\<And>k. calm (others k)"
  shows "idle d'"
  using assms(1,2)
proof (induction cs arbitrary: k out d)
  case (Cons c cs)
  let ?call = "store_call (faults k) (whole (RetryReady (wk_RootID c) (wk_ScopeKey c) (wk_Version c) now))"
  obtain r d1 where r: "?call (others k d) = (r, d1)" by fastforce
  have "idle d1" by (rule calm_call [OF retry_calm r]) (rule idle_calm [OF assms(3) Cons.prems(2)])
  then show ?case
    using Cons.prems(1) Cons.IH [of "Suc k" _ d1] r by (auto simp: Let_def split: sum.splits if_splits)
qed simp

lemma promoteDueRetries_idle:
  assumes "promoteDueRetries cfg lf faults others now d = ((out, e), d')" and "idle d" and "\<And>k. calm (others k)"
  shows "idle d'"
  using assms promote_idle [OF _ assms(2,3)] by (auto simp: promoteDueRetries_def Let_def split: sum.splits)

section \<open>Recovery\<close>

lemma recover_call:
  assumes "store_call f (whole (RecoverStaleInflight rid)) d = (Inr n, d')" and "healthy d"
  shows "healthy d'" "\<not> busy d' (rid, key)" "x \<noteq> rid \<Longrightarrow> marks d' (x, key) = marks d (x, key)"
proof -
  have tx: "RecoverStaleInflight rid d = Inr (n, d')" using assms(1) by (simp add: store_call_Inr)
  have ok: "state_ok d" using assms(2) by (simp add: healthy_def)
  show "healthy d'" using recover_inflight.call_healthy [OF assms(2), of f rid] assms(1) by simp
  show "\<not> busy d' (rid, key)" "x \<noteq> rid \<Longrightarrow> marks d' (x, key) = marks d (x, key)"
    using RecoverStaleInflight_marks [OF ok tx] by auto
qed

lemma recover_roots_clears:
  assumes "recover_roots faults interrupted rs d = (None, d')" and "healthy d"
  shows "healthy d' \<and> (\<forall>x key. busy d' (x, key) \<longrightarrow> busy d (x, key) \<and> x \<notin> set rs)"
  using assms
proof (induction rs arbitrary: d)
  case (Cons rid rs)
  obtain n d1 where call: "store_call (faults rid) (whole (RecoverStaleInflight rid)) d = (Inr n, d1)"
      and rest: "recover_roots faults interrupted rs d1 = (None, d')"
    using Cons.prems(1) by (auto split: if_splits sum.splits prod.splits)
  note r = recover_call [OF call Cons.prems(2)]
  have "busy d1 (x, key) \<Longrightarrow> busy d (x, key) \<and> x \<noteq> rid" for x key
    using r(2) [of key] r(3) [of x key] by (cases "x = rid") auto
  then show ?case using Cons.IH [OF rest r(1)] by auto
qed simp

section \<open>Orchestrations and passes over any cycle\<close>

context cycle_runner
begin

lemma RunCycle_settled:
  assumes "RunCycle cfg ev exec s d = Some ((res, e), s', d')" and fair and "idle d" and "\<And>k. calm (oe_others ev k)"
  shows "healthy d' \<and> (e = None \<longrightarrow> reported (or_Executor res) d') \<and>
    (\<forall>x. e = Some x \<and> isBoundedContention res x \<longrightarrow> idle d')"
proof (cases "idle d'")
  case True
  then show ?thesis using idle_reported by (auto simp: idle_def)
next
  case False
  obtain watches res1 d1 where emit: "emit_loop ev 0 (take (nat (og_MaxDueWatchAttempts cfg)) watches)
      (no_orch\<lparr>or_DueCandidates := int (length watches),
        or_MoreDueWatches := (int (length watches) > og_MaxDueWatchAttempts cfg)\<rparr>) d = ((res1, None), d1)"
    and run: "map_option (\<lambda>(out, s', d''). (executed (oe_run_after ev) res1 out, s', d''))
        (exec \<lparr>cc_ReadWorkers = og_ReadWorkers cfg, cc_MaxItems = og_MaxExecuteItems cfg,
           cc_MaxWallTime = og_MaxWallTime cfg\<rparr> s d1) = Some ((res, e), s', d')"
    using assms(1) False assms(3) emit_loop_idle [OF _ assms(3,4)]
    by (auto simp: RunCycle_def Let_def split: sum.splits option.splits prod.splits)
  have "idle d1" using emit_loop_idle [OF emit assms(3,4)] by simp
  obtain r x where cycle: "exec \<lparr>cc_ReadWorkers = og_ReadWorkers cfg, cc_MaxItems = og_MaxExecuteItems cfg,
      cc_MaxWallTime = og_MaxWallTime cfg\<rparr> s d1 = Some ((r, x), s', d')"
    and answer: "(res, e) = executed (oe_run_after ev) res1 (r, x)"
    using run by auto
  note settled = reports [OF assms(2) \<open>idle d1\<close> cycle]
  have "or_Executor res = r" "e = None \<Longrightarrow> tame x" "e = Some y \<Longrightarrow> isBoundedContention res y \<Longrightarrow> contended r x" for y
    using answer
    by (auto simp: executed_def Let_def orch_boundary_def orch_stop_def tame_def isBoundedContention_def contended_def
        split: option.splits if_splits)
  then show ?thesis using settled by auto
qed

lemma pass_settled:
  assumes "runOnce cfg pe (\<lambda>oc. RunCycle oc ev exec) s d = Some (Passed b c, s', d')" and fair and "idle d"
    and "\<And>k. calm (oe_others ev k)" "\<And>k. calm (pe_promote_others pe k)"
    and "pe_promote_ctx pe = None" "pe_cycle_ctx pe = None"
  shows "idle d'"
proof -
  obtain promo d1 where promo: "promoteDueRetries cfg (pe_promote_list pe) (pe_promote pe) (pe_promote_others pe) (pe_now pe) d
      = ((promo, None), d1)"
    using assms(1,6) by (auto simp: runOnce_def split: prod.splits option.splits)
  have d1: "idle d1" by (rule promoteDueRetries_idle [OF promo assms(3,5)])
  obtain res e s2 d2 where cycle: "RunCycle (rc_Cycle cfg) ev exec s d1 = Some ((res, e), s2, d2)"
    using assms(1) promo by (auto simp: runOnce_def split: option.splits)
  note settled = RunCycle_settled [OF cycle assms(2) d1 assms(4)]
  show ?thesis
  proof (cases e)
    case (Some x)
    then have "isBoundedContention res x" "d' = d2"
      using assms(1,7) promo cycle by (auto simp: runOnce_def split: if_splits)
    then show ?thesis using settled Some by simp
  next
    case None
    then have "recover_roots (pe_recover pe) (cy_InterruptedInFlight (or_Executor res))
        (interrupted_roots (or_Executor res)) d2 = (None, d')"
      using assms(1) promo cycle by (auto simp: runOnce_def split: if_splits option.splits prod.splits)
    from recover_roots_clears [OF this] settled None show ?thesis by (auto simp: idle_def reported_def)
  qed
qed

end

section \<open>The executor as an instance\<close>

text \<open>Surroundings in which no call reports a cancellation.\<close>

definition uncut :: "fault \<Rightarrow> bool" where
  "uncut f = (case f of NoFault \<Rightarrow> True | Fault e _ \<Rightarrow> e = None)"

definition untimed :: "exec_env \<Rightarrow> bool" where
  "untimed ev \<longleftrightarrow> xe_ctx ev = None \<and> uncut (xe_read ev) \<and> uncut (xe_claim ev) \<and> uncut (xe_complete ev) \<and>
     (\<forall>f rid c. xe_available ev = Some f \<longrightarrow> f rid \<noteq> Inl (CtxErr c))"

definition serial_fair :: "(nat \<Rightarrow> item_ctx) \<Rightarrow> (nat \<Rightarrow> exec_env) \<Rightarrow> bool" where
  "serial_fair ctx evs \<longleftrightarrow> (\<forall>k. calm_env (evs k) \<and> xe_claim (evs k) = NoFault \<and>
     (untimed (evs k) \<or> ic_cycle_after (ctx k)))"

lemma uncut_call: "store_call f tx d = (Inl c, d') \<Longrightarrow> uncut f \<Longrightarrow> \<not> is_ctx c"
  by (auto simp: store_call_def uncut_def is_ctx_def cause_of_def map_sum_def split: fault.splits sum.splits)

lemma ready_loop_untimed:
  assumes "\<And>rid x. f rid \<noteq> Inl (CtxErr x)"
  shows "ready_loop n f now d ex found cls cursor = (Inl c, cursor') \<Longrightarrow> \<not> is_ctx c"
proof (induction n arbitrary: ex found cls cursor)
  case (Suc n)
  then show ?case
    using assms by (fastforce simp: Let_def is_ctx_def split: option.splits sum.splits if_splits cause.splits)
qed simp

lemma select_item_untimed:
  assumes "select_item cfg ev pl d = (Inl c, pl')" and "untimed ev"
  shows "\<not> is_ctx c"
  using assms
  by (auto simp: select_item_def untimed_def uncut_def cause_of_def is_ctx_def readySelection_def
      split: fault.splits sum.splits prod.splits option.splits cause.splits dest!: ready_loop_untimed [rotated])

lemma completeFailure_untimed:
  assumes "completeFailure cfg ev res wk cls d = ((res', Some e), d')" and "untimed ev"
  shows "\<not> context_error e"
  using assms by (auto simp: completeFailure_def Let_def context_error_def untimed_def split: sum.splits prod.splits dest: uncut_call)

lemma complete_success_untimed:
  assumes "complete_success cfg ev wk mirror children d = (Inl c, d')" and "untimed ev"
  shows "\<not> is_ctx c"
  using assms by (auto simp: complete_success_def Let_def untimed_def map_sum_def split: sum.splits prod.splits if_splits dest: uncut_call)

lemma completeScan_untimed:
  assumes "completeScan cfg ev res wk scanned d = ((res', Some e), d')" and "untimed ev"
  shows "\<not> context_error e"
  using assms completeFailure_untimed [OF _ assms(2)] complete_success_untimed [OF _ assms(2)]
  by (auto simp: completeScan_def Let_def untimed_def context_error_def
      split: sum.splits prod.splits if_splits option.splits)

lemma claimSelected_untimed:
  assumes "claimSelected f w cls now pl d = ((res, Inl e), pl', d')" and "uncut f"
  shows "\<not> context_error e"
  using assms
  by (auto simp: claimSelected_def Let_def context_error_def split: sum.splits prod.splits if_splits option.splits dest: uncut_call)

lemma ExecuteOne_untimed:
  assumes "ExecuteOne cfg ev pl d = ((res, Some e), pl', d')" and "untimed ev"
  shows "\<not> context_error e"
proof (cases "exec_Validate cfg")
  case (Inl x)
  then have "x = ErrInvalidConfig" by (auto simp: exec_Validate_def retry_Validate_def split: if_splits)
  then show ?thesis using assms(1) Inl by (auto simp: ExecuteOne_def context_error_def)
next
  case (Inr _)
  have "uncut (xe_claim ev)" using assms(2) by (simp add: untimed_def)
  then show ?thesis
    using assms Inr select_item_untimed [OF _ assms(2)] claimSelected_untimed completeScan_untimed [OF _ assms(2)]
    by (auto simp: ExecuteOne_def scan_and_complete_def context_error_def
        split: sum.splits prod.splits option.splits)
qed

text \<open>An invocation that answers for an item has selected it, whatever the surroundings.\<close>

lemma completeScan_selected:
  assumes "completeScan cfg ev res wk scanned d = ((res', err), d')"
  shows "xr_Selected res' = xr_Selected res"
  using assms
  by (auto simp: completeScan_def completeFailure_def Let_def split: sum.splits prod.splits if_splits option.splits)

lemma ExecuteOne_selected:
  assumes "ExecuteOne cfg ev pl d = ((res, err), pl', d')" and "err = None \<or> (\<exists>c. err = Some (ErrScannerFailed c))"
  shows "xr_Selected res"
  using assms completeScan_selected
  by (auto simp: ExecuteOne_def scan_and_complete_def exec_Validate_def retry_Validate_def claimSelected_def
      selected_result_def Let_def split: sum.splits prod.splits option.splits if_splits)

lemma ExecuteOne_settles:
  assumes "serial_fair ctx evs" and "idle d" and step: "ExecuteOne xc (evs k) pl d = ((item, err), pl', d')"
  shows "healthy d' \<and> (\<forall>x key. busy d' (x, key) \<longrightarrow> (\<exists>e. err = Some e \<and> unsettled e) \<and> xr_Selected item \<and>
      x = xr_RootID item \<and> 0 < xr_ClaimedSignalSeq item)"
proof -
  have effect: "exec_effect xc (evs k) d item err d'" and claim: "xe_claim (evs k) = NoFault"
    using ExecuteOne_effect [OF _ _ step] assms(1,2) by (auto simp: serial_fair_def idle_def)
  have "(\<exists>e. err = Some e \<and> unsettled e) \<and> xr_Selected item \<and> x = xr_RootID item \<and> 0 < xr_ClaimedSignalSeq item"
    if busy: "busy d' (x, key)" for x key
  proof -
    have free: "\<not> busy d (x, key)" using assms(2) by (simp add: idle_def)
    with busy have "marks d' (x, key) \<noteq> marks d (x, key)" by auto
    then have item: "(x, key) = item_of item" "marks d' \<noteq> marks d" "d' \<noteq> d" using effect by (auto simp: exec_effect_def)
    with busy effect claim show ?thesis by (auto simp: exec_effect_def unsettled_def item_of_def)
  qed
  then show ?thesis using effect by (simp add: exec_effect_def)
qed

interpretation executor: one_shot "\<lambda>k. ExecuteOne xc (evs k)" ctx "serial_fair ctx evs" for xc evs ctx
proof unfold_locales
  fix k s d item err s' d'
  assume "ExecuteOne xc (evs k) s d = ((item, err), s', d')" "err = None \<or> (\<exists>c. err = Some (ErrScannerFailed c))"
  then show "xr_Selected item" by (rule ExecuteOne_selected)
next
  fix d k s item err s' d'
  assume "serial_fair ctx evs" "idle d" "ExecuteOne xc (evs k) s d = ((item, err), s', d')"
  then show "healthy d' \<and> (\<forall>x key. busy d' (x, key) \<longrightarrow> (\<exists>e. err = Some e \<and> unsettled e) \<and> xr_Selected item \<and>
      x = xr_RootID item \<and> 0 < xr_ClaimedSignalSeq item)" by (rule ExecuteOne_settles)
next
  fix k s d item e s' d'
  assume "serial_fair ctx evs" "ExecuteOne xc (evs k) s d = ((item, Some e), s', d')" "context_error e"
  then show "ic_cycle_after (ctx k)" unfolding serial_fair_def by (metis ExecuteOne_untimed)
qed

interpretation serial: cycle_runner "serial_cycle xc ctx evs" "serial_fair ctx evs" for xc ctx evs
  by unfold_locales (auto simp: serial_cycle_def dest: executor.Run_settled)

end
