(* ===== verification/Pool.thy ===== *)
theory Pool
  imports Cycle Batch
begin

text \<open>
  The read pool (\<open>incrementalexec/read_pool.go\<close>): a cycle that first claims its items, then reads siblings
  of one root together and completes them in order. An item whose claim is not completed when the cycle
  returns is reported by its root. The surroundings of every step are arguments: whether the cycle's
  context has ended there, the clock, the failures of the calls and what other sessions commit. The source
  budget belongs to the scanner and is read off at each fetch.
\<close>

section \<open>State and surroundings\<close>

record poolItem =
  pi_claim :: DirtyScopeWork
  pi_result :: exec_Result
  pi_done :: bool

record ReadPoolRunner =
  pr_workers :: int
  pr_busy :: bool
  pr_cursor :: string
  pr_fallbackUntil :: gotime
  pr_planner :: planner

definition NewReadPoolRunner :: "ExecConfig \<Rightarrow> int \<Rightarrow> ReadPoolRunner option" where
  "NewReadPoolRunner xc n =
     (if n \<noteq> 2 \<and> n \<noteq> 4 \<and> n \<noteq> 8 then None
      else if xc_MaxEntriesPerScope xc \<noteq> 1000 then None
      else Some \<lparr>pr_workers = n, pr_busy = False, pr_cursor = [], pr_fallbackUntil = zero_time,
             pr_planner = \<lparr>pl_cursor = [], pl_window = None\<rparr>\<rparr>)"

record pool_env =
  pv_now :: gotime
  pv_timeout :: duration
  pv_parent :: "ctx_error option"
  pv_claim_ctx :: "nat \<Rightarrow> bool"
  pv_claim :: "nat \<Rightarrow> exec_env"
  pv_group_ctx :: "nat \<Rightarrow> bool"
  pv_batch :: "nat \<Rightarrow> batch_env"
  pv_budget :: "nat \<Rightarrow> Manager option"
  pv_slot :: "nat \<Rightarrow> scan_env"
  pv_step :: "nat \<Rightarrow> exec_env"
  pv_cut :: "nat \<Rightarrow> bool"
  pv_after :: "nat \<Rightarrow> bool"
  pv_failed :: "nat \<Rightarrow> gotime"
  pv_abort_ctx :: "nat \<Rightarrow> ctx_error option"
  pv_abort :: "nat \<Rightarrow> exec_env"

text \<open>The answer of a cycle whose context has ended.\<close>

definition canceled :: "pool_env \<Rightarrow> CycleResult \<Rightarrow> CycleResult \<times> exec_error option" where
  "canceled pv out =
     (case pv_parent pv of
        Some e \<Rightarrow> (stop StopContextCancelled out, Some (exec_error.ErrContext e))
      | None \<Rightarrow> (stop StopMaxWallTime out, None))"

section \<open>Giving claims back\<close>

text \<open>The class of an item: that of its own failed read, otherwise a failure of the provider. The counter
  numbers the completions.\<close>

definition abort_class :: "uuid \<Rightarrow> (string \<times> ScopeFailureKind option) list \<Rightarrow> DirtyScopeWork \<Rightarrow> ErrorClass" where
  "abort_class rid actual w =
     (case map_of (rev actual) (wk_ScopeKey w) of
        Some k \<Rightarrow> if wk_RootID w = rid then MapScopeFailure k else ErrorTransientProvider
      | None \<Rightarrow> ErrorTransientProvider)"

definition hard_failure :: "exec_error option \<Rightarrow> bool" where
  "hard_failure err = (case err of None \<Rightarrow> False | Some e \<Rightarrow> \<not> is_scanner_failure e)"

record aborted =
  ab_items :: "poolItem list"
  ab_out :: CycleResult
  ab_internal :: bool
  ab_error :: "exec_error option"
  ab_count :: nat

fun abort ::
  "ExecConfig \<Rightarrow> pool_env \<Rightarrow> uuid \<Rightarrow> (string \<times> ScopeFailureKind option) list \<Rightarrow> nat \<Rightarrow> poolItem list \<Rightarrow> CycleResult
     \<Rightarrow> bool \<Rightarrow> db \<Rightarrow> aborted \<times> db" where
  "abort xc pv rid actual k [] out internal d =
     (\<lparr>ab_items = [], ab_out = out, ab_internal = internal, ab_error = None, ab_count = k\<rparr>, d)"
| "abort xc pv rid actual k (it # its) out internal d =
     (if pi_done it
      then (case abort xc pv rid actual k its out internal d of
              (a, d') \<Rightarrow> (a\<lparr>ab_items := it # ab_items a\<rparr>, d'))
      else case pv_abort_ctx pv k of
             Some e \<Rightarrow>
               (\<lparr>ab_items = it # its, ab_out = out, ab_internal = internal, ab_error = Some (exec_error.ErrContext e),
                 ab_count = k\<rparr>, d)
           | None \<Rightarrow>
               let cls = abort_class rid actual (pi_claim it)
               in (case completeFailure xc (pv_abort pv k) (pi_result it) (pi_claim it) cls
                         (xe_before_complete (pv_abort pv k) d) of
                     ((res, err), d1) \<Rightarrow>
                       let out = out\<lparr>cy_Last := res\<rparr>
                       in if hard_failure err
                          then (\<lparr>ab_items = it # its, ab_out = out, ab_internal = internal, ab_error = err,
                                  ab_count = Suc k\<rparr>, d1)
                          else (case abort xc pv rid actual (Suc k) its (out\<lparr>cy_Failed := cy_Failed out + 1\<rparr>)
                                      (internal \<or> cls = ErrorInternal) d1 of
                                  (a, d') \<Rightarrow> (a\<lparr>ab_items := it\<lparr>pi_done := True\<rparr> # ab_items a\<rparr>, d'))))"

section \<open>Claiming\<close>

definition pool_select ::
  "ExecConfig \<Rightarrow> exec_env \<Rightarrow> nat \<Rightarrow> poolItem list \<Rightarrow> ReadPoolRunner \<Rightarrow> db
     \<Rightarrow> (cause + DirtyScopeWork option \<times> string) \<times> ReadPoolRunner" where
  "pool_select xc ev i items p d =
     (case xe_read ev of
        Fault e _ \<Rightarrow> (Inl (cause_of e), p)
      | NoFault \<Rightarrow>
          let (sel, p1) =
            (if i = 1
             then let after = (if pr_cursor p = [] \<and> items \<noteq> [] then wk_RootID (pi_claim (hd items)) else pr_cursor p)
                  in (case NextPoolFairWork d (xe_now ev) after [] of
                        Inl e \<Rightarrow> (Inl e, p)
                      | Inr found \<Rightarrow>
                          (Inr (found, ''POOL_ROOT_FAIR''),
                           (case found of None \<Rightarrow> p | Some w \<Rightarrow> p\<lparr>pr_cursor := wk_RootID w\<rparr>)))
             else (case selectWork xc (xe_now ev) d (pr_planner p) of
                     (r, pl) \<Rightarrow> (r, p\<lparr>pr_planner := pl\<rparr>)))
          in (case sel of
                Inl e \<Rightarrow> (Inl (StoreErr e), p1)
              | Inr s \<Rightarrow>
                  (case readySelection (xe_available ev) (xe_now ev) d s (pr_planner p1) of
                     (r, pl) \<Rightarrow> (r, p1\<lparr>pr_planner := pl\<rparr>))))"

text \<open>The state of a cycle under way, and the answer when it returns.\<close>

record pool_state =
  ps_items :: "poolItem list"
  ps_out :: CycleResult
  ps_runner :: ReadPoolRunner
  ps_count :: nat

type_synonym answer = "CycleResult \<times> exec_error option"

fun claim_loop ::
  "nat \<Rightarrow> ExecConfig \<Rightarrow> pool_env \<Rightarrow> nat \<Rightarrow> pool_state \<Rightarrow> db \<Rightarrow> (answer option \<times> pool_state) \<times> db" where
  "claim_loop 0 xc pv i s d = ((None, s), d)"
| "claim_loop (Suc n) xc pv i s d =
     (if pv_claim_ctx pv i then ((Some (canceled pv (ps_out s)), s), d)
      else
        let ev = pv_claim pv i; out = (ps_out s)\<lparr>cy_Invocations := cy_Invocations (ps_out s) + 1\<rparr>;
            (sel, p1) = pool_select xc ev i (ps_items s) (ps_runner s) d; s1 = s\<lparr>ps_out := out, ps_runner := p1\<rparr>
        in case sel of
             Inl c \<Rightarrow> ((Some (stop StopSystemicError out, Some (ErrSelect c)), s1), d)
           | Inr (None, _) \<Rightarrow> ((None, s1), d)
           | Inr (Some w, cls) \<Rightarrow>
               (case claimSelected (xe_claim ev) w cls (xe_now ev) (pr_planner p1) (xe_before_claim ev d) of
                  ((res, r), pl, d1) \<Rightarrow>
                    let out = out\<lparr>cy_SelectedItems := cy_SelectedItems out + 1, cy_Last := res\<rparr>;
                        s2 = s1\<lparr>ps_out := out, ps_runner := p1\<lparr>pr_planner := pl\<rparr>\<rparr>
                    in (case r of
                          Inr wk \<Rightarrow>
                            claim_loop n xc pv (Suc i)
                              (s2\<lparr>ps_items := ps_items s2 @ [\<lparr>pi_claim = wk, pi_result = res, pi_done = False\<rparr>]\<rparr>) d1
                        | Inl e \<Rightarrow>
                            if e = ErrStaleSelection
                            then (case abort xc pv [] [] (ps_count s2) (ps_items s2) out False d1 of
                                    (a, d2) \<Rightarrow>
                                      let s3 = s2\<lparr>ps_items := ab_items a, ps_out := ab_out a, ps_count := ab_count a\<rparr>
                                      in (case ab_error a of
                                            Some x \<Rightarrow> ((Some (stop StopSystemicError (ab_out a), Some x), s3), d2)
                                          | None \<Rightarrow>
                                              ((Some (stop StopStaleSelection ((ab_out a)\<lparr>cy_Last := res\<rparr>), Some e), s3), d2)))
                            else ((Some (stop StopSystemicError out, Some e), s2), d1))))"

section \<open>Reading and completing\<close>

datatype pool_fail = ScanFail scan_error | ItemFail exec_error

text \<open>The items of a group, by a batch when there is one. The loop ends at the first failure or when the
  context has ended.\<close>

record group_state =
  gs_items :: "poolItem list"
  gs_out :: CycleResult
  gs_fail :: "pool_fail option"
  gs_count :: nat

definition scan_item ::
  "ExecConfig \<Rightarrow> pool_env \<Rightarrow> nat \<Rightarrow> (SameRootPrototype \<times> sameRootBatch) option \<Rightarrow> nat \<Rightarrow> poolItem \<Rightarrow> db
     \<Rightarrow> (scan_error + scan_Result) \<times> (SameRootPrototype \<times> sameRootBatch) option \<times> db" where
  "scan_item xc pv k batch rank it d =
     (case batch of
        None \<Rightarrow>
          (case xe_scan (pv_step pv k) (pi_claim it) (xc_MaxEntriesPerScope xc) d of (r, d') \<Rightarrow> (r, None, d'))
      | Some (p, b) \<Rightarrow>
          (case Commit (pv_slot pv k) p b rank d of (r, b', p', d') \<Rightarrow> (r, Some (p', b'), d')))"

fun item_loop ::
  "ExecConfig \<Rightarrow> pool_env \<Rightarrow> (SameRootPrototype \<times> sameRootBatch) option \<Rightarrow> nat \<Rightarrow> nat \<Rightarrow> poolItem list
     \<Rightarrow> CycleResult \<Rightarrow> db \<Rightarrow> group_state \<times> db" where
  "item_loop xc pv batch rank k [] out d = (\<lparr>gs_items = [], gs_out = out, gs_fail = None, gs_count = k\<rparr>, d)"
| "item_loop xc pv batch rank k (it # its) out d =
     (case scan_item xc pv k batch rank it d of
        (Inl e, _, d1) \<Rightarrow>
          (\<lparr>gs_items = it # its, gs_out = out, gs_fail = Some (ScanFail e), gs_count = Suc k\<rparr>, d1)
      | (Inr res, batch', d1) \<Rightarrow>
          if pv_cut pv k then (\<lparr>gs_items = it # its, gs_out = out, gs_fail = None, gs_count = Suc k\<rparr>, d1)
          else (case completeScan xc (pv_step pv k) (pi_result it) (pi_claim it) (Inr res)
                      (xe_before_complete (pv_step pv k) d1) of
                  ((completed, Some e), d2) \<Rightarrow>
                    (\<lparr>gs_items = it # its, gs_out = out\<lparr>cy_Last := completed\<rparr>, gs_fail = Some (ItemFail e),
                      gs_count = Suc k\<rparr>, d2)
                | ((completed, None), d2) \<Rightarrow>
                    (case item_loop xc pv batch' (Suc rank) (Suc k) its
                            (out\<lparr>cy_Last := completed, cy_Succeeded := cy_Succeeded out + 1\<rparr>) d2 of
                       (g, d3) \<Rightarrow> (g\<lparr>gs_items := it\<lparr>pi_done := True\<rparr> # gs_items g\<rparr>, d3))))"

definition same_directory :: "DirtyScopeWork \<Rightarrow> poolItem \<Rightarrow> bool" where
  "same_directory c it \<longleftrightarrow>
     wk_RootID (pi_claim it) = wk_RootID c \<and> path_dir (wk_ScopeKey (pi_claim it)) = path_dir (wk_ScopeKey c) \<and>
     wk_ScopeKey (pi_claim it) \<noteq> ''/''"

definition group_size :: "int \<Rightarrow> poolItem list \<Rightarrow> nat" where
  "group_size effective items =
     (case items of
        [] \<Rightarrow> 0
      | it # its \<Rightarrow>
          Suc (if effective > 1 \<and> wk_ScopeKey (pi_claim it) \<noteq> ''/''
               then length (takeWhile (same_directory (pi_claim it)) its) else 0))"

text \<open>One group: its state when it stops, or the answer when the prototype cannot be built.\<close>

definition run_group ::
  "ExecConfig \<Rightarrow> pool_env \<Rightarrow> nat \<Rightarrow> int \<Rightarrow> nat \<Rightarrow> poolItem list \<Rightarrow> CycleResult \<Rightarrow> db
     \<Rightarrow> (exec_error + group_state) \<times> db" where
  "run_group xc pv g effective k items out d =
     (if length items \<le> 1
      then (case item_loop xc pv None 0 k items out d of (gs, d') \<Rightarrow> (Inr gs, d'))
      else case NewSameRootPrototype (pv_timeout pv) effective of
             None \<Rightarrow> (Inl (ErrCycle ''same-root prototype''), d)
           | Some p \<Rightarrow>
               let items = sort_by (\<lambda>a b. claim_before (pi_claim a) (pi_claim b)) items
               in (case FetchBatch (pv_batch pv g) (map pi_claim items) p (pv_budget pv g) d of
                     (Inl e, _, _, d1) \<Rightarrow>
                       (Inr \<lparr>gs_items = items, gs_out = out, gs_fail = Some (ScanFail e), gs_count = k\<rparr>, d1)
                   | (Inr b, p', _, d1) \<Rightarrow>
                       (case item_loop xc pv (Some (p', b)) 0 k items out d1 of (gs, d') \<Rightarrow> (Inr gs, d'))))"

text \<open>The failures that a source failure is charged with: those of the batch, or that of the first item.\<close>

definition charged :: "scan_error \<Rightarrow> poolItem list \<Rightarrow> (string \<times> ScopeFailureKind option) list" where
  "charged e items =
     (case se_Batch e of
        Some fs \<Rightarrow> fs
      | None \<Rightarrow> if se_Kind e \<noteq> None then [(wk_ScopeKey (pi_claim (hd items)), se_Kind e)] else [])"

definition source_failure :: "scan_error \<Rightarrow> bool" where
  "source_failure e \<longleftrightarrow> se_Kind e \<noteq> None \<or> se_Batch e \<noteq> None \<or> se_Stale e"

text \<open>What follows a group: the answer, or going on with the remaining items.\<close>

definition after_group ::
  "ExecConfig \<Rightarrow> pool_env \<Rightarrow> nat \<Rightarrow> uuid \<Rightarrow> group_state \<Rightarrow> poolItem list \<Rightarrow> ReadPoolRunner \<Rightarrow> db
     \<Rightarrow> (answer option \<times> bool \<times> poolItem list \<times> poolItem list \<times> CycleResult \<times> ReadPoolRunner \<times> nat) \<times> db" where
  "after_group xc pv g rid gs later p d =
     (let items = gs_items gs; out = gs_out gs; k = gs_count gs
      in if pv_after pv g then ((Some (canceled pv out), False, items, later, out, p, k), d)
         else case gs_fail gs of
           None \<Rightarrow> ((None, False, items, later, out, p, k), d)
         | Some (ItemFail e) \<Rightarrow> ((Some (stop StopSystemicError out, Some e), False, items, later, out, p, k), d)
         | Some (ScanFail e) \<Rightarrow>
             if \<not> source_failure e
             then ((Some (stop StopSystemicError out, Some (ErrScan e)), False, items, later, out, p, k), d)
             else
               let p' = p\<lparr>pr_fallbackUntil := pv_failed pv g + 30 * second\<rparr>;
                   (a, d1) = abort xc pv rid (charged e items) k items out False d
               in (case ab_error a of
                     Some x \<Rightarrow>
                       ((Some (stop StopSystemicError (ab_out a), Some x), True, ab_items a, later, ab_out a, p', ab_count a), d1)
                   | None \<Rightarrow>
                       if \<not> ab_internal a then ((None, True, ab_items a, later, ab_out a, p', ab_count a), d1)
                       else (case abort xc pv [] [] (ab_count a) later (ab_out a) False d1 of
                               (a', d2) \<Rightarrow>
                                 ((Some (case ab_error a' of
                                      Some x \<Rightarrow> (stop StopSystemicError (ab_out a'), Some x)
                                    | None \<Rightarrow> (stop StopInternalItemFailure (ab_out a'), Some (ErrScan e))),
                                   True, ab_items a, ab_items a', ab_out a', p', ab_count a'), d2))))"

function group_loop ::
  "ExecConfig \<Rightarrow> pool_env \<Rightarrow> CycleConfig \<Rightarrow> nat \<Rightarrow> int \<Rightarrow> poolItem list \<Rightarrow> poolItem list \<Rightarrow> CycleResult
     \<Rightarrow> ReadPoolRunner \<Rightarrow> nat \<Rightarrow> db \<Rightarrow> (answer \<times> poolItem list \<times> ReadPoolRunner) \<times> db" where
  "group_loop xc pv cfg g effective past items out p k d =
     (if items = []
      then ((if cy_SelectedItems out = cc_MaxItems cfg then (stop StopMaxItems out, None)
             else (stop StopNoEligibleWork out, None), past, p), d)
      else if pv_group_ctx pv g then ((canceled pv out, past @ items, p), d)
      else
        let n = group_size effective items; rid = wk_RootID (pi_claim (hd items))
        in (case run_group xc pv g effective k (take n items) out d of
              (Inl e, d1) \<Rightarrow> (((stop StopSystemicError out, Some e), past @ items, p), d1)
            | (Inr gs, d1) \<Rightarrow>
                (case after_group xc pv g rid gs (drop n items) p d1 of
                   ((Some a, _, done_items, later, _, p', _), d2) \<Rightarrow> ((a, past @ done_items @ later, p'), d2)
                 | ((None, failed, done_items, _, out', p', k'), d2) \<Rightarrow>
                     group_loop xc pv cfg (Suc g) (if failed then 1 else effective) (past @ done_items)
                       (drop n items) out' p' k' d2)))"
  by pat_completeness auto
termination
  by (relation "measure (\<lambda>(xc, pv, cfg, g, effective, past, items, out, p, k, d). length items)")
     (auto simp: group_size_def split: list.splits)

definition interrupted :: "poolItem list \<Rightarrow> uuid list" where
  "interrupted items = rev (remdups (rev (map (\<lambda>it. wk_RootID (pi_claim it)) (filter (\<lambda>it. \<not> pi_done it) items))))"

text \<open>The deferred part: the roots of the items that are not done.\<close>

definition with_interrupted :: "poolItem list \<Rightarrow> answer \<Rightarrow> answer" where
  "with_interrupted items a =
     ((fst a)\<lparr>cy_InterruptedRoots := interrupted items, cy_InterruptedInFlight := (interrupted items \<noteq> [])\<rparr>, snd a)"

definition pool_Run ::
  "ExecConfig \<Rightarrow> pool_env \<Rightarrow> CycleConfig \<Rightarrow> ReadPoolRunner \<Rightarrow> db \<Rightarrow> answer \<times> ReadPoolRunner \<times> db" where
  "pool_Run xc pv cfg p d =
     (case cycle_Validate cfg of
        Inl e \<Rightarrow> ((no_cycle, Some e), p, d)
      | Inr _ \<Rightarrow>
          if cc_ReadWorkers cfg \<noteq> pr_workers p then ((no_cycle, Some (ErrCycle ''pool reader config mismatch'')), p, d)
          else if pr_busy p then ((no_cycle, Some (ErrCycle ''read pool cycle already active'')), p, d)
          else
            let effective = (if pv_now pv < pr_fallbackUntil p then 1 else pr_workers p)
            in (case PrepareCycle xc (cc_MaxItems cfg) (pr_planner p) of
                  Inl e \<Rightarrow> ((stop StopSystemicError no_cycle, Some e), p, d)
                | Inr pl \<Rightarrow>
                    (case claim_loop (nat (cc_MaxItems cfg)) xc pv 0
                            \<lparr>ps_items = [], ps_out = no_cycle, ps_runner = p\<lparr>pr_planner := pl\<rparr>, ps_count = 0\<rparr> d of
                       ((Some a, s), d1) \<Rightarrow> (with_interrupted (ps_items s) a, ps_runner s, d1)
                     | ((None, s), d1) \<Rightarrow>
                         (case group_loop xc pv cfg 0 effective [] (ps_items s) (ps_out s) (ps_runner s) (ps_count s) d1 of
                            ((a, items, p'), d2) \<Rightarrow> (with_interrupted items a, p', d2)))))"

end
