(* ===== verification/PoolProps.thy ===== *)
theory PoolProps
  imports CycleProps Pool ScanProps
begin

text \<open>
  The read pool meets the contract of a cycle: at every moment an item in flight is one that the pool has
  claimed and not yet completed, and those are the items it reports when it returns.
\<close>

section \<open>Items in flight\<close>

definition of_claim :: "poolItem \<Rightarrow> bool" where
  "of_claim it \<longleftrightarrow> item_of (pi_result it) = (wk_RootID (pi_claim it), wk_ScopeKey (pi_claim it))"

definition tracked :: "poolItem set \<Rightarrow> db \<Rightarrow> bool" where
  "tracked I d \<longleftrightarrow> healthy d \<and> (\<forall>it\<in>I. of_claim it) \<and>
     (\<forall>p. busy d p \<longrightarrow> (\<exists>it\<in>I. \<not> pi_done it \<and> item_of (pi_result it) = p))"

lemma tracked_healthy: "tracked I d \<Longrightarrow> healthy d"
  by (simp add: tracked_def)

lemma tracked_quietly: "tracked I d \<Longrightarrow> quietly d d' \<Longrightarrow> tracked I d'"
  by (simp add: tracked_def quietly_def)

lemma tracked_calm: "tracked I d \<Longrightarrow> calm g \<Longrightarrow> tracked I (g d)"
  by (rule tracked_quietly) (auto simp: calm_quietly)

lemma tracked_keep:
  assumes "tracked (insert it I) d" "healthy d'" "\<not> pi_done it" "\<And>p. p \<noteq> item_of (pi_result it) \<Longrightarrow> marks d' p = marks d p"
  shows "tracked (insert it I) d'"
proof -
  have "\<exists>i\<in>insert it I. \<not> pi_done i \<and> item_of (pi_result i) = p" if "busy d' p" for p
  proof (cases "p = item_of (pi_result it)")
    case False
    then have "busy d p" using that assms(4) by simp
    then show ?thesis using assms(1) unfolding tracked_def by blast
  qed (use assms(3) in auto)
  then show ?thesis using assms(1,2) by (simp add: tracked_def)
qed

lemma tracked_settle:
  assumes "tracked (insert it I) d" "healthy d'" "\<not> busy d' (item_of (pi_result it))"
    "\<And>p. p \<noteq> item_of (pi_result it) \<Longrightarrow> marks d' p = marks d p"
  shows "tracked (insert (it\<lparr>pi_done := True\<rparr>) I) d'"
proof -
  have "\<exists>i\<in>I. \<not> pi_done i \<and> item_of (pi_result i) = p" if "busy d' p" for p
  proof -
    have p: "p \<noteq> item_of (pi_result it)" using that assms(3) by blast
    then have "busy d p" using that assms(4) by simp
    with assms(1) obtain i where "i \<in> insert it I" "\<not> pi_done i" "item_of (pi_result i) = p"
      unfolding tracked_def by blast
    then show ?thesis using p by auto
  qed
  then show ?thesis using assms(1,2) by (auto simp: tracked_def of_claim_def)
qed

lemma tracked_claim:
  assumes "tracked I d" "healthy d'" "of_claim it" "\<not> pi_done it"
    "\<And>p. p \<noteq> item_of (pi_result it) \<Longrightarrow> marks d' p = marks d p"
  shows "tracked (insert it I) d'"
  using tracked_keep [of it I d d'] assms by (auto simp: tracked_def)

lemma tracked_done:
  assumes "tracked I d" and "\<forall>it\<in>I. pi_done it"
  shows "idle d"
  using assms by (auto simp: tracked_def idle_def)

text \<open>The surroundings of a pool cycle: nobody else claims or completes, and a claim is not cut short.\<close>

definition pool_fair :: "pool_env \<Rightarrow> bool" where
  "pool_fair pv \<longleftrightarrow> (\<forall>i. calm_env (pv_claim pv i) \<and> xe_claim (pv_claim pv i) = NoFault) \<and>
     (\<forall>k. calm_env (pv_step pv k)) \<and> (\<forall>k. calm_env (pv_abort pv k)) \<and>
     (\<forall>g. calm_batch (pv_batch pv g)) \<and> (\<forall>k. calm_scan (pv_slot pv k))"

section \<open>Giving claims back\<close>

lemma abort_tracked:
  assumes fair: "pool_fair pv"
  shows "abort xc pv rid actual k items out internal d = (a, d') \<Longrightarrow> tracked (set items \<union> I) d \<Longrightarrow>
    tracked (set (ab_items a) \<union> I) d' \<and> (ab_error a = None \<longrightarrow> (\<forall>it\<in>set (ab_items a). pi_done it)) \<and>
    ab_error a \<noteq> Some ErrStaleSelection"
proof (induction items arbitrary: I k out internal d a d')
  case (Cons it its)
  show ?case
  proof (cases "pi_done it")
    case True
    obtain b where b: "abort xc pv rid actual k its out internal d = (b, d')" "a = b\<lparr>ab_items := it # ab_items b\<rparr>"
      using Cons.prems(1) True by (cases "abort xc pv rid actual k its out internal d") auto
    then show ?thesis using Cons.IH [of k out internal d b d' "insert it I"] Cons.prems(2) True by simp
  next
    case False
    show ?thesis
    proof (cases "pv_abort_ctx pv k")
      case (Some e)
      then show ?thesis using Cons.prems False by auto
    next
      case None
      let ?ev = "pv_abort pv k" and ?cls = "abort_class rid actual (pi_claim it)"
      let ?d = "xe_before_complete ?ev d"
      obtain res err d1 where cf: "completeFailure xc ?ev (pi_result it) (pi_claim it) ?cls ?d = ((res, err), d1)"
        by (metis prod.collapse)
      have t: "tracked (insert it (set its \<union> I)) ?d"
        using Cons.prems(2) fair tracked_calm by (auto simp: pool_fair_def calm_env_def)
      have "item_of (pi_result it) = (wk_RootID (pi_claim it), wk_ScopeKey (pi_claim it))"
        using t by (simp add: tracked_def of_claim_def)
      note f = completeFailure_effect [OF tracked_healthy [OF t] cf this]
      show ?thesis
      proof (cases "hard_failure err")
        case True
        then have a: "a = \<lparr>ab_items = it # its, ab_out = out\<lparr>cy_Last := res\<rparr>, ab_internal = internal, ab_error = err,
            ab_count = Suc k\<rparr>" "d' = d1"
          using Cons.prems(1) False None cf by auto
        have "tracked (insert it (set its \<union> I)) d1" by (rule tracked_keep [OF t f(1) False f(3)])
        then show ?thesis using a True f(5) by (auto simp: hard_failure_def is_scanner_failure_def)
      next
        case ok: False
        then have free: "\<not> busy d1 (item_of (pi_result it))" using f(5) by (auto simp: hard_failure_def is_scanner_failure_def)
        obtain b where b: "abort xc pv rid actual (Suc k) its (out\<lparr>cy_Last := res, cy_Failed := cy_Failed out + 1\<rparr>)
            (internal \<or> ?cls = ErrorInternal) d1 = (b, d')" "a = b\<lparr>ab_items := it\<lparr>pi_done := True\<rparr> # ab_items b\<rparr>"
          using Cons.prems(1) False None cf ok
          by (cases "abort xc pv rid actual (Suc k) its (out\<lparr>cy_Last := res, cy_Failed := cy_Failed out + 1\<rparr>)
            (internal \<or> ?cls = ErrorInternal) d1") auto
        have "tracked (insert (it\<lparr>pi_done := True\<rparr>) (set its \<union> I)) d1" by (rule tracked_settle [OF t f(1) free f(3)])
        then show ?thesis using Cons.IH [OF b(1), of "insert (it\<lparr>pi_done := True\<rparr>) I"] b(2) by simp
      qed
    qed
  qed
qed simp

section \<open>Claiming\<close>

text \<open>The answer of a phase that returns is not the one of a lost race, unless nothing is in flight.\<close>

definition settled_answer :: "answer \<Rightarrow> db \<Rightarrow> bool" where
  "settled_answer a d \<longleftrightarrow> (contended (fst a) (snd a) \<longrightarrow> idle d)"

lemma canceled_answer: "canceled pv out = a \<Longrightarrow> settled_answer a d"
  by (auto simp: settled_answer_def canceled_def contended_def stop_def split: option.splits)

lemma systemic_answer: "e \<noteq> ErrStaleSelection \<Longrightarrow> settled_answer (stop StopSystemicError out, Some e) d"
  by (simp add: settled_answer_def contended_def stop_def)

lemma claim_loop_tracked:
  assumes fair: "pool_fair pv"
  shows "claim_loop n xc pv i s d = ((ans, s'), d') \<Longrightarrow> tracked (set (ps_items s)) d \<Longrightarrow>
    tracked (set (ps_items s')) d' \<and> (\<forall>a. ans = Some a \<longrightarrow> settled_answer a d') \<and>
    (ans = None \<longrightarrow> list_all (\<lambda>it. \<not> pi_done it) (ps_items s) \<longrightarrow> list_all (\<lambda>it. \<not> pi_done it) (ps_items s'))"
proof (induction n arbitrary: i s d)
  case (Suc n)
  let ?ev = "pv_claim pv i" and ?out = "(ps_out s)\<lparr>cy_Invocations := cy_Invocations (ps_out s) + 1\<rparr>"
  obtain sel p1 where sel: "pool_select xc ?ev i (ps_items s) (ps_runner s) d = (sel, p1)" by fastforce
  show ?case
  proof (cases "\<not> pv_claim_ctx pv i \<and> (\<exists>w cls. sel = Inr (Some w, cls))")
    case False
    then show ?thesis
      using Suc.prems sel systemic_answer
      by (auto simp: Let_def dest: canceled_answer split: if_splits sum.splits option.splits)
  next
    case True
    then obtain w cls where w: "sel = Inr (Some w, cls)" and ctx: "\<not> pv_claim_ctx pv i" by blast
    let ?d0 = "xe_before_claim ?ev d"
    have t: "tracked (set (ps_items s)) ?d0" using Suc.prems(2) fair tracked_calm by (auto simp: pool_fair_def calm_env_def)
    obtain res r pl d1 where c: "claimSelected (xe_claim ?ev) w cls (xe_now ?ev) (pr_planner p1) ?d0 = ((res, r), pl, d1)"
      by (metis prod_cases3 surj_pair)
    note ce = claimSelected_effect [OF tracked_healthy [OF t] c]
    let ?s1 = "s\<lparr>ps_out := ?out\<lparr>cy_SelectedItems := cy_SelectedItems ?out + 1, cy_Last := res\<rparr>,
      ps_runner := p1\<lparr>pr_planner := pl\<rparr>\<rparr>"
    show ?thesis
    proof (cases r)
      case (Inr wk)
      let ?it = "\<lparr>pi_claim = wk, pi_result = res, pi_done = False\<rparr>"
      have "of_claim ?it" using ce(8) [OF Inr] by (simp add: of_claim_def)
      then have "tracked (insert ?it (set (ps_items s))) d1"
        using tracked_claim [OF t ce(1), of ?it] ce(4) by simp
      then show ?thesis
        using Suc.IH [of "Suc i" "?s1\<lparr>ps_items := ps_items s @ [?it]\<rparr>" d1] Suc.prems(1) ctx sel w c Inr
        by (simp add: Let_def)
    next
      case (Inl e)
      have same: "marks d1 = marks ?d0" using ce(7) [OF Inl] fair by (simp add: pool_fair_def)
      have t1: "tracked (set (ps_items s)) d1"
        using tracked_quietly [OF t] ce(1) same by (simp add: quietly_def)
      show ?thesis
      proof (cases "e = ErrStaleSelection")
        case False
        then show ?thesis
          using Suc.prems(1) ctx sel w c Inl t1 systemic_answer by (auto simp: Let_def)
      next
        case stale: True
        obtain a d2 where ab: "abort xc pv [] [] (ps_count s) (ps_items s) (ps_out ?s1) False d1 = (a, d2)" by fastforce
        have ab_ok: "tracked (set (ab_items a)) d2" "ab_error a = None \<Longrightarrow> idle d2" "ab_error a \<noteq> Some ErrStaleSelection"
          using abort_tracked [OF fair ab, of "{}"] t1 tracked_done by auto
        then show ?thesis
          using Suc.prems(1) ctx sel w c Inl stale ab systemic_answer
          by (auto simp: Let_def settled_answer_def split: option.splits)
      qed
    qed
  qed
qed simp

section \<open>Reading and completing\<close>

lemma scan_item_quiet:
  assumes "pool_fair pv" and "scan_item xc pv k batch rank it d = (r, batch', d')"
  shows "quietly d d'"
proof (cases batch)
  case None
  then show ?thesis
    using assms calmD [of "\<lambda>d. snd (xe_scan (pv_step pv k) (pi_claim it) (xc_MaxEntriesPerScope xc) d)" d]
    by (auto simp: scan_item_def pool_fair_def calm_env_def quietly_def split: prod.splits)
next
  case (Some pb)
  then show ?thesis
    using assms Commit_quiet [of "pv_slot pv k"] by (auto simp: scan_item_def pool_fair_def split: prod.splits)
qed

lemma item_loop_tracked:
  assumes fair: "pool_fair pv"
  shows "item_loop xc pv batch rank k items out d = (gs, d') \<Longrightarrow> tracked (set items \<union> I) d \<Longrightarrow>
    list_all (\<lambda>it. \<not> pi_done it) items \<Longrightarrow>
    tracked (set (gs_items gs) \<union> I) d' \<and> gs_fail gs \<noteq> Some (ItemFail ErrStaleSelection)"
proof (induction items arbitrary: I batch rank k out d gs d')
  case (Cons it its)
  obtain r batch1 d1 where scan: "scan_item xc pv k batch rank it d = (r, batch1, d1)" by (metis prod_cases3)
  have t1: "tracked (insert it (set its \<union> I)) d1"
    using tracked_quietly [OF Cons.prems(2) scan_item_quiet [OF fair scan]] by simp
  show ?case
  proof (cases "\<exists>res. r = Inr res \<and> \<not> pv_cut pv k")
    case False
    then show ?thesis using Cons.prems(1) scan t1 by (auto split: sum.splits if_splits)
  next
    case True
    then obtain res where res: "r = Inr res" "\<not> pv_cut pv k" by blast
    let ?ev = "pv_step pv k"
    let ?d = "xe_before_complete ?ev d1"
    obtain completed err d2 where cs: "completeScan xc ?ev (pi_result it) (pi_claim it) (Inr res) ?d = ((completed, err), d2)"
      by (metis prod.collapse)
    have t: "tracked (insert it (set its \<union> I)) ?d" using t1 fair tracked_calm by (auto simp: pool_fair_def calm_env_def)
    have "item_of (pi_result it) = (wk_RootID (pi_claim it), wk_ScopeKey (pi_claim it))"
      using t by (simp add: tracked_def of_claim_def)
    note f = completeScan_effect [OF tracked_healthy [OF t] cs this]
    show ?thesis
    proof (cases err)
      case (Some e)
      have "tracked (set (it # its) \<union> I) d2" using tracked_keep [OF t, of d2] f Cons.prems(3) by simp
      then show ?thesis using Cons.prems(1) scan res cs Some f by (auto split: option.splits)
    next
      case None
      obtain g where g: "item_loop xc pv batch1 (Suc rank) (Suc k) its
          (out\<lparr>cy_Last := completed, cy_Succeeded := cy_Succeeded out + 1\<rparr>) d2 = (g, d')"
          "gs = g\<lparr>gs_items := it\<lparr>pi_done := True\<rparr> # gs_items g\<rparr>"
        using Cons.prems(1) scan res cs None
        by (cases "item_loop xc pv batch1 (Suc rank) (Suc k) its
          (out\<lparr>cy_Last := completed, cy_Succeeded := cy_Succeeded out + 1\<rparr>) d2") auto
      have "tracked (insert (it\<lparr>pi_done := True\<rparr>) (set its \<union> I)) d2"
        using tracked_settle [OF t, of d2] f None by simp
      then show ?thesis
        using Cons.IH [OF g(1), of "insert (it\<lparr>pi_done := True\<rparr>) I"] g(2) Cons.prems(3) by simp
    qed
  qed
qed simp

lemma run_group_tracked:
  assumes fair: "pool_fair pv" and "run_group xc pv g effective k items out d = (r, d')"
    and "tracked (set items \<union> I) d" and "list_all (\<lambda>it. \<not> pi_done it) items"
  shows "(\<forall>e. r = Inl e \<longrightarrow> e \<noteq> ErrStaleSelection \<and> tracked (set items \<union> I) d') \<and>
    (\<forall>gs. r = Inr gs \<longrightarrow> tracked (set (gs_items gs) \<union> I) d' \<and> gs_fail gs \<noteq> Some (ItemFail ErrStaleSelection))"
proof (cases "length items \<le> 1")
  case True
  then show ?thesis
    using assms(2) item_loop_tracked [OF fair _ assms(3,4)] by (auto simp: run_group_def split: prod.splits)
next
  case False
  let ?items = "sort_by (\<lambda>a b. claim_before (pi_claim a) (pi_claim b)) items"
  have sorted: "set ?items = set items" by simp
  show ?thesis
  proof (cases "NewSameRootPrototype (pv_timeout pv) effective")
    case None
    then show ?thesis using assms(2,3) False by (auto simp: run_group_def)
  next
    case (Some p)
    obtain b p1 m d1 where fetch: "FetchBatch (pv_batch pv g) (map pi_claim ?items) p (pv_budget pv g) d = (b, p1, m, d1)"
      by (metis prod_cases4)
    have "quietly d d1" using FetchBatch_quiet [OF _ fetch] fair by (simp add: pool_fair_def)
    then have t: "tracked (set ?items \<union> I) d1" using tracked_quietly assms(3) sorted by simp
    have undone: "list_all (\<lambda>it. \<not> pi_done it) ?items" using assms(4) sorted by (simp add: list_all_iff)
    show ?thesis
      using assms(2) False Some fetch t item_loop_tracked [OF fair _ t undone]
      by (cases b) (auto simp: run_group_def Let_def split: prod.splits)
  qed
qed

lemma after_group_tracked:
  assumes fair: "pool_fair pv"
    and "after_group xc pv g rid gs later p d = ((ans, failed, items', later', out', p', k'), d')"
    and t: "tracked (set (gs_items gs) \<union> set later \<union> I) d" and "gs_fail gs \<noteq> Some (ItemFail ErrStaleSelection)"
  shows "tracked (set items' \<union> set later' \<union> I) d' \<and> (\<forall>a. ans = Some a \<longrightarrow> settled_answer a d') \<and>
    (ans = None \<longrightarrow> later' = later)"
proof (cases "\<exists>e. \<not> pv_after pv g \<and> gs_fail gs = Some (ScanFail e) \<and> source_failure e")
  case False
  then show ?thesis
    using assms(2-4) systemic_answer
    by (auto simp: after_group_def Let_def dest: canceled_answer split: if_splits option.splits pool_fail.splits)
next
  case True
  then obtain e where e: "\<not> pv_after pv g" "gs_fail gs = Some (ScanFail e)" "source_failure e" by blast
  obtain a d1 where a: "abort xc pv rid (charged e (gs_items gs)) (gs_count gs) (gs_items gs) (gs_out gs) False d = (a, d1)"
    by fastforce
  have a_ok: "tracked (set (ab_items a) \<union> (set later \<union> I)) d1" "ab_error a \<noteq> Some ErrStaleSelection"
    using abort_tracked [OF fair a, of "set later \<union> I"] t by (simp_all add: Un_assoc)
  obtain a' d2 where a': "abort xc pv [] [] (ab_count a) later (ab_out a) False d1 = (a', d2)" by fastforce
  have "tracked (set (ab_items a') \<union> (set (ab_items a) \<union> I)) d2" "ab_error a' \<noteq> Some ErrStaleSelection"
    using abort_tracked [OF fair a', of "set (ab_items a) \<union> I"] a_ok(1) by (simp_all add: Un_ac)
  moreover have "settled_answer (stop StopInternalItemFailure out, Some (ErrScan e)) d" for out d
    by (simp add: settled_answer_def contended_def stop_def)
  ultimately show ?thesis
    using assms(2) e a a' a_ok systemic_answer
    by (auto simp: after_group_def Let_def Un_ac split: if_splits option.splits)
qed

lemma group_loop_tracked:
  assumes fair: "pool_fair pv"
  shows "group_loop xc pv cfg g effective past items out p k d = ((a, all_items, p'), d') \<Longrightarrow>
    tracked (set past \<union> set items) d \<Longrightarrow> list_all (\<lambda>it. \<not> pi_done it) items \<Longrightarrow>
    tracked (set all_items) d' \<and> settled_answer a d'"
proof (induction "length items" arbitrary: g effective past items out p k d rule: less_induct)
  case less
  show ?case
  proof (cases "items = [] \<or> pv_group_ctx pv g")
    case True
    have "settled_answer (stop StopMaxItems out, None) d'" "settled_answer (stop StopNoEligibleWork out, None) d'"
      by (simp_all add: settled_answer_def contended_def stop_def)
    then show ?thesis
      using less.prems(1,2) True
      by (subst (asm) group_loop.simps) (auto intro: canceled_answer [OF refl] split: if_splits)
  next
    case False
    let ?n = "group_size effective items" and ?rid = "wk_RootID (pi_claim (hd items))"
    have n: "length (drop ?n items) < length items" using False by (auto simp: group_size_def split: list.splits)
    have parts: "set items = set (take ?n items) \<union> set (drop ?n items)"
      using set_append [of "take ?n items" "drop ?n items"] by simp
    have undone: "list_all (\<lambda>it. \<not> pi_done it) (take ?n items)" "list_all (\<lambda>it. \<not> pi_done it) (drop ?n items)"
      using less.prems(3) by (auto simp: list_all_iff dest: in_set_takeD in_set_dropD)
    obtain r d1 where run: "run_group xc pv g effective k (take ?n items) out d = (r, d1)" by fastforce
    have t: "tracked (set (take ?n items) \<union> (set (drop ?n items) \<union> set past)) d"
      using less.prems(2) parts by (simp add: Un_ac)
    note rt = run_group_tracked [OF fair run t undone(1)]
    show ?thesis
    proof (cases r)
      case (Inl e)
      then show ?thesis
        using less.prems(1) False run rt systemic_answer parts
        by (subst (asm) group_loop.simps) (auto simp: Let_def Un_ac)
    next
      case (Inr gs)
      obtain ans failed items' later' out' p1 k1 d2
        where after: "after_group xc pv g ?rid gs (drop ?n items) p d1 = ((ans, failed, items', later', out', p1, k1), d2)"
        by (metis prod_cases7 surj_pair)
      have at: "tracked (set items' \<union> set later' \<union> set past) d2 \<and> (\<forall>a. ans = Some a \<longrightarrow> settled_answer a d2) \<and>
          (ans = None \<longrightarrow> later' = drop ?n items)"
        using after_group_tracked [OF fair after, of "set past"] rt Inr by (simp add: Un_assoc)
      show ?thesis
      proof (cases ans)
        case (Some x)
        then show ?thesis
          using less.prems(1) False run Inr after at
          by (subst (asm) group_loop.simps) (auto simp: Let_def Un_ac)
      next
        case None
        then have "group_loop xc pv cfg (Suc g) (if failed then 1 else effective) (past @ items') (drop ?n items) out' p1 k1 d2
            = ((a, all_items, p'), d')"
          using less.prems(1) False run Inr after by (subst (asm) group_loop.simps) (simp add: Let_def)
        moreover have "tracked (set (past @ items') \<union> set (drop ?n items)) d2" using at None by (auto simp: Un_ac)
        ultimately show ?thesis by (rule less.hyps [OF n _ _ undone(2)])
      qed
    qed
  qed
qed

section \<open>The contract\<close>

lemma interrupted_roots_of: "it \<in> set items \<Longrightarrow> \<not> pi_done it \<Longrightarrow> wk_RootID (pi_claim it) \<in> set (interrupted items)"
  by (auto simp: interrupted_def)

lemma with_interrupted_reported:
  assumes "tracked (set items) d" and "with_interrupted items a = (r, e)"
  shows "reported r d"
proof -
  have "wk_RootID (pi_claim it) = x" if "it \<in> set items" "item_of (pi_result it) = (x, key)" for it x key
    using assms(1) that by (auto simp: tracked_def of_claim_def)
  then have "x \<in> set (interrupted items)" if "busy d (x, key)" for x key
    using assms(1) that interrupted_roots_of unfolding tracked_def by metis
  then show ?thesis
    using assms(2) by (force simp: reported_def with_interrupted_def interrupted_roots_def)
qed

lemma with_interrupted_settled:
  "with_interrupted items a = (r, e) \<Longrightarrow> settled_answer a d \<Longrightarrow> contended r e \<Longrightarrow> idle d"
  by (auto simp: with_interrupted_def settled_answer_def contended_def)

lemma pool_Run_reports:
  assumes fair: "pool_fair pv" and "idle d" and run: "pool_Run xc pv cfg p d = ((r, e), p', d')"
  shows "healthy d' \<and> (tame e \<longrightarrow> reported r d') \<and> (contended r e \<longrightarrow> idle d')"
proof (cases "d' = d")
  case True
  then show ?thesis using assms(2) idle_reported by (auto simp: idle_def)
next
  case False
  then obtain pl where pl: "PrepareCycle xc (cc_MaxItems cfg) (pr_planner p) = Inr pl"
    and valid: "cycle_Validate cfg = Inr ()" "cc_ReadWorkers cfg = pr_workers p" "\<not> pr_busy p"
    using run by (auto simp: pool_Run_def Let_def split: sum.splits if_splits)
  let ?s0 = "\<lparr>ps_items = [], ps_out = no_cycle, ps_runner = p\<lparr>pr_planner := pl\<rparr>, ps_count = 0\<rparr>"
  obtain ans s d1 where claims: "claim_loop (nat (cc_MaxItems cfg)) xc pv 0 ?s0 d = ((ans, s), d1)" by (metis prod.collapse)
  have "tracked {} d" using assms(2) by (simp add: idle_def tracked_def)
  then have c: "tracked (set (ps_items s)) d1" "\<And>a. ans = Some a \<Longrightarrow> settled_answer a d1"
      "ans = None \<Longrightarrow> list_all (\<lambda>it. \<not> pi_done it) (ps_items s)"
    using claim_loop_tracked [OF fair claims] by auto
  have "\<exists>items a. tracked (set items) d' \<and> settled_answer a d' \<and> with_interrupted items a = (r, e)"
  proof (cases ans)
    case (Some a)
    then have "d' = d1" "with_interrupted (ps_items s) a = (r, e)"
      using run pl valid claims by (simp_all add: pool_Run_def Let_def)
    then show ?thesis using c(1) c(2) [OF Some] by blast
  next
    case None
    let ?eff = "if pv_now pv < pr_fallbackUntil p then 1 else pr_workers p"
    obtain a items p1 d2 where g: "group_loop xc pv cfg 0 ?eff [] (ps_items s) (ps_out s) (ps_runner s) (ps_count s) d1
        = ((a, items, p1), d2)"
      by (metis prod_cases3 surj_pair)
    have "d' = d2" "with_interrupted items a = (r, e)"
      using run pl valid claims None g by (simp_all add: pool_Run_def Let_def)
    moreover have "tracked (set items) d2 \<and> settled_answer a d2"
      using group_loop_tracked [OF fair g] c(1) c(3) [OF None] by simp
    ultimately show ?thesis by blast
  qed
  then show ?thesis using with_interrupted_reported with_interrupted_settled tracked_healthy by blast
qed

interpretation pool: cycle_runner "\<lambda>cfg p d. Some (pool_Run xc pv cfg p d)" "pool_fair pv" for xc pv
  by unfold_locales (simp add: pool_Run_reports)

end
