(* ===== verification/RuntimeProps.thy ===== *)
theory RuntimeProps
  imports PoolProps ScanSafety
begin

text \<open>
  Properties of the incremental runtime as a whole: what an invocation of the executor may verify, that a
  cycle is bounded, that a pass of the runtime leaves no claim behind, with either kind of cycle, and that
  the recovery at startup ends with nothing in flight; the burst gate; and hints.
\<close>

section \<open>Rows and marks\<close>

lemma history_healthy: "fresh d0 \<Longrightarrow> wstep\<^sup>*\<^sup>* d0 d \<Longrightarrow> find_root d [] = None \<Longrightarrow> healthy d"
  by (simp add: healthy_def history_ok)

lemma rows_busy:
  assumes "state_ok d"
  shows "(\<forall>p. \<not> busy d p) \<longleftrightarrow> (\<forall>w\<in>set (db_works d). wk_WorkState w \<noteq> WorkInFlight)"
proof
  assume free: "\<forall>p. \<not> busy d p"
  show "\<forall>w\<in>set (db_works d). wk_WorkState w \<noteq> WorkInFlight"
  proof (intro ballI notI)
    fix w assume w: "w \<in> set (db_works d)" "wk_WorkState w = WorkInFlight"
    then have "wk_ScopeKey w \<in> set (map wk_ScopeKey (inflight d (wk_RootID w)))" by (auto simp: inflight_def)
    then have "flying d (wk_RootID w) (wk_ScopeKey w)" using inflight_keys(2) [OF assms] by simp
    then show False using free busy_flying by blast
  qed
qed (auto dest!: busy_row find_work_Some)


section \<open>What the executor verifies\<close>

text \<open>
  C7: an invocation of the executor verifies only what it has claimed and scanned. Whatever other sessions
  do meanwhile, short of claiming or completing items, and wherever the calls of the invocation are cut
  short: if the verification of any item has changed when the invocation returns, then the item is the one
  the invocation selected, the context was alive after the scan, the recorded sequence is that of its claim,
  and the scanner reported for exactly this item an admission that was APPLIED or a NOOP.
\<close>

theorem executor_verifies:
  assumes "fresh d0" and "wstep\<^sup>*\<^sup>* d0 d" and "find_root d [] = None" and "calm_env ev"
    and "ExecuteOne cfg ev pl d = ((res, err), pl', d')"
    and "find_work d rid key = Some w" and "find_work d' rid key = Some w'"
    and "(wk_LastVerifiedAt w', wk_LastVerifiedSignalSeq w') \<noteq> (wk_LastVerifiedAt w, wk_LastVerifiedSignalSeq w)"
  shows "xr_Selected res \<and> rid = xr_RootID res \<and> key = xr_ScopeKey res \<and> xe_ctx ev = None \<and>
    wk_LastVerifiedSignalSeq w' = Some (xr_ClaimedSignalSeq res) \<and>
    (\<exists>wk d1 sr d2. xe_scan ev wk (xc_MaxEntriesPerScope cfg) d1 = (Inr sr, d2) \<and> wk_RootID wk = rid \<and>
       wk_ScopeKey wk = key \<and> oc_Status (sr_Outcome sr) \<in> {AdmissionApplied, AdmissionNoop})"
proof -
  have effect: "exec_effect cfg ev d res err d'"
    by (rule ExecuteOne_effect [OF assms(4) history_healthy [OF assms(1-3)] assms(5)])
  have changed: "verification d' (rid, key) \<noteq> verification d (rid, key)"
    using assms(6-8) by (auto simp: verification_def marks_def mark_of_def)
  then have "d' \<noteq> d" by auto
  moreover have "mk_seq (marks d' (rid, key)) = wk_LastVerifiedSignalSeq w'"
    using assms(7) by (simp add: marks_def mark_of_def)
  ultimately show ?thesis
    using effect changed unfolding exec_effect_def item_of_def by (auto simp: verifiesCoverage_def)
qed

definition sample_exec_config :: ExecConfig where
  "sample_exec_config =
     \<lparr>xc_MaxEntriesPerScope = 1000, xc_DiscoveryScope = [], xc_FirstDiscoveryEnabled = False,
      xc_MirrorRevisitInterval = 0,
      xc_Retry = \<lparr>rp_TransientProvider = second, rp_Throttled = second, rp_Internal = second\<rparr>\<rparr>"

definition sample_scan_result :: scan_Result where
  "sample_scan_result =
     \<lparr>sr_SnapshotID = ''s'',
      sr_Outcome = \<lparr>oc_Status = AdmissionApplied, oc_SnapshotLifecycle = SnapshotReconciled, oc_Generation = 1,
        oc_AppliedGeneration = 1, oc_Mutated = True\<rparr>,
      sr_ChildScopes = [], sr_MirrorPresence = False\<rparr>"

definition sample_exec_env :: exec_env where
  "sample_exec_env =
     \<lparr>xe_now = 400, xe_finish = 500, xe_available = None, xe_retryFloor = None,
      xe_scan = (\<lambda>wk n d. (Inr sample_scan_result, d)), xe_ctx = None, xe_read = NoFault, xe_claim = NoFault,
      xe_complete = NoFault, xe_before_claim = (\<lambda>d. d), xe_before_complete = (\<lambda>d. d), xe_changed = (\<lambda>_. 0)\<rparr>"

definition sample_planner :: planner where
  "sample_planner = \<lparr>pl_cursor = [], pl_window = None\<rparr>"

lemma sample_exec_calm: "calm_env sample_exec_env"
  by (simp add: calm_env_def sample_exec_env_def calm_id)

lemma sample_healthy: "find_root work_db1 [] = None" "find_root work_db2 [] = None"
  by code_simp+

theorem executor_verifies_witness:
  "\<exists>res pl' d' w'. ExecuteOne sample_exec_config sample_exec_env sample_planner work_db1 = ((res, None), pl', d') \<and>
     find_work d' ''r'' ''/a'' = Some w' \<and> xr_ScopeKey res = ''/a'' \<and>
     wk_LastVerifiedSignalSeq w' = Some (xr_ClaimedSignalSeq res)"
proof -
  have run: "case ExecuteOne sample_exec_config sample_exec_env sample_planner work_db1 of
      ((res, err), pl', d') \<Rightarrow> err = None \<and> map_option wk_LastVerifiedAt (find_work d' ''r'' ''/a'') = Some (Some 500)"
    by code_simp
  have row: "map_option wk_LastVerifiedAt (find_work work_db1 ''r'' ''/a'') = Some None" by code_simp
  obtain res pl' d' w' where step: "ExecuteOne sample_exec_config sample_exec_env sample_planner work_db1 = ((res, None), pl', d')"
      "find_work d' ''r'' ''/a'' = Some w'" "wk_LastVerifiedAt w' = Some 500"
    using run by (auto split: prod.splits)
  obtain w where w: "find_work work_db1 ''r'' ''/a'' = Some w" "wk_LastVerifiedAt w = None" using row by auto
  from executor_verifies [OF sample_fresh sample_history(1) sample_healthy(1) sample_exec_calm step(1) w(1) step(2)] w(2) step
  show ?thesis by auto
qed

section \<open>Cycles\<close>

text \<open>
  A serial cycle ends and keeps its bound. For every accepted configuration the cycle returns, whatever
  its executor meets: it invokes the executor at most \<open>MaxItems\<close> times, at most 8; every selected item but
  the last one is counted as succeeded or failed; and when it stops at the bound, exactly \<open>MaxItems\<close> items
  have been completed.
\<close>

theorem cycle_ends:
  assumes "cycle_Validate cfg = Inr ()"
  shows "\<exists>r e pl' d'. serial_cycle xc ctx evs cfg pl d = Some ((r, e), pl', d') \<and>
    0 \<le> cy_Succeeded r \<and> 0 \<le> cy_Failed r \<and> cy_Succeeded r + cy_Failed r \<le> cy_SelectedItems r \<and>
    cy_SelectedItems r \<le> cy_Succeeded r + cy_Failed r + 1 \<and> cy_SelectedItems r \<le> cy_Invocations r \<and>
    cy_Invocations r \<le> cc_MaxItems cfg \<and> cy_Invocations r \<le> 8 \<and>
    (cy_StopReason r = StopMaxItems \<longrightarrow> cy_Succeeded r + cy_Failed r = cc_MaxItems cfg)"
proof -
  have cap: "1 \<le> cc_MaxItems cfg" "cc_MaxItems cfg \<le> 8"
    using assms by (auto simp: cycle_Validate_def MaxCycleItems_def Let_def split: if_splits)
  show ?thesis
  proof (cases "PrepareCycle xc (cc_MaxItems cfg) pl")
    case (Inl e)
    then show ?thesis using assms cap by (simp add: serial_cycle_def Run_def stop_def no_cycle_def)
  next
    case (Inr pl1)
    let ?loop = "cycle_loop (Suc (nat (cc_MaxItems cfg))) cfg ctx (\<lambda>k. ExecuteOne xc (evs k)) 0 no_cycle pl1 d"
    have "nat (cc_MaxItems cfg - cy_SelectedItems no_cycle) < Suc (nat (cc_MaxItems cfg))" by (simp add: no_cycle_def)
    from executor.loop_ends [OF this] obtain r e pl' d' where loop: "?loop = Some ((r, e), pl', d')" by fastforce
    have "executor.balanced cfg no_cycle" using cap by (simp add: executor.balanced_def no_cycle_def)
    from executor.loop_counts [OF loop this] show ?thesis
      using loop Inr assms cap by (simp add: serial_cycle_def Run_def)
  qed
qed

definition sample_cycle_config :: CycleConfig where
  "sample_cycle_config = \<lparr>cc_ReadWorkers = 1, cc_MaxItems = 2, cc_MaxWallTime = second\<rparr>"

theorem cycle_ends_witness:
  "\<exists>r e pl' d'. serial_cycle sample_exec_config (\<lambda>_. \<lparr>ic_parent = None, ic_cycle = False, ic_parent_after = None,
       ic_cycle_after = False\<rparr>) (\<lambda>_. sample_exec_env) sample_cycle_config sample_planner work_db1 = Some ((r, e), pl', d') \<and>
     cy_Invocations r \<le> 2"
proof -
  have "cycle_Validate sample_cycle_config = Inr ()" by code_simp
  from cycle_ends [OF this, of sample_exec_config _ "\<lambda>_. sample_exec_env" sample_planner work_db1]
  show ?thesis by (fastforce simp: sample_cycle_config_def)
qed

section \<open>Passes\<close>














section \<open>Recovery at startup\<close>

definition stuck :: "db \<Rightarrow> uuid set" where
  "stuck d = {x. \<exists>key. busy d (x, key)}"

lemma stuck_rows:
  assumes "state_ok d"
  shows "stuck d = wk_RootID ` set (filter (\<lambda>w. wk_WorkState w = WorkInFlight) (db_works d))"
proof -
  have "flying d x key \<longleftrightarrow> key \<in> set (map wk_ScopeKey (inflight d x))" for x key
    using inflight_keys(2) [OF assms] by simp
  then show ?thesis by (auto simp: stuck_def busy_flying inflight_def)
qed

lemma listed_roots:
  assumes "state_ok d" and "ListInflightRoots d InflightRecoveryBatch = roots"
  shows "set roots \<subseteq> stuck d" "distinct roots" "roots = [] \<longleftrightarrow> stuck d = {}"
proof -
  let ?all = "sort_strings (remdups (map wk_RootID (filter (\<lambda>w. wk_WorkState w = WorkInFlight) (db_works d))))"
  have roots: "roots = take 100 ?all" using assms(2) by (auto simp: ListInflightRoots_def InflightRecoveryBatch_def)
  have all: "set ?all = stuck d" "distinct ?all" unfolding stuck_rows [OF assms(1)] by (simp_all add: sort_strings_def)
  show "set roots \<subseteq> stuck d" "distinct roots" using roots all by (auto dest: in_set_takeD)
  show "roots = [] \<longleftrightarrow> stuck d = {}" using roots all(1) by (cases ?all) auto
qed

lemma recover_batch_all:
  assumes "healthy d" and "set roots \<subseteq> stuck d" and "distinct roots"
  shows "\<exists>n d'. recover_batch (\<lambda>_. NoFault) roots m d = (Inr n, d') \<and> healthy d' \<and>
    stuck d' = stuck d - set roots \<and> m + length roots \<le> n"
  using assms
proof (induction roots arbitrary: m d)
  case (Cons rid roots)
  have ok: "state_ok d" using Cons.prems(1) by (simp add: healthy_def)
  obtain key where busy: "busy d (rid, key)" using Cons.prems(2) by (auto simp: stuck_def)
  then obtain r where r: "find_root d rid = Some r" using busy_root [OF ok] by fastforce
  obtain d1 where tx: "RecoverStaleInflight rid d = Inr (length (inflight d rid), d1)"
    using recovery_spec [OF ok r] by blast
  have "key \<in> set (map wk_ScopeKey (inflight d rid))" using busy inflight_keys(2) [OF ok] by (simp add: busy_flying)
  then have one: "1 \<le> length (inflight d rid)" by (cases "inflight d rid") auto
  have call: "store_call NoFault (whole (RecoverStaleInflight rid)) d = (Inr (length (inflight d rid)), d1)"
    using tx by (simp add: store_call_Inr)
  note rc = recover_call [OF call Cons.prems(1)]
  have "busy d1 (x, k) \<longleftrightarrow> x \<noteq> rid \<and> busy d (x, k)" for x k
    using rc(2) [of k] rc(3) [of x k] by (cases "x = rid") auto
  then have "stuck d1 = stuck d - {rid}" by (auto simp: stuck_def)
  then have "set roots \<subseteq> stuck d1" "stuck d1 - set roots = stuck d - set (rid # roots)" using Cons.prems by auto
  from Cons.IH [OF rc(1) this(1), of "m + length (inflight d rid)"] this(2) show ?case
    using Cons.prems(3) call one by auto
qed simp

lemma recover_startup_ends:
  assumes "healthy d" and "card (stuck d) < fuel"
  shows "\<exists>n d'. recover_startup fuel (\<lambda>_. NoFault) (\<lambda>_ _. NoFault) k m d = Some ((n, None), d') \<and> healthy d' \<and> stuck d' = {}"
  using assms
proof (induction fuel arbitrary: k m d)
  case (Suc fuel)
  define roots where "roots = ListInflightRoots d InflightRecoveryBatch"
  have ok: "state_ok d" using Suc.prems(1) by (simp add: healthy_def)
  note listed = listed_roots [OF ok roots_def [symmetric]]
  show ?case
  proof (cases "roots = []")
    case True
    then show ?thesis using Suc.prems(1) listed(3) by (auto simp: inflight_roots_def roots_def)
  next
    case False
    obtain n d1 where batch: "recover_batch (\<lambda>_. NoFault) roots 0 d = (Inr n, d1)" "healthy d1"
        "stuck d1 = stuck d - set roots" "length roots \<le> n"
      using recover_batch_all [OF Suc.prems(1) listed(1,2), of 0] by auto
    have "finite (stuck d)" using stuck_rows [OF ok] by simp
    then have "card (stuck d1) < card (stuck d)"
      using batch(3) listed(1) False by (intro psubset_card_mono) (auto simp: neq_Nil_conv)
    then have "card (stuck d1) < fuel" using Suc.prems(2) by simp
    from Suc.IH [OF batch(2) this] show ?thesis
      using batch False by (cases n) (auto simp: inflight_roots_def roots_def [symmetric])
  qed
qed simp

text \<open>
  C22: recovery at startup ends with nothing in flight. After any history of the work queue, recovering the
  claims that an earlier process left behind returns without an error, in at most one round more than there
  are roots with such claims, and afterwards no item is in flight.
\<close>

theorem startup_recovers:
  assumes "fresh d0" and "wstep\<^sup>*\<^sup>* d0 d" and "find_root d [] = None"
    and "card (wk_RootID ` {w \<in> set (db_works d). wk_WorkState w = WorkInFlight}) < fuel"
  shows "\<exists>n d'. RecoverStartupInflight fuel (\<lambda>_. NoFault) (\<lambda>_ _. NoFault) d = Some ((n, None), d') \<and>
    (\<forall>w\<in>set (db_works d'). wk_WorkState w \<noteq> WorkInFlight)"
proof -
  have h: "healthy d" by (rule history_healthy [OF assms(1-3)])
  then have "card (stuck d) < fuel" using stuck_rows assms(4) by (simp add: healthy_def)
  from recover_startup_ends [OF h this] obtain n d' where
    *: "recover_startup fuel (\<lambda>_. NoFault) (\<lambda>_ _. NoFault) 0 0 d = Some ((n, None), d')" "healthy d'" "stuck d' = {}"
    by blast
  then have "\<forall>w\<in>set (db_works d'). wk_WorkState w \<noteq> WorkInFlight"
    using rows_busy [of d'] by (auto simp: stuck_def healthy_def)
  then show ?thesis using * by (auto simp: RecoverStartupInflight_def)
qed

theorem startup_recovers_witness:
  "\<exists>n d'. RecoverStartupInflight 2 (\<lambda>_. NoFault) (\<lambda>_ _. NoFault) work_db2 = Some ((n, None), d') \<and>
     (\<forall>w\<in>set (db_works d'). wk_WorkState w \<noteq> WorkInFlight)"
proof -
  have "map (\<lambda>w. (wk_RootID w, wk_WorkState w)) (db_works work_db2) = [(''r'', WorkInFlight)]" by code_simp
  then obtain w where "db_works work_db2 = [w]" by auto
  then have "{v \<in> set (db_works work_db2). wk_WorkState v = WorkInFlight} \<subseteq> {w}" by auto
  then have "card (wk_RootID ` {v \<in> set (db_works work_db2). wk_WorkState v = WorkInFlight}) \<le> card {wk_RootID w}"
    by (intro card_mono) auto
  then show ?thesis
    using startup_recovers [OF sample_fresh sample_history(2) sample_healthy(2), of 2] by simp
qed

section \<open>The burst gate\<close>

text \<open>The start and the end of every cycle that the loop runs under the given events, until it stops. The
  flags of an event say whether its cycle leaves a backlog and lost a race.\<close>

fun cycle_times :: "(loop_env \<times> bool \<times> bool) list \<Rightarrow> Runtime \<Rightarrow> (gotime \<times> gotime) list" where
  "cycle_times [] r = []"
| "cycle_times ((ev, backlog, contention) # evs) r =
     (case start_cycle ev r of
        Stopped \<Rightarrow> []
      | Started wait r' \<Rightarrow>
          (le_now ev + wait, le_finished ev) # cycle_times evs (finish_cycle ev backlog contention r'))"

definition paused :: "gotime \<times> gotime \<Rightarrow> gotime \<times> gotime \<Rightarrow> bool" where
  "paused a b \<longleftrightarrow> BurstCooldown \<le> fst b - snd a"

text \<open>A run of cycles without a pause, counted from the given number, has at most four.\<close>

fun short_bursts :: "int \<Rightarrow> gotime \<times> gotime \<Rightarrow> (gotime \<times> gotime) list \<Rightarrow> bool" where
  "short_bursts n a [] = True"
| "short_bursts n a (b # bs) = (if paused a b then short_bursts 1 b bs else n < 4 \<and> short_bursts (n + 1) b bs)"

lemma short_bursts_mono: "short_bursts n a bs \<Longrightarrow> m \<le> n \<Longrightarrow> short_bursts m a bs"
  by (induction bs arbitrary: n m a) auto

lemma start_gate:
  assumes "start_cycle ev r = Started wait r'" and "rn_lastCycleFinishedAt r \<noteq> zero_time"
    and "\<bar>le_now ev - rn_lastCycleFinishedAt r\<bar> < 2 ^ 63 - 1"
  shows "(rn_burstCount r' = 0 \<and> BurstCooldown \<le> le_now ev + wait - rn_lastCycleFinishedAt r) \<or>
    (rn_burstCount r' = rn_burstCount r \<and> rn_burstCount r < 4)"
proof -
  have "time_sub (le_now ev) (rn_lastCycleFinishedAt r) = le_now ev - rn_lastCycleFinishedAt r"
    using assms(3) by (simp add: time_sub_def)
  then show ?thesis
    using assms(1,2)
    by (auto simp: start_cycle_def burstWaitBeforeStart_def consumeWakeReason_def recordWake_def Let_def
        MaxConsecutiveCyclesPerBurst_def split: event.splits if_splits)
qed

lemma finish_burst:
  "rn_burstCount (finish_cycle ev b c r) = rn_burstCount r + 1"
  "rn_lastCycleFinishedAt (finish_cycle ev b c r) = le_finished ev"
  by (simp_all add: finish_cycle_def markCycleFinished_def wakeWith_def recordWake_def Let_def)

text \<open>Clock readings of one run: no reading is the zero time, and all are within a duration of each other.\<close>

definition readings_ok :: "gotime \<Rightarrow> (loop_env \<times> bool \<times> bool) list \<Rightarrow> bool" where
  "readings_ok t evs \<longleftrightarrow> list_all (\<lambda>(ev, _). le_finished ev \<noteq> zero_time \<and>
     \<bar>le_finished ev - t\<bar> < 2 ^ 61 \<and> \<bar>le_now ev - t\<bar> < 2 ^ 61) evs"

lemma bursts_bounded:
  assumes "readings_ok t evs" and "rn_lastCycleFinishedAt r = snd a" and "snd a \<noteq> zero_time" and "\<bar>snd a - t\<bar> < 2 ^ 61"
    and "0 \<le> rn_burstCount r"
  shows "short_bursts (rn_burstCount r) a (cycle_times evs r)"
  using assms
proof (induction evs arbitrary: r a)
  case (Cons x evs)
  obtain ev b c where x: "x = (ev, b, c)" by (cases x)
  show ?case
  proof (cases "start_cycle ev r")
    case (Started wait r')
    let ?cycle = "(le_now ev + wait, le_finished ev)" and ?r = "finish_cycle ev b c r'"
    have gap: "\<bar>le_now ev - rn_lastCycleFinishedAt r\<bar> < 2 ^ 63 - 1"
      using Cons.prems x by (clarsimp simp: readings_ok_def) linarith
    have "rn_lastCycleFinishedAt r \<noteq> zero_time" using Cons.prems(2,3) by simp
    from start_gate [OF Started this gap] consider
        "rn_burstCount r' = 0" "paused a ?cycle" | "rn_burstCount r' = rn_burstCount r" "rn_burstCount r < 4"
      using Cons.prems(2) by (auto simp: paused_def)
    note gate = this
    then have count: "0 \<le> rn_burstCount r'" using Cons.prems(5) by cases simp_all
    have "short_bursts (rn_burstCount ?r) ?cycle (cycle_times evs ?r)"
      using Cons.IH [of ?r ?cycle] Cons.prems(1) x count by (simp add: readings_ok_def finish_burst)
    then have rest: "short_bursts (rn_burstCount r' + 1) ?cycle (cycle_times evs ?r)" by (simp add: finish_burst)
    from gate show ?thesis
    proof cases
      case 1
      then show ?thesis using rest x Started by simp
    next
      case 2
      then show ?thesis using rest x Started count short_bursts_mono [OF rest, of 1] by simp
    qed
  qed (simp add: x)
qed simp

lemma short_bursts_window:
  assumes "short_bursts n a bs" and "1 \<le> n" and "i + 4 \<le> length bs"
  shows "\<exists>j\<in>{i..<i + 4}. paused ((a # bs) ! j) (bs ! j)"
  using assms
proof (induction bs arbitrary: n a i)
  case (Cons b bs)
  show ?case
  proof (cases i)
    case (Suc k)
    obtain m where "short_bursts m b bs" "1 \<le> m" using Cons.prems(1,2) by (auto split: if_splits intro: that)
    from Cons.IH [OF this, of k] Cons.prems(3) Suc obtain j where "j \<in> {k..<k + 4}" "paused ((b # bs) ! j) (bs ! j)" by auto
    then show ?thesis using Suc by (intro bexI [of _ "Suc j"]) auto
  next
    case 0
    then obtain b1 b2 b3 rest where bs: "bs = b1 # b2 # b3 # rest"
      using Cons.prems(3) by (auto simp: numeral_eq_Suc Suc_le_length_iff)
    have "paused a b \<or> paused b b1 \<or> paused b1 b2 \<or> paused b2 b3"
      using Cons.prems(1,2) bs by (auto split: if_splits)
    then have "\<exists>j\<in>{0, 1, 2, 3}. paused ((a # b # bs) ! j) ((b # bs) ! j)" by (auto simp: bs numeral_eq_Suc)
    moreover have "{0, 1, 2, 3} \<subseteq> {i..<i + 4 :: nat}" using 0 by auto
    ultimately show ?thesis by blast
  qed
qed simp

text \<open>
  C29: bursts are bounded. However often the loop is woken and whatever its cycles report, among any five
  cycles in a row there are two neighbours with at least a second between the end of one and the start of
  the next.
\<close>

theorem bursts_pause:
  assumes "readings_ok t evs" and "cycle_times evs new_runtime = cycles" and "i + 5 \<le> length cycles"
  shows "\<exists>j\<in>{i..<i + 4}. BurstCooldown \<le> fst (cycles ! Suc j) - snd (cycles ! j)"
proof -
  obtain ev b c rest where evs: "evs = (ev, b, c) # rest" using assms(2,3) by (cases evs) auto
  obtain wait r where started: "start_cycle ev new_runtime = Started wait r"
    using assms(2,3) evs by (cases "start_cycle ev new_runtime") auto
  let ?a = "(le_now ev + wait, le_finished ev)" and ?r = "finish_cycle ev b c r"
  have cycles: "cycles = ?a # cycle_times rest ?r" using assms(2) evs started by simp
  have "rn_burstCount r = 0"
    using started
    by (auto simp: start_cycle_def burstWaitBeforeStart_def consumeWakeReason_def recordWake_def Let_def new_runtime_def
        split: event.splits if_splits)
  then have count: "rn_burstCount ?r = 1" by (simp add: finish_burst)
  have "short_bursts (rn_burstCount ?r) ?a (cycle_times rest ?r)"
    by (rule bursts_bounded [where t = t]) (use assms(1) evs count in \<open>auto simp: readings_ok_def finish_burst\<close>)
  from short_bursts_window [OF this, of i] assms(3) cycles count show ?thesis by (auto simp: paused_def)
qed

definition sample_wake :: "gotime \<Rightarrow> loop_env \<times> bool \<times> bool" where
  "sample_wake t = (\<lparr>le_event = WakeToken, le_now = t, le_slept = True, le_finished = t + 5\<rparr>, True, False)"

theorem bursts_pause_witness:
  "\<exists>cycles. cycle_times (map sample_wake [1000, 1010, 1020, 1030, 1040]) new_runtime = cycles \<and>
     (\<exists>j\<in>{0..<4}. BurstCooldown \<le> fst (cycles ! Suc j) - snd (cycles ! j))"
proof -
  let ?evs = "map sample_wake [1000, 1010, 1020, 1030, 1040]"
  have "readings_ok 1000 ?evs" "length (cycle_times ?evs new_runtime) = 5" by code_simp+
  then show ?thesis using bursts_pause [of 1000 ?evs "cycle_times ?evs new_runtime" 0] by simp
qed

section \<open>Hints\<close>

lemma applyMerge_urgency:
  assumes "applyMerge w sig True = Inr m" and "ds_NotBefore sig = Some t"
  shows "\<exists>p. wk_PendingPriority m = Some p \<and> priorityRank (ds_Priority sig) \<le> priorityRank p"
    and "wk_WorkState w \<in> {WorkPending, WorkVerified} \<Longrightarrow> \<exists>nb. wk_PendingNotBefore m = Some nb \<and> nb \<le> t"
  using assms
  by (cases "wk_PendingNotBefore w"; auto simp: applyMerge_def merge_pending_def mergedPriority_def MaxPriority_def
      and_then_def split: WorkState.splits sum.splits option.splits)+

text \<open>What a merge leaves in the row of its scope.\<close>

lemma mergeSignalTx_row:
  assumes ok: "state_ok d" and sig: "signal_ok sig" "ds_NotBefore sig = Some t"
    and merge: "mergeSignalTx sig True d = Inr (wk, d')"
  defines "found \<equiv> find_work d (ds_RootID sig) (ds_ScopeKey sig)"
  shows "find_work d' (ds_RootID sig) (ds_ScopeKey sig) = Some wk"
    and "ds_Source sig \<in> set (wk_PendingSourceSet wk)"
    and "\<exists>p. wk_PendingPriority wk = Some p \<and> priorityRank (ds_Priority sig) \<le> priorityRank p"
    and "wk_SignalSeq wk = (case found of None \<Rightarrow> 1 | Some w \<Rightarrow> wk_SignalSeq w + 1)"
    and "(case found of None \<Rightarrow> True | Some w \<Rightarrow> wk_WorkState w \<in> {WorkPending, WorkVerified}) \<Longrightarrow>
      wk_RootID wk = ds_RootID sig \<and> wk_WorkState wk = WorkPending \<and>
      (\<exists>nb. wk_PendingNotBefore wk = Some nb \<and> nb \<le> t)"
    and "find_root d' = find_root d"
proof -
  have "find_work d' (ds_RootID sig) (ds_ScopeKey sig) = Some wk \<and> ds_Source sig \<in> set (wk_PendingSourceSet wk) \<and>
      (\<exists>p. wk_PendingPriority wk = Some p \<and> priorityRank (ds_Priority sig) \<le> priorityRank p) \<and>
      wk_SignalSeq wk = (case found of None \<Rightarrow> 1 | Some w \<Rightarrow> wk_SignalSeq w + 1) \<and>
      ((case found of None \<Rightarrow> True | Some w \<Rightarrow> wk_WorkState w \<in> {WorkPending, WorkVerified}) \<longrightarrow>
        wk_RootID wk = ds_RootID sig \<and> wk_WorkState wk = WorkPending \<and>
        (\<exists>nb. wk_PendingNotBefore wk = Some nb \<and> nb \<le> t)) \<and> find_root d' = find_root d"
  proof (cases found)
    case None
    let ?row = "(newWorkFromSignal sig True)\<lparr>wk_Version := 1\<rparr>"
    have scan: "scanWork ?row = Inr ?row" by (rule row_ok_scan [OF newWork_ok [OF sig(1)]])
    have fields: "wk_RootID (newWorkFromSignal sig True) = ds_RootID sig"
      "wk_ScopeKey (newWorkFromSignal sig True) = ds_ScopeKey sig" by (simp_all add: newWorkFromSignal_def)
    from merge None scan have wk: "wk = ?row" "d' = d\<lparr>db_works := db_works d @ [?row]\<rparr>"
      unfolding found_def
      by (auto simp: mergeSignalTx_def loaded(1) [OF ok] insertWork_def Let_def split: if_splits)
    have "List.find P xs = None \<Longrightarrow> P x \<Longrightarrow> List.find P (xs @ [x]) = Some x" for P and xs :: "DirtyScopeWork list" and x
      by (induction xs) (auto split: if_splits)
    with None wk fields have "find_work d' (ds_RootID sig) (ds_ScopeKey sig) = Some wk"
      unfolding found_def by (simp add: find_work_def)
    then show ?thesis using None wk sig(2) by (auto simp: newWorkFromSignal_def find_root_def fun_eq_iff)
  next
    case (Some w)
    note w = loaded(2) [OF ok Some [unfolded found_def]]
    from applyMerge_ok [of w sig True] w sig(1) obtain m where m: "applyMerge w sig True = Inr m" "row_ok m"
      "wk_RootID m = wk_RootID w" "wk_ScopeKey m = wk_ScopeKey w" "wk_SignalSeq m = wk_SignalSeq w + 1"
      "wk_WorkState m = (if wk_WorkState w = WorkVerified then WorkPending else wk_WorkState w)"
      "set (wk_PendingSourceSet m) = insert (ds_Source sig) (set (wk_PendingSourceSet w))" by (metis (full_types))
    let ?row = "m\<lparr>wk_Version := wk_Version w + 1\<rparr>"
    have key: "find_work d (wk_RootID m) (wk_ScopeKey m) = Some w" using Some w m unfolding found_def by simp
    have "1 \<le> wk_Version w" using w row_okD [of w] by (simp add: work_row_ok_def)
    from writeWork_row [OF m(2) key this] merge Some m(1) have wk: "wk = ?row" "d' = set_row ?row d"
      unfolding found_def by (auto simp: mergeSignalTx_def loaded(1) [OF ok])
    have "find_work d' (ds_RootID sig) (ds_ScopeKey sig) = Some wk"
      using find_set_row [of d ?row w] key wk w m by simp
    then show ?thesis
      using Some wk m w applyMerge_urgency [OF m(1) sig(2)] by auto
  qed
  then show "find_work d' (ds_RootID sig) (ds_ScopeKey sig) = Some wk"
    and "ds_Source sig \<in> set (wk_PendingSourceSet wk)"
    and "\<exists>p. wk_PendingPriority wk = Some p \<and> priorityRank (ds_Priority sig) \<le> priorityRank p"
    and "wk_SignalSeq wk = (case found of None \<Rightarrow> 1 | Some w \<Rightarrow> wk_SignalSeq w + 1)"
    and "(case found of None \<Rightarrow> True | Some w \<Rightarrow> wk_WorkState w \<in> {WorkPending, WorkVerified}) \<Longrightarrow>
      wk_RootID wk = ds_RootID sig \<and> wk_WorkState wk = WorkPending \<and>
      (\<exists>nb. wk_PendingNotBefore wk = Some nb \<and> nb \<le> t)"
    and "find_root d' = find_root d" by simp_all
qed

text \<open>An accepted hint is one merge of its signal, done while the root's lifecycle state is read.\<close>

lemma IngestOne_merge:
  assumes ok: "state_ok d" and active: "active_root d (hr_RootID req)" and ingest: "IngestOne req now d = (Inr wk, d')"
  obtains reason where "signal_ok (hint_signal req reason now)"
    "mergeSignalTx (hint_signal req reason now) True d = Inr (wk, d')"
proof -
  from ingest obtain reason where reason: "whole (MergeSignal (hint_signal req reason now)) d = (Inr wk, d')"
    unfolding IngestOne_def by (auto simp: map_sum_Inr split: if_splits sum.splits prod.splits)
  let ?sig = "hint_signal req reason now"
  from reason have merge: "MergeSignal ?sig d = Inr (wk, d')" by (auto simp: whole_def split: sum.splits)
  then have sig: "signal_ok ?sig"
    by (auto simp: MergeSignal_def signal_ok_def and_then_def split: sum.splits)
  obtain r where r: "find_root d (ds_RootID ?sig) = Some r" "root_LifecycleState r = RootActive"
    using active by (auto simp: active_root_def hint_signal_def split: option.splits)
  from mergeSignalTx_ok [OF ok sig, of True] r(1) obtain out d1 where tx: "mergeSignalTx ?sig True d = Inr (out, d1)" by blast
  then have "merge_attempt ?sig d = Inr (out, d1)"
    using r by (simp add: merge_attempt_def lockRootForUpdate_def loaded(3) [OF ok] activeFromLifecycle_def)
  then have "out = wk" "d1 = d'" using merge sig by (simp_all add: MergeSignal_def signal_ok_def eval_nat_numeral)
  with tx sig that show ?thesis by blast
qed

text \<open>
  What ingesting a hint does. After any history of the work queue the signal is merged into the item of its
  scope, which then has at least high priority; its signal sequence advances by one (a first signal is number
  one); no other item changes; and unless the item is in flight, suspended, blocked or waiting for a retry, it
  can be selected at once.
\<close>

lemma ingest_schedules:
  assumes "fresh d0" and "wstep\<^sup>*\<^sup>* d0 d" and "active_root d (hr_RootID req)"
    and "IngestOne req now d = (Inr wk, d')"
  shows "find_work d' (hr_RootID req) (hr_ScopeKey req) = Some wk \<and>
    SourceMutationHint \<in> set (wk_PendingSourceSet wk) \<and>
    (\<exists>p. wk_PendingPriority wk = Some p \<and> priorityRank PriorityHigh \<le> priorityRank p) \<and>
    wk_SignalSeq wk = (case find_work d (hr_RootID req) (hr_ScopeKey req) of None \<Rightarrow> 1 | Some w \<Rightarrow> wk_SignalSeq w + 1) \<and>
    (\<forall>x key. (x, key) \<noteq> (hr_RootID req, hr_ScopeKey req) \<longrightarrow> find_work d' x key = find_work d x key) \<and>
    ((case find_work d (hr_RootID req) (hr_ScopeKey req) of
        None \<Rightarrow> True | Some w \<Rightarrow> wk_WorkState w \<in> {WorkPending, WorkVerified}) \<longrightarrow> eligible d' now wk)"
proof -
  have ok: "state_ok d" using assms(1,2) by (rule history_ok)
  from IngestOne_merge [OF ok assms(3,4)] obtain reason where sig: "signal_ok (hint_signal req reason now)"
    and tx: "mergeSignalTx (hint_signal req reason now) True d = Inr (wk, d')" .
  let ?sig = "hint_signal req reason now"
  have fields: "ds_RootID ?sig = hr_RootID req" "ds_ScopeKey ?sig = hr_ScopeKey req" "ds_Source ?sig = SourceMutationHint"
    "ds_Priority ?sig = PriorityHigh" "ds_NotBefore ?sig = Some now" by (simp_all add: hint_signal_def)
  note row = mergeSignalTx_row [OF ok sig fields(5) tx, unfolded fields]
  have "find_root d (ds_RootID ?sig) \<noteq> None"
    using assms(3) fields by (auto simp: active_root_def split: option.splits)
  from mergeSignalTx_ok [OF ok sig this, of True] tx fields
  have others: "\<forall>x key. (x, key) \<noteq> (hr_RootID req, hr_ScopeKey req) \<longrightarrow> find_work d' x key = find_work d x key" by auto
  have "eligible d' now wk" if "case find_work d (hr_RootID req) (hr_ScopeKey req) of
      None \<Rightarrow> True | Some w \<Rightarrow> wk_WorkState w \<in> {WorkPending, WorkVerified}"
    using row(5) [OF that] row(6) assms(3) by (auto simp: eligible_def active_root_def)
  with row others show ?thesis by simp
qed

definition sample_hint :: HintRequest where
  "sample_hint = \<lparr>hr_RootID = ''r'', hr_ScopeKey = ''/b'', hr_Reason = OtherReason []\<rparr>"

end
