(* ===== verification/HintApi.thy ===== *)
theory HintApi
  imports RuntimeProps
begin

text \<open>
  The HTTP entry of hints (\<open>internal/transport/hintapi/server.go\<close>): authentication, the strict request
  format, the bounded number of concurrent ingestions, and the lifecycle gate that keeps the writer lock
  safe at shutdown. The JSON decoder and the media type parser of the standard library appear by their
  answers. The requests are those of its one route; routing is the
  multiplexer of the standard library. The order of handlers is a step relation over the phases that they are in.
\<close>

section \<open>Requests\<close>

definition MaxBodyBytes :: nat where
  "MaxBodyBytes = 4096"

definition MaxInFlight :: nat where
  "MaxInFlight = 4"

record hintRequest =
  hq_RootID :: string
  hq_ScopeKey :: string
  hq_Reason :: string

text \<open>What the decoder says of the bytes it may read, of which the flag tells whether the limit cut them:
  the first value, whether another value follows, and whether the input then ends.\<close>

datatype decode_result = DecodeTooLarge | DecodeInvalid | Decoded_request hintRequest

record json_decoder =
  js_Decode :: "string \<Rightarrow> bool \<Rightarrow> decode_result"
  js_More :: "string \<Rightarrow> bool \<Rightarrow> bool"
  js_EOF :: "string \<Rightarrow> bool \<Rightarrow> bool"

text \<open>A request; the media type is absent when it does not parse.\<close>

record hint_http =
  hh_Authorization :: string
  hh_MediaType :: "string option"
  hh_Body :: string

record hintResponse =
  hp_RootID :: uuid
  hp_ScopeKey :: string
  hp_WorkState :: WorkState
  hp_SignalSeq :: int

datatype hint_answer = HintErr nat string | HintAccepted hintResponse

section \<open>Authentication and validation\<close>

definition bearer :: string where
  "bearer = ''Bearer ''"

definition authenticate :: "string \<Rightarrow> hint_http \<Rightarrow> bool" where
  "authenticate token r =
     (let auth = hh_Authorization r;
          supplied = sha256 (trim_prefix auth bearer);
          expected = sha256 token
      in has_prefix auth bearer \<and> supplied = expected)"

text \<open>The conversion \<open>state.TriggerReason(s)\<close>.\<close>

definition trigger_reason_of :: "string \<Rightarrow> TriggerReason" where
  "trigger_reason_of s =
     (case List.find (\<lambda>r. trigger_reason_str r = s)
        [ReasonPossibleChange, ReasonDeleteHint, ReasonMoveUncertain, ReasonMetadataUncertain,
         ReasonManualVerify, ReasonDriftVerify, ReasonRetry] of
        Some r \<Rightarrow> r | None \<Rightarrow> OtherReason s)"

definition allowedReason :: "TriggerReason \<Rightarrow> bool" where
  "allowedReason r \<longleftrightarrow>
     r \<in> {OtherReason [], ReasonPossibleChange, ReasonDeleteHint, ReasonMoveUncertain, ReasonMetadataUncertain}"

definition validateRequest :: "hintRequest \<Rightarrow> HintRequest option" where
  "validateRequest req =
     (if trim_space (hq_RootID req) = [] then None
      else case ValidateScopeKey (hq_ScopeKey req) of
             Inl _ \<Rightarrow> None
           | Inr _ \<Rightarrow>
               let reason = trigger_reason_of (trim_space (hq_Reason req))
               in if \<not> allowedReason reason then None
                  else Some \<lparr>hr_RootID = hq_RootID req, hr_ScopeKey = hq_ScopeKey req, hr_Reason = reason\<rparr>)"

text \<open>The handler up to the request for a place: the first failed check is the answer.\<close>

definition check_request :: "json_decoder \<Rightarrow> string \<Rightarrow> hint_http \<Rightarrow> hint_answer + HintRequest" where
  "check_request dec token r =
     (if \<not> authenticate token r then Inl (HintErr 401 ''unauthorized'')
      else if hh_MediaType r \<noteq> Some ''application/json'' then Inl (HintErr 415 ''unsupported_media_type'')
      else let body = take MaxBodyBytes (hh_Body r); cut = (length (hh_Body r) > MaxBodyBytes)
           in case js_Decode dec body cut of
                DecodeTooLarge \<Rightarrow> Inl (HintErr 413 ''request_too_large'')
              | DecodeInvalid \<Rightarrow> Inl (HintErr 400 ''invalid_request'')
              | Decoded_request req \<Rightarrow>
                  if js_More dec body cut then Inl (HintErr 400 ''invalid_request'')
                  else if \<not> js_EOF dec body cut then Inl (HintErr 400 ''invalid_request'')
                  else case validateRequest req of
                         None \<Rightarrow> Inl (HintErr 400 ''invalid_request'')
                       | Some q \<Rightarrow> Inr q)"

section \<open>The server\<close>

record HintServer =
  hs_closed :: bool
  hs_wg :: nat
  hs_sem :: nat

definition hint_New :: "bool \<Rightarrow> string \<Rightarrow> string + HintServer" where
  "hint_New ingester token =
     (if \<not> ingester then Inl ''hintapi: ingester is required''
      else if length token < 32 then Inl ''hintapi: token must be at least 32 bytes''
      else Inr \<lparr>hs_closed = False, hs_wg = 0, hs_sem = 0\<rparr>)"

definition begin_request :: "HintServer \<Rightarrow> HintServer option" where
  "begin_request s = (if hs_closed s then None else Some (s\<lparr>hs_wg := hs_wg s + 1\<rparr>))"

definition finish_request :: "HintServer \<Rightarrow> HintServer" where
  "finish_request s = s\<lparr>hs_wg := hs_wg s - 1\<rparr>"

definition Shutdown :: "HintServer \<Rightarrow> HintServer" where
  "Shutdown s = s\<lparr>hs_closed := True\<rparr>"

definition acquire_place :: "HintServer \<Rightarrow> HintServer option" where
  "acquire_place s = (if hs_sem s < MaxInFlight then Some (s\<lparr>hs_sem := hs_sem s + 1, hs_wg := hs_wg s + 1\<rparr>) else None)"

definition release_place :: "HintServer \<Rightarrow> HintServer" where
  "release_place s = s\<lparr>hs_sem := hs_sem s - 1, hs_wg := hs_wg s - 1\<rparr>"

text \<open>\<open>ingest\<close> is the ingester that the server holds.\<close>

definition answer_ingest :: "HintRequest \<Rightarrow> (hint_error + DirtyScopeWork) \<Rightarrow> hint_answer" where
  "answer_ingest q res =
     (case res of
        Inl _ \<Rightarrow> HintErr 503 ''ingest_unavailable''
      | Inr wk \<Rightarrow> HintAccepted \<lparr>hp_RootID = hr_RootID q, hp_ScopeKey = hr_ScopeKey q,
          hp_WorkState = wk_WorkState wk, hp_SignalSeq = wk_SignalSeq wk\<rparr>)"

definition handleIngest ::
  "json_decoder \<Rightarrow> string \<Rightarrow> (HintRequest \<Rightarrow> db \<Rightarrow> (hint_error + DirtyScopeWork) \<times> db)
     \<Rightarrow> hint_http \<Rightarrow> HintServer \<Rightarrow> db \<Rightarrow> hint_answer \<times> db" where
  "handleIngest dec token ingest r s d =
     (case check_request dec token r of
        Inl a \<Rightarrow> (a, d)
      | Inr q \<Rightarrow>
          (case acquire_place s of
             None \<Rightarrow> (HintErr 429 ''busy'', d)
           | Some _ \<Rightarrow> (case ingest q d of (res, d') \<Rightarrow> (answer_ingest q res, d'))))"

definition ServeHTTP ::
  "json_decoder \<Rightarrow> string \<Rightarrow> (HintRequest \<Rightarrow> db \<Rightarrow> (hint_error + DirtyScopeWork) \<times> db)
     \<Rightarrow> hint_http \<Rightarrow> HintServer \<Rightarrow> db \<Rightarrow> hint_answer \<times> db" where
  "ServeHTTP dec token ingest r s d =
     (case begin_request s of
        None \<Rightarrow> (HintErr 503 ''ingest_unavailable'', d)
      | Some s' \<Rightarrow> handleIngest dec token ingest r s' d)"

section \<open>Handlers in any order\<close>

text \<open>A handler checks its request, calls the ingester between taking and giving back its place, and
  leaves.\<close>

datatype phase = Checking | Ingesting | Leaving

record handlers =
  hn_server :: HintServer
  hn_phases :: "phase list"

inductive hstep :: "handlers \<Rightarrow> handlers \<Rightarrow> bool" where
  h_begin: "begin_request s = Some s' \<Longrightarrow>
     hstep \<lparr>hn_server = s, hn_phases = ps\<rparr> \<lparr>hn_server = s', hn_phases = ps @ [Checking]\<rparr>"
| h_refuse: "i < length ps \<Longrightarrow> ps ! i = Checking \<Longrightarrow>
     hstep \<lparr>hn_server = s, hn_phases = ps\<rparr> \<lparr>hn_server = s, hn_phases = ps[i := Leaving]\<rparr>"
| h_acquire: "i < length ps \<Longrightarrow> ps ! i = Checking \<Longrightarrow> acquire_place s = Some s' \<Longrightarrow>
     hstep \<lparr>hn_server = s, hn_phases = ps\<rparr> \<lparr>hn_server = s', hn_phases = ps[i := Ingesting]\<rparr>"
| h_release: "i < length ps \<Longrightarrow> ps ! i = Ingesting \<Longrightarrow>
     hstep \<lparr>hn_server = s, hn_phases = ps\<rparr> \<lparr>hn_server = release_place s, hn_phases = ps[i := Leaving]\<rparr>"
| h_finish: "i < length ps \<Longrightarrow> ps ! i = Leaving \<Longrightarrow>
     hstep \<lparr>hn_server = s, hn_phases = ps\<rparr>
       \<lparr>hn_server = finish_request s, hn_phases = take i ps @ drop (Suc i) ps\<rparr>"
| h_shutdown: "hstep \<lparr>hn_server = s, hn_phases = ps\<rparr> \<lparr>hn_server = Shutdown s, hn_phases = ps\<rparr>"

inductive_cases hstepE: "hstep a b"

section \<open>Properties\<close>

definition ingesting :: "phase list \<Rightarrow> nat" where
  "ingesting ps = length (filter ((=) Ingesting) ps)"

text \<open>The wait group counts every handler, and every ingestion once more.\<close>

definition gate_ok :: "handlers \<Rightarrow> bool" where
  "gate_ok h \<longleftrightarrow>
     hs_sem (hn_server h) = ingesting (hn_phases h) \<and> hs_sem (hn_server h) \<le> MaxInFlight \<and>
     hs_wg (hn_server h) = length (hn_phases h) + ingesting (hn_phases h)"

lemma ingesting_split: "i < length ps \<Longrightarrow>
   ingesting ps = ingesting (take i ps @ drop (Suc i) ps) + (if ps ! i = Ingesting then 1 else 0)"
  by (subst id_take_nth_drop [of i ps]) (simp_all add: ingesting_def)

lemma ingesting_update: "i < length ps \<Longrightarrow>
   ingesting (ps[i := p]) = ingesting (take i ps @ drop (Suc i) ps) + (if p = Ingesting then 1 else 0)"
  by (simp add: upd_conv_take_nth_drop ingesting_def)

lemma ingesting_append [simp]: "ingesting (ps @ qs) = ingesting ps + ingesting qs"
  by (simp add: ingesting_def)

lemma hstep_gate: "hstep h h' \<Longrightarrow> gate_ok h \<Longrightarrow> gate_ok h'"
proof (induction rule: hstep.induct)
  case (h_refuse i ps s)
  then show ?case using ingesting_split [of i ps] ingesting_update [of i ps Leaving] by (simp add: gate_ok_def)
next
  case (h_acquire i ps s s')
  then show ?case using ingesting_split [of i ps] ingesting_update [of i ps Ingesting] by (auto simp: gate_ok_def acquire_place_def split: if_splits)
next
  case (h_release i ps s)
  then show ?case using ingesting_split [of i ps] ingesting_update [of i ps Leaving] by (auto simp: gate_ok_def release_place_def)
next
  case (h_finish i ps s)
  then show ?case using ingesting_split [of i ps] by (simp add: gate_ok_def finish_request_def)
qed (auto simp: gate_ok_def begin_request_def Shutdown_def ingesting_def split: if_splits)

lemma hsteps_gate: "hstep\<^sup>*\<^sup>* h h' \<Longrightarrow> gate_ok h \<Longrightarrow> gate_ok h'"
  by (induction rule: rtranclp_induct) (auto intro: hstep_gate)

text \<open>A closed server without handlers stays so.\<close>

lemma hstep_drained:
  "hstep h h' \<Longrightarrow> hs_closed (hn_server h) \<and> hn_phases h = [] \<Longrightarrow> hs_closed (hn_server h') \<and> hn_phases h' = []"
  by (induction rule: hstep.induct) (auto simp: begin_request_def Shutdown_def)

lemma hsteps_drained:
  "hstep\<^sup>*\<^sup>* h h' \<Longrightarrow> hs_closed (hn_server h) \<and> hn_phases h = [] \<Longrightarrow> hs_closed (hn_server h') \<and> hn_phases h' = []"
  by (induction rule: rtranclp_induct) (auto dest: hstep_drained)

text \<open>
  C15: the gate of the hint server is safe. From a new server, whatever requests come and however their handlers
  interleave, at most four handlers call the ingester at a time, and the wait group never counts fewer than the
  handlers that are active. When the server has been shut down and the wait on its handlers returns, no handler is
  active and none will ever call the ingester again, so the writer lock may be released.
\<close>

theorem hint_gate:
  assumes "hint_New ingester token = Inr s" and "hstep\<^sup>*\<^sup>* \<lparr>hn_server = s, hn_phases = []\<rparr> h"
  shows "ingesting (hn_phases h) \<le> MaxInFlight \<and> length (hn_phases h) \<le> hs_wg (hn_server h) \<and>
    (hs_closed (hn_server h) \<and> hs_wg (hn_server h) = 0 \<longrightarrow>
      (\<forall>h'. hstep\<^sup>*\<^sup>* h h' \<longrightarrow> hn_phases h' = []))"
proof -
  have "gate_ok \<lparr>hn_server = s, hn_phases = []\<rparr>"
    using assms(1) by (auto simp: hint_New_def gate_ok_def ingesting_def split: if_splits)
  from hsteps_gate [OF assms(2) this] have "gate_ok h" .
  then show ?thesis using hsteps_drained by (auto simp: gate_ok_def)
qed

definition sample_token :: string where
  "sample_token = ''0123456789abcdef0123456789abcdef''"

theorem hint_gate_witness:
  "\<exists>h. hstep\<^sup>*\<^sup>* \<lparr>hn_server = \<lparr>hs_closed = False, hs_wg = 0, hs_sem = 0\<rparr>, hn_phases = []\<rparr> h \<and> hn_phases h = [Ingesting] \<and>
     ingesting (hn_phases h) \<le> MaxInFlight"
proof -
  let ?s = "\<lparr>hs_closed = False, hs_wg = 0, hs_sem = 0\<rparr>"
  let ?h = "\<lparr>hn_server = \<lparr>hs_closed = False, hs_wg = 2, hs_sem = 1\<rparr>, hn_phases = [Ingesting]\<rparr>"
  have "hstep \<lparr>hn_server = ?s, hn_phases = []\<rparr> \<lparr>hn_server = ?s\<lparr>hs_wg := 1\<rparr>, hn_phases = [Checking]\<rparr>"
    using h_begin [of ?s _ "[]"] by (simp add: begin_request_def)
  moreover have "hstep \<lparr>hn_server = ?s\<lparr>hs_wg := 1\<rparr>, hn_phases = [Checking]\<rparr> ?h"
    using h_acquire [of 0 "[Checking]" "?s\<lparr>hs_wg := 1\<rparr>"] by (simp add: acquire_place_def MaxInFlight_def numeral_2_eq_2)
  ultimately have "hstep\<^sup>*\<^sup>* \<lparr>hn_server = ?s, hn_phases = []\<rparr> ?h" by (meson converse_rtranclp_into_rtranclp r_into_rtranclp)
  moreover have "hint_New True sample_token = Inr ?s" by code_simp
  ultimately show ?thesis using hint_gate [of True sample_token ?s ?h] by auto
qed






end
