(* ===== verification/Settings.thy ===== *)
theory Settings
  imports Runtime SourceBudget
begin

text \<open>
  The configuration of the process (\<open>internal/runtime/config/config.go\<close>): defaults, the environment on top of
  them, and the validation that runs before any work starts, with the parts that the application builds from a
  configuration (\<open>internal/runtime/app/incremental_runtime.go\<close>). \<open>time.ParseDuration\<close> is an argument. The values
  that flags override are the record's fields after \<open>RegisterFlags\<close>.
\<close>

section \<open>Values\<close>

record Settings =
  cf_DatabaseURL :: string
  cf_HTTPAddr :: string
  cf_RclonePath :: string
  cf_RcloneConfig :: string
  cf_MaxConcurrentRoots :: int
  cf_ScanTimeout :: duration
  cf_ShutdownTimeout :: duration
  cf_LogLevel :: string
  cf_LogFormat :: string
  cf_HintAddr :: string
  cf_HintToken :: string
  cf_IncrementalRuntimeEnabled :: bool
  cf_IncrementalWakeInterval :: duration
  cf_IncrementalDiscoveryScope :: string
  cf_IncrementalFirstDiscovery :: bool
  cf_IncrementalMirrorRevisit :: duration
  cf_IncrementalReadWorkers :: int
  cf_SourceGlobalInterval :: duration
  cf_SourceRootInterval :: duration
  cf_SourceProviderInterval :: duration

datatype settings_error =
    LoadError string
  | InvalidSetting string
  | InvalidBudget budget_error
  | InvalidState state_error

definition settings_Defaults :: Settings where
  "settings_Defaults =
     \<lparr>cf_DatabaseURL = [], cf_HTTPAddr = ''127.0.0.1:8080'', cf_RclonePath = ''rclone'', cf_RcloneConfig = [],
      cf_MaxConcurrentRoots = 4, cf_ScanTimeout = 30 * minute, cf_ShutdownTimeout = 15 * second,
      cf_LogLevel = ''info'', cf_LogFormat = ''text'', cf_HintAddr = [], cf_HintToken = [],
      cf_IncrementalRuntimeEnabled = False, cf_IncrementalWakeInterval = 5 * second,
      cf_IncrementalDiscoveryScope = [], cf_IncrementalFirstDiscovery = False, cf_IncrementalMirrorRevisit = 0,
      cf_IncrementalReadWorkers = 1, cf_SourceGlobalInterval = 100 * millisecond,
      cf_SourceRootInterval = 100 * millisecond, cf_SourceProviderInterval = 100 * millisecond\<rparr>"

section \<open>The environment\<close>

text \<open>\<open>strconv.ParseBool\<close>.\<close>

definition parse_bool :: "string \<Rightarrow> bool option" where
  "parse_bool s =
     (if s \<in> {''1'', ''t'', ''T'', ''true'', ''TRUE'', ''True''} then Some True
      else if s \<in> {''0'', ''f'', ''F'', ''false'', ''FALSE'', ''False''} then Some False
      else None)"

text \<open>A variable that is set is parsed and stored; a value that does not parse ends the load.\<close>

definition env_parsed ::
  "(string \<Rightarrow> string) \<Rightarrow> (string \<Rightarrow> 'a option) \<Rightarrow> ('a \<Rightarrow> Settings \<Rightarrow> Settings) \<Rightarrow> string \<Rightarrow> Settings \<Rightarrow> settings_error + Settings" where
  "env_parsed env parse put name c =
     (let v = env name
      in if v = [] then Inr c
         else case parse v of None \<Rightarrow> Inl (LoadError name) | Some x \<Rightarrow> Inr (put x c))"

definition env_text :: "(string \<Rightarrow> string) \<Rightarrow> (string \<Rightarrow> Settings \<Rightarrow> Settings) \<Rightarrow> string \<Rightarrow> Settings \<Rightarrow> Settings" where
  "env_text env put name c = (let v = env name in if v = [] then c else put v c)"

definition put_interval :: "string \<Rightarrow> duration \<Rightarrow> Settings \<Rightarrow> Settings" where
  "put_interval name d c =
     (if name = ''INDEXCORE_SOURCE_GLOBAL_INTERVAL'' then c\<lparr>cf_SourceGlobalInterval := d\<rparr>
      else if name = ''INDEXCORE_SOURCE_ROOT_INTERVAL'' then c\<lparr>cf_SourceRootInterval := d\<rparr>
      else c\<lparr>cf_SourceProviderInterval := d\<rparr>)"

text \<open>The three intervals are visited in the order of the map, which the argument gives.\<close>

definition load_intervals ::
  "(string \<Rightarrow> string) \<Rightarrow> (string \<Rightarrow> duration option) \<Rightarrow> string list \<Rightarrow> Settings \<Rightarrow> settings_error + Settings" where
  "load_intervals env dur order c = fold_err (\<lambda>name. env_parsed env dur (put_interval name) name) order c"

definition Load ::
  "(string \<Rightarrow> string) \<Rightarrow> (string \<Rightarrow> duration option) \<Rightarrow> string list \<Rightarrow> settings_error + Settings" where
  "Load env dur order =
     and_then (env_parsed env parse_int64 (\<lambda>n c. c\<lparr>cf_IncrementalReadWorkers := n\<rparr>) ''INDEXCORE_INCREMENTAL_READ_WORKERS''
         settings_Defaults) (\<lambda>c.
     and_then (load_intervals env dur order c) (\<lambda>c.
     let c = c\<lparr>cf_DatabaseURL := env ''INDEXCORE_DATABASE_URL''\<rparr>;
         c = env_text env (\<lambda>v c. c\<lparr>cf_HTTPAddr := v\<rparr>) ''INDEXCORE_HTTP_ADDR'' c;
         c = env_text env (\<lambda>v c. c\<lparr>cf_RclonePath := v\<rparr>) ''INDEXCORE_RCLONE_PATH'' c;
         c = c\<lparr>cf_RcloneConfig := env ''INDEXCORE_RCLONE_CONFIG''\<rparr>
     in
     and_then (env_parsed env parse_int64 (\<lambda>n c. c\<lparr>cf_MaxConcurrentRoots := n\<rparr>) ''INDEXCORE_MAX_CONCURRENT_ROOTS'' c) (\<lambda>c.
     and_then (env_parsed env dur (\<lambda>d c. c\<lparr>cf_ScanTimeout := d\<rparr>) ''INDEXCORE_SCAN_TIMEOUT'' c) (\<lambda>c.
     and_then (env_parsed env dur (\<lambda>d c. c\<lparr>cf_ShutdownTimeout := d\<rparr>) ''INDEXCORE_SHUTDOWN_TIMEOUT'' c) (\<lambda>c.
     let c = env_text env (\<lambda>v c. c\<lparr>cf_LogLevel := v\<rparr>) ''INDEXCORE_LOG_LEVEL'' c;
         c = env_text env (\<lambda>v c. c\<lparr>cf_LogFormat := v\<rparr>) ''INDEXCORE_LOG_FORMAT'' c;
         c = c\<lparr>cf_HintAddr := env ''INDEXCORE_HINT_ADDR'', cf_HintToken := env ''INDEXCORE_HINT_TOKEN'',
               cf_IncrementalDiscoveryScope := env ''INDEXCORE_INCREMENTAL_DISCOVERY_SCOPE''\<rparr>
     in
     and_then (env_parsed env dur (\<lambda>d c. c\<lparr>cf_IncrementalMirrorRevisit := d\<rparr>) ''INDEXCORE_INCREMENTAL_MIRROR_REVISIT'' c) (\<lambda>c.
     and_then (env_parsed env parse_bool (\<lambda>b c. c\<lparr>cf_IncrementalFirstDiscovery := b\<rparr>)
         ''INDEXCORE_INCREMENTAL_FIRST_DISCOVERY_ENABLED'' c) (\<lambda>c.
     and_then (env_parsed env parse_bool (\<lambda>b c. c\<lparr>cf_IncrementalRuntimeEnabled := b\<rparr>)
         ''INDEXCORE_INCREMENTAL_RUNTIME_ENABLED'' c) (\<lambda>c.
     env_parsed env dur (\<lambda>d c. c\<lparr>cf_IncrementalWakeInterval := d\<rparr>) ''INDEXCORE_INCREMENTAL_WAKE_INTERVAL'' c))))))))"

section \<open>Addresses\<close>

text \<open>The text up to the last colon and after it.\<close>

definition last_colon :: "string \<Rightarrow> (string \<times> string) option" where
  "last_colon s =
     (if CHR '':'' \<in> set s
      then Some (rev (tl (dropWhile (\<lambda>c. c \<noteq> CHR '':'') (rev s))), rev (takeWhile (\<lambda>c. c \<noteq> CHR '':'') (rev s)))
      else None)"

text \<open>\<open>net.SplitHostPort\<close>.\<close>

definition split_host_port :: "string \<Rightarrow> (string \<times> string) option" where
  "split_host_port s =
     (case last_colon s of
        None \<Rightarrow> None
      | Some (host, port) \<Rightarrow>
          if hd s = CHR ''[''
          then (let inner = takeWhile (\<lambda>c. c \<noteq> CHR '']'') (tl s); rest = drop (length inner + 1) s
                in if rest \<noteq> CHR '']'' # CHR '':'' # port then None
                   else if CHR ''['' \<in> set (tl s) \<or> CHR '']'' \<in> set port then None
                   else Some (inner, port))
          else if CHR '':'' \<in> set host then None
          else if CHR ''['' \<in> set s \<or> CHR '']'' \<in> set s then None
          else Some (host, port))"

definition LoopbackOnly :: "Settings \<Rightarrow> bool" where
  "LoopbackOnly c =
     (let host = (case last_colon (cf_HTTPAddr c) of None \<Rightarrow> cf_HTTPAddr c | Some (h, _) \<Rightarrow> h);
          bracket = (\<lambda>c. c = CHR ''['' \<or> c = CHR '']'');
          host = rev (dropWhile bracket (rev (dropWhile bracket host)))
      in host \<in> {''127.0.0.1'', ''::1'', ''localhost''})"

definition validateHintAddr :: "string \<Rightarrow> settings_error + unit" where
  "validateHintAddr addr =
     (case split_host_port addr of
        None \<Rightarrow> Inl (InvalidSetting ''hint address'')
      | Some (host, port) \<Rightarrow>
          (case parse_int64 port of
             None \<Rightarrow> Inl (InvalidSetting ''hint address port'')
           | Some p \<Rightarrow>
               if p < 1 \<or> p > 65535 then Inl (InvalidSetting ''hint address port'')
               else if host \<in> {''127.0.0.1'', ''::1''} then Inr ()
               else Inl (InvalidSetting ''hint address host'')))"

section \<open>Validation\<close>

definition minHintTokenBytes :: nat where
  "minHintTokenBytes = 32"

definition HintEnabled :: "Settings \<Rightarrow> bool" where
  "HintEnabled c \<longleftrightarrow> trim_space (cf_HintAddr c) \<noteq> []"

definition settings_budget :: "Settings \<Rightarrow> BudgetConfig" where
  "settings_budget c = budget_Defaults\<lparr>bc_Global := cf_SourceGlobalInterval c, bc_Root := cf_SourceRootInterval c,
     bc_Provider := cf_SourceProviderInterval c\<rparr>"

definition settings_Validate :: "Settings \<Rightarrow> settings_error + unit" where
  "settings_Validate c =
     (if cf_IncrementalReadWorkers c \<notin> {1, 2, 4, 8} then Inl (InvalidSetting ''incremental-read-workers'')
      else case budget_Validate (settings_budget c) of
        Inl e \<Rightarrow> Inl (InvalidBudget e)
      | Inr _ \<Rightarrow>
          (case ValidateMirrorRevisit (cf_IncrementalMirrorRevisit c) of
             Inl e \<Rightarrow> Inl (InvalidState e)
           | Inr _ \<Rightarrow>
               (case (if cf_IncrementalDiscoveryScope c \<noteq> [] then ValidateScopeKey (cf_IncrementalDiscoveryScope c) else Inr ()) of
                  Inl e \<Rightarrow> Inl (InvalidState e)
                | Inr _ \<Rightarrow>
                    if trim_space (cf_DatabaseURL c) = [] then Inl (InvalidSetting ''database-url'')
                    else if trim_space (cf_HTTPAddr c) = [] then Inl (InvalidSetting ''http-addr'')
                    else if cf_MaxConcurrentRoots c < 1 then Inl (InvalidSetting ''max-concurrent-roots'')
                    else if cf_ScanTimeout c \<le> 0 then Inl (InvalidSetting ''scan-timeout'')
                    else if cf_ShutdownTimeout c \<le> 0 then Inl (InvalidSetting ''shutdown-timeout'')
                    else if cf_LogFormat c \<notin> {''text'', ''json''} then Inl (InvalidSetting ''log-format'')
                    else if cf_LogLevel c \<notin> {''debug'', ''info'', ''warn'', ''error''} then Inl (InvalidSetting ''log-level'')
                    else
                      (case (if HintEnabled c
                             then and_then (validateHintAddr (cf_HintAddr c)) (\<lambda>_.
                               if length (cf_HintToken c) < minHintTokenBytes
                               then Inl (InvalidSetting ''INDEXCORE_HINT_TOKEN'') else Inr ())
                             else Inr ()) of
                         Inl e \<Rightarrow> Inl e
                       | Inr _ \<Rightarrow>
                           if cf_IncrementalRuntimeEnabled c \<and>
                              (cf_IncrementalWakeInterval c < second \<or> cf_IncrementalWakeInterval c > 60 * second)
                           then Inl (InvalidSetting ''INDEXCORE_INCREMENTAL_WAKE_INTERVAL'') else Inr ()))))"

section \<open>What the application builds\<close>

definition app_exec_config :: "Settings \<Rightarrow> ExecConfig" where
  "app_exec_config c =
     \<lparr>xc_MaxEntriesPerScope = 1000, xc_DiscoveryScope = cf_IncrementalDiscoveryScope c,
      xc_FirstDiscoveryEnabled = cf_IncrementalFirstDiscovery c, xc_MirrorRevisitInterval = cf_IncrementalMirrorRevisit c,
      xc_Retry = \<lparr>rp_TransientProvider = 30 * second, rp_Throttled = 45 * second, rp_Internal = 60 * second\<rparr>\<rparr>"

definition app_runtime_config :: "Settings \<Rightarrow> RuntimeConfig" where
  "app_runtime_config c =
     runtimeConfig (cf_IncrementalWakeInterval c) (cf_IncrementalMirrorRevisit c) (cf_IncrementalReadWorkers c)"

text \<open>The chain of the hybrid runtime: the budget, the executor and, with several readers, the pool, whose
  size is the argument of the cycle.\<close>

definition buildIncrementalCycle :: "Settings \<Rightarrow> settings_error + (Manager \<times> ExecConfig \<times> int)" where
  "buildIncrementalCycle c =
     (case New (settings_budget c) of
        Inl e \<Rightarrow> Inl (InvalidBudget e)
      | Inr budget \<Rightarrow>
          (case exec_Validate (app_exec_config c) of
             Inl _ \<Rightarrow> Inl (InvalidSetting ''executor'')
           | Inr _ \<Rightarrow>
               if cf_IncrementalReadWorkers c > 1 \<and> cf_IncrementalReadWorkers c \<notin> {2, 4, 8}
               then Inl (InvalidSetting ''workers'')
               else Inr (budget, app_exec_config c, cf_IncrementalReadWorkers c)))"

definition sample_settings :: Settings where
  "sample_settings = settings_Defaults\<lparr>cf_DatabaseURL := ''postgres:///index'', cf_HintAddr := ''127.0.0.1:9090'',
     cf_HintToken := ''0123456789abcdef0123456789abcdef'', cf_IncrementalRuntimeEnabled := True, cf_IncrementalReadWorkers := 4\<rparr>"

end
