(* ===== verification/Serve.thy ===== *)
theory Serve
  imports HintApi Settings HttpApi Drain
begin

text \<open>
  The process (\<open>internal/runtime/app/app.go\<close>, \<open>internal/runtime/app/incremental.go\<close>,
  \<open>internal/runtime/worker/worker.go\<close>, \<open>store/postgres/writer_lock.go\<close>): which of its actors run when, and when
  the writer lock is held. A command is the sequence of its effects, given the outcomes of what it calls. A
  join returns when its actor has stopped; the wait on hint handlers is the gate of \<open>HintApi\<close>.
\<close>

section \<open>Effects and actors\<close>

datatype effect =
    AcquireLock | ReleaseLock | RunRecovery | StartWorker | StartRuntime | BindQuery | BindHint | StartHint | StartQuery
  | ReadyOn | ReadyOff | CloseQuery | ShutdownHint | WaitHint | CancelRuntime | JoinRuntime | RuntimeExited
  | CancelWorker | JoinWorker | ShutdownQuery | RunCycleOnce

text \<open>What may be running.\<close>

record process =
  ps_lock :: bool
  ps_worker :: bool
  ps_runtime :: bool
  ps_hint :: bool
  ps_query :: bool
  ps_ready :: bool

definition idle :: process where
  "idle = \<lparr>ps_lock = False, ps_worker = False, ps_runtime = False, ps_hint = False, ps_query = False, ps_ready = False\<rparr>"

fun perform :: "effect \<Rightarrow> process \<Rightarrow> process" where
  "perform AcquireLock p = p\<lparr>ps_lock := True\<rparr>"
| "perform ReleaseLock p = p\<lparr>ps_lock := False\<rparr>"
| "perform StartWorker p = p\<lparr>ps_worker := True\<rparr>"
| "perform JoinWorker p = p\<lparr>ps_worker := False\<rparr>"
| "perform StartRuntime p = p\<lparr>ps_runtime := True\<rparr>"
| "perform JoinRuntime p = p\<lparr>ps_runtime := False\<rparr>"
| "perform RuntimeExited p = p\<lparr>ps_runtime := False\<rparr>"
| "perform StartHint p = p\<lparr>ps_hint := True\<rparr>"
| "perform WaitHint p = p\<lparr>ps_hint := False\<rparr>"
| "perform BindQuery p = p\<lparr>ps_query := True\<rparr>"
| "perform CloseQuery p = p\<lparr>ps_query := False\<rparr>"
| "perform ShutdownQuery p = p\<lparr>ps_query := False\<rparr>"
| "perform ReadyOn p = p\<lparr>ps_ready := True\<rparr>"
| "perform ReadyOff p = p\<lparr>ps_ready := False\<rparr>"
| "perform _ p = p"

text \<open>The states that a sequence of effects goes through.\<close>

fun states :: "effect list \<Rightarrow> process \<Rightarrow> process list" where
  "states [] p = [p]"
| "states (e # es) p = p # states es (perform e p)"

section \<open>The daemon\<close>

text \<open>Which channel of the select fires: a server that ended with or without an error, the runtime, whose
  exit counts as normal when the context is done, or the context.\<close>

datatype exit_cause = QueryExit bool | HintExit bool | RuntimeExit bool bool | ContextDone bool

record serve_env =
  sv_lock :: bool
  sv_recovered :: bool
  sv_bindQuery :: bool
  sv_ingester :: bool
  sv_bindHint :: bool
  sv_exit :: exit_cause

definition stopHint :: "Settings \<Rightarrow> effect list" where
  "stopHint c = (if HintEnabled c then [ShutdownHint, WaitHint] else [])"

definition stopIncremental :: "Settings \<Rightarrow> effect list" where
  "stopIncremental c = (if cf_IncrementalRuntimeEnabled c then [CancelRuntime, JoinRuntime] else [])"

definition failStartup :: "Settings \<Rightarrow> bool \<Rightarrow> string \<Rightarrow> string option \<times> effect list" where
  "failStartup c bound e =
     (Some e, [ReadyOff] @ (if bound then [CloseQuery] else []) @ stopIncremental c @ [CancelWorker, JoinWorker])"

definition serve_select :: "Settings \<Rightarrow> exit_cause \<Rightarrow> string option \<times> effect list" where
  "serve_select c cause =
     (case cause of
        QueryExit failed \<Rightarrow>
          (if failed then Some ''http server'' else None,
           [ReadyOff] @ stopHint c @ stopIncremental c @ [CancelWorker, JoinWorker])
      | HintExit failed \<Rightarrow>
          (Some (if failed then ''hint transport'' else ''hint transport stopped unexpectedly''),
           [ReadyOff] @ stopHint c @ stopIncremental c @ [CancelWorker, ShutdownQuery, JoinWorker])
      | RuntimeExit failed stopping \<Rightarrow>
          (if stopping then None
           else Some (if failed then ''incremental runtime'' else ''incremental runtime stopped prematurely''),
           [RuntimeExited, ReadyOff] @ stopHint c @ [CancelRuntime, CancelWorker, ShutdownQuery, JoinWorker])
      | ContextDone failed \<Rightarrow>
          (if failed then Some ''shutdown'' else None,
           [ReadyOff] @ stopHint c @ stopIncremental c @ [CancelWorker, ShutdownQuery, JoinWorker]))"

text \<open>From the started worker to the end of the select.\<close>

definition serve_listeners :: "Settings \<Rightarrow> serve_env \<Rightarrow> string option \<times> effect list" where
  "serve_listeners c v =
     (if \<not> sv_bindQuery v then failStartup c False ''bind http listener''
      else let (res, es) =
        (if HintEnabled c \<and> \<not> sv_ingester v then failStartup c True ''construct hint ingester''
         else if HintEnabled c \<and> isl (hint_New True (cf_HintToken c))
         then failStartup c True ''construct hint transport''
         else if HintEnabled c \<and> \<not> sv_bindHint v then failStartup c True ''bind hint listener''
         else let (res, es) = serve_select c (sv_exit v)
              in (res, (if HintEnabled c then [BindHint, StartHint] else []) @ [StartQuery, ReadyOn] @ es))
        in (res, BindQuery # es))"

text \<open>After the lock; the deferred cancellations and the release come last.\<close>

definition runServe :: "Settings \<Rightarrow> serve_env \<Rightarrow> string option \<times> effect list" where
  "runServe c v =
     (if \<not> sv_lock v then (Some ''single-writer ownership'', [])
      else let (res, es) =
        (if cf_IncrementalRuntimeEnabled c \<and> isl (buildIncrementalCycle c)
         then (Some ''construct incremental cycle'', [])
         else if cf_IncrementalRuntimeEnabled c \<and> isl (runtime_Validate (app_runtime_config c))
         then (Some ''construct incremental runtime'', [])
         else if cf_IncrementalRuntimeEnabled c \<and> \<not> sv_recovered v
         then (Some ''startup incremental recovery'', [RunRecovery])
         else let (res, es) = serve_listeners c v
              in (res, (if cf_IncrementalRuntimeEnabled c then [RunRecovery] else []) @ [StartWorker] @
                   (if cf_IncrementalRuntimeEnabled c then [StartRuntime] else []) @ es @ [CancelRuntime, CancelWorker]))
        in (res, AcquireLock # es @ [ReleaseLock]))"

text \<open>The checks before: connection and schema.\<close>

definition app_Serve :: "bool \<Rightarrow> bool \<Rightarrow> SchemaState option \<Rightarrow> Settings \<Rightarrow> serve_env \<Rightarrow> string option \<times> effect list" where
  "app_Serve opened ping schema c v =
     (if \<not> opened then (Some ''open database'', [])
      else if \<not> ping then (Some ''ping database'', [])
      else case schema of
             None \<Rightarrow> (Some ''schema status'', [])
           | Some s \<Rightarrow> if \<not> Compatible s then (Some ''schema incompatible'', []) else runServe c v)"

section \<open>One cycle by hand\<close>

text \<open>\<open>cycleFails\<close> and \<open>writeFails\<close> are the outcomes of the cycle and of the JSON line.\<close>

definition RunIncremental ::
  "nat \<Rightarrow> Settings \<Rightarrow> ExecConfig \<Rightarrow> OrchConfig \<Rightarrow> bool \<Rightarrow> SchemaState option \<Rightarrow> bool \<Rightarrow> bool \<Rightarrow> bool \<Rightarrow> bool \<times> effect list" where
  "RunIncremental positional c p4cfg p6cfg reached schema lock cycleFails writeFails =
     (if positional \<noteq> 0 then (False, [])
      else if settings_Validate c \<noteq> Inr () then (False, [])
      else if exec_Validate p4cfg \<noteq> Inr () then (False, [])
      else if orch_Validate p6cfg \<noteq> Inr () then (False, [])
      else if \<not> reached then (False, [])
      else case schema of
             None \<Rightarrow> (False, [])
           | Some s \<Rightarrow>
               if \<not> Compatible s then (False, [])
               else if \<not> lock then (False, [])
               else (\<not> cycleFails \<and> \<not> writeFails, [AcquireLock, RunCycleOnce, ReleaseLock]))"

section \<open>The worker's pool\<close>

record WorkerPool =
  wp_max :: nat
  wp_sem :: nat
  wp_wg :: nat
  wp_inFlight :: "string list"

definition NewWithIntervals :: "int \<Rightarrow> duration \<Rightarrow> duration \<Rightarrow> WorkerPool \<times> duration \<times> duration" where
  "NewWithIntervals maxConcurrent poll backoff =
     (\<lparr>wp_max = nat (if maxConcurrent < 1 then 1 else maxConcurrent), wp_sem = 0, wp_wg = 0, wp_inFlight = []\<rparr>,
      if poll \<le> 0 then 2 * second else poll, if backoff \<le> 0 then 2 * second else backoff)"

text \<open>One root of a tick: an active root is skipped, and so is every root when the pool is full.\<close>

definition dispatch :: "WorkerPool \<Rightarrow> string \<Rightarrow> WorkerPool" where
  "dispatch p rid =
     (if List.member (wp_inFlight p) rid then p
      else if wp_sem p < wp_max p
      then p\<lparr>wp_sem := wp_sem p + 1, wp_wg := wp_wg p + 1, wp_inFlight := wp_inFlight p @ [rid]\<rparr>
      else p)"

definition worker_tick :: "string list \<Rightarrow> WorkerPool \<Rightarrow> WorkerPool" where
  "worker_tick roots p = foldl dispatch p roots"

text \<open>The deferred calls of a finished goroutine: the place is free before the root is unlisted.\<close>

definition worker_release :: "WorkerPool \<Rightarrow> WorkerPool" where
  "worker_release p = p\<lparr>wp_sem := wp_sem p - 1\<rparr>"

definition worker_unlist :: "string \<Rightarrow> WorkerPool \<Rightarrow> WorkerPool" where
  "worker_unlist rid p = p\<lparr>wp_inFlight := filter (\<lambda>r. r \<noteq> rid) (wp_inFlight p), wp_wg := wp_wg p - 1\<rparr>"

text \<open>The goroutines of the pool, one root each, interleaved with the ticks: those that process their root and
  those that gave their place back and are still listed.\<close>

record worker_run =
  wr_pool :: WorkerPool
  wr_active :: "string list"
  wr_leaving :: "string list"

inductive wkstep :: "worker_run \<Rightarrow> worker_run \<Rightarrow> bool" where
  wk_dispatch: "\<not> List.member (wp_inFlight p) rid \<Longrightarrow> wp_sem p < wp_max p \<Longrightarrow>
     wkstep \<lparr>wr_pool = p, wr_active = rs, wr_leaving = ls\<rparr>
       \<lparr>wr_pool = dispatch p rid, wr_active = rs @ [rid], wr_leaving = ls\<rparr>"
| wk_skip: "List.member (wp_inFlight p) rid \<or> \<not> wp_sem p < wp_max p \<Longrightarrow>
     wkstep \<lparr>wr_pool = p, wr_active = rs, wr_leaving = ls\<rparr>
       \<lparr>wr_pool = dispatch p rid, wr_active = rs, wr_leaving = ls\<rparr>"
| wk_release: "wkstep \<lparr>wr_pool = p, wr_active = rs @ rid # rs', wr_leaving = ls\<rparr>
       \<lparr>wr_pool = worker_release p, wr_active = rs @ rs', wr_leaving = ls @ [rid]\<rparr>"
| wk_unlist: "wkstep \<lparr>wr_pool = p, wr_active = rs, wr_leaving = ls @ rid # ls'\<rparr>
       \<lparr>wr_pool = worker_unlist rid p, wr_active = rs, wr_leaving = ls @ ls'\<rparr>"

end
