(* ===== verification/Admin.thy ===== *)
theory Admin
  imports Scan Settings Query
begin

text \<open>
  The administration of roots: the commands of \<open>internal/runtime/app/root.go\<close> and \<open>root_watch.go\<close> after their flags
  are parsed, the upserts of \<open>store/postgres/root_admin.go\<close> and the check that keeps secrets out of stored
  configurations (\<open>store/postgres/adapter_config_validate.go\<close>). The JSON parser of the standard library is an argument;
  text is folded to lower case by its ASCII letters.
\<close>

section \<open>Secrets in adapter configurations\<close>

datatype json =
    JNull
  | JBool bool
  | JNumber string
  | JString string
  | JArray "json list"
  | JObject "(string \<times> json) list"

definition secret_words :: "string list" where
  "secret_words = [''password'', ''passwd'', ''token'', ''secret'', ''credential'', ''apikey'', ''privatekey'']"

definition normal_key :: "string \<Rightarrow> string" where
  "normal_key k = filter (\<lambda>c. c \<noteq> CHR ''_'' \<and> c \<noteq> CHR ''-'' \<and> c \<noteq> CHR ''.'') (map lower_char k)"

definition isPlaintextSecretKey :: "string \<Rightarrow> bool" where
  "isPlaintextSecretKey k =
     (let norm = normal_key k
      in if has_suffix norm ''env'' then False
         else list_ex (\<lambda>s. sublist s norm) secret_words)"

text \<open>The offending key, the first in the order of the list.\<close>

fun rejectPlaintextSecrets :: "json \<Rightarrow> string option"
  and reject_members :: "(string \<times> json) list \<Rightarrow> string option"
  and reject_elements :: "json list \<Rightarrow> string option" where
  "rejectPlaintextSecrets (JObject kvs) = reject_members kvs"
| "rejectPlaintextSecrets (JArray vs) = reject_elements vs"
| "rejectPlaintextSecrets _ = None"
| "reject_members [] = None"
| "reject_members ((k, v) # kvs) =
     (if isPlaintextSecretKey k then Some k
      else case rejectPlaintextSecrets v of Some e \<Rightarrow> Some e | None \<Rightarrow> reject_members kvs)"
| "reject_elements [] = None"
| "reject_elements (v # vs) =
     (case rejectPlaintextSecrets v of Some e \<Rightarrow> Some e | None \<Rightarrow> reject_elements vs)"

datatype admin_error =
    AdminSettings settings_error
  | AdminUsage string
  | AdminUnavailable
  | AdminStore store_error
  | AdminPolicy config_error
  | NotJSON
  | ErrPlaintextSecret string

definition ValidateAdapterConfigSecretFree :: "(string \<Rightarrow> json option) \<Rightarrow> string \<Rightarrow> admin_error + unit" where
  "ValidateAdapterConfigSecretFree parse raw =
     (if trim_space raw = [] then Inr ()
      else case parse raw of
             None \<Rightarrow> Inl NotJSON
           | Some v \<Rightarrow> (case rejectPlaintextSecrets v of Some k \<Rightarrow> Inl (ErrPlaintextSecret k) | None \<Rightarrow> Inr ()))"

section \<open>Upserts\<close>

text \<open>\<open>jsonb\<close> tells which texts the column accepts; \<open>columns\<close> gives the values that the store decodes of a
  configuration, \<open>revision\<close> the tuple's new revision.\<close>

definition jsonOrEmpty :: "string \<Rightarrow> string" where
  "jsonOrEmpty b = (if b = [] then ''{}'' else b)"

definition upsert :: "('a \<Rightarrow> uuid) \<Rightarrow> 'a \<Rightarrow> 'a list \<Rightarrow> 'a list" where
  "upsert key row rows =
     (if list_ex (\<lambda>r. key r = key row) rows then map (\<lambda>r. if key r = key row then row else r) rows else rows @ [row])"

definition UpsertAdapterConfig ::
  "(string \<Rightarrow> json option) \<Rightarrow> (string \<Rightarrow> bool) \<Rightarrow> (string \<Rightarrow> string option \<times> MirrorSettings option) \<Rightarrow> string
     \<Rightarrow> uuid \<Rightarrow> string \<Rightarrow> string \<Rightarrow> db \<Rightarrow> admin_error + db" where
  "UpsertAdapterConfig parse jsonb columns revision rid collector cfg d =
     (case ValidateAdapterConfigSecretFree parse cfg of
        Inl e \<Rightarrow> Inl e
      | Inr _ \<Rightarrow>
          if \<not> jsonb (jsonOrEmpty cfg) \<or> find_root d rid = None then Inl (AdminStore ErrConstraint)
          else Inr (d\<lparr>db_adapters := upsert ac_RootID
                 \<lparr>ac_RootID = rid, ac_CollectorKind = collector, ac_Config = jsonOrEmpty cfg,
                  ac_Path = fst (columns (jsonOrEmpty cfg)), ac_Settings = snd (columns (jsonOrEmpty cfg)),
                  ac_Revision = revision\<rparr> (db_adapters d)\<rparr>))"




section \<open>Commands\<close>

definition upper_char :: "char \<Rightarrow> char" where
  "upper_char c = (if char_between CHR ''a'' CHR ''z'' c then char_of (of_char c - (32 :: nat)) else c)"

definition rootCreate :: "Settings \<Rightarrow> bool \<Rightarrow> uuid \<Rightarrow> string \<Rightarrow> string \<Rightarrow> db \<Rightarrow> admin_error + db" where
  "rootCreate cfg opened rid scope lifecycle d =
     (case settings_Validate cfg of
        Inl e \<Rightarrow> Inl (AdminSettings e)
      | Inr _ \<Rightarrow>
          if rid = [] then Inl (AdminUsage ''root create: --root-id is required'')
          else let lc = map upper_char lifecycle
               in if lc \<noteq> ''NEW'' \<and> lc \<noteq> ''ACTIVE''
                  then Inl (AdminUsage ''root create: --lifecycle must be NEW or ACTIVE'')
                  else if \<not> opened then Inl AdminUnavailable
                  else map_sum AdminStore id (CreateRoot rid scope (if lc = ''NEW'' then RootNew else RootActive) d))"

definition rootTransition ::
  "Settings \<Rightarrow> bool \<Rightarrow> uuid \<Rightarrow> RootLifecycleState \<Rightarrow> db \<Rightarrow> admin_error + (RootLifecycleResult \<times> db)" where
  "rootTransition cfg opened rid next_state d =
     (case settings_Validate cfg of
        Inl e \<Rightarrow> Inl (AdminSettings e)
      | Inr _ \<Rightarrow>
          if rid = [] then Inl (AdminUsage ''--root-id is required'')
          else if \<not> opened then Inl AdminUnavailable
          else map_sum AdminStore id (TransitionRootLifecycle rid next_state d))"


definition rootConfig_get :: "Settings \<Rightarrow> bool \<Rightarrow> uuid \<Rightarrow> db \<Rightarrow> admin_error + RootPolicy" where
  "rootConfig_get cfg opened rid d =
     (case settings_Validate cfg of
        Inl e \<Rightarrow> Inl (AdminSettings e)
      | Inr _ \<Rightarrow>
          if rid = [] then Inl (AdminUsage ''root config: --root-id is required'')
          else if \<not> opened then Inl AdminUnavailable
          else map_sum AdminStore id (GetRootPolicy d rid))"

definition rootAdapter_set ::
  "Settings \<Rightarrow> bool \<Rightarrow> (string \<Rightarrow> bool) \<Rightarrow> (string \<Rightarrow> json option) \<Rightarrow> (string \<Rightarrow> bool)
     \<Rightarrow> (string \<Rightarrow> string option \<times> MirrorSettings option) \<Rightarrow> string \<Rightarrow> uuid \<Rightarrow> string \<Rightarrow> string \<Rightarrow> db \<Rightarrow> admin_error + db" where
  "rootAdapter_set cfg opened valid parse jsonb columns revision rid collector cfgJSON d =
     (case settings_Validate cfg of
        Inl e \<Rightarrow> Inl (AdminSettings e)
      | Inr _ \<Rightarrow>
          if rid = [] then Inl (AdminUsage ''root adapter: --root-id is required'')
          else if \<not> opened then Inl AdminUnavailable
          else if \<not> valid cfgJSON then Inl (AdminUsage ''root adapter set: --config must be valid JSON'')
          else UpsertAdapterConfig parse jsonb columns revision rid collector cfgJSON d)"

definition rootAdapter_get :: "Settings \<Rightarrow> bool \<Rightarrow> uuid \<Rightarrow> db \<Rightarrow> admin_error + AdapterConfig" where
  "rootAdapter_get cfg opened rid d =
     (case settings_Validate cfg of
        Inl e \<Rightarrow> Inl (AdminSettings e)
      | Inr _ \<Rightarrow>
          if rid = [] then Inl (AdminUsage ''root adapter: --root-id is required'')
          else if \<not> opened then Inl AdminUnavailable
          else map_sum AdminStore id (GetAdapterConfig d rid))"

text \<open>The root's recurring watch: created or updated at its version; \<open>now\<close> is the clock of the command.\<close>

definition watch_row :: "uuid \<Rightarrow> bool \<Rightarrow> duration \<Rightarrow> gotime \<Rightarrow> ScopeWatchState \<Rightarrow> ScopeWatchState" where
  "watch_row rid disable interval now w =
     (if disable
      then w\<lparr>sw_WatchState := WatchDisabled, sw_EffectiveIntervalSeconds := None, sw_NextDueAt := None\<rparr>
      else w\<lparr>sw_Priority := PriorityHigh, sw_WatchState := WatchHot,
             sw_EffectiveIntervalSeconds := Some (interval div second), sw_NextDueAt := Some now\<rparr>)"

definition new_watch :: "uuid \<Rightarrow> ScopeWatchState" where
  "new_watch rid =
     \<lparr>sw_RootID = rid, sw_ScopeKey = ''/'', sw_WatchState = OtherWatchState [], sw_CadenceClass = ''SOURCE_MIRROR'',
      sw_EffectiveIntervalSeconds = None, sw_SourceSet = [WatchSourceOperatorPolicy], sw_Priority = PriorityNormal,
      sw_LastDueAt = None, sw_LastAttemptStartedAt = None, sw_LastAttemptFinishedAt = None, sw_LastSuccessAt = None,
      sw_NextDueAt = None, sw_ConsecutiveFailures = 0, sw_LastErrorClass = None, sw_DeferredUntil = None, sw_Version = 0\<rparr>"

definition rootWatch ::
  "Settings \<Rightarrow> bool \<Rightarrow> nat \<Rightarrow> uuid \<Rightarrow> duration \<Rightarrow> bool \<Rightarrow> gotime \<Rightarrow> db \<Rightarrow> admin_error + (WatchState \<times> db)" where
  "rootWatch cfg opened positional rid interval disable now d =
     (if positional \<noteq> 0 \<or> rid = [] \<or> interval < 15 * second \<or> interval > 24 * hour
      then Inl (AdminUsage ''root watch: root-id and interval 15s..24h required; no positionals'')
      else case settings_Validate cfg of
        Inl e \<Rightarrow> Inl (AdminSettings e)
      | Inr _ \<Rightarrow>
          if \<not> opened then Inl AdminUnavailable
          else (case GetRoot d rid of
             Inl e \<Rightarrow> Inl (AdminStore e)
           | Inr r \<Rightarrow>
               if root_LifecycleState r \<noteq> RootActive then Inl (AdminUsage ''root watch requires ACTIVE root'')
               else (case GetWatch d rid ''/'' of
                  Inl e \<Rightarrow>
                    if e \<noteq> ErrNotFound then Inl (AdminStore e)
                    else map_sum AdminStore (\<lambda>(w, d'). (sw_WatchState (watch_row rid disable interval now (new_watch rid)), d'))
                           (CreateWatch (watch_row rid disable interval now (new_watch rid)) d)
                | Inr w \<Rightarrow>
                    map_sum AdminStore (\<lambda>(_, d'). (sw_WatchState (watch_row rid disable interval now w), d'))
                      (CASUpdateWatch (watch_row rid disable interval now w) (sw_Version w) d))))"

section \<open>Properties\<close>




lemma find_upsert [simp]: "List.find (\<lambda>r. key r = key row) (upsert key row rows) = Some row"
  unfolding upsert_def by (induction rows) (auto simp: find_append)

lemma find_map_row: "x \<noteq> key row \<Longrightarrow>
   List.find (\<lambda>r. key r = x) (map (\<lambda>r. if key r = key row then row else r) rows) = List.find (\<lambda>r. key r = x) rows"
  by (induction rows) auto

lemma find_upsert_other: "x \<noteq> key row \<Longrightarrow> List.find (\<lambda>r. key r = x) (upsert key row rows) = List.find (\<lambda>r. key r = x) rows"
  unfolding upsert_def by (auto simp: find_map_row find_append split: option.splits)


definition sample_admin_db :: db where
  "sample_admin_db =
     \<lparr>db_roots = [\<lparr>root_RootID = ''root'', root_ScopeDescriptor = ''{}'', root_OwningCollectorRef = None,
       root_LifecycleState = RootActive, root_CurrentGeneration = 0, root_LatestAdmissionSeq = 0\<rparr>],
      db_generations = [], db_resources = [], db_observations = [], db_snapshots = [], db_entries = [],
      db_admissions = [], db_applied = [], db_journal = [], db_results = [], db_policies = [], db_adapters = [],
      db_watches = [], db_works = []\<rparr>"



text \<open>All keys of a JSON value, at any depth.\<close>

fun json_keys :: "json \<Rightarrow> string list"
  and member_keys :: "(string \<times> json) list \<Rightarrow> string list"
  and element_keys :: "json list \<Rightarrow> string list" where
  "json_keys (JObject kvs) = member_keys kvs"
| "json_keys (JArray vs) = element_keys vs"
| "json_keys _ = []"
| "member_keys [] = []"
| "member_keys ((k, v) # kvs) = k # json_keys v @ member_keys kvs"
| "element_keys [] = []"
| "element_keys (v # vs) = json_keys v @ element_keys vs"

lemma reject_finds:
  "rejectPlaintextSecrets v = List.find isPlaintextSecretKey (json_keys v)"
  "reject_members kvs = List.find isPlaintextSecretKey (member_keys kvs)"
  "reject_elements vs = List.find isPlaintextSecretKey (element_keys vs)"
  by (induction v and kvs and vs rule: rejectPlaintextSecrets_reject_members_reject_elements.induct)
     (auto simp: find_append split: option.splits)

text \<open>
  C37: no adapter configuration with a plaintext secret is stored. When the command stores a configuration, then no key of
  it, at any depth, names a secret, unless the key ends in a reference to the environment; the row of the
  root holds the given collector and configuration, and the rows of other roots stay. A configuration with such a key
  is refused by the name of such a key.
\<close>

theorem adapter_secret_free:
  assumes "parse cfg = Some v" and "trim_space cfg \<noteq> []"
  shows "case rootAdapter_set settings True valid parse jsonb columns revision rid collector cfg d of
      Inr d' \<Rightarrow>
        list_all (\<lambda>k. \<not> isPlaintextSecretKey k) (json_keys v) \<and>
        map_option (\<lambda>a. (ac_CollectorKind a, ac_Config a)) (find_adapter d' rid) = Some (collector, cfg) \<and>
        (\<forall>x. x \<noteq> rid \<longrightarrow> find_adapter d' x = find_adapter d x)
    | Inl (ErrPlaintextSecret k) \<Rightarrow> k \<in> set (json_keys v) \<and> isPlaintextSecretKey k
    | Inl e \<Rightarrow> settings_Validate settings \<noteq> Inr () \<or> rid = [] \<or> \<not> valid cfg \<or> \<not> jsonb cfg \<or> find_root d rid = None"
proof -
  have "cfg \<noteq> []" using assms(2) by (auto simp: trim_space_def)
  then have cfg: "jsonOrEmpty cfg = cfg" by (simp add: jsonOrEmpty_def)
  have check: "ValidateAdapterConfigSecretFree parse cfg =
      (case List.find isPlaintextSecretKey (json_keys v) of Some k \<Rightarrow> Inl (ErrPlaintextSecret k) | None \<Rightarrow> Inr ())"
    using assms by (simp add: ValidateAdapterConfigSecretFree_def reject_finds)
  show ?thesis
  proof (cases "List.find isPlaintextSecretKey (json_keys v)")
    case None
    let ?row = "\<lparr>ac_RootID = rid, ac_CollectorKind = collector, ac_Config = cfg, ac_Path = fst (columns cfg),
      ac_Settings = snd (columns cfg), ac_Revision = revision\<rparr>"
    have "list_all (\<lambda>k. \<not> isPlaintextSecretKey k) (json_keys v)" using None by (simp add: find_None_iff list_all_iff)
    moreover have "find_adapter (d\<lparr>db_adapters := upsert ac_RootID ?row (db_adapters d)\<rparr>) rid = Some ?row"
      using find_upsert [of ac_RootID ?row] by (simp add: find_adapter_def)
    moreover have "find_adapter (d\<lparr>db_adapters := upsert ac_RootID ?row (db_adapters d)\<rparr>) x = find_adapter d x" if "x \<noteq> rid" for x
      using find_upsert_other [of x ac_RootID ?row] that by (simp add: find_adapter_def)
    ultimately show ?thesis
      by (simp add: rootAdapter_set_def UpsertAdapterConfig_def check None cfg split: sum.splits)
  next
    case (Some k)
    then have "k \<in> set (json_keys v) \<and> isPlaintextSecretKey k" by (auto simp: find_Some_iff)
    then show ?thesis by (simp add: rootAdapter_set_def UpsertAdapterConfig_def check Some split: sum.splits)
  qed
qed

theorem adapter_secret_free_witness:
  "case rootAdapter_set sample_settings True (\<lambda>_. True) (\<lambda>_. Some (JObject [(''nested'', JArray [JObject [(''Api-Key'', JString ''x'')]])]))
       (\<lambda>_. True) (\<lambda>_. (None, None)) ''1'' ''root'' ''alist'' ''{}'' sample_admin_db of
     Inl (ErrPlaintextSecret k) \<Rightarrow> k = ''Api-Key'' | _ \<Rightarrow> False"
proof -
  let ?v = "JObject [(''nested'', JArray [JObject [(''Api-Key'', JString ''x'')]])]"
  let ?run = "rootAdapter_set sample_settings True (\<lambda>_. True) (\<lambda>_. Some ?v) (\<lambda>_. True) (\<lambda>_. (None, None)) ''1'' ''root''
    ''alist'' ''{}'' sample_admin_db"
  have "trim_space ''{}'' \<noteq> []" "isPlaintextSecretKey ''Api-Key''" "\<not> isPlaintextSecretKey ''nested''"
    "settings_Validate sample_settings = Inr ()" "find_root sample_admin_db ''root'' \<noteq> None" by code_simp+
  with adapter_secret_free [where parse = "\<lambda>_. Some ?v" and cfg = "''{}''" and v = ?v and settings = sample_settings
      and valid = "\<lambda>_. True" and jsonb = "\<lambda>_. True" and columns = "\<lambda>_. (None, None)" and revision = "''1''"
      and rid = "''root''" and collector = "''alist''" and d = sample_admin_db]
  show ?thesis by (auto split: sum.splits admin_error.splits)
qed

end
