(* ===== verification/Diagnose.thy ===== *)
theory Diagnose
  imports Query
begin

text \<open>
  The operator's diagnosis of one root (\<open>internal/diagnostic/diagnostic.go\<close>,
  \<open>store/postgres/diagnostic.go\<close> and \<open>internal/runtime/app/root_diagnose.go\<close>): one bounded read of one database
  state, and the verdict over it. A check is its code and status; the sentence that explains it to a reader is
  a constant of the code. JSON members that only this reader looks at are arguments. A stage whose query fails leaves
  what it has filled in so far.
\<close>

section \<open>Reports\<close>

record DiagOptions =
  do_RowLimit :: int
  do_Timeout :: duration
  do_StaleAfter :: duration

definition diag_Defaults :: DiagOptions where
  "diag_Defaults = \<lparr>do_RowLimit = 1000, do_Timeout = 5 * second, do_StaleAfter = 5 * minute\<rparr>"

definition diag_Validate :: "DiagOptions \<Rightarrow> bool" where
  "diag_Validate opts \<longleftrightarrow>
     \<not> (do_RowLimit opts < 1 \<or> do_RowLimit opts > 10000 \<or> do_Timeout opts < millisecond \<or> do_Timeout opts > 30 * second \<or>
        do_StaleAfter opts < second \<or> do_StaleAfter opts > 24 * hour)"

datatype check_status = CheckOK | CheckWARN | CheckERROR | CheckUNKNOWN | CheckNOT_TRACKED

datatype overall = OverallOK | OverallDEGRADED | OverallUNKNOWN

record DiagWatch =
  dw_State :: WatchState
  dw_Priority :: Priority
  dw_Cadence :: string
  dw_IntervalSeconds :: "int option"
  dw_NextDueAt :: "gotime option"
  dw_DeferredUntil :: "gotime option"
  dw_LastStartedAt :: "gotime option"
  dw_LastFinishedAt :: "gotime option"
  dw_LastSuccessAt :: "gotime option"
  dw_Failures :: int
  dw_LastError :: "ErrorClass option"

record DiagWork =
  dk_Counts :: "WorkState \<Rightarrow> nat"
  dk_Exact :: bool
  dk_OldestDueAt :: "gotime option"
  dk_OldestInflightAt :: "gotime option"
  dk_SourceFailures :: nat
  dk_InternalRetryCap :: nat

record DiagObservation =
  dv_At :: gotime
  dv_Scope :: string
  dv_Traversal :: TraversalStatus
  dv_Acceptance :: "AcceptanceState option"
  dv_Completeness :: CompletenessFlag
  dv_Freshness :: FreshnessEvidence
  dv_HistoricalCoverageV2 :: bool
  dv_Reconciled :: bool

record DiagInventory =
  di_CanonicalSample :: nat
  di_JournalSample :: nat
  di_CanonicalExact :: bool
  di_JournalExact :: bool
  di_JournalHighWatermark :: int
  di_JournalMaxGeneration :: int
  di_DuplicatePresentPaths :: nat
  di_LatestConflictCount :: nat
  di_Mismatch :: bool

record Report =
  rt_Version :: int
  rt_RootID :: string
  rt_AsOf :: gotime
  rt_Overall :: overall
  rt_Complete :: bool
  rt_RowLimit :: int
  rt_StaleAfterSeconds :: int
  rt_SchemaApplied :: nat
  rt_SchemaRequired :: nat
  rt_Lifecycle :: "RootLifecycleState option"
  rt_Generation :: int
  rt_Watch :: "DiagWatch option"
  rt_Work :: DiagWork
  rt_Latest :: "DiagObservation option"
  rt_Inventory :: DiagInventory
  rt_Checks :: "(string \<times> check_status) list"
  rt_Mirror :: bool
  rt_MirrorRetryPolicy :: bool

definition new_report :: "string \<Rightarrow> DiagOptions \<Rightarrow> Report" where
  "new_report rid opts =
     \<lparr>rt_Version = 1, rt_RootID = rid, rt_AsOf = zero_time, rt_Overall = OverallUNKNOWN, rt_Complete = False,
      rt_RowLimit = do_RowLimit opts, rt_StaleAfterSeconds = do_StaleAfter opts div second, rt_SchemaApplied = 0,
      rt_SchemaRequired = 0, rt_Lifecycle = None, rt_Generation = 0, rt_Watch = None,
      rt_Work = \<lparr>dk_Counts = (\<lambda>_. 0), dk_Exact = False, dk_OldestDueAt = None, dk_OldestInflightAt = None,
        dk_SourceFailures = 0, dk_InternalRetryCap = 0\<rparr>,
      rt_Latest = None,
      rt_Inventory = \<lparr>di_CanonicalSample = 0, di_JournalSample = 0, di_CanonicalExact = False, di_JournalExact = False,
        di_JournalHighWatermark = 0, di_JournalMaxGeneration = 0, di_DuplicatePresentPaths = 0,
        di_LatestConflictCount = 0, di_Mismatch = False\<rparr>,
      rt_Checks = [], rt_Mirror = False, rt_MirrorRetryPolicy = False\<rparr>"

definition add_check :: "string \<Rightarrow> check_status \<Rightarrow> Report \<Rightarrow> Report" where
  "add_check code status r = r\<lparr>rt_Checks := rt_Checks r @ [(code, status)]\<rparr>"

text \<open>The first warning or error decides; otherwise anything unknown does.\<close>

fun overall_of :: "overall \<Rightarrow> (string \<times> check_status) list \<Rightarrow> overall" where
  "overall_of v [] = v"
| "overall_of v ((_, st) # cs) =
     (if st = CheckWARN \<or> st = CheckERROR then OverallDEGRADED
      else overall_of (if st = CheckUNKNOWN \<or> st = CheckNOT_TRACKED then OverallUNKNOWN else v) cs)"

definition Finish :: "Report \<Rightarrow> Report" where
  "Finish r = r\<lparr>rt_Overall := overall_of OverallOK (rt_Checks r)\<rparr>"

section \<open>The verdict\<close>

definition sourceError :: "ErrorClass option \<Rightarrow> bool" where
  "sourceError e \<longleftrightarrow> e \<in> {Some ErrorTransientProvider, Some ErrorThrottled, Some ErrorAuthOrPermission}"

definition watch_checks :: "DiagOptions \<Rightarrow> gotime \<Rightarrow> DiagWatch option \<Rightarrow> (string \<times> check_status) list" where
  "watch_checks opts asOf watch =
     (case watch of
        None \<Rightarrow> [(''WATCH_MISSING'', CheckUNKNOWN)]
      | Some w \<Rightarrow>
          if dw_State w = WatchDisabled \<or> dw_State w = WatchCold then [(''WATCH_DISABLED'', CheckWARN)]
          else
            let due = (case (dw_DeferredUntil w, dw_NextDueAt w) of
                         (Some u, None) \<Rightarrow> Some u
                       | (Some u, Some n) \<Rightarrow> if u > n then Some u else Some n
                       | (None, n) \<Rightarrow> n)
            in [case due of
                  None \<Rightarrow> (''WATCH_SCHEDULED'', CheckOK)
                | Some t \<Rightarrow>
                    if t < asOf - do_StaleAfter opts then (''WATCH_LAG'', CheckWARN)
                    else if \<not> t > asOf then (''WATCH_DUE'', CheckOK)
                    else (''WATCH_SCHEDULED'', CheckOK)] @
               (if dw_Failures w > 0 then [(''WATCH_FAILURE'', CheckWARN)] else []) @
               (if sourceError (dw_LastError w) \<and> dw_Failures w > 0 then [(''SOURCE_UNAVAILABLE'', CheckWARN)] else []))"

definition work_checks :: "DiagOptions \<Rightarrow> gotime \<Rightarrow> DiagWork \<Rightarrow> (string \<times> check_status) list" where
  "work_checks opts asOf k =
     (let lagging = (\<lambda>t. case t of None \<Rightarrow> False | Some x \<Rightarrow> x < asOf - do_StaleAfter opts)
      in (if dk_SourceFailures k > 0 then [(''SOURCE_UNAVAILABLE_WORK'', CheckWARN)] else []) @
         (if dk_Counts k WorkBlocked > 0 \<or> dk_Counts k WorkSuspended > 0 then [(''BLOCKED_WORK'', CheckWARN)] else []) @
         (if dk_InternalRetryCap k > 0 then [(''RETRY_BUDGET_EXHAUSTED'', CheckWARN)] else []) @
         (if dk_Counts k WorkRetryWait > 0 then [(''RETRY_WAIT'', CheckWARN)] else []) @
         (if dk_Counts k WorkInFlight > 0 then [(''IN_FLIGHT'', CheckUNKNOWN)] else []) @
         (if lagging (dk_OldestInflightAt k) then [(''STALE_IN_FLIGHT'', CheckWARN)] else []) @
         (if lagging (dk_OldestDueAt k) then [(''WORK_LAG'', CheckWARN)] else []) @
         (if \<not> dk_Exact k then [(''WORK_LIMIT'', CheckUNKNOWN)] else []))"

definition observation_checks ::
  "DiagOptions \<Rightarrow> gotime \<Rightarrow> bool \<Rightarrow> DiagObservation option \<Rightarrow> (string \<times> check_status) list" where
  "observation_checks opts asOf mirror latest =
     (case latest of
        None \<Rightarrow> [(''OBSERVATION_MISSING'', CheckUNKNOWN)]
      | Some s \<Rightarrow>
          [if dv_At s > asOf + 30 * second then (''OBSERVATION_FUTURE'', CheckWARN)
           else if dv_At s < asOf - do_StaleAfter opts \<or> dv_Freshness s = FreshnessStale then (''SOURCE_STALE'', CheckWARN)
           else (''OBSERVATION_RECENT'', CheckOK)] @
          (if dv_Traversal s = TraversalFailed \<or> dv_Traversal s = TraversalInterrupted \<or>
              dv_Acceptance s = Some AcceptanceFailed
           then [(''OBSERVATION_FAILED'', CheckWARN)] else []) @
          (if dv_Completeness s \<noteq> CompletenessFlagComplete \<or> dv_Acceptance s \<noteq> Some AcceptanceComplete
           then [(''INCOMPLETE_LISTING'', CheckUNKNOWN)] else []) @
          (if dv_Scope s \<noteq> ''ROOT'' then [(''ROOT_FRESHNESS'', CheckUNKNOWN)] else []) @
          (if mirror \<and> (\<not> dv_HistoricalCoverageV2 s \<or> \<not> dv_Reconciled s) then [(''TOPOLOGY_UNTRUSTED'', CheckUNKNOWN)]
           else if dv_HistoricalCoverageV2 s then [(''HISTORICAL_COVERAGE'', CheckOK)] else []))"

definition inventory_checks :: "DiagInventory \<Rightarrow> (string \<times> check_status) list" where
  "inventory_checks i =
     [if di_DuplicatePresentPaths i > 0 \<or> di_LatestConflictCount i > 0 then (''IDENTITY_AMBIGUITY'', CheckWARN)
      else if \<not> di_CanonicalExact i then (''IDENTITY_LIMIT'', CheckUNKNOWN)
      else (''IDENTITY_CHECK'', CheckOK),
      if di_Mismatch i then (''CANONICAL_JOURNAL_MISMATCH'', CheckERROR)
      else if \<not> di_CanonicalExact i \<or> \<not> di_JournalExact i then (''CONSISTENCY_LIMIT'', CheckUNKNOWN)
      else (''BOUNDED_CONSISTENCY'', CheckOK)]"

definition diag_Evaluate :: "DiagOptions \<Rightarrow> Report \<Rightarrow> Report" where
  "diag_Evaluate opts r =
     Finish (r\<lparr>rt_Checks := rt_Checks r @
       [if rt_Lifecycle r \<noteq> Some RootActive then (''ROOT_INACTIVE'', CheckWARN) else (''ROOT_ACTIVE'', CheckOK)] @
       watch_checks opts (rt_AsOf r) (rt_Watch r) @ work_checks opts (rt_AsOf r) (rt_Work r) @
       observation_checks opts (rt_AsOf r) (rt_Mirror r) (rt_Latest r) @ inventory_checks (rt_Inventory r) @
       [(''SOURCE_LIVE'', CheckUNKNOWN), (''PROCESS_READINESS'', CheckNOT_TRACKED),
        (''CONSUMER_PROJECTION_LAG'', CheckNOT_TRACKED)]\<rparr>)"

section \<open>The reads\<close>

definition hex_digit :: "char \<Rightarrow> bool" where
  "hex_digit c \<longleftrightarrow> char_between CHR ''0'' CHR ''9'' c \<or> char_between CHR ''a'' CHR ''f'' c \<or> char_between CHR ''A'' CHR ''F'' c"

definition ValidDiagnosticRoot :: "string \<Rightarrow> bool" where
  "ValidDiagnosticRoot s \<longleftrightarrow>
     map length (split_on CHR ''-'' s) = [8, 4, 4, 4, 12] \<and> list_all (list_all hex_digit) (split_on CHR ''-'' s)"

text \<open>Rows of the migrations table, one more than the binary knows; \<open>None\<close> is a missing table.\<close>

definition schema_row ::
  "string list \<Rightarrow> bool \<times> string list \<times> nat \<Rightarrow> string \<Rightarrow> bool \<times> string list \<times> nat" where
  "schema_row names st v0 =
     (case st of (compatible, seen, applied) \<Rightarrow>
        let v = (if length v0 \<le> 256 then v0 else []);
            known = List.member names v; again = List.member seen v
        in (compatible \<and> known \<and> \<not> again, v # seen, if known \<and> \<not> again then applied + 1 else applied))"

definition diagnosticSchema :: "string list \<Rightarrow> string list option \<Rightarrow> Report \<Rightarrow> bool \<times> Report" where
  "diagnosticSchema names versions r =
     (let r1 = r\<lparr>rt_SchemaRequired := length names\<rparr>
      in case versions of
           None \<Rightarrow> (False, r1)
         | Some vs \<Rightarrow>
             (case foldl (schema_row names) (True, [], rt_SchemaApplied r1) (take (length names + 1) (sort_strings vs)) of
                (compatible, _, applied) \<Rightarrow>
                  (compatible \<and> applied = length names, r1\<lparr>rt_SchemaApplied := applied\<rparr>)))"

definition watch_report :: "ScopeWatchState \<Rightarrow> DiagWatch" where
  "watch_report w =
     \<lparr>dw_State = sw_WatchState w, dw_Priority = sw_Priority w,
      dw_Cadence = (if sw_CadenceClass w = ''SOURCE_MIRROR'' then ''SOURCE_MIRROR'' else ''OTHER''),
      dw_IntervalSeconds = sw_EffectiveIntervalSeconds w, dw_NextDueAt = sw_NextDueAt w,
      dw_DeferredUntil = sw_DeferredUntil w, dw_LastStartedAt = sw_LastAttemptStartedAt w,
      dw_LastFinishedAt = sw_LastAttemptFinishedAt w, dw_LastSuccessAt = sw_LastSuccessAt w,
      dw_Failures = sw_ConsecutiveFailures w, dw_LastError = sw_LastErrorClass w\<rparr>"

definition diagnosticWatch :: "uuid \<Rightarrow> db \<Rightarrow> Report \<Rightarrow> Report" where
  "diagnosticWatch rid d r =
     (let watch = find_watch d rid ''/'';
          r1 = r\<lparr>rt_Watch := map_option watch_report watch\<rparr>
      in case find_adapter d rid of
           None \<Rightarrow> r1
         | Some a \<Rightarrow>
             let mirror = (case ac_Settings a of None \<Rightarrow> False | Some s \<Rightarrow> ms_Mirror s);
                 topology = (case ac_Settings a of None \<Rightarrow> False
                   | Some s \<Rightarrow> ms_Topology s \<noteq> [] \<or> (ms_TopologyUsername s \<noteq> [] \<and> ms_TopologyPassword s \<noteq> []));
                 collector = (ac_CollectorKind a = ''alist'' \<or> ac_CollectorKind a = ''openlist'')
             in r1\<lparr>rt_Mirror := mirror,
                   rt_MirrorRetryPolicy := rt_Lifecycle r = Some RootActive \<and> mirror \<and> topology \<and> collector \<and>
                     (case watch of None \<Rightarrow> False
                      | Some w \<Rightarrow> sw_CadenceClass w = ''SOURCE_MIRROR'' \<and> Scheduled (sw_WatchState w) \<and>
                                  List.member (sw_SourceSet w) WatchSourceOperatorPolicy)\<rparr>)"

definition earliest :: "gotime option \<Rightarrow> gotime option \<Rightarrow> gotime option" where
  "earliest old t =
     (case (old, t) of (_, None) \<Rightarrow> old | (None, Some x) \<Rightarrow> Some x | (Some y, Some x) \<Rightarrow> if x < y then Some x else Some y)"

definition work_row :: "bool \<Rightarrow> DiagWork \<Rightarrow> DirtyScopeWork \<Rightarrow> DiagWork" where
  "work_row retryPolicy k w =
     (let st = wk_WorkState w;
          due = (case wk_PendingNotBefore w of None \<Rightarrow> wk_PendingFirstSeenAt w | Some t \<Rightarrow> Some t)
      in k\<lparr>dk_Counts := (dk_Counts k)(st := dk_Counts k st + 1),
           dk_OldestDueAt := (if st = WorkPending \<or> st = WorkRetryWait then earliest (dk_OldestDueAt k) due
                              else dk_OldestDueAt k),
           dk_OldestInflightAt := (if st = WorkInFlight then earliest (dk_OldestInflightAt k) (wk_LastAttemptStartedAt w)
                                   else dk_OldestInflightAt k),
           dk_SourceFailures := (if wk_ConsecutiveFailures w > 0 \<and> sourceError (wk_LastErrorClass w)
                                 then dk_SourceFailures k + 1 else dk_SourceFailures k),
           dk_InternalRetryCap := (if wk_ScopeKey w = ''/'' \<and> retryPolicy \<and> st = WorkRetryWait \<and>
                                      wk_LastErrorClass w = Some ErrorInternal \<and> wk_ConsecutiveFailures w \<ge> 3
                                   then dk_InternalRetryCap k + 1 else dk_InternalRetryCap k)\<rparr>)"

definition diagnosticWork :: "uuid \<Rightarrow> nat \<Rightarrow> db \<Rightarrow> Report \<Rightarrow> Report" where
  "diagnosticWork rid limit d r =
     (let rows = take (limit + 1) (sort_by (\<lambda>a b. wk_ScopeKey a < wk_ScopeKey b)
                   (filter (\<lambda>w. wk_RootID w = rid) (db_works d)))
      in r\<lparr>rt_Work := (foldl (work_row (rt_MirrorRetryPolicy r)) (rt_Work r) (take limit rows))
             \<lparr>dk_Exact := length rows \<le> limit\<rparr>\<rparr>)"

text \<open>\<open>members\<close> are the texts of \<open>mode\<close>, \<open>scope\<close> and \<open>path\<close> in a provenance, \<open>configPath\<close> the path of a
  configuration; a comparison with a missing text does not hold.\<close>

definition same_text :: "string option \<Rightarrow> string option \<Rightarrow> bool" where
  "same_text a b \<longleftrightarrow> a \<noteq> None \<and> a = b"

definition scope_category ::
  "(Snapshot \<Rightarrow> string option \<times> string option \<times> string option) \<Rightarrow> (AdapterConfig \<Rightarrow> string option)
     \<Rightarrow> AdapterConfig option \<Rightarrow> Snapshot \<Rightarrow> string" where
  "scope_category members configPath adapter s =
     (case members s of (mode, scope, path) \<Rightarrow>
        let base = Option.bind adapter configPath
        in if mode = Some ''scoped_refresh'' then (if same_text scope base then ''ROOT'' else ''CHILD'')
           else if same_text path base then ''ROOT'' else ''UNTRACKED'')"

definition observation_report ::
  "(Snapshot \<Rightarrow> string option \<times> string option \<times> string option) \<Rightarrow> (AdapterConfig \<Rightarrow> string option)
     \<Rightarrow> AdapterConfig option \<Rightarrow> Snapshot \<Rightarrow> DiagObservation" where
  "observation_report members configPath adapter s =
     \<lparr>dv_At = sn_ObservedAt s, dv_Scope = scope_category members configPath adapter s,
      dv_Traversal = sn_TraversalStatus s, dv_Acceptance = sn_AcceptanceState s,
      dv_Completeness = sn_CompletenessFlag s,
      dv_Freshness = (case sn_FreshnessEvidence s of None \<Rightarrow> FreshnessUnknown | Some f \<Rightarrow> f),
      dv_HistoricalCoverageV2 = (case coverage_member (sn_Provenance s) of Decoded c \<Rightarrow> dc_Version c = 2 | _ \<Rightarrow> False),
      dv_Reconciled = (sn_LifecycleState s = SnapshotReconciled)\<rparr>"

definition diagnosticObservation ::
  "(Snapshot \<Rightarrow> string option \<times> string option \<times> string option) \<Rightarrow> (AdapterConfig \<Rightarrow> string option)
     \<Rightarrow> uuid \<Rightarrow> db \<Rightarrow> Report \<Rightarrow> Report" where
  "diagnosticObservation members configPath rid d r =
     (case sort_by (\<lambda>a b. sn_ObservedAt a > sn_ObservedAt b \<or>
                          sn_ObservedAt a = sn_ObservedAt b \<and> sn_SnapshotID a > sn_SnapshotID b)
             (filter (\<lambda>s. sn_RootID s = rid) (db_snapshots d)) of
        [] \<Rightarrow> r
      | s # _ \<Rightarrow> r\<lparr>rt_Latest := Some (observation_report members configPath (find_adapter d rid) s)\<rparr>)"

section \<open>The inventory\<close>

text \<open>One canonical row: the inventory so far, the presences by identifier and the paths of present rows.\<close>

definition canonical_row ::
  "int \<Rightarrow> DiagInventory \<times> (uuid \<rightharpoonup> ResourcePresence) \<times> string list \<Rightarrow> CanonicalResource
     \<Rightarrow> DiagInventory \<times> (uuid \<rightharpoonup> ResourcePresence) \<times> string list" where
  "canonical_row gen st x =
     (case st of (i, presence, paths) \<Rightarrow>
        let path = (case CanonicalPath x of None \<Rightarrow> None | Some p \<Rightarrow> if length p \<le> 4096 then Some p else None);
            intro = IntroducedAtGeneration x; confirmed = LastConfirmedGeneration x
        in (i\<lparr>di_CanonicalSample := di_CanonicalSample i + 1,
              di_Mismatch := di_Mismatch i \<or> intro > gen \<or> confirmed > gen \<or> intro > confirmed,
              di_CanonicalExact := di_CanonicalExact i \<and> \<not> (Presence x = ResourcePresent \<and> path = None)\<rparr>,
            presence(ResourceID x \<mapsto> Presence x),
            case path of Some p \<Rightarrow> if Presence x = ResourcePresent then paths @ [p] else paths | None \<Rightarrow> paths))"

definition duplicate_paths :: "string list \<Rightarrow> nat" where
  "duplicate_paths paths = length (filter (\<lambda>p. count_list paths p > 1) (remdups paths))"

fun event_presence :: "EventType \<Rightarrow> ResourcePresence option" where
  "event_presence EventResourceRemoved = Some ResourceRemoved"
| "event_presence EventRootDeprecated = None"
| "event_presence EventRootDeleted = None"
| "event_presence _ = Some ResourcePresent"

text \<open>One event: the inventory so far, the previous number and the last presence that events name.\<close>

definition journal_row ::
  "int \<Rightarrow> DiagInventory \<times> int \<times> (uuid \<rightharpoonup> ResourcePresence) \<Rightarrow> JournalEvent
     \<Rightarrow> DiagInventory \<times> int \<times> (uuid \<rightharpoonup> ResourcePresence)" where
  "journal_row gen st e =
     (case st of (i, previous, terminal) \<Rightarrow>
        (i\<lparr>di_JournalSample := di_JournalSample i + 1,
           di_Mismatch := di_Mismatch i \<or> ev_EventSeq e \<noteq> previous + 1 \<or> ev_GenerationNumber e > gen,
           di_JournalMaxGeneration := max (ev_GenerationNumber e) (di_JournalMaxGeneration i)\<rparr>,
         ev_EventSeq e,
         case (ev_ResourceID e, event_presence (ev_EventType e)) of
           (Some x, Some p) \<Rightarrow> terminal(x \<mapsto> p)
         | _ \<Rightarrow> terminal))"

text \<open>\<open>conflicts\<close> is the length of the conflicts array of the last reconcile.\<close>

definition diagnosticInventory :: "nat \<Rightarrow> uuid \<Rightarrow> nat \<Rightarrow> db \<Rightarrow> Report \<Rightarrow> Report" where
  "diagnosticInventory conflicts rid limit d r =
     (let gen = rt_Generation r;
          i0 = rt_Inventory r;
          i1 = i0\<lparr>di_CanonicalExact := True,
                  di_Mismatch := di_Mismatch i0 \<or> gen > 0 \<and>
                    \<not> list_ex (\<lambda>g. gen_RootID g = rid \<and> gen_GenerationNumber g = gen) (db_generations d)\<rparr>;
          rows = take (limit + 1) (sort_by (\<lambda>a b. ResourceID a < ResourceID b)
                   (filter (\<lambda>x. RootID x = rid) (db_resources d)))
      in case foldl (canonical_row gen) (i1, Map.empty, []) (take limit rows) of
           (i2, presence, paths) \<Rightarrow>
             let journal = root_events d rid;
                 high = (case max_of (map ev_GenerationNumber journal) of None \<Rightarrow> di_JournalMaxGeneration i2 | Some g \<Rightarrow> g);
                 i3 = i2\<lparr>di_CanonicalExact := di_CanonicalExact i2 \<and> length rows \<le> limit,
                         di_DuplicatePresentPaths := duplicate_paths paths,
                         di_JournalHighWatermark := (case max_of (map ev_EventSeq journal) of
                           None \<Rightarrow> di_JournalHighWatermark i2 | Some s \<Rightarrow> s),
                         di_JournalMaxGeneration := high,
                         di_Mismatch := di_Mismatch i2 \<or> high > gen,
                         di_JournalExact := True\<rparr>;
                 events = take (limit + 1) (sort_by (\<lambda>a b. ev_EventSeq a < ev_EventSeq b) journal)
             in case foldl (journal_row gen) (i3, 0, Map.empty) (take limit events) of
                  (i4, _, terminal) \<Rightarrow>
                    let i5 = i4\<lparr>di_JournalExact := length events \<le> limit\<rparr>;
                        seen = map ResourceID (take limit rows) @ List.map_filter ev_ResourceID (take limit events);
                        differ = list_ex (\<lambda>x. terminal x \<noteq> presence x) seen
                    in r\<lparr>rt_Inventory := i5
                          \<lparr>di_Mismatch := di_Mismatch i5 \<or> di_JournalExact i5 \<and> di_CanonicalExact i5 \<and> differ,
                           di_LatestConflictCount := conflicts\<rparr>\<rparr>)"

section \<open>The command\<close>

record diag_env =
  dg_fault :: "string \<Rightarrow> (Report \<Rightarrow> Report) option"
  dg_deadline :: bool
  dg_now :: gotime
  dg_names :: "string list"
  dg_versions :: "string list option"
  dg_members :: "Snapshot \<Rightarrow> string option \<times> string option \<times> string option"
  dg_configPath :: "AdapterConfig \<Rightarrow> string option"
  dg_conflicts :: nat

text \<open>A failed read: the stage, or the deadline when it has passed.\<close>

definition diag_fail :: "diag_env \<Rightarrow> string \<Rightarrow> Report \<Rightarrow> Report" where
  "diag_fail v stage r =
     Finish (add_check (if dg_deadline v then ''DIAGNOSTIC_DEADLINE'' else stage) CheckERROR (r\<lparr>rt_Complete := False\<rparr>))"

definition diag_stage ::
  "diag_env \<Rightarrow> string \<Rightarrow> (Report \<Rightarrow> Report) \<Rightarrow> Report + Report \<Rightarrow> Report + Report" where
  "diag_stage v stage f = (\<lambda>st. and_then st (\<lambda>r.
     case dg_fault v stage of
       Some part \<Rightarrow> Inl (diag_fail v stage (part r))
     | None \<Rightarrow> Inr (f r)))"

definition lower :: "string \<Rightarrow> string" where
  "lower = map lower_char"

definition diag_Read :: "diag_env \<Rightarrow> string \<Rightarrow> DiagOptions \<Rightarrow> db \<Rightarrow> Report" where
  "diag_Read v rootID opts d =
     (if \<not> diag_Validate opts \<or> \<not> ValidDiagnosticRoot rootID
      then Finish (add_check ''INVALID_ARGUMENT'' CheckERROR (new_report [] opts))
      else
        let rid = lower rootID; limit = nat (do_RowLimit opts);
            s1 = diag_stage v ''DATABASE_UNAVAILABLE'' (\<lambda>r. r\<lparr>rt_AsOf := dg_now v\<rparr>) (Inr (new_report rid opts));
            s2 = diag_stage v ''SCHEMA_UNAVAILABLE'' id s1;
            s3 = and_then s2 (\<lambda>r. case diagnosticSchema (dg_names v) (dg_versions v) r of
                   (compatible, r') \<Rightarrow>
                     if compatible then Inr (add_check ''SCHEMA_COMPATIBLE'' CheckOK r')
                     else Inl (diag_fail v ''SCHEMA_INCOMPATIBLE'' r'));
            s4 = diag_stage v ''ROOT_QUERY_FAILED'' id s3;
            s5 = and_then s4 (\<lambda>r. case find_root d rid of
                   None \<Rightarrow> Inl (diag_fail v ''ROOT_NOT_FOUND'' r)
                 | Some rt \<Rightarrow> Inr (r\<lparr>rt_Lifecycle := Some (root_LifecycleState rt),
                                    rt_Generation := root_CurrentGeneration rt\<rparr>));
            s6 = diag_stage v ''WATCH_QUERY_FAILED'' (diagnosticWatch rid d) s5;
            s7 = diag_stage v ''WORK_QUERY_FAILED'' (diagnosticWork rid limit d) s6;
            s8 = diag_stage v ''OBSERVATION_QUERY_FAILED''
                   (diagnosticObservation (dg_members v) (dg_configPath v) rid d) s7;
            s9 = diag_stage v ''INVENTORY_QUERY_FAILED'' (diagnosticInventory (dg_conflicts v) rid limit d) s8
        in case s9 of
             Inl r \<Rightarrow> r
           | Inr r \<Rightarrow> diag_Evaluate opts (r\<lparr>rt_Complete := True\<rparr>))"

text \<open>The command: whether the flags parse, whether the connection can be configured and opened, and whether
  the report could be written. It succeeds on fully green evidence only.\<close>

definition runRootDiagnose ::
  "bool \<Rightarrow> bool \<Rightarrow> bool \<Rightarrow> bool \<Rightarrow> diag_env \<Rightarrow> string \<Rightarrow> DiagOptions \<Rightarrow> db \<Rightarrow> bool \<times> Report option" where
  "runRootDiagnose flags configured pooled written v rootID opts d =
     (if \<not> flags \<or> \<not> diag_Validate opts \<or> \<not> ValidDiagnosticRoot rootID then (False, None)
      else
        let r = (if \<not> configured \<or> \<not> pooled then Finish (add_check ''DATABASE_UNAVAILABLE'' CheckERROR (new_report rootID opts))
                 else diag_Read v rootID opts d)
        in if \<not> written then (False, None)
           else (rt_Complete r \<and> rt_Overall r = OverallOK, Some r))"

end
