(* ===== verification/JournalAudit.thy ===== *)
theory JournalAudit
  imports Diagnose Listing
begin

text \<open>
  The journal agrees with the inventory. The last event about a resource names the presence that its row has,
  and the generations of a row lie within those of its root. Every transaction of the program keeps both,
  a journal repair when it reasserts the inventory. The consistency check of the diagnosis therefore never
  raises an alarm on a database that only the program has written.
\<close>

section \<open>Presence by row and by event\<close>

definition row_presence :: "db \<Rightarrow> uuid \<Rightarrow> uuid \<Rightarrow> ResourcePresence option" where
  "row_presence d rid x = map_option Presence (List.find (\<lambda>r. ResourceID r = x) (listing d rid))"

definition name_presence :: "(uuid \<rightharpoonup> ResourcePresence) \<Rightarrow> JournalEvent \<Rightarrow> (uuid \<rightharpoonup> ResourcePresence)" where
  "name_presence m e =
     (case (ev_ResourceID e, event_presence (ev_EventType e)) of (Some x, Some p) \<Rightarrow> m(x \<mapsto> p) | _ \<Rightarrow> m)"

definition journal_presence :: "JournalEvent list \<Rightarrow> uuid \<Rightarrow> ResourcePresence option" where
  "journal_presence es = foldl name_presence Map.empty es"

definition row_generations :: "db \<Rightarrow> bool" where
  "row_generations d \<longleftrightarrow>
     (\<forall>r\<in>set (db_resources d). \<exists>rt. find_root d (RootID r) = Some rt \<and>
        IntroducedAtGeneration r \<le> LastConfirmedGeneration r \<and> LastConfirmedGeneration r \<le> root_CurrentGeneration rt)"

definition audited :: "db \<Rightarrow> bool" where
  "audited d \<longleftrightarrow> row_generations d \<and> (\<forall>y. journal_presence (root_events d y) = row_presence d y)"

lemma journal_presence_append: "journal_presence (es @ fs) = foldl name_presence (journal_presence es) fs"
  by (simp add: journal_presence_def)

lemma name_presence_numbered: "foldl name_presence m (numbered rid g q i es) = foldl name_presence m es"
  by (induction es arbitrary: m q i) (simp_all add: name_presence_def)

text \<open>The change of the presences that a transition announces.\<close>

definition announce :: "(uuid \<rightharpoonup> ResourcePresence) \<Rightarrow> Transition \<Rightarrow> (uuid \<rightharpoonup> ResourcePresence)" where
  "announce m t = (case plan_event t of None \<Rightarrow> m | Some e \<Rightarrow> name_presence m e)"

lemma announce_plan: "foldl name_presence m (List.map_filter plan_event ts) = foldl announce m ts"
  by (induction ts arbitrary: m) (auto simp: map_filter_simps announce_def split: option.splits)

lemma announce_kind:
  assumes "eventTypeFor (tr_Kind t) \<noteq> None \<Longrightarrow> tr_ResourceID t \<noteq> []"
  shows "announce m t = (case tr_Kind t of
      KindAdd \<Rightarrow> m(tr_ResourceID t \<mapsto> ResourcePresent)
    | KindUpdate \<Rightarrow> m(tr_ResourceID t \<mapsto> ResourcePresent)
    | KindRename \<Rightarrow> m(tr_ResourceID t \<mapsto> ResourcePresent)
    | KindMove \<Rightarrow> m(tr_ResourceID t \<mapsto> ResourcePresent)
    | KindConfirmRemoved \<Rightarrow> m(tr_ResourceID t \<mapsto> ResourceRemoved)
    | _ \<Rightarrow> m)"
  using assms by (cases "tr_Kind t") (simp_all add: announce_def plan_event_def name_presence_def)

lemma announce_silent: "eventTypeFor (tr_Kind t) = None \<Longrightarrow> announce m t = m"
  by (simp add: announce_def plan_event_def)

section \<open>One transition\<close>

lemma update_presence:
  assumes "update_resource y f d = Inr d'"
    and "\<And>r. ResourceID (f r) = ResourceID r" "\<And>r. RootID (f r) = RootID r" "\<And>r. Presence (f r) = h (Presence r)"
  shows "row_presence d' rid = (\<lambda>x. if x = y then map_option h (row_presence d rid x) else row_presence d rid x)"
proof
  fix x
  have "map_option Presence (List.find (\<lambda>r. ResourceID r = x)
      (map stable_row (filter (\<lambda>r. RootID r = rid) (map (\<lambda>r. if ResourceID r = y then f r else r) rs)))) =
    (if x = y then map_option h else id) (map_option Presence (List.find (\<lambda>r. ResourceID r = x)
      (map stable_row (filter (\<lambda>r. RootID r = rid) rs))))" for rs
    by (induction rs) (auto simp: assms(2-4))
  moreover have "db_resources d' = map (\<lambda>r. if ResourceID r = y then f r else r) (db_resources d)"
    using assms(1) by (auto simp: update_resource_def split: if_splits)
  ultimately show "row_presence d' rid x = (if x = y then map_option h (row_presence d rid x) else row_presence d rid x)"
    by (simp add: row_presence_def listing_def)
qed

lemma update_keeps_presence:
  assumes "update_resource y f d = Inr d'"
    and "\<And>r. ResourceID (f r) = ResourceID r" "\<And>r. RootID (f r) = RootID r" "\<And>r. Presence (f r) = Presence r"
  shows "row_presence d' rid = row_presence d rid"
  using update_presence [OF assms(1-3), where h = id] assms(4) by (auto simp: fun_eq_iff option.map_id)

lemma insert_presence:
  assumes "InsertCanonicalResource r d = Inr d'" and "RootID r = rid"
  shows "row_presence d' rid = (row_presence d rid)(ResourceID r \<mapsto> Presence r)"
proof
  fix x
  have "List.find (\<lambda>q. ResourceID q = ResourceID r) (listing d rid) = None"
    using assms(1) by (auto simp: InsertCanonicalResource_def find_resource_def find_None_iff listing_def split: if_splits)
  moreover have "listing d' rid = listing d rid @ [stable_row r]"
    using assms by (auto simp: InsertCanonicalResource_def listing_def split: if_splits)
  ultimately show "row_presence d' rid x = ((row_presence d rid)(ResourceID r \<mapsto> Presence r)) x"
    by (auto simp: row_presence_def find_append split: option.splits)
qed

lemma new_resource_fields [simp]:
  "ResourceID (new_resource d rid g t) = tr_ResourceID t" "RootID (new_resource d rid g t) = rid"
  "Presence (new_resource d rid g t) = ResourcePresent" "IntroducedAtGeneration (new_resource d rid g t) = g"
  "LastConfirmedGeneration (new_resource d rid g t) = g"
  by (simp_all add: new_resource_def Let_def split: option.splits)

definition confirms :: "Transition \<Rightarrow> bool" where
  "confirms t \<longleftrightarrow> tr_Kind t = KindUpdate \<or> tr_Kind t = KindRename \<or> tr_Kind t = KindMove"

lemma transition_presence:
  assumes step: "applyTransition rid g t d = Inr d'"
    and named: "eventTypeFor (tr_Kind t) \<noteq> None \<Longrightarrow> tr_ResourceID t \<noteq> []"
    and confirmed: "confirms t \<Longrightarrow> row_presence d rid (tr_ResourceID t) = Some ResourcePresent"
    and removed: "tr_Kind t = KindConfirmRemoved \<Longrightarrow> row_presence d rid (tr_ResourceID t) \<noteq> None"
  shows "row_presence d' rid = announce (row_presence d rid) t"
proof (cases "tr_Kind t")
  case KindAdd
  with step have "InsertCanonicalResource (new_resource d rid g t) d = Inr d'" by (simp add: applyTransition_def)
  from insert_presence [OF this] show ?thesis using named KindAdd by (simp add: announce_kind)
next
  case KindConfirmRemoved
  then obtain d1 where 1: "set_evidence RemovalEvidenceCandidate t d = Inr d1" "ConfirmRemoval (tr_ResourceID t) g d1 = Inr d'"
    using step by (auto simp: applyTransition_def)
  have "row_presence d1 rid = row_presence d rid"
    using 1(1) unfolding set_evidence_def SetRemovalEvidence_def by (rule update_keeps_presence) simp_all
  moreover have "row_presence d' rid = (\<lambda>x. if x = tr_ResourceID t then map_option (\<lambda>_. ResourceRemoved) (row_presence d1 rid x)
      else row_presence d1 rid x)"
    using 1(2) unfolding ConfirmRemoval_def by (rule update_presence) simp_all
  ultimately show ?thesis using removed named KindConfirmRemoved by (auto simp: announce_kind fun_eq_iff)
next
  case KindUpdate
  then have "row_presence d' rid = row_presence d rid"
    using step by (auto simp: applyTransition_def row_writes elim!: update_keeps_presence split: option.splits)
  then show ?thesis using named confirmed KindUpdate by (simp add: announce_kind confirms_def fun_upd_idem)
next
  case KindRename
  then have "row_presence d' rid = row_presence d rid"
    using step by (auto simp: applyTransition_def row_writes elim!: update_keeps_presence split: option.splits)
  then show ?thesis using named confirmed KindRename by (simp add: announce_kind confirms_def fun_upd_idem)
next
  case KindMove
  then have "row_presence d' rid = row_presence d rid"
    using step by (auto simp: applyTransition_def row_writes elim!: update_keeps_presence split: option.splits)
  then show ?thesis using named confirmed KindMove by (simp add: announce_kind confirms_def fun_upd_idem)
qed (use step in \<open>auto simp: applyTransition_def row_writes announce_silent elim!: update_keeps_presence\<close>)

lemma update_same_ids: "update_resource y f d = Inr d' \<Longrightarrow> (\<And>r. ResourceID (f r) = ResourceID r) \<Longrightarrow> set (ids d') = set (ids d)"
  by (simp add: update_ids)

lemma transition_ids_grow:
  assumes "applyTransition rid g t d = Inr d'"
  shows "set (ids d) \<subseteq> set (ids d')" and "tr_Kind t = KindAdd \<Longrightarrow> tr_ResourceID t \<in> set (ids d')"
proof -
  show "set (ids d) \<subseteq> set (ids d')"
  proof (cases "tr_Kind t = KindConfirmRemoved")
    case True
    then obtain d1 where "set_evidence RemovalEvidenceCandidate t d = Inr d1" "ConfirmRemoval (tr_ResourceID t) g d1 = Inr d'"
      using assms by (auto simp: applyTransition_def)
    then have "ids d1 = ids d" "ids d' = ids d1" by (auto simp: row_writes intro: update_ids)
    then show ?thesis by simp
  next
    case False
    with assms show ?thesis
      by (auto simp: applyTransition_def row_writes InsertCanonicalResource_def dest: update_ids
          split: Kind.splits option.splits if_splits) (auto simp: ids_def)
  qed
  show "tr_ResourceID t \<in> set (ids d')" if "tr_Kind t = KindAdd"
    using assms that by (auto simp: applyTransition_def InsertCanonicalResource_def ids_def split: if_splits)
qed

section \<open>All transitions of a result\<close>

lemma fold_presence:
  assumes "fold_err (applyTransition rid g) ts d = Inr d'"
    and "[] \<notin> set (ids d')"
    and "\<And>t. t \<in> set ts \<Longrightarrow> eventTypeFor (tr_Kind t) \<noteq> None \<Longrightarrow> tr_Kind t \<noteq> KindAdd \<Longrightarrow> tr_ResourceID t \<in> set (ids d)"
    and "\<And>t. t \<in> set ts \<Longrightarrow> confirms t \<Longrightarrow> row_presence d rid (tr_ResourceID t) = Some ResourcePresent"
    and "\<And>t. t \<in> set ts \<Longrightarrow> tr_Kind t = KindConfirmRemoved \<Longrightarrow> row_presence d rid (tr_ResourceID t) \<noteq> None"
    and "\<And>t u. t \<in> set ts \<Longrightarrow> u \<in> set ts \<Longrightarrow> confirms t \<Longrightarrow> tr_Kind u = KindConfirmRemoved \<Longrightarrow>
      tr_ResourceID u \<noteq> tr_ResourceID t"
  shows "row_presence d' rid = foldl announce (row_presence d rid) ts"
  using assms
proof (induction ts arbitrary: d)
  case (Cons t ts)
  obtain d1 where 1: "applyTransition rid g t d = Inr d1" "fold_err (applyTransition rid g) ts d1 = Inr d'"
    using Cons.prems(1) by (auto split: sum.splits)
  have grow: "set (ids d1) \<subseteq> set (ids d')"
    by (rule fold_err_invariant [OF 1(2)]) (use transition_ids_grow(1) in fastforce)+
  have named: "tr_ResourceID t \<noteq> []" if "eventTypeFor (tr_Kind t) \<noteq> None"
    using Cons.prems(2) Cons.prems(3) [of t] that transition_ids_grow [OF 1(1)] grow by (cases "tr_Kind t = KindAdd") auto
  have here: "row_presence d1 rid = announce (row_presence d rid) t"
    using 1(1) named Cons.prems(4,5) [of t] by (intro transition_presence) simp_all
  have kept: "row_presence d1 rid x = Some ResourcePresent"
    if "row_presence d rid x = Some ResourcePresent" "tr_Kind t = KindConfirmRemoved \<Longrightarrow> tr_ResourceID t \<noteq> x" for x
    using that named by (cases "tr_Kind t") (auto simp: here announce_kind announce_silent)
  have there: "row_presence d1 rid x \<noteq> None" if "row_presence d rid x \<noteq> None" for x
    using that named by (cases "tr_Kind t") (auto simp: here announce_kind announce_silent)
  have "row_presence d' rid = foldl announce (row_presence d1 rid) ts"
  proof (rule Cons.IH [OF 1(2) Cons.prems(2)])
    show "tr_ResourceID u \<in> set (ids d1)" if "u \<in> set ts" "eventTypeFor (tr_Kind u) \<noteq> None" "tr_Kind u \<noteq> KindAdd" for u
      using Cons.prems(3) [of u] that transition_ids_grow(1) [OF 1(1)] by auto
    show "row_presence d1 rid (tr_ResourceID u) = Some ResourcePresent" if "u \<in> set ts" "confirms u" for u
      using Cons.prems(4) [of u] Cons.prems(6) [of u t] that by (intro kept) auto
    show "row_presence d1 rid (tr_ResourceID u) \<noteq> None" if "u \<in> set ts" "tr_Kind u = KindConfirmRemoved" for u
      using Cons.prems(5) [of u] that by (intro there) auto
  qed (use Cons.prems(6) in auto)
  then show ?case by (simp add: here)
qed simp

text \<open>The rows during the application of a result: what the decision was made from is still there.\<close>

definition rows_within :: "(uuid \<rightharpoonup> int) \<Rightarrow> uuid \<Rightarrow> PriorResource list \<Rightarrow> db \<Rightarrow> bool" where
  "rows_within gen rid prior d \<longleftrightarrow>
     ResourceID ` set prior \<subseteq> set (ids d) \<and>
     (\<forall>r\<in>set (db_resources d). IntroducedAtGeneration r \<le> LastConfirmedGeneration r \<and>
        (\<exists>g. gen (RootID r) = Some g \<and> LastConfirmedGeneration r \<le> g) \<and>
        (\<forall>p\<in>set prior. ResourceID p = ResourceID r \<longrightarrow> RootID r = rid \<and> IntroducedAtGeneration p = IntroducedAtGeneration r))"

lemma update_within:
  assumes "update_resource (ResourceID p) f d = Inr d'" and "rows_within gen rid prior d" and "p \<in> set prior"
    and "\<And>r. ResourceID (f r) = ResourceID r" "\<And>r. RootID (f r) = RootID r"
      "\<And>r. IntroducedAtGeneration (f r) = IntroducedAtGeneration r" "\<And>r. LastConfirmedGeneration (f r) = g"
    and "gen rid = Some h" and "g = h \<or> IntroducedAtGeneration p \<le> g \<and> g \<le> h"
  shows "rows_within gen rid prior d'"
proof -
  have rows: "db_resources d' = map (\<lambda>r. if ResourceID r = ResourceID p then f r else r) (db_resources d)"
    using assms(1) by (auto simp: update_resource_def split: if_splits)
  have "ids d' = ids d" using assms(1,4) by (rule update_ids)
  moreover have "IntroducedAtGeneration r \<le> g \<and> RootID r = rid" if "r \<in> set (db_resources d)" "ResourceID r = ResourceID p" for r
    using assms(2,3,8,9) that unfolding rows_within_def by fastforce
  ultimately show ?thesis
    using assms(2) assms(9) unfolding rows_within_def rows by (auto simp: assms(4-8))
qed

text \<open>Where a transition comes from: a new resource, a present resource that an entry matched, or a present one
  that none did.\<close>

lemma decide_sources:
  assumes "t \<in> set (Transitions (decide_head ev cfg snap prior entries coverage acc))"
  obtains (fresh) "tr_Kind t = KindAdd \<or> tr_Kind t = KindConflict"
  | (matched) e p now where "e \<in> set entries" "now = snapshot_time ev snap" "matched prior entries cfg now e p"
      "tr_Prior t = Some p" "tr_ResourceID t = ResourceID p"
      "tr_Kind t \<in> {KindUpdate, KindRename, KindMove, KindUnchanged, KindResetRemovalEvidence}"
  | (missing) p where "p \<in> set prior" "isPresent p" "tr_ResourceID t = ResourceID p"
      "tr_LastConfirmedGeneration t = LastConfirmedGeneration p"
      "tr_Kind t \<in> {KindConfirmRemoved, KindMissingEvidence, KindRemovalCandidate}"
      "\<And>e now. e \<in> set entries \<Longrightarrow> now = snapshot_time ev snap \<Longrightarrow> \<forall>q. matched prior entries cfg now e q \<longrightarrow> ResourceID q \<noteq> ResourceID p"
proof -
  let ?now = "snapshot_time ev snap" and ?sid = "sn_SnapshotID snap"
  have entry: thesis if "entry_transition prior entries cfg ?now t"
    using that fresh matched
    by (auto simp: entry_transition_def matched_transition_def entry_kinds_def list_ex_iff split: option.splits)
  show thesis
  proof (cases coverage)
    case None
    with assms have "t \<in> set (Transitions (Reconcile prior entries acc cfg ?now ?sid))" by (simp add: decide_head_def)
    from Reconcile_transition_cases [OF this] show thesis
    proof
      assume "acc = AcceptanceComplete \<and> (\<exists>p\<in>set (unobserved prior entries cfg ?now). t = missingTransition p cfg ?now ?sid)"
      then obtain p where p: "p \<in> set (unobserved prior entries cfg ?now)" "t = missingTransition p cfg ?now ?sid" by blast
      then show thesis
        using missingTransition_kind [of p cfg ?now ?sid] matched_sound
        by (intro missing [of p]) (auto simp: unobserved_def observed_id_def list_ex_iff)
    qed (rule entry)
  next
    case (Some c)
    then consider (plain) "t \<in> set (Transitions (Reconcile prior entries AcceptancePartial cfg ?now ?sid))"
      | (removed) p where "p \<in> set (directory_removed prior entries (dc_Path c) cfg ?now ?sid)" "t = directory_transition p ?now ?sid"
      using assms by (auto simp: decide_head_def ReconcileDirectory_transitions)
    then show thesis
    proof cases
      case plain
      then show thesis using Reconcile_transition_cases [OF plain] entry by simp
    next
      case removed
      have "ResourceID p \<notin> set (directory_observed prior entries cfg ?now ?sid)" "p \<in> set prior" "isPresent p"
        using removed(1) by (auto simp: directory_removed_def Let_def directory_missing_def)
      moreover from this(1) have "ResourceID q \<noteq> ResourceID p" if "matched prior entries cfg ?now e q" "e \<in> set entries" for e q
        using matched_observed [OF that, of ?sid] by auto
      ultimately show thesis using removed(2) by (intro missing [of p]) (auto simp: directory_transition_def)
    qed
  qed
qed

lemma prior_row_same:
  assumes "p \<in> set (LoadPriorResources d rid)"
  obtains r where "r \<in> set (db_resources d)" "ResourceID r = ResourceID p" "RootID r = rid" "Presence r = Presence p"
    "IntroducedAtGeneration r = IntroducedAtGeneration p" "LastConfirmedGeneration r = LastConfirmedGeneration p"
  using assms that by (auto simp: LoadPriorResources_def loadPriorWhere_def enrich_def CanonicalResource.defs Let_def)

lemma row_presence_row:
  assumes "distinct (ids d)" and "r \<in> set (db_resources d)" and "RootID r = rid"
  shows "row_presence d rid (ResourceID r) = Some (Presence r)"
proof -
  have same: "r' = r" if "r' \<in> set (db_resources d)" "ResourceID r' = ResourceID r" for r'
    using assms(1,2) that by (auto simp: ids_def distinct_map dest: inj_onD)
  obtain q where q: "List.find (\<lambda>q. ResourceID q = ResourceID r) (listing d rid) = Some q"
    using assms(2,3) by (cases "List.find (\<lambda>q. ResourceID q = ResourceID r) (listing d rid)") (auto simp: listing_def find_None_iff)
  then have "q \<in> set (listing d rid)" "ResourceID q = ResourceID r" by (auto simp: find_Some_iff)
  then obtain r' where "r' \<in> set (db_resources d)" "q = stable_row r'" "ResourceID r' = ResourceID r" by (auto simp: listing_def)
  moreover from this(1,3) have "r' = r" by (rule same)
  ultimately have "Presence q = Presence r" by simp
  with q show ?thesis by (simp add: row_presence_def)
qed

lemma transition_within:
  assumes step: "applyTransition rid g t d = Inr d'" and rid: "gen rid = Some g"
    and t: "t \<in> set (Transitions (decide_head ev cfg snap prior entries coverage acc))"
    and ok: "rows_within gen rid prior d"
    and prior: "\<And>p. p \<in> set prior \<Longrightarrow> IntroducedAtGeneration p \<le> LastConfirmedGeneration p \<and> LastConfirmedGeneration p \<le> g"
  shows "rows_within gen rid prior d'"
  using t
proof (cases rule: decide_sources)
  case fresh
  then show ?thesis
  proof
    assume add: "tr_Kind t = KindAdd"
    with step have d': "d' = d\<lparr>db_resources := db_resources d @ [new_resource d rid g t]\<rparr>"
      and "tr_ResourceID t \<notin> set (ids d)"
      by (auto simp: applyTransition_def InsertCanonicalResource_def find_resource_def find_None_iff ids_def split: if_splits)
    then have "ResourceID p \<noteq> tr_ResourceID t" if "p \<in> set prior" for p using ok that by (auto simp: rows_within_def)
    then show ?thesis using ok rid by (auto simp: d' rows_within_def ids_def)
  qed (use step ok in \<open>simp add: applyTransition_def\<close>)
next
  case (matched e p now)
  have p: "p \<in> set prior" using matched_sound [OF matched(3)] by simp
  show ?thesis using step ok matched(4-6)
    by (auto simp: applyTransition_def row_writes CanonicalResource.defs split: option.splits
        elim!: update_within [OF _ _ p , where h = g and g = g] simp: rid)
next
  case (missing p)
  have evidence: "rows_within gen rid prior s'" if "set_evidence st t s = Inr s'" "rows_within gen rid prior s" for st s s'
    using that missing(3,4) prior [OF missing(1)] unfolding set_evidence_def SetRemovalEvidence_def
    by (auto elim!: update_within [OF _ _ missing(1) , where h = g and g = "LastConfirmedGeneration p"] simp: rid)
  have removal: "rows_within gen rid prior s'" if "ConfirmRemoval (tr_ResourceID t) g s = Inr s'" "rows_within gen rid prior s" for s s'
    using that missing(3) unfolding ConfirmRemoval_def
    by (auto elim!: update_within [OF _ _ missing(1) , where h = g and g = g] simp: rid)
  show ?thesis using step ok missing(5) by (auto simp: applyTransition_def) (metis evidence removal)+
qed

section \<open>Every step keeps the agreement\<close>

lemma audited_same:
  assumes "audited d" and "db_resources d' = db_resources d" and "db_journal d' = db_journal d"
    and "\<And>y rt. find_root d y = Some rt \<Longrightarrow> \<exists>rt'. find_root d' y = Some rt' \<and> root_CurrentGeneration rt \<le> root_CurrentGeneration rt'"
  shows "audited d'"
  using assms unfolding audited_def row_generations_def
  by (fastforce simp: root_events_def row_presence_def [abs_def] listing_def)

lemma reconciled_audited:
  assumes rec: "reconciled ev cfg rid seq snap (root_CurrentGeneration rt) coverage d res d2 out d'"
    and ok: "audited d" and unique: "distinct (ids d)" and nonempty: "[] \<notin> set (ids d')"
    and rt: "find_root d rid = Some rt"
  shows "audited d'"
proof -
  let ?m = "MutatesCanonical res" and ?g = "root_CurrentGeneration rt" and ?prior = "LoadPriorResources d rid"
  let ?ag = "if ?m then ?g + 1 else ?g"
  obtain acc dm where step: "apply_result rid (sn_SnapshotID snap) (sn_ObservedAt snap) res ?ag dm = Inr d2"
    and rows: "db_resources dm = db_resources d" "db_resources d' = db_resources d2"
    and res: "res = decide_head ev cfg snap ?prior (ListSnapshotEntries d (sn_SnapshotID snap)) coverage acc"
    using rec unfolding reconciled_def Let_def committed_def
    by (force simp: advanced_resources finish_resources)
  obtain d1 where d1: "fold_err (applyTransition rid ?ag) (Transitions res) dm = Inr d1" "db_resources d2 = db_resources d1"
    using step by (rule apply_result_fold)
  have same: "row_presence dm = row_presence d" "row_presence d' = row_presence d1" "ids dm = ids d" "ids d' = ids d1"
    using rows d1(2) by (simp_all add: row_presence_def [abs_def] listing_def ids_def)
  have prior: "\<exists>r\<in>set (db_resources d). ResourceID r = ResourceID p \<and> RootID r = rid \<and> Presence r = Presence p \<and>
      IntroducedAtGeneration r = IntroducedAtGeneration p \<and> LastConfirmedGeneration r = LastConfirmedGeneration p"
    if "p \<in> set ?prior" for p using that by (elim prior_row_same) blast
  have present: "row_presence d rid (ResourceID p) = Some ResourcePresent" "ResourceID p \<in> set (ids d)"
    if "p \<in> set ?prior" "isPresent p" for p
    using prior [OF that(1)] row_presence_row [OF unique] that(2) by (force simp: isPresent_def ids_def)+
  have "row_presence d1 rid = foldl announce (row_presence dm rid) (Transitions res)"
  proof (rule fold_presence [OF d1(1)])
    note sources = decide_sources [of _ ev cfg snap ?prior "ListSnapshotEntries d (sn_SnapshotID snap)" coverage acc, folded res, consumes 1, case_names fresh matched missing]
    show "[] \<notin> set (ids d1)" using nonempty same by simp
    show "tr_ResourceID t \<in> set (ids dm)"
      if "t \<in> set (Transitions res)" "eventTypeFor (tr_Kind t) \<noteq> None" "tr_Kind t \<noteq> KindAdd" for t
      using sources [OF that(1)] that(2,3) present(2) matched_sound same(3) by (metis eventTypeFor.simps(10))
    show "row_presence dm rid (tr_ResourceID t) = Some ResourcePresent" if "t \<in> set (Transitions res)" "confirms t" for t
      using that(1)
    proof (cases rule: sources)
      case (matched e p now)
      then show ?thesis using present(1) matched_sound same(1) by metis
    qed (use that(2) in \<open>auto simp: confirms_def\<close>)
    show "row_presence dm rid (tr_ResourceID t) \<noteq> None" if "t \<in> set (Transitions res)" "tr_Kind t = KindConfirmRemoved" for t
      using that(1)
    proof (cases rule: sources)
      case (missing p)
      then show ?thesis using present(1) same(1) by simp
    qed (use that(2) in auto)
    show "tr_ResourceID u \<noteq> tr_ResourceID t"
      if "t \<in> set (Transitions res)" "u \<in> set (Transitions res)" "confirms t" "tr_Kind u = KindConfirmRemoved" for t u
      using that(2)
    proof (cases rule: sources)
      case u: (missing q)
      from that(1) show ?thesis
      proof (cases rule: sources)
        case (matched e p now)
        then show ?thesis using u(3) u(6) by metis
      qed (use that(3) in \<open>auto simp: confirms_def\<close>)
    qed (use that(4) in auto)
  qed
  then have here: "row_presence d' rid = foldl announce (row_presence d rid) (Transitions res)" by (simp add: same)
  have ok_res: "result_ok res" unfolding res decide_head_def
    by (cases coverage) (simp_all add: Reconcile_ok ReconcileDirectory_ok)
  have rooted: "find_root d' y = (if y = rid then Some (if ?m then bump rt else rt) else find_root d y)" for y
  proof -
    obtain acc cor ident where *: "ledger d2 = ledger (advanced ?m rid seq (sn_SnapshotID snap) ?g (evaluated (sn_SnapshotID snap) acc cor d))"
      "d' = committed rid seq (sn_SnapshotID snap) ?g ident res (evaluated (sn_SnapshotID snap) acc cor d) d2"
      using rec by (rule reconciled_ledger)
    have "rv_root (view d' y) = (if y = rid then Some (if ?m then bump rt else rt) else find_root d y)"
      using rt by (simp add: *(2) view_committed [OF *(1)] del: view_fields) (simp add: view_def)
    then show ?thesis by simp
  qed
  define gen where "gen = (\<lambda>y. map_option root_CurrentGeneration (find_root d' y))"
  have gen: "gen rid = Some ?ag" by (simp add: gen_def rooted)
  have "rows_within gen rid ?prior dm"
    unfolding rows_within_def
  proof (intro conjI ballI impI)
    show "ResourceID ` set ?prior \<subseteq> set (ids dm)" 
    proof
      fix x assume "x \<in> ResourceID ` set ?prior"
      then obtain p where "p \<in> set ?prior" "x = ResourceID p" by blast
      from this(1) this(2) show "x \<in> set (ids dm)" by (force simp: ids_def rows(1) elim!: prior_row_same)
    qed
    fix r assume "r \<in> set (db_resources dm)"
    then have r: "r \<in> set (db_resources d)" by (simp add: rows)
    then obtain rt0 where rt0: "find_root d (RootID r) = Some rt0" "IntroducedAtGeneration r \<le> LastConfirmedGeneration r"
      "LastConfirmedGeneration r \<le> root_CurrentGeneration rt0" using ok by (auto simp: audited_def row_generations_def)
    then show "IntroducedAtGeneration r \<le> LastConfirmedGeneration r" by simp
    show "\<exists>g. gen (RootID r) = Some g \<and> LastConfirmedGeneration r \<le> g" using rt0 rt by (auto simp: gen_def rooted)
    fix p assume p: "p \<in> set ?prior" "ResourceID p = ResourceID r"
    then obtain r' where r': "r' \<in> set (db_resources d)" "ResourceID r' = ResourceID r" "RootID r' = rid"
      "IntroducedAtGeneration r' = IntroducedAtGeneration p" using prior by metis
    moreover have "r' = r" using unique r r'(1,2) by (auto simp: ids_def distinct_map dest: inj_onD)
    ultimately show "RootID r = rid" "IntroducedAtGeneration p = IntroducedAtGeneration r" by simp_all
  qed
  moreover have "IntroducedAtGeneration p \<le> LastConfirmedGeneration p \<and> LastConfirmedGeneration p \<le> ?ag" if "p \<in> set ?prior" for p
    using prior [OF that] ok rt by (fastforce simp: audited_def row_generations_def)
  ultimately have "rows_within gen rid ?prior d1"
    by (intro fold_err_invariant [OF d1(1), where P = "rows_within gen rid ?prior"]) (auto simp: res intro: transition_within [where gen = gen, OF _ gen])
  then have "row_generations d'" unfolding row_generations_def rows_within_def gen_def using rows d1(2) by fastforce
  moreover have "journal_presence (root_events d' y) = row_presence d' y" for y
  proof (cases "y = rid")
    case True
    have "foldl name_presence m (new_events ?m rid ?ag res d) = foldl announce m (Transitions res)" for m
    proof (cases ?m)
      case False
      then have silent: "announce m t = m" if "t \<in> set (Transitions res)" for m t
        using ok_res that by (auto simp: result_ok_def list_ex_iff intro!: announce_silent) (cases "tr_Kind t"; auto)
      have "foldl announce m ts = m" if "set ts \<subseteq> set (Transitions res)" for ts
        using that by (induction ts) (auto simp: silent)
      then show ?thesis using False by (simp add: new_events_def)
    qed (simp add: new_events_def name_presence_numbered announce_plan)
    then show ?thesis
      using True ok here by (simp add: reconciled_isolated(2) [OF rec] journal_presence_append audited_def)
  next
    case False
    have "root_events d' y = root_events d y" using arg_cong [OF reconciled_isolated(1) [OF rec False], of rv_journal] by simp
    moreover have "row_presence d' y = row_presence d y"
      using reconciled_rows(2) [OF rec unique, of y] False by (simp add: row_presence_def fun_eq_iff)
    ultimately show ?thesis using ok by (simp add: audited_def)
  qed
  ultimately show ?thesis by (simp add: audited_def)
qed

text \<open>A repair reasserts the inventory when its event names the presence that the row has.\<close>

definition reasserts :: "db \<Rightarrow> uuid \<Rightarrow> JournalEvent \<Rightarrow> bool" where
  "reasserts d rid e \<longleftrightarrow> name_presence (row_presence d rid) e = row_presence d rid"

definition astep :: "db \<Rightarrow> db \<Rightarrow> bool" where
  "astep d d' \<longleftrightarrow> pstep d d' \<and> (\<forall>rid corrective e. RepairJournal rid corrective d = Inr (e, d') \<longrightarrow> reasserts d rid corrective)"

lemma name_lifecycle: "map ev_EventType es = (case rootLifecycleEvent st of None \<Rightarrow> [] | Some et \<Rightarrow> [et]) \<Longrightarrow>
   foldl name_presence m es = m"
  by (cases st) (auto simp: name_presence_def map_eq_Cons_conv split: option.splits)

lemma events_append:
  assumes "\<forall>e\<in>set es. ev_RootID e = rid"
  shows "root_events (d\<lparr>db_journal := db_journal d' @ es\<rparr>) y = root_events d' y @ (if y = rid then es else [])"
  using assms by (auto simp: root_events_def filter_empty_conv)

lemma admission_same:
  assumes "admitOrResumeSnapshot ev h rid sid d = Inr (seq, resumed, d') \<or> AdmitSnapshot ev rid sid d = Inr (seq, d') \<or>
    SubmitAndAdmitSnapshot ev rid sid d = Inr (seq, d')"
  shows "db_resources d' = db_resources d" and "db_journal d' = db_journal d"
proof -
  have alloc: "db_journal e' = db_journal e" if "AllocateAdmission x s e = Inr (q, e')" for x s e e' q
    using that by (auto elim: AllocateAdmission_form simp: update_root_def)
  have mark: "db_journal e' = db_journal e" if "MarkSnapshotSubmitted sid e = Inr e'" for e e'
    using that by (auto simp: MarkSnapshotSubmitted_def update_snapshot_def split: option.splits if_splits)
  show "db_journal d' = db_journal d" using assms
    by (auto simp: admitOrResumeSnapshot_def AdmitSnapshot_def SubmitAndAdmitSnapshot_def
        split: option.splits if_splits dest!: alloc mark)
qed (use assms in \<open>rule admission_rows\<close>)

lemma draft_same:
  assumes "insert_draft snap entries d = Inr d'"
  shows "db_journal d' = db_journal d"
proof -
  from assms obtain d1 where 1: "InsertSnapshotStub snap d = Inr d1"
    and 2: "fold_err (\<lambda>e. InsertSnapshotEntry (e\<lparr>se_SnapshotID := sn_SnapshotID snap\<rparr>)) entries d1 = Inr d'"
    by (auto simp: insert_draft_def)
  have "db_journal d1 = db_journal d" using 1 by (auto simp: InsertSnapshotStub_def split: if_splits)
  then show ?thesis
    by (rule fold_err_invariant [OF 2]) (auto simp: InsertSnapshotEntry_def split: if_splits)
qed

lemma freeze_loop_journal:
  "freeze_loop ev rt revision roster ff i earlier inputs d = Inr d' \<Longrightarrow> db_journal d' = db_journal d"
proof (induction inputs arbitrary: ff i earlier d)
  case (Cons inp inputs)
  then show ?case by (auto simp: Let_def split: if_splits option.splits) (metis draft_same)+
qed simp

lemma freeze_same: "FreezeScopedReadBatch ev inputs d = Inr d' \<Longrightarrow> db_journal d' = db_journal d"
  by (auto simp: FreezeScopedReadBatch_def Let_def dest: freeze_loop_journal split: if_splits option.splits)

text \<open>Steps that touch neither resources nor the journal.\<close>

lemma quiet_steps:
  "CreateRoot rid scope lifecycle d = Inr d' \<Longrightarrow> db_resources d' = db_resources d \<and> db_journal d' = db_journal d"
  "CreateDraftSnapshot snap stated entries d = Inr d' \<Longrightarrow> db_resources d' = db_resources d \<and> db_journal d' = db_journal d"
  "FreezeScopedReadBatch ev inputs d = Inr d' \<Longrightarrow> db_resources d' = db_resources d \<and> db_journal d' = db_journal d"
  "SubmitAndAdmitSnapshot ev rid sid d = Inr (seq, d') \<Longrightarrow> db_resources d' = db_resources d \<and> db_journal d' = db_journal d"
  "AdmitSnapshot ev rid sid d = Inr (seq, d') \<Longrightarrow> db_resources d' = db_resources d \<and> db_journal d' = db_journal d"
  "admitOrResumeSnapshot ev h rid sid d = Inr (seq, resumed, d') \<Longrightarrow> db_resources d' = db_resources d \<and> db_journal d' = db_journal d"
  by (auto simp: CreateRoot_def CreateDraftSnapshot_def split: if_splits
      dest: draft_rows draft_same freeze_rows freeze_same intro: admission_same)

lemma pstep_ids_grow:
  assumes "pstep d d'" and ok: "ledger_ok d"
  shows "set (ids d) \<subseteq> set (ids d')"
  using assms(1)
proof cases
  case (p_reconcile ev cfg rid seq sid out)
  from ok p_reconcile show ?thesis
  proof (cases rule: reconcile_summary)
    case (refused rt snap a e)
    then show ?thesis using refusal_isolated(2) [OF refused(7)] unevaluated_fields(2) [OF refused(6)] by (simp add: ids_def)
  next
    case (applied rt snap a coverage res d2)
    then obtain ag dm where "apply_result rid (sn_SnapshotID snap) (sn_ObservedAt snap) res ag dm = Inr d2"
      and rows: "db_resources dm = db_resources d" "db_resources d' = db_resources d2"
      unfolding reconciled_def Let_def committed_def by (force simp: advanced_resources finish_resources)
    then obtain d1 where d1: "fold_err (applyTransition rid ag) (Transitions res) dm = Inr d1" "db_resources d2 = db_resources d1"
      by (elim apply_result_fold)
    have "set (ids dm) \<subseteq> set (ids d1)"
      by (rule fold_err_invariant [OF d1(1)]) (use transition_ids_grow(1) in fastforce)+
    then show ?thesis using rows d1(2) by (simp add: ids_def)
  qed simp
next
  case (p_repair rid corrective e)
  obtain rt where "d' = d\<lparr>db_journal := db_journal d @ [e]\<rparr>" by (rule RepairJournal_form [OF ok p_repair]) simp
  then show ?thesis by (simp add: ids_def)
next
  case (p_lifecycle rid st res)
  from ok p_lifecycle show ?thesis
    by (cases rule: TransitionRootLifecycle_form) (simp_all add: ids_def transitioned_def update_root_def)
qed (auto simp: ids_def dest: quiet_steps)

lemma astep_audited:
  assumes step: "astep d d'" and ok: "ledger_ok d" and unique: "distinct (ids d)"
    and audit: "audited d" and nonempty: "[] \<notin> set (ids d')"
  shows "audited d'"
proof -
  have later: "\<exists>rt'. find_root d' y = Some rt' \<and> root_CurrentGeneration rt \<le> root_CurrentGeneration rt'"
    if "find_root d y = Some rt" for y rt
    using pstep_rows [of d d' y] step ok unique that by (fastforce simp: astep_def unseen_def)
  have same: "audited d'" if "db_resources d' = db_resources d" "db_journal d' = db_journal d"
    using audited_same [OF audit that later] by blast
  from step have "pstep d d'" by (simp add: astep_def)
  then show ?thesis
  proof cases
    case (p_reconcile ev cfg rid seq sid out)
    from ok p_reconcile show ?thesis
    proof (cases rule: reconcile_summary)
      case (refused rt snap a e)
      then show ?thesis
        using refusal_isolated(2,6) [OF refused(7)] unevaluated_fields(2,5) [OF refused(6)] by (intro same) simp_all
    next
      case (applied rt snap a coverage res d2)
      then show ?thesis using reconciled_audited [OF applied(8) audit unique nonempty] by (simp add: at_head_def)
    qed (use audit in simp)
  next
    case (p_repair rid corrective e)
    from step p_repair have true: "reasserts d rid corrective" by (simp add: astep_def)
    obtain rt where d': "d' = d\<lparr>db_journal := db_journal d @ [e]\<rparr>" and e: "ev_RootID e = rid"
        "ev_ResourceID e = ev_ResourceID corrective" "ev_EventType e = ev_EventType corrective"
      by (rule RepairJournal_form [OF ok p_repair]) simp
    have "row_generations d'" using audit by (simp add: d' audited_def row_generations_def find_root_def)
    moreover have "row_presence d' = row_presence d" by (simp add: d' row_presence_def [abs_def] listing_def)
    ultimately show ?thesis
      using audit true e events_append [of "[e]" rid d d]
      by (auto simp: audited_def d' journal_presence_append reasserts_def name_presence_def)
  next
    case (p_lifecycle rid st res)
    from ok p_lifecycle show ?thesis
    proof (cases rule: TransitionRootLifecycle_form)
      case (moved rt es)
      let ?t = "transitioned rid st (root_CurrentGeneration rt + 1) d"
      have rows: "db_resources d' = db_resources d" by (simp add: moved(3) transitioned_def update_root_def)
      have "row_generations d'" unfolding row_generations_def rows
      proof
        fix r assume "r \<in> set (db_resources d)"
        then obtain q where q: "find_root d (RootID r) = Some q" "IntroducedAtGeneration r \<le> LastConfirmedGeneration r"
          "LastConfirmedGeneration r \<le> root_CurrentGeneration q" using audit by (auto simp: audited_def row_generations_def)
        with later show "\<exists>rt. find_root d' (RootID r) = Some rt \<and> IntroducedAtGeneration r \<le> LastConfirmedGeneration r \<and>
          LastConfirmedGeneration r \<le> root_CurrentGeneration rt" by fastforce
      qed
      moreover have "row_presence d' = row_presence d" using rows by (simp add: row_presence_def [abs_def] listing_def)
      moreover have "journal_presence (root_events d' y) = journal_presence (root_events d y)" for y
        using events_append [of es rid d ?t y] moved(5) name_lifecycle [OF moved(6)]
        by (simp add: moved(3) journal_presence_append)
      ultimately show ?thesis using audit by (simp add: audited_def)
    qed (use audit in simp)
  next
    case p_operational
    then show ?thesis by (intro same) simp_all
  qed (auto intro!: same dest: quiet_steps)
qed

lemma asteps_audited:
  assumes "astep\<^sup>*\<^sup>* empty_db d" and "[] \<notin> set (ids d)"
  shows "reachable d \<and> audited d"
  using assms
proof (induction rule: rtranclp_induct)
  case base
  show ?case
    by (auto simp: audited_def row_generations_def journal_presence_def root_events_def row_presence_def listing_def empty_db_def
        fun_eq_iff intro: r_empty [unfolded empty_db_def])
next
  case (step e d)
  from step(2) have "pstep e d" by (simp add: astep_def)
  have "reachable e" using step(1) r_empty
    by (induction rule: rtranclp_induct) (auto simp: astep_def intro: pstep_reachable)
  then have e: "ledger_ok e" "distinct (ids e)" "reachable e" by (simp_all add: reachable_ledger reachable_ids)
  have "[] \<notin> set (ids e)" using pstep_ids_grow [OF \<open>pstep e d\<close> e(1)] step(4) by blast
  with step(3) have "audited e" by blast
  then show ?case using astep_audited [OF step(2) e(1,2) _ step(4)] pstep_reachable [OF \<open>pstep e d\<close> e(3)] by blast
qed

section \<open>What the diagnosis checks\<close>

lemma canonical_fold:
  "foldl (canonical_row gen) (i, presence, paths) rows = (i', presence', paths') \<Longrightarrow>
   (di_Mismatch i' \<longleftrightarrow> di_Mismatch i \<or> list_ex (\<lambda>x. IntroducedAtGeneration x > gen \<or> LastConfirmedGeneration x > gen \<or>
     IntroducedAtGeneration x > LastConfirmedGeneration x) rows) \<and>
   presence' = foldl (\<lambda>m x. m(ResourceID x \<mapsto> Presence x)) presence rows \<and>
   di_JournalMaxGeneration i' = di_JournalMaxGeneration i"
  by (induction rows arbitrary: i presence paths) (auto simp: canonical_row_def Let_def)

lemma journal_fold:
  "foldl (journal_row gen) (i, previous, terminal) es = (i', previous', terminal') \<Longrightarrow>
   (di_Mismatch i' \<longleftrightarrow> di_Mismatch i \<or> map ev_EventSeq es \<noteq> [previous + 1..previous + int (length es)] \<or>
     list_ex (\<lambda>e. ev_GenerationNumber e > gen) es) \<and>
   terminal' = foldl name_presence terminal es \<and> di_CanonicalExact i' = di_CanonicalExact i"
proof (induction es arbitrary: i previous terminal)
  case (Cons e es)
  have "journal_row gen (i, previous, terminal) e = (fst (journal_row gen (i, previous, terminal) e), ev_EventSeq e, name_presence terminal e)"
    by (simp add: journal_row_def name_presence_def)
  with Cons.prems have "foldl (journal_row gen) (fst (journal_row gen (i, previous, terminal) e), ev_EventSeq e, name_presence terminal e) es
    = (i', previous', terminal')" by simp
  note rest = Cons.IH [OF this]
  have upto: "[previous + 1..previous + int (length (e # es))] = (previous + 1) # [previous + 1 + 1..previous + 1 + int (length es)]"
    using upto_rec1 [of "previous + 1" "previous + int (length (e # es))"] by (simp add: algebra_simps)
  show ?case using rest unfolding upto by (cases "ev_EventSeq e = previous + 1") (auto simp: journal_row_def)
qed simp

lemma presence_fold_other:
  "y \<notin> ResourceID ` set xs \<Longrightarrow> foldl (\<lambda>m x. m(ResourceID x \<mapsto> Presence x)) m xs y = m y"
  by (induction xs arbitrary: m) auto

lemma presence_fold:
  "distinct (map ResourceID xs) \<Longrightarrow> x \<in> set xs \<Longrightarrow> foldl (\<lambda>m x. m(ResourceID x \<mapsto> Presence x)) m xs (ResourceID x) = Some (Presence x)"
  by (induction xs arbitrary: m) (auto simp: presence_fold_other)

lemma presence_rows:
  assumes "distinct (ids d)" and "set xs = {x \<in> set (db_resources d). RootID x = rid}" and "distinct (map ResourceID xs)"
  shows "foldl (\<lambda>m x. m(ResourceID x \<mapsto> Presence x)) Map.empty xs = row_presence d rid"
proof
  fix y
  show "foldl (\<lambda>m x. m(ResourceID x \<mapsto> Presence x)) Map.empty xs y = row_presence d rid y"
  proof (cases "y \<in> ResourceID ` set xs")
    case True
    then obtain x where x: "x \<in> set xs" "y = ResourceID x" by blast
    then show ?thesis using presence_fold [OF assms(3) x(1)] row_presence_row [OF assms(1)] assms(2) by simp
  next
    case False
    then have "row_presence d rid y = None" using assms(2) by (auto simp: row_presence_def listing_def find_None_iff)
    then show ?thesis using presence_fold_other [OF False] by simp
  qed
qed

text \<open>The journal in the order in which it is read, and what the check asks of a root at a generation.\<close>

definition read_journal :: "db \<Rightarrow> uuid \<Rightarrow> JournalEvent list" where
  "read_journal d rid = sort_by (\<lambda>a b. ev_EventSeq a < ev_EventSeq b) (root_events d rid)"

definition consistent :: "db \<Rightarrow> uuid \<Rightarrow> int \<Rightarrow> bool" where
  "consistent d rid gen \<longleftrightarrow>
     (gen > 0 \<longrightarrow> (\<exists>g\<in>set (db_generations d). gen_RootID g = rid \<and> gen_GenerationNumber g = gen)) \<and>
     (\<forall>x\<in>set (db_resources d). RootID x = rid \<longrightarrow>
        IntroducedAtGeneration x \<le> LastConfirmedGeneration x \<and> LastConfirmedGeneration x \<le> gen) \<and>
     map ev_EventSeq (read_journal d rid) = [1..int (length (read_journal d rid))] \<and>
     (\<forall>e\<in>set (read_journal d rid). ev_GenerationNumber e \<le> gen) \<and>
     journal_presence (read_journal d rid) = row_presence d rid"

lemma consistent_reachable:
  assumes "reachable d" and "audited d" and rt: "find_root d rid = Some rt"
  shows "consistent d rid (root_CurrentGeneration rt)"
proof -
  have ok: "view_ok (view d rid)" using assms(1) by (simp add: reachable_ledger [unfolded ledger_ok_def])
  note facts = view_ok_Some [OF ok]
  let ?g = "root_CurrentGeneration rt" and ?J = "root_events d rid"
  have seqs: "map ev_EventSeq ?J = [1..int (length ?J)]" and gens: "\<forall>e\<in>set ?J. ev_GenerationNumber e \<le> ?g"
    using facts(9) rt by (auto simp: journal_ok_def list_all_iff)
  have "sorted_wrt (<) (map ev_EventSeq ?J)" unfolding seqs by (simp add: strict_sorted_iff sorted_wrt_upto)
  then have J: "read_journal d rid = ?J" unfolding read_journal_def by (intro sort_seqs) (simp add: sorted_wrt_map)
  have "?g \<in> gen_GenerationNumber ` set (rv_generations (view d rid))" if "?g > 0"
    using arg_cong [OF facts(3), of rt set] rt that by simp
  then show ?thesis
    using assms(2) seqs gens rt unfolding consistent_def J
    by (fastforce simp: audited_def row_generations_def view_def)
qed

lemma take_seqs: "map ev_EventSeq es = [1..int (length es)] \<Longrightarrow> map ev_EventSeq (take n es) = [1..int (length (take n es))]"
  by (rule nth_equalityI) (auto simp flip: take_map)

definition read_rows :: "db \<Rightarrow> uuid \<Rightarrow> CanonicalResource list" where
  "read_rows d rid = sort_by (\<lambda>a b. ResourceID a < ResourceID b) (filter (\<lambda>x. RootID x = rid) (db_resources d))"

lemma set_read_rows: "set (read_rows d rid) = {x \<in> set (db_resources d). RootID x = rid}"
  by (auto simp: read_rows_def)

lemma distinct_read_rows:
  assumes "distinct (ids d)"
  shows "distinct (map ResourceID (read_rows d rid))"
proof -
  have "mset (map ResourceID (read_rows d rid)) = mset (map ResourceID (filter (\<lambda>x. RootID x = rid) (db_resources d)))"
    by (simp add: read_rows_def)
  moreover have "distinct (map ResourceID (filter (\<lambda>x. RootID x = rid) (db_resources d)))"
    using assms by (simp add: ids_def distinct_map_filter)
  ultimately show ?thesis by (metis mset_eq_imp_distinct_iff)
qed

text \<open>The alarm, spelled out over the rows and events that were read.\<close>

lemma inventory_form:
  fixes d rid limit r conflicts
  defines "gen \<equiv> rt_Generation r" and "I \<equiv> rt_Inventory (diagnosticInventory conflicts rid limit d r)"
    and "R \<equiv> take limit (read_rows d rid)" and "E \<equiv> take limit (read_journal d rid)"
  assumes "di_JournalMaxGeneration (rt_Inventory r) = 0"
  shows "di_Mismatch I \<longleftrightarrow> di_Mismatch (rt_Inventory r) \<or>
      gen > 0 \<and> \<not> list_ex (\<lambda>g. gen_RootID g = rid \<and> gen_GenerationNumber g = gen) (db_generations d) \<or>
      list_ex (\<lambda>x. IntroducedAtGeneration x > gen \<or> LastConfirmedGeneration x > gen \<or>
        IntroducedAtGeneration x > LastConfirmedGeneration x) R \<or>
      (case max_of (map ev_GenerationNumber (root_events d rid)) of None \<Rightarrow> 0 | Some g \<Rightarrow> g) > gen \<or>
      map ev_EventSeq E \<noteq> [1..int (length E)] \<or> list_ex (\<lambda>e. ev_GenerationNumber e > gen) E \<or>
      di_JournalExact I \<and> di_CanonicalExact I \<and> list_ex (\<lambda>x. journal_presence E x \<noteq>
        foldl (\<lambda>m x. m(ResourceID x \<mapsto> Presence x)) Map.empty R x) (map ResourceID R @ List.map_filter ev_ResourceID E)"
    and "di_CanonicalExact I \<Longrightarrow> R = read_rows d rid" and "di_JournalExact I \<Longrightarrow> E = read_journal d rid"
proof -
  have cut: "take limit (take (limit + 1) xs) = take limit xs" for xs :: "'x list" by (simp add: min_def)
  have short: "length (take (limit + 1) xs) \<le> limit \<Longrightarrow> take limit xs = xs" for xs :: "'x list" by simp
  note unfolded = diagnosticInventory_def Let_def read_rows_def [symmetric] read_journal_def [symmetric] cut
  define i1 where "i1 = (rt_Inventory r)\<lparr>di_CanonicalExact := True, di_Mismatch := di_Mismatch (rt_Inventory r) \<or> gen > 0 \<and>
    \<not> list_ex (\<lambda>g. gen_RootID g = rid \<and> gen_GenerationNumber g = gen) (db_generations d)\<rparr>"
  obtain i2 presence paths where 1: "foldl (canonical_row gen) (i1, Map.empty, []) R = (i2, presence, paths)"
    by (rule prod_cases3 [where y = "foldl (canonical_row gen) (i1, Map.empty, []) R"])
  note c = canonical_fold [OF 1]
  let ?high = "case max_of (map ev_GenerationNumber (root_events d rid)) of None \<Rightarrow> di_JournalMaxGeneration i2 | Some g \<Rightarrow> g"
  define i3 where "i3 = i2\<lparr>di_CanonicalExact := di_CanonicalExact i2 \<and> length (take (limit + 1) (read_rows d rid)) \<le> limit,
    di_DuplicatePresentPaths := duplicate_paths paths,
    di_JournalHighWatermark := (case max_of (map ev_EventSeq (root_events d rid)) of None \<Rightarrow> di_JournalHighWatermark i2 | Some s \<Rightarrow> s),
    di_JournalMaxGeneration := ?high, di_Mismatch := di_Mismatch i2 \<or> ?high > gen, di_JournalExact := True\<rparr>"
  obtain i4 previous terminal where 2: "foldl (journal_row gen) (i3, 0, Map.empty) E = (i4, previous, terminal)"
    by (rule prod_cases3 [where y = "foldl (journal_row gen) (i3, 0, Map.empty) E"])
  note j = journal_fold [OF 2]
  have I: "I = i4\<lparr>di_JournalExact := length (take (limit + 1) (read_journal d rid)) \<le> limit,
      di_Mismatch := di_Mismatch i4 \<or> length (take (limit + 1) (read_journal d rid)) \<le> limit \<and> di_CanonicalExact i4 \<and>
        list_ex (\<lambda>x. terminal x \<noteq> presence x) (map ResourceID R @ List.map_filter ev_ResourceID E),
      di_LatestConflictCount := conflicts\<rparr>"
    using 1 2 unfolding I_def unfolded R_def [symmetric] E_def [symmetric] gen_def [symmetric]
    by (simp add: i3_def i1_def)
  have high: "?high = (case max_of (map ev_GenerationNumber (root_events d rid)) of None \<Rightarrow> 0 | Some g \<Rightarrow> g)"
    using c assms(5) by (simp add: i1_def split: option.splits)
  show "di_CanonicalExact I \<Longrightarrow> R = read_rows d rid" "di_JournalExact I \<Longrightarrow> E = read_journal d rid"
    using short j unfolding I R_def E_def by (auto simp: i3_def)
  show "di_Mismatch I \<longleftrightarrow> di_Mismatch (rt_Inventory r) \<or>
      gen > 0 \<and> \<not> list_ex (\<lambda>g. gen_RootID g = rid \<and> gen_GenerationNumber g = gen) (db_generations d) \<or>
      list_ex (\<lambda>x. IntroducedAtGeneration x > gen \<or> LastConfirmedGeneration x > gen \<or>
        IntroducedAtGeneration x > LastConfirmedGeneration x) R \<or>
      (case max_of (map ev_GenerationNumber (root_events d rid)) of None \<Rightarrow> 0 | Some g \<Rightarrow> g) > gen \<or>
      map ev_EventSeq E \<noteq> [1..int (length E)] \<or> list_ex (\<lambda>e. ev_GenerationNumber e > gen) E \<or>
      di_JournalExact I \<and> di_CanonicalExact I \<and> list_ex (\<lambda>x. journal_presence E x \<noteq>
        foldl (\<lambda>m x. m(ResourceID x \<mapsto> Presence x)) Map.empty R x) (map ResourceID R @ List.map_filter ev_ResourceID E)"
    using c j by (simp add: I i3_def i1_def journal_presence_def high)
qed

lemma inventory_exact:
  assumes unique: "distinct (ids d)" and pos: "0 \<le> rt_Generation r"
    and r: "\<not> di_Mismatch (rt_Inventory r)" "di_JournalMaxGeneration (rt_Inventory r) = 0"
  shows "consistent d rid (rt_Generation r) \<Longrightarrow> \<not> di_Mismatch (rt_Inventory (diagnosticInventory conflicts rid limit d r))"
    and "di_CanonicalExact (rt_Inventory (diagnosticInventory conflicts rid limit d r)) \<Longrightarrow>
      di_JournalExact (rt_Inventory (diagnosticInventory conflicts rid limit d r)) \<Longrightarrow>
      \<not> di_Mismatch (rt_Inventory (diagnosticInventory conflicts rid limit d r)) \<Longrightarrow> consistent d rid (rt_Generation r)"
proof -
  let ?I = "rt_Inventory (diagnosticInventory conflicts rid limit d r)" and ?g = "rt_Generation r"
  let ?R = "take limit (read_rows d rid)" and ?E = "take limit (read_journal d rid)"
  note form = inventory_form [OF r(2), of conflicts rid limit d]
  have rows: "foldl (\<lambda>m x. m(ResourceID x \<mapsto> Presence x)) Map.empty (read_rows d rid) = row_presence d rid"
    by (rule presence_rows [OF unique set_read_rows distinct_read_rows [OF unique]])
  have events: "set (read_journal d rid) = set (root_events d rid)" by (simp add: read_journal_def)
  have R: "x \<in> set (db_resources d) \<and> RootID x = rid" if "x \<in> set ?R" for x
    using in_set_takeD [OF that] by (simp add: set_read_rows)
  show "\<not> di_Mismatch ?I" if ok: "consistent d rid ?g"
  proof -
    have "map ev_EventSeq ?E = [1..int (length ?E)]" using ok unfolding consistent_def by (intro take_seqs) blast
    moreover have "\<not> list_ex (\<lambda>e. ev_GenerationNumber e > ?g) ?E"
      using ok by (auto simp: consistent_def list_ex_iff not_less dest: in_set_takeD)
    moreover have "\<not> list_ex (\<lambda>x. IntroducedAtGeneration x > ?g \<or> LastConfirmedGeneration x > ?g \<or>
        IntroducedAtGeneration x > LastConfirmedGeneration x) ?R"
      using ok R by (fastforce simp: consistent_def list_ex_iff)
    moreover have "\<not> (case max_of (map ev_GenerationNumber (root_events d rid)) of None \<Rightarrow> 0 | Some h \<Rightarrow> h) > ?g"
      using ok pos events by (auto simp: consistent_def max_of_Some not_less split: option.splits)
    moreover have "journal_presence ?E x = foldl (\<lambda>m x. m(ResourceID x \<mapsto> Presence x)) Map.empty ?R x"
      if "di_JournalExact ?I" "di_CanonicalExact ?I" for x
      using ok that form(2,3) rows by (simp add: consistent_def)
    ultimately show ?thesis using ok r(1) unfolding form(1) by (auto simp: consistent_def list_ex_iff)
  qed
  show "consistent d rid ?g" if exact: "di_CanonicalExact ?I" "di_JournalExact ?I" and quiet: "\<not> di_Mismatch ?I"
  proof -
    have full: "?R = read_rows d rid" "?E = read_journal d rid" using form(2,3) exact by simp_all
    note silent = quiet [unfolded form(1) full rows]
    have "journal_presence (read_journal d rid) x = row_presence d rid x" for x
    proof (cases "x \<in> set (map ResourceID (read_rows d rid) @ List.map_filter ev_ResourceID (read_journal d rid))")
      case True
      then show ?thesis using silent exact by (auto simp: list_ex_iff)
    next
      case False
      have "foldl name_presence m es x = m x" if "x \<notin> set (List.map_filter ev_ResourceID es)" for m es
        using that by (induction es arbitrary: m) (auto simp: name_presence_def map_filter_simps split: option.splits)
      then show ?thesis using False presence_fold_other [of x "read_rows d rid" Map.empty]
        by (simp add: journal_presence_def flip: rows)
    qed
    then show ?thesis using silent set_read_rows [of d rid] by (fastforce simp: consistent_def list_ex_iff not_less)
  qed
qed

section \<open>The report\<close>

lemma evaluate_fields [simp]:
  "rt_Inventory (diag_Evaluate opts r) = rt_Inventory r" "rt_Complete (diag_Evaluate opts r) = rt_Complete r"
  by (simp_all add: diag_Evaluate_def Finish_def)

lemma overall_kept: "v \<noteq> OverallOK \<Longrightarrow> overall_of v cs \<noteq> OverallOK"
  by (induction v cs rule: overall_of.induct) (auto split: if_splits)

lemma overall_unknown: "(code, CheckUNKNOWN) \<in> set cs \<Longrightarrow> overall_of v cs \<noteq> OverallOK"
  by (induction v cs rule: overall_of.induct) (auto simp: overall_kept)

lemma evaluate_unknown: "rt_Overall (diag_Evaluate opts r) \<noteq> OverallOK"
  by (simp add: diag_Evaluate_def Finish_def overall_unknown [of "''SOURCE_LIVE''"])

lemma stage_fields [simp]:
  "rt_Inventory (diagnosticWatch rid d r) = rt_Inventory r" "rt_Generation (diagnosticWatch rid d r) = rt_Generation r"
  "rt_Checks (diagnosticWatch rid d r) = rt_Checks r"
  "rt_Inventory (diagnosticWork rid limit d r) = rt_Inventory r" "rt_Generation (diagnosticWork rid limit d r) = rt_Generation r"
  "rt_Checks (diagnosticWork rid limit d r) = rt_Checks r"
  "rt_Inventory (diagnosticObservation f g rid d r) = rt_Inventory r"
  "rt_Generation (diagnosticObservation f g rid d r) = rt_Generation r"
  "rt_Checks (diagnosticObservation f g rid d r) = rt_Checks r"
  "rt_Checks (diagnosticInventory conflicts rid limit d r) = rt_Checks r"
  "\<not> rt_Complete (diag_fail v stage r)"
  by (simp_all add: diagnosticWatch_def diagnosticWork_def diagnosticObservation_def diagnosticInventory_def Let_def
      diag_fail_def Finish_def add_check_def split: option.splits list.splits prod.splits)

lemma schema_fields:
  "diagnosticSchema names versions r = (ok, r') \<Longrightarrow> rt_Inventory r' = rt_Inventory r \<and> rt_Checks r' = rt_Checks r"
  by (auto simp: diagnosticSchema_def Let_def split: option.splits prod.splits)

text \<open>A complete report comes from the last stage, over the root's current generation and an empty inventory.\<close>

definition incomplete :: "Report + Report \<Rightarrow> bool" where
  "incomplete st \<longleftrightarrow> (\<forall>r. st = Inl r \<longrightarrow> \<not> rt_Complete r)"

lemma incomplete_start: "incomplete (Inr r)"
  by (simp add: incomplete_def)

lemma incomplete_stage: "incomplete st \<Longrightarrow> incomplete (diag_stage v stage f st)"
  by (cases st) (auto simp: incomplete_def diag_stage_def split: option.splits)

lemma incomplete_then: "incomplete st \<Longrightarrow> (\<And>r. incomplete (f r)) \<Longrightarrow> incomplete (and_then st f)"
  by (cases st) (auto simp: incomplete_def)

lemma stage_Inr: "diag_stage v stage f st = Inr r \<longleftrightarrow> (\<exists>r0. st = Inr r0 \<and> dg_fault v stage = None \<and> r = f r0)"
  by (cases st) (auto simp: diag_stage_def split: option.splits)

lemma read_complete:
  assumes "rt_Complete (diag_Read v rootID opts d)"
  obtains rt r where "find_root d (lower rootID) = Some rt" "rt_Generation r = root_CurrentGeneration rt"
    "\<not> di_Mismatch (rt_Inventory r)" "di_JournalMaxGeneration (rt_Inventory r) = 0"
    "rt_Checks r = [(''SCHEMA_COMPATIBLE'', CheckOK)]"
    "diag_Read v rootID opts d = diag_Evaluate opts ((diagnosticInventory (dg_conflicts v) (lower rootID)
       (nat (do_RowLimit opts)) d r)\<lparr>rt_Complete := True\<rparr>)"
proof -
  let ?rid = "lower rootID" and ?limit = "nat (do_RowLimit opts)"
  define s5 where "s5 =
    and_then (diag_stage v ''ROOT_QUERY_FAILED'' id
      (and_then (diag_stage v ''SCHEMA_UNAVAILABLE'' id
          (diag_stage v ''DATABASE_UNAVAILABLE'' (\<lambda>r. r\<lparr>rt_AsOf := dg_now v\<rparr>) (Inr (new_report ?rid opts))))
        (\<lambda>r. case diagnosticSchema (dg_names v) (dg_versions v) r of (compatible, r') \<Rightarrow>
           if compatible then Inr (add_check ''SCHEMA_COMPATIBLE'' CheckOK r') else Inl (diag_fail v ''SCHEMA_INCOMPATIBLE'' r'))))
      (\<lambda>r. case find_root d ?rid of None \<Rightarrow> Inl (diag_fail v ''ROOT_NOT_FOUND'' r)
         | Some rt \<Rightarrow> Inr (r\<lparr>rt_Lifecycle := Some (root_LifecycleState rt), rt_Generation := root_CurrentGeneration rt\<rparr>))"
  define s8 where "s8 = diag_stage v ''OBSERVATION_QUERY_FAILED'' (diagnosticObservation (dg_members v) (dg_configPath v) ?rid d)
    (diag_stage v ''WORK_QUERY_FAILED'' (diagnosticWork ?rid ?limit d)
      (diag_stage v ''WATCH_QUERY_FAILED'' (diagnosticWatch ?rid d) s5))"
  have valid: "diag_Validate opts \<and> ValidDiagnosticRoot rootID"
    using assms by (auto simp: diag_Read_def Finish_def add_check_def new_report_def split: if_splits)
  then have whole: "diag_Read v rootID opts d =
      (case diag_stage v ''INVENTORY_QUERY_FAILED'' (diagnosticInventory (dg_conflicts v) ?rid ?limit d) s8 of
         Inl r \<Rightarrow> r | Inr r \<Rightarrow> diag_Evaluate opts (r\<lparr>rt_Complete := True\<rparr>))"
    unfolding diag_Read_def Let_def s8_def s5_def by simp
  have "incomplete s8" unfolding s8_def s5_def
    by (intro incomplete_stage incomplete_then incomplete_start)
       (simp_all add: incomplete_def split: option.splits prod.splits)
  from incomplete_stage [OF this, of v "''INVENTORY_QUERY_FAILED''" "diagnosticInventory (dg_conflicts v) ?rid ?limit d"]
  obtain r9 where r9: "diag_stage v ''INVENTORY_QUERY_FAILED'' (diagnosticInventory (dg_conflicts v) ?rid ?limit d) s8 = Inr r9"
    using assms unfolding whole by (auto simp: incomplete_def split: sum.splits)
  then obtain r where r: "s8 = Inr r" "r9 = diagnosticInventory (dg_conflicts v) ?rid ?limit d r" by (auto simp: stage_Inr)
  then obtain r5 where r5: "s5 = Inr r5" "r = diagnosticObservation (dg_members v) (dg_configPath v) ?rid d
      (diagnosticWork ?rid ?limit d (diagnosticWatch ?rid d r5))"
    unfolding s8_def by (auto simp: stage_Inr)
  then obtain ok r3 rt where "diagnosticSchema (dg_names v) (dg_versions v) ((new_report ?rid opts)\<lparr>rt_AsOf := dg_now v\<rparr>) = (ok, r3)"
    "find_root d ?rid = Some rt" "r5 = (add_check ''SCHEMA_COMPATIBLE'' CheckOK r3)
      \<lparr>rt_Lifecycle := Some (root_LifecycleState rt), rt_Generation := root_CurrentGeneration rt\<rparr>"
    unfolding s5_def by (auto simp: stage_Inr and_then_eq_Inr split: option.splits prod.splits if_splits)
  then show thesis
    using that [of rt r] schema_fields r5(2) by (simp add: add_check_def new_report_def whole r9 r(2))
qed

lemma other_checks:
  "(''CANONICAL_JOURNAL_MISMATCH'', CheckERROR) \<notin> set (watch_checks opts asOf w)"
  "(''CANONICAL_JOURNAL_MISMATCH'', CheckERROR) \<notin> set (work_checks opts asOf k)"
  "(''CANONICAL_JOURNAL_MISMATCH'', CheckERROR) \<notin> set (observation_checks opts asOf m l)"
  by (auto simp: watch_checks_def work_checks_def observation_checks_def Let_def split: option.splits if_splits)

lemma mismatch_check:
  assumes "rt_Checks r = [(''SCHEMA_COMPATIBLE'', CheckOK)]"
  shows "(''CANONICAL_JOURNAL_MISMATCH'', CheckERROR) \<in> set (rt_Checks (diag_Evaluate opts r)) \<longleftrightarrow> di_Mismatch (rt_Inventory r)"
  using assms other_checks by (simp add: diag_Evaluate_def Finish_def inventory_checks_def)

section \<open>A sample diagnosis\<close>

definition sample_uuid :: uuid where
  "sample_uuid = ''0f00aaaa-0000-4000-8000-00000000beef''"

definition sample_diag :: diag_env where
  "sample_diag = \<lparr>dg_fault = (\<lambda>_. None), dg_deadline = False, dg_now = 9000, dg_names = [''0001_init.sql''],
     dg_versions = Some [''0001_init.sql''], dg_members = (\<lambda>_. (None, None, None)), dg_configPath = (\<lambda>_. None), dg_conflicts = 0\<rparr>"

definition created_db :: db where
  "created_db = ok_db empty_db (CreateRoot sample_uuid ''{}'' RootActive empty_db)"

definition deprecated_db :: db where
  "deprecated_db = ok_db empty_db (map_sum id snd (TransitionRootLifecycle sample_uuid RootDeprecated created_db))"

lemma astep_lifecycle:
  assumes "TransitionRootLifecycle rid st d = Inr (res, d')" and "db_roots d' \<noteq> db_roots d"
  shows "astep d d'"
  using assms p_lifecycle [OF assms(1)]
  by (auto simp: astep_def RepairJournal_def AppendJournalEvent_def Let_def split: option.splits if_splits)

lemma deprecated_steps: "astep\<^sup>*\<^sup>* empty_db deprecated_db"
proof -
  have "CreateRoot sample_uuid ''{}'' RootActive empty_db = Inr created_db"
    unfolding created_db_def by (rule ok_db_Inr) code_simp
  then have "astep empty_db created_db"
    using p_create by (auto simp: astep_def RepairJournal_def find_root_def empty_db_def)
  moreover have "is_ok (TransitionRootLifecycle sample_uuid RootDeprecated created_db)" by code_simp
  then obtain res d where d: "TransitionRootLifecycle sample_uuid RootDeprecated created_db = Inr (res, d)"
    by (auto simp: is_ok_def split: sum.splits)
  moreover from this have "d = deprecated_db" by (simp add: deprecated_db_def ok_db_def)
  moreover have "db_roots deprecated_db \<noteq> db_roots created_db" by code_simp
  ultimately show ?thesis using astep_lifecycle by (metis (no_types, lifting) rtranclp.simps)
qed

lemma deprecated_complete: "rt_Complete (diag_Read sample_diag sample_uuid diag_Defaults deprecated_db)"
  by code_simp

lemma deprecated_ids: "ids deprecated_db = []"
  by code_simp

text \<open>
  C27: the alarm of the diagnosis is exact. On a database with unique identifiers whose root has a non-negative
  generation, a complete report raises no alarm when the root is consistent: the current generation
  exists, every row was introduced and confirmed within it, the events are numbered from one without a gap
  and within it, and the last event of every resource names its presence. When the
  report read all rows and events, it raises the alarm exactly when the root is not consistent. The overall
  verdict is never OK, so that the command reports failure: live source and consumers are not observed.
\<close>

theorem diagnosis_exact:
  fixes v rootID opts d
  defines "r \<equiv> diag_Read v rootID opts d"
  assumes "rt_Complete r" and "distinct (ids d)" and "\<forall>rt. find_root d (lower rootID) = Some rt \<longrightarrow> 0 \<le> root_CurrentGeneration rt"
  shows "\<exists>rt. find_root d (lower rootID) = Some rt \<and>
    ((''CANONICAL_JOURNAL_MISMATCH'', CheckERROR) \<in> set (rt_Checks r) \<longleftrightarrow> di_Mismatch (rt_Inventory r)) \<and>
    (consistent d (lower rootID) (root_CurrentGeneration rt) \<longrightarrow> \<not> di_Mismatch (rt_Inventory r)) \<and>
    (di_CanonicalExact (rt_Inventory r) \<and> di_JournalExact (rt_Inventory r) \<longrightarrow>
      (di_Mismatch (rt_Inventory r) \<longleftrightarrow> \<not> consistent d (lower rootID) (root_CurrentGeneration rt))) \<and>
    \<not> fst (runRootDiagnose flags configured pooled written v rootID opts d)"
proof -
  obtain rt q where q: "find_root d (lower rootID) = Some rt" "rt_Generation q = root_CurrentGeneration rt"
    "\<not> di_Mismatch (rt_Inventory q)" "di_JournalMaxGeneration (rt_Inventory q) = 0"
    "rt_Checks q = [(''SCHEMA_COMPATIBLE'', CheckOK)]"
    "r = diag_Evaluate opts ((diagnosticInventory (dg_conflicts v) (lower rootID) (nat (do_RowLimit opts)) d q)\<lparr>rt_Complete := True\<rparr>)"
    using read_complete [OF assms(2) [unfolded r_def]] unfolding r_def by blast
  have pos: "0 \<le> rt_Generation q" using assms(4) q(1,2) by simp
  note exact = inventory_exact [OF assms(3) pos q(3,4), where rid = "lower rootID" and conflicts = "dg_conflicts v"
      and limit = "nat (do_RowLimit opts)"]
  have "rt_Overall r \<noteq> OverallOK" by (simp add: q(6) evaluate_unknown)
  then have "\<not> fst (runRootDiagnose flags configured pooled written v rootID opts d)"
    by (auto simp: runRootDiagnose_def Let_def r_def Finish_def add_check_def new_report_def)
  moreover have "(''CANONICAL_JOURNAL_MISMATCH'', CheckERROR) \<in> set (rt_Checks r) \<longleftrightarrow> di_Mismatch (rt_Inventory r)"
    unfolding q(6) evaluate_fields by (rule mismatch_check) (simp add: q(5))
  ultimately show ?thesis using q(1,2) exact unfolding q(6) evaluate_fields by auto
qed

theorem diagnosis_exact_witness:
  "consistent deprecated_db (lower sample_uuid) 1 \<and> length (db_journal deprecated_db) = 1"
proof -
  let ?r = "diag_Read sample_diag sample_uuid diag_Defaults deprecated_db"
  have "find_root deprecated_db (lower sample_uuid) \<noteq> None"
    "list_all (\<lambda>rt. root_CurrentGeneration rt = 1) (filter (root_key (lower sample_uuid)) (db_roots deprecated_db))"
    "di_CanonicalExact (rt_Inventory ?r)" "di_JournalExact (rt_Inventory ?r)" "\<not> di_Mismatch (rt_Inventory ?r)"
    "length (db_journal deprecated_db) = 1" by code_simp+
  moreover from this(2) have "root_CurrentGeneration rt = 1" if "find_root deprecated_db (lower sample_uuid) = Some rt" for rt
    using that by (auto simp: find_root_def list_all_iff find_Some_iff)
  ultimately show ?thesis using diagnosis_exact [OF deprecated_complete] deprecated_ids by fastforce
qed

text \<open>
  C17: the program never alarms its own diagnosis. Take any history of the program's transactions from the empty
  database, in which journal repairs reassert the inventory and no resource identifier is the empty text, which the type
  of the column rules out. Whatever root is diagnosed, with whatever limits, a complete report
  finds no mismatch between the canonical rows, the generations and the journal.
\<close>

theorem diagnosis_quiet:
  assumes "astep\<^sup>*\<^sup>* empty_db d" and "[] \<notin> set (ids d)" and "rt_Complete (diag_Read v rootID opts d)"
  shows "(''CANONICAL_JOURNAL_MISMATCH'', CheckERROR) \<notin> set (rt_Checks (diag_Read v rootID opts d)) \<and>
    \<not> di_Mismatch (rt_Inventory (diag_Read v rootID opts d))"
proof -
  from asteps_audited [OF assms(1,2)] have d: "reachable d" "audited d" by simp_all
  obtain rt q where q: "find_root d (lower rootID) = Some rt" "rt_Generation q = root_CurrentGeneration rt"
    "\<not> di_Mismatch (rt_Inventory q)" "di_JournalMaxGeneration (rt_Inventory q) = 0"
    "rt_Checks q = [(''SCHEMA_COMPATIBLE'', CheckOK)]"
    "diag_Read v rootID opts d = diag_Evaluate opts
       ((diagnosticInventory (dg_conflicts v) (lower rootID) (nat (do_RowLimit opts)) d q)\<lparr>rt_Complete := True\<rparr>)"
    using read_complete [OF assms(3)] by blast
  have "view_ok (view d (lower rootID))" using d(1) by (simp add: reachable_ledger [unfolded ledger_ok_def])
  from view_ok_Some(1) [OF this] q(1) have pos: "0 \<le> rt_Generation q" by (simp add: q(2))
  have "\<not> di_Mismatch (rt_Inventory (diagnosticInventory (dg_conflicts v) (lower rootID) (nat (do_RowLimit opts)) d q))"
    using inventory_exact(1) [OF reachable_ids [OF d(1)] pos q(3,4)] consistent_reachable [OF d q(1)] by (simp add: q(2))
  then show ?thesis unfolding q(6) by (simp add: mismatch_check q(5))
qed

theorem diagnosis_quiet_witness:
  "rt_Complete (diag_Read sample_diag sample_uuid diag_Defaults deprecated_db) \<and>
   (''CANONICAL_JOURNAL_MISMATCH'', CheckERROR) \<notin> set (rt_Checks (diag_Read sample_diag sample_uuid diag_Defaults deprecated_db))"
  using diagnosis_quiet [OF deprecated_steps _ deprecated_complete] deprecated_ids deprecated_complete by simp

end
