(* ===== verification/Commands.thy ===== *)
theory Commands
  imports ServeProps Admin JournalAudit
begin

text \<open>
  The remaining commands (\<open>internal/runtime/app/app.go\<close>, \<open>store/postgres/migrate.go\<close>) and the writer lock across
  processes (\<open>store/postgres/writer_lock.go\<close>): migrations, the doctor, a scan by hand, and any number of daemons that share one
  database.
\<close>

section \<open>Migrations\<close>

text \<open>The applied versions. The arguments say what the server does: whether the table could be
  made (\<open>ensured\<close>), which versions cannot be looked up (\<open>unread\<close>) and which migrations do not commit (\<open>fails\<close>).\<close>

definition migrationNames :: "(string \<times> bool) list \<Rightarrow> string list" where
  "migrationNames entries = sort_strings (map fst (filter (\<lambda>e. \<not> snd e) entries))"

definition isApplied :: "(string \<Rightarrow> bool) \<Rightarrow> string list \<Rightarrow> string \<Rightarrow> bool option" where
  "isApplied unread versions v = (if unread v then None else Some (List.member versions v))"

definition applyOne :: "(string \<Rightarrow> bool) \<Rightarrow> string \<Rightarrow> string list \<Rightarrow> string list option" where
  "applyOne fails version versions = (if fails version then None else Some (versions @ [version]))"

text \<open>Migrations that committed before a failure stay.\<close>

fun migrate_loop ::
  "(string \<Rightarrow> bool) \<Rightarrow> (string \<Rightarrow> bool) \<Rightarrow> string list \<Rightarrow> string list \<Rightarrow> string option \<times> string list" where
  "migrate_loop unread fails [] versions = (None, versions)"
| "migrate_loop unread fails (n # ns) versions =
     (case isApplied unread versions n of
        None \<Rightarrow> (Some ''lookup'', versions)
      | Some True \<Rightarrow> migrate_loop unread fails ns versions
      | Some False \<Rightarrow>
          (case applyOne fails n versions of
             None \<Rightarrow> (Some (''apply '' @ n), versions)
           | Some versions' \<Rightarrow> migrate_loop unread fails ns versions'))"

definition Migrate ::
  "bool \<Rightarrow> (string \<Rightarrow> bool) \<Rightarrow> (string \<Rightarrow> bool) \<Rightarrow> (string \<times> bool) list \<Rightarrow> string list option \<Rightarrow> string option \<times> string list option" where
  "Migrate ensured unread fails entries table =
     (if \<not> ensured then (Some ''ensure schema_migrations'', table)
      else case migrate_loop unread fails (migrationNames entries) (case table of None \<Rightarrow> [] | Some vs \<Rightarrow> vs) of
             (e, vs) \<Rightarrow> (e, Some vs))"

definition app_Migrate ::
  "bool \<Rightarrow> bool \<Rightarrow> bool \<Rightarrow> bool \<Rightarrow> (string \<Rightarrow> bool) \<Rightarrow> (string \<Rightarrow> bool) \<Rightarrow> (string \<times> bool) list \<Rightarrow> string list option
     \<Rightarrow> string option \<times> string list option" where
  "app_Migrate opened ping fault ensured unread fails entries table =
     (if \<not> opened then (Some ''open database'', table)
      else if \<not> ping then (Some ''ping database'', table)
      else case Migrate ensured unread fails entries table of
             (Some _, t) \<Rightarrow> (Some ''migrate'', t)
           | (None, t) \<Rightarrow>
               (case SchemaStatus fault (migrationNames entries) t of None \<Rightarrow> (Some ''schema status'', t) | Some _ \<Rightarrow> (None, t)))"

section \<open>Doctor and scan\<close>

definition app_Doctor :: "bool \<Rightarrow> bool \<Rightarrow> SchemaState option \<Rightarrow> string option" where
  "app_Doctor opened ping schema =
     (if \<not> opened then Some ''open database''
      else if \<not> ping then Some ''ping database''
      else case schema of
             None \<Rightarrow> Some ''schema status''
           | Some s \<Rightarrow> if \<not> Compatible s then Some ''schema incompatible'' else None)"

datatype scan_command_error = ScanSettings settings_error | ScanUsage | ScanUnavailable | ScanFailed full_error

definition app_Scan ::
  "nat \<Rightarrow> Settings \<Rightarrow> bool \<Rightarrow> scan_env \<Rightarrow> uuid \<Rightarrow> db \<Rightarrow> ((scan_command_error + uuid \<times> ReconcileOutcome) \<times> db) option" where
  "app_Scan fuel cfg opened sv rid d =
     (case settings_Validate cfg of
        Inl e \<Rightarrow> Some (Inl (ScanSettings e), d)
      | Inr _ \<Rightarrow>
          if rid = [] then Some (Inl ScanUsage, d)
          else if \<not> opened then Some (Inl ScanUnavailable, d)
          else map_option (\<lambda>(res, d'). (map_sum ScanFailed id res, d')) (Scan fuel sv rid d))"

section \<open>Daemons on one database\<close>

text \<open>The session that holds the advisory lock; \<open>conn\<close> and \<open>answered\<close> are the connection and the query.\<close>

datatype lock_error = LockUnavailable | ErrWriterLockHeld

definition AcquireWriterLock :: "bool \<Rightarrow> bool \<Rightarrow> nat \<Rightarrow> nat option \<Rightarrow> lock_error + nat option" where
  "AcquireWriterLock conn answered session holder =
     (if \<not> conn \<or> \<not> answered then Inl LockUnavailable
      else if holder \<noteq> None \<and> holder \<noteq> Some session then Inl ErrWriterLockHeld
      else Inr (Some session))"

definition Release :: "nat \<Rightarrow> nat option \<Rightarrow> nat option" where
  "Release session holder = (if holder = Some session then None else holder)"

text \<open>A daemon: what is running, and the effects that its run still has ahead. A run that waits for the lock
  attempt can go on only when the attempt succeeds; a run in which it failed has no effects.\<close>

record daemon =
  dm_state :: process
  dm_todo :: "effect list"

record machine =
  mc_holder :: "nat option"
  mc_daemons :: "nat \<Rightarrow> daemon"

definition advance :: "nat \<Rightarrow> effect \<Rightarrow> effect list \<Rightarrow> machine \<Rightarrow> machine" where
  "advance i e es m =
     m\<lparr>mc_daemons := (mc_daemons m)(i := \<lparr>dm_state = perform e (dm_state (mc_daemons m i)), dm_todo = es\<rparr>)\<rparr>"

inductive mstep :: "machine \<Rightarrow> machine \<Rightarrow> bool" where
  m_acquire: "dm_todo (mc_daemons m i) = AcquireLock # es \<Longrightarrow> AcquireWriterLock True True i (mc_holder m) = Inr h \<Longrightarrow>
     mstep m ((advance i AcquireLock es m)\<lparr>mc_holder := h\<rparr>)"
| m_release: "dm_todo (mc_daemons m i) = ReleaseLock # es \<Longrightarrow>
     mstep m ((advance i ReleaseLock es m)\<lparr>mc_holder := Release i (mc_holder m)\<rparr>)"
| m_other: "dm_todo (mc_daemons m i) = e # es \<Longrightarrow> e \<noteq> AcquireLock \<Longrightarrow> e \<noteq> ReleaseLock \<Longrightarrow> mstep m (advance i e es m)"

inductive_cases mstepE: "mstep m m'"

section \<open>Properties\<close>

lemma migrate_loop_all:
  "fst (migrate_loop unread fails ns versions) = None \<Longrightarrow>
     set (snd (migrate_loop unread fails ns versions)) = set versions \<union> set ns"
  by (induction unread fails ns versions rule: migrate_loop.induct)
     (auto simp: applyOne_def isApplied_def split: if_splits option.splits bool.splits)

lemma migrate_loop_again:
  "set ns \<subseteq> set versions \<Longrightarrow> migrate_loop (\<lambda>_. False) fails ns versions = (None, versions)"
  by (induction ns) (auto simp: isApplied_def)

text \<open>A successful migration of a database whose versions the binary knows makes the schema compatible, and
  migrating again changes nothing.\<close>

lemma Migrate_compatible:
  assumes "Migrate ensured unread fails entries table = (None, t)"
    and "set (case table of None \<Rightarrow> [] | Some vs \<Rightarrow> vs) \<subseteq> set (migrationNames entries)"
  shows "\<exists>s. SchemaStatus False (migrationNames entries) t = Some s \<and> Compatible s"
    and "Migrate True (\<lambda>_. False) fails' entries t = (None, t)"
proof -
  let ?ns = "migrationNames entries" and ?vs = "case table of None \<Rightarrow> [] | Some vs \<Rightarrow> vs"
  obtain vs where vs: "migrate_loop unread fails ?ns ?vs = (None, vs)" "t = Some vs"
    using assms(1) by (auto simp: Migrate_def split: prod.splits if_splits)
  then have all: "set vs = set ?vs \<union> set ?ns" using migrate_loop_all [of unread fails ?ns ?vs] by simp
  then show "\<exists>s. SchemaStatus False ?ns t = Some s \<and> Compatible s"
    using assms(2) by (auto simp: SchemaStatus_def Compatible_def vs(2) filter_empty_conv)
  show "Migrate True (\<lambda>_. False) fails' entries t = (None, t)" using all by (simp add: Migrate_def vs(2) migrate_loop_again)
qed

definition writing :: "process \<Rightarrow> bool" where
  "writing p \<longleftrightarrow> ps_worker p \<or> ps_runtime p \<or> ps_hint p"

lemma perform_lock: "e \<noteq> AcquireLock \<Longrightarrow> e \<noteq> ReleaseLock \<Longrightarrow> ps_lock (perform e p) = ps_lock p"
  by (cases e) simp_all

lemma states_through: "fold perform es p \<in> set (states (es @ fs) p)"
proof (induction es arbitrary: p)
  case Nil
  then show ?case by (cases fs) simp_all
qed simp

text \<open>Whoever has the lock in its own state is the holder, and every daemon is somewhere in its run.\<close>

definition machine_ok :: "(nat \<Rightarrow> effect list) \<Rightarrow> machine \<Rightarrow> bool" where
  "machine_ok run m \<longleftrightarrow> (\<forall>i. (ps_lock (dm_state (mc_daemons m i)) \<longrightarrow> mc_holder m = Some i) \<and>
     (\<exists>es. run i = es @ dm_todo (mc_daemons m i) \<and> dm_state (mc_daemons m i) = fold perform es idle))"

lemma advance_run:
  assumes "machine_ok run m" and "dm_todo (mc_daemons m i) = e # es"
  shows "\<exists>fs. run j = fs @ dm_todo (mc_daemons (advance i e es m) j) \<and>
    dm_state (mc_daemons (advance i e es m) j) = fold perform fs idle"
proof -
  obtain fs where fs: "run j = fs @ dm_todo (mc_daemons m j)" "dm_state (mc_daemons m j) = fold perform fs idle"
    using assms(1) by (auto simp: machine_ok_def)
  show ?thesis
  proof (cases "j = i")
    case True
    then show ?thesis using fs assms(2) by (intro exI [of _ "fs @ [e]"]) (simp add: advance_def)
  qed (use fs in \<open>auto simp: advance_def\<close>)
qed

lemma mstep_ok: "mstep m m' \<Longrightarrow> machine_ok run m \<Longrightarrow> machine_ok run m'"
proof (induction rule: mstep.induct)
  case (m_acquire m i es h)
  then show ?case using advance_run [OF m_acquire(3,1)]
    by (auto simp: machine_ok_def AcquireWriterLock_def advance_def split: if_splits)
next
  case (m_release m i es)
  then show ?case using advance_run [OF m_release(2,1)]
    by (auto simp: machine_ok_def Release_def advance_def)
next
  case (m_other m i e es)
  then show ?case using advance_run [OF m_other(4,1)]
    by (auto simp: machine_ok_def advance_def perform_lock)
qed

lemma msteps_ok: "mstep\<^sup>*\<^sup>* m m' \<Longrightarrow> machine_ok run m \<Longrightarrow> machine_ok run m'"
  by (induction rule: rtranclp_induct) (auto intro: mstep_ok)

text \<open>A daemon that finds the lock free, or has it already, can run any part of its effects with nobody else moving.\<close>

lemma solo_run:
  assumes "dm_todo (mc_daemons m i) = es @ fs" and "mc_holder m = None \<or> mc_holder m = Some i"
  shows "\<exists>h. mstep\<^sup>*\<^sup>* m \<lparr>mc_holder = h, mc_daemons = (mc_daemons m)
    (i := \<lparr>dm_state = fold perform es (dm_state (mc_daemons m i)), dm_todo = fs\<rparr>)\<rparr>"
  using assms
proof (induction es arbitrary: m)
  case Nil
  then have "m = \<lparr>mc_holder = mc_holder m, mc_daemons = (mc_daemons m)
    (i := \<lparr>dm_state = fold perform [] (dm_state (mc_daemons m i)), dm_todo = fs\<rparr>)\<rparr>"
    by (auto intro!: machine.equality daemon.equality)
  then show ?case by (metis rtranclp.rtrancl_refl)
next
  case (Cons e es)
  have "\<exists>h. (h = None \<or> h = Some i) \<and> mstep m ((advance i e (es @ fs) m)\<lparr>mc_holder := h\<rparr>)"
  proof (cases "e = AcquireLock \<or> e = ReleaseLock")
    case True
    then show ?thesis using Cons.prems m_acquire [of m i "es @ fs" "Some i"] m_release [of m i "es @ fs"]
      by (auto simp: AcquireWriterLock_def Release_def)
  next
    case False
    have "(advance i e (es @ fs) m)\<lparr>mc_holder := mc_holder m\<rparr> = advance i e (es @ fs) m" by (simp add: advance_def)
    then show ?thesis using False Cons.prems m_other [of m i e "es @ fs"] by (intro exI [of _ "mc_holder m"]) simp
  qed
  then obtain h where h: "h = None \<or> h = Some i" "mstep m ((advance i e (es @ fs) m)\<lparr>mc_holder := h\<rparr>)" by blast
  let ?m = "(advance i e (es @ fs) m)\<lparr>mc_holder := h\<rparr>"
  let ?d = "(mc_daemons m)(i := \<lparr>dm_state = fold perform (e # es) (dm_state (mc_daemons m i)), dm_todo = fs\<rparr>)"
  have "dm_todo (mc_daemons ?m i) = es @ fs" "mc_holder ?m = None \<or> mc_holder ?m = Some i" using h(1) by (simp_all add: advance_def)
  moreover have "(mc_daemons ?m)(i := \<lparr>dm_state = fold perform es (dm_state (mc_daemons ?m i)), dm_todo = fs\<rparr>) = ?d"
    by (simp add: advance_def)
  ultimately obtain k where "mstep\<^sup>*\<^sup>* ?m \<lparr>mc_holder = k, mc_daemons = ?d\<rparr>" using Cons.IH [of ?m] by metis
  with h(2) have "mstep\<^sup>*\<^sup>* m \<lparr>mc_holder = k, mc_daemons = ?d\<rparr>" by (rule converse_rtranclp_into_rtranclp)
  then show ?case ..
qed

text \<open>
  C16: one writer per database. Any number of daemons, each with its own configuration, its own failures and its own
  cause of exit, run against one database, their effects interleaved in any order. At no time do two of
  them have a worker, a hybrid runtime or a hint handler running. The session of the lock lives as long as
  its daemon: the server gives the lock up when a session ends.
\<close>

theorem single_writer:
  assumes "mstep\<^sup>*\<^sup>* \<lparr>mc_holder = None, mc_daemons = (\<lambda>i. \<lparr>dm_state = idle, dm_todo = snd (app_Serve (opened i) (ping i) (schema i) (c i) (v i))\<rparr>)\<rparr> m"
    and "writing (dm_state (mc_daemons m i))" and "writing (dm_state (mc_daemons m j))"
  shows "i = j"
proof -
  define run where "run = (\<lambda>i. snd (app_Serve (opened i) (ping i) (schema i) (c i) (v i)))"
  have "machine_ok run m"
    by (rule msteps_ok [OF assms(1)]) (auto simp: machine_ok_def run_def idle_def intro: exI [of _ "[]"])
  then have m: "ps_lock (dm_state (mc_daemons m k)) \<longrightarrow> mc_holder m = Some k"
      "\<exists>es. run k = es @ dm_todo (mc_daemons m k) \<and> dm_state (mc_daemons m k) = fold perform es idle" for k
    unfolding machine_ok_def by blast+
  have "dm_state (mc_daemons m k) \<in> set (states (run k) idle)" for k
    using m(2) [of k] states_through by metis
  then have "covered (c k) (dm_state (mc_daemons m k))" for k
    using serve_covered [of "c k" "opened k" "ping k" "schema k" "v k"] by (simp add: run_def list_all_iff)
  then have "mc_holder m = Some i" "mc_holder m = Some j"
    using assms(2,3) m(1) by (auto simp: covered_def writing_def)
  then show ?thesis by simp
qed

theorem single_writer_witness:
  "\<exists>m. mstep\<^sup>*\<^sup>* \<lparr>mc_holder = None, mc_daemons = (\<lambda>i. \<lparr>dm_state = idle,
       dm_todo = snd (app_Serve True True (SchemaStatus False [''0001''] (Some [''0001''])) sample_settings sample_serve)\<rparr>)\<rparr> m \<and>
     writing (dm_state (mc_daemons m 0)) \<and> \<not> writing (dm_state (mc_daemons m 1))"
proof -
  let ?run = "snd (app_Serve True True (SchemaStatus False [''0001''] (Some [''0001''])) sample_settings sample_serve)"
  define run where "run = ?run"
  let ?m = "\<lparr>mc_holder = None, mc_daemons = (\<lambda>i. \<lparr>dm_state = idle, dm_todo = run\<rparr>)\<rparr>"
  have worker: "ps_worker (fold perform (take 4 run) idle)" unfolding run_def by code_simp
  obtain h where h: "mstep\<^sup>*\<^sup>* ?m \<lparr>mc_holder = h, mc_daemons = (mc_daemons ?m)
      (0 := \<lparr>dm_state = fold perform (take 4 run) (dm_state (mc_daemons ?m 0)), dm_todo = drop 4 run\<rparr>)\<rparr>" (is "mstep\<^sup>*\<^sup>* _ ?n")
    using solo_run [of ?m 0 "take 4 run" "drop 4 run"] by auto
  have "writing (dm_state (mc_daemons ?n 0))" using worker by (simp add: writing_def)
  moreover have "\<not> writing (dm_state (mc_daemons ?n 1))"
    using single_writer [of "\<lambda>_. True" "\<lambda>_. True" "\<lambda>_. SchemaStatus False [''0001''] (Some [''0001''])"
      "\<lambda>_. sample_settings" "\<lambda>_. sample_serve" ?n 0 1] h calculation unfolding run_def by (meson zero_neq_one)
  ultimately show ?thesis using h unfolding run_def by blast
qed

end
