(* ===== verification/Cli.thy ===== *)
theory Cli
  imports Commands
begin

text \<open>
  The command line (\<open>cmd/indexcore/main.go\<close>, and the dispatchers of \<open>internal/runtime/app\<close>), the listing of roots
  and the report of a single incremental run, and the tick of the worker with the sweep that opens it. A flag
  set of the standard library is an argument: what it makes of the settings, and the arguments it leaves. The instants at
  which roots were created are an argument.
\<close>

section \<open>Dispatch\<close>

datatype cli_error =
    MissingSubcommand | UnknownSubcommand string | BadFlags | BadSettings settings_error

datatype root_command =
    RootDiagnose | RootCreate | RootList | RootTransition RootLifecycleState | RootConfig | RootAdapter | RootWatch

definition app_Root :: "string list \<Rightarrow> cli_error + (root_command \<times> string list)" where
  "app_Root args =
     (case args of
        [] \<Rightarrow> Inl MissingSubcommand
      | sub # rest \<Rightarrow>
          map_sum id (\<lambda>c. (c, rest))
            (if sub = ''diagnose'' then Inr RootDiagnose
             else if sub = ''create'' then Inr RootCreate
             else if sub = ''list'' then Inr RootList
             else if sub = ''activate'' then Inr (RootTransition RootActive)
             else if sub = ''deprecate'' then Inr (RootTransition RootDeprecated)
             else if sub = ''delete'' then Inr (RootTransition RootDeleted)
             else if sub = ''config'' then Inr RootConfig
             else if sub = ''adapter'' then Inr RootAdapter
             else if sub = ''watch'' then Inr RootWatch
             else Inl (UnknownSubcommand sub)))"

definition Incremental :: "string list \<Rightarrow> cli_error + string list" where
  "Incremental args =
     (case args of
        [] \<Rightarrow> Inl MissingSubcommand
      | sub # rest \<Rightarrow> if sub = ''run'' then Inr rest else Inl (UnknownSubcommand sub))"

text \<open>What the program does with its arguments: the part it calls, with the settings that part gets.\<close>

datatype invocation =
    PrintUsage | PrintVersion
  | CallRoot Settings root_command "string list" | CallScan Settings "string list" | CallIncremental Settings "string list"
  | CallMigrate Settings | CallDoctor Settings | CallServe Settings

type_synonym flag_set = "Settings \<Rightarrow> string list \<Rightarrow> (Settings \<times> string list) option"

definition loadConfig ::
  "(string \<Rightarrow> string) \<Rightarrow> (string \<Rightarrow> duration option) \<Rightarrow> string list \<Rightarrow> flag_set \<Rightarrow> string list \<Rightarrow> cli_error + (Settings \<times> string list)" where
  "loadConfig env dur order flags args =
     (case Load env dur order of
        Inl e \<Rightarrow> Inl (BadSettings e)
      | Inr c \<Rightarrow>
          (case flags c args of
             None \<Rightarrow> Inl BadFlags
           | Some (c', rest) \<Rightarrow>
               (case settings_Validate c' of Inl e \<Rightarrow> Inl (BadSettings e) | Inr _ \<Rightarrow> Inr (c', rest))))"

definition main_run ::
  "(string \<Rightarrow> string) \<Rightarrow> (string \<Rightarrow> duration option) \<Rightarrow> string list \<Rightarrow> flag_set \<Rightarrow> string list \<Rightarrow> cli_error + invocation" where
  "main_run env dur order flags args =
     (case args of
        [] \<Rightarrow> Inl MissingSubcommand
      | cmd # rest \<Rightarrow>
          if cmd \<in> {''help'', ''-h'', ''--help''} then Inr PrintUsage
          else if cmd = ''version'' then Inr PrintVersion
          else if cmd = ''root'' \<and> rest \<noteq> [] \<and> hd rest = ''diagnose''
          then map_sum id (\<lambda>(c, as). CallRoot (settings_Defaults\<lparr>cf_DatabaseURL := env ''INDEXCORE_DATABASE_URL''\<rparr>) c as)
                 (app_Root rest)
          else if cmd = ''root'' \<or> cmd = ''scan'' \<or> cmd = ''incremental''
          then (case Load env dur order of
                  Inl e \<Rightarrow> Inl (BadSettings e)
                | Inr base \<Rightarrow>
                    if cmd = ''root'' then map_sum id (\<lambda>(c, as). CallRoot base c as) (app_Root rest)
                    else if cmd = ''scan'' then Inr (CallScan base rest)
                    else map_sum id (CallIncremental base) (Incremental rest))
          else (case loadConfig env dur order flags rest of
                  Inl e \<Rightarrow> Inl e
                | Inr (cfg, _) \<Rightarrow>
                    if cmd = ''migrate'' then Inr (CallMigrate cfg)
                    else if cmd = ''doctor'' then Inr (CallDoctor cfg)
                    else if cmd = ''serve'' then Inr (CallServe cfg)
                    else Inl (UnknownSubcommand cmd)))"

section \<open>Listing roots\<close>

fun lifecycle_text :: "RootLifecycleState \<Rightarrow> string" where
  "lifecycle_text RootNew = ''NEW''"
| "lifecycle_text RootActive = ''ACTIVE''"
| "lifecycle_text RootDeprecated = ''DEPRECATED''"
| "lifecycle_text RootDeleted = ''DELETED''"

definition listed :: "bool \<Rightarrow> bool \<Rightarrow> ResourceRoot \<Rightarrow> bool" where
  "listed includeDeprecated includeDeleted r \<longleftrightarrow>
     root_LifecycleState r = RootNew \<or> root_LifecycleState r = RootActive \<or>
     includeDeprecated \<and> root_LifecycleState r = RootDeprecated \<or>
     includeDeleted \<and> root_LifecycleState r = RootDeleted"

definition store_ListRoots :: "(uuid \<Rightarrow> gotime) \<Rightarrow> bool \<Rightarrow> bool \<Rightarrow> db \<Rightarrow> ResourceRoot list" where
  "store_ListRoots created includeDeprecated includeDeleted d =
     sort_by (\<lambda>a b. (created (root_RootID a), root_RootID a) < (created (root_RootID b), root_RootID b))
       (filter (listed includeDeprecated includeDeleted) (db_roots d))"

definition root_line :: "ResourceRoot \<Rightarrow> string" where
  "root_line r =
     root_RootID r @ [CHR 0x09] @ lifecycle_text (root_LifecycleState r) @ [CHR 0x09] @ ''gen='' @
     format_int (root_CurrentGeneration r) @ [CHR 0x09] @ ''collector='' @
     (case root_OwningCollectorRef r of None \<Rightarrow> [] | Some owner \<Rightarrow> owner)"

definition rootList :: "Settings \<Rightarrow> bool \<Rightarrow> (uuid \<Rightarrow> gotime) \<Rightarrow> bool \<Rightarrow> bool \<Rightarrow> db \<Rightarrow> admin_error + string list" where
  "rootList cfg opened created incDep incDel d =
     (case settings_Validate cfg of
        Inl e \<Rightarrow> Inl (AdminSettings e)
      | Inr _ \<Rightarrow>
          if \<not> opened then Inl AdminUnavailable
          else Inr (map root_line (store_ListRoots created incDep incDel d)))"

section \<open>The report of a single run\<close>

record incrementalDueDTO =
  dd_Candidates :: int
  dd_Attempted :: int
  dd_Emitted :: int
  dd_Stale :: int
  dd_MoreDueWatches :: bool
  dd_MaterializationInterrupted :: bool

record incrementalLastDTO =
  dl_Selected :: bool
  dl_RootID :: uuid
  dl_ScopeKey :: string
  dl_SnapshotID :: string
  dl_FinalWorkState :: "WorkState option"
  dl_FailureClass :: "ErrorClass option"

record incrementalExecutorDTO =
  de_Ran :: bool
  de_StopReason :: StopReason
  de_Invocations :: int
  de_SelectedItems :: int
  de_Succeeded :: int
  de_Failed :: int
  de_InterruptedInFlight :: bool
  de_Last :: "incrementalLastDTO option"

record incrementalRunDTO =
  dr_Command :: string
  dr_StopReason :: OrchStop
  dr_Due :: incrementalDueDTO
  dr_Executor :: incrementalExecutorDTO

definition newIncrementalRunDTO :: "OrchResult \<Rightarrow> incrementalRunDTO" where
  "newIncrementalRunDTO res =
     (let ex = or_Executor res; l = cy_Last ex
      in \<lparr>dr_Command = ''incremental run'', dr_StopReason = or_StopReason res,
          dr_Due = \<lparr>dd_Candidates = or_DueCandidates res, dd_Attempted = or_DueAttempted res,
            dd_Emitted = or_DueEmitted res, dd_Stale = or_DueStale res, dd_MoreDueWatches = or_MoreDueWatches res,
            dd_MaterializationInterrupted = or_MaterializationInterrupted res\<rparr>,
          dr_Executor = \<lparr>de_Ran = or_ExecutorRan res, de_StopReason = cy_StopReason ex, de_Invocations = cy_Invocations ex,
            de_SelectedItems = cy_SelectedItems ex, de_Succeeded = cy_Succeeded ex, de_Failed = cy_Failed ex,
            de_InterruptedInFlight = cy_InterruptedInFlight ex,
            de_Last = (if xr_Selected l
              then Some \<lparr>dl_Selected = True, dl_RootID = xr_RootID l, dl_ScopeKey = xr_ScopeKey l,
                dl_SnapshotID = xr_SnapshotID l, dl_FinalWorkState = xr_FinalWorkState l, dl_FailureClass = xr_FailureClass l\<rparr>
              else None)\<rparr>\<rparr>)"

section \<open>The worker's tick\<close>

text \<open>The sweep: whatever it meets, the tick goes on with the database it leaves; its counts go to the log only.\<close>

definition recoverUnadmitted :: "env \<Rightarrow> db \<Rightarrow> db" where
  "recoverUnadmitted ev d = snd (ResolveUnadmittedSubmitted ev d)"

text \<open>\<open>fault\<close> is a failed read of the pending roots, \<open>between\<close> what other sessions commit before it.\<close>

definition worker_pass :: "env \<Rightarrow> (db \<Rightarrow> db) \<Rightarrow> bool \<Rightarrow> WorkerPool \<Rightarrow> db \<Rightarrow> WorkerPool \<times> db" where
  "worker_pass ev between fault p d =
     (let d1 = between (recoverUnadmitted ev d)
      in (if fault then p else worker_tick (PendingRoots d1) p, d1))"

section \<open>Properties\<close>

text \<open>The diagnosis reads neither the other settings nor their flags, so nothing in them can stop it.\<close>

lemma diagnose_isolated:
  "main_run env dur order flags (''root'' # ''diagnose'' # args) =
     Inr (CallRoot (settings_Defaults\<lparr>cf_DatabaseURL := env ''INDEXCORE_DATABASE_URL''\<rparr>) RootDiagnose args)"
  by (simp add: main_run_def app_Root_def)

text \<open>The commands without a subcommand run with validated settings only.\<close>

lemma called_validated:
  assumes "main_run env dur order flags args = Inr call" and "call = CallServe c \<or> call = CallMigrate c \<or> call = CallDoctor c"
  shows "settings_Validate c = Inr ()"
  using assms by (auto simp: main_run_def loadConfig_def Incremental_def app_Root_def split: list.splits if_splits sum.splits option.splits)

text \<open>The listing shows the visible roots, oldest first.\<close>

lemma listing_visible:
  "set (store_ListRoots created dep del d) = {r \<in> set (db_roots d). listed dep del r}"
  "sorted_by (\<lambda>a b. (created (root_RootID a), root_RootID a) < (created (root_RootID b), root_RootID b))
     (store_ListRoots created dep del d)"
  unfolding store_ListRoots_def
  by (simp, rule by_key.sorted_sort [where key = "\<lambda>r. (created (root_RootID r), root_RootID r)"])

lemma dispatch_kept: "rid \<in> set (wp_inFlight p) \<Longrightarrow> rid \<in> set (wp_inFlight (worker_tick rs p))"
  unfolding worker_tick_def by (induction rs arbitrary: p) (auto simp: dispatch_def)

lemma tick_full: "\<not> wp_sem p < wp_max p \<Longrightarrow> worker_tick rs p = p"
  unfolding worker_tick_def by (induction rs) (auto simp: dispatch_def)

text \<open>A tick leaves a root aside only when every place is taken: each pending root, those of the admissions
  that the sweep made up for included, is processed or the pool is full.\<close>

lemma tick_progress:
  assumes "rid \<in> set rs" and "wp_sem p \<le> wp_max p"
  shows "rid \<in> set (wp_inFlight (worker_tick rs p)) \<or> wp_sem (worker_tick rs p) = wp_max (worker_tick rs p)"
  using assms
proof (induction rs arbitrary: p)
  case (Cons r rs)
  have tick: "worker_tick (r # rs) p = worker_tick rs (dispatch p r)" by (simp add: worker_tick_def)
  have "wp_sem (dispatch p r) \<le> wp_max (dispatch p r)" using Cons.prems(2) by (simp add: dispatch_def)
  moreover have "r \<in> set (wp_inFlight (dispatch p r)) \<or> \<not> wp_sem (dispatch p r) < wp_max (dispatch p r)"
    by (simp add: dispatch_def)
  ultimately show ?case using Cons dispatch_kept tick_full unfolding tick by (metis nle_le order_less_le set_ConsD)
qed simp

lemma pass_progress:
  assumes "worker_pass ev between False p d = (p', d')" and "rid \<in> set (PendingRoots d')" and "wp_sem p \<le> wp_max p"
  shows "rid \<in> set (wp_inFlight p') \<or> wp_sem p' = wp_max p'"
  using assms tick_progress by (auto simp: worker_pass_def Let_def)

end
